(* ===== verification/Prelude.thy ===== *)
theory Prelude
  imports Main "HOL-Library.AList" "HOL-Library.Product_Lexorder" "HOL-Library.List_Lexorder"
    "HOL-Library.Multiset"
begin

text \<open>
  The prelude of the development: the collections of rewrite rules the component theories
  extend, Python exceptions as values, the error monad every fallible operation of the code is
  written in, insertion-ordered dictionaries (association lists with
  \<^const>\<open>AList.update\<close>, which keeps the position of a present key and appends an absent one, as
  a Python \<open>dict\<close> does), and the facts on stable sorting and on enumerations that the
  components share.
\<close>

section \<open>Collections\<close>

named_theorems result_simps \<open>how the error monad computes and when it succeeds\<close>
named_theorems error_intros \<open>which exceptions an operation can raise\<close>

section \<open>Python strings\<close>

text \<open>A Python string is its list of Unicode code points; a literal of the source is
  \<open>lit ''...''\<close>.\<close>

type_synonym pystr = "nat list"

definition lit :: "string \<Rightarrow> pystr" where
  "lit s = map of_char s"

lemma lit_inject [simp]: "lit s = lit t \<longleftrightarrow> s = t"
  unfolding lit_def by (rule inj_map_eq_map) (simp add: inj_def)

lemma lit_eq_Nil [simp]: "lit s = [] \<longleftrightarrow> s = []"
  by (simp add: lit_def)

lemma length_lit [simp]: "length (lit s) = length s"
  by (simp add: lit_def)

section \<open>Exceptions\<close>

text \<open>\<open>ErrorCategory\<close> and \<open>DegradationCategory\<close> of \<open>domain/errors.py\<close>, and the
  exceptions the modelled code raises or catches. An \<open>OperationalError\<close> of the \<open>sqlite3\<close> module carries
  whether its message names a locked or busy database.\<close>

datatype ErrorCategory =
    VALIDATION | BRANCH_UNAVAILABLE | INCOMPATIBLE_VECTOR_SPACE
  | ADAPTER_TIMEOUT | ADAPTER_ERROR | CATALOG_ERROR | INTERNAL_ERROR

datatype DegradationCategory =
    DEG_BRANCH_UNAVAILABLE | DEG_INCOMPATIBLE_VECTOR_SPACE
  | DEG_ADAPTER_TIMEOUT | DEG_ADAPTER_ERROR

datatype exn =
    ValueError string
  | TypeError string
  | AssertionError string
  | OverflowError
  | IndexError
  | KeyError
  | TimeoutError
  | CoreError ErrorCategory
  | BranchExecutionError ErrorCategory pystr
  | CatalogExecutionError ErrorCategory
  | TimedGroupingError string
  | RuntimeError string
  | OperationalError bool
  | IntegrityError
  | SQLiteCatalogError string
  | OtherException

section \<open>The error monad\<close>

type_synonym 'a result = "exn + 'a"

definition rbind :: "'a result \<Rightarrow> ('a \<Rightarrow> 'b result) \<Rightarrow> 'b result" where
  "rbind m f = (case m of Inl e \<Rightarrow> Inl e | Inr x \<Rightarrow> f x)"

lemma rbind_Inr [simp, result_simps]: "rbind (Inr x) f = f x"
  by (simp add: rbind_def)

lemma rbind_Inl [simp, result_simps]: "rbind (Inl e) f = Inl e"
  by (simp add: rbind_def)

lemma rbind_eq_Inr [result_simps]: "rbind m f = Inr y \<longleftrightarrow> (\<exists>x. m = Inr x \<and> f x = Inr y)"
  by (cases m) auto

lemma rbind_eq_Inl: "rbind m f = Inl e \<longleftrightarrow> m = Inl e \<or> (\<exists>x. m = Inr x \<and> f x = Inl e)"
  by (cases m) auto

lemma rbind_assoc: "rbind (rbind m f) g = rbind m (\<lambda>x. rbind (f x) g)"
  by (cases m) auto

lemma rbind_cong [fundef_cong]:
  "m = m' \<Longrightarrow> (\<And>x. m' = Inr x \<Longrightarrow> f x = f' x) \<Longrightarrow> rbind m f = rbind m' f'"
  by (cases m') auto

text \<open>\<open>raise_if c e\<close> is the statement \<open>if c: raise e\<close>.\<close>

definition raise_if :: "bool \<Rightarrow> exn \<Rightarrow> unit result" where
  "raise_if c e = (if c then Inl e else Inr ())"

lemma raise_if_eq_Inr [simp, result_simps]: "raise_if c e = Inr u \<longleftrightarrow> \<not> c"
  by (simp add: raise_if_def)

lemma raise_if_simps [simp, result_simps]:
  "raise_if True e = Inl e" "raise_if False e = Inr ()"
  by (simp_all add: raise_if_def)

text \<open>A sequence of checks: the first that fails gives the exception.\<close>

fun checks :: "unit result list \<Rightarrow> unit result" where
  "checks [] = Inr ()"
| "checks (c # cs) = rbind c (\<lambda>_. checks cs)"

lemma checks_eq_Inr [result_simps]: "checks cs = Inr u \<longleftrightarrow> (\<forall>c \<in> set cs. c = Inr ())"
  by (induction cs) (auto simp: rbind_eq_Inr)

lemma checks_map_eq_Inr [result_simps]: "checks (map f xs) = Inr u \<longleftrightarrow> (\<forall>x \<in> set xs. f x = Inr ())"
  by (simp add: checks_eq_Inr)

text \<open>Drop the value of a checked expression that the source uses as a statement.\<close>

definition void :: "'a result \<Rightarrow> unit result" where
  "void m = rbind m (\<lambda>_. Inr ())"

lemma void_eq_Inr [simp, result_simps]: "void m = Inr u \<longleftrightarrow> (\<exists>x. m = Inr x)"
  by (simp add: void_def rbind_eq_Inr)

lemma void_simps [simp]: "void (Inr x) = Inr ()" "void (Inl e) = Inl e"
  by (simp_all add: void_def)

text \<open>\<open>tuple(f(x) for x in xs)\<close> with an \<open>f\<close> that may raise: left to right, the first
  exception wins.\<close>

fun rmap :: "('a \<Rightarrow> 'b result) \<Rightarrow> 'a list \<Rightarrow> 'b list result" where
  "rmap f [] = Inr []"
| "rmap f (x # xs) = rbind (f x) (\<lambda>y. rbind (rmap f xs) (\<lambda>ys. Inr (y # ys)))"

lemma rmap_cong [fundef_cong]:
  "xs = ys \<Longrightarrow> (\<And>x. x \<in> set ys \<Longrightarrow> f x = g x) \<Longrightarrow> rmap f xs = rmap g ys"
  by (induction ys arbitrary: xs) auto

lemma rmap_eq_Inr [result_simps]:
  "rmap f xs = Inr ys \<longleftrightarrow> list_all2 (\<lambda>x y. f x = Inr y) xs ys"
proof (induction xs arbitrary: ys)
  case (Cons x xs)
  then show ?case by (cases ys) (auto simp: rbind_eq_Inr)
qed auto

lemma rmap_length: "rmap f xs = Inr ys \<Longrightarrow> length ys = length xs"
  by (auto simp: rmap_eq_Inr dest: list_all2_lengthD)

lemma rmap_total: "(\<And>x. x \<in> set xs \<Longrightarrow> f x = Inr (g x)) \<Longrightarrow> rmap f xs = Inr (map g xs)"
  by (induction xs) auto

lemma rmap_set:
  assumes "rmap f xs = Inr ys" "y \<in> set ys"
  obtains x where "x \<in> set xs" "f x = Inr y"
proof -
  from assms obtain i where "i < length xs" "f (xs ! i) = Inr y"
    by (auto simp: rmap_eq_Inr in_set_conv_nth list_all2_conv_all_nth)
  then show ?thesis using that [of "xs ! i"] by simp
qed

text \<open>A loop that threads a state and may raise.\<close>

fun rfold :: "('a \<Rightarrow> 's \<Rightarrow> 's result) \<Rightarrow> 'a list \<Rightarrow> 's \<Rightarrow> 's result" where
  "rfold f [] s = Inr s"
| "rfold f (x # xs) s = rbind (f x s) (rfold f xs)"

lemma rfold_append:
  "rfold f (xs @ ys) s = rbind (rfold f xs s) (rfold f ys)"
proof (induction xs arbitrary: s)
  case (Cons x xs)
  then have "rfold f (xs @ ys) = (\<lambda>s. rbind (rfold f xs s) (rfold f ys))" by blast
  then show ?case by (simp add: rbind_assoc)
qed simp

lemma rfold_invariant:
  assumes "rfold f xs s = Inr t" "P s"
    and step: "\<And>x s t. x \<in> set xs \<Longrightarrow> P s \<Longrightarrow> f x s = Inr t \<Longrightarrow> P t"
  shows "P t"
  using assms
proof (induction xs arbitrary: s)
  case (Cons x xs)
  from Cons.prems(1) obtain u where "f x s = Inr u" "rfold f xs u = Inr t"
    by (auto simp: rbind_eq_Inr)
  moreover from this Cons.prems have "P u" by auto
  ultimately show ?case using Cons.IH Cons.prems(3) by auto
qed simp

lemma rfold_total:
  assumes "\<And>x s. x \<in> set xs \<Longrightarrow> \<exists>t. f x s = Inr t"
  shows "\<exists>t. rfold f xs s = Inr t"
  using assms
proof (induction xs arbitrary: s)
  case (Cons x xs)
  then obtain u where u: "f x s = Inr u" by force
  then show ?case using Cons.IH [of u] Cons.prems by auto
qed simp

text \<open>Operations whose only exceptions satisfy a predicate, by the shape of the operation.\<close>

definition raises_only :: "(exn \<Rightarrow> bool) \<Rightarrow> 'a result \<Rightarrow> bool" where
  "raises_only P m \<longleftrightarrow> (\<forall>e. m = Inl e \<longrightarrow> P e)"

fun is_ValueError :: "exn \<Rightarrow> bool" where
  "is_ValueError (ValueError _) = True"
| "is_ValueError _ = False"

lemma raises_only_Inr [error_intros]: "raises_only P (Inr x)"
  by (simp add: raises_only_def)

lemma raises_only_Inl [error_intros]: "P e \<Longrightarrow> raises_only P (Inl e)"
  by (simp add: raises_only_def)

lemma raises_only_rbind [error_intros]:
  "raises_only P m \<Longrightarrow> (\<And>x. m = Inr x \<Longrightarrow> raises_only P (f x)) \<Longrightarrow> raises_only P (rbind m f)"
  by (cases m) (auto simp: raises_only_def)

lemma raises_only_raise_if [error_intros]: "P e \<Longrightarrow> raises_only P (raise_if c e)"
  by (simp add: raises_only_def raise_if_def)

lemma raises_only_void [error_intros]: "raises_only P m \<Longrightarrow> raises_only P (void m)"
  unfolding void_def by (intro error_intros)

lemma raises_only_checks [error_intros]: "(\<And>c. c \<in> set cs \<Longrightarrow> raises_only P c) \<Longrightarrow> raises_only P (checks cs)"
  by (induction cs) (auto intro!: error_intros)

lemma raises_only_rfold [error_intros]:
  "(\<And>x s. x \<in> set xs \<Longrightarrow> raises_only P (f x s)) \<Longrightarrow> raises_only P (rfold f xs s)"
  by (induction xs arbitrary: s) (auto intro!: error_intros)

lemma raises_only_rmap [error_intros]:
  "(\<And>x. x \<in> set xs \<Longrightarrow> raises_only P (f x)) \<Longrightarrow> raises_only P (rmap f xs)"
  by (induction xs) (auto intro!: error_intros)

lemma raises_only_if [error_intros]:
  "(c \<Longrightarrow> raises_only P a) \<Longrightarrow> (\<not> c \<Longrightarrow> raises_only P b) \<Longrightarrow> raises_only P (if c then a else b)"
  by simp

lemma raises_only_mono: "raises_only P m \<Longrightarrow> (\<And>e. P e \<Longrightarrow> Q e) \<Longrightarrow> raises_only Q m"
  by (auto simp: raises_only_def)

section \<open>Objects whose class is checked at run time\<close>

text \<open>
  Where the code receives an \<open>object\<close> and tests \<open>isinstance(x, T)\<close> for a record class
  \<open>T\<close>, the argument is \<open>Typed x\<close> (an instance) or \<open>Untyped\<close> (anything else). A field that
  must be a list or a tuple is \<open>PySeq items\<close>, any other object \<open>PyNotSeq\<close>.
\<close>

datatype 'a anyobj = Typed 'a | Untyped

datatype 'a pyseq = PySeq "'a anyobj list" | PyNotSeq

fun typed_items :: "'a anyobj list \<Rightarrow> 'a list option" where
  "typed_items [] = Some []"
| "typed_items (Typed x # xs) = map_option (\<lambda>ys. x # ys) (typed_items xs)"
| "typed_items (Untyped # xs) = None"

lemma typed_items_Typed [simp]: "typed_items (map Typed xs) = Some xs"
  by (induction xs) auto

lemma map_Typed_inject [simp]: "map Typed xs = map Typed ys \<longleftrightarrow> xs = ys"
  by (rule inj_map_eq_map) (simp add: inj_def)

lemma typed_items_eq_Some: "typed_items xs = Some ys \<longleftrightarrow> xs = map Typed ys"
proof (induction xs arbitrary: ys rule: typed_items.induct)
  case (2 x xs)
  then show ?case by (cases ys) auto
qed auto

section \<open>Insertion-ordered dictionaries\<close>

type_synonym ('k, 'v) dict = "('k \<times> 'v) list"

abbreviation keys :: "('k, 'v) dict \<Rightarrow> 'k list" where
  "keys d \<equiv> map fst d"

definition dict_get :: "('k, 'v) dict \<Rightarrow> 'k \<Rightarrow> 'v \<Rightarrow> 'v" where
  "dict_get d k v = (case map_of d k of None \<Rightarrow> v | Some w \<Rightarrow> w)"

definition setdefault :: "'k \<Rightarrow> 'v \<Rightarrow> ('k, 'v) dict \<Rightarrow> ('k, 'v) dict" where
  "setdefault k v d = (case map_of d k of None \<Rightarrow> d @ [(k, v)] | Some _ \<Rightarrow> d)"

lemma update_keys:
  "keys (AList.update k v d) = (if k \<in> set (keys d) then keys d else keys d @ [k])"
  by (induction d) auto

lemma setdefault_keys:
  "keys (setdefault k v d) = (if k \<in> set (keys d) then keys d else keys d @ [k])"
  by (auto simp: setdefault_def map_of_eq_None_iff split: option.splits dest: map_of_SomeD)
    (metis fst_conv image_eqI map_of_SomeD)

lemma map_of_setdefault:
  "map_of (setdefault k v d) = (if map_of d k = None then (map_of d)(k \<mapsto> v) else map_of d)"
  by (auto simp: setdefault_def map_add_def fun_eq_iff split: option.splits)

lemma map_of_alist_update [simp]: "map_of (AList.update k v d) = (map_of d)(k \<mapsto> v)"
  by (simp add: update_conv')

text \<open>Keys in the order of their first occurrence: what the keys of a dictionary filled in a loop
  are.\<close>

fun first_occurrences :: "'a list \<Rightarrow> 'a list \<Rightarrow> 'a list" where
  "first_occurrences seen [] = []"
| "first_occurrences seen (x # xs) =
     (if x \<in> set seen then first_occurrences seen xs
      else x # first_occurrences (x # seen) xs)"

lemma set_first_occurrences: "set (first_occurrences seen xs) = set xs - set seen"
  by (induction seen xs rule: first_occurrences.induct) auto

lemma distinct_first_occurrences: "distinct (first_occurrences seen xs)"
  by (induction seen xs rule: first_occurrences.induct) (auto simp: set_first_occurrences)

lemma first_occurrences_distinct:
  "distinct xs \<Longrightarrow> set xs \<inter> set seen = {} \<Longrightarrow> first_occurrences seen xs = xs"
  by (induction seen xs rule: first_occurrences.induct) auto

lemma first_occurrences_cong:
  "set seen = set seen' \<Longrightarrow> first_occurrences seen xs = first_occurrences seen' xs"
proof (induction xs arbitrary: seen seen')
  case (Cons x xs)
  from Cons.prems have "set (x # seen) = set (x # seen')" by simp
  then have "first_occurrences (x # seen) xs = first_occurrences (x # seen') xs"
    by (rule Cons.IH)
  moreover have "first_occurrences seen xs = first_occurrences seen' xs"
    using Cons.prems by (rule Cons.IH)
  ultimately show ?case using Cons.prems by simp
qed simp

lemma first_occurrences_snoc:
  "first_occurrences seen (xs @ [x]) =
     first_occurrences seen xs @ (if x \<in> set seen \<or> x \<in> set xs then [] else [x])"
  by (induction seen xs rule: first_occurrences.induct) auto

text \<open>The elements of a list whose key has not occurred before: what a loop with a \<open>seen\<close> set keeps.\<close>

fun first_by :: "('a \<Rightarrow> 'k) \<Rightarrow> 'k list \<Rightarrow> 'a list \<Rightarrow> 'a list" where
  "first_by f seen [] = []"
| "first_by f seen (x # xs) =
     (if f x \<in> set seen then first_by f seen xs else x # first_by f (f x # seen) xs)"

lemma map_first_by: "map f (first_by f seen xs) = first_occurrences seen (map f xs)"
  by (induction f seen xs rule: first_by.induct) auto

lemma set_first_by_subset: "set (first_by f seen xs) \<subseteq> set xs"
  by (induction f seen xs rule: first_by.induct) auto

lemma first_by_distinct:
  "distinct (map f xs) \<Longrightarrow> f ` set xs \<inter> set seen = {} \<Longrightarrow> first_by f seen xs = xs"
  by (induction f seen xs rule: first_by.induct) auto

lemma find_first_by:
  "k \<notin> set seen \<Longrightarrow> find (\<lambda>x. f x = k) (first_by f seen xs) = find (\<lambda>x. f x = k) xs"
  by (induction f seen xs rule: first_by.induct) auto

lemma length_takeWhile_nth:
  "distinct xs \<Longrightarrow> j < length xs \<Longrightarrow> length (takeWhile (\<lambda>x. x \<noteq> xs ! j) xs) = j"
proof (induction xs arbitrary: j)
  case (Cons x xs)
  then show ?case by (cases j) auto
qed simp

lemma length_takeWhile_map: "length (takeWhile P (map f xs)) = length (takeWhile (\<lambda>x. P (f x)) xs)"
  by (simp add: takeWhile_map comp_def)

text \<open>Positions of first occurrences increase along the list of distinct elements.\<close>

lemma first_positions_increasing:
  "sorted_wrt (<) (map (\<lambda>k. length (takeWhile (\<lambda>x. x \<noteq> k) xs)) (first_occurrences [] xs))"
proof (induction xs rule: rev_induct)
  case (snoc y xs)
  have old: "takeWhile (\<lambda>x. x \<noteq> k) (xs @ [y]) = takeWhile (\<lambda>x. x \<noteq> k) xs" if "k \<in> set xs" for k
    using that by (intro takeWhile_append1) auto
  have lt: "length (takeWhile (\<lambda>x. x \<noteq> k) xs) < length xs" if "k \<in> set xs" for k
    using that by (induction xs) auto
  have "takeWhile (\<lambda>x. x \<noteq> y) (xs @ [y]) = xs" if "y \<notin> set xs"
    using that by (subst takeWhile_append2) auto
  note new = this
  have "map (\<lambda>k. length (takeWhile (\<lambda>x. x \<noteq> k) (xs @ [y]))) (first_occurrences [] xs) =
      map (\<lambda>k. length (takeWhile (\<lambda>x. x \<noteq> k) xs)) (first_occurrences [] xs)"
    by (rule map_cong) (simp_all add: old set_first_occurrences)
  then have "map (\<lambda>k. length (takeWhile (\<lambda>x. x \<noteq> k) (xs @ [y]))) (first_occurrences [] (xs @ [y])) =
      map (\<lambda>k. length (takeWhile (\<lambda>x. x \<noteq> k) xs)) (first_occurrences [] xs) @ (if y \<in> set xs then [] else [length xs])"
    using new by (simp add: first_occurrences_snoc)
  then show ?case using snoc lt by (simp add: sorted_wrt_append set_first_occurrences)
qed simp

lemma filter_enumerate_first:
  assumes "k \<in> f ` set xs"
  shows "\<exists>rest. filter (\<lambda>e. f (snd e) = k) (List.enumerate n xs) =
    (n + length (takeWhile (\<lambda>y. y \<noteq> k) (map f xs)), hd (filter (\<lambda>x. f x = k) xs)) # rest"
  using assms
proof (induction xs arbitrary: n)
  case (Cons x xs)
  show ?case
  proof (cases "f x = k")
    case False
    then have "k \<in> f ` set xs" using Cons.prems by auto
    then show ?thesis using Cons.IH [of "Suc n"] False by simp
  qed simp
qed simp

section \<open>Stable sorting\<close>

lemma sort_key_take_distinct:
  "distinct xs \<Longrightarrow> distinct (take n (sort_key f xs))"
  by (simp add: distinct_take)

lemma distinct_map_sort_key: "distinct (map f (sort_key g xs)) \<longleftrightarrow> distinct (map f xs)"
  by (rule mset_eq_imp_distinct_iff) simp

lemma sorted_key_unique:
  assumes "sorted (map f xs)" "sorted (map f ys)" "mset xs = mset ys" "inj_on f (set xs)"
  shows "xs = ys"
proof -
  have "set xs = set ys" using assms(3) by (metis set_mset_mset)
  have "map f xs = map f ys"
    using assms(1-3) by (metis mset_map properties_for_sort sorted_sort_id)
  then show ?thesis
    using assms(4) \<open>set xs = set ys\<close> by (metis Un_absorb inj_on_map_eq_map)
qed

lemma sort_key_sorted_id: "sorted (map f xs) \<Longrightarrow> sort_key f xs = xs"
proof (induction xs)
  case (Cons x xs)
  then show ?case by (cases xs) (auto simp: insort_is_Cons)
qed simp

lemma sort_key_permutation:
  assumes "mset xs = mset ys" "inj_on f (set xs)"
  shows "sort_key f xs = sort_key f ys"
  using assms by (intro sorted_key_unique [where f = f]) auto

lemma find_append: "find P (xs @ ys) = (case find P xs of None \<Rightarrow> find P ys | Some x \<Rightarrow> Some x)"
  by (induction xs) auto

lemma find_SomeD: "find P xs = Some x \<Longrightarrow> x \<in> set xs \<and> P x"
  by (induction xs) (auto split: if_splits)

lemma find_NoneI: "(\<And>x. x \<in> set xs \<Longrightarrow> \<not> P x) \<Longrightarrow> find P xs = None"
  by (induction xs) auto

lemma find_key_Some_iff: "(\<exists>x. find (\<lambda>x. f x = k) xs = Some x) \<longleftrightarrow> k \<in> f ` set xs"
  by (induction xs) auto

lemma Min_hd_sorted: "sorted (map f (x # xs)) \<Longrightarrow> Min (f ` set (x # xs)) = (f x :: 'a :: linorder)"
  by (intro Min_eqI) auto

lemma dict_eq_map: "distinct (keys d) \<Longrightarrow> d = map (\<lambda>k. (k, the (map_of d k))) (keys d)"
proof (induction d)
  case (Cons kv d)
  then have "d = map (\<lambda>k. (k, the (map_of d k))) (keys d)" by simp
  also have "\<dots> = map (\<lambda>k. (k, the (map_of (kv # d) k))) (keys d)"
    using Cons.prems by (intro map_cong) (auto simp: rev_image_eqI)
  finally show ?case by (cases kv) auto
qed simp

section \<open>Enumeration\<close>

text \<open>\<open>enumerate(xs, start=n)\<close> is \<^const>\<open>List.enumerate\<close>.\<close>

lemma in_set_enumerateD:
  "(i, x) \<in> set (List.enumerate n xs) \<Longrightarrow> n \<le> i \<and> i < n + length xs \<and> x = xs ! (i - n)"
  by (auto simp: in_set_enumerate_eq)

end
