(* ===== verification/Py_Str.thy ===== *)
theory Py_Str
  imports Prelude
begin

text \<open>
  What the code uses of Python's \<open>str\<close>: the white-space predicate behind \<open>strip\<close> and
  \<open>isspace\<close>, the strict UTF-8 codec (a surrogate code point is not encodable), the decimal
  form of integers, and hexadecimal digits.
\<close>

section \<open>White space\<close>

definition py_isspace :: "nat \<Rightarrow> bool" where
  "py_isspace c \<longleftrightarrow>
     9 \<le> c \<and> c \<le> 13 \<or> 28 \<le> c \<and> c \<le> 32 \<or> c = 133 \<or> c = 160 \<or> c = 5760 \<or>
     8192 \<le> c \<and> c \<le> 8202 \<or> c = 8232 \<or> c = 8233 \<or> c = 8239 \<or> c = 8287 \<or> c = 12288"

definition lstrip :: "pystr \<Rightarrow> pystr" where
  "lstrip s = dropWhile py_isspace s"

definition rstrip :: "pystr \<Rightarrow> pystr" where
  "rstrip s = rev (dropWhile py_isspace (rev s))"

definition strip :: "pystr \<Rightarrow> pystr" where
  "strip s = rstrip (lstrip s)"

definition blank :: "pystr \<Rightarrow> bool" where
  "blank s \<longleftrightarrow> strip s = []"

lemma rstrip_eq_Nil: "rstrip s = [] \<longleftrightarrow> list_all py_isspace s"
  by (simp add: rstrip_def dropWhile_eq_Nil_conv list_all_iff)

lemma blank_iff: "blank s \<longleftrightarrow> list_all py_isspace s"
proof
  assume "blank s"
  then have "list_all py_isspace (dropWhile py_isspace s)"
    by (simp add: blank_def strip_def lstrip_def rstrip_eq_Nil)
  then have "dropWhile py_isspace s = []"
    by (metis hd_dropWhile list.pred_inject(2) list.exhaust_sel)
  then show "list_all py_isspace s" by (simp add: dropWhile_eq_Nil_conv list_all_iff)
next
  assume "list_all py_isspace s"
  then have dw: "dropWhile py_isspace s = []" by (simp add: dropWhile_eq_Nil_conv list_all_iff)
  show "blank s" unfolding blank_def strip_def lstrip_def dw by (simp add: rstrip_def)
qed

lemma blank_append: "blank (s @ t) \<longleftrightarrow> blank s \<and> blank t"
  by (simp add: blank_iff)

lemma rstrip_last:
  assumes "\<not> blank s"
  shows "rstrip s \<noteq> []" and "\<not> py_isspace (last (rstrip s))"
proof -
  show 1: "rstrip s \<noteq> []" using assms by (simp add: rstrip_eq_Nil blank_iff)
  then have "dropWhile py_isspace (rev s) \<noteq> []" by (simp add: rstrip_def)
  then show "\<not> py_isspace (last (rstrip s))"
    by (simp add: rstrip_def last_rev hd_dropWhile)
qed

section \<open>UTF-8\<close>

definition surrogate :: "nat \<Rightarrow> bool" where
  "surrogate c \<longleftrightarrow> 55296 \<le> c \<and> c \<le> 57343"

definition utf8_encodable :: "pystr \<Rightarrow> bool" where
  "utf8_encodable s \<longleftrightarrow> list_all (\<lambda>c. \<not> surrogate c) s"

definition utf8_char :: "nat \<Rightarrow> nat list" where
  "utf8_char c =
     (if c < 128 then [c]
      else if c < 2048 then [192 + c div 64, 128 + c mod 64]
      else if c < 65536 then [224 + c div 4096, 128 + c div 64 mod 64, 128 + c mod 64]
      else [240 + c div 262144, 128 + c div 4096 mod 64, 128 + c div 64 mod 64, 128 + c mod 64])"

definition utf8_encode :: "pystr \<Rightarrow> nat list" where
  "utf8_encode s = concat (map utf8_char s)"

text \<open>\<open>errors="replace"\<close>: an unencodable character becomes a question mark.\<close>

definition utf8_encode_replace :: "pystr \<Rightarrow> nat list" where
  "utf8_encode_replace s = concat (map (\<lambda>c. if surrogate c then [63] else utf8_char c) s)"

lemma utf8_encode_append: "utf8_encode (s @ t) = utf8_encode s @ utf8_encode t"
  by (simp add: utf8_encode_def)

lemma length_utf8_char: "1 \<le> length (utf8_char c)" "length (utf8_char c) \<le> 4"
  by (simp_all add: utf8_char_def)

lemma length_utf8_encode: "length (utf8_encode s) \<le> 4 * length s"
proof (induction s)
  case (Cons c s)
  then show ?case using length_utf8_char(2) [of c] by (simp add: utf8_encode_def)
qed (simp add: utf8_encode_def)

lemma utf8_char_bytes: "c < 1114112 \<Longrightarrow> \<forall>b \<in> set (utf8_char c). b < 256"
  by (auto simp: utf8_char_def)

lemma utf8_replace_eq: "utf8_encodable s \<Longrightarrow> utf8_encode_replace s = utf8_encode s"
  by (induction s) (auto simp: utf8_encodable_def utf8_encode_def utf8_encode_replace_def)

section \<open>Digits\<close>

definition digit_char :: "nat \<Rightarrow> nat" where
  "digit_char d = (if d < 10 then 48 + d else 87 + d)"

function nat_digits :: "int \<Rightarrow> pystr" where
  "nat_digits n =
     (if n < 10 then [digit_char (nat n)]
      else nat_digits (n div 10) @ [digit_char (nat (n mod 10))])"
  by pat_completeness auto
termination
  by (relation "measure nat") auto

declare nat_digits.simps [simp del]

definition int_repr :: "int \<Rightarrow> pystr" where
  "int_repr i = (if i < 0 then 45 # nat_digits (- i) else nat_digits i)"

lemma nat_digits_not_Nil: "nat_digits n \<noteq> []"
  by (subst nat_digits.simps) simp

lemma nat_digits_range: "\<forall>c \<in> set (nat_digits n). 48 \<le> c \<and> c \<le> 57"
proof (induction n rule: nat_digits.induct)
  case (1 n)
  show ?case
  proof (cases "n < 10")
    case True
    then show ?thesis by (subst nat_digits.simps) (auto simp: digit_char_def)
  next
    case False
    with 1 have "\<forall>c \<in> set (nat_digits (n div 10)). 48 \<le> c \<and> c \<le> 57" by blast
    moreover have "48 \<le> digit_char (nat (n mod 10))" "digit_char (nat (n mod 10)) \<le> 57"
      by (simp_all add: digit_char_def nat_less_iff)
    ultimately show ?thesis using False by (subst nat_digits.simps) auto
  qed
qed

lemma digit_char_inject: "d < 10 \<Longrightarrow> e < 10 \<Longrightarrow> digit_char d = digit_char e \<longleftrightarrow> d = e"
  by (simp add: digit_char_def)

lemma nat_digits_inject: "0 \<le> m \<Longrightarrow> 0 \<le> n \<Longrightarrow> nat_digits m = nat_digits n \<Longrightarrow> m = n"
proof (induction m arbitrary: n rule: nat_digits.induct)
  case (1 m)
  have small: "length (nat_digits k) = 1 \<longleftrightarrow> k < 10" for k
    by (subst nat_digits.simps) (auto simp: nat_digits_not_Nil)
  from "1.prems" small have iff: "m < 10 \<longleftrightarrow> n < 10" by metis
  show ?case
  proof (cases "m < 10")
    case True
    with iff "1.prems" show ?thesis
      by (auto simp: nat_digits.simps [of m] nat_digits.simps [of n] digit_char_inject nat_less_iff)
  next
    case False
    with iff "1.prems" have "nat_digits (m div 10) = nat_digits (n div 10)"
      and "nat (m mod 10) = nat (n mod 10)"
      by (simp_all add: nat_digits.simps [of m] nat_digits.simps [of n] digit_char_inject nat_less_iff)
    with "1.IH" "1.prems" False have "m div 10 = n div 10" "m mod 10 = n mod 10"
      by (simp_all add: eq_nat_nat_iff)
    then show ?thesis by (metis div_mult_mod_eq)
  qed
qed

lemma int_repr_inject: "int_repr i = int_repr j \<Longrightarrow> i = j"
proof -
  assume eq: "int_repr i = int_repr j"
  have ne: "45 # xs \<noteq> nat_digits n" for xs n
  proof
    assume "45 # xs = nat_digits n"
    then have "45 \<in> set (nat_digits n)" by (metis list.set_intros(1))
    with nat_digits_range [of n] show False by fastforce
  qed
  show ?thesis
    using eq ne [of _ i] ne [of _ j] nat_digits_inject [of i j] nat_digits_inject [of "- i" "- j"]
    by (auto simp: int_repr_def split: if_splits dest: sym)
qed

definition hex_digit :: "nat \<Rightarrow> bool" where
  "hex_digit c \<longleftrightarrow> 48 \<le> c \<and> c \<le> 57 \<or> 97 \<le> c \<and> c \<le> 102"

definition lower_ascii :: "nat \<Rightarrow> nat" where
  "lower_ascii c = (if 65 \<le> c \<and> c \<le> 90 then c + 32 else c)"

text \<open>The decimal form used inside the messages of exceptions.\<close>

definition show_int :: "int \<Rightarrow> string" where
  "show_int i = map char_of (int_repr i)"

end
