(* ===== verification/Py_Float.thy ===== *)
theory Py_Float
  imports Complex_Main Py_Str
begin

text \<open>
  Python's \<open>float\<close> (IEEE 754 binary64). A finite value is the rational number it denotes, so
  the two zeros are one value; an arithmetic operation is the exact result rounded to nearest,
  ties to even, with gradual underflow at \<open>2 ^ -1074\<close> and overflow to an infinity. The section on
  rounding shows that it is monotone and keeps representable numbers, which is all that the
  order of fused scores rests on.
\<close>

section \<open>Rounding to binary64\<close>

function ilog2 :: "int \<Rightarrow> int" where
  "ilog2 n = (if n < 2 then 0 else 1 + ilog2 (n div 2))"
  by pat_completeness auto
termination
  by (relation "measure nat") auto

declare ilog2.simps [simp del]

text \<open>The binary exponent of a positive rational number.\<close>

definition rat_exp :: "rat \<Rightarrow> int" where
  "rat_exp q =
     (let (n, d) = quotient_of q;
          k = ilog2 n - ilog2 d
      in if 2 powi k \<le> q then k else k - 1)"

definition round_half_even :: "rat \<Rightarrow> int" where
  "round_half_even x =
     (let f = \<lfloor>x\<rfloor>; r = x - of_int f
      in if r < 1 / 2 then f else if 1 / 2 < r then f + 1 else if even f then f else f + 1)"

definition ulp_exp :: "rat \<Rightarrow> int" where
  "ulp_exp q = max (rat_exp \<bar>q\<bar> - 52) (-1074)"

definition b64_round :: "rat \<Rightarrow> rat" where
  "b64_round q =
     (if q = 0 then 0
      else of_int (round_half_even (q / 2 powi ulp_exp q)) * 2 powi ulp_exp q)"

section \<open>Values and operations\<close>

datatype pyfloat = Fin rat | PosInf | NegInf | NaN

definition mk_float :: "rat \<Rightarrow> pyfloat" where
  "mk_float q =
     (let r = b64_round q
      in if 2 ^ 1024 \<le> r then PosInf else if r \<le> - (2 ^ 1024) then NegInf else Fin r)"

fun isfinite :: "pyfloat \<Rightarrow> bool" where
  "isfinite (Fin q) = True"
| "isfinite _ = False"

text \<open>\<open>float(i)\<close> of an integer raises \<open>OverflowError\<close> when it does not fit.\<close>

definition float_of_int :: "int \<Rightarrow> pyfloat result" where
  "float_of_int i =
     (case mk_float (of_int i) of Fin q \<Rightarrow> Inr (Fin q) | _ \<Rightarrow> Inl OverflowError)"

fun fneg :: "pyfloat \<Rightarrow> pyfloat" where
  "fneg (Fin q) = Fin (- q)"
| "fneg PosInf = NegInf"
| "fneg NegInf = PosInf"
| "fneg NaN = NaN"

fun fadd :: "pyfloat \<Rightarrow> pyfloat \<Rightarrow> pyfloat" where
  "fadd (Fin p) (Fin q) = mk_float (p + q)"
| "fadd NaN _ = NaN"
| "fadd _ NaN = NaN"
| "fadd PosInf NegInf = NaN"
| "fadd NegInf PosInf = NaN"
| "fadd PosInf _ = PosInf"
| "fadd _ PosInf = PosInf"
| "fadd NegInf _ = NegInf"
| "fadd _ NegInf = NegInf"

text \<open>\<open>x / i\<close> of a float by an integer: the integer is converted first; a zero divisor, which
  raises in Python, is outside the callers' range and kept as an error.\<close>

definition fdiv_int :: "pyfloat \<Rightarrow> int \<Rightarrow> pyfloat result" where
  "fdiv_int x i =
     (if i = 0 then Inl OtherException
      else rbind (float_of_int i) (\<lambda>y.
        case (x, y) of
          (Fin p, Fin q) \<Rightarrow> Inr (mk_float (p / q))
        | (PosInf, Fin q) \<Rightarrow> Inr (if 0 < q then PosInf else NegInf)
        | (NegInf, Fin q) \<Rightarrow> Inr (if 0 < q then NegInf else PosInf)
        | _ \<Rightarrow> Inr NaN))"

text \<open>Comparison as Python does it: false on a NaN.\<close>

fun fless :: "pyfloat \<Rightarrow> pyfloat \<Rightarrow> bool" where
  "fless (Fin p) (Fin q) = (p < q)"
| "fless NegInf (Fin _) = True"
| "fless NegInf PosInf = True"
| "fless (Fin _) PosInf = True"
| "fless _ _ = False"

text \<open>
  The linear order used for sort keys. It agrees with Python's comparison on numbers; a NaN,
  which has no place in Python's order, is put last, and no sort key of the modelled code is one.
\<close>

fun float_le :: "pyfloat \<Rightarrow> pyfloat \<Rightarrow> bool" where
  "float_le NegInf _ = True"
| "float_le (Fin p) (Fin q) = (p \<le> q)"
| "float_le (Fin p) PosInf = True"
| "float_le (Fin p) NaN = True"
| "float_le PosInf PosInf = True"
| "float_le PosInf NaN = True"
| "float_le NaN NaN = True"
| "float_le _ _ = False"

instantiation pyfloat :: linorder
begin

definition less_eq_pyfloat :: "pyfloat \<Rightarrow> pyfloat \<Rightarrow> bool" where
  "less_eq_pyfloat x y = float_le x y"

definition less_pyfloat :: "pyfloat \<Rightarrow> pyfloat \<Rightarrow> bool" where
  "less_pyfloat x y = (float_le x y \<and> \<not> float_le y x)"

instance
proof
  fix x y z :: pyfloat
  show "(x < y) = (x \<le> y \<and> \<not> y \<le> x)"
    by (simp add: less_eq_pyfloat_def less_pyfloat_def)
  show "x \<le> x" by (cases x) (auto simp: less_eq_pyfloat_def)
  show "x \<le> y \<Longrightarrow> y \<le> z \<Longrightarrow> x \<le> z"
    by (cases x; cases y; cases z) (auto simp: less_eq_pyfloat_def)
  show "x \<le> y \<Longrightarrow> y \<le> x \<Longrightarrow> x = y"
    by (cases x; cases y) (auto simp: less_eq_pyfloat_def)
  show "x \<le> y \<or> y \<le> x"
    by (cases x; cases y) (auto simp: less_eq_pyfloat_def)
qed

end

lemma fless_iff: "x \<noteq> NaN \<Longrightarrow> y \<noteq> NaN \<Longrightarrow> fless x y \<longleftrightarrow> x < y"
  by (cases x; cases y) (auto simp: less_pyfloat_def)

lemma Fin_le_iff [simp]: "Fin p \<le> Fin q \<longleftrightarrow> p \<le> q"
  by (simp add: less_eq_pyfloat_def)

lemma Fin_less_iff [simp]: "Fin p < Fin q \<longleftrightarrow> p < q"
  by (auto simp: less_pyfloat_def)

lemma Fin_le_PosInf [simp]: "Fin p \<le> PosInf" "\<not> PosInf \<le> Fin p"
  by (simp_all add: less_eq_pyfloat_def)

lemma NegInf_le [simp]: "NegInf \<le> x"
  by (simp add: less_eq_pyfloat_def)

section \<open>Decimal form\<close>

text \<open>
  \<open>float.__repr__\<close>: the shortest decimal numeral that rounds back to the value, the closest one
  if there are several, in fixed notation when its decimal point is near its digits and in
  scientific notation otherwise. Seventeen digits always suffice for binary64.
\<close>

definition dec_exp :: "rat \<Rightarrow> int" where
  "dec_exp q =
     (if 1 \<le> q then int (length (int_repr \<lfloor>q\<rfloor>)) - 1
      else let k = int (length (int_repr \<lfloor>1 / q\<rfloor>)) - 1
           in if 1 \<le> q * 10 powi k then - k else - (k + 1))"

fun short_digits :: "nat \<Rightarrow> rat \<Rightarrow> int \<Rightarrow> int \<Rightarrow> int \<times> int" where
  "short_digits fuel q e n =
     (let s = 10 powi (e - n + 1);
          lo = \<lfloor>q / s\<rfloor>;
          hi = lo + 1;
          lo_ok = (b64_round (of_int lo * s) = q);
          hi_ok = (b64_round (of_int hi * s) = q);
          dlo = q - of_int lo * s;
          dhi = of_int hi * s - q
      in if lo_ok \<and> hi_ok then
           (if dlo < dhi \<or> dlo = dhi \<and> even lo then lo else hi, e - n + 1)
         else if lo_ok then (lo, e - n + 1)
         else if hi_ok then (hi, e - n + 1)
         else case fuel of 0 \<Rightarrow> (lo, e - n + 1) | Suc fuel' \<Rightarrow> short_digits fuel' q e (n + 1))"

declare short_digits.simps [simp del]

definition rstrip_zeros :: "pystr \<Rightarrow> pystr" where
  "rstrip_zeros s = rev (dropWhile (\<lambda>c. c = 48) (rev s))"

definition pos_repr :: "rat \<Rightarrow> pystr" where
  "pos_repr q =
     (let (m, s) = short_digits 16 q (dec_exp q) 1;
          ds0 = int_repr m;
          decpt = int (length ds0) + s;
          ds = rstrip_zeros ds0;
          x = decpt - 1
      in if - 4 < decpt \<and> decpt \<le> 16 then
           (if decpt \<le> 0 then lit ''0.'' @ replicate (nat (- decpt)) 48 @ ds
            else if int (length ds) \<le> decpt
              then ds @ replicate (nat (decpt - int (length ds))) 48 @ lit ''.0''
            else take (nat decpt) ds @ lit ''.'' @ drop (nat decpt) ds)
         else take 1 ds @ (if length ds = 1 then [] else lit ''.'' @ drop 1 ds)
              @ lit ''e'' @ (if x < 0 then lit ''-'' else lit ''+'')
              @ (let es = int_repr \<bar>x\<bar> in if length es < 2 then 48 # es else es))"

fun float_repr :: "pyfloat \<Rightarrow> pystr" where
  "float_repr (Fin q) =
     (if q = 0 then lit ''0.0'' else if q < 0 then lit ''-'' @ pos_repr (- q) else pos_repr q)"
| "float_repr PosInf = lit ''Infinity''"
| "float_repr NegInf = lit ''-Infinity''"
| "float_repr NaN = lit ''NaN''"

section \<open>Facts on rounding\<close>

lemma ilog2_nonneg: "0 \<le> ilog2 n"
proof (induction n rule: ilog2.induct)
  case (1 n)
  then show ?case by (cases "n < 2") (simp_all add: ilog2.simps [of n])
qed

lemma ilog2_bounds: "0 < n \<Longrightarrow> 2 ^ nat (ilog2 n) \<le> n \<and> n < 2 * 2 ^ nat (ilog2 n)"
proof (induction n rule: ilog2.induct)
  case (1 n)
  show ?case
  proof (cases "n < 2")
    case True
    with "1.prems" show ?thesis by (simp add: ilog2.simps [of n])
  next
    case False
    with 1 have IH: "2 ^ nat (ilog2 (n div 2)) \<le> n div 2 \<and> n div 2 < 2 * 2 ^ nat (ilog2 (n div 2))"
      by simp
    have "nat (ilog2 n) = Suc (nat (ilog2 (n div 2)))"
      using False ilog2_nonneg [of "n div 2"] by (simp add: ilog2.simps [of n])
    then have "(2::int) ^ nat (ilog2 n) = 2 * 2 ^ nat (ilog2 (n div 2))" by simp
    with IH show ?thesis by linarith
  qed
qed

lemma ilog2_rat:
  assumes "0 < n"
  shows "(2::rat) powi ilog2 n \<le> of_int n" "of_int n < 2 * (2::rat) powi ilog2 n"
proof -
  from ilog2_bounds [OF assms] have 1: "(2::int) ^ nat (ilog2 n) \<le> n"
    and 2: "n < 2 * 2 ^ nat (ilog2 n)" by simp_all
  have p: "(2::rat) powi ilog2 n = 2 ^ nat (ilog2 n)" using ilog2_nonneg by (simp add: power_int_def)
  have "of_int ((2::int) ^ nat (ilog2 n)) \<le> (of_int n :: rat)"
    using 1 by (rule of_int_le_iff [THEN iffD2])
  then show "(2::rat) powi ilog2 n \<le> of_int n" by (simp add: p)
  have "(of_int n :: rat) < of_int (2 * 2 ^ nat (ilog2 n))" using 2 by (rule of_int_less_iff [THEN iffD2])
  then show "of_int n < 2 * (2::rat) powi ilog2 n" by (simp add: p)
qed

lemma rat_exp_bounds:
  assumes "0 < q"
  shows "2 powi rat_exp q \<le> q" "q < 2 powi (rat_exp q + 1)"
proof -
  obtain n d where nd: "quotient_of q = (n, d)" by force
  then have d: "0 < d" and q: "q = of_int n / of_int d"
    by (simp_all add: quotient_of_denom_pos quotient_of_div)
  with assms have n: "0 < n" by (simp add: zero_less_divide_iff)
  define a where "a = ilog2 n"
  define b where "b = ilog2 d"
  note ra = ilog2_rat [OF n, folded a_def] and rb = ilog2_rat [OF d, folded b_def]
  define k where "k = a - b"
  have pk: "(2::rat) powi k = 2 powi a / 2 powi b" by (simp add: k_def power_int_diff)
  have up: "q < 2 powi (k + 1)"
  proof -
    have "q < 2 * 2 powi a / 2 powi b"
      unfolding q using ra rb d n by (intro frac_less) auto
    then show ?thesis by (simp add: power_int_add_1' pk)
  qed
  have low: "2 powi (k - 1) \<le> q"
  proof -
    have "2 powi a / (2 * 2 powi b) \<le> q"
      unfolding q using ra rb d n by (intro frac_le) auto
    then show ?thesis by (simp add: power_int_diff pk)
  qed
  have e: "rat_exp q = (if 2 powi k \<le> q then k else k - 1)"
    by (simp add: rat_exp_def nd k_def a_def b_def)
  show "2 powi rat_exp q \<le> q" "q < 2 powi (rat_exp q + 1)"
    using up low by (auto simp: e)
qed

lemma rat_exp_mono:
  assumes "0 < p" "p \<le> q"
  shows "rat_exp p \<le> rat_exp q"
proof (rule ccontr)
  assume "\<not> rat_exp p \<le> rat_exp q"
  then have "(2::rat) powi (rat_exp q + 1) \<le> 2 powi rat_exp p"
    by (intro power_int_increasing) auto
  with rat_exp_bounds(1) [OF assms(1)] rat_exp_bounds(2) [of q] assms show False by simp
qed

lemma round_half_even_of_int [simp]: "round_half_even (of_int i) = i"
  by (simp add: round_half_even_def)

lemma round_half_even_mono:
  assumes "x \<le> y"
  shows "round_half_even x \<le> round_half_even y"
proof (cases "\<lfloor>x\<rfloor> = \<lfloor>y\<rfloor>")
  case True
  with assms show ?thesis by (auto simp: round_half_even_def Let_def)
next
  case False
  with floor_mono [OF assms] have "\<lfloor>x\<rfloor> + 1 \<le> \<lfloor>y\<rfloor>" by simp
  moreover have "round_half_even x \<le> \<lfloor>x\<rfloor> + 1" "\<lfloor>y\<rfloor> \<le> round_half_even y"
    by (auto simp: round_half_even_def Let_def)
  ultimately show ?thesis by simp
qed

lemma b64_round_zero [simp]: "b64_round 0 = 0"
  by (simp add: b64_round_def)

lemma round_half_even_uminus: "round_half_even (- x) = - round_half_even x"
proof (cases "x = of_int \<lfloor>x\<rfloor>")
  case True
  then obtain i where "x = of_int i" by blast
  then show ?thesis by (metis of_int_minus round_half_even_of_int)
next
  case False
  then have c: "\<lfloor>- x\<rfloor> = - \<lfloor>x\<rfloor> - 1"
    by (metis add.inverse_inverse ceiling_altdef ceiling_def diff_minus_eq_add minus_add_distrib
        uminus_add_conv_diff minus_diff_eq add_uminus_conv_diff)
  show ?thesis unfolding round_half_even_def Let_def c by (auto simp: field_simps)
qed

lemma ulp_exp_uminus [simp]: "ulp_exp (- q) = ulp_exp q"
  by (simp add: ulp_exp_def)

lemma b64_round_uminus: "b64_round (- q) = - b64_round q"
  by (simp add: b64_round_def round_half_even_uminus)

lemma b64_round_upper:
  assumes "0 < q" "q \<le> of_int i * 2 powi ulp_exp q"
  shows "b64_round q \<le> of_int i * 2 powi ulp_exp q"
proof -
  have u: "(0::rat) < 2 powi ulp_exp q" by simp
  from assms(2) have "q / 2 powi ulp_exp q \<le> of_int i" using u by (simp add: pos_divide_le_eq)
  then have "round_half_even (q / 2 powi ulp_exp q) \<le> i"
    using round_half_even_mono by fastforce
  then have "(of_int (round_half_even (q / 2 powi ulp_exp q)) :: rat) \<le> of_int i" by simp
  then show ?thesis using assms(1) u by (simp add: b64_round_def mult_right_mono)
qed

lemma b64_round_lower:
  assumes "0 < q" "of_int i * 2 powi ulp_exp q \<le> q"
  shows "of_int i * 2 powi ulp_exp q \<le> b64_round q"
proof -
  have u: "(0::rat) < 2 powi ulp_exp q" by simp
  from assms(2) have "of_int i \<le> q / 2 powi ulp_exp q" using u by (simp add: pos_le_divide_eq)
  then have "i \<le> round_half_even (q / 2 powi ulp_exp q)"
    using round_half_even_mono by fastforce
  then have "(of_int i :: rat) \<le> of_int (round_half_even (q / 2 powi ulp_exp q))" by simp
  then show ?thesis using assms(1) u by (simp add: b64_round_def mult_right_mono)
qed

lemma b64_round_nonneg: "0 \<le> q \<Longrightarrow> 0 \<le> b64_round q"
  using b64_round_lower [of q 0] by (cases "q = 0") auto

lemma powi_eq_scaled:
  assumes "e \<le> m"
  shows "(2::rat) powi m = of_int (2 ^ nat (m - e)) * 2 powi e"
proof -
  have "(2::rat) powi m = 2 powi (m - e) * 2 powi e" by (simp flip: power_int_add)
  also have "(2::rat) powi (m - e) = 2 ^ nat (m - e)" using assms by (simp add: power_int_def)
  finally show ?thesis by simp
qed

lemma b64_round_mono_pos:
  assumes "0 < p" "p \<le> q"
  shows "b64_round p \<le> b64_round q"
proof (cases "ulp_exp p = ulp_exp q")
  case True
  have "p / 2 powi ulp_exp q \<le> q / 2 powi ulp_exp q" using assms by (simp add: divide_right_mono)
  then have "(of_int (round_half_even (p / 2 powi ulp_exp q)) :: rat)
      \<le> of_int (round_half_even (q / 2 powi ulp_exp q))"
    using round_half_even_mono by simp
  with True assms show ?thesis by (simp add: b64_round_def mult_right_mono)
next
  case False
  have q: "0 < q" using assms by simp
  have "rat_exp p \<le> rat_exp q" by (rule rat_exp_mono [OF assms])
  define m where "m = max (rat_exp p + 1) (ulp_exp p)"
  from \<open>rat_exp p \<le> rat_exp q\<close> False assms q
  have lt: "m \<le> rat_exp q" and eq: "ulp_exp q = rat_exp q - 52" and ep: "ulp_exp p \<le> m"
    by (auto simp: ulp_exp_def m_def)
  have "p \<le> 2 powi (rat_exp p + 1)" using rat_exp_bounds(2) [OF assms(1)] by simp
  also have "\<dots> \<le> 2 powi m" by (intro power_int_increasing) (auto simp: m_def)
  finally have "b64_round p \<le> 2 powi m"
    using b64_round_upper [OF assms(1), of "2 ^ nat (m - ulp_exp p)"] powi_eq_scaled [OF ep] by simp
  also have "\<dots> \<le> 2 powi rat_exp q" using lt by (intro power_int_increasing) auto
  also have "\<dots> \<le> b64_round q"
    using b64_round_lower [OF q, of "2 ^ nat (rat_exp q - ulp_exp q)"]
      rat_exp_bounds(1) [OF q] powi_eq_scaled [of "ulp_exp q" "rat_exp q"] eq by simp
  finally show ?thesis .
qed

lemma b64_round_mono:
  assumes "p \<le> q"
  shows "b64_round p \<le> b64_round q"
proof -
  consider "0 < p" | "p \<le> 0" "0 \<le> q" | "q < 0" using assms by linarith
  then show ?thesis
  proof cases
    case 1
    then show ?thesis using assms by (rule b64_round_mono_pos)
  next
    case 2
    then have "0 \<le> b64_round (- p)" "0 \<le> b64_round q" by (simp_all add: b64_round_nonneg)
    then show ?thesis by (simp add: b64_round_uminus)
  next
    case 3
    then have "b64_round (- q) \<le> b64_round (- p)" using assms by (intro b64_round_mono_pos) auto
    then show ?thesis by (simp add: b64_round_uminus)
  qed
qed

lemma mk_float_mono: "p \<le> q \<Longrightarrow> mk_float p \<le> mk_float q"
  using b64_round_mono [of p q] by (auto simp: mk_float_def Let_def less_eq_pyfloat_def)

lemma mk_float_not_NaN [simp]: "mk_float q \<noteq> NaN"
  by (simp add: mk_float_def Let_def)

lemma mk_float_nonneg: "0 \<le> q \<Longrightarrow> Fin 0 \<le> mk_float q"
  using mk_float_mono [of 0 q] by (simp add: mk_float_def)

text \<open>Small integers are exact.\<close>

lemma b64_round_of_int:
  assumes "\<bar>i\<bar> < 2 ^ 53"
  shows "b64_round (of_int i) = of_int i"
proof (cases "i = 0")
  case False
  have pos: "0 < \<bar>of_int i :: rat\<bar>" using False by simp
  have "(2::rat) powi rat_exp \<bar>of_int i\<bar> \<le> \<bar>of_int i\<bar>" by (rule rat_exp_bounds(1) [OF pos])
  also have "\<dots> < 2 powi 53"
  proof -
    have "(of_int \<bar>i\<bar> :: rat) < of_int (2 ^ 53)" using assms by (simp only: of_int_less_iff)
    then show ?thesis by simp
  qed
  finally have lt: "(2::rat) powi rat_exp \<bar>of_int i\<bar> < 2 powi 53" .
  have "rat_exp \<bar>of_int i\<bar> < 53"
  proof (rule ccontr)
    assume "\<not> ?thesis"
    then have "(2::rat) powi 53 \<le> 2 powi rat_exp \<bar>of_int i\<bar>" by (intro power_int_increasing) auto
    with lt show False by simp
  qed
  then have e: "ulp_exp (of_int i) \<le> 0" by (simp add: ulp_exp_def)
  define k where "k = nat (- ulp_exp (of_int i))"
  have "(of_int i :: rat) / 2 powi ulp_exp (of_int i) = of_int (i * 2 ^ k)"
    using e by (simp add: power_int_def k_def field_simps)
  then show ?thesis using False by (simp add: b64_round_def flip: of_int_mult of_int_power)
    (metis nonzero_divide_eq_eq power_int_not_zero zero_neq_numeral)
qed simp

lemma float_of_int_exact:
  assumes "\<bar>i\<bar> < 2 ^ 53"
  shows "float_of_int i = Inr (Fin (of_int i))"
proof -
  have le: "(2::int) ^ 53 \<le> 2 ^ 1024" by (rule power_increasing) simp_all
  have up: "(of_int i :: rat) < of_int (2 ^ 1024)" "(of_int (- i) :: rat) < of_int (2 ^ 1024)"
    using assms le unfolding of_int_less_iff by linarith+
  then have "\<not> 2 ^ 1024 \<le> (of_int i :: rat)" "\<not> (of_int i :: rat) \<le> - (2 ^ 1024)" by simp_all
  then show ?thesis using b64_round_of_int [OF assms] by (simp add: float_of_int_def mk_float_def Let_def)
qed

end
