(* ===== verification/Core_Common.thy ===== *)
theory Core_Common
  imports Py_Float
begin

text \<open>
  \<open>mdrack_core/domain/common.py\<close>: the validators every record constructor calls, JSON-safe
  values and their deep freezing, the canonical serialisation, and correlation identities.
  An argument of type \<open>object\<close> is a \<open>pyobj\<close>; the frozen, immutable representation is a
  \<open>json\<close> value, whose objects list their members in the order of the underlying dictionary.
\<close>

section \<open>Python objects and JSON values\<close>

datatype pyobj =
    PNone
  | PBool bool
  | PInt int
  | PFloat pyfloat
  | PStr pystr
  | PBytes "nat list"
  | PList "pyobj list"
  | PTuple "pyobj list"
  | PSequence "pyobj list"
  | PMap "(pyobj \<times> pyobj) list"
  | POther

datatype json =
    JNull
  | JBool bool
  | JInt int
  | JFloat pyfloat
  | JStr pystr
  | JArr "json list"
  | JObj "(pystr \<times> json) list"

definition MAX_JSON_DEPTH :: nat where "MAX_JSON_DEPTH = 16"
definition MAX_JSON_ITEMS :: nat where "MAX_JSON_ITEMS = 10000"
definition MAX_JSON_BYTES :: nat where "MAX_JSON_BYTES = 1000000"

section \<open>Correlation identities\<close>

definition is_hex :: "nat \<Rightarrow> bool" where
  "is_hex c \<longleftrightarrow> 48 \<le> c \<and> c \<le> 57 \<or> 97 \<le> c \<and> c \<le> 102 \<or> 65 \<le> c \<and> c \<le> 70"

text \<open>\<open>_UUID_PATTERN.fullmatch\<close>: groups of 8, 4, 4, 4 and 12 hexadecimal digits.\<close>

definition uuid_match :: "pystr \<Rightarrow> bool" where
  "uuid_match s \<longleftrightarrow>
     length s = 36 \<and>
     (\<forall>i < 36. if i \<in> {8, 13, 18, 23} then s ! i = 45 else is_hex (s ! i))"

text \<open>\<open>_ULID_PATTERN.fullmatch\<close>: Crockford base 32, the first digit at most 7.\<close>

definition ulid_char :: "nat \<Rightarrow> bool" where
  "ulid_char c \<longleftrightarrow>
     48 \<le> c \<and> c \<le> 57 \<or> 65 \<le> c \<and> c \<le> 72 \<or> c = 74 \<or> c = 75 \<or> c = 77 \<or> c = 78 \<or>
     80 \<le> c \<and> c \<le> 84 \<or> 86 \<le> c \<and> c \<le> 90"

definition ulid_match :: "pystr \<Rightarrow> bool" where
  "ulid_match s \<longleftrightarrow>
     length s = 26 \<and> 48 \<le> hd s \<and> hd s \<le> 55 \<and> list_all ulid_char (tl s)"

text \<open>\<open>str(uuid.UUID(s))\<close> of a string that matches the pattern is its lower-case form.\<close>

definition normalize_request_id :: "pyobj \<Rightarrow> string \<Rightarrow> pystr result" where
  "normalize_request_id value field_name =
     (case value of
        PStr s \<Rightarrow>
          if uuid_match s then Inr (map lower_ascii s)
          else if ulid_match s then Inr s
          else Inl (ValueError (field_name @ '' must be a UUID or ULID''))
      | _ \<Rightarrow> Inl (ValueError (field_name @ '' must be a UUID or ULID'')))"

definition normalize_optional_request_id :: "pyobj \<Rightarrow> string \<Rightarrow> pystr option result" where
  "normalize_optional_request_id value field_name =
     (case value of
        PNone \<Rightarrow> Inr None
      | _ \<Rightarrow> rbind (normalize_request_id value field_name) (\<lambda>s. Inr (Some s)))"

section \<open>Scalar validators\<close>

definition require_utf8_encodable :: "pyobj \<Rightarrow> string \<Rightarrow> pystr result" where
  "require_utf8_encodable value field_name =
     (case value of
        PStr s \<Rightarrow>
          if utf8_encodable s then Inr s
          else Inl (ValueError (field_name @ '' must be UTF-8 encodable''))
      | _ \<Rightarrow> Inl (ValueError (field_name @ '' must be a string'')))"

definition require_non_empty :: "pyobj \<Rightarrow> string \<Rightarrow> pystr result" where
  "require_non_empty value field_name =
     (case value of
        PStr s \<Rightarrow>
          if blank s then Inl (ValueError (field_name @ '' must be a non-empty string''))
          else require_utf8_encodable value field_name
      | _ \<Rightarrow> Inl (ValueError (field_name @ '' must be a non-empty string'')))"

definition require_optional_non_empty :: "pyobj \<Rightarrow> string \<Rightarrow> pystr option result" where
  "require_optional_non_empty value field_name =
     (case value of
        PNone \<Rightarrow> Inr None
      | _ \<Rightarrow> rbind (require_non_empty value field_name) (\<lambda>s. Inr (Some s)))"

definition integer_error :: "string \<Rightarrow> int \<Rightarrow> exn" where
  "integer_error field_name minimum =
     ValueError (field_name @ '' must be an integer greater than or equal to '' @ show_int minimum)"

definition require_integer :: "pyobj \<Rightarrow> string \<Rightarrow> int \<Rightarrow> int result" where
  "require_integer value field_name minimum =
     (case value of
        PInt i \<Rightarrow>
          if i < minimum then Inl (integer_error field_name minimum) else Inr i
      | _ \<Rightarrow> Inl (integer_error field_name minimum))"

definition require_finite_number :: "pyobj \<Rightarrow> string \<Rightarrow> pyfloat result" where
  "require_finite_number value field_name =
     (case value of
        PInt i \<Rightarrow> float_of_int i
      | PFloat f \<Rightarrow>
          if isfinite f then Inr f
          else Inl (ValueError (field_name @ '' must be a finite number''))
      | _ \<Rightarrow> Inl (ValueError (field_name @ '' must be a finite number'')))"

section \<open>Freezing JSON values\<close>

fun str_key :: "pyobj \<Rightarrow> pystr option" where
  "str_key (PStr s) = Some s"
| "str_key _ = None"

text \<open>The members of a mapping with their keys as strings, when every key is one.\<close>

fun str_items :: "(pyobj \<times> pyobj) list \<Rightarrow> (pystr \<times> pyobj) list option" where
  "str_items [] = Some []"
| "str_items ((k, v) # kvs) =
     (case (str_key k, str_items kvs) of
        (Some s, Some r) \<Rightarrow> Some ((s, v) # r)
      | _ \<Rightarrow> None)"

lemma size_list_filter_le: "size_list f (filter P xs) \<le> size_list f xs"
  by (induction xs) auto

lemma size_list_mset: "mset xs = mset ys \<Longrightarrow> size_list f xs = size_list f ys"
  by (simp add: size_list_conv_sum_list) (metis mset_eq_length mset_map sum_mset_sum_list)

lemma str_items_size:
  "str_items kvs = Some its \<Longrightarrow>
     size_list (size_prod (\<lambda>_. 0) size) its \<le> size_list (size_prod size size) kvs"
proof (induction kvs arbitrary: its rule: str_items.induct)
  case (2 k v kvs)
  then show ?case by (fastforce split: option.splits)
qed simp

lemma size_sorted_members [simp]:
  "size_list f (sort_key g xs) = size_list f xs"
  by (rule size_list_mset) simp

text \<open>
  \<open>_freeze_json_value\<close>: the item count is the shared mutable cell \<open>item_count[0]\<close>, threaded
  through the calls; members are frozen in the order of their sorted keys.
\<close>

function (sequential)
  freeze_json_value :: "pyobj \<Rightarrow> nat \<Rightarrow> nat \<Rightarrow> (json \<times> nat) result"
  and freeze_json_items :: "pyobj list \<Rightarrow> nat \<Rightarrow> nat \<Rightarrow> (json list \<times> nat) result"
  and freeze_json_members :: "(pystr \<times> pyobj) list \<Rightarrow> nat \<Rightarrow> nat \<Rightarrow> ((pystr \<times> json) list \<times> nat) result"
where
  "freeze_json_value value depth item_count =
     (if MAX_JSON_DEPTH < depth then Inl (ValueError ''JSON value exceeds maximum depth 16'')
      else case value of
        PNone \<Rightarrow> Inr (JNull, item_count)
      | PBool b \<Rightarrow> Inr (JBool b, item_count)
      | PStr s \<Rightarrow> rbind (require_utf8_encodable value ''JSON string'') (\<lambda>t. Inr (JStr t, item_count))
      | PInt i \<Rightarrow> Inr (JInt i, item_count)
      | PFloat f \<Rightarrow>
          if isfinite f then Inr (JFloat f, item_count)
          else Inl (ValueError ''JSON numbers must be finite'')
      | PMap kvs \<Rightarrow>
          let n = item_count + length kvs in
          if MAX_JSON_ITEMS < n
          then Inl (ValueError ''JSON value exceeds maximum item count 10000'')
          else (case str_items kvs of
              None \<Rightarrow> Inl (ValueError ''JSON object keys must be strings'')
            | Some its \<Rightarrow>
                if list_all (\<lambda>(k, _). utf8_encodable k) its
                then rbind (freeze_json_members (sort_key fst its) (depth + 1) n)
                       (\<lambda>(ms, n'). Inr (JObj ms, n'))
                else Inl (ValueError ''JSON object key must be UTF-8 encodable''))
      | PList xs \<Rightarrow>
          let n = item_count + length xs in
          if MAX_JSON_ITEMS < n
          then Inl (ValueError ''JSON value exceeds maximum item count 10000'')
          else rbind (freeze_json_items xs (depth + 1) n) (\<lambda>(js, n'). Inr (JArr js, n'))
      | PTuple xs \<Rightarrow>
          let n = item_count + length xs in
          if MAX_JSON_ITEMS < n
          then Inl (ValueError ''JSON value exceeds maximum item count 10000'')
          else rbind (freeze_json_items xs (depth + 1) n) (\<lambda>(js, n'). Inr (JArr js, n'))
      | PSequence xs \<Rightarrow>
          let n = item_count + length xs in
          if MAX_JSON_ITEMS < n
          then Inl (ValueError ''JSON value exceeds maximum item count 10000'')
          else rbind (freeze_json_items xs (depth + 1) n) (\<lambda>(js, n'). Inr (JArr js, n'))
      | _ \<Rightarrow> Inl (ValueError ''value must use the JSON-safe scalar/list/map grammar''))"
| "freeze_json_items [] depth n = Inr ([], n)"
| "freeze_json_items (x # xs) depth n =
     rbind (freeze_json_value x depth n) (\<lambda>(j, n').
     rbind (freeze_json_items xs depth n') (\<lambda>(js, n''). Inr (j # js, n'')))"
| "freeze_json_members [] depth n = Inr ([], n)"
| "freeze_json_members ((k, x) # kvs) depth n =
     rbind (freeze_json_value x depth n) (\<lambda>(j, n').
     rbind (freeze_json_members kvs depth n') (\<lambda>(ms, n''). Inr ((k, j) # ms, n'')))"
  by pat_completeness auto
termination
  by (relation "measure (\<lambda>x. case x of
      Inl (v, d, n) \<Rightarrow> 2 * size v
    | Inr (Inl (xs, d, n)) \<Rightarrow> 2 * size_list size xs + 1
    | Inr (Inr (ms, d, n)) \<Rightarrow> 2 * size_list (size_prod (\<lambda>_. 0) size) ms + 1)")
    (auto dest!: str_items_size)

declare freeze_json_value.simps [simp del]

section \<open>Canonical serialisation\<close>

text \<open>\<open>to_plain_json\<close> turns the immutable containers back into ordinary ones.\<close>

fun to_plain_json :: "json \<Rightarrow> pyobj" where
  "to_plain_json JNull = PNone"
| "to_plain_json (JBool b) = PBool b"
| "to_plain_json (JInt i) = PInt i"
| "to_plain_json (JFloat f) = PFloat f"
| "to_plain_json (JStr s) = PStr s"
| "to_plain_json (JArr js) = PList (map to_plain_json js)"
| "to_plain_json (JObj ms) = PMap (map (\<lambda>(k, j). (PStr k, to_plain_json j)) ms)"

text \<open>A frozen value as an object again: tuples and read-only mappings.\<close>

fun of_json :: "json \<Rightarrow> pyobj" where
  "of_json JNull = PNone"
| "of_json (JBool b) = PBool b"
| "of_json (JInt i) = PInt i"
| "of_json (JFloat f) = PFloat f"
| "of_json (JStr s) = PStr s"
| "of_json (JArr js) = PTuple (map of_json js)"
| "of_json (JObj ms) = PMap (map (\<lambda>(k, j). (PStr k, of_json j)) ms)"

abbreviation of_jmap :: "(pystr \<times> json) list \<Rightarrow> pyobj" where
  "of_jmap ms \<equiv> of_json (JObj ms)"

text \<open>\<open>json.dumps\<close> with \<open>ensure_ascii=False\<close>, compact separators and sorted keys.\<close>

definition escape_char :: "nat \<Rightarrow> pystr" where
  "escape_char c =
     (if c = 34 then [92, 34]
      else if c = 92 then [92, 92]
      else if c = 10 then lit [CHR 0x5C, CHR ''n'']
      else if c = 13 then lit [CHR 0x5C, CHR ''r'']
      else if c = 9 then lit [CHR 0x5C, CHR ''t'']
      else if c = 12 then lit [CHR 0x5C, CHR ''f'']
      else if c = 8 then lit [CHR 0x5C, CHR ''b'']
      else if c < 32 then lit (CHR 0x5C # ''u00'') @ [digit_char (c div 16), digit_char (c mod 16)]
      else [c])"

definition json_string :: "pystr \<Rightarrow> pystr" where
  "json_string s = [34] @ concat (map escape_char s) @ [34]"

fun intersperse :: "pystr \<Rightarrow> pystr list \<Rightarrow> pystr" where
  "intersperse sep [] = []"
| "intersperse sep [x] = x"
| "intersperse sep (x # xs) = x @ sep @ intersperse sep xs"

function canonical_json :: "json \<Rightarrow> pystr" where
  "canonical_json JNull = lit ''null''"
| "canonical_json (JBool b) = (if b then lit ''true'' else lit ''false'')"
| "canonical_json (JInt i) = int_repr i"
| "canonical_json (JFloat f) = float_repr f"
| "canonical_json (JStr s) = json_string s"
| "canonical_json (JArr js) = [91] @ intersperse [44] (map canonical_json js) @ [93]"
| "canonical_json (JObj ms) =
     [123] @ intersperse [44]
       (map (\<lambda>(k, j). json_string k @ [58] @ canonical_json j) (sort_key fst ms)) @ [125]"
  by pat_completeness auto
termination
proof (relation "measure size", goal_cases)
  case (2 js x)
  then show ?case by (simp add: size_list_estimation' less_Suc_eq_le)
next
  case (3 ms x k j)
  then have "size_list (size_prod (\<lambda>_. 0) size) ms \<ge> size_prod (\<lambda>_. 0) size (k, j)"
    by (intro size_list_estimation' [where x = "(k, j)"]) auto
  then show ?case by simp
qed simp

definition freeze_json_mapping :: "pyobj \<Rightarrow> string \<Rightarrow> (pystr \<times> json) list result" where
  "freeze_json_mapping value field_name =
     (case value of
        PMap _ \<Rightarrow>
          rbind (freeze_json_value value 0 0) (\<lambda>(frozen, _).
            case frozen of
              JObj ms \<Rightarrow>
                if MAX_JSON_BYTES < length (utf8_encode (canonical_json frozen))
                then Inl (ValueError (field_name @ '' exceeds maximum encoded size 1000000''))
                else Inr ms
            | _ \<Rightarrow> Inl (ValueError (field_name @ '' must be a JSON object'')))
      | _ \<Rightarrow> Inl (ValueError (field_name @ '' must be a JSON object'')))"

section \<open>What the validators accept\<close>

lemma require_utf8_encodable_eq_Inr [result_simps]:
  "require_utf8_encodable v f = Inr s \<longleftrightarrow> v = PStr s \<and> utf8_encodable s"
  by (cases v) (auto simp: require_utf8_encodable_def)

lemma require_non_empty_eq_Inr [result_simps]:
  "require_non_empty v f = Inr s \<longleftrightarrow> v = PStr s \<and> \<not> blank s \<and> utf8_encodable s"
  by (cases v) (auto simp: require_non_empty_def require_utf8_encodable_def)

lemma require_optional_non_empty_eq_Inr [result_simps]:
  "require_optional_non_empty v f = Inr t \<longleftrightarrow>
     (v = PNone \<and> t = None \<or> (\<exists>s. v = PStr s \<and> t = Some s \<and> \<not> blank s \<and> utf8_encodable s))"
  by (cases v) (auto simp: require_optional_non_empty_def rbind_eq_Inr require_non_empty_eq_Inr)

lemma require_integer_eq_Inr [result_simps]:
  "require_integer v f m = Inr i \<longleftrightarrow> v = PInt i \<and> m \<le> i"
  by (cases v) (auto simp: require_integer_def)

lemma float_of_int_finite: "float_of_int i = Inr x \<Longrightarrow> isfinite x"
  by (auto simp: float_of_int_def split: pyfloat.splits) (metis isfinite.simps(1))

lemma require_finite_number_finite: "require_finite_number v f = Inr x \<Longrightarrow> isfinite x"
  by (cases v) (auto simp: require_finite_number_def float_of_int_finite split: if_splits)

lemma require_finite_number_PFloat [simp]:
  "isfinite x \<Longrightarrow> require_finite_number (PFloat x) f = Inr x"
  by (simp add: require_finite_number_def)

section \<open>Freezing raises nothing but ValueError\<close>

lemma require_utf8_encodable_raises [error_intros]: "raises_only is_ValueError (require_utf8_encodable v f)"
  by (cases v) (auto simp: require_utf8_encodable_def intro!: error_intros)

lemma require_non_empty_raises [error_intros]: "raises_only is_ValueError (require_non_empty v f)"
  by (cases v) (auto simp: require_non_empty_def intro!: error_intros)

lemma freeze_raises:
  "raises_only is_ValueError (freeze_json_value v d n)"
  "raises_only is_ValueError (freeze_json_items xs d n)"
  "raises_only is_ValueError (freeze_json_members kvs d n)"
proof (induction v d n and xs d n and kvs d n
    rule: freeze_json_value_freeze_json_items_freeze_json_members.induct)
  case (1 v d n)
  then show ?case
    by (subst freeze_json_value.simps)
      (auto simp: Let_def intro!: error_intros split: pyobj.split option.split)
qed (auto intro!: error_intros split: prod.split)

lemma freeze_json_mapping_raises [error_intros]: "raises_only is_ValueError (freeze_json_mapping v f)"
  by (auto simp: freeze_json_mapping_def freeze_raises intro!: error_intros split: pyobj.split json.split prod.split)

section \<open>Frozen values\<close>

text \<open>
  What freezing establishes: strings are encodable, numbers finite, the members of every object
  strictly sorted by key. \<open>json_height\<close> is the depth of the deepest nested value and
  \<open>json_items\<close> the number of elements and members of all containers, the two quantities the
  limits are about.
\<close>

fun json_height :: "json \<Rightarrow> nat" where
  "json_height (JArr js) = foldr max (map (\<lambda>j. Suc (json_height j)) js) 0"
| "json_height (JObj ms) = foldr max (map (\<lambda>(k, j). Suc (json_height j)) ms) 0"
| "json_height _ = 0"

fun json_items :: "json \<Rightarrow> nat" where
  "json_items (JArr js) = length js + sum_list (map json_items js)"
| "json_items (JObj ms) = length ms + sum_list (map (\<lambda>(k, j). json_items j) ms)"
| "json_items _ = 0"

fun frozen :: "json \<Rightarrow> bool" where
  "frozen (JStr s) = utf8_encodable s"
| "frozen (JFloat f) = isfinite f"
| "frozen (JArr js) = list_all frozen js"
| "frozen (JObj ms) =
     (sorted (keys ms) \<and> distinct (keys ms) \<and>
      list_all (\<lambda>(k, j). utf8_encodable k \<and> frozen j) ms)"
| "frozen _ = True"

text \<open>A Python dictionary has no key twice.\<close>

fun dict_keys_distinct :: "pyobj \<Rightarrow> bool" where
  "dict_keys_distinct (PMap kvs) =
     (distinct (keys kvs) \<and> list_all (\<lambda>(k, v). dict_keys_distinct v) kvs)"
| "dict_keys_distinct (PList xs) = list_all dict_keys_distinct xs"
| "dict_keys_distinct (PTuple xs) = list_all dict_keys_distinct xs"
| "dict_keys_distinct (PSequence xs) = list_all dict_keys_distinct xs"
| "dict_keys_distinct _ = True"

lemma str_items_map [simp]: "str_items (map (\<lambda>(s, v). (PStr s, v)) its) = Some its"
  by (induction its) auto

lemma str_key_eq_Some [simp]: "str_key k = Some s \<longleftrightarrow> k = PStr s"
  by (cases k) auto

lemma str_items_eq_Some: "str_items kvs = Some its \<longleftrightarrow> kvs = map (\<lambda>(s, v). (PStr s, v)) its"
proof
  show "str_items kvs = Some its \<Longrightarrow> kvs = map (\<lambda>(s, v). (PStr s, v)) its"
    by (induction kvs arbitrary: its rule: str_items.induct) (auto split: option.splits)
qed simp

lemma keys_map_PStr: "keys (map (\<lambda>(s, v). (PStr s, v)) its) = map PStr (keys its)"
  by (induction its) auto

lemma le_foldr_max: "x \<in> set xs \<Longrightarrow> (x::nat) \<le> foldr max xs 0"
  by (induction xs) (auto simp: le_max_iff_disj)

lemma json_height_JArr: "j \<in> set js \<Longrightarrow> Suc (json_height j) \<le> json_height (JArr js)"
  by (simp add: le_foldr_max)

lemma json_height_JObj: "(k, j) \<in> set ms \<Longrightarrow> Suc (json_height j) \<le> json_height (JObj ms)"
  by (auto intro!: le_foldr_max simp: image_iff split_def) (metis fst_conv snd_conv)

lemma foldr_max_le: "foldr max xs 0 \<le> (n::nat) \<longleftrightarrow> (\<forall>x \<in> set xs. x \<le> n)"
  by (induction xs) auto

text \<open>Everything a successful freeze says about its result.\<close>

definition freeze_post :: "json \<Rightarrow> nat \<Rightarrow> nat \<Rightarrow> nat \<Rightarrow> bool" where
  "freeze_post j d n n' \<longleftrightarrow>
     frozen j \<and> d + json_height j \<le> MAX_JSON_DEPTH \<and> n' = n + json_items j \<and>
     (0 < json_items j \<longrightarrow> n' \<le> MAX_JSON_ITEMS)"

lemma item_count_step:
  fixes n :: nat
  assumes "n1 = n + a" "0 < a \<longrightarrow> n1 \<le> m" "n' = n1 + b" "0 < b \<longrightarrow> n' \<le> m"
  shows "n' = n + (a + b) \<and> (0 < a + b \<longrightarrow> n' \<le> m)"
  using assms by auto

lemma freeze_establishes:
  shows "dict_keys_distinct v \<Longrightarrow> freeze_json_value v d n = Inr (j, n') \<Longrightarrow> freeze_post j d n n'"
    and "list_all dict_keys_distinct xs \<Longrightarrow> freeze_json_items xs d n = Inr (js, n') \<Longrightarrow>
      length js = length xs \<and> list_all frozen js \<and>
      (\<forall>j \<in> set js. d + json_height j \<le> MAX_JSON_DEPTH) \<and>
      n' = n + sum_list (map json_items js) \<and>
      (0 < sum_list (map json_items js) \<longrightarrow> n' \<le> MAX_JSON_ITEMS)"
    and "list_all (\<lambda>(k, v). dict_keys_distinct v) kvs \<Longrightarrow>
      freeze_json_members kvs d n = Inr (ms, n') \<Longrightarrow>
      keys ms = keys kvs \<and> list_all (\<lambda>(k, j). frozen j) ms \<and>
      (\<forall>(k, j) \<in> set ms. d + json_height j \<le> MAX_JSON_DEPTH) \<and>
      n' = n + sum_list (map (\<lambda>(k, j). json_items j) ms) \<and>
      (0 < sum_list (map (\<lambda>(k, j). json_items j) ms) \<longrightarrow> n' \<le> MAX_JSON_ITEMS)"
proof (induction v d n and xs d n and kvs d n arbitrary: j n' and js n' and ms n'
    rule: freeze_json_value_freeze_json_items_freeze_json_members.induct)
  case (1 v d n)
  note value_def = freeze_json_value.simps [of _ d n]
  have arr: "freeze_post (JArr js) d n m"
    if "\<not> MAX_JSON_DEPTH < d" "\<not> MAX_JSON_ITEMS < n + length xs"
      "length js = length xs \<and> list_all frozen js \<and>
       (\<forall>j \<in> set js. d + 1 + json_height j \<le> MAX_JSON_DEPTH) \<and>
       m = n + length xs + sum_list (map json_items js) \<and>
       (0 < sum_list (map json_items js) \<longrightarrow> m \<le> MAX_JSON_ITEMS)"
    for js m and xs :: "pyobj list"
  proof -
    have "json_height (JArr js) \<le> MAX_JSON_DEPTH - d"
      using that by (fastforce simp: foldr_max_le)
    moreover have "m \<le> MAX_JSON_ITEMS"
      using that by (cases "sum_list (map json_items js) = 0") linarith+
    ultimately show ?thesis using that by (simp add: freeze_post_def)
  qed
  show ?case
  proof (cases v)
    case (PMap kvs)
    with "1.prems" obtain its ms where
      its: "str_items kvs = Some its" and k8: "list_all (\<lambda>(k, _). utf8_encodable k) its"
      and fm: "freeze_json_members (sort_key fst its) (d + 1) (n + length kvs) = Inr (ms, n')"
      and j: "j = JObj ms" and dn: "\<not> MAX_JSON_DEPTH < d" "\<not> MAX_JSON_ITEMS < n + length kvs"
      by (auto simp: value_def Let_def rbind_eq_Inr split: if_splits option.splits)
    have kvs: "kvs = map (\<lambda>(s, v). (PStr s, v)) its" using its by (simp add: str_items_eq_Some)
    have "keys kvs = map PStr (keys its)" unfolding kvs by (rule keys_map_PStr)
    then have "distinct (map PStr (keys its))" using "1.prems"(1) PMap by (metis dict_keys_distinct.simps(1))
    then have dk: "distinct (keys its)" by (simp only: distinct_map)
    moreover have "list_all (\<lambda>(k, v). dict_keys_distinct v) its"
      using "1.prems"(1) by (auto simp: PMap kvs list_all_iff)
    ultimately have dk: "distinct (keys its)" "list_all (\<lambda>(k, v). dict_keys_distinct v) its" .
    have IH: "keys ms = keys (sort_key fst its) \<and> list_all (\<lambda>(k, j). frozen j) ms \<and>
      (\<forall>(k, j) \<in> set ms. d + 1 + json_height j \<le> MAX_JSON_DEPTH) \<and>
      n' = n + length kvs + sum_list (map (\<lambda>(k, j). json_items j) ms) \<and>
      (0 < sum_list (map (\<lambda>(k, j). json_items j) ms) \<longrightarrow> n' \<le> MAX_JSON_ITEMS)"
      by (rule "1.IH"(4) [OF dn(1) PMap refl dn(2) its k8 _ fm]) (use dk in \<open>simp add: list_all_iff\<close>)
    have len: "length ms = length kvs"
      using IH kvs by (metis length_map length_sort)
    have srt: "sorted (keys ms)" using IH by (metis sorted_sort_key)
    have dst: "distinct (keys ms)"
      using IH dk(1) by (simp add: distinct_map_sort_key)
    have k8': "list_all (\<lambda>(k, j). utf8_encodable k \<and> frozen j) ms"
    proof -
      have "fst ` set ms = fst ` set its" using IH by (metis set_map set_sort)
      then have "\<forall>k \<in> fst ` set ms. utf8_encodable k" using k8 by (auto simp: list_all_iff)
      with IH show ?thesis by (fastforce simp: list_all_iff)
    qed
    have "json_height (JObj ms) \<le> MAX_JSON_DEPTH - d"
      using IH by (fastforce simp: foldr_max_le)
    moreover have "n' \<le> MAX_JSON_ITEMS"
      using IH dn by (cases "sum_list (map (\<lambda>(k, j). json_items j) ms) = 0") linarith+
    ultimately show ?thesis using IH srt dst k8' len dn j by (simp add: freeze_post_def)
  next
    case (PList xs)
    with "1.prems" obtain js where j: "j = JArr js"
      and f: "freeze_json_items xs (d + 1) (n + length xs) = Inr (js, n')"
      and dn: "\<not> MAX_JSON_DEPTH < d" "\<not> MAX_JSON_ITEMS < n + length xs"
      by (auto simp: value_def Let_def rbind_eq_Inr split: if_splits)
    have "list_all dict_keys_distinct xs" using "1.prems"(1) PList by simp
    from arr [OF dn "1.IH"(1) [OF dn(1) PList refl dn(2) this f]] show ?thesis by (simp only: j)
  next
    case (PTuple xs)
    with "1.prems" obtain js where j: "j = JArr js"
      and f: "freeze_json_items xs (d + 1) (n + length xs) = Inr (js, n')"
      and dn: "\<not> MAX_JSON_DEPTH < d" "\<not> MAX_JSON_ITEMS < n + length xs"
      by (auto simp: value_def Let_def rbind_eq_Inr split: if_splits)
    have "list_all dict_keys_distinct xs" using "1.prems"(1) PTuple by simp
    from arr [OF dn "1.IH"(2) [OF dn(1) PTuple refl dn(2) this f]] show ?thesis by (simp only: j)
  next
    case (PSequence xs)
    with "1.prems" obtain js where j: "j = JArr js"
      and f: "freeze_json_items xs (d + 1) (n + length xs) = Inr (js, n')"
      and dn: "\<not> MAX_JSON_DEPTH < d" "\<not> MAX_JSON_ITEMS < n + length xs"
      by (auto simp: value_def Let_def rbind_eq_Inr split: if_splits)
    have "list_all dict_keys_distinct xs" using "1.prems"(1) PSequence by simp
    from arr [OF dn "1.IH"(3) [OF dn(1) PSequence refl dn(2) this f]] show ?thesis by (simp only: j)
  qed (use "1.prems" in \<open>auto simp: value_def freeze_post_def rbind_eq_Inr require_utf8_encodable_eq_Inr split: if_splits\<close>)
next
  case (3 x xs d n)
  then obtain j1 n1 js1 where fx: "freeze_json_value x d n = Inr (j1, n1)"
    and fxs: "freeze_json_items xs d n1 = Inr (js1, n')" and js: "js = j1 # js1"
    by (auto simp: rbind_eq_Inr)
  have dd: "dict_keys_distinct x" "list_all dict_keys_distinct xs" using "3.prems" by simp_all
  have post: "freeze_post j1 d n n1" by (rule "3.IH"(1) [OF dd(1) fx])
  have "length js1 = length xs \<and> list_all frozen js1 \<and>
      (\<forall>j \<in> set js1. d + json_height j \<le> MAX_JSON_DEPTH) \<and>
      n' = n1 + sum_list (map json_items js1) \<and>
      (0 < sum_list (map json_items js1) \<longrightarrow> n' \<le> MAX_JSON_ITEMS)"
    by (rule "3.IH"(2) [OF fx refl dd(2) fxs])
  note tail = this
  have "n' = n + (json_items j1 + sum_list (map json_items js1)) \<and>
      (0 < json_items j1 + sum_list (map json_items js1) \<longrightarrow> n' \<le> MAX_JSON_ITEMS)"
    by (rule item_count_step [of n1]) (use post [unfolded freeze_post_def] tail in blast)+
  with post [unfolded freeze_post_def] tail show ?case unfolding js by auto
next
  case (5 k x kvs d n)
  then obtain j1 n1 ms1 where fx: "freeze_json_value x d n = Inr (j1, n1)"
    and fxs: "freeze_json_members kvs d n1 = Inr (ms1, n')" and ms: "ms = (k, j1) # ms1"
    by (auto simp: rbind_eq_Inr)
  have dd: "dict_keys_distinct x" "list_all (\<lambda>(k, v). dict_keys_distinct v) kvs"
    using "5.prems" by simp_all
  have post: "freeze_post j1 d n n1" by (rule "5.IH"(1) [OF dd(1) fx])
  have "keys ms1 = keys kvs \<and> list_all (\<lambda>(k, j). frozen j) ms1 \<and>
      (\<forall>(k, j) \<in> set ms1. d + json_height j \<le> MAX_JSON_DEPTH) \<and>
      n' = n1 + sum_list (map (\<lambda>(k, j). json_items j) ms1) \<and>
      (0 < sum_list (map (\<lambda>(k, j). json_items j) ms1) \<longrightarrow> n' \<le> MAX_JSON_ITEMS)"
    by (rule "5.IH"(2) [OF fx refl dd(2) fxs])
  note tail = this
  have "n' = n + (json_items j1 + sum_list (map (\<lambda>(k, j). json_items j) ms1)) \<and>
      (0 < json_items j1 + sum_list (map (\<lambda>(k, j). json_items j) ms1) \<longrightarrow> n' \<le> MAX_JSON_ITEMS)"
    by (rule item_count_step [of n1]) (use post [unfolded freeze_post_def] tail in blast)+
  with post [unfolded freeze_post_def] tail show ?case unfolding ms by auto
qed auto

section \<open>Thawing and freezing again\<close>

definition fits :: "json \<Rightarrow> nat \<Rightarrow> nat \<Rightarrow> bool" where
  "fits j d n \<longleftrightarrow> frozen j \<and> d + json_height j \<le> MAX_JSON_DEPTH \<and> n + json_items j \<le> MAX_JSON_ITEMS"

lemma freeze_json_items_map:
  assumes "\<And>j d n. j \<in> set js \<Longrightarrow> fits j d n \<Longrightarrow> freeze_json_value (f j) d n = Inr (j, n + json_items j)"
    and "list_all frozen js" "\<forall>j \<in> set js. d + json_height j \<le> MAX_JSON_DEPTH"
    and "n + sum_list (map json_items js) \<le> MAX_JSON_ITEMS"
  shows "freeze_json_items (map f js) d n = Inr (js, n + sum_list (map json_items js))"
  using assms by (induction js arbitrary: n) (auto simp: fits_def algebra_simps)

lemma freeze_json_members_map:
  assumes "\<And>k j d n. (k, j) \<in> set ms \<Longrightarrow> fits j d n \<Longrightarrow> freeze_json_value (f j) d n = Inr (j, n + json_items j)"
    and "list_all (\<lambda>(k, j). frozen j) ms" "\<forall>(k, j) \<in> set ms. d + json_height j \<le> MAX_JSON_DEPTH"
    and "n + sum_list (map (\<lambda>(k, j). json_items j) ms) \<le> MAX_JSON_ITEMS"
  shows "freeze_json_members (map (\<lambda>(k, j). (k, f j)) ms) d n =
    Inr (ms, n + sum_list (map (\<lambda>(k, j). json_items j) ms))"
  using assms
proof (induction ms arbitrary: n)
  case (Cons m ms)
  obtain k j where m: "m = (k, j)" by (cases m)
  have "freeze_json_value (f j) d n = Inr (j, n + json_items j)"
    using Cons.prems(2-) by (intro Cons.prems(1) [of k]) (simp_all add: m fits_def)
  moreover have "freeze_json_members (map (\<lambda>(k, j). (k, f j)) ms) d (n + json_items j) =
      Inr (ms, n + json_items j + sum_list (map (\<lambda>(k, j). json_items j) ms))"
  proof (rule Cons.IH)
    show "freeze_json_value (f j') d' n' = Inr (j', n' + json_items j')"
      if "(k', j') \<in> set ms" "fits j' d' n'" for k' j' d' n'
      using Cons.prems(1) [of k' j'] that by simp
  qed (use Cons.prems(2-) in \<open>simp_all add: m\<close>)
  ultimately show ?case by (simp add: m)
qed simp

lemma freeze_JArr_cases:
  assumes fit: "fits (JArr js) d n"
    and IH: "\<And>j d n. j \<in> set js \<Longrightarrow> fits j d n \<Longrightarrow> freeze_json_value (f j) d n = Inr (j, n + json_items j)"
    and v: "v = PList (map f js) \<or> v = PTuple (map f js)"
  shows "freeze_json_value v d n = Inr (JArr js, n + json_items (JArr js))"
proof -
  have "freeze_json_items (map f js) (d + 1) (n + length js) =
      Inr (js, n + length js + sum_list (map json_items js))"
  proof (rule freeze_json_items_map [OF IH])
    show "\<forall>j \<in> set js. d + 1 + json_height j \<le> MAX_JSON_DEPTH"
      using fit json_height_JArr by (fastforce simp: fits_def simp del: json_height.simps)
  qed (use fit in \<open>auto simp: fits_def\<close>)
  then show ?thesis using v fit by (auto simp: freeze_json_value.simps fits_def Let_def)
qed

lemma freeze_JObj_case:
  assumes fit: "fits (JObj ms) d n"
    and IH: "\<And>k j d n. (k, j) \<in> set ms \<Longrightarrow> fits j d n \<Longrightarrow> freeze_json_value (f j) d n = Inr (j, n + json_items j)"
  shows "freeze_json_value (PMap (map (\<lambda>(k, j). (PStr k, f j)) ms)) d n = Inr (JObj ms, n + json_items (JObj ms))"
proof -
  let ?its = "map (\<lambda>(k, j). (k, f j)) ms"
  have kv: "map (\<lambda>(k, j). (PStr k, f j)) ms = map (\<lambda>(s, v). (PStr s, v)) ?its" by auto
  have "keys ?its = keys ms" by (induction ms) auto
  then have "sorted (keys ?its)" using fit by (simp only: fits_def frozen.simps)
  then have "sort_key fst ?its = ?its" by (rule sort_key_sorted_id)
  moreover have "freeze_json_members ?its (d + 1) (n + length ms) =
      Inr (ms, n + length ms + sum_list (map (\<lambda>(k, j). json_items j) ms))"
  proof (rule freeze_json_members_map [OF IH])
    show "\<forall>(k, j) \<in> set ms. d + 1 + json_height j \<le> MAX_JSON_DEPTH"
      using fit json_height_JObj by (fastforce simp: fits_def simp del: json_height.simps)
  qed (use fit in \<open>auto simp: fits_def list_all_iff\<close>)
  moreover have "list_all (\<lambda>(k, _). utf8_encodable k) ?its" using fit by (auto simp: fits_def list_all_iff)
  ultimately show ?thesis using fit unfolding kv
    by (simp add: freeze_json_value.simps fits_def Let_def del: map_map)
qed

lemma freeze_to_plain: "fits j d n \<Longrightarrow> freeze_json_value (to_plain_json j) d n = Inr (j, n + json_items j)"
proof (induction j arbitrary: d n rule: to_plain_json.induct)
  case (6 js)
  then show ?case by (intro freeze_JArr_cases) auto
next
  case (7 ms)
  then show ?case by (simp only: to_plain_json.simps of_json.simps) (intro freeze_JObj_case, auto)
qed (auto simp: freeze_json_value.simps fits_def require_utf8_encodable_def)

lemma freeze_of_json: "fits j d n \<Longrightarrow> freeze_json_value (of_json j) d n = Inr (j, n + json_items j)"
proof (induction j arbitrary: d n rule: of_json.induct)
  case (6 js)
  then show ?case by (intro freeze_JArr_cases) auto
next
  case (7 ms)
  then show ?case by (simp only: to_plain_json.simps of_json.simps) (intro freeze_JObj_case, auto)
qed (auto simp: freeze_json_value.simps fits_def require_utf8_encodable_def)

text \<open>
  The invariant of every metadata field: the value is frozen, within the depth and item limits,
  and its canonical form is within the byte limit.
\<close>

definition frozen_mapping :: "(pystr \<times> json) list \<Rightarrow> bool" where
  "frozen_mapping ms \<longleftrightarrow>
     fits (JObj ms) 0 0 \<and> length (utf8_encode (canonical_json (JObj ms))) \<le> MAX_JSON_BYTES"

lemma freeze_json_mapping_frozen:
  assumes "dict_keys_distinct v" "freeze_json_mapping v f = Inr ms"
  shows "frozen_mapping ms"
proof -
  obtain kvs where kvs: "v = PMap kvs" using assms(2) by (cases v) (auto simp: freeze_json_mapping_def)
  with assms(2) obtain a n where a: "freeze_json_value v 0 0 = Inr (a, n)"
    by (auto simp: freeze_json_mapping_def rbind_eq_Inr)
  have v: "freeze_json_value v 0 0 = Inr (JObj ms, n)"
    and len: "length (utf8_encode (canonical_json (JObj ms))) \<le> MAX_JSON_BYTES"
    using assms(2) a unfolding freeze_json_mapping_def kvs
    by (cases a; simp del: canonical_json.simps split: if_splits)+
  have post: "freeze_post (JObj ms) 0 0 n" by (rule freeze_establishes(1) [OF assms(1) v])
  then show ?thesis using len
    by (cases "json_items (JObj ms) = 0") (auto simp: frozen_mapping_def fits_def freeze_post_def)
qed

lemma freeze_json_mapping_thaw:
  assumes "frozen_mapping ms"
  shows "freeze_json_mapping (of_jmap ms) f = Inr ms"
    and "freeze_json_mapping (to_plain_json (JObj ms)) f = Inr ms"
proof -
  have fit: "fits (JObj ms) 0 0" and len: "\<not> MAX_JSON_BYTES < length (utf8_encode (canonical_json (JObj ms)))"
    using assms by (auto simp: frozen_mapping_def)
  show "freeze_json_mapping (of_jmap ms) f = Inr ms"
    using freeze_of_json [OF fit] len by (simp add: freeze_json_mapping_def del: canonical_json.simps)
  show "freeze_json_mapping (to_plain_json (JObj ms)) f = Inr ms"
    using freeze_to_plain [OF fit] len by (simp add: freeze_json_mapping_def del: canonical_json.simps)
qed

lemma str_items_closed:
  "str_items kvs =
     (if \<forall>kv \<in> set kvs. str_key (fst kv) \<noteq> None
      then Some (map (\<lambda>(k, v). (the (str_key k), v)) kvs) else None)"
  by (induction kvs rule: str_items.induct) (auto split: option.splits)

text \<open>Two dictionaries with the same members in another insertion order freeze alike.\<close>

lemma freeze_json_value_PMap_mset:
  assumes eq: "mset kvs = mset kvs'" and dk: "distinct (keys kvs)"
  shows "freeze_json_value (PMap kvs) d n = freeze_json_value (PMap kvs') d n"
proof -
  let ?its = "map (\<lambda>(k, v). (the (str_key k), v))"
  have len: "length kvs = length kvs'" using eq by (rule mset_eq_length)
  have st: "set kvs = set kvs'" using eq by (rule mset_eq_setD)
  have utf: "list_all (\<lambda>(k, _). utf8_encodable k) (?its kvs) \<longleftrightarrow>
      list_all (\<lambda>(k, _). utf8_encodable k) (?its kvs')"
    using st by (simp add: list_all_iff)
  show ?thesis
  proof (cases "\<forall>kv \<in> set kvs. str_key (fst kv) \<noteq> None")
    case True
    then have si: "str_items kvs = Some (?its kvs)" by (subst str_items_closed) (rule if_P)
    have si': "str_items kvs' = Some (?its kvs')"
      using True st by (subst str_items_closed) (metis (no_types, lifting))
    have "keys kvs = map PStr (keys (?its kvs))" using si by (metis str_items_eq_Some keys_map_PStr)
    then have "inj_on fst (set (?its kvs))" using dk by (metis distinct_map)
    moreover have "mset (?its kvs) = mset (?its kvs')" using eq by simp
    ultimately have "sort_key fst (?its kvs) = sort_key fst (?its kvs')"
      by (intro sort_key_permutation)
    then show ?thesis by (simp add: freeze_json_value.simps si si' len utf Let_def)
  next
    case False
    then have "str_items kvs = None" "str_items kvs' = None"
      using st by (subst str_items_closed, simp only: if_False)+
    then show ?thesis by (simp add: freeze_json_value.simps len Let_def)
  qed
qed

section \<open>Properties\<close>

text \<open>
  C5: a mapping accepted by \<open>freeze_json_mapping\<close> is frozen (encodable strings, finite numbers, strictly
  sorted keys) and within the depth, item and byte limits; freezing it again, or freezing the
  plain containers \<open>to_plain_json\<close> makes of it, gives it back unchanged.
\<close>

theorem freeze_json_mapping_roundtrip:
  assumes "dict_keys_distinct v" "freeze_json_mapping v f = Inr ms"
  shows "frozen_mapping ms \<and>
    freeze_json_mapping (of_jmap ms) g = Inr ms \<and>
    freeze_json_mapping (to_plain_json (JObj ms)) g = Inr ms"
  using freeze_json_mapping_frozen [OF assms] freeze_json_mapping_thaw by blast

lemma freeze_example:
  "freeze_json_mapping (PMap [(PStr [98], PInt 1), (PStr [97], PList [PNone])]) ''metadata'' =
    Inr [([97], JArr [JNull]), ([98], JInt 1)]"
  by (simp add: freeze_json_mapping_def freeze_json_value.simps MAX_JSON_DEPTH_def MAX_JSON_ITEMS_def
      MAX_JSON_BYTES_def Let_def utf8_encodable_def surrogate_def json_string_def escape_char_def
      lit_def utf8_encode_def utf8_char_def int_repr_def nat_digits.simps digit_char_def)

theorem freeze_json_mapping_roundtrip_witness:
  "frozen_mapping [([97], JArr [JNull]), ([98], JInt 1)] \<and>
   freeze_json_mapping (of_jmap [([97], JArr [JNull]), ([98], JInt 1)]) ''metadata'' =
     Inr [([97], JArr [JNull]), ([98], JInt 1)] \<and>
   freeze_json_mapping (to_plain_json (JObj [([97], JArr [JNull]), ([98], JInt 1)])) ''metadata'' =
     Inr [([97], JArr [JNull]), ([98], JInt 1)]"
  by (rule freeze_json_mapping_roundtrip [OF _ freeze_example]) simp

text \<open>
  C6: the frozen form does not depend on the insertion order of the dictionary: two dictionaries
  with the same members are accepted alike, frozen alike and rejected with the same error.
\<close>

theorem freeze_json_mapping_order_independent:
  assumes "mset kvs = mset kvs'" "distinct (keys kvs)"
  shows "freeze_json_mapping (PMap kvs) f = freeze_json_mapping (PMap kvs') f"
  using freeze_json_value_PMap_mset [OF assms] by (simp add: freeze_json_mapping_def)

theorem freeze_json_mapping_order_independent_witness:
  "freeze_json_mapping (PMap [(PStr [98], PInt 1), (PStr [97], PNone)]) ''metadata'' =
   freeze_json_mapping (PMap [(PStr [97], PNone), (PStr [98], PInt 1)]) ''metadata''"
  by (rule freeze_json_mapping_order_independent) simp_all

lemma is_hex_lower: "is_hex c \<Longrightarrow> is_hex (lower_ascii c) \<and> lower_ascii (lower_ascii c) = lower_ascii c"
  by (auto simp: is_hex_def lower_ascii_def)

lemma uuid_match_lower:
  assumes "uuid_match s"
  shows "uuid_match (map lower_ascii s) \<and> map lower_ascii (map lower_ascii s) = map lower_ascii s"
proof -
  have nth: "if i \<in> {8, 13, 18, 23} then s ! i = 45 else is_hex (s ! i)" and len: "length s = 36"
    if "i < 36" for i using assms that by (auto simp: uuid_match_def)
  have "lower_ascii (lower_ascii (s ! i)) = lower_ascii (s ! i)" if "i < 36" for i
    using nth [OF that] by (auto simp: is_hex_lower lower_ascii_def split: if_splits)
  moreover have "if i \<in> {8, 13, 18, 23} then lower_ascii (s ! i) = 45 else is_hex (lower_ascii (s ! i))"
    if "i < 36" for i using nth [OF that] is_hex_lower by (auto simp: lower_ascii_def split: if_splits)
  moreover have "length s = 36" by (rule len [of 0]) simp
  ultimately show ?thesis by (auto simp: uuid_match_def in_set_conv_nth)
qed

lemma normalize_again:
  assumes "normalize_request_id v f = Inr s"
  shows "normalize_request_id (PStr s) g = Inr s"
proof -
  obtain t where v: "v = PStr t" using assms by (cases v) (auto simp: normalize_request_id_def)
  then consider "uuid_match t" "s = map lower_ascii t" | "\<not> uuid_match s" "ulid_match s"
    using assms by (auto simp: normalize_request_id_def split: if_splits)
  then show ?thesis
  proof cases
    case 1
    then show ?thesis using uuid_match_lower [of t] by (simp add: normalize_request_id_def)
  qed (simp add: normalize_request_id_def)
qed

text \<open>
  A correlation identity that was accepted is canonical: normalising it again returns it
  unchanged, so the identity of a request is stable however often it crosses a boundary.
\<close>

theorem normalize_request_id_idempotent:
  assumes "normalize_request_id v f = Inr s"
  shows "normalize_request_id (PStr s) g = Inr s"
  by (rule normalize_again [OF assms])

lemma normalize_example:
  "normalize_request_id (PStr (lit ''0A1b2C3d-4E5f-6071-8293-A4b5C6d7E8f9'')) ''request_id'' =
    Inr (lit ''0a1b2c3d-4e5f-6071-8293-a4b5c6d7e8f9'')"
  by code_simp

theorem normalize_request_id_idempotent_witness:
  "normalize_request_id (PStr (lit ''0a1b2c3d-4e5f-6071-8293-a4b5c6d7e8f9'')) ''request_id'' =
    Inr (lit ''0a1b2c3d-4e5f-6071-8293-a4b5c6d7e8f9'')"
  by (rule normalize_request_id_idempotent [OF normalize_example])

end
