(* ===== verification/Core_Resources.thy ===== *)
theory Core_Resources
  imports Core_Common
begin

text \<open>
  \<open>domain/resources.py\<close>, \<open>domain/vectors.py\<close>, \<open>domain/batches.py\<close> and
  \<open>domain/publication.py\<close>. A frozen dataclass is a \<open>record\<close> together with its constructor
  \<open>new_X\<close>, which is \<open>__post_init__\<close>: it takes the arguments as the caller supplied them
  (scalars and metadata as \<open>pyobj\<close>, instances of record classes as \<open>anyobj\<close>, sequences as
  \<open>pyseq\<close>) and returns the record or the exception. \<open>wf_X\<close> is the invariant every instance
  has; \<open>new_X\<close> establishes it and gives back a well-formed record from its own fields.
\<close>

section \<open>Arguments\<close>

type_synonym jmap = "(pystr \<times> json) list"

definition opt_str :: "pystr option \<Rightarrow> pyobj" where
  "opt_str x = (case x of None \<Rightarrow> PNone | Some s \<Rightarrow> PStr s)"

definition opt_int :: "int option \<Rightarrow> pyobj" where
  "opt_int x = (case x of None \<Rightarrow> PNone | Some i \<Rightarrow> PInt i)"

definition opt_float :: "pyfloat option \<Rightarrow> pyobj" where
  "opt_float x = (case x of None \<Rightarrow> PNone | Some f \<Rightarrow> PFloat f)"

lemma opt_str_simps [simp]: "opt_str None = PNone" "opt_str (Some s) = PStr s"
  by (simp_all add: opt_str_def)

lemma opt_int_simps [simp]: "opt_int None = PNone" "opt_int (Some i) = PInt i"
  by (simp_all add: opt_int_def)

lemma opt_float_simps [simp]: "opt_float None = PNone" "opt_float (Some f) = PFloat f"
  by (simp_all add: opt_float_def)

text \<open>\<open>isinstance(x, T)\<close> for a record class, with the message of the failing branch.\<close>

fun require_instance :: "'a anyobj \<Rightarrow> string \<Rightarrow> 'a result" where
  "require_instance (Typed x) msg = Inr x"
| "require_instance Untyped msg = Inl (ValueError msg)"

lemma require_instance_eq_Inr [result_simps]: "require_instance a m = Inr x \<longleftrightarrow> a = Typed x"
  by (cases a) auto

text \<open>\<open>if x is not None: require_utf8_encodable(x)\<close>.\<close>

definition require_optional_utf8 :: "pyobj \<Rightarrow> string \<Rightarrow> pystr option result" where
  "require_optional_utf8 value field_name =
     (case value of
        PNone \<Rightarrow> Inr None
      | _ \<Rightarrow> rbind (require_utf8_encodable value field_name) (\<lambda>s. Inr (Some s)))"

lemma require_optional_utf8_eq_Inr [result_simps]:
  "require_optional_utf8 v f = Inr t \<longleftrightarrow>
     (v = PNone \<and> t = None \<or> (\<exists>s. v = PStr s \<and> t = Some s \<and> utf8_encodable s))"
  by (cases v) (auto simp: require_optional_utf8_def rbind_eq_Inr require_utf8_encodable_eq_Inr)

section \<open>Names of the vocabulary\<close>

definition REPRESENTATION_RETRIEVAL_TEXT :: pystr where "REPRESENTATION_RETRIEVAL_TEXT = lit ''retrieval_text''"
definition TOKEN_COUNT_EXACT :: pystr where "TOKEN_COUNT_EXACT = lit ''exact''"
definition TOKEN_COUNT_ESTIMATED :: pystr where "TOKEN_COUNT_ESTIMATED = lit ''estimated''"
definition TOKEN_COUNT_KINDS :: "pystr list" where
  "TOKEN_COUNT_KINDS = [TOKEN_COUNT_EXACT, TOKEN_COUNT_ESTIMATED]"

definition METRIC_COSINE :: pystr where "METRIC_COSINE = lit ''cosine''"
definition METRIC_DOT :: pystr where "METRIC_DOT = lit ''dot''"
definition METRIC_L2 :: pystr where "METRIC_L2 = lit ''l2''"
definition METRICS :: "pystr list" where "METRICS = [METRIC_COSINE, METRIC_DOT, METRIC_L2]"

section \<open>Resources\<close>

definition validate_token_count :: "pyobj \<Rightarrow> pyobj \<Rightarrow> (int option \<times> pystr option) result" where
  "validate_token_count token_count token_count_kind =
     (if token_count = PNone \<and> token_count_kind = PNone then Inr (None, None)
      else if token_count = PNone \<or> token_count_kind = PNone
      then Inl (ValueError ''token_count and token_count_kind must be supplied together'')
      else rbind (require_integer token_count ''token_count'' 0) (\<lambda>count.
           rbind (require_non_empty token_count_kind ''token_count_kind'') (\<lambda>kind.
           if kind \<notin> set TOKEN_COUNT_KINDS
           then Inl (ValueError ''token_count_kind must be exact or estimated'')
           else Inr (Some count, Some kind))))"

record Locator =
  loc_kind :: pystr
  loc_payload :: jmap

definition new_Locator :: "pyobj \<Rightarrow> pyobj \<Rightarrow> Locator result" where
  "new_Locator kind payload =
     rbind (require_non_empty kind ''kind'') (\<lambda>kind.
     rbind (freeze_json_mapping payload ''payload'') (\<lambda>payload.
     Inr \<lparr>loc_kind = kind, loc_payload = payload\<rparr>))"

record ResourceRecord =
  res_id :: pystr
  res_kind :: pystr
  res_media_type :: pystr
  res_source_namespace :: pystr
  res_locator :: Locator
  res_content_hash :: "pystr option"
  res_title :: "pystr option"
  res_metadata :: jmap

definition new_ResourceRecord ::
  "pyobj \<Rightarrow> pyobj \<Rightarrow> pyobj \<Rightarrow> pyobj \<Rightarrow> Locator anyobj \<Rightarrow> pyobj \<Rightarrow> pyobj \<Rightarrow> pyobj \<Rightarrow> ResourceRecord result" where
  "new_ResourceRecord resource_id resource_kind media_type source_namespace locator content_hash title metadata =
     rbind (require_non_empty resource_id ''resource_id'') (\<lambda>resource_id.
     rbind (require_non_empty resource_kind ''resource_kind'') (\<lambda>resource_kind.
     rbind (require_non_empty media_type ''media_type'') (\<lambda>media_type.
     rbind (require_non_empty source_namespace ''source_namespace'') (\<lambda>source_namespace.
     rbind (require_instance locator ''locator must be a Locator'') (\<lambda>locator.
     rbind (require_optional_non_empty content_hash ''content_hash'') (\<lambda>content_hash.
     rbind (require_optional_utf8 title ''title'') (\<lambda>title.
     rbind (freeze_json_mapping metadata ''metadata'') (\<lambda>metadata.
     Inr \<lparr>res_id = resource_id, res_kind = resource_kind, res_media_type = media_type,
          res_source_namespace = source_namespace, res_locator = locator,
          res_content_hash = content_hash, res_title = title, res_metadata = metadata\<rparr>))))))))"

record RepresentationRecord =
  rep_id :: pystr
  rep_resource_id :: pystr
  rep_kind :: pystr
  rep_modality :: pystr
  rep_text :: "pystr option"
  rep_language :: "pystr option"
  rep_producer_fingerprint :: "pystr option"
  rep_token_count :: "int option"
  rep_token_count_kind :: "pystr option"
  rep_metadata :: jmap

definition new_RepresentationRecord ::
  "pyobj \<Rightarrow> pyobj \<Rightarrow> pyobj \<Rightarrow> pyobj \<Rightarrow> pyobj \<Rightarrow> pyobj \<Rightarrow> pyobj \<Rightarrow> pyobj \<Rightarrow> pyobj \<Rightarrow> pyobj \<Rightarrow>
   RepresentationRecord result" where
  "new_RepresentationRecord representation_id resource_id representation_kind modality txt language
       producer_fingerprint token_count token_count_kind metadata =
     rbind (require_non_empty representation_id ''representation_id'') (\<lambda>representation_id.
     rbind (require_non_empty resource_id ''resource_id'') (\<lambda>resource_id.
     rbind (require_non_empty representation_kind ''representation_kind'') (\<lambda>representation_kind.
     rbind (require_non_empty modality ''modality'') (\<lambda>modality.
     rbind (require_optional_utf8 txt ''text'') (\<lambda>txt.
     rbind (require_optional_non_empty language ''language'') (\<lambda>language.
     rbind (require_optional_non_empty producer_fingerprint ''producer_fingerprint'') (\<lambda>producer_fingerprint.
     rbind (validate_token_count token_count token_count_kind) (\<lambda>(count, kind).
     rbind (freeze_json_mapping metadata ''metadata'') (\<lambda>metadata.
     Inr \<lparr>rep_id = representation_id, rep_resource_id = resource_id, rep_kind = representation_kind,
          rep_modality = modality, rep_text = txt, rep_language = language,
          rep_producer_fingerprint = producer_fingerprint, rep_token_count = count,
          rep_token_count_kind = kind, rep_metadata = metadata\<rparr>)))))))))"

record SearchUnitRecord =
  unit_id :: pystr
  unit_resource_id :: pystr
  unit_representation_id :: pystr
  unit_kind :: pystr
  unit_modality :: pystr
  unit_text :: "pystr option"
  unit_evidence_locator :: Locator
  unit_ordinal :: int
  unit_token_count :: "int option"
  unit_token_count_kind :: "pystr option"
  unit_metadata :: jmap

definition new_SearchUnitRecord ::
  "pyobj \<Rightarrow> pyobj \<Rightarrow> pyobj \<Rightarrow> pyobj \<Rightarrow> pyobj \<Rightarrow> pyobj \<Rightarrow> Locator anyobj \<Rightarrow> pyobj \<Rightarrow> pyobj \<Rightarrow> pyobj \<Rightarrow> pyobj \<Rightarrow>
   SearchUnitRecord result" where
  "new_SearchUnitRecord uid resource_id representation_id ukind modality txt evidence_locator ordinal
       token_count token_count_kind metadata =
     rbind (require_non_empty uid ''unit_id'') (\<lambda>uid.
     rbind (require_non_empty resource_id ''resource_id'') (\<lambda>resource_id.
     rbind (require_non_empty representation_id ''representation_id'') (\<lambda>representation_id.
     rbind (require_non_empty ukind ''unit_kind'') (\<lambda>ukind.
     rbind (require_non_empty modality ''modality'') (\<lambda>modality.
     rbind (require_optional_utf8 txt ''text'') (\<lambda>txt.
     rbind (require_instance evidence_locator ''evidence_locator must be a Locator'') (\<lambda>evidence_locator.
     rbind (require_integer ordinal ''ordinal'' 0) (\<lambda>ordinal.
     rbind (validate_token_count token_count token_count_kind) (\<lambda>(count, kind).
     rbind (freeze_json_mapping metadata ''metadata'') (\<lambda>metadata.
     Inr \<lparr>unit_id = uid, unit_resource_id = resource_id, unit_representation_id = representation_id,
          unit_kind = ukind, unit_modality = modality, unit_text = txt,
          unit_evidence_locator = evidence_locator, unit_ordinal = ordinal, unit_token_count = count,
          unit_token_count_kind = kind, unit_metadata = metadata\<rparr>))))))))))"

record Facet =
  facet_namespace :: pystr
  facet_value :: pystr

definition new_Facet :: "pyobj \<Rightarrow> pyobj \<Rightarrow> Facet result" where
  "new_Facet namespace value =
     rbind (require_non_empty namespace ''namespace'') (\<lambda>namespace.
     rbind (require_non_empty value ''value'') (\<lambda>value.
     Inr \<lparr>facet_namespace = namespace, facet_value = value\<rparr>))"

record ResourceFacet =
  rf_resource_id :: pystr
  rf_facet :: Facet
  rf_origin :: pystr
  rf_producer_fingerprint :: "pystr option"
  rf_confidence :: "pyfloat option"

definition validate_confidence :: "pyobj \<Rightarrow> pyfloat option result" where
  "validate_confidence confidence =
     (case confidence of
        PNone \<Rightarrow> Inr None
      | _ \<Rightarrow>
          rbind (require_finite_number confidence ''confidence'') (\<lambda>c.
          if \<not> (Fin 0 \<le> c \<and> c \<le> Fin 1) then Inl (ValueError ''confidence must be between 0 and 1'')
          else Inr (Some c)))"

definition new_ResourceFacet ::
  "pyobj \<Rightarrow> Facet anyobj \<Rightarrow> pyobj \<Rightarrow> pyobj \<Rightarrow> pyobj \<Rightarrow> ResourceFacet result" where
  "new_ResourceFacet resource_id facet origin producer_fingerprint confidence =
     rbind (require_non_empty resource_id ''resource_id'') (\<lambda>resource_id.
     rbind (require_instance facet ''facet must be a Facet'') (\<lambda>facet.
     rbind (require_non_empty origin ''origin'') (\<lambda>origin.
     rbind (require_optional_non_empty producer_fingerprint ''producer_fingerprint'') (\<lambda>producer_fingerprint.
     rbind (validate_confidence confidence) (\<lambda>confidence.
     Inr \<lparr>rf_resource_id = resource_id, rf_facet = facet, rf_origin = origin,
          rf_producer_fingerprint = producer_fingerprint, rf_confidence = confidence\<rparr>)))))"

section \<open>Vectors\<close>

definition freeze_sequence :: "pyobj \<Rightarrow> string \<Rightarrow> string \<Rightarrow> pyobj list result" where
  "freeze_sequence value field_name item_description =
     (case value of
        PList xs \<Rightarrow> Inr xs
      | PTuple xs \<Rightarrow> Inr xs
      | _ \<Rightarrow> Inl (ValueError (field_name @ '' must be a sequence of '' @ item_description)))"

definition freeze_vector :: "pyobj \<Rightarrow> string \<Rightarrow> pyfloat list result" where
  "freeze_vector value field_name =
     rbind (freeze_sequence value field_name ''finite numbers'') (\<lambda>items.
     if items = [] then Inl (ValueError (field_name @ '' must not be empty''))
     else rmap (\<lambda>(index, item). require_finite_number item (field_name @ ''['' @ show_int (int index) @ '']''))
            (enumerate 0 items))"

record EmbeddingSpaceRecord =
  space_id :: pystr
  space_dimensions :: int
  space_metric :: pystr
  space_fingerprint :: pystr
  space_metadata :: jmap

definition new_EmbeddingSpaceRecord ::
  "pyobj \<Rightarrow> pyobj \<Rightarrow> pyobj \<Rightarrow> pyobj \<Rightarrow> pyobj \<Rightarrow> EmbeddingSpaceRecord result" where
  "new_EmbeddingSpaceRecord sid dimensions metric fingerprint metadata =
     rbind (require_non_empty sid ''space_id'') (\<lambda>sid.
     rbind (require_integer dimensions ''dimensions'' 1) (\<lambda>dimensions.
     rbind (require_non_empty metric ''metric'') (\<lambda>metric.
     rbind (raise_if (metric \<notin> set METRICS) (ValueError ''metric must be cosine, dot, or l2'')) (\<lambda>_.
     rbind (require_non_empty fingerprint ''fingerprint'') (\<lambda>fingerprint.
     rbind (freeze_json_mapping metadata ''metadata'') (\<lambda>metadata.
     Inr \<lparr>space_id = sid, space_dimensions = dimensions, space_metric = metric,
          space_fingerprint = fingerprint, space_metadata = metadata\<rparr>))))))"

record VectorRecord =
  vec_unit_id :: pystr
  vec_space_id :: pystr
  vec_vector :: "pyfloat list"

definition new_VectorRecord :: "pyobj \<Rightarrow> pyobj \<Rightarrow> pyobj \<Rightarrow> VectorRecord result" where
  "new_VectorRecord uid sid vector =
     rbind (require_non_empty uid ''unit_id'') (\<lambda>uid.
     rbind (require_non_empty sid ''space_id'') (\<lambda>sid.
     rbind (freeze_vector vector ''vector'') (\<lambda>vector.
     Inr \<lparr>vec_unit_id = uid, vec_space_id = sid, vec_vector = vector\<rparr>)))"

section \<open>Batches\<close>

text \<open>\<open>_freeze_typed_sequence\<close> of \<open>batches.py\<close> and \<open>_freeze_typed\<close> of \<open>results.py\<close>.\<close>

definition freeze_typed_sequence :: "'a pyseq \<Rightarrow> string \<Rightarrow> string \<Rightarrow> 'a list result" where
  "freeze_typed_sequence value field_name item_type =
     (case value of
        PyNotSeq \<Rightarrow> Inl (ValueError (field_name @ '' must be a sequence of '' @ item_type))
      | PySeq items \<Rightarrow>
          (case typed_items items of
             None \<Rightarrow> Inl (ValueError (field_name @ '' must contain only '' @ item_type @ '' values''))
           | Some xs \<Rightarrow> Inr xs))"

record PreparedResourceBatch =
  batch_resource :: ResourceRecord
  batch_representations :: "RepresentationRecord list"
  batch_units :: "SearchUnitRecord list"
  batch_spaces :: "EmbeddingSpaceRecord list"
  batch_vectors :: "VectorRecord list"
  batch_facets :: "ResourceFacet list"

definition new_PreparedResourceBatch ::
  "ResourceRecord anyobj \<Rightarrow> RepresentationRecord pyseq \<Rightarrow> SearchUnitRecord pyseq \<Rightarrow>
   EmbeddingSpaceRecord pyseq \<Rightarrow> VectorRecord pyseq \<Rightarrow> ResourceFacet pyseq \<Rightarrow> PreparedResourceBatch result" where
  "new_PreparedResourceBatch resource representations units spaces vectors facets =
     rbind (require_instance resource ''resource must be a ResourceRecord'') (\<lambda>resource.
     rbind (freeze_typed_sequence representations ''representations'' ''RepresentationRecord'') (\<lambda>representations.
     rbind (freeze_typed_sequence units ''units'' ''SearchUnitRecord'') (\<lambda>units.
     rbind (freeze_typed_sequence spaces ''spaces'' ''EmbeddingSpaceRecord'') (\<lambda>spaces.
     rbind (freeze_typed_sequence vectors ''vectors'' ''VectorRecord'') (\<lambda>vectors.
     rbind (freeze_typed_sequence facets ''facets'' ''ResourceFacet'') (\<lambda>facets.
     Inr \<lparr>batch_resource = resource, batch_representations = representations, batch_units = units,
          batch_spaces = spaces, batch_vectors = vectors, batch_facets = facets\<rparr>))))))"

section \<open>Publication records\<close>

datatype PublicationStatus = never_created | published | live_without_projections | deleted

record PublicationState =
  pub_resource_id :: pystr
  pub_status :: PublicationStatus
  pub_lifecycle_id :: "pystr option"
  pub_state_token :: "pystr option"
  pub_source_namespace :: "pystr option"
  pub_source_locator :: "Locator option"

text \<open>\<open>status not in {...}\<close> hashes its argument: lists and mappings raise \<open>TypeError\<close>.\<close>

fun hashable :: "pyobj \<Rightarrow> bool" where
  "hashable (PList _) = False"
| "hashable (PMap _) = False"
| "hashable (PTuple xs) = list_all hashable xs"
| "hashable _ = True"

definition publication_status :: "pyobj \<Rightarrow> PublicationStatus result" where
  "publication_status status =
     (if \<not> hashable status then Inl (TypeError ''unhashable type'')
      else if status = PStr (lit ''never_created'') then Inr never_created
      else if status = PStr (lit ''published'') then Inr published
      else if status = PStr (lit ''live_without_projections'') then Inr live_without_projections
      else if status = PStr (lit ''deleted'') then Inr deleted
      else Inl (ValueError ''invalid publication status''))"

definition status_name :: "PublicationStatus \<Rightarrow> pystr" where
  "status_name s =
     (case s of
        never_created \<Rightarrow> lit ''never_created''
      | published \<Rightarrow> lit ''published''
      | live_without_projections \<Rightarrow> lit ''live_without_projections''
      | deleted \<Rightarrow> lit ''deleted'')"

text \<open>\<open>source_locator\<close> is \<open>None\<close>, an object of another class, or a \<open>Locator\<close>.\<close>

definition new_PublicationState ::
  "pyobj \<Rightarrow> pyobj \<Rightarrow> pyobj \<Rightarrow> pyobj \<Rightarrow> pyobj \<Rightarrow> Locator anyobj option \<Rightarrow> PublicationState result" where
  "new_PublicationState resource_id status lifecycle_id state_token source_namespace source_locator =
     rbind (require_non_empty resource_id ''resource_id'') (\<lambda>resource_id.
     rbind (publication_status status) (\<lambda>status.
     if status = never_created
     then
       if lifecycle_id \<noteq> PNone \<or> state_token \<noteq> PNone \<or> source_namespace \<noteq> PNone \<or> source_locator \<noteq> None
       then Inl (ValueError ''never-created state has no binding or authority'')
       else Inr \<lparr>pub_resource_id = resource_id, pub_status = status, pub_lifecycle_id = None,
                 pub_state_token = None, pub_source_namespace = None, pub_source_locator = None\<rparr>
     else
       rbind (require_non_empty lifecycle_id ''publication identity'') (\<lambda>lifecycle_id.
       rbind (require_non_empty state_token ''publication identity'') (\<lambda>state_token.
       rbind (require_non_empty source_namespace ''publication identity'') (\<lambda>source_namespace.
       case source_locator of
         Some (Typed locator) \<Rightarrow>
           Inr \<lparr>pub_resource_id = resource_id, pub_status = status, pub_lifecycle_id = Some lifecycle_id,
                pub_state_token = Some state_token, pub_source_namespace = Some source_namespace,
                pub_source_locator = Some locator\<rparr>
       | _ \<Rightarrow> Inl (TypeError ''source_locator must be Locator''))))))"

definition live :: "PublicationState \<Rightarrow> bool" where
  "live st \<longleftrightarrow> pub_status st \<in> {published, live_without_projections}"

record ExpectedPublication =
  exp_state :: PublicationState
  exp_create :: bool

definition new_ExpectedPublication :: "PublicationState anyobj \<Rightarrow> pyobj \<Rightarrow> ExpectedPublication result" where
  "new_ExpectedPublication state create =
     (case (state, create) of
        (Typed st, PBool c) \<Rightarrow>
          if c = live st
          then Inl (ValueError ''creation must explicitly expect absent or deleted state'')
          else Inr \<lparr>exp_state = st, exp_create = c\<rparr>
      | _ \<Rightarrow> Inl (TypeError ''invalid expected publication''))"

record ResourceSnapshot =
  snap_state :: PublicationState
  snap_batch :: "PreparedResourceBatch option"

definition new_ResourceSnapshot ::
  "PublicationState anyobj \<Rightarrow> PreparedResourceBatch option \<Rightarrow> ResourceSnapshot result" where
  "new_ResourceSnapshot state batch =
     (case state of
        Untyped \<Rightarrow> Inl (TypeError ''state must be PublicationState'')
      | Typed st \<Rightarrow>
          if (batch \<noteq> None) \<noteq> (pub_status st = published)
          then Inl (ValueError ''graph and publication state differ'')
          else (case batch of
              Some b \<Rightarrow>
                if res_id (batch_resource b) \<noteq> pub_resource_id st
                then Inl (ValueError ''graph belongs to another resource'')
                else Inr \<lparr>snap_state = st, snap_batch = batch\<rparr>
            | None \<Rightarrow> Inr \<lparr>snap_state = st, snap_batch = batch\<rparr>))"

record PublicationResult =
  pr_applied :: bool
  pr_state :: PublicationState

definition new_PublicationResult :: "pyobj \<Rightarrow> PublicationState anyobj \<Rightarrow> PublicationResult result" where
  "new_PublicationResult applied state =
     (case (applied, state) of
        (PBool a, Typed st) \<Rightarrow> Inr \<lparr>pr_applied = a, pr_state = st\<rparr>
      | _ \<Rightarrow> Inl (TypeError ''invalid publication result''))"

section \<open>Invariants of the records\<close>

definition wf_name :: "pystr \<Rightarrow> bool" where
  "wf_name s \<longleftrightarrow> \<not> blank s \<and> utf8_encodable s"

definition wf_token_count :: "int option \<Rightarrow> pystr option \<Rightarrow> bool" where
  "wf_token_count n kind \<longleftrightarrow>
     (case (n, kind) of
        (None, None) \<Rightarrow> True
      | (Some c, Some k) \<Rightarrow> 0 \<le> c \<and> k \<in> set TOKEN_COUNT_KINDS
      | _ \<Rightarrow> False)"

definition wf_Locator :: "Locator \<Rightarrow> bool" where
  "wf_Locator l \<longleftrightarrow> wf_name (loc_kind l) \<and> frozen_mapping (loc_payload l)"

definition wf_ResourceRecord :: "ResourceRecord \<Rightarrow> bool" where
  "wf_ResourceRecord r \<longleftrightarrow>
     wf_name (res_id r) \<and> wf_name (res_kind r) \<and> wf_name (res_media_type r) \<and>
     wf_name (res_source_namespace r) \<and> wf_Locator (res_locator r) \<and>
     pred_option wf_name (res_content_hash r) \<and> pred_option utf8_encodable (res_title r) \<and>
     frozen_mapping (res_metadata r)"

definition wf_RepresentationRecord :: "RepresentationRecord \<Rightarrow> bool" where
  "wf_RepresentationRecord r \<longleftrightarrow>
     wf_name (rep_id r) \<and> wf_name (rep_resource_id r) \<and> wf_name (rep_kind r) \<and>
     wf_name (rep_modality r) \<and> pred_option utf8_encodable (rep_text r) \<and>
     pred_option wf_name (rep_language r) \<and> pred_option wf_name (rep_producer_fingerprint r) \<and>
     wf_token_count (rep_token_count r) (rep_token_count_kind r) \<and> frozen_mapping (rep_metadata r)"

definition wf_SearchUnitRecord :: "SearchUnitRecord \<Rightarrow> bool" where
  "wf_SearchUnitRecord u \<longleftrightarrow>
     wf_name (unit_id u) \<and> wf_name (unit_resource_id u) \<and> wf_name (unit_representation_id u) \<and>
     wf_name (unit_kind u) \<and> wf_name (unit_modality u) \<and> pred_option utf8_encodable (unit_text u) \<and>
     wf_Locator (unit_evidence_locator u) \<and> 0 \<le> unit_ordinal u \<and>
     wf_token_count (unit_token_count u) (unit_token_count_kind u) \<and> frozen_mapping (unit_metadata u)"

definition wf_Facet :: "Facet \<Rightarrow> bool" where
  "wf_Facet f \<longleftrightarrow> wf_name (facet_namespace f) \<and> wf_name (facet_value f)"

definition wf_ResourceFacet :: "ResourceFacet \<Rightarrow> bool" where
  "wf_ResourceFacet f \<longleftrightarrow>
     wf_name (rf_resource_id f) \<and> wf_Facet (rf_facet f) \<and> wf_name (rf_origin f) \<and>
     pred_option wf_name (rf_producer_fingerprint f) \<and>
     pred_option (\<lambda>c. isfinite c \<and> Fin 0 \<le> c \<and> c \<le> Fin 1) (rf_confidence f)"

definition wf_vector :: "pyfloat list \<Rightarrow> bool" where
  "wf_vector v \<longleftrightarrow> v \<noteq> [] \<and> list_all isfinite v"

definition wf_EmbeddingSpaceRecord :: "EmbeddingSpaceRecord \<Rightarrow> bool" where
  "wf_EmbeddingSpaceRecord s \<longleftrightarrow>
     wf_name (space_id s) \<and> 1 \<le> space_dimensions s \<and> space_metric s \<in> set METRICS \<and>
     wf_name (space_fingerprint s) \<and> frozen_mapping (space_metadata s)"

definition wf_VectorRecord :: "VectorRecord \<Rightarrow> bool" where
  "wf_VectorRecord v \<longleftrightarrow>
     wf_name (vec_unit_id v) \<and> wf_name (vec_space_id v) \<and> wf_vector (vec_vector v)"

definition wf_PreparedResourceBatch :: "PreparedResourceBatch \<Rightarrow> bool" where
  "wf_PreparedResourceBatch b \<longleftrightarrow>
     wf_ResourceRecord (batch_resource b) \<and>
     list_all wf_RepresentationRecord (batch_representations b) \<and>
     list_all wf_SearchUnitRecord (batch_units b) \<and>
     list_all wf_EmbeddingSpaceRecord (batch_spaces b) \<and>
     list_all wf_VectorRecord (batch_vectors b) \<and>
     list_all wf_ResourceFacet (batch_facets b)"

definition wf_PublicationState :: "PublicationState \<Rightarrow> bool" where
  "wf_PublicationState s \<longleftrightarrow>
     wf_name (pub_resource_id s) \<and>
     (if pub_status s = never_created
      then pub_lifecycle_id s = None \<and> pub_state_token s = None \<and>
           pub_source_namespace s = None \<and> pub_source_locator s = None
      else (\<exists>l t n c. pub_lifecycle_id s = Some l \<and> wf_name l \<and> pub_state_token s = Some t \<and> wf_name t \<and>
           pub_source_namespace s = Some n \<and> wf_name n \<and> pub_source_locator s = Some c \<and> wf_Locator c))"

lemmas wf_record_defs = wf_name_def wf_Locator_def wf_ResourceRecord_def wf_RepresentationRecord_def
  wf_SearchUnitRecord_def wf_Facet_def wf_ResourceFacet_def wf_EmbeddingSpaceRecord_def
  wf_VectorRecord_def

lemma validate_token_count_eq_Inr [result_simps]:
  "validate_token_count c k = Inr (n, kind) \<longleftrightarrow>
     c = opt_int n \<and> k = opt_str kind \<and> wf_token_count n kind"
proof -
  have "\<not> blank k \<and> utf8_encodable k" if "k \<in> set TOKEN_COUNT_KINDS" for k
    using that by (auto simp: TOKEN_COUNT_KINDS_def TOKEN_COUNT_EXACT_def TOKEN_COUNT_ESTIMATED_def
        lit_def blank_iff utf8_encodable_def surrogate_def py_isspace_def)
  then show ?thesis
    by (auto simp: validate_token_count_def wf_token_count_def result_simps opt_int_def opt_str_def
        split: option.splits)
qed

lemma validate_confidence_eq_Inr:
  "validate_confidence v = Inr c \<Longrightarrow> pred_option (\<lambda>c. isfinite c \<and> Fin 0 \<le> c \<and> c \<le> Fin 1) c"
  by (cases v) (auto simp: validate_confidence_def rbind_eq_Inr require_finite_number_finite split: if_splits)

lemma validate_confidence_again:
  "pred_option (\<lambda>c. isfinite c \<and> Fin 0 \<le> c \<and> c \<le> Fin 1) c \<Longrightarrow> validate_confidence (opt_float c) = Inr c"
  by (cases c) (auto simp: validate_confidence_def)

lemma opt_name_again: "pred_option wf_name x \<Longrightarrow> require_optional_non_empty (opt_str x) f = Inr x"
  by (cases x) (auto simp: require_optional_non_empty_eq_Inr wf_name_def)

lemma opt_utf8_again: "pred_option utf8_encodable x \<Longrightarrow> require_optional_utf8 (opt_str x) f = Inr x"
  by (cases x) (auto simp: require_optional_utf8_eq_Inr)

lemma name_again: "wf_name x \<Longrightarrow> require_non_empty (PStr x) f = Inr x"
  by (simp add: require_non_empty_eq_Inr wf_name_def)

lemmas again_simps = name_again opt_name_again opt_utf8_again freeze_json_mapping_thaw(1)
  validate_confidence_again

section \<open>Constructors establish the invariants\<close>

lemma freeze_vector_wf:
  assumes "freeze_vector v f = Inr x"
  shows "wf_vector x"
proof -
  obtain items where "items \<noteq> []"
    and m: "rmap (\<lambda>(index, item). require_finite_number item (f @ ''['' @ show_int (int index) @ '']''))
      (enumerate 0 items) = Inr x"
    using assms by (auto simp: freeze_vector_def rbind_eq_Inr split: if_splits)
  then have "x \<noteq> []" using rmap_length [OF m] by auto
  moreover have "isfinite y" if "y \<in> set x" for y
    using m that by (rule rmap_set) (auto intro: require_finite_number_finite)
  ultimately show ?thesis by (simp add: wf_vector_def list_all_iff)
qed

lemma rmap_enumerate_map:
  assumes "\<And>i x. x \<in> set xs \<Longrightarrow> f (i, g x) = Inr x"
  shows "rmap f (enumerate i (map g xs)) = Inr xs"
  using assms by (induction xs arbitrary: i) auto

lemma freeze_vector_again: "wf_vector x \<Longrightarrow> freeze_vector (PTuple (map PFloat x)) f = Inr x"
  by (auto simp: freeze_vector_def freeze_sequence_def wf_vector_def list_all_iff intro!: rmap_enumerate_map)

lemma new_Locator_wf:
  "dict_keys_distinct p \<Longrightarrow> new_Locator k p = Inr l \<Longrightarrow> wf_Locator l"
  by (auto simp: new_Locator_def result_simps wf_record_defs intro: freeze_json_mapping_frozen)

lemma new_Locator_again: "wf_Locator l \<Longrightarrow> new_Locator (PStr (loc_kind l)) (of_jmap (loc_payload l)) = Inr l"
  by (simp add: new_Locator_def wf_Locator_def again_simps del: of_json.simps)

lemma new_ResourceRecord_wf:
  assumes "new_ResourceRecord i k m s l c t md = Inr r" "dict_keys_distinct md"
    and "\<And>x. l = Typed x \<Longrightarrow> wf_Locator x"
  shows "wf_ResourceRecord r"
  using assms(1,2) assms(3) [of "res_locator r"]
  by (auto simp: new_ResourceRecord_def result_simps wf_ResourceRecord_def wf_name_def
      intro: freeze_json_mapping_frozen)

lemma new_RepresentationRecord_wf:
  assumes "new_RepresentationRecord i r k m t l p c ck md = Inr x" "dict_keys_distinct md"
  shows "wf_RepresentationRecord x"
  using assms
  by (auto simp: new_RepresentationRecord_def result_simps wf_RepresentationRecord_def wf_name_def
      intro: freeze_json_mapping_frozen)

lemma new_SearchUnitRecord_wf:
  assumes "new_SearchUnitRecord u r p k m t l ordinal c ck md = Inr x" "dict_keys_distinct md"
    and "\<And>x. l = Typed x \<Longrightarrow> wf_Locator x"
  shows "wf_SearchUnitRecord x"
  using assms(1,2) assms(3) [of "unit_evidence_locator x"]
  by (auto simp: new_SearchUnitRecord_def result_simps wf_SearchUnitRecord_def wf_name_def
      intro: freeze_json_mapping_frozen)

lemma new_Facet_wf: "new_Facet n v = Inr f \<Longrightarrow> wf_Facet f"
  by (auto simp: new_Facet_def result_simps wf_record_defs)

lemma new_ResourceFacet_wf:
  assumes "new_ResourceFacet r f o' p c = Inr x" "\<And>y. f = Typed y \<Longrightarrow> wf_Facet y"
  shows "wf_ResourceFacet x"
  using assms(1) assms(2) [of "rf_facet x"]
  by (auto simp: new_ResourceFacet_def result_simps wf_ResourceFacet_def wf_name_def
      dest: validate_confidence_eq_Inr)

lemma new_EmbeddingSpaceRecord_wf:
  "new_EmbeddingSpaceRecord i d m f md = Inr x \<Longrightarrow> dict_keys_distinct md \<Longrightarrow> wf_EmbeddingSpaceRecord x"
  by (auto simp: new_EmbeddingSpaceRecord_def result_simps wf_EmbeddingSpaceRecord_def wf_name_def
      intro: freeze_json_mapping_frozen)

lemma new_VectorRecord_wf: "new_VectorRecord u s v = Inr x \<Longrightarrow> wf_VectorRecord x"
  by (auto simp: new_VectorRecord_def result_simps wf_VectorRecord_def wf_name_def intro: freeze_vector_wf)

lemma new_PublicationState_wf:
  assumes "new_PublicationState r s l t n c = Inr x" "\<And>y. c = Some (Typed y) \<Longrightarrow> wf_Locator y"
  shows "wf_PublicationState x"
proof -
  obtain i st where i: "require_non_empty r ''resource_id'' = Inr i" and st: "publication_status s = Inr st"
    using assms(1) by (auto simp: new_PublicationState_def rbind_eq_Inr)
  note eq = assms(1) [unfolded new_PublicationState_def i st rbind_Inr]
  have "wf_name i" using i by (simp add: require_non_empty_eq_Inr wf_name_def)
  then show ?thesis
  proof (cases "st = never_created")
    case True
    then show ?thesis using eq \<open>wf_name i\<close> by (auto simp: wf_PublicationState_def split: if_splits)
  next
    case False
    then obtain l' t' n' where ids: "require_non_empty l ''publication identity'' = Inr l'"
      "require_non_empty t ''publication identity'' = Inr t'"
      "require_non_empty n ''publication identity'' = Inr n'"
      using eq by (auto simp: rbind_eq_Inr)
    with False eq obtain y where "c = Some (Typed y)"
      and x: "x = \<lparr>pub_resource_id = i, pub_status = st, pub_lifecycle_id = Some l', pub_state_token = Some t',
        pub_source_namespace = Some n', pub_source_locator = Some y\<rparr>"
      by (auto split: option.splits anyobj.splits)
    then show ?thesis using assms(2) ids False \<open>wf_name i\<close>
      by (simp add: wf_PublicationState_def require_non_empty_eq_Inr wf_name_def)
  qed
qed

section \<open>Rebuilding a record from its fields\<close>

lemma new_ResourceRecord_again:
  "wf_ResourceRecord r \<Longrightarrow>
   new_ResourceRecord (PStr (res_id r)) (PStr (res_kind r)) (PStr (res_media_type r))
     (PStr (res_source_namespace r)) (Typed (res_locator r)) (opt_str (res_content_hash r))
     (opt_str (res_title r)) (of_jmap (res_metadata r)) = Inr r"
  by (simp add: new_ResourceRecord_def wf_ResourceRecord_def again_simps del: of_json.simps)

lemma new_RepresentationRecord_again:
  "wf_RepresentationRecord r \<Longrightarrow>
   new_RepresentationRecord (PStr (rep_id r)) (PStr (rep_resource_id r)) (PStr (rep_kind r))
     (PStr (rep_modality r)) (opt_str (rep_text r)) (opt_str (rep_language r))
     (opt_str (rep_producer_fingerprint r)) (opt_int (rep_token_count r))
     (opt_str (rep_token_count_kind r)) (of_jmap (rep_metadata r)) = Inr r"
  using validate_token_count_eq_Inr [of "opt_int (rep_token_count r)" "opt_str (rep_token_count_kind r)"
      "rep_token_count r" "rep_token_count_kind r"]
  by (simp add: new_RepresentationRecord_def wf_RepresentationRecord_def again_simps del: of_json.simps)

lemma new_SearchUnitRecord_again:
  "wf_SearchUnitRecord u \<Longrightarrow>
   new_SearchUnitRecord (PStr (unit_id u)) (PStr (unit_resource_id u)) (PStr (unit_representation_id u))
     (PStr (unit_kind u)) (PStr (unit_modality u)) (opt_str (unit_text u)) (Typed (unit_evidence_locator u))
     (PInt (unit_ordinal u)) (opt_int (unit_token_count u)) (opt_str (unit_token_count_kind u))
     (of_jmap (unit_metadata u)) = Inr u"
  using validate_token_count_eq_Inr [of "opt_int (unit_token_count u)" "opt_str (unit_token_count_kind u)"
      "unit_token_count u" "unit_token_count_kind u"]
  by (simp add: new_SearchUnitRecord_def wf_SearchUnitRecord_def again_simps require_integer_def
      del: of_json.simps)

lemma new_ResourceFacet_again:
  "wf_ResourceFacet f \<Longrightarrow>
   new_ResourceFacet (PStr (rf_resource_id f)) (Typed (rf_facet f)) (PStr (rf_origin f))
     (opt_str (rf_producer_fingerprint f)) (opt_float (rf_confidence f)) = Inr f"
  by (simp add: new_ResourceFacet_def wf_ResourceFacet_def again_simps)

lemma metric_name: "m \<in> set METRICS \<Longrightarrow> wf_name m"
  by (auto simp: METRICS_def METRIC_COSINE_def METRIC_DOT_def METRIC_L2_def wf_name_def lit_def
      blank_iff utf8_encodable_def surrogate_def py_isspace_def)

lemma new_EmbeddingSpaceRecord_again:
  "wf_EmbeddingSpaceRecord s \<Longrightarrow>
   new_EmbeddingSpaceRecord (PStr (space_id s)) (PInt (space_dimensions s)) (PStr (space_metric s))
     (PStr (space_fingerprint s)) (of_jmap (space_metadata s)) = Inr s"
  by (simp add: new_EmbeddingSpaceRecord_def wf_EmbeddingSpaceRecord_def again_simps metric_name
      require_integer_def del: of_json.simps)

lemma new_VectorRecord_again:
  "wf_VectorRecord v \<Longrightarrow>
   new_VectorRecord (PStr (vec_unit_id v)) (PStr (vec_space_id v)) (PTuple (map PFloat (vec_vector v))) = Inr v"
  by (simp add: new_VectorRecord_def wf_VectorRecord_def again_simps freeze_vector_again)

lemma freeze_typed_sequence_again [simp]: "freeze_typed_sequence (PySeq (map Typed xs)) f t = Inr xs"
  by (simp add: freeze_typed_sequence_def)

lemma freeze_typed_sequence_eq_Inr [result_simps]:
  "freeze_typed_sequence v f t = Inr xs \<longleftrightarrow> v = PySeq (map Typed xs)"
  by (auto simp: freeze_typed_sequence_def typed_items_eq_Some split: pyseq.splits option.splits)

lemma new_PreparedResourceBatch_again:
  "new_PreparedResourceBatch (Typed r) (PySeq (map Typed reps)) (PySeq (map Typed us)) (PySeq (map Typed ss))
     (PySeq (map Typed vs)) (PySeq (map Typed fs)) =
   Inr \<lparr>batch_resource = r, batch_representations = reps, batch_units = us, batch_spaces = ss,
        batch_vectors = vs, batch_facets = fs\<rparr>"
  by (simp add: new_PreparedResourceBatch_def)

section \<open>Properties\<close>

text \<open>
  C7: the constructor of a search unit establishes the invariant of the record (identities that
  are not blank, encodable text, an ordinal that is not negative, a token count together with its
  kind, frozen metadata), and rebuilding the record from its own fields, as
  \<open>dataclasses.replace\<close> does, returns it unchanged.
\<close>

theorem new_SearchUnitRecord_canonical:
  assumes "new_SearchUnitRecord u r p k m t l ordinal c ck md = Inr x"
    and "dict_keys_distinct md" "\<forall>y. l = Typed y \<longrightarrow> wf_Locator y"
  shows "wf_SearchUnitRecord x \<and>
    new_SearchUnitRecord (PStr (unit_id x)) (PStr (unit_resource_id x)) (PStr (unit_representation_id x))
      (PStr (unit_kind x)) (PStr (unit_modality x)) (opt_str (unit_text x)) (Typed (unit_evidence_locator x))
      (PInt (unit_ordinal x)) (opt_int (unit_token_count x)) (opt_str (unit_token_count_kind x))
      (of_jmap (unit_metadata x)) = Inr x"
  using new_SearchUnitRecord_wf [OF assms(1,2)] assms(3) new_SearchUnitRecord_again by blast

lemma empty_mapping_frozen: "frozen_mapping []" and freeze_empty_mapping: "freeze_json_mapping (PMap []) f = Inr []"
  by (simp_all add: frozen_mapping_def fits_def freeze_json_mapping_def freeze_json_value.simps MAX_JSON_DEPTH_def
      MAX_JSON_ITEMS_def MAX_JSON_BYTES_def Let_def utf8_encode_def utf8_char_def)

definition example_unit :: SearchUnitRecord where
  "example_unit =
     \<lparr>unit_id = [117], unit_resource_id = [114], unit_representation_id = [112], unit_kind = [107],
      unit_modality = [109], unit_text = None, unit_evidence_locator = \<lparr>loc_kind = [108], loc_payload = []\<rparr>,
      unit_ordinal = 0, unit_token_count = None, unit_token_count_kind = None, unit_metadata = []\<rparr>"

lemma example_unit_new:
  "new_SearchUnitRecord (PStr [117]) (PStr [114]) (PStr [112]) (PStr [107]) (PStr [109]) PNone
     (Typed \<lparr>loc_kind = [108], loc_payload = []\<rparr>) (PInt 0) PNone PNone (PMap []) = Inr example_unit"
  by (simp add: new_SearchUnitRecord_def example_unit_def freeze_empty_mapping require_non_empty_def
      require_utf8_encodable_def blank_iff py_isspace_def utf8_encodable_def surrogate_def
      require_optional_utf8_def require_integer_def validate_token_count_def)

theorem new_SearchUnitRecord_canonical_witness:
  "wf_SearchUnitRecord example_unit \<and>
   new_SearchUnitRecord (PStr (unit_id example_unit)) (PStr (unit_resource_id example_unit))
     (PStr (unit_representation_id example_unit)) (PStr (unit_kind example_unit))
     (PStr (unit_modality example_unit)) (opt_str (unit_text example_unit))
     (Typed (unit_evidence_locator example_unit)) (PInt (unit_ordinal example_unit))
     (opt_int (unit_token_count example_unit)) (opt_str (unit_token_count_kind example_unit))
     (of_jmap (unit_metadata example_unit)) = Inr example_unit"
  by (rule new_SearchUnitRecord_canonical [OF example_unit_new])
    (simp_all add: wf_Locator_def wf_name_def blank_iff py_isspace_def utf8_encodable_def surrogate_def
      empty_mapping_frozen)

end
