(* ===== verification/Core_Search.thy ===== *)
theory Core_Search
  imports Core_Resources
begin

text \<open>
  \<open>domain/search.py\<close> and \<open>domain/results.py\<close>: search requests with their lexical and vector
  branches, scopes, the candidates adapters return, and the result records. As in
  \<open>Core_Resources\<close>, \<open>new_X\<close> is the constructor with its validation and \<open>wf_X\<close> the invariant of
  the record.
\<close>

section \<open>Scopes\<close>

definition TARGET_UNIT :: pystr where "TARGET_UNIT = lit ''unit''"
definition TARGET_RESOURCE :: pystr where "TARGET_RESOURCE = lit ''resource''"
definition TARGETS :: "pystr list" where "TARGETS = [TARGET_UNIT, TARGET_RESOURCE]"

datatype ScoreKind = ADAPTER_RAW | RRF
datatype RankKind = ADAPTER_CANDIDATE | RESULT

definition freeze_strings :: "pyobj \<Rightarrow> string \<Rightarrow> pystr list result" where
  "freeze_strings value field_name =
     rbind (freeze_sequence value field_name ''non-empty strings'') (\<lambda>items.
     rmap (\<lambda>item. require_non_empty item field_name) items)"

definition freeze_facets :: "Facet pyseq \<Rightarrow> string \<Rightarrow> Facet list result" where
  "freeze_facets value field_name =
     (case value of
        PyNotSeq \<Rightarrow> Inl (ValueError (field_name @ '' must be a sequence of Facet values''))
      | PySeq items \<Rightarrow>
          (case typed_items items of
             None \<Rightarrow> Inl (ValueError (field_name @ '' must contain only Facet values''))
           | Some xs \<Rightarrow> Inr xs))"

text \<open>The six categorical fields \<open>SearchScope\<close> and \<open>BranchScopeOverride\<close> have in common.\<close>

record BranchScopeOverride =
  scope_resource_kinds :: "pystr list"
  scope_media_types :: "pystr list"
  scope_source_namespaces :: "pystr list"
  scope_representation_kinds :: "pystr list"
  scope_modalities :: "pystr list"
  scope_unit_kinds :: "pystr list"

record SearchScope = BranchScopeOverride +
  scope_facets_any :: "Facet list"
  scope_facets_all :: "Facet list"
  scope_facets_none :: "Facet list"

definition new_BranchScopeOverride ::
  "pyobj \<Rightarrow> pyobj \<Rightarrow> pyobj \<Rightarrow> pyobj \<Rightarrow> pyobj \<Rightarrow> pyobj \<Rightarrow> BranchScopeOverride result" where
  "new_BranchScopeOverride resource_kinds media_types source_namespaces representation_kinds modalities unit_kinds =
     rbind (freeze_strings resource_kinds ''resource_kinds'') (\<lambda>resource_kinds.
     rbind (freeze_strings media_types ''media_types'') (\<lambda>media_types.
     rbind (freeze_strings source_namespaces ''source_namespaces'') (\<lambda>source_namespaces.
     rbind (freeze_strings representation_kinds ''representation_kinds'') (\<lambda>representation_kinds.
     rbind (freeze_strings modalities ''modalities'') (\<lambda>modalities.
     rbind (freeze_strings unit_kinds ''unit_kinds'') (\<lambda>unit_kinds.
     Inr \<lparr>scope_resource_kinds = resource_kinds, scope_media_types = media_types,
          scope_source_namespaces = source_namespaces, scope_representation_kinds = representation_kinds,
          scope_modalities = modalities, scope_unit_kinds = unit_kinds\<rparr>))))))"

definition new_SearchScope ::
  "pyobj \<Rightarrow> pyobj \<Rightarrow> pyobj \<Rightarrow> pyobj \<Rightarrow> pyobj \<Rightarrow> pyobj \<Rightarrow> Facet pyseq \<Rightarrow> Facet pyseq \<Rightarrow> Facet pyseq \<Rightarrow>
   SearchScope result" where
  "new_SearchScope resource_kinds media_types source_namespaces representation_kinds modalities unit_kinds
       facets_any facets_all facets_none =
     rbind (freeze_strings resource_kinds ''resource_kinds'') (\<lambda>resource_kinds.
     rbind (freeze_strings media_types ''media_types'') (\<lambda>media_types.
     rbind (freeze_strings source_namespaces ''source_namespaces'') (\<lambda>source_namespaces.
     rbind (freeze_strings representation_kinds ''representation_kinds'') (\<lambda>representation_kinds.
     rbind (freeze_strings modalities ''modalities'') (\<lambda>modalities.
     rbind (freeze_strings unit_kinds ''unit_kinds'') (\<lambda>unit_kinds.
     rbind (freeze_facets facets_any ''facets_any'') (\<lambda>facets_any.
     rbind (freeze_facets facets_all ''facets_all'') (\<lambda>facets_all.
     rbind (freeze_facets facets_none ''facets_none'') (\<lambda>facets_none.
     Inr \<lparr>scope_resource_kinds = resource_kinds, scope_media_types = media_types,
          scope_source_namespaces = source_namespaces, scope_representation_kinds = representation_kinds,
          scope_modalities = modalities, scope_unit_kinds = unit_kinds,
          scope_facets_any = facets_any, scope_facets_all = facets_all,
          scope_facets_none = facets_none\<rparr>)))))))))"

section \<open>Branches and requests\<close>

definition require_weight :: "pyobj \<Rightarrow> pyfloat result" where
  "require_weight weight =
     rbind (require_finite_number weight ''weight'') (\<lambda>w.
     if w \<le> Fin 0 then Inl (ValueError ''weight must be positive'') else Inr w)"

text \<open>\<open>scope_override is not None and not isinstance(scope_override, BranchScopeOverride)\<close>.\<close>

definition require_scope_override ::
  "BranchScopeOverride anyobj option \<Rightarrow> BranchScopeOverride option result" where
  "require_scope_override scope_override =
     (case scope_override of
        None \<Rightarrow> Inr None
      | Some (Typed s) \<Rightarrow> Inr (Some s)
      | Some Untyped \<Rightarrow> Inl (ValueError ''scope_override must be a BranchScopeOverride''))"

record LexicalBranch =
  lb_branch_id :: pystr
  lb_query :: pystr
  lb_weight :: pyfloat
  lb_candidate_limit :: int
  lb_scope_override :: "BranchScopeOverride option"

definition new_LexicalBranch ::
  "pyobj \<Rightarrow> pyobj \<Rightarrow> pyobj \<Rightarrow> pyobj \<Rightarrow> BranchScopeOverride anyobj option \<Rightarrow> LexicalBranch result" where
  "new_LexicalBranch branch_id query weight candidate_limit scope_override =
     rbind (require_non_empty branch_id ''branch_id'') (\<lambda>branch_id.
     rbind (require_non_empty query ''query'') (\<lambda>query.
     rbind (require_weight weight) (\<lambda>weight.
     rbind (require_integer candidate_limit ''candidate_limit'' 1) (\<lambda>candidate_limit.
     rbind (require_scope_override scope_override) (\<lambda>scope_override.
     Inr \<lparr>lb_branch_id = branch_id, lb_query = query, lb_weight = weight,
          lb_candidate_limit = candidate_limit, lb_scope_override = scope_override\<rparr>)))))"

record VectorBranch =
  vb_branch_id :: pystr
  vb_space_id :: pystr
  vb_vector :: "pyfloat list"
  vb_weight :: pyfloat
  vb_candidate_limit :: int
  vb_expected_fingerprint :: "pystr option"
  vb_scope_override :: "BranchScopeOverride option"

definition new_VectorBranch ::
  "pyobj \<Rightarrow> pyobj \<Rightarrow> pyobj \<Rightarrow> pyobj \<Rightarrow> pyobj \<Rightarrow> pyobj \<Rightarrow> BranchScopeOverride anyobj option \<Rightarrow> VectorBranch result" where
  "new_VectorBranch branch_id sid vector weight candidate_limit expected_fingerprint scope_override =
     rbind (require_non_empty branch_id ''branch_id'') (\<lambda>branch_id.
     rbind (require_non_empty sid ''space_id'') (\<lambda>sid.
     rbind (freeze_vector vector ''vector'') (\<lambda>vector.
     rbind (require_weight weight) (\<lambda>weight.
     rbind (require_integer candidate_limit ''candidate_limit'' 1) (\<lambda>candidate_limit.
     rbind (require_optional_non_empty expected_fingerprint ''expected_fingerprint'') (\<lambda>expected_fingerprint.
     rbind (require_scope_override scope_override) (\<lambda>scope_override.
     Inr \<lparr>vb_branch_id = branch_id, vb_space_id = sid, vb_vector = vector, vb_weight = weight,
          vb_candidate_limit = candidate_limit, vb_expected_fingerprint = expected_fingerprint,
          vb_scope_override = scope_override\<rparr>)))))))"

record SearchRequest =
  req_lexical_branches :: "LexicalBranch list"
  req_vector_branches :: "VectorBranch list"
  req_scope :: SearchScope
  req_target :: pystr
  req_limit :: int
  req_rrf_k :: int
  req_evidence_limit_per_resource :: int
  req_allow_partial :: bool
  req_request_id :: "pystr option"

definition require_target :: "pyobj \<Rightarrow> pystr result" where
  "require_target target =
     rbind (require_non_empty target ''target'') (\<lambda>t.
     if t \<notin> set TARGETS then Inl (ValueError ''target must be unit or resource'') else Inr t)"

definition require_bool :: "pyobj \<Rightarrow> string \<Rightarrow> bool result" where
  "require_bool value field_name =
     (case value of
        PBool b \<Rightarrow> Inr b
      | _ \<Rightarrow> Inl (ValueError (field_name @ '' must be a boolean'')))"

definition require_branches :: "'a pyseq \<Rightarrow> string \<Rightarrow> string \<Rightarrow> 'a anyobj list result" where
  "require_branches value field_name item_type =
     (case value of
        PyNotSeq \<Rightarrow> Inl (ValueError (field_name @ '' must be a sequence of '' @ item_type @ '' values''))
      | PySeq items \<Rightarrow> Inr items)"

definition require_branch_items :: "'a anyobj list \<Rightarrow> string \<Rightarrow> string \<Rightarrow> 'a list result" where
  "require_branch_items items field_name item_type =
     (case typed_items items of
        None \<Rightarrow> Inl (ValueError (field_name @ '' must contain only '' @ item_type @ '' values''))
      | Some xs \<Rightarrow> Inr xs)"

definition new_SearchRequest ::
  "LexicalBranch pyseq \<Rightarrow> VectorBranch pyseq \<Rightarrow> SearchScope anyobj \<Rightarrow> pyobj \<Rightarrow> pyobj \<Rightarrow> pyobj \<Rightarrow> pyobj \<Rightarrow> pyobj \<Rightarrow>
   pyobj \<Rightarrow> SearchRequest result" where
  "new_SearchRequest lexical_branches vector_branches scope target limit rrf_k evidence_limit_per_resource
       allow_partial request_id =
     rbind (require_branches lexical_branches ''lexical_branches'' ''LexicalBranch'') (\<lambda>lexical_items.
     rbind (require_branches vector_branches ''vector_branches'' ''VectorBranch'') (\<lambda>vector_items.
     rbind (require_branch_items lexical_items ''lexical_branches'' ''LexicalBranch'') (\<lambda>lexical.
     rbind (require_branch_items vector_items ''vector_branches'' ''VectorBranch'') (\<lambda>vectors.
     rbind (raise_if (lexical = [] \<and> vectors = []) (ValueError ''at least one search branch is required'')) (\<lambda>_.
     rbind (raise_if (\<not> distinct (map lb_branch_id lexical @ map vb_branch_id vectors))
       (ValueError ''branch_id values must be unique'')) (\<lambda>_.
     rbind (require_instance scope ''scope must be a SearchScope'') (\<lambda>scope.
     rbind (require_target target) (\<lambda>target.
     rbind (require_integer limit ''limit'' 1) (\<lambda>limit.
     rbind (require_integer rrf_k ''rrf_k'' 1) (\<lambda>rrf_k.
     rbind (require_integer evidence_limit_per_resource ''evidence_limit_per_resource'' 1) (\<lambda>evidence_limit.
     rbind (require_bool allow_partial ''allow_partial'') (\<lambda>allow_partial.
     rbind (normalize_optional_request_id request_id ''request_id'') (\<lambda>request_id.
     Inr \<lparr>req_lexical_branches = lexical, req_vector_branches = vectors, req_scope = scope,
          req_target = target, req_limit = limit, req_rrf_k = rrf_k,
          req_evidence_limit_per_resource = evidence_limit, req_allow_partial = allow_partial,
          req_request_id = request_id\<rparr>)))))))))))))"

record RankedCandidate =
  cand_unit_id :: pystr
  cand_resource_id :: pystr
  cand_representation_id :: pystr
  cand_rank :: int
  cand_raw_score :: pyfloat
  cand_branch_id :: pystr
  cand_evidence_locator :: Locator
  cand_metadata :: jmap
  cand_score_kind :: ScoreKind
  cand_rank_kind :: RankKind

definition new_RankedCandidate ::
  "pyobj \<Rightarrow> pyobj \<Rightarrow> pyobj \<Rightarrow> pyobj \<Rightarrow> pyobj \<Rightarrow> pyobj \<Rightarrow> Locator anyobj \<Rightarrow> pyobj \<Rightarrow> ScoreKind anyobj \<Rightarrow>
   RankKind anyobj \<Rightarrow> RankedCandidate result" where
  "new_RankedCandidate uid resource_id representation_id rank raw_score branch_id evidence_locator metadata
       score_kind rank_kind =
     rbind (require_non_empty uid ''unit_id'') (\<lambda>uid.
     rbind (require_non_empty resource_id ''resource_id'') (\<lambda>resource_id.
     rbind (require_non_empty representation_id ''representation_id'') (\<lambda>representation_id.
     rbind (require_integer rank ''rank'' 1) (\<lambda>rank.
     rbind (require_finite_number raw_score ''raw_score'') (\<lambda>raw_score.
     rbind (require_non_empty branch_id ''branch_id'') (\<lambda>branch_id.
     rbind (require_instance evidence_locator ''evidence_locator must be a Locator'') (\<lambda>evidence_locator.
     rbind (freeze_json_mapping metadata ''metadata'') (\<lambda>metadata.
     rbind (raise_if (score_kind \<noteq> Typed ADAPTER_RAW)
       (ValueError ''RankedCandidate score_kind must be adapter_raw'')) (\<lambda>_.
     rbind (raise_if (rank_kind \<noteq> Typed ADAPTER_CANDIDATE)
       (ValueError ''RankedCandidate rank_kind must be adapter_candidate'')) (\<lambda>_.
     Inr \<lparr>cand_unit_id = uid, cand_resource_id = resource_id, cand_representation_id = representation_id,
          cand_rank = rank, cand_raw_score = raw_score, cand_branch_id = branch_id,
          cand_evidence_locator = evidence_locator, cand_metadata = metadata,
          cand_score_kind = ADAPTER_RAW, cand_rank_kind = ADAPTER_CANDIDATE\<rparr>))))))))))"

section \<open>Results\<close>

record Degradation =
  deg_branch_id :: pystr
  deg_category :: DegradationCategory

definition new_Degradation :: "pyobj \<Rightarrow> DegradationCategory anyobj \<Rightarrow> Degradation result" where
  "new_Degradation branch_id category =
     rbind (require_non_empty branch_id ''branch_id'') (\<lambda>branch_id.
     rbind (require_instance category ''category must be a DegradationCategory'') (\<lambda>category.
     Inr \<lparr>deg_branch_id = branch_id, deg_category = category\<rparr>))"

record SearchResultItem =
  item_logical_id :: pystr
  item_resource_id :: pystr
  item_unit_id :: "pystr option"
  item_score :: pyfloat
  item_rank :: int
  item_evidence :: "RankedCandidate list"
  item_metadata :: jmap
  item_score_kind :: ScoreKind
  item_rank_kind :: RankKind

definition new_SearchResultItem ::
  "pyobj \<Rightarrow> pyobj \<Rightarrow> pyobj \<Rightarrow> pyobj \<Rightarrow> pyobj \<Rightarrow> RankedCandidate pyseq \<Rightarrow> pyobj \<Rightarrow> ScoreKind anyobj \<Rightarrow>
   RankKind anyobj \<Rightarrow> SearchResultItem result" where
  "new_SearchResultItem logical_id resource_id uid score rank evidence metadata score_kind rank_kind =
     rbind (require_non_empty logical_id ''logical_id'') (\<lambda>logical_id.
     rbind (require_non_empty resource_id ''resource_id'') (\<lambda>resource_id.
     rbind (require_optional_non_empty uid ''unit_id'') (\<lambda>uid.
     rbind (require_finite_number score ''score'') (\<lambda>score.
     rbind (require_integer rank ''rank'' 1) (\<lambda>rank.
     rbind (require_instance score_kind ''score_kind must be a ScoreKind'') (\<lambda>score_kind.
     rbind (raise_if (rank_kind \<noteq> Typed RESULT) (ValueError ''SearchResultItem rank_kind must be result'')) (\<lambda>_.
     rbind (freeze_typed_sequence evidence ''evidence'' ''RankedCandidate'') (\<lambda>evidence.
     rbind (freeze_json_mapping metadata ''metadata'') (\<lambda>metadata.
     Inr \<lparr>item_logical_id = logical_id, item_resource_id = resource_id, item_unit_id = uid,
          item_score = score, item_rank = rank, item_evidence = evidence, item_metadata = metadata,
          item_score_kind = score_kind, item_rank_kind = RESULT\<rparr>)))))))))"

record SearchResult =
  sr_target :: pystr
  sr_items :: "SearchResultItem list"
  sr_degradations :: "Degradation list"
  sr_request_id :: "pystr option"

definition new_SearchResult ::
  "pyobj \<Rightarrow> SearchResultItem pyseq \<Rightarrow> Degradation pyseq \<Rightarrow> pyobj \<Rightarrow> SearchResult result" where
  "new_SearchResult target items degradations request_id =
     rbind (require_target target) (\<lambda>target.
     rbind (normalize_optional_request_id request_id ''request_id'') (\<lambda>request_id.
     rbind (freeze_typed_sequence items ''items'' ''SearchResultItem'') (\<lambda>items.
     rbind (freeze_typed_sequence degradations ''degradations'' ''Degradation'') (\<lambda>degradations.
     Inr \<lparr>sr_target = target, sr_items = items, sr_degradations = degradations,
          sr_request_id = request_id\<rparr>))))"

record SimilarityRequest =
  simreq_query_unit_id :: pystr
  simreq_space_id :: pystr
  simreq_similarity_basis :: pystr
  simreq_scope :: SearchScope
  simreq_limit :: int
  simreq_exclude_same_resource :: bool

definition new_SimilarityRequest ::
  "pyobj \<Rightarrow> pyobj \<Rightarrow> pyobj \<Rightarrow> SearchScope anyobj \<Rightarrow> pyobj \<Rightarrow> pyobj \<Rightarrow> SimilarityRequest result" where
  "new_SimilarityRequest query_unit_id sid similarity_basis scope limit exclude_same_resource =
     rbind (require_non_empty query_unit_id ''query_unit_id'') (\<lambda>query_unit_id.
     rbind (require_non_empty sid ''space_id'') (\<lambda>sid.
     rbind (require_non_empty similarity_basis ''similarity_basis'') (\<lambda>similarity_basis.
     rbind (require_instance scope ''scope must be a SearchScope'') (\<lambda>scope.
     rbind (require_integer limit ''limit'' 1) (\<lambda>limit.
     rbind (require_bool exclude_same_resource ''exclude_same_resource'') (\<lambda>exclude_same_resource.
     Inr \<lparr>simreq_query_unit_id = query_unit_id, simreq_space_id = sid,
          simreq_similarity_basis = similarity_basis, simreq_scope = scope, simreq_limit = limit,
          simreq_exclude_same_resource = exclude_same_resource\<rparr>))))))"

record SimilarityResult =
  simres_query_unit_id :: pystr
  simres_space_id :: pystr
  simres_similarity_basis :: pystr
  simres_items :: "SearchResultItem list"
  simres_degradations :: "Degradation list"

definition new_SimilarityResult ::
  "pyobj \<Rightarrow> pyobj \<Rightarrow> pyobj \<Rightarrow> SearchResultItem pyseq \<Rightarrow> Degradation pyseq \<Rightarrow> SimilarityResult result" where
  "new_SimilarityResult query_unit_id sid similarity_basis items degradations =
     rbind (require_non_empty query_unit_id ''query_unit_id'') (\<lambda>query_unit_id.
     rbind (require_non_empty sid ''space_id'') (\<lambda>sid.
     rbind (require_non_empty similarity_basis ''similarity_basis'') (\<lambda>similarity_basis.
     rbind (freeze_typed_sequence items ''items'' ''SearchResultItem'') (\<lambda>items.
     rbind (freeze_typed_sequence degradations ''degradations'' ''Degradation'') (\<lambda>degradations.
     Inr \<lparr>simres_query_unit_id = query_unit_id, simres_space_id = sid,
          simres_similarity_basis = similarity_basis, simres_items = items,
          simres_degradations = degradations\<rparr>)))))"

section \<open>Invariants\<close>

definition wf_override :: "'a BranchScopeOverride_scheme \<Rightarrow> bool" where
  "wf_override s \<longleftrightarrow>
     list_all wf_name (scope_resource_kinds s) \<and> list_all wf_name (scope_media_types s) \<and>
     list_all wf_name (scope_source_namespaces s) \<and> list_all wf_name (scope_representation_kinds s) \<and>
     list_all wf_name (scope_modalities s) \<and> list_all wf_name (scope_unit_kinds s)"

definition wf_LexicalBranch :: "LexicalBranch \<Rightarrow> bool" where
  "wf_LexicalBranch b \<longleftrightarrow>
     wf_name (lb_branch_id b) \<and> wf_name (lb_query b) \<and> isfinite (lb_weight b) \<and> Fin 0 < lb_weight b \<and>
     1 \<le> lb_candidate_limit b \<and> pred_option wf_override (lb_scope_override b)"

definition wf_VectorBranch :: "VectorBranch \<Rightarrow> bool" where
  "wf_VectorBranch b \<longleftrightarrow>
     wf_name (vb_branch_id b) \<and> wf_name (vb_space_id b) \<and> wf_vector (vb_vector b) \<and> isfinite (vb_weight b) \<and>
     Fin 0 < vb_weight b \<and> 1 \<le> vb_candidate_limit b \<and> pred_option wf_name (vb_expected_fingerprint b) \<and>
     pred_option wf_override (vb_scope_override b)"

definition wf_request_id :: "pystr \<Rightarrow> bool" where
  "wf_request_id s \<longleftrightarrow> normalize_request_id (PStr s) ''request_id'' = Inr s"

definition wf_SearchRequest :: "SearchRequest \<Rightarrow> bool" where
  "wf_SearchRequest r \<longleftrightarrow>
     list_all wf_LexicalBranch (req_lexical_branches r) \<and> list_all wf_VectorBranch (req_vector_branches r) \<and>
     \<not> (req_lexical_branches r = [] \<and> req_vector_branches r = []) \<and>
     distinct (map lb_branch_id (req_lexical_branches r) @ map vb_branch_id (req_vector_branches r)) \<and>
     wf_override (req_scope r) \<and> req_target r \<in> set TARGETS \<and> 1 \<le> req_limit r \<and> 1 \<le> req_rrf_k r \<and>
     1 \<le> req_evidence_limit_per_resource r \<and> pred_option wf_request_id (req_request_id r)"

definition wf_RankedCandidate :: "RankedCandidate \<Rightarrow> bool" where
  "wf_RankedCandidate c \<longleftrightarrow>
     wf_name (cand_unit_id c) \<and> wf_name (cand_resource_id c) \<and> wf_name (cand_representation_id c) \<and>
     1 \<le> cand_rank c \<and> isfinite (cand_raw_score c) \<and> wf_name (cand_branch_id c) \<and>
     wf_Locator (cand_evidence_locator c) \<and> frozen_mapping (cand_metadata c) \<and>
     cand_score_kind c = ADAPTER_RAW \<and> cand_rank_kind c = ADAPTER_CANDIDATE"

lemma freeze_strings_wf: "freeze_strings v f = Inr vs \<Longrightarrow> list_all wf_name vs"
  by (auto simp: freeze_strings_def rbind_eq_Inr list_all_iff require_non_empty_eq_Inr wf_name_def elim!: rmap_set)

lemma freeze_strings_again: "list_all wf_name vs \<Longrightarrow> freeze_strings (PTuple (map PStr vs)) f = Inr vs"
proof -
  assume "list_all wf_name vs"
  then have "rmap (\<lambda>item. require_non_empty item f) (map PStr vs) = Inr vs"
    by (induction vs) (auto simp: name_again)
  then show ?thesis by (simp add: freeze_strings_def freeze_sequence_def)
qed

lemma new_BranchScopeOverride_wf: "new_BranchScopeOverride a b c d e f = Inr s \<Longrightarrow> wf_override s"
  by (auto simp: new_BranchScopeOverride_def rbind_eq_Inr wf_override_def intro: freeze_strings_wf)

lemma new_SearchScope_wf: "new_SearchScope a b c d e f g h i = Inr s \<Longrightarrow> wf_override s"
  by (auto simp: new_SearchScope_def rbind_eq_Inr wf_override_def intro: freeze_strings_wf)

lemma require_weight_wf: "require_weight v = Inr w \<Longrightarrow> isfinite w \<and> Fin 0 < w"
  by (auto simp: require_weight_def rbind_eq_Inr require_finite_number_finite not_le split: if_splits)

lemma require_scope_override_eq_Inr:
  "require_scope_override v = Inr o' \<longleftrightarrow> v = map_option Typed o'"
  by (cases o') (auto simp: require_scope_override_def split: option.splits anyobj.splits)

lemma new_LexicalBranch_wf:
  assumes "new_LexicalBranch i q w l s = Inr b" "\<And>x. s = Some (Typed x) \<Longrightarrow> wf_override x"
  shows "wf_LexicalBranch b"
  using assms(1) assms(2) [of "the (lb_scope_override b)"]
  by (auto simp: new_LexicalBranch_def rbind_eq_Inr wf_LexicalBranch_def require_non_empty_eq_Inr wf_name_def
      require_integer_eq_Inr require_scope_override_eq_Inr option.pred_set dest: require_weight_wf)

lemma new_VectorBranch_wf:
  assumes "new_VectorBranch i sp v w l f s = Inr b" "\<And>x. s = Some (Typed x) \<Longrightarrow> wf_override x"
  shows "wf_VectorBranch b"
  using assms(1) assms(2) [of "the (vb_scope_override b)"]
  by (auto simp: new_VectorBranch_def rbind_eq_Inr wf_VectorBranch_def require_non_empty_eq_Inr wf_name_def
      require_integer_eq_Inr require_scope_override_eq_Inr require_optional_non_empty_eq_Inr option.pred_set
      dest: require_weight_wf freeze_vector_wf)

lemma normalize_optional_request_id_wf:
  "normalize_optional_request_id v f = Inr i \<Longrightarrow> pred_option wf_request_id i"
proof -
  assume a: "normalize_optional_request_id v f = Inr i"
  show ?thesis
  proof (cases i)
    case (Some s)
    then obtain t where "normalize_request_id v f = Inr s"
      using a by (cases v) (auto simp: normalize_optional_request_id_def rbind_eq_Inr)
    then have "normalize_request_id (PStr s) ''request_id'' = Inr s" by (rule normalize_again)
    then show ?thesis using Some by (simp add: wf_request_id_def)
  qed simp
qed

lemma require_branches_items: "require_branches v f t = Inr items \<Longrightarrow> v = PySeq items"
  by (cases v) (auto simp: require_branches_def)

lemma require_branch_items_eq: "require_branch_items items f t = Inr xs \<longleftrightarrow> items = map Typed xs"
  by (auto simp: require_branch_items_def typed_items_eq_Some split: option.splits)

lemma new_SearchRequest_wf:
  assumes "new_SearchRequest ls vs sc t l k e p i = Inr r"
    and "\<And>b. ls = PySeq (map Typed b) \<Longrightarrow> list_all wf_LexicalBranch b"
    and "\<And>b. vs = PySeq (map Typed b) \<Longrightarrow> list_all wf_VectorBranch b"
    and "\<And>s. sc = Typed s \<Longrightarrow> wf_override s"
  shows "wf_SearchRequest r"
  using assms(1) assms(2) [of "req_lexical_branches r"] assms(3) [of "req_vector_branches r"]
    assms(4) [of "req_scope r"]
  by (auto simp: new_SearchRequest_def rbind_eq_Inr wf_SearchRequest_def require_branch_items_eq
      require_instance_eq_Inr require_target_def require_integer_eq_Inr simp del: distinct_append
      dest!: require_branches_items dest: normalize_optional_request_id_wf split: if_splits)

lemma new_RankedCandidate_wf:
  assumes "new_RankedCandidate u r p k s b l md sk rk = Inr c" "dict_keys_distinct md"
    and "\<And>x. l = Typed x \<Longrightarrow> wf_Locator x"
  shows "wf_RankedCandidate c"
  using assms(1,2) assms(3) [of "cand_evidence_locator c"]
  by (auto simp: new_RankedCandidate_def result_simps wf_RankedCandidate_def wf_name_def
      intro: freeze_json_mapping_frozen require_finite_number_finite)

lemma normalize_optional_again:
  "pred_option wf_request_id i \<Longrightarrow> normalize_optional_request_id (opt_str i) ''request_id'' = Inr i"
  by (cases i) (simp_all add: normalize_optional_request_id_def wf_request_id_def)

lemma target_again: "t \<in> set TARGETS \<Longrightarrow> require_target (PStr t) = Inr t"
proof -
  assume t: "t \<in> set TARGETS"
  then have "wf_name t"
    by (auto simp: TARGETS_def TARGET_UNIT_def TARGET_RESOURCE_def wf_name_def lit_def blank_iff utf8_encodable_def
        surrogate_def py_isspace_def)
  then show ?thesis using t by (simp add: require_target_def name_again)
qed

end
