(* ===== verification/Core_Fusion.thy ===== *)
theory Core_Fusion
  imports Core_Search
begin

text \<open>
  \<open>application/fusion.py\<close>: deterministic weighted reciprocal-rank fusion. The four dictionaries and
  the two counters of \<open>weighted_rrf\<close> are the fields of \<open>rrf_state\<close>; the two nested loops are
  \<open>rrf_candidate\<close> folded over the candidates of a branch and \<open>rrf_branch\<close> folded over the branches.
  Scores are IEEE doubles added in the order the loops visit them.
\<close>

section \<open>Records\<close>

record FusionCandidate =
  fc_logical_id :: pystr
  fc_representative :: RankedCandidate
  fc_evidence :: "RankedCandidate list"

definition new_FusionCandidate ::
  "pyobj \<Rightarrow> RankedCandidate anyobj \<Rightarrow> RankedCandidate pyseq \<Rightarrow> FusionCandidate result" where
  "new_FusionCandidate logical_id representative evidence =
     (case logical_id of
        PStr s \<Rightarrow>
          if blank s then Inl (ValueError ''logical_id must be a non-empty string'')
          else
            rbind (require_instance representative ''representative must be a RankedCandidate'') (\<lambda>rep.
            case evidence of
              PyNotSeq \<Rightarrow> Inl (ValueError ''evidence must contain only RankedCandidate values'')
            | PySeq items \<Rightarrow>
                (case typed_items items of
                   None \<Rightarrow> Inl (ValueError ''evidence must contain only RankedCandidate values'')
                 | Some xs \<Rightarrow> Inr \<lparr>fc_logical_id = s, fc_representative = rep, fc_evidence = xs\<rparr>))
      | _ \<Rightarrow> Inl (ValueError ''logical_id must be a non-empty string''))"

record FusionBranch =
  fb_branch_id :: pystr
  fb_weight :: pyfloat
  fb_candidates :: "FusionCandidate list"

definition float_of_number :: "pyobj \<Rightarrow> pyfloat result" where
  "float_of_number value =
     (case value of
        PInt i \<Rightarrow> float_of_int i
      | PFloat f \<Rightarrow> Inr f
      | _ \<Rightarrow> Inl (ValueError ''weight must be a finite positive number''))"

definition new_FusionBranch :: "pyobj \<Rightarrow> pyobj \<Rightarrow> FusionCandidate pyseq \<Rightarrow> FusionBranch result" where
  "new_FusionBranch branch_id weight candidates =
     (case branch_id of
        PStr s \<Rightarrow>
          if blank s then Inl (ValueError ''branch_id must be a non-empty string'')
          else
            rbind (float_of_number weight) (\<lambda>w.
            if \<not> isfinite w \<or> w \<le> Fin 0 then Inl (ValueError ''weight must be a finite positive number'')
            else case candidates of
              PyNotSeq \<Rightarrow> Inl (ValueError ''candidates must contain only FusionCandidate values'')
            | PySeq items \<Rightarrow>
                (case typed_items items of
                   None \<Rightarrow> Inl (ValueError ''candidates must contain only FusionCandidate values'')
                 | Some xs \<Rightarrow> Inr \<lparr>fb_branch_id = s, fb_weight = w, fb_candidates = xs\<rparr>))
      | _ \<Rightarrow> Inl (ValueError ''branch_id must be a non-empty string''))"

record FusedCandidate =
  fd_logical_id :: pystr
  fd_score :: pyfloat
  fd_first_seen :: nat
  fd_representative :: RankedCandidate
  fd_evidence :: "RankedCandidate list"

section \<open>The fusion loops\<close>

type_synonym evidence_entry = "int \<times> nat \<times> RankedCandidate"

record rrf_state =
  rs_scores :: "(pystr, pyfloat) dict"
  rs_first_seen :: "(pystr, nat) dict"
  rs_representatives :: "(pystr, RankedCandidate) dict"
  rs_evidence :: "(pystr, evidence_entry list) dict"
  rs_candidate_ordinal :: nat
  rs_evidence_ordinal :: nat

definition rrf_init :: rrf_state where
  "rrf_init = \<lparr>rs_scores = [], rs_first_seen = [], rs_representatives = [], rs_evidence = [],
     rs_candidate_ordinal = 0, rs_evidence_ordinal = 0\<rparr>"

definition evidence_key :: "RankedCandidate \<Rightarrow> pystr \<times> pystr" where
  "evidence_key item = (cand_branch_id item, cand_unit_id item)"

text \<open>Lines 104 to 109: append the evidence whose key is not known yet; every item advances the
  ordinal.\<close>

fun add_evidence ::
  "RankedCandidate list \<Rightarrow> evidence_entry list \<Rightarrow> nat \<Rightarrow> evidence_entry list \<times> nat" where
  "add_evidence [] evidence ordinal = (evidence, ordinal)"
| "add_evidence (item # items) evidence ordinal =
     (if evidence_key item \<in> set (map (\<lambda>(_, _, e). evidence_key e) evidence)
      then add_evidence items evidence (ordinal + 1)
      else add_evidence items (evidence @ [(cand_rank item, ordinal, item)]) (ordinal + 1))"

text \<open>Lines 94 to 110: one candidate that its branch has not contributed yet.\<close>

definition rrf_contribute :: "pyfloat \<Rightarrow> int \<Rightarrow> nat \<Rightarrow> FusionCandidate \<Rightarrow> rrf_state \<Rightarrow> rrf_state result" where
  "rrf_contribute weight rrf_k branch_rank candidate st =
     (let logical_id = fc_logical_id candidate;
          first_seen = setdefault logical_id (rs_candidate_ordinal st) (rs_first_seen st);
          representatives = setdefault logical_id (fc_representative candidate) (rs_representatives st)
      in rbind (fdiv_int weight (rrf_k + int branch_rank)) (\<lambda>share.
         let scores = AList.update logical_id (fadd (dict_get (rs_scores st) logical_id (Fin 0)) share) (rs_scores st);
             (evidence, ordinal) =
               add_evidence (fc_evidence candidate) (dict_get (rs_evidence st) logical_id [])
                 (rs_evidence_ordinal st)
         in Inr \<lparr>rs_scores = scores, rs_first_seen = first_seen, rs_representatives = representatives,
                 rs_evidence = AList.update logical_id evidence (rs_evidence st),
                 rs_candidate_ordinal = rs_candidate_ordinal st + 1, rs_evidence_ordinal = ordinal\<rparr>))"

text \<open>Lines 89 to 93: a logical identity counts once per branch.\<close>

definition rrf_candidate ::
  "pyfloat \<Rightarrow> int \<Rightarrow> FusionCandidate \<Rightarrow> rrf_state \<times> pystr list \<times> nat \<Rightarrow> (rrf_state \<times> pystr list \<times> nat) result" where
  "rrf_candidate weight rrf_k candidate =
     (\<lambda>(st, seen_in_branch, branch_rank).
        if fc_logical_id candidate \<in> set seen_in_branch then Inr (st, seen_in_branch, branch_rank)
        else rbind (rrf_contribute weight rrf_k (branch_rank + 1) candidate st) (\<lambda>st'.
             Inr (st', fc_logical_id candidate # seen_in_branch, branch_rank + 1)))"

definition rrf_branch :: "int \<Rightarrow> FusionBranch \<Rightarrow> rrf_state \<Rightarrow> rrf_state result" where
  "rrf_branch rrf_k branch st =
     rbind (rfold (rrf_candidate (fb_weight branch) rrf_k) (fb_candidates branch) (st, [], 0))
       (\<lambda>(st', _, _). Inr st')"

definition evidence_order :: "evidence_entry \<Rightarrow> int \<times> nat \<times> pystr" where
  "evidence_order = (\<lambda>(rank, ordinal, item). (rank, ordinal, cand_unit_id item))"

definition fused_order :: "FusedCandidate \<Rightarrow> pyfloat \<times> nat \<times> pystr" where
  "fused_order item = (fneg (fd_score item), fd_first_seen item, fd_logical_id item)"

text \<open>Lines 112 to 127; the lookups \<open>first_seen[logical_id]\<close> and \<open>representatives[logical_id]\<close> raise
  \<open>KeyError\<close> where the key is absent.\<close>

definition fused_candidate :: "rrf_state \<Rightarrow> int \<Rightarrow> pystr \<times> pyfloat \<Rightarrow> FusedCandidate result" where
  "fused_candidate st evidence_limit =
     (\<lambda>(logical_id, score).
        case (map_of (rs_first_seen st) logical_id, map_of (rs_representatives st) logical_id) of
          (Some first_seen, Some representative) \<Rightarrow>
            Inr \<lparr>fd_logical_id = logical_id, fd_score = score, fd_first_seen = first_seen,
                 fd_representative = representative,
                 fd_evidence =
                   map (\<lambda>(_, _, item). item)
                     (take (nat evidence_limit)
                       (sort_key evidence_order (dict_get (rs_evidence st) logical_id [])))\<rparr>
        | _ \<Rightarrow> Inl KeyError)"

definition weighted_rrf :: "FusionBranch list \<Rightarrow> int \<Rightarrow> int \<Rightarrow> FusedCandidate list result" where
  "weighted_rrf branches rrf_k evidence_limit =
     (if rrf_k < 1 then Inl (ValueError ''rrf_k must be positive'')
      else if evidence_limit < 1 then Inl (ValueError ''evidence_limit must be positive'')
      else rbind (rfold (rrf_branch rrf_k) branches rrf_init) (\<lambda>st.
           rbind (rmap (fused_candidate st evidence_limit) (rs_scores st)) (\<lambda>fused.
           Inr (sort_key fused_order fused))))"

section \<open>Reference definitions\<close>

text \<open>The rank of a logical identity in a branch: its one-based position among the distinct
  identities.\<close>

definition branch_ids :: "FusionBranch \<Rightarrow> pystr list" where
  "branch_ids b = map fc_logical_id (fb_candidates b)"

definition branch_rank_of :: "FusionBranch \<Rightarrow> pystr \<Rightarrow> nat option" where
  "branch_rank_of b i =
     (if i \<in> set (branch_ids b)
      then Some (1 + length (takeWhile (\<lambda>j. j \<noteq> i) (first_occurrences [] (branch_ids b)))) else None)"

text \<open>The score of a logical identity: over the branches in order, weight over \<open>rrf_k\<close> plus rank.\<close>

definition rrf_score :: "int \<Rightarrow> FusionBranch list \<Rightarrow> pystr \<Rightarrow> pyfloat result" where
  "rrf_score rrf_k branches i =
     rfold (\<lambda>b s. case branch_rank_of b i of
         None \<Rightarrow> Inr s
       | Some r \<Rightarrow> rbind (fdiv_int (fb_weight b) (rrf_k + int r)) (\<lambda>x. Inr (fadd s x)))
       branches (Fin 0)"

definition fusion_ids :: "FusionBranch list \<Rightarrow> pystr list" where
  "fusion_ids branches = concat (map branch_ids branches)"

text \<open>The two nested loops as one over the contributions: weight, rank and candidate.\<close>

type_synonym contribution = "pyfloat \<times> nat \<times> FusionCandidate"

abbreviation cid :: "contribution \<Rightarrow> pystr" where
  "cid x \<equiv> fc_logical_id (snd (snd x))"

definition branch_contributions :: "FusionBranch \<Rightarrow> contribution list" where
  "branch_contributions b =
     map (\<lambda>(r, c). (fb_weight b, r, c)) (enumerate 1 (first_by fc_logical_id [] (fb_candidates b)))"

definition contributions :: "FusionBranch list \<Rightarrow> contribution list" where
  "contributions branches = concat (map branch_contributions branches)"

definition contribute :: "int \<Rightarrow> contribution \<Rightarrow> rrf_state \<Rightarrow> rrf_state result" where
  "contribute rrf_k = (\<lambda>(w, r, c). rrf_contribute w rrf_k r c)"

lemma rfold_rrf_candidate:
  "rfold (rrf_candidate w k) cs (st, seen, n) =
   rbind (rfold (contribute k) (map (\<lambda>(r, c). (w, r, c)) (enumerate (n + 1) (first_by fc_logical_id seen cs))) st)
     (\<lambda>st'. Inr (st', rev (map fc_logical_id (first_by fc_logical_id seen cs)) @ seen,
       n + length (first_by fc_logical_id seen cs)))"
proof (induction cs arbitrary: st seen n)
  case (Cons c cs)
  show ?case
  proof (cases "fc_logical_id c \<in> set seen")
    case True
    then show ?thesis using Cons by (simp add: rrf_candidate_def)
  next
    case False
    show ?thesis
    proof (cases "rrf_contribute w k (n + 1) c st")
      case (Inr st')
      then show ?thesis using False Cons [of st' "fc_logical_id c # seen" "n + 1"]
        by (simp add: rrf_candidate_def contribute_def)
    qed (use False in \<open>simp add: rrf_candidate_def contribute_def\<close>)
  qed
qed simp

lemma rrf_branch_contributions: "rrf_branch k b st = rfold (contribute k) (branch_contributions b) st"
  unfolding rrf_branch_def rfold_rrf_candidate branch_contributions_def
  by (cases "rfold (contribute k) (branch_contributions b) st") (simp_all add: branch_contributions_def)

lemma rfold_rrf_branch: "rfold (rrf_branch k) bs st = rfold (contribute k) (contributions bs) st"
proof (induction bs arbitrary: st)
  case (Cons b bs)
  then have "rfold (rrf_branch k) bs = rfold (contribute k) (contributions bs)" by blast
  then show ?case by (simp add: contributions_def rrf_branch_contributions [of k b] rfold_append)
qed (simp add: contributions_def)

lemma branch_contributions_ids: "map cid (branch_contributions b) = first_occurrences [] (branch_ids b)"
proof -
  have "map cid (branch_contributions b) =
      map fc_logical_id (map snd (enumerate 1 (first_by fc_logical_id [] (fb_candidates b))))"
    by (simp add: branch_contributions_def comp_def split_def del: map_snd_enumerate)
  then show ?thesis by (simp add: map_first_by branch_ids_def)
qed

lemma set_contributions_ids: "cid ` set (contributions bs) = set (fusion_ids bs)"
proof (induction bs)
  case (Cons b bs)
  have "cid ` set (branch_contributions b) = set (branch_ids b)"
    using branch_contributions_ids [of b] by (metis Diff_empty list.set(1) set_first_occurrences set_map)
  with Cons show ?case by (simp add: contributions_def fusion_ids_def image_Un)
qed (simp add: contributions_def fusion_ids_def)

section \<open>What the loops compute\<close>

definition flat_score :: "int \<Rightarrow> contribution list \<Rightarrow> pystr \<Rightarrow> pyfloat result" where
  "flat_score k xs i =
     rfold (\<lambda>(w, r, c) s. rbind (fdiv_int w (k + int r)) (\<lambda>x. Inr (fadd s x)))
       (filter (\<lambda>x. cid x = i) xs) (Fin 0)"

definition evidence_of :: "contribution list \<Rightarrow> pystr \<Rightarrow> RankedCandidate set" where
  "evidence_of xs i = (\<Union>x \<in> {x \<in> set xs. cid x = i}. set (fc_evidence (snd (snd x))))"

abbreviation entry_keys :: "evidence_entry list \<Rightarrow> (pystr \<times> pystr) list" where
  "entry_keys es \<equiv> map (\<lambda>(_, _, e). evidence_key e) es"

definition evidence_inv :: "RankedCandidate set \<Rightarrow> evidence_entry list \<Rightarrow> bool" where
  "evidence_inv E es \<longleftrightarrow>
     distinct (entry_keys es) \<and> set (entry_keys es) = evidence_key ` E \<and>
     (\<forall>(r, n, e) \<in> set es. r = cand_rank e \<and> e \<in> E)"

definition rrf_inv :: "int \<Rightarrow> contribution list \<Rightarrow> rrf_state \<Rightarrow> bool" where
  "rrf_inv k xs st \<longleftrightarrow>
     keys (rs_scores st) = first_occurrences [] (map cid xs) \<and>
     rs_candidate_ordinal st = length xs \<and>
     (\<forall>i. flat_score k xs i = Inr (dict_get (rs_scores st) i (Fin 0))) \<and>
     (\<forall>i. map_of (rs_first_seen st) i =
        (if i \<in> cid ` set xs then Some (length (takeWhile (\<lambda>x. cid x \<noteq> i) xs)) else None)) \<and>
     (\<forall>i. map_of (rs_representatives st) i =
        map_option (\<lambda>x. fc_representative (snd (snd x))) (find (\<lambda>x. cid x = i) xs)) \<and>
     (\<forall>i. evidence_inv (evidence_of xs i) (dict_get (rs_evidence st) i []))"

lemma add_evidence_inv:
  "add_evidence items es n = (es', n') \<Longrightarrow> evidence_inv E es \<Longrightarrow> evidence_inv (E \<union> set items) es'"
proof (induction items es n arbitrary: E rule: add_evidence.induct)
  case (2 item items es n)
  show ?case
  proof (cases "evidence_key item \<in> set (entry_keys es)")
    case True
    then have "evidence_inv (insert item E) es"
      using "2.prems"(2) by (fastforce simp: evidence_inv_def insert_absorb)
    then show ?thesis using "2.IH"(1) [OF True, of "insert item E"] "2.prems"(1) True by simp
  next
    case False
    then have "evidence_inv (insert item E) (es @ [(cand_rank item, n, item)])"
      using "2.prems"(2) by (fastforce simp: evidence_inv_def)
    then show ?thesis using "2.IH"(2) [OF False, of "insert item E"] "2.prems"(1) False by simp
  qed
qed simp

lemma dict_get_update [simp]: "dict_get (AList.update k v d) i w = (if i = k then v else dict_get d i w)"
  by (simp add: dict_get_def)

lemma takeWhile_snoc_first:
  "takeWhile P (xs @ [x]) = (if \<forall>y \<in> set xs. P y then xs @ takeWhile P [x] else takeWhile P xs)"
  by (induction xs) auto

lemma rrf_inv_step:
  assumes inv: "rrf_inv k xs st" and step: "contribute k x st = Inr st'"
  shows "rrf_inv k (xs @ [x]) st'"
proof -
  obtain w r c where x: "x = (w, r, c)" by (cases x)
  obtain es n where ev: "add_evidence (fc_evidence c) (dict_get (rs_evidence st) (fc_logical_id c) [])
      (rs_evidence_ordinal st) = (es, n)" by fastforce
  obtain share where share: "fdiv_int w (k + int r) = Inr share"
    and st': "st' = \<lparr>rs_scores = AList.update (fc_logical_id c)
          (fadd (dict_get (rs_scores st) (fc_logical_id c) (Fin 0)) share) (rs_scores st),
        rs_first_seen = setdefault (fc_logical_id c) (rs_candidate_ordinal st) (rs_first_seen st),
        rs_representatives = setdefault (fc_logical_id c) (fc_representative c) (rs_representatives st),
        rs_evidence = AList.update (fc_logical_id c) es (rs_evidence st),
        rs_candidate_ordinal = rs_candidate_ordinal st + 1, rs_evidence_ordinal = n\<rparr>"
    using step by (auto simp: x contribute_def rrf_contribute_def Let_def rbind_eq_Inr ev)
  have score: "flat_score k (xs @ [x]) i = Inr (dict_get (rs_scores st') i (Fin 0))" for i
    using inv share by (auto simp: rrf_inv_def st' flat_score_def x rfold_append)
  have seen: "map_of (rs_first_seen st') i =
      (if i \<in> cid ` set (xs @ [x]) then Some (length (takeWhile (\<lambda>x. cid x \<noteq> i) (xs @ [x]))) else None)" for i
  proof (cases "fc_logical_id c \<in> cid ` set xs")
    case True
    then have "\<not> (\<forall>y \<in> set xs. cid y \<noteq> fc_logical_id c)" by force
    then show ?thesis using inv True
      by (cases "i = fc_logical_id c") (auto simp: rrf_inv_def st' map_of_setdefault x takeWhile_snoc_first)
  next
    case False
    then have "\<forall>y \<in> set xs. cid y \<noteq> fc_logical_id c" by force
    then show ?thesis using inv False
      by (cases "i = fc_logical_id c") (auto simp: rrf_inv_def st' map_of_setdefault x takeWhile_snoc_first)
  qed
  have rep: "map_of (rs_representatives st') i =
      map_option (\<lambda>x. fc_representative (snd (snd x))) (find (\<lambda>x. cid x = i) (xs @ [x]))" for i
    using inv by (auto simp: rrf_inv_def st' map_of_setdefault x find_append split: option.splits)
  have "evidence_of (xs @ [x]) i = evidence_of xs i \<union> (if fc_logical_id c = i then set (fc_evidence c) else {})" for i
    by (auto simp: evidence_of_def x)
  then have evi: "evidence_inv (evidence_of (xs @ [x]) i) (dict_get (rs_evidence st') i [])" for i
    using inv add_evidence_inv [OF ev] by (auto simp: rrf_inv_def st')
  have "keys (rs_scores st') = first_occurrences [] (map cid (xs @ [x]))"
    using inv by (simp add: rrf_inv_def st' update_keys first_occurrences_snoc x set_first_occurrences)
  then show ?thesis using score seen rep evi inv by (simp add: rrf_inv_def st')
qed

lemma rrf_inv_rfold: "rfold (contribute k) xs rrf_init = Inr st \<Longrightarrow> rrf_inv k xs st"
proof (induction xs arbitrary: st rule: rev_induct)
  case Nil
  then have "st = rrf_init" by simp
  then show ?case
    by (simp add: rrf_inv_def rrf_init_def flat_score_def dict_get_def evidence_inv_def evidence_of_def)
next
  case (snoc x xs)
  then obtain st1 where "rfold (contribute k) xs rrf_init = Inr st1" "contribute k x st1 = Inr st"
    by (auto simp: rfold_append rbind_eq_Inr)
  then show ?case using snoc.IH rrf_inv_step by blast
qed

section \<open>Agreement with the reference score\<close>

lemma filter_enumerate_key:
  "distinct (map f cs) \<Longrightarrow>
   filter (\<lambda>x. f (snd x) = i) (enumerate n cs) =
     (case find (\<lambda>c. f c = i) cs of
        None \<Rightarrow> []
      | Some c \<Rightarrow> [(n + length (takeWhile (\<lambda>j. j \<noteq> i) (map f cs)), c)])"
proof (induction cs arbitrary: n)
  case (Cons c cs)
  show ?case
  proof (cases "f c = i")
    case True
    then have "find (\<lambda>c. f c = i) cs = None" using Cons.prems by (intro find_NoneI) (auto simp: rev_image_eqI)
    then show ?thesis using True Cons.IH [of "Suc n"] Cons.prems by simp
  next
    case False
    then show ?thesis using Cons.IH [of "Suc n"] Cons.prems by (simp split: option.splits)
  qed
qed simp

lemma find_first_by_Some_iff:
  "(\<exists>c. find (\<lambda>c. f c = i) (first_by f [] cs) = Some c) \<longleftrightarrow> i \<in> f ` set cs"
  by (simp add: find_first_by find_key_Some_iff)

lemma filter_branch_contributions:
  obtains "branch_rank_of b i = None" "filter (\<lambda>x. cid x = i) (branch_contributions b) = []"
  | r c where "branch_rank_of b i = Some r"
      "filter (\<lambda>x. cid x = i) (branch_contributions b) = [(fb_weight b, r, c)]"
proof -
  let ?cs = "first_by fc_logical_id [] (fb_candidates b)"
  have ids: "map fc_logical_id ?cs = first_occurrences [] (branch_ids b)"
    by (simp add: map_first_by branch_ids_def)
  then have "distinct (map fc_logical_id ?cs)" by (simp add: distinct_first_occurrences)
  then have fe: "filter (\<lambda>x. fc_logical_id (snd x) = i) (enumerate 1 ?cs) =
      (case find (\<lambda>c. fc_logical_id c = i) ?cs of None \<Rightarrow> []
       | Some c \<Rightarrow> [(1 + length (takeWhile (\<lambda>j. j \<noteq> i) (first_occurrences [] (branch_ids b))), c)])"
    by (subst filter_enumerate_key) (simp_all only: ids)
  have bc: "filter (\<lambda>x. cid x = i) (branch_contributions b) =
      map (\<lambda>(r, c). (fb_weight b, r, c)) (filter (\<lambda>x. fc_logical_id (snd x) = i) (enumerate 1 ?cs))"
    by (simp add: branch_contributions_def filter_map comp_def split_def)
  show thesis
  proof (cases "find (\<lambda>c. fc_logical_id c = i) ?cs")
    case None
    then have "i \<notin> set (branch_ids b)"
      using find_first_by_Some_iff [of fc_logical_id i "fb_candidates b"] by (simp add: branch_ids_def)
    then show ?thesis using that(1) None fe bc by (simp add: branch_rank_of_def)
  next
    case (Some c)
    then have "i \<in> set (branch_ids b)"
      using find_first_by_Some_iff [of fc_logical_id i "fb_candidates b"] by (simp add: branch_ids_def)
    then show ?thesis using that(2) Some fe bc by (simp add: branch_rank_of_def)
  qed
qed

lemma flat_score_rrf_score: "flat_score k (contributions bs) i = rrf_score k bs i"
proof -
  let ?add = "\<lambda>(w, r, c) s. rbind (fdiv_int w (k + int r)) (\<lambda>x. Inr (fadd s x))"
  let ?ref = "\<lambda>b s. case branch_rank_of b i of None \<Rightarrow> Inr s
    | Some r \<Rightarrow> rbind (fdiv_int (fb_weight b) (k + int r)) (\<lambda>x. Inr (fadd s x))"
  have one: "rfold ?add (filter (\<lambda>x. cid x = i) (branch_contributions b)) s = ?ref b s" for b s
    by (rule filter_branch_contributions [of b i]) (simp_all add: rbind_def split: sum.splits)
  have "rfold ?add (filter (\<lambda>x. cid x = i) (contributions bs)) s = rfold ?ref bs s" for s
  proof (induction bs arbitrary: s)
    case (Cons b bs)
    then have "rfold ?add (filter (\<lambda>x. cid x = i) (contributions bs)) = rfold ?ref bs" by blast
    then show ?case by (simp add: contributions_def rfold_append one)
  qed (simp add: contributions_def)
  then show ?thesis by (simp add: flat_score_def rrf_score_def)
qed

section \<open>Reading the result\<close>

definition fused_of :: "rrf_state \<Rightarrow> int \<Rightarrow> pystr \<Rightarrow> FusedCandidate" where
  "fused_of st e i =
     \<lparr>fd_logical_id = i, fd_score = dict_get (rs_scores st) i (Fin 0),
      fd_first_seen = the (map_of (rs_first_seen st) i),
      fd_representative = the (map_of (rs_representatives st) i),
      fd_evidence = map (\<lambda>(_, _, item). item)
        (take (nat e) (sort_key evidence_order (dict_get (rs_evidence st) i [])))\<rparr>"

lemma rrf_inv_lookups:
  assumes "rrf_inv k xs st" "i \<in> set (keys (rs_scores st))"
  shows "\<exists>n r. map_of (rs_first_seen st) i = Some n \<and> map_of (rs_representatives st) i = Some r"
proof -
  have i: "i \<in> cid ` set xs" using assms by (simp add: rrf_inv_def set_first_occurrences del: set_map)
      (simp add: set_first_occurrences)
  then obtain x where "find (\<lambda>x. cid x = i) xs = Some x" using find_key_Some_iff [of cid i xs] by blast
  then show ?thesis using assms(1) i by (simp add: rrf_inv_def)
qed

lemma fused_candidates_total:
  assumes inv: "rrf_inv k xs st"
  shows "rmap (fused_candidate st e) (rs_scores st) = Inr (map (fused_of st e) (keys (rs_scores st)))"
proof -
  have dist: "distinct (keys (rs_scores st))" using inv by (simp add: rrf_inv_def distinct_first_occurrences)
  have "fused_candidate st e x = Inr (fused_of st e (fst x))" if x: "x \<in> set (rs_scores st)" for x
  proof -
    obtain i s where xis: "x = (i, s)" by (cases x)
    then have "map_of (rs_scores st) i = Some s" using x xis dist by simp
    moreover obtain n r where "map_of (rs_first_seen st) i = Some n" "map_of (rs_representatives st) i = Some r"
      using rrf_inv_lookups [OF inv, of i] x xis by force
    ultimately show ?thesis by (simp add: fused_candidate_def fused_of_def xis dict_get_def)
  qed
  then show ?thesis by (subst rmap_total [where g = "\<lambda>x. fused_of st e (fst x)"]) (simp_all add: comp_def)
qed

lemma weighted_rrf_cases:
  assumes "weighted_rrf bs k e = Inr fs"
  obtains st where "rrf_inv k (contributions bs) st" "1 \<le> k" "1 \<le> e"
    "fs = sort_key fused_order (map (fused_of st e) (keys (rs_scores st)))"
proof -
  obtain st where ke: "1 \<le> k" "1 \<le> e" and st: "rfold (contribute k) (contributions bs) rrf_init = Inr st"
    and fs: "rbind (rmap (fused_candidate st e) (rs_scores st)) (\<lambda>fused. Inr (sort_key fused_order fused)) = Inr fs"
    using assms by (auto simp: weighted_rrf_def rfold_rrf_branch rbind_eq_Inr split: if_splits)
  have inv: "rrf_inv k (contributions bs) st" using st by (rule rrf_inv_rfold)
  show ?thesis using that [OF inv ke] fs by (simp add: fused_candidates_total [OF inv])
qed

lemma map_fd_logical_id [simp]: "map fd_logical_id (map (fused_of st e) xs) = xs"
  by (simp add: fused_of_def comp_def)

section \<open>Order within one branch\<close>

lemma fneg_antimono: "x \<le> y \<Longrightarrow> y \<noteq> NaN \<Longrightarrow> fneg y \<le> fneg x"
  by (cases x; cases y) (simp_all add: less_eq_pyfloat_def)

lemma fneg_fneg_le: "fneg x \<le> fneg y \<Longrightarrow> isfinite x \<Longrightarrow> isfinite y \<Longrightarrow> y \<le> x"
  by (cases x; cases y) simp_all

lemma float_of_int_mono:
  assumes "i \<le> j" "float_of_int i = Inr x" "float_of_int j = Inr y"
  shows "x \<le> y"
  using mk_float_mono [of "of_int i" "of_int j"] assms
  by (auto simp: float_of_int_def split: pyfloat.splits)

lemma float_of_int_pos: "1 \<le> i \<Longrightarrow> float_of_int i = Inr x \<Longrightarrow> \<exists>q. x = Fin q \<and> 1 \<le> q"
proof -
  assume i: "1 \<le> i" and x: "float_of_int i = Inr x"
  have "b64_round (of_int 1) = of_int 1" by (rule b64_round_of_int) simp
  then have "mk_float (of_int 1) = Fin 1" by (simp add: mk_float_def)
  moreover have "mk_float (of_int 1) \<le> mk_float (of_int i)" by (rule mk_float_mono) (use i in simp)
  ultimately show ?thesis using x by (cases "mk_float (of_int i)") (auto simp: float_of_int_def)
qed

lemma fdiv_int_pos:
  assumes "1 \<le> i" "fdiv_int (Fin w) i = Inr x"
  obtains p where "float_of_int i = Inr (Fin p)" "1 \<le> p" "x = mk_float (w / p)"
proof -
  obtain y where y: "float_of_int i = Inr y" using assms by (auto simp: fdiv_int_def rbind_eq_Inr)
  then obtain p where "y = Fin p" "1 \<le> p" using float_of_int_pos assms(1) by blast
  then show ?thesis using that [of p] y assms by (simp add: fdiv_int_def)
qed

lemma le_PosInf: "x \<noteq> NaN \<Longrightarrow> x \<le> PosInf"
  by (cases x) (simp_all add: less_eq_pyfloat_def)

lemma fdiv_int_antimono:
  assumes "1 \<le> i" "i \<le> j" "0 \<le> w" "fdiv_int (Fin w) i = Inr x" "fdiv_int (Fin w) j = Inr y"
  shows "y \<le> x" and "Fin 0 \<le> y" and "x \<noteq> NaN" and "y \<noteq> NaN"
proof -
  obtain p where p: "float_of_int i = Inr (Fin p)" "1 \<le> p" "x = mk_float (w / p)"
    by (rule fdiv_int_pos [OF assms(1,4)])
  obtain q where q: "float_of_int j = Inr (Fin q)" "1 \<le> q" "y = mk_float (w / q)"
    by (rule fdiv_int_pos [OF _ assms(5)]) (use assms(1,2) in simp)
  have "p \<le> q" using float_of_int_mono [OF assms(2) p(1) q(1)] by simp
  then have "w / q \<le> w / p" using p(2) assms(3) by (intro divide_left_mono) auto
  then show "y \<le> x" by (simp add: p(3) q(3) mk_float_mono)
  show "Fin 0 \<le> y" using q assms(3) by (simp add: mk_float_nonneg)
  show "x \<noteq> NaN" "y \<noteq> NaN" by (simp_all add: p(3) q(3))
qed

lemma fadd_zero_mono:
  assumes "y \<le> x" "Fin 0 \<le> y" "x \<noteq> NaN"
  shows "fadd (Fin 0) y \<le> fadd (Fin 0) x" and "fadd (Fin 0) x \<noteq> NaN"
proof -
  have y: "y = PosInf \<or> (\<exists>q. y = Fin q)" using assms by (cases x; cases y) (auto simp: less_eq_pyfloat_def)
  have x: "x = PosInf \<or> (\<exists>p. x = Fin p)" using assms by (cases x; cases y) (auto simp: less_eq_pyfloat_def)
  show "fadd (Fin 0) y \<le> fadd (Fin 0) x" using x y assms(1) by (auto simp: mk_float_mono le_PosInf)
  show "fadd (Fin 0) x \<noteq> NaN" using x by auto
qed

lemma single_branch_score:
  assumes w: "fb_weight b = Fin w" "0 \<le> w" and k: "1 \<le> k"
    and I: "I = first_occurrences [] (branch_ids b)" and ij: "i \<le> j" "j < length I"
    and si: "rrf_score k [b] (I ! i) = Inr s" and sj: "rrf_score k [b] (I ! j) = Inr t"
  shows "fneg s \<le> fneg t"
proof -
  have rank: "branch_rank_of b (I ! m) = Some (1 + m)" if "m < length I" for m
  proof -
    have "I ! m \<in> set (branch_ids b)" using that nth_mem [OF that] by (simp add: I set_first_occurrences)
    moreover have "length (takeWhile (\<lambda>x. x \<noteq> I ! m) I) = m"
      by (rule length_takeWhile_nth) (simp_all add: that, simp add: I distinct_first_occurrences)
    ultimately show ?thesis by (simp add: branch_rank_of_def flip: I)
  qed
  obtain x where x: "fdiv_int (Fin w) (k + int (1 + i)) = Inr x" "s = fadd (Fin 0) x"
    using si rank [of i] ij w by (auto simp: rrf_score_def rbind_eq_Inr)
  obtain y where y: "fdiv_int (Fin w) (k + int (1 + j)) = Inr y" "t = fadd (Fin 0) y"
    using sj rank [of j] ij w by (auto simp: rrf_score_def rbind_eq_Inr)
  have le: "k + int (1 + i) \<le> k + int (1 + j)" "1 \<le> k + int (1 + i)" using ij k by simp_all
  note d = fdiv_int_antimono [OF le(2,1) w(2) x(1) y(1)]
  show ?thesis unfolding x y by (rule fneg_antimono [OF fadd_zero_mono [OF d(1,2,3)]])
qed

lemma fdiv_int_total: "1 \<le> i \<Longrightarrow> i < 2 ^ 53 \<Longrightarrow> \<exists>x. fdiv_int (Fin w) i = Inr x"
  by (simp add: fdiv_int_def float_of_int_exact)

lemma first_by_length: "length (first_by f seen xs) \<le> length xs"
  by (induction f seen xs rule: first_by.induct) auto

lemma find_branch_contributions:
  "map_option (\<lambda>x. snd (snd x)) (find (\<lambda>x. cid x = i) (branch_contributions b)) =
     find (\<lambda>c. fc_logical_id c = i) (fb_candidates b)"
proof -
  have enum: "map_option (\<lambda>x. snd (snd x)) (find (\<lambda>x. cid x = i) (map (\<lambda>(r, c). (w, r, c)) (enumerate n cs))) =
      find (\<lambda>c. fc_logical_id c = i) cs" for n cs and w :: pyfloat
    by (induction cs arbitrary: n) auto
  show ?thesis unfolding branch_contributions_def enum by (rule find_first_by) simp
qed

lemma find_contributions:
  "map_option (\<lambda>x. snd (snd x)) (find (\<lambda>x. cid x = i) (contributions bs)) =
     find (\<lambda>c. fc_logical_id c = i) (concat (map fb_candidates bs))"
proof (induction bs)
  case (Cons b bs)
  then show ?case using find_branch_contributions [of i b]
    by (auto simp: contributions_def find_append split: option.splits)
qed (simp add: contributions_def)

lemma contribute_total:
  assumes k: "1 \<le> k" and bs: "\<forall>b \<in> set bs. isfinite (fb_weight b) \<and> k + int (length (fb_candidates b)) < 2 ^ 53"
    and x: "x \<in> set (contributions bs)"
  shows "\<exists>t. contribute k x s = Inr t"
proof -
  obtain b r c where b: "b \<in> set bs" and xb: "x = (fb_weight b, r, c)"
    and rc: "(r, c) \<in> set (enumerate 1 (first_by fc_logical_id [] (fb_candidates b)))"
    using x by (auto simp: contributions_def branch_contributions_def)
  have "r \<le> length (fb_candidates b)"
    using in_set_enumerateD [OF rc] first_by_length [of fc_logical_id "[]" "fb_candidates b"] by linarith
  moreover have "k + int (length (fb_candidates b)) < 2 ^ 53" using bs b by blast
  ultimately have "k + int r < 2 ^ 53" by linarith
  moreover obtain w where w: "fb_weight b = Fin w" using bs b by (cases "fb_weight b") auto
  moreover have "1 \<le> k + int r" using k by simp
  ultimately obtain y where "fdiv_int (fb_weight b) (k + int r) = Inr y" using fdiv_int_total by metis
  then show ?thesis by (simp add: xb contribute_def rrf_contribute_def Let_def split_def)
qed

lemma weighted_rrf_returns:
  assumes "1 \<le> k" "1 \<le> e" "\<And>x s. x \<in> set (contributions bs) \<Longrightarrow> \<exists>t. contribute k x s = Inr t"
  shows "\<exists>fs. weighted_rrf bs k e = Inr fs"
proof -
  obtain st where st: "rfold (contribute k) (contributions bs) rrf_init = Inr st"
    using rfold_total [of "contributions bs" "contribute k" rrf_init] assms(3) by blast
  have "rrf_inv k (contributions bs) st" using st by (rule rrf_inv_rfold)
  then show ?thesis
    using assms(1,2) st by (simp add: weighted_rrf_def rfold_rrf_branch fused_candidates_total)
qed

section \<open>Properties\<close>

text \<open>
  C4: fusion is total: with finite weights, positive \<open>rrf_k\<close> and evidence limit, and ranks that are exact as
  doubles, it returns; no dictionary lookup of the result construction fails.
\<close>

theorem weighted_rrf_total:
  assumes "1 \<le> k" "1 \<le> e"
    and "\<forall>b \<in> set bs. isfinite (fb_weight b) \<and> k + int (length (fb_candidates b)) < 2 ^ 53"
  shows "\<exists>fs. weighted_rrf bs k e = Inr fs"
  using assms contribute_total by (intro weighted_rrf_returns) blast+

definition example_candidate :: "pystr \<Rightarrow> int \<Rightarrow> RankedCandidate" where
  "example_candidate uid rank =
     \<lparr>cand_unit_id = uid, cand_resource_id = [114], cand_representation_id = [112], cand_rank = rank,
      cand_raw_score = Fin 1, cand_branch_id = [98], cand_evidence_locator = \<lparr>loc_kind = [108], loc_payload = []\<rparr>,
      cand_metadata = [], cand_score_kind = ADAPTER_RAW, cand_rank_kind = ADAPTER_CANDIDATE\<rparr>"

definition example_branch :: FusionBranch where
  "example_branch =
     \<lparr>fb_branch_id = [98], fb_weight = Fin 2,
      fb_candidates = map (\<lambda>(u, r). \<lparr>fc_logical_id = u, fc_representative = example_candidate u r,
        fc_evidence = [example_candidate u r]\<rparr>) [([120], 1), ([121], 2), ([120], 3)]\<rparr>"

lemma example_branch_ids: "branch_ids example_branch = [[120], [121], [120]]"
  by (simp add: branch_ids_def example_branch_def)

theorem weighted_rrf_total_witness: "\<exists>fs. weighted_rrf [example_branch] 60 3 = Inr fs"
  by (rule weighted_rrf_total) (simp_all add: example_branch_def)

lemma example_total: "\<exists>fs. weighted_rrf [example_branch] 60 3 = Inr fs"
  by (rule weighted_rrf_returns) (simp, simp, rule contribute_total, simp_all add: example_branch_def)

lemma example_member: "\<exists>fs f. weighted_rrf [example_branch] 60 3 = Inr fs \<and> f \<in> set fs"
proof -
  obtain fs where fs: "weighted_rrf [example_branch] 60 3 = Inr fs" using example_total by blast
  obtain st where st: "rrf_inv 60 (contributions [example_branch]) st"
    "fs = sort_key fused_order (map (fused_of st 3) (keys (rs_scores st)))"
    using fs by (rule weighted_rrf_cases)
  have "keys (rs_scores st) = first_occurrences [] (map cid (contributions [example_branch]))"
    using st(1) by (simp add: rrf_inv_def)
  then have "fused_of st 3 [120] \<in> set fs"
    using st(2) by (simp add: contributions_def branch_contributions_ids example_branch_ids)
  then show ?thesis using fs by blast
qed

lemma weighted_rrf_ids:
  assumes "weighted_rrf bs k e = Inr fs"
  shows "distinct (map fd_logical_id fs) \<and> set (map fd_logical_id fs) = set (fusion_ids bs)"
proof -
  obtain st where inv: "rrf_inv k (contributions bs) st"
    and fs: "fs = sort_key fused_order (map (fused_of st e) (keys (rs_scores st)))"
    using assms by (rule weighted_rrf_cases)
  have "keys (rs_scores st) = first_occurrences [] (map cid (contributions bs))"
    using inv by (simp add: rrf_inv_def)
  moreover have "distinct (map fd_logical_id fs) \<longleftrightarrow> distinct (keys (rs_scores st))"
    unfolding fs distinct_map_sort_key map_fd_logical_id ..
  moreover have "set (map fd_logical_id fs) = set (map fd_logical_id (map (fused_of st e) (keys (rs_scores st))))"
    unfolding fs by (simp only: set_map set_sort)
  ultimately show ?thesis
    by (simp only: map_fd_logical_id distinct_first_occurrences set_first_occurrences)
      (simp add: set_contributions_ids)
qed

text \<open>
  C1: fusion returns every logical identity that occurs in a branch, each exactly once.
\<close>

theorem weighted_rrf_each_id_once:
  assumes "weighted_rrf bs k e = Inr fs"
  shows "distinct (map fd_logical_id fs) \<and> set (map fd_logical_id fs) = set (fusion_ids bs)"
  by (rule weighted_rrf_ids [OF assms])

theorem weighted_rrf_each_id_once_witness:
  "\<exists>fs. weighted_rrf [example_branch] 60 3 = Inr fs \<and> distinct (map fd_logical_id fs) \<and>
    set (map fd_logical_id fs) = {[120], [121]}"
proof -
  obtain fs where fs: "weighted_rrf [example_branch] 60 3 = Inr fs" using example_total by blast
  show ?thesis using fs weighted_rrf_each_id_once [OF fs]
    by (auto simp: fusion_ids_def example_branch_ids)
qed

lemma weighted_rrf_sorted:
  assumes "weighted_rrf bs k e = Inr fs"
  shows "sorted (map fused_order fs) \<and> (\<forall>f \<in> set fs. rrf_score k bs (fd_logical_id f) = Inr (fd_score f))"
proof -
  obtain st where inv: "rrf_inv k (contributions bs) st"
    and fs: "fs = sort_key fused_order (map (fused_of st e) (keys (rs_scores st)))"
    using assms by (rule weighted_rrf_cases)
  have "rrf_score k bs i = Inr (dict_get (rs_scores st) i (Fin 0))" for i
    using inv by (simp add: rrf_inv_def flat_score_rrf_score)
  then show ?thesis by (auto simp: fs fused_of_def)
qed

text \<open>
  C2: fused candidates are in the deterministic order of \<open>(-score, first_seen, logical_id)\<close>, and the score
  of each is the reference score: the doubles \<open>weight / (rrf_k + rank)\<close>, rank being the one-based position
  among the distinct identities of a branch, added branch by branch.
\<close>

theorem weighted_rrf_ranking:
  assumes "weighted_rrf bs k e = Inr fs"
  shows "sorted (map fused_order fs) \<and> (\<forall>f \<in> set fs. rrf_score k bs (fd_logical_id f) = Inr (fd_score f))"
  by (rule weighted_rrf_sorted [OF assms])

theorem weighted_rrf_ranking_witness:
  "\<exists>fs. weighted_rrf [example_branch] 60 3 = Inr fs \<and> sorted (map fused_order fs) \<and>
    (\<forall>f \<in> set fs. rrf_score 60 [example_branch] (fd_logical_id f) = Inr (fd_score f))"
proof -
  obtain fs where fs: "weighted_rrf [example_branch] 60 3 = Inr fs" using example_total by blast
  show ?thesis using fs weighted_rrf_ranking [OF fs] by blast
qed

text \<open>
  C3: the evidence of a fused candidate is bounded by \<open>evidence_limit\<close>, in the order of adapter ranks, with
  no \<open>(branch_id, unit_id)\<close> twice; every item was supplied as evidence of that logical identity, and
  evidence is only dropped where the limit forces it.
\<close>

theorem weighted_rrf_evidence:
  assumes "weighted_rrf bs k e = Inr fs" "f \<in> set fs"
  shows "sorted (map cand_rank (fd_evidence f)) \<and> distinct (map evidence_key (fd_evidence f)) \<and>
    set (fd_evidence f) \<subseteq> evidence_of (contributions bs) (fd_logical_id f) \<and>
    length (fd_evidence f) = min (nat e) (card (evidence_key ` evidence_of (contributions bs) (fd_logical_id f)))"
proof -
  obtain st where inv: "rrf_inv k (contributions bs) st"
    and fs: "fs = sort_key fused_order (map (fused_of st e) (keys (rs_scores st)))"
    using assms(1) by (rule weighted_rrf_cases)
  then obtain i where f: "f = fused_of st e i" using assms(2) by auto
  define es where "es = dict_get (rs_evidence st) i []"
  let ?item = "\<lambda>(_ :: int, _ :: nat, item :: RankedCandidate). item"
  have ei: "evidence_inv (evidence_of (contributions bs) i) es" using inv by (simp add: rrf_inv_def es_def)
  let ?out = "take (nat e) (sort_key evidence_order es)"
  have fe: "fd_evidence f = map ?item ?out" by (simp add: f fused_of_def es_def)
  have sub: "set ?out \<subseteq> set es" by (metis set_sort set_take_subset)
  have out: "\<forall>x \<in> set ?out. case x of (r, n, c) \<Rightarrow> r = cand_rank c \<and> c \<in> evidence_of (contributions bs) i"
    using ei sub unfolding evidence_inv_def by blast
  have "map cand_rank (fd_evidence f) = map (\<lambda>x. fst (evidence_order x)) ?out"
    unfolding fe map_map by (rule map_cong) (use out in \<open>auto simp: evidence_order_def\<close>)
  moreover have "sorted (map (\<lambda>x. fst (evidence_order x)) ?out)"
  proof -
    have "sorted (map evidence_order ?out)" by (simp add: take_map [symmetric] sorted_wrt_take)
    then show ?thesis by (auto simp: sorted_map sorted_wrt_map less_eq_prod_def elim!: sorted_wrt_mono_rel [rotated])
  qed
  moreover have "distinct (map evidence_key (fd_evidence f))"
  proof -
    have "map evidence_key (fd_evidence f) = take (nat e) (entry_keys (sort_key evidence_order es))"
      unfolding fe by (simp add: take_map comp_def split_def)
    then show ?thesis using ei by (simp add: evidence_inv_def distinct_map_sort_key distinct_take)
  qed
  moreover have "set (fd_evidence f) \<subseteq> evidence_of (contributions bs) i"
    unfolding fe using out by auto
  moreover have "length es = card (evidence_key ` evidence_of (contributions bs) i)"
    using ei by (metis (no_types, lifting) distinct_card evidence_inv_def length_map)
  moreover have "length (fd_evidence f) = min (nat e) (length es)" unfolding fe by simp
  moreover have "fd_logical_id f = i" by (simp add: f fused_of_def)
  ultimately show ?thesis by simp
qed

theorem weighted_rrf_evidence_witness:
  "\<exists>fs f. weighted_rrf [example_branch] 60 3 = Inr fs \<and> f \<in> set fs \<and>
    sorted (map cand_rank (fd_evidence f)) \<and> distinct (map evidence_key (fd_evidence f)) \<and>
    set (fd_evidence f) \<subseteq> evidence_of (contributions [example_branch]) (fd_logical_id f) \<and>
    length (fd_evidence f) =
      min (nat 3) (card (evidence_key ` evidence_of (contributions [example_branch]) (fd_logical_id f)))"
proof -
  obtain fs f where fs: "weighted_rrf [example_branch] 60 3 = Inr fs" and f: "f \<in> set fs"
    using example_member by blast
  show ?thesis using fs f weighted_rrf_evidence [OF fs f] by blast
qed

text \<open>
  Fusing a single branch keeps the adapter's order: the result lists the distinct identities of
  the branch as they came, whatever the weight and \<open>rrf_k\<close>, in spite of rounding.
\<close>

theorem weighted_rrf_single_branch:
  assumes "weighted_rrf [b] k e = Inr fs" "fb_weight b = Fin w" "0 < w"
  shows "map fd_logical_id fs = first_occurrences [] (branch_ids b)"
proof -
  define I where "I = first_occurrences [] (branch_ids b)"
  obtain st where inv: "rrf_inv k (contributions [b]) st" and k: "1 \<le> k"
    and fs: "fs = sort_key fused_order (map (fused_of st e) (keys (rs_scores st)))"
    using assms(1) by (rule weighted_rrf_cases)
  have ids: "map cid (contributions [b]) = I" by (simp add: contributions_def branch_contributions_ids I_def)
  have dI: "distinct I" by (simp add: I_def distinct_first_occurrences)
  have keys: "keys (rs_scores st) = I"
    using inv by (simp only: rrf_inv_def ids) (use dI in \<open>simp add: first_occurrences_distinct\<close>)
  have score: "rrf_score k [b] i = Inr (dict_get (rs_scores st) i (Fin 0))" for i
    using inv by (simp add: rrf_inv_def flat_score_rrf_score)
  have seen: "map_of (rs_first_seen st) (I ! j) = Some j" if "j < length I" for j
  proof -
    have "I ! j \<in> cid ` set (contributions [b])" using nth_mem [OF that] ids by (metis set_map)
    moreover have "length (takeWhile (\<lambda>x. cid x \<noteq> I ! j) (contributions [b])) = j"
      using length_takeWhile_nth [OF dI that] by (simp only: length_takeWhile_map flip: ids)
    ultimately show ?thesis using inv by (simp add: rrf_inv_def)
  qed
  have "sorted (map fused_order (map (fused_of st e) I))"
  proof (unfold sorted_iff_nth_mono, intro allI impI)
    fix i j assume ij: "i \<le> j" "j < length (map fused_order (map (fused_of st e) I))"
    then have "fneg (dict_get (rs_scores st) (I ! i) (Fin 0)) \<le> fneg (dict_get (rs_scores st) (I ! j) (Fin 0))"
      using assms(3) by (intro single_branch_score [OF assms(2) _ k I_def _ _ score score]) auto
    then show "map fused_order (map (fused_of st e) I) ! i \<le> map fused_order (map (fused_of st e) I) ! j"
      using ij seen [of i] seen [of j] by (cases "i = j") (auto simp: fused_order_def fused_of_def less_eq_prod_def)
  qed
  then have "fs = map (fused_of st e) I" unfolding fs keys by (rule sort_key_sorted_id)
  then show ?thesis by (simp only: map_fd_logical_id I_def)
qed

theorem weighted_rrf_single_branch_witness:
  "\<exists>fs. weighted_rrf [example_branch] 60 3 = Inr fs \<and> map fd_logical_id fs = [[120], [121]]"
proof -
  obtain fs where fs: "weighted_rrf [example_branch] 60 3 = Inr fs" using example_total by blast
  have "fb_weight example_branch = Fin 2" by (simp add: example_branch_def)
  then show ?thesis using fs weighted_rrf_single_branch [OF fs] by (simp add: example_branch_ids)
qed

lemma weighted_rrf_origin:
  assumes "weighted_rrf bs k e = Inr fs" "f \<in> set fs"
  shows "(\<exists>c. find (\<lambda>c. fc_logical_id c = fd_logical_id f) (concat (map fb_candidates bs)) = Some c \<and>
      fd_representative f = fc_representative c) \<and>
    fd_first_seen f = length (takeWhile (\<lambda>x. cid x \<noteq> fd_logical_id f) (contributions bs))"
proof -
  obtain st where inv: "rrf_inv k (contributions bs) st"
    and fs: "fs = sort_key fused_order (map (fused_of st e) (keys (rs_scores st)))"
    using assms(1) by (rule weighted_rrf_cases)
  then obtain i where f: "f = fused_of st e i" and i: "i \<in> set (keys (rs_scores st))" using assms(2) by auto
  then have ic: "i \<in> cid ` set (contributions bs)"
    using inv by (simp add: rrf_inv_def set_first_occurrences del: set_map) (simp add: set_first_occurrences)
  have "map_option (\<lambda>x. snd (snd x)) (find (\<lambda>x. cid x = i) (contributions bs)) =
      find (\<lambda>c. fc_logical_id c = i) (concat (map fb_candidates bs))"
    by (rule find_contributions)
  moreover obtain x where "find (\<lambda>x. cid x = i) (contributions bs) = Some x"
    using ic find_key_Some_iff [of cid i "contributions bs"] by blast
  ultimately show ?thesis using inv ic by (force simp: rrf_inv_def f fused_of_def)
qed

text \<open>
  A fused candidate is represented by the representative of the first candidate with its identity,
  in the order of branches and candidates, and \<open>first_seen\<close> is the number of contributions before it.
\<close>

theorem weighted_rrf_representative:
  assumes "weighted_rrf bs k e = Inr fs" "f \<in> set fs"
  shows "(\<exists>c. find (\<lambda>c. fc_logical_id c = fd_logical_id f) (concat (map fb_candidates bs)) = Some c \<and>
      fd_representative f = fc_representative c) \<and>
    fd_first_seen f = length (takeWhile (\<lambda>x. cid x \<noteq> fd_logical_id f) (contributions bs))"
  by (rule weighted_rrf_origin [OF assms])

theorem weighted_rrf_representative_witness:
  "\<exists>fs f. weighted_rrf [example_branch] 60 3 = Inr fs \<and> f \<in> set fs \<and>
    (\<exists>c. find (\<lambda>c. fc_logical_id c = fd_logical_id f) (concat (map fb_candidates [example_branch])) = Some c \<and>
      fd_representative f = fc_representative c) \<and>
    fd_first_seen f = length (takeWhile (\<lambda>x. cid x \<noteq> fd_logical_id f) (contributions [example_branch]))"
proof -
  obtain fs f where fs: "weighted_rrf [example_branch] 60 3 = Inr fs" and f: "f \<in> set fs"
    using example_member by blast
  show ?thesis using fs f weighted_rrf_representative [OF fs f] by blast
qed

end
