(* ===== verification/Py_Hash.thy ===== *)
theory Py_Hash
  imports Py_Str "HOL-Library.Word"
begin

text \<open>
  \<open>hashlib.sha256\<close> of the standard library, as FIPS 180-4 defines it: 32-bit words with wrapping
  addition, the message schedule and the compression rounds. The code uses its hexadecimal digest for
  fingerprints and stable identities.
\<close>

unbundle bit_operations_syntax

type_synonym w32 = "32 word"

definition sha256_K :: "w32 list" where
  "sha256_K =
    [1116352408, 1899447441, 3049323471, 3921009573, 961987163, 1508970993, 2453635748, 2870763221,
     3624381080, 310598401, 607225278, 1426881987, 1925078388, 2162078206, 2614888103, 3248222580,
     3835390401, 4022224774, 264347078, 604807628, 770255983, 1249150122, 1555081692, 1996064986,
     2554220882, 2821834349, 2952996808, 3210313671, 3336571891, 3584528711, 113926993, 338241895,
     666307205, 773529912, 1294757372, 1396182291, 1695183700, 1986661051, 2177026350, 2456956037,
     2730485921, 2820302411, 3259730800, 3345764771, 3516065817, 3600352804, 4094571909, 275423344,
     430227734, 506948616, 659060556, 883997877, 958139571, 1322822218, 1537002063, 1747873779,
     1955562222, 2024104815, 2227730452, 2361852424, 2428436474, 2756734187, 3204031479, 3329325298]"

type_synonym sha_state = "w32 \<times> w32 \<times> w32 \<times> w32 \<times> w32 \<times> w32 \<times> w32 \<times> w32"

definition sha256_init :: sha_state where
  "sha256_init = (1779033703, 3144134277, 1013904242, 2773480762, 1359893119, 2600822924, 528734635, 1541459225)"

definition big_endian :: "nat \<Rightarrow> nat \<Rightarrow> nat list" where
  "big_endian n v = map (\<lambda>i. (v div 256 ^ (n - 1 - i)) mod 256) [0..<n]"

definition sha_pad :: "nat list \<Rightarrow> nat list" where
  "sha_pad m = m @ [128] @ replicate ((119 - length m mod 64) mod 64) 0 @ big_endian 8 (8 * length m)"

fun be_word :: "nat list \<Rightarrow> w32" where
  "be_word bs = fold (\<lambda>b w. push_bit 8 w OR of_nat b) bs 0"

fun chunks :: "nat \<Rightarrow> nat \<Rightarrow> nat list \<Rightarrow> nat list list" where
  "chunks m 0 xs = []"
| "chunks m (Suc n) xs = take m xs # chunks m n (drop m xs)"

definition sha_s0 :: "w32 \<Rightarrow> w32" where
  "sha_s0 x = word_rotr 7 x XOR word_rotr 18 x XOR drop_bit 3 x"

definition sha_s1 :: "w32 \<Rightarrow> w32" where
  "sha_s1 x = word_rotr 17 x XOR word_rotr 19 x XOR drop_bit 10 x"

text \<open>The schedule, newest word first.\<close>

fun sha_schedule :: "nat \<Rightarrow> w32 list \<Rightarrow> w32 list" where
  "sha_schedule 0 ws = rev ws"
| "sha_schedule (Suc n) ws =
     sha_schedule n ((sha_s1 (ws ! 1) + ws ! 6 + sha_s0 (ws ! 14) + ws ! 15) # ws)"

fun sha_round :: "w32 \<times> w32 \<Rightarrow> sha_state \<Rightarrow> sha_state" where
  "sha_round (k, w) (a, b, c, d, e, f, g, h) =
     (let S1 = word_rotr 6 e XOR word_rotr 11 e XOR word_rotr 25 e;
          ch = (e AND f) XOR (NOT e AND g);
          t1 = h + S1 + ch + k + w;
          S0 = word_rotr 2 a XOR word_rotr 13 a XOR word_rotr 22 a;
          maj = (a AND b) XOR (a AND c) XOR (b AND c)
      in (t1 + S0 + maj, a, b, c, d + t1, e, f, g))"

fun sha_add :: "sha_state \<Rightarrow> sha_state \<Rightarrow> sha_state" where
  "sha_add (a, b, c, d, e, f, g, h) (a', b', c', d', e', f', g', h') =
     (a + a', b + b', c + c', d + d', e + e', f + f', g + g', h + h')"

definition sha_block :: "nat list \<Rightarrow> sha_state \<Rightarrow> sha_state" where
  "sha_block blk st =
     sha_add st (fold sha_round (zip sha256_K (sha_schedule 48 (rev (map be_word (chunks 4 16 blk))))) st)"

fun state_words :: "sha_state \<Rightarrow> w32 list" where
  "state_words (a, b, c, d, e, f, g, h) = [a, b, c, d, e, f, g, h]"

definition sha256 :: "nat list \<Rightarrow> nat list" where
  "sha256 m =
     (let p = sha_pad m
      in concat (map (\<lambda>w. big_endian 4 (unat w))
           (state_words (fold sha_block (chunks 64 (length p div 64) p) sha256_init))))"

definition byte_hex :: "nat \<Rightarrow> pystr" where
  "byte_hex b = [digit_char (b div 16), digit_char (b mod 16)]"

definition hexdigest :: "nat list \<Rightarrow> pystr" where
  "hexdigest m = concat (map byte_hex (sha256 m))"

section \<open>Shape of a digest\<close>

lemma length_concat_const: "(\<And>x. x \<in> set xs \<Longrightarrow> length (f x) = n) \<Longrightarrow> length (concat (map f xs)) = n * length xs"
  by (induction xs) auto

lemma length_state_words [simp]: "length (state_words s) = 8"
  by (cases s rule: state_words.cases) simp

lemma length_sha256 [simp]: "length (sha256 m) = 32"
  unfolding sha256_def Let_def by (subst length_concat_const [where n = 4]) (simp_all add: big_endian_def)

lemma sha256_byte: "b \<in> set (sha256 m) \<Longrightarrow> b < 256"
  by (auto simp: sha256_def Let_def big_endian_def)

lemma length_hexdigest [simp]: "length (hexdigest m) = 64"
  unfolding hexdigest_def by (subst length_concat_const [where n = 2]) (simp_all add: byte_hex_def)

lemma hexdigest_hex: "list_all hex_digit (hexdigest m)"
proof -
  have "hex_digit (digit_char n)" if "n < 16" for n
    using that by (auto simp: digit_char_def hex_digit_def)
  then have "list_all hex_digit (byte_hex b)" if "b < 256" for b
    using that by (simp add: byte_hex_def)
  then show ?thesis by (auto simp: hexdigest_def list_all_iff dest: sha256_byte)
qed

end
