(* ===== verification/Core_Observability.thy ===== *)
theory Core_Observability
  imports Core_Common Py_Hash
begin

text \<open>
  \<open>observability.py\<close>: the closed vocabulary of core events and fields, fingerprints, sanitising of field
  values, \<open>SafeEvent\<close> and its log message, and the saturating counter of lost diagnostics. Delivery to the
  handlers of the \<open>logging\<close> package is outside the model: an emitted event is appended to a trace. The
  service monad, with the store of a port and the trace as its state, is what the application services
  are written in.
\<close>

section \<open>The vocabulary\<close>

definition CORE_EVENT_NAMES :: "pystr list" where
  "CORE_EVENT_NAMES = map lit
    [''core.index.started'', ''core.index.validated'', ''core.index.completed'', ''core.index.failed'',
     ''core.search.started'', ''core.search.branch.completed'', ''core.search.branch.degraded'',
     ''core.search.fusion.completed'', ''core.search.completed'', ''core.search.failed'',
     ''core.similarity.started'', ''core.similarity.completed'',
     ''core.lifecycle.started'', ''core.lifecycle.completed'', ''core.lifecycle.degraded'',
     ''core.lifecycle.failed'', ''core.lifecycle.recovered'']"

definition SAFE_FIELD_NAMES :: "pystr list" where
  "SAFE_FIELD_NAMES = map lit
    [''request_id'', ''run_id'', ''execution_id'', ''operation'', ''status'', ''reason'', ''category'',
     ''resource_kind'', ''media_type'', ''target'', ''adapter_name'', ''branch_fingerprint'',
     ''space_fingerprint'', ''representation_count'', ''unit_count'', ''text_unit_count'',
     ''vector_unit_count'', ''vector_count'', ''space_count'', ''facet_count'', ''input_bytes'',
     ''representation_token_count_total'', ''representation_token_count_max'', ''unit_token_count_total'',
     ''unit_token_count_max'', ''branch_count'', ''lexical_branch_count'', ''vector_branch_count'',
     ''scope_filter_count'', ''requested_limit'', ''candidate_limit_total'', ''candidate_count'',
     ''fusion_input_count'', ''unique_unit_count'', ''unique_resource_count'', ''result_count'', ''rrf_k'',
     ''degraded_branch_count'', ''elapsed_ms'', ''validation_ms'', ''storage_ms'', ''publication_applied'']"

datatype LifecycleStatus = STARTED | VALIDATED | COMPLETED | SKIPPED | DEGRADED | FAILED | RECOVERED
datatype LifecycleOperation = ACCEPTANCE | CATALOG | INDEXING | INGESTION | RETRIEVAL
datatype LifecycleReason =
    CLEANUP_FAILED | DEPENDENCY_UNAVAILABLE | DEPENDENCY_FAILED | INTEGRITY_FAILED | VALIDATION_FAILED

fun status_value :: "LifecycleStatus \<Rightarrow> pystr" where
  "status_value STARTED = lit ''started''"
| "status_value VALIDATED = lit ''validated''"
| "status_value COMPLETED = lit ''completed''"
| "status_value SKIPPED = lit ''skipped''"
| "status_value DEGRADED = lit ''degraded''"
| "status_value FAILED = lit ''failed''"
| "status_value RECOVERED = lit ''recovered''"

fun operation_value :: "LifecycleOperation \<Rightarrow> pystr" where
  "operation_value ACCEPTANCE = lit ''acceptance''"
| "operation_value CATALOG = lit ''catalog''"
| "operation_value INDEXING = lit ''indexing''"
| "operation_value INGESTION = lit ''ingestion''"
| "operation_value RETRIEVAL = lit ''retrieval''"

fun reason_value :: "LifecycleReason \<Rightarrow> pystr" where
  "reason_value CLEANUP_FAILED = lit ''cleanup_failed''"
| "reason_value DEPENDENCY_UNAVAILABLE = lit ''dependency_unavailable''"
| "reason_value DEPENDENCY_FAILED = lit ''dependency_failed''"
| "reason_value INTEGRITY_FAILED = lit ''integrity_failed''"
| "reason_value VALIDATION_FAILED = lit ''validation_failed''"

fun error_value :: "ErrorCategory \<Rightarrow> pystr" where
  "error_value VALIDATION = lit ''validation''"
| "error_value BRANCH_UNAVAILABLE = lit ''branch_unavailable''"
| "error_value INCOMPATIBLE_VECTOR_SPACE = lit ''incompatible_vector_space''"
| "error_value ADAPTER_TIMEOUT = lit ''adapter_timeout''"
| "error_value ADAPTER_ERROR = lit ''adapter_error''"
| "error_value CATALOG_ERROR = lit ''catalog_error''"
| "error_value INTERNAL_ERROR = lit ''internal_error''"

fun degradation_value :: "DegradationCategory \<Rightarrow> pystr" where
  "degradation_value DEG_BRANCH_UNAVAILABLE = lit ''branch_unavailable''"
| "degradation_value DEG_INCOMPATIBLE_VECTOR_SPACE = lit ''incompatible_vector_space''"
| "degradation_value DEG_ADAPTER_TIMEOUT = lit ''adapter_timeout''"
| "degradation_value DEG_ADAPTER_ERROR = lit ''adapter_error''"

section \<open>Fingerprints\<close>

definition SHA_PREFIX :: pystr where "SHA_PREFIX = lit ''sha256:''"

definition removeprefix :: "pystr \<Rightarrow> pystr \<Rightarrow> pystr" where
  "removeprefix p s = (if take (length p) s = p then drop (length p) s else s)"

definition startswith :: "pystr \<Rightarrow> pystr \<Rightarrow> bool" where
  "startswith s p \<longleftrightarrow> take (length p) s = p"

definition new_SafeFingerprint :: "pystr \<Rightarrow> pystr result" where
  "new_SafeFingerprint value =
     (let digest = removeprefix SHA_PREFIX value in
      if \<not> startswith value SHA_PREFIX \<or> length digest \<noteq> 64 \<or> \<not> list_all hex_digit digest
      then Inl (ValueError ''value must be a sha256 fingerprint'') else Inr value)"

definition safe_fingerprint :: "pystr \<Rightarrow> pystr result" where
  "safe_fingerprint value =
     (if utf8_encodable value then new_SafeFingerprint (SHA_PREFIX @ hexdigest (utf8_encode value))
      else Inl (ValueError ''surrogates not allowed''))"

section \<open>Sanitising\<close>

definition REDACTED :: pystr where "REDACTED = lit ''[redacted]''"

text \<open>A field value by its class; \<open>EvRequestId\<close> is a \<open>_SafeRequestId\<close>, \<open>EvOther\<close> any other object.\<close>

datatype evval =
    EvNone
  | EvBool bool
  | EvInt int
  | EvFloat pyfloat
  | EvFingerprint pystr
  | EvRequestId pystr
  | EvStatus LifecycleStatus
  | EvOperation LifecycleOperation
  | EvReason LifecycleReason
  | EvError ErrorCategory
  | EvDegradation DegradationCategory
  | EvOther pyobj

fun sanitize_value :: "evval \<Rightarrow> json result" where
  "sanitize_value EvNone = Inr JNull"
| "sanitize_value (EvBool b) = Inr (JBool b)"
| "sanitize_value (EvInt i) = Inr (JInt i)"
| "sanitize_value (EvFloat f) =
     (if isfinite f then Inr (JFloat f) else Inl (ValueError ''event numbers must be finite''))"
| "sanitize_value (EvFingerprint s) = Inr (JStr s)"
| "sanitize_value (EvRequestId s) = Inr (JStr s)"
| "sanitize_value (EvStatus s) = Inr (JStr (status_value s))"
| "sanitize_value (EvOperation s) = Inr (JStr (operation_value s))"
| "sanitize_value (EvReason s) = Inr (JStr (reason_value s))"
| "sanitize_value (EvError s) = Inr (JStr (error_value s))"
| "sanitize_value (EvDegradation s) = Inr (JStr (degradation_value s))"
| "sanitize_value (EvOther _) = Inr (JStr REDACTED)"

record SafeEvent =
  ev_name :: pystr
  ev_fields :: "(pystr \<times> json) list"

definition new_SafeEvent :: "pystr \<Rightarrow> (pystr, evval) dict option \<Rightarrow> SafeEvent result" where
  "new_SafeEvent name flds =
     (if name \<notin> set CORE_EVENT_NAMES then Inl (ValueError ''name must be a frozen core event name'')
      else case flds of
        None \<Rightarrow> Inl (ValueError ''fields must be a mapping'')
      | Some fs \<Rightarrow>
          if set (keys fs) - set SAFE_FIELD_NAMES \<noteq> {}
          then Inl (ValueError ''fields contain names outside the safe event schema'')
          else rbind (rmap (\<lambda>(k, v). rbind (sanitize_value v) (\<lambda>j. Inr (k, j))) (sort_key fst fs)) (\<lambda>sanitized.
               Inr \<lparr>ev_name = name, ev_fields = sanitized\<rparr>))"

text \<open>\<open>json.dumps(..., ensure_ascii=True)\<close>: characters outside ASCII are written as UTF-16 escapes.\<close>

definition hex4 :: "nat \<Rightarrow> pystr" where
  "hex4 n = [92, 117, digit_char (n div 4096 mod 16), digit_char (n div 256 mod 16), digit_char (n div 16 mod 16),
     digit_char (n mod 16)]"

definition ascii_escape :: "nat \<Rightarrow> pystr" where
  "ascii_escape c =
     (if c < 127 then escape_char c
      else if c < 65536 then hex4 c
      else hex4 (55296 + (c - 65536) div 1024) @ hex4 (56320 + (c - 65536) mod 1024))"

definition ascii_string :: "pystr \<Rightarrow> pystr" where
  "ascii_string s = [34] @ concat (map ascii_escape s) @ [34]"

text \<open>The sanitised values are scalars.\<close>

fun dumps_scalar :: "json \<Rightarrow> pystr" where
  "dumps_scalar (JStr s) = ascii_string s"
| "dumps_scalar j = canonical_json j"

definition to_log_message :: "SafeEvent \<Rightarrow> pystr" where
  "to_log_message event =
     ev_name event @ [32] @ [123] @ intersperse [44]
       (map (\<lambda>(k, j). ascii_string k @ [58] @ dumps_scalar j) (sort_key fst (ev_fields event))) @ [125]"

text \<open>\<open>_note_sink_loss\<close>: the counter of lost diagnostics saturates.\<close>

definition note_sink_loss :: "int \<Rightarrow> int" where
  "note_sink_loss c = min (c + 1) (2 ^ 31 - 1)"

lemma note_sink_loss_bound: "0 \<le> c \<Longrightarrow> c \<le> 2 ^ 31 - 1 \<Longrightarrow> 0 \<le> note_sink_loss c \<and> note_sink_loss c \<le> 2 ^ 31 - 1 \<and> c \<le> note_sink_loss c"
  by (auto simp: note_sink_loss_def)

section \<open>The service monad\<close>

type_synonym 's world = "'s \<times> SafeEvent list"
type_synonym ('s, 'a) svc = "'s world \<Rightarrow> 's world \<times> 'a result"

definition svc_return :: "'a \<Rightarrow> ('s, 'a) svc" where
  "svc_return x = (\<lambda>w. (w, Inr x))"

definition svc_raise :: "exn \<Rightarrow> ('s, 'a) svc" where
  "svc_raise e = (\<lambda>w. (w, Inl e))"

definition svc_lift :: "'a result \<Rightarrow> ('s, 'a) svc" where
  "svc_lift r = (\<lambda>w. (w, r))"

definition svc_bind :: "('s, 'a) svc \<Rightarrow> ('a \<Rightarrow> ('s, 'b) svc) \<Rightarrow> ('s, 'b) svc" where
  "svc_bind m f = (\<lambda>w. case m w of (w', Inl e) \<Rightarrow> (w', Inl e) | (w', Inr x) \<Rightarrow> f x w')"

text \<open>\<open>try: m except ...: h\<close>: the handler sees the exception and the state it was raised in.\<close>

definition svc_try :: "('s, 'a) svc \<Rightarrow> (exn \<Rightarrow> ('s, 'a) svc) \<Rightarrow> ('s, 'a) svc" where
  "svc_try m h = (\<lambda>w. case m w of (w', Inl e) \<Rightarrow> h e w' | (w', Inr x) \<Rightarrow> (w', Inr x))"

text \<open>A call of a port: it may change the store and may raise.\<close>

definition svc_port :: "('s \<Rightarrow> 's \<times> 'a result) \<Rightarrow> ('s, 'a) svc" where
  "svc_port f = (\<lambda>(s, tr). case f s of (s', r) \<Rightarrow> ((s', tr), r))"

text \<open>\<open>emit_event(logger, SafeEvent(name, fields))\<close>; the fields may depend on the number of events so far,
  by which clock readings are indexed.\<close>

definition svc_emit :: "pystr \<Rightarrow> (nat \<Rightarrow> (pystr, evval) dict) \<Rightarrow> ('s, unit) svc" where
  "svc_emit name flds = (\<lambda>(s, tr).
     case new_SafeEvent name (Some (flds (length tr))) of
       Inl e \<Rightarrow> ((s, tr), Inl e)
     | Inr ev \<Rightarrow> ((s, tr @ [ev]), Inr ()))"

lemma svc_simps [simp]:
  "svc_return x w = (w, Inr x)" "svc_raise e w = (w, Inl e)" "svc_lift r w = (w, r)"
  by (simp_all add: svc_return_def svc_raise_def svc_lift_def)

lemma svc_bind_Inl [simp]: "m w = (w', Inl e) \<Longrightarrow> svc_bind m f w = (w', Inl e)"
  by (simp add: svc_bind_def)

lemma svc_bind_Inr [simp]: "m w = (w', Inr x) \<Longrightarrow> svc_bind m f w = f x w'"
  by (simp add: svc_bind_def)

lemma svc_try_Inl [simp]: "m w = (w', Inl e) \<Longrightarrow> svc_try m h w = h e w'"
  by (simp add: svc_try_def)

lemma svc_try_Inr [simp]: "m w = (w', Inr x) \<Longrightarrow> svc_try m h w = (w', Inr x)"
  by (simp add: svc_try_def)

lemma svc_bind_eq_Inr:
  "svc_bind m f w = (w', Inr y) \<longleftrightarrow> (\<exists>w1 x. m w = (w1, Inr x) \<and> f x w1 = (w', Inr y))"
  by (auto simp: svc_bind_def split: prod.splits sum.splits)

section \<open>Events that are always accepted\<close>

definition ok_value :: "evval \<Rightarrow> bool" where
  "ok_value v \<longleftrightarrow> (\<forall>f. v = EvFloat f \<longrightarrow> isfinite f)"

definition ok_fields :: "(pystr, evval) dict \<Rightarrow> bool" where
  "ok_fields fs \<longleftrightarrow> list_all (\<lambda>(k, v). k \<in> set SAFE_FIELD_NAMES \<and> ok_value v) fs"

fun sanitized :: "evval \<Rightarrow> json" where
  "sanitized v = (case sanitize_value v of Inr j \<Rightarrow> j | Inl _ \<Rightarrow> JNull)"

definition event_of :: "pystr \<Rightarrow> (pystr, evval) dict \<Rightarrow> SafeEvent" where
  "event_of name fs = \<lparr>ev_name = name, ev_fields = map (\<lambda>(k, v). (k, sanitized v)) (sort_key fst fs)\<rparr>"

lemma sanitize_value_ok: "ok_value v \<Longrightarrow> sanitize_value v = Inr (sanitized v)"
  by (cases v) (auto simp: ok_value_def)

lemma new_SafeEvent_ok:
  assumes "name \<in> set CORE_EVENT_NAMES" "ok_fields fs"
  shows "new_SafeEvent name (Some fs) = Inr (event_of name fs)"
proof -
  have "rmap (\<lambda>(k, v). rbind (sanitize_value v) (\<lambda>j. Inr (k, j))) (sort_key fst fs) =
      Inr (map (\<lambda>(k, v). (k, sanitized v)) (sort_key fst fs))"
    using assms(2) by (intro rmap_total) (auto simp: ok_fields_def list_all_iff sanitize_value_ok simp del: sanitized.simps)
  moreover have "set (keys fs) - set SAFE_FIELD_NAMES = {}" using assms(2) by (auto simp: ok_fields_def list_all_iff)
  ultimately show ?thesis using assms(1) by (simp add: new_SafeEvent_def event_of_def del: set_map sanitized.simps)
qed

lemma svc_emit_ok:
  assumes "name \<in> set CORE_EVENT_NAMES" "ok_fields (flds (length tr))"
  shows "svc_emit name flds (s, tr) = ((s, tr @ [event_of name (flds (length tr))]), Inr ())"
  by (simp add: svc_emit_def new_SafeEvent_ok [OF assms])

lemma safe_fingerprint_ok: "utf8_encodable s \<Longrightarrow> safe_fingerprint s = Inr (SHA_PREFIX @ hexdigest (utf8_encode s))"
  by (simp add: safe_fingerprint_def new_SafeFingerprint_def removeprefix_def startswith_def hexdigest_hex)

section \<open>Log messages\<close>

definition printable :: "pystr \<Rightarrow> bool" where
  "printable s \<longleftrightarrow> (\<forall>c \<in> set s. 32 \<le> c \<and> c < 127)"

lemma printable_simps [simp]:
  "printable []" "printable (c # s) \<longleftrightarrow> 32 \<le> c \<and> c < 127 \<and> printable s" "printable (s @ t) \<longleftrightarrow> printable s \<and> printable t"
  by (auto simp: printable_def)

lemma printable_sub: "printable s \<Longrightarrow> set t \<subseteq> set s \<Longrightarrow> printable t"
  by (auto simp: printable_def)

lemma printable_digits: "printable (int_repr i)"
  using nat_digits_range [of i] nat_digits_range [of "- i"] by (force simp: int_repr_def printable_def)

lemma printable_rstrip_zeros: "printable s \<Longrightarrow> printable (rstrip_zeros s)"
  by (erule printable_sub) (auto simp: rstrip_zeros_def dest: set_dropWhileD)

lemma printable_take_drop: "printable s \<Longrightarrow> printable (take n s)" "printable s \<Longrightarrow> printable (drop n s)"
  by (auto elim!: printable_sub dest: in_set_takeD in_set_dropD)

lemma printable_replicate: "printable (replicate n 48)"
  by (simp add: printable_def)

lemma printable_pos_repr: "printable (pos_repr q)"
  by (simp add: pos_repr_def Let_def split_def lit_def printable_digits printable_rstrip_zeros
      printable_take_drop printable_replicate del: take_Suc drop_Suc)

lemma printable_float_repr: "printable (float_repr f)"
  by (cases f) (simp_all add: lit_def printable_pos_repr)

lemma printable_digit_char: "n < 16 \<Longrightarrow> printable [digit_char n]"
  by (simp add: digit_char_def)

lemma printable_hex4: "printable (hex4 n)"
  using printable_digit_char [of "n div 4096 mod 16"] printable_digit_char [of "n div 256 mod 16"]
    printable_digit_char [of "n div 16 mod 16"] printable_digit_char [of "n mod 16"]
  by (simp only: hex4_def printable_simps mod_less_divisor zero_less_numeral) simp

lemma printable_escape_char: "c < 127 \<Longrightarrow> printable (escape_char c)"
  using printable_digit_char [of "c div 16"] printable_digit_char [of "c mod 16"]
  by (simp add: escape_char_def lit_def)

lemma printable_ascii_string: "printable (ascii_string s)"
proof -
  have "printable (ascii_escape c)" for c
    by (simp add: ascii_escape_def printable_escape_char printable_hex4)
  then show ?thesis by (auto simp: ascii_string_def printable_def)
qed

lemma printable_intersperse: "printable sep \<Longrightarrow> (\<And>x. x \<in> set xs \<Longrightarrow> printable x) \<Longrightarrow> printable (intersperse sep xs)"
  by (induction sep xs rule: intersperse.induct) auto

lemma printable_dumps_scalar: "sanitize_value v = Inr j \<Longrightarrow> printable (dumps_scalar j)"
  by (cases v) (auto simp: printable_ascii_string printable_digits printable_float_repr lit_def split: if_splits)

lemma printable_event_name: "name \<in> set CORE_EVENT_NAMES \<Longrightarrow> printable name"
  unfolding CORE_EVENT_NAMES_def by (auto simp: lit_def)

section \<open>Redaction\<close>

fun redact :: "evval \<Rightarrow> evval" where
  "redact (EvOther _) = EvOther PNone"
| "redact v = v"

lemma sort_key_map_snd: "sort_key fst (map (\<lambda>(k, v). (k, f v)) fs) = map (\<lambda>(k, v). (k, f v)) (sort_key fst fs)"
proof -
  have "insort_key fst (k, f v) (map (\<lambda>(k, v). (k, f v)) xs) = map (\<lambda>(k, v). (k, f v)) (insort_key fst (k, v) xs)" for k v xs
    by (induction xs) auto
  note ins = this
  show ?thesis by (induction fs) (auto simp: ins)
qed

lemma rmap_map: "rmap f (map g xs) = rmap (\<lambda>x. f (g x)) xs"
  by (induction xs) auto

lemma sanitize_redact: "sanitize_value (redact v) = sanitize_value v"
  by (cases v) auto

text \<open>A string of a sanitised value: redacted, a fingerprint, a correlation identity or a word of the
  closed vocabulary.\<close>

definition vocabulary :: "pystr list" where
  "vocabulary = map lit
     [''started'', ''validated'', ''completed'', ''skipped'', ''degraded'', ''failed'', ''recovered'', ''acceptance'',
      ''catalog'', ''indexing'', ''ingestion'', ''retrieval'', ''cleanup_failed'', ''dependency_unavailable'',
      ''dependency_failed'', ''integrity_failed'', ''validation_failed'', ''validation'', ''branch_unavailable'',
      ''incompatible_vector_space'', ''adapter_timeout'', ''adapter_error'', ''catalog_error'', ''internal_error'']"

definition safe_string :: "pystr \<Rightarrow> bool" where
  "safe_string s \<longleftrightarrow>
     s = REDACTED \<or> s \<in> set vocabulary \<or> new_SafeFingerprint s = Inr s \<or>
     normalize_request_id (PStr s) ''request_id'' = Inr s"

text \<open>The classes of typed values: a fingerprint and a request identity were validated when built.\<close>

definition typed_value :: "evval \<Rightarrow> bool" where
  "typed_value v \<longleftrightarrow>
     (\<forall>s. v = EvFingerprint s \<longrightarrow> new_SafeFingerprint s = Inr s) \<and>
     (\<forall>s. v = EvRequestId s \<longrightarrow> normalize_request_id (PStr s) ''request_id'' = Inr s)"

lemma sanitize_safe_string: "typed_value v \<Longrightarrow> sanitize_value v = Inr (JStr s) \<Longrightarrow> safe_string s"
proof (cases v)
  case (EvStatus x)
  then show "sanitize_value v = Inr (JStr s) \<Longrightarrow> safe_string s"
    by (cases x) (auto simp: safe_string_def vocabulary_def)
next
  case (EvOperation x)
  then show "sanitize_value v = Inr (JStr s) \<Longrightarrow> safe_string s"
    by (cases x) (auto simp: safe_string_def vocabulary_def)
next
  case (EvReason x)
  then show "sanitize_value v = Inr (JStr s) \<Longrightarrow> safe_string s"
    by (cases x) (auto simp: safe_string_def vocabulary_def)
next
  case (EvError x)
  then show "sanitize_value v = Inr (JStr s) \<Longrightarrow> safe_string s"
    by (cases x) (auto simp: safe_string_def vocabulary_def)
next
  case (EvDegradation x)
  then show "sanitize_value v = Inr (JStr s) \<Longrightarrow> safe_string s"
    by (cases x) (auto simp: safe_string_def vocabulary_def)
qed (auto simp: safe_string_def typed_value_def split: if_splits)

lemma new_SafeEvent_field:
  assumes "new_SafeEvent name (Some fs) = Inr ev" "(k, j) \<in> set (ev_fields ev)"
  obtains v where "(k, v) \<in> set fs" "sanitize_value v = Inr j"
proof -
  have "rmap (\<lambda>(k, v). rbind (sanitize_value v) (\<lambda>j. Inr (k, j))) (sort_key fst fs) = Inr (ev_fields ev)"
    using assms(1) by (auto simp: new_SafeEvent_def rbind_eq_Inr split: if_splits)
  then obtain x where "x \<in> set (sort_key fst fs)"
    "(\<lambda>(k, v). rbind (sanitize_value v) (\<lambda>j. Inr (k, j))) x = Inr (k, j)" using assms(2) by (rule rmap_set)
  then have "x \<in> set fs" "(k, j) = (fst x, j) \<and> sanitize_value (snd x) = Inr j"
    by (simp_all add: split_def rbind_eq_Inr)
  then show thesis using that [of "snd x"] by (metis prod.collapse prod.inject)
qed

section \<open>Properties\<close>

text \<open>
  C14: a log record carries nothing but the closed vocabulary: names and fields are of the frozen schema,
  every string is redacted, a fingerprint, a correlation identity or a word of the vocabulary, and the
  rendered message is one line of printable ASCII.
\<close>

theorem SafeEvent_closed_vocabulary:
  assumes "new_SafeEvent name (Some fs) = Inr ev" "\<forall>v \<in> snd ` set fs. typed_value v"
  shows "ev_name ev \<in> set CORE_EVENT_NAMES \<and> set (keys (ev_fields ev)) \<subseteq> set SAFE_FIELD_NAMES \<and>
    (\<forall>(k, j) \<in> set (ev_fields ev). \<forall>s. j = JStr s \<longrightarrow> safe_string s) \<and> printable (to_log_message ev)"
proof -
  have name: "ev_name ev \<in> set CORE_EVENT_NAMES" and sub: "set (keys fs) \<subseteq> set SAFE_FIELD_NAMES"
    using assms(1) by (auto simp: new_SafeEvent_def rbind_eq_Inr split: if_splits)
  note field = new_SafeEvent_field [OF assms(1)]
  have ks: "set (keys (ev_fields ev)) \<subseteq> set SAFE_FIELD_NAMES"
  proof
    fix k assume "k \<in> set (keys (ev_fields ev))"
    then obtain j where "(k, j) \<in> set (ev_fields ev)" by auto
    then obtain v where "(k, v) \<in> set fs" by (rule field)
    then show "k \<in> set SAFE_FIELD_NAMES" using sub by force
  qed
  have vals: "safe_string s" if m: "(k, JStr s) \<in> set (ev_fields ev)" for k s
  proof -
    obtain v where v: "(k, v) \<in> set fs" "sanitize_value v = Inr (JStr s)" using m by (rule field)
    then have "typed_value v" using assms(2) by force
    then show ?thesis using v(2) by (rule sanitize_safe_string)
  qed
  have "printable (dumps_scalar j)" if "(k, j) \<in> set (ev_fields ev)" for k j
    using that by (rule field) (rule printable_dumps_scalar)
  then have "printable (to_log_message ev)"
    unfolding to_log_message_def
    by (auto simp: printable_event_name [OF name] printable_ascii_string intro!: printable_intersperse)
  then show ?thesis using name ks vals by auto
qed

definition example_fields :: "(pystr, evval) dict" where
  "example_fields = [(lit ''target'', EvOther (PStr [120])), (lit ''status'', EvStatus STARTED), (lit ''rrf_k'', EvInt 60)]"

lemma example_event:
  "new_SafeEvent (lit ''core.search.started'') (Some example_fields) = Inr (event_of (lit ''core.search.started'') example_fields)"
  by (rule new_SafeEvent_ok)
    (simp_all add: CORE_EVENT_NAMES_def SAFE_FIELD_NAMES_def ok_fields_def ok_value_def example_fields_def)

theorem SafeEvent_closed_vocabulary_witness:
  "printable (to_log_message (event_of (lit ''core.search.started'') example_fields))"
  using SafeEvent_closed_vocabulary [OF example_event]
  by (simp add: example_fields_def typed_value_def del: sanitized.simps)

text \<open>
  C15: redaction is a non-interference property: an event built from private values is the event
  built with every untyped value replaced by \<open>None\<close>, so no log record depends on them.
\<close>

theorem SafeEvent_redaction:
  "new_SafeEvent name (Some (map (\<lambda>(k, v). (k, redact v)) fs)) = new_SafeEvent name (Some fs)"
proof -
  have keys: "keys (map (\<lambda>(k, v). (k, redact v)) fs) = keys fs" by (induction fs) auto
  have "rmap (\<lambda>(k, v). rbind (sanitize_value v) (\<lambda>j. Inr (k, j))) (sort_key fst (map (\<lambda>(k, v). (k, redact v)) fs)) =
      rmap (\<lambda>(k, v). rbind (sanitize_value v) (\<lambda>j. Inr (k, j))) (sort_key fst fs)"
    unfolding sort_key_map_snd rmap_map by (rule rmap_cong) (auto simp: sanitize_redact)
  then show ?thesis unfolding new_SafeEvent_def option.case keys by simp
qed

end
