(* ===== verification/Core_Retrieval.thy ===== *)
theory Core_Retrieval
  imports Core_Fusion Core_Observability
begin

text \<open>
  \<open>application/retrieval.py\<close>, \<open>RetrievalService\<close>: a request's lexical and vector branches are run
  through the search port with their effective scopes, the candidates are validated, failures become
  degradations or end the request, and the successful branches are fused. The port is a record of its two
  operations on an abstract state; what it returns is a list or some other object (\<open>pyseq\<close>) of candidates or
  other objects (\<open>anyobj\<close>), or an exception.
\<close>

section \<open>Errors of the boundary\<close>

definition BRANCH_CATEGORIES :: "ErrorCategory list" where
  "BRANCH_CATEGORIES = [BRANCH_UNAVAILABLE, INCOMPATIBLE_VECTOR_SPACE, ADAPTER_TIMEOUT, ADAPTER_ERROR]"

text \<open>The constructor \<open>BranchExecutionError(category, branch_id=...)\<close> of \<open>domain/errors.py\<close>.\<close>

definition new_BranchExecutionError :: "ErrorCategory \<Rightarrow> pystr \<Rightarrow> exn result" where
  "new_BranchExecutionError category branch_id =
     (if category \<notin> set BRANCH_CATEGORIES then Inl (ValueError ''category is not valid for branch execution'')
      else if blank branch_id then Inl (ValueError ''branch_id must be a non-empty string'')
      else Inr (BranchExecutionError category branch_id))"

definition ERROR_TO_DEGRADATION :: "(ErrorCategory, DegradationCategory) dict" where
  "ERROR_TO_DEGRADATION =
     [(BRANCH_UNAVAILABLE, DEG_BRANCH_UNAVAILABLE), (INCOMPATIBLE_VECTOR_SPACE, DEG_INCOMPATIBLE_VECTOR_SPACE),
      (ADAPTER_TIMEOUT, DEG_ADAPTER_TIMEOUT), (ADAPTER_ERROR, DEG_ADAPTER_ERROR)]"

definition error_to_degradation :: "ErrorCategory \<Rightarrow> DegradationCategory result" where
  "error_to_degradation c = (case map_of ERROR_TO_DEGRADATION c of None \<Rightarrow> Inl KeyError | Some d \<Rightarrow> Inr d)"

section \<open>Ports and branches\<close>

record 's SearchPort =
  sp_search_lexical :: "LexicalBranch \<Rightarrow> SearchScope \<Rightarrow> 's \<Rightarrow> 's \<times> RankedCandidate pyseq result"
  sp_search_vector :: "VectorBranch \<Rightarrow> SearchScope \<Rightarrow> 's \<Rightarrow> 's \<times> RankedCandidate pyseq result"

datatype any_branch = Lexical LexicalBranch | Vector VectorBranch

fun br_id :: "any_branch \<Rightarrow> pystr" where
  "br_id (Lexical b) = lb_branch_id b"
| "br_id (Vector b) = vb_branch_id b"

fun br_weight :: "any_branch \<Rightarrow> pyfloat" where
  "br_weight (Lexical b) = lb_weight b"
| "br_weight (Vector b) = vb_weight b"

fun br_limit :: "any_branch \<Rightarrow> int" where
  "br_limit (Lexical b) = lb_candidate_limit b"
| "br_limit (Vector b) = vb_candidate_limit b"

fun br_override :: "any_branch \<Rightarrow> BranchScopeOverride option" where
  "br_override (Lexical b) = lb_scope_override b"
| "br_override (Vector b) = vb_scope_override b"

fun port_search :: "'s SearchPort \<Rightarrow> any_branch \<Rightarrow> SearchScope \<Rightarrow> 's \<Rightarrow> 's \<times> RankedCandidate pyseq result" where
  "port_search port (Lexical b) = sp_search_lexical port b"
| "port_search port (Vector b) = sp_search_vector port b"

definition request_branches :: "SearchRequest \<Rightarrow> any_branch list" where
  "request_branches r = map Lexical (req_lexical_branches r) @ map Vector (req_vector_branches r)"

section \<open>Effective scope\<close>

text \<open>One categorical field: \<open>None\<close> where the intersection is empty.\<close>

definition narrow :: "pystr list \<Rightarrow> pystr list \<Rightarrow> pystr list option" where
  "narrow global_values branch_values =
     (if branch_values = [] then Some global_values
      else if global_values = [] then Some branch_values
      else let intersection = filter (\<lambda>v. v \<in> set branch_values) global_values
           in if intersection = [] then None else Some intersection)"

definition str_tuple :: "pystr list \<Rightarrow> pyobj" where
  "str_tuple vs = PTuple (map PStr vs)"

definition effective_scope :: "SearchScope \<Rightarrow> BranchScopeOverride option \<Rightarrow> SearchScope option result" where
  "effective_scope global override =
     (case override of
        None \<Rightarrow> Inr (Some global)
      | Some ov \<Rightarrow>
          (case those [narrow (scope_resource_kinds global) (scope_resource_kinds ov),
                       narrow (scope_media_types global) (scope_media_types ov),
                       narrow (scope_source_namespaces global) (scope_source_namespaces ov),
                       narrow (scope_representation_kinds global) (scope_representation_kinds ov),
                       narrow (scope_modalities global) (scope_modalities ov),
                       narrow (scope_unit_kinds global) (scope_unit_kinds ov)] of
             Some [a, b, c, d, e, f] \<Rightarrow>
               rbind (new_SearchScope (str_tuple a) (str_tuple b) (str_tuple c) (str_tuple d) (str_tuple e) (str_tuple f)
                 (PySeq (map Typed (scope_facets_any global))) (PySeq (map Typed (scope_facets_all global)))
                 (PySeq (map Typed (scope_facets_none global)))) (\<lambda>s. Inr (Some s))
           | _ \<Rightarrow> Inr None))"

section \<open>Candidates\<close>

fun validate_from ::
  "pystr \<Rightarrow> int \<Rightarrow> pystr list \<Rightarrow> RankedCandidate anyobj list \<Rightarrow> RankedCandidate list result" where
  "validate_from branch_id expected_rank seen [] = Inr []"
| "validate_from branch_id expected_rank seen (Untyped # cs) =
     Inl (TypeError ''search ports must return RankedCandidate values'')"
| "validate_from branch_id expected_rank seen (Typed c # cs) =
     (if cand_branch_id c \<noteq> branch_id
      then Inl (ValueError ''candidate branch_id does not match the executed branch'')
      else if cand_rank c \<noteq> expected_rank
      then Inl (ValueError ''candidate ranks must match their 1-based positions'')
      else if cand_unit_id c \<in> set seen
      then Inl (ValueError ''candidate unit_id values must be unique'')
      else rbind (validate_from branch_id (expected_rank + 1) (cand_unit_id c # seen) cs) (\<lambda>vs. Inr (c # vs)))"

definition validate_candidates :: "any_branch \<Rightarrow> RankedCandidate pyseq \<Rightarrow> RankedCandidate list result" where
  "validate_candidates branch candidates =
     (case candidates of
        PyNotSeq \<Rightarrow> Inl (TypeError ''search ports must return a list'')
      | PySeq cs \<Rightarrow> validate_from (br_id branch) 1 [] (take (nat (br_limit branch)) cs))"

section \<open>Grouping\<close>

definition unit_candidate :: "RankedCandidate \<Rightarrow> FusionCandidate result" where
  "unit_candidate c = new_FusionCandidate (PStr (cand_unit_id c)) (Typed c) (PySeq [Typed c])"

definition deduplicate_units :: "RankedCandidate list \<Rightarrow> FusionCandidate list result" where
  "deduplicate_units candidates = rmap unit_candidate (first_by cand_unit_id [] candidates)"

text \<open>\<open>by_resource.setdefault(resource_id, []).append((first_seen, candidate))\<close>.\<close>

definition append_entry ::
  "nat \<times> RankedCandidate \<Rightarrow> (pystr, (nat \<times> RankedCandidate) list) dict \<Rightarrow>
   (pystr, (nat \<times> RankedCandidate) list) dict" where
  "append_entry entry d =
     AList.update (cand_resource_id (snd entry)) (dict_get d (cand_resource_id (snd entry)) [] @ [entry]) d"

definition by_resource :: "RankedCandidate list \<Rightarrow> (pystr, (nat \<times> RankedCandidate) list) dict" where
  "by_resource candidates =
     fold append_entry (first_by (\<lambda>x. cand_unit_id (snd x)) [] (enumerate 0 candidates)) []"

definition entry_order :: "nat \<times> RankedCandidate \<Rightarrow> int \<times> nat \<times> pystr" where
  "entry_order = (\<lambda>(first_seen, c). (cand_rank c, first_seen, cand_unit_id c))"

text \<open>\<open>ordered[0]\<close> and \<open>min(...)\<close> raise on an empty list of entries.\<close>

definition group_entry ::
  "int \<Rightarrow> pystr \<times> (nat \<times> RankedCandidate) list \<Rightarrow> (nat \<times> FusionCandidate) result" where
  "group_entry evidence_limit =
     (\<lambda>(resource_id, entries).
        case sort_key entry_order entries of
          [] \<Rightarrow> Inl IndexError
        | (first, representative) # rest \<Rightarrow>
            rbind (new_FusionCandidate (PStr resource_id) (Typed representative)
              (PySeq (map (\<lambda>x. Typed (snd x)) (take (nat evidence_limit) ((first, representative) # rest))))) (\<lambda>fc.
            Inr (Min (fst ` set entries), fc)))"

definition group_resources :: "RankedCandidate list \<Rightarrow> int \<Rightarrow> FusionCandidate list result" where
  "group_resources candidates evidence_limit =
     rbind (rmap (group_entry evidence_limit) (by_resource candidates)) (\<lambda>grouped.
     Inr (map snd (sort_key (\<lambda>x. (fst x, fc_logical_id (snd x))) grouped)))"

section \<open>Events\<close>

type_synonym clock = "string \<Rightarrow> nat \<Rightarrow> pyfloat"

definition search_emit :: "SearchRequest \<Rightarrow> string \<Rightarrow> (nat \<Rightarrow> (pystr, evval) dict) \<Rightarrow> ('s, unit) svc" where
  "search_emit request name flds =
     svc_emit (lit name) (\<lambda>n. (lit ''target'', EvOther (PStr (req_target request))) # flds n @
       (case req_request_id request of None \<Rightarrow> [] | Some i \<Rightarrow> [(lit ''request_id'', EvRequestId i)]))"

definition emit_degradation ::
  "clock \<Rightarrow> SearchRequest \<Rightarrow> pystr \<Rightarrow> ErrorCategory \<Rightarrow> ('s, unit) svc" where
  "emit_degradation el request branch_id category =
     svc_bind (svc_lift (safe_fingerprint branch_id)) (\<lambda>fp.
     svc_bind (svc_lift (error_to_degradation category)) (\<lambda>d.
     search_emit request ''core.search.branch.degraded'' (\<lambda>n.
       [(lit ''status'', EvStatus DEGRADED), (lit ''branch_fingerprint'', EvFingerprint fp),
        (lit ''category'', EvDegradation d), (lit ''elapsed_ms'', EvFloat (el ''elapsed_ms'' n))])))"

definition emit_search_failure :: "clock \<Rightarrow> SearchRequest \<Rightarrow> ErrorCategory \<Rightarrow> nat \<Rightarrow> ('s, unit) svc" where
  "emit_search_failure el request category failure_count =
     search_emit request ''core.search.failed'' (\<lambda>n.
       [(lit ''status'', EvStatus FAILED), (lit ''category'', EvError category),
        (lit ''degraded_branch_count'', EvInt (int failure_count)),
        (lit ''elapsed_ms'', EvFloat (el ''elapsed_ms'' n))])"

definition scope_filter_count :: "SearchScope \<Rightarrow> nat" where
  "scope_filter_count s =
     length (scope_resource_kinds s) + length (scope_media_types s) + length (scope_source_namespaces s) +
     length (scope_representation_kinds s) + length (scope_modalities s) + length (scope_unit_kinds s) +
     length (scope_facets_any s) + length (scope_facets_all s) + length (scope_facets_none s)"

section \<open>Running a branch\<close>

text \<open>The category a caught exception gets; the failure carries the executed branch's identity.\<close>

definition failure_category :: "exn \<Rightarrow> ErrorCategory" where
  "failure_category e =
     (case e of BranchExecutionError c _ \<Rightarrow> c | TimeoutError \<Rightarrow> ADAPTER_TIMEOUT | _ \<Rightarrow> ADAPTER_ERROR)"

text \<open>A branch result is a value: the candidates, or the failure with its category.\<close>

type_synonym branch_result = "ErrorCategory + RankedCandidate list"

definition branch_handler :: "clock \<Rightarrow> SearchRequest \<Rightarrow> any_branch \<Rightarrow> exn \<Rightarrow> ('s, branch_result) svc" where
  "branch_handler el request branch e =
     svc_bind (svc_lift (new_BranchExecutionError (failure_category e) (br_id branch))) (\<lambda>failure.
     svc_bind (if req_allow_partial request then emit_degradation el request (br_id branch) (failure_category e)
               else svc_return ()) (\<lambda>_.
     svc_return (Inl (failure_category e))))"

definition execute_branch ::
  "'s SearchPort \<Rightarrow> clock \<Rightarrow> SearchRequest \<Rightarrow> any_branch \<Rightarrow> SearchScope \<Rightarrow> ('s, branch_result) svc" where
  "execute_branch port el request branch scope = (\<lambda>w.
     case svc_bind (svc_port (port_search port branch scope)) (\<lambda>raw. svc_lift (validate_candidates branch raw)) w of
       (w', Inl e) \<Rightarrow> branch_handler el request branch e w'
     | (w', Inr candidates) \<Rightarrow>
         svc_bind (svc_lift (safe_fingerprint (br_id branch))) (\<lambda>fp.
         svc_bind (search_emit request ''core.search.branch.completed'' (\<lambda>n.
           [(lit ''status'', EvStatus COMPLETED), (lit ''branch_fingerprint'', EvFingerprint fp),
            (lit ''candidate_count'', EvInt (int (length candidates))),
            (lit ''elapsed_ms'', EvFloat (el ''elapsed_ms'' n))])) (\<lambda>_.
         svc_return (Inr candidates))) w')"

record ExecutedBranch =
  eb_branch_id :: pystr
  eb_weight :: pyfloat
  eb_candidates :: "RankedCandidate list"

text \<open>The three lists the loop of \<open>search\<close> fills; a failure is kept as its branch and category.\<close>

record collected =
  col_successful :: "ExecutedBranch list"
  col_degradations :: "Degradation list"
  col_failures :: "(ErrorCategory \<times> pystr) list"

definition collect_result ::
  "SearchRequest \<Rightarrow> any_branch \<Rightarrow> branch_result \<Rightarrow> collected \<Rightarrow> collected result" where
  "collect_result request branch res st =
     (case res of
        Inl category \<Rightarrow>
          (let st' = st\<lparr>col_failures := col_failures st @ [(category, br_id branch)]\<rparr> in
           if req_allow_partial request
           then rbind (error_to_degradation category) (\<lambda>d.
                rbind (new_Degradation (PStr (br_id branch)) (Typed d)) (\<lambda>deg.
                Inr (st'\<lparr>col_degradations := col_degradations st @ [deg]\<rparr>)))
           else Inr st')
      | Inr candidates \<Rightarrow>
          Inr (st\<lparr>col_successful := col_successful st @
            [\<lparr>eb_branch_id = br_id branch, eb_weight = br_weight branch, eb_candidates = candidates\<rparr>]\<rparr>))"

text \<open>\<open>raise failures[0]\<close> after the event.\<close>

definition fail_search :: "clock \<Rightarrow> SearchRequest \<Rightarrow> collected \<Rightarrow> ('s, 'a) svc" where
  "fail_search el request st =
     (case col_failures st of
        [] \<Rightarrow> svc_raise IndexError
      | (category, branch_id) # _ \<Rightarrow>
          svc_bind (emit_search_failure el request category (length (col_failures st))) (\<lambda>_.
          svc_raise (BranchExecutionError category branch_id)))"

definition run_branch ::
  "'s SearchPort \<Rightarrow> clock \<Rightarrow> SearchRequest \<Rightarrow> any_branch \<Rightarrow> collected \<Rightarrow> ('s, collected) svc" where
  "run_branch port el request branch st =
     svc_bind (svc_lift (effective_scope (req_scope request) (br_override branch))) (\<lambda>scope.
     svc_bind (case scope of
         None \<Rightarrow> svc_return (Inr [])
       | Some s \<Rightarrow> execute_branch port el request branch s) (\<lambda>res.
     svc_bind (svc_lift (collect_result request branch res st)) (\<lambda>st'.
     if col_failures st' \<noteq> [] \<and> \<not> req_allow_partial request then fail_search el request st'
     else svc_return st')))"

fun svc_fold :: "('a \<Rightarrow> 'b \<Rightarrow> ('s, 'b) svc) \<Rightarrow> 'a list \<Rightarrow> 'b \<Rightarrow> ('s, 'b) svc" where
  "svc_fold f [] b = svc_return b"
| "svc_fold f (x # xs) b = svc_bind (f x b) (svc_fold f xs)"

section \<open>Search\<close>

definition prepare_fusion_branch :: "SearchRequest \<Rightarrow> ExecutedBranch \<Rightarrow> FusionBranch result" where
  "prepare_fusion_branch request branch =
     rbind (if req_target request = TARGET_RESOURCE
            then group_resources (eb_candidates branch) (req_evidence_limit_per_resource request)
            else deduplicate_units (eb_candidates branch)) (\<lambda>candidates.
     new_FusionBranch (PStr (eb_branch_id branch)) (PFloat (eb_weight branch)) (PySeq (map Typed candidates)))"

definition result_item :: "SearchRequest \<Rightarrow> nat \<times> FusedCandidate \<Rightarrow> SearchResultItem result" where
  "result_item request =
     (\<lambda>(rank, item).
        new_SearchResultItem (PStr (fd_logical_id item)) (PStr (cand_resource_id (fd_representative item)))
          (if req_target request = TARGET_RESOURCE then PNone else PStr (cand_unit_id (fd_representative item)))
          (PFloat (fd_score item)) (PInt (int rank)) (PySeq (map Typed (fd_evidence item)))
          (of_jmap (cand_metadata (fd_representative item))) (Typed RRF) (Typed RESULT))"

text \<open>Lines 395 to 423: from the successful branches to the items of the result.\<close>

definition fuse_branches ::
  "SearchRequest \<Rightarrow> ExecutedBranch list \<Rightarrow> (FusionBranch list \<times> SearchResultItem list) result" where
  "fuse_branches request successful =
     rbind (rmap (prepare_fusion_branch request) successful) (\<lambda>fusion_branches.
     rbind (weighted_rrf fusion_branches (req_rrf_k request)
       (if req_target request = TARGET_RESOURCE then req_evidence_limit_per_resource request
        else int (length successful))) (\<lambda>fused.
     rbind (rmap (result_item request) (enumerate 1 (take (nat (req_limit request)) fused))) (\<lambda>items.
     Inr (fusion_branches, items))))"

definition start_fields :: "SearchRequest \<Rightarrow> (pystr, evval) dict" where
  "start_fields request =
     [(lit ''status'', EvStatus STARTED),
      (lit ''branch_count'', EvInt (int (length (req_lexical_branches request) + length (req_vector_branches request)))),
      (lit ''lexical_branch_count'', EvInt (int (length (req_lexical_branches request)))),
      (lit ''vector_branch_count'', EvInt (int (length (req_vector_branches request)))),
      (lit ''scope_filter_count'', EvInt (int (scope_filter_count (req_scope request)))),
      (lit ''requested_limit'', EvInt (req_limit request)),
      (lit ''candidate_limit_total'', EvInt (sum_list (map br_limit (request_branches request)))),
      (lit ''rrf_k'', EvInt (req_rrf_k request))]"

definition fusion_fields ::
  "SearchRequest \<Rightarrow> collected \<Rightarrow> FusionBranch list \<Rightarrow> SearchResultItem list \<Rightarrow> (pystr, evval) dict" where
  "fusion_fields request st fusion_branches items =
     [(lit ''status'', EvStatus COMPLETED),
      (lit ''fusion_input_count'', EvInt (int (sum_list (map (\<lambda>b. length (fb_candidates b)) fusion_branches)))),
      (lit ''unique_unit_count'', EvInt (int (length (first_occurrences []
         (concat (map (\<lambda>b. map cand_unit_id (eb_candidates b)) (col_successful st))))))),
      (lit ''unique_resource_count'', EvInt (int (length (first_occurrences []
         (concat (map (\<lambda>b. map cand_resource_id (eb_candidates b)) (col_successful st))))))),
      (lit ''result_count'', EvInt (int (length items))), (lit ''rrf_k'', EvInt (req_rrf_k request)),
      (lit ''degraded_branch_count'', EvInt (int (length (col_degradations st))))]"

text \<open>Lines 390 to 459: after the loop over the branches.\<close>

definition complete_search :: "clock \<Rightarrow> SearchRequest \<Rightarrow> collected \<Rightarrow> ('s, SearchResult) svc" where
  "complete_search el request st =
     (if col_successful st = [] then fail_search el request st
      else
        svc_bind (svc_lift (fuse_branches request (col_successful st))) (\<lambda>(fusion_branches, items).
        svc_bind (search_emit request ''core.search.fusion.completed''
          (\<lambda>n. fusion_fields request st fusion_branches items)) (\<lambda>_.
        svc_bind (search_emit request ''core.search.completed'' (\<lambda>n.
          [(lit ''status'', EvStatus COMPLETED), (lit ''result_count'', EvInt (int (length items))),
           (lit ''degraded_branch_count'', EvInt (int (length (col_degradations st)))),
           (lit ''elapsed_ms'', EvFloat (el ''elapsed_ms'' n))])) (\<lambda>_.
        svc_lift (new_SearchResult (PStr (req_target request)) (PySeq (map Typed items))
          (PySeq (map Typed (col_degradations st))) (opt_str (req_request_id request)))))))"

definition search :: "'s SearchPort \<Rightarrow> clock \<Rightarrow> SearchRequest anyobj \<Rightarrow> ('s, SearchResult) svc" where
  "search port el req =
     (case req of
        Untyped \<Rightarrow> svc_raise (ValueError ''request must be a SearchRequest'')
      | Typed request \<Rightarrow>
          svc_bind (search_emit request ''core.search.started'' (\<lambda>n. start_fields request)) (\<lambda>_.
          svc_bind (svc_fold (run_branch port el request) (request_branches request)
            \<lparr>col_successful = [], col_degradations = [], col_failures = []\<rparr>) (complete_search el request)))"

section \<open>Scopes intersect\<close>

text \<open>A categorical filter admits a value when it is empty or lists it.\<close>

definition admits :: "pystr list \<Rightarrow> pystr \<Rightarrow> bool" where
  "admits vs x \<longleftrightarrow> vs = [] \<or> x \<in> set vs"

text \<open>The six categorical filters of a scope applied to the six attributes of a unit.\<close>

definition admits_all :: "'a BranchScopeOverride_scheme \<Rightarrow> (pystr \<times> pystr \<times> pystr \<times> pystr \<times> pystr \<times> pystr) \<Rightarrow> bool" where
  "admits_all s = (\<lambda>(resource_kind, media_type, namespace, representation_kind, modality, ukind).
     admits (scope_resource_kinds s) resource_kind \<and> admits (scope_media_types s) media_type \<and>
     admits (scope_source_namespaces s) namespace \<and> admits (scope_representation_kinds s) representation_kind \<and>
     admits (scope_modalities s) modality \<and> admits (scope_unit_kinds s) ukind)"

lemma narrow_Some: "narrow g o' = Some vs \<Longrightarrow> admits vs x \<longleftrightarrow> admits g x \<and> admits o' x"
  by (auto simp: narrow_def admits_def Let_def filter_empty_conv split: if_splits)

lemma narrow_None: "narrow g o' = None \<Longrightarrow> \<not> (admits g x \<and> admits o' x)"
  by (auto simp: narrow_def admits_def Let_def filter_empty_conv split: if_splits)

lemma narrow_wf: "narrow g o' = Some vs \<Longrightarrow> list_all wf_name g \<Longrightarrow> list_all wf_name o' \<Longrightarrow> list_all wf_name vs"
  by (auto simp: narrow_def list_all_iff Let_def split: if_splits)

lemma freeze_facets_again: "freeze_facets (PySeq (map Typed xs)) f = Inr xs"
  by (simp add: freeze_facets_def)

lemma effective_scope_cases:
  assumes "wf_override g" "wf_override ov"
  obtains (empty) "effective_scope g (Some ov) = Inr None"
      "\<And>x. \<not> (admits_all g x \<and> admits_all ov x)"
  | (scope) s where "effective_scope g (Some ov) = Inr (Some s)" "\<And>x. admits_all s x \<longleftrightarrow> admits_all g x \<and> admits_all ov x"
      "scope_facets_any s = scope_facets_any g" "scope_facets_all s = scope_facets_all g"
      "scope_facets_none s = scope_facets_none g" "wf_override s"
proof (cases "those [narrow (scope_resource_kinds g) (scope_resource_kinds ov),
    narrow (scope_media_types g) (scope_media_types ov),
    narrow (scope_source_namespaces g) (scope_source_namespaces ov),
    narrow (scope_representation_kinds g) (scope_representation_kinds ov),
    narrow (scope_modalities g) (scope_modalities ov), narrow (scope_unit_kinds g) (scope_unit_kinds ov)]")
  case None
  then have "\<not> (admits_all g x \<and> admits_all ov x)" for x
    using narrow_None by (cases x) (fastforce simp: admits_all_def split: option.splits)
  then show ?thesis using None by (intro empty) (simp_all add: effective_scope_def)
next
  case (Some vs)
  then obtain a b c d e f where n: "narrow (scope_resource_kinds g) (scope_resource_kinds ov) = Some a"
    "narrow (scope_media_types g) (scope_media_types ov) = Some b"
    "narrow (scope_source_namespaces g) (scope_source_namespaces ov) = Some c"
    "narrow (scope_representation_kinds g) (scope_representation_kinds ov) = Some d"
    "narrow (scope_modalities g) (scope_modalities ov) = Some e"
    "narrow (scope_unit_kinds g) (scope_unit_kinds ov) = Some f"
    by (auto split: option.splits)
  define s where "s = \<lparr>scope_resource_kinds = a, scope_media_types = b, scope_source_namespaces = c,
    scope_representation_kinds = d, scope_modalities = e, scope_unit_kinds = f,
    scope_facets_any = scope_facets_any g, scope_facets_all = scope_facets_all g,
    scope_facets_none = scope_facets_none g\<rparr>"
  have wf: "list_all wf_name a" "list_all wf_name b" "list_all wf_name c" "list_all wf_name d" "list_all wf_name e"
    "list_all wf_name f" using n assms by (auto simp: wf_override_def intro: narrow_wf)
  have "effective_scope g (Some ov) = Inr (Some s)"
    using wf by (simp add: effective_scope_def n new_SearchScope_def str_tuple_def freeze_strings_again freeze_facets_again s_def)
  moreover have "admits_all s x \<longleftrightarrow> admits_all g x \<and> admits_all ov x" for x
    using n [THEN narrow_Some] by (cases x) (auto simp: admits_all_def s_def)
  moreover have "wf_override s" using wf by (simp add: wf_override_def s_def)
  ultimately show ?thesis by (intro scope) (simp_all add: s_def)
qed

section \<open>Validated candidates\<close>

text \<open>What a validated list is: the candidates of the branch, one-based dense ranks, no unit twice.\<close>

definition valid_candidates :: "pystr \<Rightarrow> RankedCandidate list \<Rightarrow> bool" where
  "valid_candidates branch_id cs \<longleftrightarrow>
     (\<forall>c \<in> set cs. cand_branch_id c = branch_id) \<and> map cand_rank cs = map int [1..<Suc (length cs)] \<and>
     distinct (map cand_unit_id cs)"

lemma validate_from_eq_Inr:
  "validate_from b n seen objs = Inr cs \<longleftrightarrow>
     objs = map Typed cs \<and> (\<forall>c \<in> set cs. cand_branch_id c = b) \<and>
     map cand_rank cs = map (\<lambda>i. n + int i) [0..<length cs] \<and>
     distinct (map cand_unit_id cs) \<and> cand_unit_id ` set cs \<inter> set seen = {}"
proof (induction b n seen objs arbitrary: cs rule: validate_from.induct)
  case (3 b n seen c objs)
  have upt: "map (\<lambda>i. n + int i) [0..<Suc k] = n # map (\<lambda>i. n + 1 + int i) [0..<k]" for k
    by (simp add: upt_conv_Cons map_Suc_upt [symmetric] del: upt_Suc)
  show ?case
  proof (cases cs)
    case (Cons c' cs')
    then show ?thesis
      using "3.IH" [of cs'] by (auto simp: rbind_eq_Inr upt simp del: upt_Suc)
  qed (auto simp: rbind_eq_Inr)
qed auto

lemma valid_candidates_iff:
  "validate_from b 1 [] objs = Inr cs \<longleftrightarrow> objs = map Typed cs \<and> valid_candidates b cs"
proof -
  have "map (\<lambda>i. 1 + int i) [0..<length cs] = map int [1..<Suc (length cs)]"
    by (simp add: map_Suc_upt [symmetric] comp_def del: upt_Suc)
  then show ?thesis by (auto simp: validate_from_eq_Inr valid_candidates_def simp del: upt_Suc)
qed

section \<open>Grouping by resource\<close>

text \<open>The reference: one candidate per resource in the order of first occurrence, represented by its best
  candidate, with the best candidates as evidence.\<close>

definition resource_group :: "RankedCandidate list \<Rightarrow> int \<Rightarrow> pystr \<Rightarrow> FusionCandidate" where
  "resource_group cs e rid =
     (let own = filter (\<lambda>c. cand_resource_id c = rid) cs
      in \<lparr>fc_logical_id = rid, fc_representative = hd own, fc_evidence = take (nat e) own\<rparr>)"

lemma keys_fold_append_entry:
  "keys (fold append_entry es []) = first_occurrences [] (map (\<lambda>e. cand_resource_id (snd e)) es)"
  by (induction es rule: rev_induct) (auto simp: append_entry_def update_keys first_occurrences_snoc set_first_occurrences)

lemma dict_get_fold_append_entry:
  "dict_get (fold append_entry es []) rid [] = filter (\<lambda>e. cand_resource_id (snd e) = rid) es"
  by (induction es rule: rev_induct) (auto simp: append_entry_def dict_get_def)

lemma fold_append_entry:
  "fold append_entry es [] =
     map (\<lambda>rid. (rid, filter (\<lambda>e. cand_resource_id (snd e) = rid) es))
       (first_occurrences [] (map (\<lambda>e. cand_resource_id (snd e)) es))" (is "?d = _")
proof -
  have d: "?d = map (\<lambda>k. (k, the (map_of ?d k))) (keys ?d)"
    by (rule dict_eq_map) (simp add: keys_fold_append_entry distinct_first_occurrences del: map_map)
  have get: "the (map_of ?d k) = filter (\<lambda>e. cand_resource_id (snd e) = k) es" if k: "k \<in> set (keys ?d)" for k
  proof -
    obtain v where "map_of ?d k = Some v" using k map_of_eq_None_iff [of ?d k] by auto
    then show ?thesis using dict_get_fold_append_entry [of es k] by (simp add: dict_get_def)
  qed
  have "map (\<lambda>k. (k, the (map_of ?d k))) (keys ?d) =
      map (\<lambda>k. (k, filter (\<lambda>e. cand_resource_id (snd e) = k) es)) (keys ?d)"
    by (rule map_cong [OF refl]) (simp add: get del: set_map)
  then show ?thesis using d by (simp only: keys_fold_append_entry)
qed

lemma valid_enumerate_sorted:
  assumes "map cand_rank cs = map (\<lambda>i. k + int i) [0..<length cs]"
  shows "sorted (map entry_order (enumerate 0 cs))"
proof (unfold sorted_iff_nth_mono, intro allI impI)
  fix i j assume ij: "i \<le> j" "j < length (map entry_order (enumerate 0 cs))"
  have "cand_rank (cs ! m) = k + int m" if "m < length cs" for m
    using assms that by (metis (no_types, lifting) add_0 length_map map_nth nth_map nth_upt)
  then show "map entry_order (enumerate 0 cs) ! i \<le> map entry_order (enumerate 0 cs) ! j"
    using ij by (cases "i = j") (auto simp: entry_order_def nth_enumerate_eq less_eq_prod_def)
qed

lemma enumerate_first_by_units:
  assumes "distinct (map cand_unit_id cs)"
  shows "first_by (\<lambda>x. cand_unit_id (snd x)) [] (enumerate 0 cs) = enumerate 0 cs"
proof (rule first_by_distinct)
  have "map (\<lambda>x. cand_unit_id (snd x)) (enumerate 0 cs) = map cand_unit_id (map snd (enumerate 0 cs))"
    by (simp del: map_snd_enumerate)
  then show "distinct (map (\<lambda>x. cand_unit_id (snd x)) (enumerate 0 cs))" using assms by simp
qed simp

lemma map_snd_filter_enumerate:
  "map snd (filter (\<lambda>e. P (snd e)) (enumerate n cs)) = filter P cs"
  by (induction cs arbitrary: n) auto

lemma new_FusionCandidate_ok:
  "\<not> blank i \<Longrightarrow> new_FusionCandidate (PStr i) (Typed r) (PySeq (map Typed ev)) =
     Inr \<lparr>fc_logical_id = i, fc_representative = r, fc_evidence = ev\<rparr>"
  by (simp add: new_FusionCandidate_def)

lemma group_entry_valid:
  assumes rank: "map cand_rank cs = map (\<lambda>i. k + int i) [0..<length cs]"
    and rid: "rid \<in> cand_resource_id ` set cs" "\<not> blank rid"
  shows "group_entry e (rid, filter (\<lambda>x. cand_resource_id (snd x) = rid) (enumerate 0 cs)) =
    Inr (length (takeWhile (\<lambda>y. y \<noteq> rid) (map cand_resource_id cs)), resource_group cs e rid)"
proof -
  let ?es = "filter (\<lambda>x. cand_resource_id (snd x) = rid) (enumerate 0 cs)"
  let ?i = "length (takeWhile (\<lambda>y. y \<noteq> rid) (map cand_resource_id cs))"
  let ?own = "filter (\<lambda>c. cand_resource_id c = rid) cs"
  obtain rest where es: "?es = (?i, hd ?own) # rest"
    using filter_enumerate_first [OF rid(1), of 0] by auto
  have "sorted (map entry_order ?es)" by (rule sorted_filter [OF valid_enumerate_sorted [OF rank]])
  then have srt: "sort_key entry_order ?es = ?es" by (rule sort_key_sorted_id)
  have "sorted (map fst (enumerate 0 cs))" by simp
  then have "sorted (map fst ?es)" by (rule sorted_filter)
  then have mn: "Min (fst ` set ?es) = ?i" unfolding es by (subst Min_hd_sorted) auto
  have own: "map snd ?es = ?own" by (rule map_snd_filter_enumerate)
  have "map (\<lambda>x. Typed (snd x)) (take (nat e) ?es) = map Typed (take (nat e) (map snd ?es))"
    by (simp add: take_map)
  also note own
  finally have "map (\<lambda>x. Typed (snd x)) (take (nat e) ((?i, hd ?own) # rest)) = map Typed (take (nat e) ?own)"
    by (simp only: es)
  then show ?thesis
    using rid(2) mn unfolding group_entry_def prod.case es srt [unfolded es] list.case
    by (simp add: new_FusionCandidate_ok resource_group_def Let_def del: take_Suc_Cons)
qed

lemma group_resources_reference:
  assumes "valid_candidates b cs" "\<forall>c \<in> set cs. \<not> blank (cand_resource_id c)"
  shows "group_resources cs e = Inr (map (resource_group cs e) (first_occurrences [] (map cand_resource_id cs)))"
proof -
  let ?rids = "first_occurrences [] (map cand_resource_id cs)"
  let ?pos = "\<lambda>rid. length (takeWhile (\<lambda>y. y \<noteq> rid) (map cand_resource_id cs))"
  have rank: "map cand_rank cs = map (\<lambda>i. 1 + int i) [0..<length cs]"
    using assms(1) by (simp add: valid_candidates_def map_Suc_upt [symmetric] comp_def del: upt_Suc)
  have "map (\<lambda>x. cand_resource_id (snd x)) (enumerate 0 cs) = map cand_resource_id (map snd (enumerate 0 cs))"
    by (simp del: map_snd_enumerate)
  then have br: "by_resource cs = map (\<lambda>rid. (rid, filter (\<lambda>x. cand_resource_id (snd x) = rid) (enumerate 0 cs))) ?rids"
    using assms(1) by (simp add: by_resource_def enumerate_first_by_units valid_candidates_def fold_append_entry)
  have "rmap (group_entry e) (by_resource cs) = Inr (map (\<lambda>rid. (?pos rid, resource_group cs e rid)) ?rids)"
  proof -
    have "group_entry e x = Inr (?pos (fst x), resource_group cs e (fst x))" if "x \<in> set (by_resource cs)" for x
      using that assms(2) unfolding br by (auto simp: set_first_occurrences intro!: group_entry_valid [OF rank])
    then show ?thesis
      by (subst rmap_total [where g = "\<lambda>x. (?pos (fst x), resource_group cs e (fst x))"]) (simp_all add: br)
  qed
  moreover have "sorted (map (\<lambda>x. (fst x, fc_logical_id (snd x))) (map (\<lambda>rid. (?pos rid, resource_group cs e rid)) ?rids))"
  proof -
    have "sorted_wrt (\<lambda>a b. ?pos a < ?pos b) ?rids"
      using first_positions_increasing [of "map cand_resource_id cs"] by (simp add: sorted_wrt_map)
    then have "sorted_wrt (\<lambda>a b. (?pos a, fc_logical_id (resource_group cs e a)) \<le> (?pos b, fc_logical_id (resource_group cs e b))) ?rids"
      by (rule sorted_wrt_mono_rel [rotated]) (simp add: less_eq_prod_def)
    then show ?thesis by (simp add: sorted_wrt_map)
  qed
  ultimately show ?thesis by (simp add: group_resources_def sort_key_sorted_id comp_def)
qed

lemma deduplicate_units_reference:
  assumes "distinct (map cand_unit_id cs)" "\<forall>c \<in> set cs. \<not> blank (cand_unit_id c)"
  shows "deduplicate_units cs =
    Inr (map (\<lambda>c. \<lparr>fc_logical_id = cand_unit_id c, fc_representative = c, fc_evidence = [c]\<rparr>) cs)"
proof -
  have "unit_candidate c = Inr \<lparr>fc_logical_id = cand_unit_id c, fc_representative = c, fc_evidence = [c]\<rparr>"
    if "c \<in> set cs" for c
    using assms(2) that new_FusionCandidate_ok [of "cand_unit_id c" c "[c]"] by (simp add: unit_candidate_def)
  moreover have "first_by cand_unit_id [] cs = cs" using assms(1) by (intro first_by_distinct) auto
  ultimately show ?thesis by (simp add: deduplicate_units_def rmap_total)
qed

section \<open>Contracts of the parts\<close>

text \<open>
  The scope a branch runs with is the intersection of the request's scope and the branch's override: with a
  scope, a unit passes it exactly when it passes both, and the facet filters are the request's; without one, the
  branch is not run, and no unit at all passes both.
\<close>

theorem effective_scope_intersects:
  assumes "wf_override g" "wf_override ov"
  shows "case effective_scope g (Some ov) of
      Inr (Some s) \<Rightarrow> (\<forall>x. admits_all s x \<longleftrightarrow> admits_all g x \<and> admits_all ov x) \<and>
        scope_facets_any s = scope_facets_any g \<and> scope_facets_all s = scope_facets_all g \<and>
        scope_facets_none s = scope_facets_none g
    | Inr None \<Rightarrow> (\<forall>x. \<not> (admits_all g x \<and> admits_all ov x))
    | Inl e \<Rightarrow> False"
  using assms by (rule effective_scope_cases) simp_all

definition example_scope :: "pystr list \<Rightarrow> SearchScope" where
  "example_scope kinds = \<lparr>scope_resource_kinds = kinds, scope_media_types = [], scope_source_namespaces = [],
     scope_representation_kinds = [], scope_modalities = [], scope_unit_kinds = [], scope_facets_any = [],
     scope_facets_all = [], scope_facets_none = []\<rparr>"

definition example_override :: "pystr list \<Rightarrow> BranchScopeOverride" where
  "example_override kinds = \<lparr>scope_resource_kinds = kinds, scope_media_types = [], scope_source_namespaces = [],
     scope_representation_kinds = [], scope_modalities = [], scope_unit_kinds = []\<rparr>"

theorem effective_scope_intersects_witness:
  "effective_scope (example_scope [[97], [98]]) (Some (example_override [[99]])) = Inr None \<and>
   (\<forall>x. \<not> (admits_all (example_scope [[97], [98]]) x \<and> admits_all (example_override [[99]]) x))"
proof -
  have wf: "wf_override (example_scope [[97], [98]])" "wf_override (example_override [[99]])"
    by (simp_all add: wf_override_def example_scope_def example_override_def wf_name_def blank_iff py_isspace_def
        utf8_encodable_def surrogate_def)
  have "effective_scope (example_scope [[97], [98]]) (Some (example_override [[99]])) = Inr None"
    by (simp add: effective_scope_def example_scope_def example_override_def narrow_def)
  with effective_scope_intersects [OF wf] show ?thesis by simp
qed

text \<open>
  C10: the candidates of a search port are admitted exactly when the first \<open>candidate_limit\<close> of them are
  candidates of the branch with ranks 1, 2, 3, ... and no unit twice, and then they are kept as they are.
\<close>

theorem validate_candidates_iff:
  "validate_candidates b (PySeq objs) = Inr cs \<longleftrightarrow>
     take (nat (br_limit b)) objs = map Typed cs \<and> valid_candidates (br_id b) cs"
  by (simp add: validate_candidates_def valid_candidates_iff)

text \<open>
  Grouping an admitted list by resource gives one candidate per resource, in the order in which the adapter
  first ranked each, represented by the resource's best unit, with its best units as evidence.
\<close>

theorem group_resources_best:
  assumes "valid_candidates b cs" "\<forall>c \<in> set cs. \<not> blank (cand_resource_id c)"
  shows "group_resources cs e = Inr (map (resource_group cs e) (first_occurrences [] (map cand_resource_id cs)))"
  using assms by (rule group_resources_reference)

theorem group_resources_best_witness:
  "group_resources [example_candidate [120] 1, example_candidate [121] 2] 1 =
     Inr [\<lparr>fc_logical_id = [114], fc_representative = example_candidate [120] 1,
           fc_evidence = [example_candidate [120] 1]\<rparr>]"
  by (subst group_resources_best [of "[98]"])
    (simp_all add: valid_candidates_def example_candidate_def resource_group_def blank_iff py_isspace_def)

end
