(* ===== verification/Core_Validation.thy ===== *)
theory Core_Validation
  imports Core_Resources
begin

text \<open>
  \<open>application/validation.py\<close>: the I/O-free validator of a prepared resource graph. \<open>validate_batch\<close>
  is \<open>_BatchValidator._validate_batch\<close>, its helpers in the order of the class; \<open>graph_ok\<close> is the
  declarative well-formedness of a graph that the validator decides.
\<close>

section \<open>The validator\<close>

definition require_strings :: "pystr option list \<Rightarrow> unit result" where
  "require_strings values =
     checks (map (\<lambda>v. case v of
         None \<Rightarrow> Inr ()
       | Some s \<Rightarrow> void (require_utf8_encodable (PStr s) ''persisted string'')) values)"

definition require_locator :: "Locator \<Rightarrow> unit result" where
  "require_locator locator =
     checks [void (require_utf8_encodable (PStr (loc_kind locator)) ''locator.kind''),
             void (freeze_json_mapping (of_jmap (loc_payload locator)) ''locator.payload'')]"

fun unique_from :: "'a list \<Rightarrow> 'a list \<Rightarrow> string \<Rightarrow> unit result" where
  "unique_from seen [] field_name = Inr ()"
| "unique_from seen (v # vs) field_name =
     (if v \<in> set seen then Inl (ValueError (field_name @ '' values must be unique''))
      else unique_from (v # seen) vs field_name)"

definition require_unique :: "'a list \<Rightarrow> string \<Rightarrow> unit result" where
  "require_unique values field_name = unique_from [] values field_name"

definition has_text :: "pystr option \<Rightarrow> bool" where
  "has_text txt = (case txt of None \<Rightarrow> False | Some s \<Rightarrow> \<not> blank s)"

definition validate_persisted_strings :: "PreparedResourceBatch \<Rightarrow> unit result" where
  "validate_persisted_strings batch =
     (let resource = batch_resource batch in
      checks
        ([require_strings [Some (res_id resource), Some (res_kind resource), Some (res_media_type resource),
            Some (res_source_namespace resource), res_content_hash resource, res_title resource],
          require_locator (res_locator resource),
          void (freeze_json_mapping (of_jmap (res_metadata resource)) ''resource.metadata'')] @
         concat (map (\<lambda>r.
           [require_strings [Some (rep_id r), Some (rep_resource_id r), Some (rep_kind r), Some (rep_modality r),
              rep_text r, rep_language r, rep_producer_fingerprint r, rep_token_count_kind r],
            void (freeze_json_mapping (of_jmap (rep_metadata r)) ''representation.metadata'')])
           (batch_representations batch)) @
         concat (map (\<lambda>u.
           [require_strings [Some (unit_id u), Some (unit_resource_id u), Some (unit_representation_id u),
              Some (unit_kind u), Some (unit_modality u), unit_text u, unit_token_count_kind u],
            require_locator (unit_evidence_locator u),
            void (freeze_json_mapping (of_jmap (unit_metadata u)) ''unit.metadata'')])
           (batch_units batch)) @
         concat (map (\<lambda>s.
           [require_strings [Some (space_id s), Some (space_metric s), Some (space_fingerprint s)],
            void (freeze_json_mapping (of_jmap (space_metadata s)) ''space.metadata'')])
           (batch_spaces batch)) @
         map (\<lambda>v. require_strings [Some (vec_unit_id v), Some (vec_space_id v)]) (batch_vectors batch) @
         map (\<lambda>f. require_strings [Some (rf_resource_id f), Some (facet_namespace (rf_facet f)),
              Some (facet_value (rf_facet f)), Some (rf_origin f), rf_producer_fingerprint f])
           (batch_facets batch)))"

text \<open>\<open>{item.key: item for item in items}\<close>: a later item replaces an earlier one.\<close>

definition dict_of :: "('a \<Rightarrow> 'k) \<Rightarrow> 'a list \<Rightarrow> ('k, 'a) dict" where
  "dict_of f xs = fold (\<lambda>x. AList.update (f x) x) xs []"

definition check_unit :: "pystr \<Rightarrow> (pystr, RepresentationRecord) dict \<Rightarrow> SearchUnitRecord \<Rightarrow> unit result" where
  "check_unit resource_id representations u =
     (if unit_resource_id u \<noteq> resource_id then Inl (ValueError ''unit belongs to another resource'')
      else case map_of representations (unit_representation_id u) of
        None \<Rightarrow> Inl (ValueError ''unit references an unknown representation'')
      | Some owner \<Rightarrow>
          if unit_modality u \<noteq> rep_modality owner
          then Inl (ValueError ''unit modality differs from its representation'') else Inr ())"

text \<open>\<open>math.hypot(*v) == 0.0\<close>: the scaled Euclidean norm is zero only for the zero vector.\<close>

definition zero_norm :: "pyfloat list \<Rightarrow> bool" where
  "zero_norm v \<longleftrightarrow> list_all (\<lambda>x. x = Fin 0) v"

definition check_vector ::
  "(pystr, SearchUnitRecord) dict \<Rightarrow> (pystr, EmbeddingSpaceRecord) dict \<Rightarrow> VectorRecord \<Rightarrow> pystr list \<Rightarrow>
   pystr list result" where
  "check_vector units spaces v vector_units =
     (if vec_unit_id v \<notin> set (keys units) then Inl (ValueError ''vector references an unknown unit'')
      else case map_of spaces (vec_space_id v) of
        None \<Rightarrow> Inl (ValueError ''vector references an unknown embedding space'')
      | Some sp \<Rightarrow>
          if int (length (vec_vector v)) \<noteq> space_dimensions sp
          then Inl (ValueError ''vector dimensions differ from its embedding space'')
          else if \<not> list_all isfinite (vec_vector v)
          then Inl (ValueError ''vector values must be finite numbers'')
          else if space_metric sp = METRIC_COSINE \<and> zero_norm (vec_vector v)
          then Inl (ValueError ''cosine vector norm must be non-zero'')
          else Inr (vec_unit_id v # vector_units))"

definition facet_key :: "ResourceFacet \<Rightarrow> pystr \<times> pystr \<times> pystr \<times> pystr \<times> pystr option" where
  "facet_key f = (rf_resource_id f, facet_namespace (rf_facet f), facet_value (rf_facet f), rf_origin f,
     rf_producer_fingerprint f)"

definition validate_batch :: "PreparedResourceBatch anyobj \<Rightarrow> unit result" where
  "validate_batch obj =
     (case obj of
        Untyped \<Rightarrow> Inl (TypeError ''batch must be a PreparedResourceBatch'')
      | Typed batch \<Rightarrow>
          rbind (checks
            [raise_if (batch_representations batch = []) (ValueError ''a resource graph must contain a representation''),
             raise_if (batch_units batch = []) (ValueError ''a resource graph must contain a search unit''),
             validate_persisted_strings batch,
             require_unique (map rep_id (batch_representations batch)) ''representation_id'',
             require_unique (map unit_id (batch_units batch)) ''unit_id'',
             require_unique (map space_id (batch_spaces batch)) ''space_id'',
             require_unique (map (\<lambda>v. (vec_unit_id v, vec_space_id v)) (batch_vectors batch)) ''unit_id/space_id vector'',
             require_unique (map facet_key (batch_facets batch)) ''resource facet assignment'']) (\<lambda>_.
          let resource_id = res_id (batch_resource batch);
              representations = dict_of rep_id (batch_representations batch);
              units = dict_of unit_id (batch_units batch);
              spaces = dict_of space_id (batch_spaces batch)
          in
          rbind (checks (map (\<lambda>r. raise_if (rep_resource_id r \<noteq> resource_id)
            (ValueError ''representation belongs to another resource'')) (batch_representations batch))) (\<lambda>_.
          rbind (checks (map (check_unit resource_id representations) (batch_units batch))) (\<lambda>_.
          rbind (rfold (check_vector units spaces) (batch_vectors batch) []) (\<lambda>vector_units.
          rbind (raise_if (set (map unit_representation_id (batch_units batch)) \<noteq> set (keys representations))
            (ValueError ''every representation must own at least one unit'')) (\<lambda>_.
          rbind (checks (map (\<lambda>u. raise_if (\<not> has_text (unit_text u) \<and> unit_id u \<notin> set vector_units)
            (ValueError ''every unit must contain text or a vector'')) (batch_units batch))) (\<lambda>_.
          checks (map (\<lambda>f. raise_if (rf_resource_id f \<noteq> resource_id)
            (ValueError ''facet belongs to another resource'')) (batch_facets batch)))))))))"

definition validate_prepared_batch :: "PreparedResourceBatch anyobj \<Rightarrow> unit result" where
  "validate_prepared_batch batch = validate_batch batch"

section \<open>Well-formed graphs\<close>

definition graph_ok :: "PreparedResourceBatch \<Rightarrow> bool" where
  "graph_ok b \<longleftrightarrow>
     (let rid = res_id (batch_resource b); reps = set (batch_representations b); units = set (batch_units b);
          spaces = set (batch_spaces b); vectors = set (batch_vectors b)
      in reps \<noteq> {} \<and> units \<noteq> {} \<and>
         distinct (map rep_id (batch_representations b)) \<and> distinct (map unit_id (batch_units b)) \<and>
         distinct (map space_id (batch_spaces b)) \<and>
         distinct (map (\<lambda>v. (vec_unit_id v, vec_space_id v)) (batch_vectors b)) \<and>
         distinct (map facet_key (batch_facets b)) \<and>
         (\<forall>r \<in> reps. rep_resource_id r = rid \<and> (\<exists>u \<in> units. unit_representation_id u = rep_id r)) \<and>
         (\<forall>u \<in> units. unit_resource_id u = rid \<and>
            (\<exists>r \<in> reps. rep_id r = unit_representation_id u \<and> rep_modality r = unit_modality u) \<and>
            (has_text (unit_text u) \<or> (\<exists>v \<in> vectors. vec_unit_id v = unit_id u))) \<and>
         (\<forall>v \<in> vectors. (\<exists>u \<in> units. unit_id u = vec_unit_id v) \<and>
            (\<exists>s \<in> spaces. space_id s = vec_space_id v \<and> int (length (vec_vector v)) = space_dimensions s \<and>
               (space_metric s = METRIC_COSINE \<longrightarrow> \<not> zero_norm (vec_vector v)))) \<and>
         (\<forall>f \<in> set (batch_facets b). rf_resource_id f = rid))"

section \<open>What the checks accept\<close>

lemma unique_from_eq_Inr: "unique_from seen vs f = Inr u \<longleftrightarrow> distinct vs \<and> set vs \<inter> set seen = {}"
  by (induction seen vs f rule: unique_from.induct) auto

lemma require_unique_eq_Inr [result_simps]: "require_unique vs f = Inr u \<longleftrightarrow> distinct vs"
  by (simp add: require_unique_def unique_from_eq_Inr)

lemma keys_fold_update: "set (keys (fold (\<lambda>x. AList.update (f x) x) xs d)) = set (keys d) \<union> f ` set xs"
proof (induction xs arbitrary: d)
  case (Cons x xs)
  have "set (keys (AList.update (f x) x d)) = insert (f x) (set (keys d))" unfolding update_keys by auto
  then show ?case using Cons [of "AList.update (f x) x d"] by (simp del: set_map)
qed simp

lemma keys_dict_of: "set (keys (dict_of f xs)) = f ` set xs"
  by (simp add: dict_of_def keys_fold_update del: set_map)

lemma map_of_fold_update:
  "distinct (map f xs) \<Longrightarrow> map_of (fold (\<lambda>x. AList.update (f x) x) xs d) k =
     (case find (\<lambda>x. f x = k) xs of None \<Rightarrow> map_of d k | Some x \<Rightarrow> Some x)"
proof (induction xs arbitrary: d)
  case (Cons x xs)
  have "find (\<lambda>y. f y = f x) xs = None" using Cons.prems by (intro find_NoneI) (auto simp: rev_image_eqI)
  then show ?case using Cons by (auto split: option.splits)
qed simp

lemma map_of_dict_of:
  assumes "distinct (map f xs)"
  shows "map_of (dict_of f xs) k = Some x \<longleftrightarrow> x \<in> set xs \<and> f x = k"
proof -
  have "find (\<lambda>x. f x = k) xs = Some x \<longleftrightarrow> x \<in> set xs \<and> f x = k"
    using assms by (induction xs) (auto simp: rev_image_eqI)
  then show ?thesis
    unfolding dict_of_def map_of_fold_update [OF assms] by (auto split: option.splits)
qed

lemma check_unit_eq_Inr:
  assumes "distinct (map rep_id reps)"
  shows "check_unit rid (dict_of rep_id reps) u = Inr x \<longleftrightarrow>
     unit_resource_id u = rid \<and>
     (\<exists>r \<in> set reps. rep_id r = unit_representation_id u \<and> rep_modality r = unit_modality u)"
proof (cases "map_of (dict_of rep_id reps) (unit_representation_id u)")
  case None
  then show ?thesis using map_of_dict_of [OF assms, of "unit_representation_id u"] by (auto simp: check_unit_def)
next
  case (Some r)
  have "(r' \<in> set reps \<and> rep_id r' = unit_representation_id u) \<longleftrightarrow> r' = r" for r'
    using map_of_dict_of [OF assms, of "unit_representation_id u" r'] Some by auto
  then have "(\<exists>r' \<in> set reps. rep_id r' = unit_representation_id u \<and> P r') \<longleftrightarrow> P r" for P by metis
  then show ?thesis using Some by (auto simp: check_unit_def)
qed

definition vector_ok :: "SearchUnitRecord list \<Rightarrow> EmbeddingSpaceRecord list \<Rightarrow> VectorRecord \<Rightarrow> bool" where
  "vector_ok units spaces v \<longleftrightarrow>
     (\<exists>u \<in> set units. unit_id u = vec_unit_id v) \<and> list_all isfinite (vec_vector v) \<and>
     (\<exists>s \<in> set spaces. space_id s = vec_space_id v \<and> int (length (vec_vector v)) = space_dimensions s \<and>
        (space_metric s = METRIC_COSINE \<longrightarrow> \<not> zero_norm (vec_vector v)))"

lemma check_vector_eq_Inr:
  assumes "distinct (map space_id spaces)"
  shows "check_vector (dict_of unit_id units) (dict_of space_id spaces) v vus = Inr vus' \<longleftrightarrow>
     vector_ok units spaces v \<and> vus' = vec_unit_id v # vus"
proof -
  have "vec_unit_id v \<in> set (keys (dict_of unit_id units)) \<longleftrightarrow> (\<exists>u \<in> set units. unit_id u = vec_unit_id v)"
    unfolding keys_dict_of by (auto simp: rev_image_eqI)
  note unit = this
  show ?thesis
  proof (cases "map_of (dict_of space_id spaces) (vec_space_id v)")
    case None
    then show ?thesis using map_of_dict_of [OF assms, of "vec_space_id v"] unit
      by (auto simp: check_vector_def vector_ok_def simp del: set_map)
  next
    case (Some s)
    have "(s' \<in> set spaces \<and> space_id s' = vec_space_id v) \<longleftrightarrow> s' = s" for s'
      using map_of_dict_of [OF assms, of "vec_space_id v" s'] Some by auto
    then have "(\<exists>s' \<in> set spaces. space_id s' = vec_space_id v \<and> P s') \<longleftrightarrow> P s" for P by metis
    then show ?thesis using Some unit by (auto simp: check_vector_def vector_ok_def simp del: set_map)
  qed
qed

lemma check_vectors_eq_Inr:
  assumes "distinct (map space_id spaces)"
  shows "rfold (check_vector (dict_of unit_id units) (dict_of space_id spaces)) vs vus = Inr vus' \<longleftrightarrow>
     (\<forall>v \<in> set vs. vector_ok units spaces v) \<and> vus' = rev (map vec_unit_id vs) @ vus"
  by (induction vs arbitrary: vus) (auto simp: rbind_eq_Inr check_vector_eq_Inr [OF assms])

lemma require_strings_eq_Inr [result_simps]:
  "require_strings vs = Inr u \<longleftrightarrow> list_all (pred_option utf8_encodable) vs"
proof -
  have "(case v of None \<Rightarrow> Inr () | Some s \<Rightarrow> void (require_utf8_encodable (PStr s) ''persisted string'')) = Inr () \<longleftrightarrow>
      pred_option utf8_encodable v" for v
    by (cases v) (auto simp: require_utf8_encodable_eq_Inr)
  then show ?thesis by (simp add: require_strings_def checks_eq_Inr list_all_iff)
qed

lemma wf_name_utf8: "wf_name s \<Longrightarrow> utf8_encodable s"
  by (simp add: wf_name_def)

lemma wf_opt_name_utf8: "pred_option wf_name x \<Longrightarrow> pred_option utf8_encodable x"
  by (cases x) (simp_all add: wf_name_utf8)

lemma wf_token_kind_utf8: "wf_token_count n k \<Longrightarrow> pred_option utf8_encodable k"
  using validate_token_count_eq_Inr [of "opt_int n" "opt_str k" n k]
  by (cases n; cases k) (auto simp: wf_token_count_def validate_token_count_def result_simps)

lemma metric_utf8: "m \<in> set METRICS \<Longrightarrow> utf8_encodable m"
  using metric_name wf_name_utf8 by blast

lemma freeze_frozen_mapping: "frozen_mapping m \<Longrightarrow> void (freeze_json_mapping (of_jmap m) f) = Inr ()"
  using freeze_json_mapping_thaw(1) [of m f] by (simp del: of_json.simps)

lemma require_locator_wf: "wf_Locator l \<Longrightarrow> require_locator l = Inr ()"
  by (simp add: require_locator_def checks_eq_Inr wf_Locator_def wf_name_utf8 freeze_json_mapping_thaw(1)
      require_utf8_encodable_def del: of_json.simps)

lemmas wf_persisted = wf_name_utf8 wf_opt_name_utf8 wf_token_kind_utf8 metric_utf8 freeze_frozen_mapping
  require_locator_wf

lemma wf_persisted_strings:
  assumes "wf_PreparedResourceBatch b"
  shows "validate_persisted_strings b = Inr ()"
proof -
  note wf = assms [unfolded wf_PreparedResourceBatch_def list_all_iff]
  show ?thesis
    using wf unfolding validate_persisted_strings_def Let_def checks_eq_Inr
    by (auto simp: require_strings_eq_Inr wf_ResourceRecord_def wf_RepresentationRecord_def wf_SearchUnitRecord_def
        wf_EmbeddingSpaceRecord_def wf_VectorRecord_def wf_ResourceFacet_def wf_Facet_def wf_persisted
        simp del: of_json.simps)
qed

lemma validate_batch_flat:
  assumes "wf_PreparedResourceBatch b" "distinct (map rep_id (batch_representations b))"
    "distinct (map space_id (batch_spaces b))"
  shows "validate_prepared_batch (Typed b) = Inr () \<longleftrightarrow>
    batch_representations b \<noteq> [] \<and> batch_units b \<noteq> [] \<and> distinct (map unit_id (batch_units b)) \<and>
    distinct (map (\<lambda>v. (vec_unit_id v, vec_space_id v)) (batch_vectors b)) \<and> distinct (map facet_key (batch_facets b)) \<and>
    (\<forall>r \<in> set (batch_representations b). rep_resource_id r = res_id (batch_resource b)) \<and>
    (\<forall>u \<in> set (batch_units b). unit_resource_id u = res_id (batch_resource b) \<and>
      (\<exists>r \<in> set (batch_representations b). rep_id r = unit_representation_id u \<and> rep_modality r = unit_modality u)) \<and>
    (\<forall>v \<in> set (batch_vectors b). vector_ok (batch_units b) (batch_spaces b) v) \<and>
    unit_representation_id ` set (batch_units b) = rep_id ` set (batch_representations b) \<and>
    (\<forall>u \<in> set (batch_units b). has_text (unit_text u) \<or> unit_id u \<in> vec_unit_id ` set (batch_vectors b)) \<and>
    (\<forall>f \<in> set (batch_facets b). rf_resource_id f = res_id (batch_resource b))"
  unfolding validate_prepared_batch_def validate_batch_def Let_def
  by (simp only: anyobj.case rbind_eq_Inr checks_map_eq_Inr check_unit_eq_Inr [OF assms(2)]
      check_vectors_eq_Inr [OF assms(3)] keys_dict_of)
    (auto simp: rbind_eq_Inr wf_persisted_strings [OF assms(1)] require_unique_eq_Inr assms(2,3))

lemma graph_conj_rearrange:
  assumes "d1" "d2" "\<forall>u \<in> U. m u \<Longrightarrow> img \<longleftrightarrow> (\<forall>r \<in> R. own r)"
  shows "(r0 \<and> u0 \<and> d3 \<and> d4 \<and> d5 \<and> (\<forall>r \<in> R. a r) \<and> (\<forall>u \<in> U. p u \<and> m u) \<and> vs \<and> img \<and> (\<forall>u \<in> U. t u) \<and> fs) \<longleftrightarrow>
    (r0 \<and> u0 \<and> d1 \<and> d3 \<and> d2 \<and> d4 \<and> d5 \<and> (\<forall>r \<in> R. a r \<and> own r) \<and> (\<forall>u \<in> U. p u \<and> m u \<and> t u) \<and> vs \<and> fs)"
  using assms by blast

lemma accepted_iff_graph:
  assumes "wf_PreparedResourceBatch b"
  shows "validate_prepared_batch (Typed b) = Inr () \<longleftrightarrow> graph_ok b"
proof (cases "distinct (map rep_id (batch_representations b)) \<and> distinct (map space_id (batch_spaces b))")
  case True
  have fin: "\<forall>v \<in> set (batch_vectors b). list_all isfinite (vec_vector v)"
    using assms by (auto simp: wf_PreparedResourceBatch_def list_all_iff wf_VectorRecord_def wf_vector_def)
  have vec: "vector_ok (batch_units b) (batch_spaces b) v \<longleftrightarrow>
      (\<exists>u \<in> set (batch_units b). unit_id u = vec_unit_id v) \<and>
      (\<exists>s \<in> set (batch_spaces b). space_id s = vec_space_id v \<and> int (length (vec_vector v)) = space_dimensions s \<and>
        (space_metric s = METRIC_COSINE \<longrightarrow> \<not> zero_norm (vec_vector v)))" if "v \<in> set (batch_vectors b)" for v
    using fin that by (simp add: vector_ok_def)
  have own: "unit_representation_id ` set (batch_units b) = rep_id ` set (batch_representations b) \<longleftrightarrow>
      (\<forall>r \<in> set (batch_representations b). \<exists>u \<in> set (batch_units b). unit_representation_id u = rep_id r)"
    if "\<forall>u \<in> set (batch_units b). \<exists>r \<in> set (batch_representations b). rep_id r = unit_representation_id u \<and> P r u" for P
  proof -
    have "unit_representation_id ` set (batch_units b) \<subseteq> rep_id ` set (batch_representations b)"
      using that by force
    moreover have "rep_id ` set (batch_representations b) \<subseteq> unit_representation_id ` set (batch_units b) \<longleftrightarrow>
        (\<forall>r \<in> set (batch_representations b). \<exists>u \<in> set (batch_units b). unit_representation_id u = rep_id r)"
      by (simp add: image_subset_iff image_iff eq_commute)
    ultimately show ?thesis by (simp add: set_eq_subset)
  qed
  have has: "unit_id u \<in> vec_unit_id ` set (batch_vectors b) \<longleftrightarrow> (\<exists>v \<in> set (batch_vectors b). vec_unit_id v = unit_id u)" for u
    by (auto simp: rev_image_eqI)
  have vecs: "(\<forall>v \<in> set (batch_vectors b). vector_ok (batch_units b) (batch_spaces b) v) \<longleftrightarrow>
      (\<forall>v \<in> set (batch_vectors b). (\<exists>u \<in> set (batch_units b). unit_id u = vec_unit_id v) \<and>
        (\<exists>s \<in> set (batch_spaces b). space_id s = vec_space_id v \<and> int (length (vec_vector v)) = space_dimensions s \<and>
          (space_metric s = METRIC_COSINE \<longrightarrow> \<not> zero_norm (vec_vector v))))"
    by (rule ball_cong [OF refl vec])
  show ?thesis
    unfolding graph_ok_def Let_def validate_batch_flat [OF assms conjunct1 [OF True] conjunct2 [OF True]] has vecs set_empty
    by (rule graph_conj_rearrange [OF conjunct1 [OF True] conjunct2 [OF True] own])
next
  case False
  then show ?thesis
    by (auto simp: validate_prepared_batch_def validate_batch_def graph_ok_def rbind_eq_Inr checks_eq_Inr
        require_unique_eq_Inr)
qed

text \<open>
  C13: for the records that the constructors build, the validator accepts a graph exactly when it is
  well-formed: identities are unique, every unit belongs to a representation of its modality, every
  representation owns a unit, every vector refers to a unit and to a space of its dimension, cosine
  vectors are not zero, every unit has text or a vector, and everything belongs to the resource.
\<close>

theorem validate_prepared_batch_iff:
  assumes "wf_PreparedResourceBatch b"
  shows "validate_prepared_batch (Typed b) = Inr () \<longleftrightarrow> graph_ok b"
  by (rule accepted_iff_graph [OF assms])

definition example_batch :: PreparedResourceBatch where
  "example_batch =
     \<lparr>batch_resource = \<lparr>res_id = [114], res_kind = [107], res_media_type = [109], res_source_namespace = [110],
        res_locator = \<lparr>loc_kind = [108], loc_payload = []\<rparr>, res_content_hash = None, res_title = None, res_metadata = []\<rparr>,
      batch_representations = [\<lparr>rep_id = [112], rep_resource_id = [114], rep_kind = [107], rep_modality = [109],
        rep_text = Some [120], rep_language = None, rep_producer_fingerprint = None, rep_token_count = None,
        rep_token_count_kind = None, rep_metadata = []\<rparr>],
      batch_units = [example_unit\<lparr>unit_text := Some [120]\<rparr>],
      batch_spaces = [\<lparr>space_id = [115], space_dimensions = 2, space_metric = METRIC_COSINE, space_fingerprint = [102],
        space_metadata = []\<rparr>],
      batch_vectors = [\<lparr>vec_unit_id = [117], vec_space_id = [115], vec_vector = [Fin 0, Fin 1]\<rparr>],
      batch_facets = []\<rparr>"

lemma example_batch_wf: "wf_PreparedResourceBatch example_batch"
  by (simp add: wf_PreparedResourceBatch_def example_batch_def wf_ResourceRecord_def wf_RepresentationRecord_def
      wf_SearchUnitRecord_def wf_EmbeddingSpaceRecord_def wf_VectorRecord_def wf_vector_def wf_Locator_def wf_name_def
      wf_token_count_def example_unit_def METRICS_def empty_mapping_frozen blank_iff py_isspace_def utf8_encodable_def
      surrogate_def)

lemma example_batch_graph: "graph_ok example_batch"
  by (simp add: graph_ok_def example_batch_def example_unit_def has_text_def blank_iff py_isspace_def zero_norm_def)

theorem validate_prepared_batch_iff_witness: "validate_prepared_batch (Typed example_batch) = Inr ()"
  using validate_prepared_batch_iff [OF example_batch_wf] example_batch_graph by blast

section \<open>Exceptions of the validator\<close>

fun is_validation_error :: "exn \<Rightarrow> bool" where
  "is_validation_error (ValueError _) = True"
| "is_validation_error (TypeError _) = True"
| "is_validation_error _ = False"

lemma value_error_validation: "raises_only is_ValueError m \<Longrightarrow> raises_only is_validation_error m"
  by (erule raises_only_mono) (metis is_ValueError.elims(2) is_validation_error.simps(1))

lemma require_strings_raises [error_intros]: "raises_only is_ValueError (require_strings vs)"
  unfolding require_strings_def by (auto intro!: error_intros split: option.split)

lemma require_locator_raises [error_intros]: "raises_only is_ValueError (require_locator l)"
  unfolding require_locator_def by (intro error_intros) (auto intro!: error_intros simp del: of_json.simps)

lemma require_unique_raises [error_intros]: "raises_only is_ValueError (require_unique vs f)"
proof -
  have "raises_only is_ValueError (unique_from seen vs f)" for seen
    by (induction seen vs f rule: unique_from.induct) (auto intro!: error_intros)
  then show ?thesis by (simp add: require_unique_def)
qed

lemma check_unit_raises [error_intros]: "raises_only is_ValueError (check_unit r d u)"
  unfolding check_unit_def by (auto intro!: error_intros split: option.split)

lemma check_vector_raises [error_intros]: "raises_only is_ValueError (check_vector us ss v vus)"
  unfolding check_vector_def by (auto intro!: error_intros split: option.split)

lemma validate_persisted_strings_raises [error_intros]: "raises_only is_ValueError (validate_persisted_strings b)"
  unfolding validate_persisted_strings_def Let_def
  by (intro raises_only_checks) (auto intro!: error_intros simp del: of_json.simps)

lemma validate_typed_raises: "raises_only is_ValueError (validate_batch (Typed b))"
  unfolding validate_batch_def anyobj.case Let_def
  by (intro raises_only_rbind raises_only_checks raises_only_rfold raises_only_raise_if)
    (auto intro!: error_intros)

lemma validate_prepared_batch_raises: "raises_only is_validation_error (validate_prepared_batch obj)"
proof (cases obj)
  case (Typed b)
  then show ?thesis unfolding validate_prepared_batch_def Typed by (intro value_error_validation validate_typed_raises)
next
  case Untyped
  then show ?thesis by (simp add: validate_prepared_batch_def validate_batch_def raises_only_def)
qed

end
