(* ===== verification/Core_Indexing.thy ===== *)
theory Core_Indexing
  imports Core_Validation Core_Observability
begin

text \<open>
  \<open>application/indexing.py\<close>: \<open>CoreIndexingService\<close>. The write port is a record of its operations on an
  abstract store \<open>'s\<close>; the publication capability is optional. \<open>index_batch\<close> is \<open>_index\<close>: validation before
  any write, one started event, then validated and completed, or failed. The reading of the clock for a
  field of the n-th event is \<open>el field n\<close>.
\<close>

section \<open>Ports\<close>

text \<open>\<open>compare_and_publish\<close> returns a \<open>PublicationResult\<close> or \<open>None\<close>.\<close>

record 's WritePort =
  wp_replace_resource :: "PreparedResourceBatch \<Rightarrow> 's \<Rightarrow> 's \<times> unit result"
  wp_delete_resource :: "pystr \<Rightarrow> 's \<Rightarrow> 's \<times> unit result"
  wp_compare_and_publish ::
    "(PreparedResourceBatch \<Rightarrow> ExpectedPublication \<Rightarrow> 's \<Rightarrow> 's \<times> PublicationResult option result) option"

type_synonym elapsed = "string \<Rightarrow> nat \<Rightarrow> pyfloat"

section \<open>Counts\<close>

fun max_default :: "int list \<Rightarrow> int" where
  "max_default [] = 0"
| "max_default [x] = x"
| "max_default (x # y # xs) = max x (max_default (y # xs))"

definition or_zero :: "int option \<Rightarrow> int" where
  "or_zero x = (case x of None \<Rightarrow> 0 | Some i \<Rightarrow> i)"

definition count_names :: "pystr list" where
  "count_names = map lit
    [''representation_count'', ''unit_count'', ''text_unit_count'', ''vector_unit_count'', ''vector_count'',
     ''space_count'', ''facet_count'', ''input_bytes'', ''representation_token_count_total'',
     ''representation_token_count_max'', ''unit_token_count_total'', ''unit_token_count_max'']"

definition text_values :: "PreparedResourceBatch \<Rightarrow> pystr list" where
  "text_values b =
     concat (map (\<lambda>r. case rep_text r of None \<Rightarrow> [] | Some s \<Rightarrow> [s]) (batch_representations b)) @
     concat (map (\<lambda>u. case unit_text u of None \<Rightarrow> [] | Some s \<Rightarrow> [s]) (batch_units b))"

definition index_counts :: "PreparedResourceBatch anyobj \<Rightarrow> (pystr, int) dict" where
  "index_counts obj =
     (case obj of
        Untyped \<Rightarrow> map (\<lambda>n. (n, 0)) count_names
      | Typed b \<Rightarrow>
          let representation_tokens = map (\<lambda>r. or_zero (rep_token_count r)) (batch_representations b);
              unit_tokens = map (\<lambda>u. or_zero (unit_token_count u)) (batch_units b)
          in zip count_names
              [int (length (batch_representations b)), int (length (batch_units b)),
               int (length (filter (\<lambda>u. has_text (unit_text u)) (batch_units b))),
               int (length (first_occurrences [] (map vec_unit_id (batch_vectors b)))),
               int (length (batch_vectors b)), int (length (batch_spaces b)), int (length (batch_facets b)),
               int (sum_list (map (\<lambda>t. length (utf8_encode_replace t)) (text_values b))),
               sum_list representation_tokens, max_default representation_tokens,
               sum_list unit_tokens, max_default unit_tokens])"

definition count_fields :: "PreparedResourceBatch anyobj \<Rightarrow> (pystr, evval) dict" where
  "count_fields obj = map (\<lambda>(k, i). (k, EvInt i)) (index_counts obj)"

section \<open>The service\<close>

definition emit_index_failure ::
  "elapsed \<Rightarrow> ErrorCategory \<Rightarrow> PreparedResourceBatch anyobj \<Rightarrow> ('s, unit) svc" where
  "emit_index_failure el category batch =
     svc_emit (lit ''core.index.failed'') (\<lambda>n.
       [(lit ''status'', EvStatus FAILED), (lit ''category'', EvError category),
        (lit ''elapsed_ms'', EvFloat (el ''elapsed_ms'' n))] @ count_fields batch)"

text \<open>The three \<open>except\<close> clauses around the write.\<close>

definition catalog_category :: "exn \<Rightarrow> ErrorCategory" where
  "catalog_category e =
     (case e of CatalogExecutionError c \<Rightarrow> c | TimeoutError \<Rightarrow> ADAPTER_TIMEOUT | _ \<Rightarrow> CATALOG_ERROR)"

definition port_write ::
  "'s WritePort \<Rightarrow> PreparedResourceBatch anyobj \<Rightarrow> ExpectedPublication option \<Rightarrow> 's \<Rightarrow>
   's \<times> PublicationResult option result" where
  "port_write port batch expected s =
     (case batch of
        Untyped \<Rightarrow> (s, Inl (TypeError ''batch must be a PreparedResourceBatch''))
      | Typed b \<Rightarrow>
          (case expected of
             None \<Rightarrow> (case wp_replace_resource port b s of (s', r) \<Rightarrow> (s', rbind r (\<lambda>_. Inr None)))
           | Some ex \<Rightarrow>
               (case wp_compare_and_publish port of
                  None \<Rightarrow> (s, Inl (AssertionError ''PublicationPort''))
                | Some publish \<Rightarrow> publish b ex s)))"

definition index_batch ::
  "'s WritePort \<Rightarrow> elapsed \<Rightarrow> PreparedResourceBatch anyobj \<Rightarrow> ExpectedPublication option \<Rightarrow>
   ('s, PublicationResult option) svc" where
  "index_batch port el batch expected =
     svc_bind (svc_emit (lit ''core.index.started'') (\<lambda>n. (lit ''status'', EvStatus STARTED) # count_fields batch)) (\<lambda>_.
     svc_bind (svc_try (svc_lift (validate_prepared_batch batch)) (\<lambda>e.
         if is_validation_error e
         then svc_bind (emit_index_failure el VALIDATION batch) (\<lambda>_. svc_raise (CoreError VALIDATION))
         else svc_raise e)) (\<lambda>_.
     svc_bind (svc_emit (lit ''core.index.validated'') (\<lambda>n.
         [(lit ''status'', EvStatus VALIDATED), (lit ''validation_ms'', EvFloat (el ''validation_ms'' n))] @
         count_fields batch)) (\<lambda>_.
     svc_bind (svc_try (svc_port (port_write port batch expected)) (\<lambda>e.
         svc_bind (emit_index_failure el (catalog_category e) batch) (\<lambda>_.
         svc_raise (CatalogExecutionError (catalog_category e))))) (\<lambda>res.
     svc_bind (svc_emit (lit ''core.index.completed'') (\<lambda>n.
         [(lit ''status'', EvStatus COMPLETED), (lit ''elapsed_ms'', EvFloat (el ''elapsed_ms'' n)),
          (lit ''storage_ms'', EvFloat (el ''storage_ms'' n))] @ count_fields batch @
         (case expected of
            None \<Rightarrow> []
          | Some _ \<Rightarrow>
              [(lit ''publication_applied'', case res of None \<Rightarrow> EvNone | Some r \<Rightarrow> EvBool (pr_applied r))]))) (\<lambda>_.
     svc_return res)))))"

definition index :: "'s WritePort \<Rightarrow> elapsed \<Rightarrow> PreparedResourceBatch anyobj \<Rightarrow> ('s, unit) svc" where
  "index port el batch = svc_bind (index_batch port el batch None) (\<lambda>_. svc_return ())"

definition index_if_current ::
  "'s WritePort \<Rightarrow> elapsed \<Rightarrow> PreparedResourceBatch anyobj \<Rightarrow> ExpectedPublication anyobj \<Rightarrow>
   ('s, PublicationResult) svc" where
  "index_if_current port el batch expected =
     (if wp_compare_and_publish port = None then svc_raise (TypeError ''publication capability required'')
      else case expected of
        Untyped \<Rightarrow> svc_raise (TypeError ''expected must be ExpectedPublication'')
      | Typed ex \<Rightarrow>
          svc_bind (index_batch port el batch (Some ex)) (\<lambda>res.
            case res of
              None \<Rightarrow> svc_raise (AssertionError ''PublicationResult'')
            | Some r \<Rightarrow> svc_return r))"

definition delete_resource :: "'s WritePort \<Rightarrow> pyobj \<Rightarrow> ('s, unit) svc" where
  "delete_resource port resource_id =
     svc_bind (svc_try (svc_lift (require_non_empty resource_id ''resource_id'')) (\<lambda>e.
         if is_ValueError e then svc_raise (CoreError VALIDATION) else svc_raise e)) (\<lambda>rid.
     svc_try (svc_port (wp_delete_resource port rid)) (\<lambda>e.
         svc_raise (CatalogExecutionError (catalog_category e))))"

section \<open>The events of a run\<close>

lemma lit_in_map: "lit s \<in> set (map lit xs) \<longleftrightarrow> s \<in> set xs"
  by auto

lemma count_fields_ok: "(k, v) \<in> set (count_fields obj) \<Longrightarrow> k \<in> set SAFE_FIELD_NAMES \<and> ok_value v"
proof -
  have names: "set count_names \<subseteq> set SAFE_FIELD_NAMES"
    unfolding count_names_def SAFE_FIELD_NAMES_def set_map by (rule image_mono) simp
  assume "(k, v) \<in> set (count_fields obj)"
  then obtain i where "(k, i) \<in> set (index_counts obj)" "v = EvInt i" by (auto simp: count_fields_def)
  then show ?thesis using names
    by (cases obj) (auto simp: index_counts_def ok_value_def Let_def dest: set_zip_leftD)
qed

lemma ok_fields_Cons [simp]: "ok_fields ((k, v) # fs) \<longleftrightarrow> k \<in> set SAFE_FIELD_NAMES \<and> ok_value v \<and> ok_fields fs"
  by (simp add: ok_fields_def)

lemma ok_fields_append [simp]: "ok_fields (fs @ gs) \<longleftrightarrow> ok_fields fs \<and> ok_fields gs"
  by (simp add: ok_fields_def)

lemma ok_fields_Nil [simp]: "ok_fields []"
  by (simp add: ok_fields_def)

lemma ok_fields_counts [simp]: "ok_fields (count_fields obj)"
  by (auto simp: ok_fields_def list_all_iff dest: count_fields_ok)

lemma ok_value_simps [simp]:
  "ok_value EvNone" "ok_value (EvBool b)" "ok_value (EvInt i)" "ok_value (EvFloat f) \<longleftrightarrow> isfinite f"
  "ok_value (EvFingerprint s)" "ok_value (EvRequestId s)" "ok_value (EvStatus st)" "ok_value (EvError ec)"
  "ok_value (EvDegradation dc)" "ok_value (EvOther p)"
  by (simp_all add: ok_value_def)

lemma safe_field [simp]: "lit s \<in> set SAFE_FIELD_NAMES \<longleftrightarrow> s \<in> set
    [''request_id'', ''run_id'', ''execution_id'', ''operation'', ''status'', ''reason'', ''category'',
     ''resource_kind'', ''media_type'', ''target'', ''adapter_name'', ''branch_fingerprint'',
     ''space_fingerprint'', ''representation_count'', ''unit_count'', ''text_unit_count'',
     ''vector_unit_count'', ''vector_count'', ''space_count'', ''facet_count'', ''input_bytes'',
     ''representation_token_count_total'', ''representation_token_count_max'', ''unit_token_count_total'',
     ''unit_token_count_max'', ''branch_count'', ''lexical_branch_count'', ''vector_branch_count'',
     ''scope_filter_count'', ''requested_limit'', ''candidate_limit_total'', ''candidate_count'',
     ''fusion_input_count'', ''unique_unit_count'', ''unique_resource_count'', ''result_count'', ''rrf_k'',
     ''degraded_branch_count'', ''elapsed_ms'', ''validation_ms'', ''storage_ms'', ''publication_applied'']"
  unfolding SAFE_FIELD_NAMES_def by (rule lit_in_map)

lemma core_event [simp]: "lit s \<in> set CORE_EVENT_NAMES \<longleftrightarrow> s \<in> set
    [''core.index.started'', ''core.index.validated'', ''core.index.completed'', ''core.index.failed'',
     ''core.search.started'', ''core.search.branch.completed'', ''core.search.branch.degraded'',
     ''core.search.fusion.completed'', ''core.search.completed'', ''core.search.failed'',
     ''core.similarity.started'', ''core.similarity.completed'',
     ''core.lifecycle.started'', ''core.lifecycle.completed'', ''core.lifecycle.degraded'',
     ''core.lifecycle.failed'', ''core.lifecycle.recovered'']"
  unfolding CORE_EVENT_NAMES_def by (rule lit_in_map)

lemma ev_name_event_of [simp]: "ev_name (event_of n fs) = n"
  by (simp add: event_of_def)

text \<open>What a run of the service does to the store, which events it adds and what it returns.\<close>

definition index_outcome ::
  "'s WritePort \<Rightarrow> PreparedResourceBatch anyobj \<Rightarrow> ExpectedPublication option \<Rightarrow> 's \<Rightarrow>
   's \<times> string list \<times> PublicationResult option result" where
  "index_outcome port batch expected s =
     (if validate_prepared_batch batch \<noteq> Inr ()
      then (s, [''core.index.started'', ''core.index.failed''], Inl (CoreError VALIDATION))
      else case port_write port batch expected s of
        (s', Inl e) \<Rightarrow>
          (s', [''core.index.started'', ''core.index.validated'', ''core.index.failed''],
           Inl (CatalogExecutionError (catalog_category e)))
      | (s', Inr res) \<Rightarrow>
          (s', [''core.index.started'', ''core.index.validated'', ''core.index.completed''], Inr res))"

lemma index_batch_outcome:
  assumes el: "\<And>f n. isfinite (el f n)" and o: "index_outcome port batch expected s = (s', names, r)"
  shows "\<exists>evs. index_batch port el batch expected (s, tr) = ((s', tr @ evs), r) \<and> map ev_name evs = map lit names"
proof (cases "validate_prepared_batch batch")
  case (Inl e)
  then have "is_validation_error e" using validate_prepared_batch_raises [of batch] by (simp add: raises_only_def)
  then show ?thesis using o Inl el
    by (auto simp: index_outcome_def index_batch_def svc_emit_ok emit_index_failure_def)
next
  case (Inr u)
  show ?thesis
  proof (cases "port_write port batch expected s")
    case (Pair s1 res)
    show ?thesis
    proof (cases res)
      case (Inl e)
      then show ?thesis using o Inr Pair el
        by (auto simp: index_outcome_def index_batch_def svc_emit_ok emit_index_failure_def svc_port_def)
    next
      case (Inr v)
      then show ?thesis using o \<open>validate_prepared_batch batch = Inr u\<close> Pair el
        by (auto simp: index_outcome_def index_batch_def svc_emit_ok svc_port_def split: option.split)
    qed
  qed
qed

section \<open>Properties\<close>

text \<open>
  C11: indexing validates before it writes: an invalid graph leaves the store untouched, whatever the port, and
  ends with one \<open>core.index.failed\<close> event and \<open>CoreError(VALIDATION)\<close>; a valid one is handed to the
  port exactly once, and the run ends with \<open>core.index.completed\<close> and the port's result, or with
  \<open>core.index.failed\<close> and a \<open>CatalogExecutionError\<close>. No event is rejected.
\<close>

theorem index_lifecycle:
  assumes "\<forall>f n. isfinite (el f n)"
  shows "\<exists>s' names r evs. index_outcome port batch expected s = (s', names, r) \<and>
    index_batch port el batch expected (s, tr) = ((s', tr @ evs), r) \<and> map ev_name evs = map lit names"
  using index_batch_outcome [of el port batch expected s] assms
  by (cases "index_outcome port batch expected s") blast

text \<open>A port that counts its writes.\<close>

definition counting_port :: "nat WritePort" where
  "counting_port = \<lparr>wp_replace_resource = (\<lambda>b n. (n + 1, Inr ())), wp_delete_resource = (\<lambda>i n. (n, Inl TimeoutError)),
     wp_compare_and_publish = None\<rparr>"

lemma example_outcome:
  "index_outcome counting_port (Typed example_batch) None 0 =
    (1, [''core.index.started'', ''core.index.validated'', ''core.index.completed''], Inr None)"
proof -
  have "validate_prepared_batch (Typed example_batch) = Inr ()"
    by (subst validate_batch_flat [OF example_batch_wf])
      (use example_batch_graph in \<open>auto simp: graph_ok_def example_batch_def example_unit_def vector_ok_def zero_norm_def has_text_def blank_iff py_isspace_def\<close>)
  then show ?thesis by (simp add: index_outcome_def counting_port_def port_write_def)
qed

theorem index_lifecycle_witness:
  "\<exists>evs. index_batch counting_port (\<lambda>_ _. Fin 1) (Typed example_batch) None (0, []) = ((1, evs), Inr None) \<and>
    map ev_name evs = map lit [''core.index.started'', ''core.index.validated'', ''core.index.completed'']"
  using index_lifecycle [of "\<lambda>_ _. Fin 1" counting_port "Typed example_batch" None 0 "[]"] by (auto simp: example_outcome)

text \<open>
  C12: a conditional index without publication capability, or else without an \<open>ExpectedPublication\<close>, raises its
  \<open>TypeError\<close> before anything is logged or written. Otherwise an invalid graph is refused without a write, and a valid
  one is handed to the compare-and-publish operation once: its failure becomes a \<open>CatalogExecutionError\<close>, its result
  is returned, and an answer without result is an assertion failure; each with exactly the events of the lifecycle.
\<close>

theorem index_if_current_outcome:
  assumes "\<forall>f n. isfinite (el f n)"
  shows "case (wp_compare_and_publish port, expected) of
      (None, _) \<Rightarrow>
        index_if_current port el batch expected (s, tr) = ((s, tr), Inl (TypeError ''publication capability required''))
    | (Some publish, Untyped) \<Rightarrow>
        index_if_current port el batch expected (s, tr) = ((s, tr), Inl (TypeError ''expected must be ExpectedPublication''))
    | (Some publish, Typed ex) \<Rightarrow>
        (\<exists>s' names r evs. index_if_current port el batch expected (s, tr) = ((s', tr @ evs), r) \<and>
           map ev_name evs = map lit names \<and>
           (if validate_prepared_batch batch \<noteq> Inr ()
            then s' = s \<and> names = [''core.index.started'', ''core.index.failed''] \<and> r = Inl (CoreError VALIDATION)
            else \<exists>b. batch = Typed b \<and>
              (case publish b ex s of
                 (s1, Inl e) \<Rightarrow> s' = s1 \<and>
                   names = [''core.index.started'', ''core.index.validated'', ''core.index.failed''] \<and>
                   r = Inl (CatalogExecutionError
                     (case e of CatalogExecutionError c \<Rightarrow> c | TimeoutError \<Rightarrow> ADAPTER_TIMEOUT | _ \<Rightarrow> CATALOG_ERROR))
               | (s1, Inr answer) \<Rightarrow> s' = s1 \<and>
                   names = [''core.index.started'', ''core.index.validated'', ''core.index.completed''] \<and>
                   r = (case answer of None \<Rightarrow> Inl (AssertionError ''PublicationResult'') | Some res \<Rightarrow> Inr res))))"
proof (cases "wp_compare_and_publish port")
  case port: (Some publish)
  show ?thesis
  proof (cases expected)
    case (Typed ex)
    obtain s' names r0 where o: "index_outcome port batch (Some ex) s = (s', names, r0)" by (metis surj_pair)
    obtain evs where run: "index_batch port el batch (Some ex) (s, tr) = ((s', tr @ evs), r0)" "map ev_name evs = map lit names"
      using index_batch_outcome [OF _ o] assms by blast
    have "index_if_current port el batch expected (s, tr) =
        ((s', tr @ evs), rbind r0 (\<lambda>res. case res of None \<Rightarrow> Inl (AssertionError ''PublicationResult'') | Some x \<Rightarrow> Inr x))"
      using run(1) by (auto simp: index_if_current_def port Typed svc_bind_def svc_raise_def svc_return_def
          split: sum.splits option.splits)
    note result = this
    show ?thesis
    proof (cases "validate_prepared_batch batch = Inr ()")
      case False
      then have "s' = s \<and> names = [''core.index.started'', ''core.index.failed''] \<and> r0 = Inl (CoreError VALIDATION)"
        using o by (simp add: index_outcome_def)
      then show ?thesis using result run(2) False by (auto simp: port Typed)
    next
      case True
      then obtain b where b: "batch = Typed b" by (cases batch) (auto simp: validate_prepared_batch_def validate_batch_def)
      obtain s1 answer where call: "publish b ex s = (s1, answer)" by (metis surj_pair)
      show ?thesis
      proof (cases answer)
        case (Inl e)
        then have "s' = s1 \<and> names = [''core.index.started'', ''core.index.validated'', ''core.index.failed''] \<and>
            r0 = Inl (CatalogExecutionError (catalog_category e))"
          using o True b call port by (simp add: index_outcome_def port_write_def)
        then show ?thesis using result run(2) True b call Inl by (auto simp: port Typed catalog_category_def)
      next
        case (Inr res)
        then have "s' = s1 \<and> names = [''core.index.started'', ''core.index.validated'', ''core.index.completed''] \<and> r0 = Inr res"
          using o True b call port by (simp add: index_outcome_def port_write_def)
        then show ?thesis using result run(2) True b call Inr by (auto simp: port Typed split: option.split)
      qed
    qed
  qed (simp add: port index_if_current_def svc_raise_def)
qed (simp add: index_if_current_def svc_raise_def)

theorem index_if_current_outcome_witness:
  "index_if_current counting_port (\<lambda>_ _. Fin 1) (Typed example_batch) Untyped (0, []) =
    ((0, []), Inl (TypeError ''publication capability required'')) \<and>
   index_if_current (counting_port\<lparr>wp_compare_and_publish := Some (\<lambda>b ex n. (n + 1, Inl TimeoutError))\<rparr>) (\<lambda>_ _. Fin 1)
     (Typed example_batch) Untyped (0, []) = ((0, []), Inl (TypeError ''expected must be ExpectedPublication''))"
  using index_if_current_outcome [where el = "\<lambda>_ _. Fin 1" and port = counting_port and expected = Untyped and batch = "Typed example_batch" and s = 0 and tr = "[]"]
    index_if_current_outcome [where el = "\<lambda>_ _. Fin 1"
      and port = "counting_port\<lparr>wp_compare_and_publish := Some (\<lambda>b ex n. (n + 1, Inl TimeoutError))\<rparr>"
      and expected = Untyped and batch = "Typed example_batch" and s = 0 and tr = "[]"]
  by (simp add: counting_port_def)

text \<open>
  Deletion reports only stable categories: a blank or malformed identity is a validation error and does
  not reach the port, and whatever the port raises becomes a \<open>CatalogExecutionError\<close> of a fixed category.
\<close>

theorem delete_resource_outcome:
  "delete_resource port rid (s, tr) =
    (case require_non_empty rid ''resource_id'' of
       Inl _ \<Rightarrow> ((s, tr), Inl (CoreError VALIDATION))
     | Inr i \<Rightarrow>
         (case wp_delete_resource port i s of
            (s', Inl e) \<Rightarrow> ((s', tr), Inl (CatalogExecutionError (catalog_category e)))
          | (s', Inr u) \<Rightarrow> ((s', tr), Inr ())))"
proof (cases "require_non_empty rid ''resource_id''")
  case (Inl e)
  then have "is_ValueError e" using require_non_empty_raises [of rid "''resource_id''"] by (simp add: raises_only_def)
  then show ?thesis using Inl by (simp add: delete_resource_def)
next
  case (Inr i)
  then show ?thesis
    by (auto simp: delete_resource_def svc_bind_def svc_try_def svc_port_def split: prod.split sum.split)
qed

end
