(* ===== verification/Core_Search_Service.thy ===== *)
theory Core_Search_Service
  imports Core_Retrieval Core_Indexing
begin

text \<open>
  What \<open>RetrievalService.search\<close> promises: an abstract search, without events and exceptions of the boundary,
  that runs the branches in order, and the proof that the service implements it for every port whose branch
  errors were built by their constructor.
\<close>

section \<open>The abstract search\<close>

definition branch_outcome :: "'s SearchPort \<Rightarrow> SearchRequest \<Rightarrow> any_branch \<Rightarrow> 's \<Rightarrow> 's \<times> branch_result" where
  "branch_outcome port request b s =
     (case effective_scope (req_scope request) (br_override b) of
        Inr (Some scope) \<Rightarrow>
          (case port_search port b scope s of
             (s', Inl e) \<Rightarrow> (s', Inl (failure_category e))
           | (s', Inr raw) \<Rightarrow>
               (s', case validate_candidates b raw of Inl e \<Rightarrow> Inl (failure_category e) | Inr cs \<Rightarrow> Inr cs))
      | _ \<Rightarrow> (s, Inr []))"

text \<open>Without \<open>allow_partial\<close> the first failing branch is the last one that runs.\<close>

fun run_branches ::
  "'s SearchPort \<Rightarrow> SearchRequest \<Rightarrow> any_branch list \<Rightarrow> 's \<Rightarrow> 's \<times> (any_branch \<times> branch_result) list" where
  "run_branches port request [] s = (s, [])"
| "run_branches port request (b # bs) s =
     (case branch_outcome port request b s of
        (s1, res) \<Rightarrow>
          if \<not> req_allow_partial request \<and> isl res then (s1, [(b, res)])
          else (case run_branches port request bs s1 of (s2, outs) \<Rightarrow> (s2, (b, res) # outs)))"

fun out_success :: "any_branch \<times> branch_result \<Rightarrow> ExecutedBranch list" where
  "out_success (b, Inr cs) = [\<lparr>eb_branch_id = br_id b, eb_weight = br_weight b, eb_candidates = cs\<rparr>]"
| "out_success (b, Inl c) = []"

fun out_failure :: "any_branch \<times> branch_result \<Rightarrow> (ErrorCategory \<times> pystr) list" where
  "out_failure (b, Inr cs) = []"
| "out_failure (b, Inl c) = [(c, br_id b)]"

definition degradation_of :: "ErrorCategory \<times> pystr \<Rightarrow> Degradation" where
  "degradation_of f = \<lparr>deg_branch_id = snd f, deg_category = the (map_of ERROR_TO_DEGRADATION (fst f))\<rparr>"

definition abstract_search :: "'s SearchPort \<Rightarrow> SearchRequest \<Rightarrow> 's \<Rightarrow> 's \<times> SearchResult result" where
  "abstract_search port request s =
     (case run_branches port request (request_branches request) s of
        (s', outs) \<Rightarrow>
          (let fails = concat (map out_failure outs); succ = concat (map out_success outs) in
           (s', if fails \<noteq> [] \<and> (\<not> req_allow_partial request \<or> succ = [])
                then Inl (BranchExecutionError (fst (hd fails)) (snd (hd fails)))
                else rbind (fuse_branches request succ) (\<lambda>(_, items).
                  Inr \<lparr>sr_target = req_target request, sr_items = items,
                       sr_degradations = map degradation_of fails, sr_request_id = req_request_id request\<rparr>))))"

text \<open>The class invariant of the exceptions a port raises: the constructor admits four categories.\<close>

definition port_errors_ok :: "'s SearchPort \<Rightarrow> bool" where
  "port_errors_ok port \<longleftrightarrow>
     (\<forall>b sc s s' c i. port_search port b sc s = (s', Inl (BranchExecutionError c i)) \<longrightarrow> c \<in> set BRANCH_CATEGORIES)"

section \<open>Events are accepted\<close>

definition search_event :: "SearchRequest \<Rightarrow> string \<Rightarrow> (pystr, evval) dict \<Rightarrow> SafeEvent" where
  "search_event r name fs =
     event_of (lit name) ((lit ''target'', EvOther (PStr (req_target r))) # fs @
       (case req_request_id r of None \<Rightarrow> [] | Some i \<Rightarrow> [(lit ''request_id'', EvRequestId i)]))"

lemma search_emit_ok:
  assumes "lit name \<in> set CORE_EVENT_NAMES" "ok_fields (flds (length tr))"
  shows "search_emit r name flds (s, tr) = ((s, tr @ [search_event r name (flds (length tr))]), Inr ())"
  using assms by (auto simp: search_emit_def search_event_def svc_emit_ok split: option.split)

section \<open>Branches\<close>

lemma failure_category_ok:
  assumes "\<And>c i. e = BranchExecutionError c i \<Longrightarrow> c \<in> set BRANCH_CATEGORIES"
  shows "failure_category e \<in> set BRANCH_CATEGORIES"
  using assms by (cases e) (auto simp: failure_category_def BRANCH_CATEGORIES_def)

lemma validate_candidates_error:
  assumes "validate_candidates b raw = Inl e"
  shows "failure_category e = ADAPTER_ERROR"
proof -
  have vf: "validate_from i n seen objs = Inl e' \<Longrightarrow> is_validation_error e'" for i n seen objs e'
    by (induction i n seen objs rule: validate_from.induct) (auto simp: rbind_eq_Inl split: if_splits)
  then have "is_validation_error e"
    using assms by (cases raw) (auto simp: validate_candidates_def)
  then show ?thesis by (cases e) (auto simp: failure_category_def)
qed

lemma degradation_lookup:
  "c \<in> set BRANCH_CATEGORIES \<Longrightarrow> error_to_degradation c = Inr (the (map_of ERROR_TO_DEGRADATION c))"
  by (auto simp: BRANCH_CATEGORIES_def ERROR_TO_DEGRADATION_def error_to_degradation_def)

text \<open>The state after a branch.\<close>

definition collect_ok :: "SearchRequest \<Rightarrow> any_branch \<times> branch_result \<Rightarrow> collected \<Rightarrow> collected" where
  "collect_ok request out st =
     \<lparr>col_successful = col_successful st @ out_success out,
      col_degradations = col_degradations st @
        (if req_allow_partial request then map degradation_of (out_failure out) else []),
      col_failures = col_failures st @ out_failure out\<rparr>"

lemma collect_result_ok:
  assumes "wf_name (br_id b)" "\<And>c. res = Inl c \<Longrightarrow> c \<in> set BRANCH_CATEGORIES"
  shows "collect_result request b res st = Inr (collect_ok request (b, res) st)"
  using assms
  by (cases res) (auto simp: collect_result_def collect_ok_def degradation_lookup new_Degradation_def name_again
      degradation_of_def)

lemma br_wf:
  assumes "wf_SearchRequest r" "b \<in> set (request_branches r)"
  shows "wf_name (br_id b)" "pred_option wf_override (br_override b)" "1 \<le> br_limit b"
    "isfinite (br_weight b)" "Fin 0 < br_weight b"
  using assms by (auto simp: wf_SearchRequest_def request_branches_def list_all_iff wf_LexicalBranch_def wf_VectorBranch_def)

lemma effective_scope_total:
  assumes "wf_override g" "pred_option wf_override ov"
  shows "\<exists>s. effective_scope g ov = Inr s"
proof (cases ov)
  case (Some o')
  then show ?thesis using assms effective_scope_cases [of g o'] by (metis option.pred_inject(2))
qed (simp add: effective_scope_def)

lemma branch_outcome_category:
  assumes "port_errors_ok port" "branch_outcome port r b s = (s', Inl c)"
  shows "c \<in> set BRANCH_CATEGORIES"
proof -
  obtain scope where sc: "effective_scope (req_scope r) (br_override b) = Inr (Some scope)"
    using assms(2) by (auto simp: branch_outcome_def split: sum.splits option.splits)
  obtain s1 x where p: "port_search port b scope s = (s1, x)" by (cases "port_search port b scope s")
  show ?thesis
  proof (cases x)
    case (Inl e)
    then have "c = failure_category e" using assms(2) sc p by (simp add: branch_outcome_def)
    moreover have "c' \<in> set BRANCH_CATEGORIES" if "e = BranchExecutionError c' i" for c' i
      using assms(1) p Inl that unfolding port_errors_ok_def by blast
    ultimately show ?thesis using failure_category_ok by blast
  next
    case (Inr raw)
    then show ?thesis using assms(2) sc p validate_candidates_error
      by (fastforce simp: branch_outcome_def BRANCH_CATEGORIES_def split: sum.splits)
  qed
qed

lemma execute_branch_outcome:
  assumes r: "wf_SearchRequest r" "b \<in> set (request_branches r)" and port: "port_errors_ok port"
    and el: "\<And>f n. isfinite (el f n)" and sc: "effective_scope (req_scope r) (br_override b) = Inr (Some scope)"
    and out: "branch_outcome port r b s = (s', res)"
  shows "\<exists>evs. execute_branch port el r b scope (s, tr) = ((s', tr @ evs), Inr res)"
proof -
  have id: "utf8_encodable (br_id b)" "\<not> blank (br_id b)" using br_wf(1) [OF r] by (simp_all add: wf_name_def)
  note fp = safe_fingerprint_ok [OF id(1)]
  have handler: "\<exists>evs. branch_handler el r b e (s', tr) = ((s', tr @ evs), Inr (Inl (failure_category e)))"
    if cat: "failure_category e \<in> set BRANCH_CATEGORIES" for e
  proof (cases "req_allow_partial r")
    case True
    show ?thesis using True cat id el
      by (simp add: branch_handler_def new_BranchExecutionError_def emit_degradation_def fp degradation_lookup search_emit_ok)
  next
    case False
    then show ?thesis using cat id by (auto simp: branch_handler_def new_BranchExecutionError_def)
  qed
  obtain s1 x where p: "port_search port b scope s = (s1, x)" by (cases "port_search port b scope s")
  have call: "svc_port (port_search port b scope) (s, tr) = ((s1, tr), x)" by (simp add: svc_port_def p)
  show ?thesis
  proof (cases x)
    case (Inl e)
    then have o: "s' = s1" "res = Inl (failure_category e)" using out sc p by (simp_all add: branch_outcome_def)
    then have "failure_category e \<in> set BRANCH_CATEGORIES" using branch_outcome_category [OF port] out by blast
    from handler [OF this] show ?thesis using call Inl o by (simp add: execute_branch_def)
  next
    case (Inr raw)
    note x = this
    show ?thesis
    proof (cases "validate_candidates b raw")
      case (Inl e)
      then have o: "s' = s1" "res = Inl (failure_category e)" using out sc p x by (simp_all add: branch_outcome_def)
      then have "failure_category e \<in> set BRANCH_CATEGORIES" using branch_outcome_category [OF port] out by blast
      from handler [OF this] show ?thesis using call Inl o x by (simp add: execute_branch_def)
    next
      case (Inr cs)
      then have o: "s' = s1" "res = Inr cs" using out sc p x by (simp_all add: branch_outcome_def)
      show ?thesis using call Inr o x el by (simp add: execute_branch_def fp search_emit_ok)
    qed
  qed
qed

section \<open>The loop over the branches\<close>

lemma run_branch_outcome:
  assumes r: "wf_SearchRequest r" "b \<in> set (request_branches r)" and port: "port_errors_ok port"
    and el: "\<And>f n. isfinite (el f n)" and out: "branch_outcome port r b s = (s', res)"
    and st: "\<not> req_allow_partial r \<Longrightarrow> col_failures st = []"
  shows "\<exists>evs. run_branch port el r b st (s, tr) = ((s', tr @ evs),
    if \<not> req_allow_partial r \<and> isl res then Inl (BranchExecutionError (projl res) (br_id b))
    else Inr (collect_ok r (b, res) st))"
proof -
  obtain scope where sc: "effective_scope (req_scope r) (br_override b) = Inr scope"
    using effective_scope_total [OF _ br_wf(2) [OF r]] r(1) unfolding wf_SearchRequest_def by blast
  have "\<exists>evs. (case scope of None \<Rightarrow> svc_return (Inr []) | Some sc \<Rightarrow> execute_branch port el r b sc) (s, tr) =
      ((s', tr @ evs), Inr res)"
  proof (cases scope)
    case None
    then show ?thesis using out sc by (simp add: branch_outcome_def)
  next
    case (Some x)
    then show ?thesis using execute_branch_outcome [OF r port el _ out] sc by simp
  qed
  then obtain evs where run: "(case scope of None \<Rightarrow> svc_return (Inr []) | Some sc \<Rightarrow> execute_branch port el r b sc) (s, tr) =
      ((s', tr @ evs), Inr res)" by blast
  have col: "collect_result r b res st = Inr (collect_ok r (b, res) st)"
    by (rule collect_result_ok [OF br_wf(1) [OF r]]) (use branch_outcome_category [OF port] out in blast)
  have eq: "run_branch port el r b st (s, tr) =
      (if col_failures (collect_ok r (b, res) st) \<noteq> [] \<and> \<not> req_allow_partial r
       then fail_search el r (collect_ok r (b, res) st) else svc_return (collect_ok r (b, res) st)) (s', tr @ evs)"
    using run col sc by (simp add: run_branch_def)
  show ?thesis
  proof (cases "\<not> req_allow_partial r \<and> isl res")
    case True
    then obtain c where "res = Inl c" by (cases res) auto
    then show ?thesis using True st el unfolding eq
      by (simp add: collect_ok_def fail_search_def emit_search_failure_def search_emit_ok)
  next
    case False
    then have "\<not> (col_failures (collect_ok r (b, res) st) \<noteq> [] \<and> \<not> req_allow_partial r)"
      using st by (cases res) (auto simp: collect_ok_def)
    then show ?thesis using False unfolding eq by (simp only: if_False) auto
  qed
qed

lemma collect_ok_failures:
  "col_failures (collect_ok r (b, res) st) = col_failures st @ out_failure (b, res)"
  by (simp add: collect_ok_def)

lemma run_branches_fold:
  assumes r: "wf_SearchRequest r" and port: "port_errors_ok port" and el: "\<And>f n. isfinite (el f n)"
    and "set bs \<subseteq> set (request_branches r)" "\<not> req_allow_partial r \<Longrightarrow> col_failures st = []"
    and "run_branches port r bs s = (s', outs)"
  shows "\<exists>evs. svc_fold (run_branch port el r) bs st (s, tr) = ((s', tr @ evs),
    if \<not> req_allow_partial r \<and> concat (map out_failure outs) \<noteq> []
    then (let f = hd (concat (map out_failure outs)) in Inl (BranchExecutionError (fst f) (snd f)))
    else Inr (fold (collect_ok r) outs st))"
  using assms(4-)
proof (induction bs arbitrary: st s tr s' outs)
  case (Cons b bs)
  obtain s1 res where out: "branch_outcome port r b s = (s1, res)" by (cases "branch_outcome port r b s")
  have b: "b \<in> set (request_branches r)" using Cons.prems by simp
  obtain evs where run: "run_branch port el r b st (s, tr) = ((s1, tr @ evs),
      if \<not> req_allow_partial r \<and> isl res then Inl (BranchExecutionError (projl res) (br_id b))
      else Inr (collect_ok r (b, res) st))"
    using run_branch_outcome [where el = el, OF r b port el out, where st = st and tr = tr] Cons.prems(2) by blast
  show ?case
  proof (cases "\<not> req_allow_partial r \<and> isl res")
    case True
    then obtain c where "res = Inl c" by (cases res) auto
    then show ?thesis using True run out Cons.prems(3) by (auto simp: Let_def)
  next
    case False
    obtain s2 outs' where rest: "run_branches port r bs s1 = (s2, outs')" by (cases "run_branches port r bs s1")
    have fl: "\<not> req_allow_partial r \<Longrightarrow> col_failures (collect_ok r (b, res) st) = []"
      using False Cons.prems(2) by (cases res) (auto simp: collect_ok_failures)
    obtain evs' where "svc_fold (run_branch port el r) bs (collect_ok r (b, res) st) (s1, tr @ evs) = ((s2, (tr @ evs) @ evs'),
      if \<not> req_allow_partial r \<and> concat (map out_failure outs') \<noteq> []
      then (let f = hd (concat (map out_failure outs')) in Inl (BranchExecutionError (fst f) (snd f)))
      else Inr (fold (collect_ok r) outs' (collect_ok r (b, res) st)))"
      using Cons.IH [OF _ fl rest, of "tr @ evs"] Cons.prems(1) by auto
    moreover have "out_failure (b, res) = []" if "\<not> req_allow_partial r" using False that by (cases res) auto
    moreover have "s' = s2" "outs = (b, res) # outs'" using Cons.prems(3) out rest False by simp_all
    ultimately show ?thesis using run False by (cases "req_allow_partial r") simp_all
  qed
qed simp

lemma fold_collect_ok:
  "fold (collect_ok r) outs st =
     \<lparr>col_successful = col_successful st @ concat (map out_success outs),
      col_degradations = col_degradations st @
        (if req_allow_partial r then map degradation_of (concat (map out_failure outs)) else []),
      col_failures = col_failures st @ concat (map out_failure outs)\<rparr>"
  by (induction outs arbitrary: st) (auto simp: collect_ok_def)

lemma run_branches_nonempty:
  "bs \<noteq> [] \<Longrightarrow> run_branches port r bs s = (s', outs) \<Longrightarrow>
     concat (map out_success outs) = [] \<Longrightarrow> concat (map out_failure outs) \<noteq> []"
proof (cases bs)
  case (Cons b bs')
  obtain s1 res where "branch_outcome port r b s = (s1, res)" by (cases "branch_outcome port r b s")
  then show "run_branches port r bs s = (s', outs) \<Longrightarrow>
     concat (map out_success outs) = [] \<Longrightarrow> concat (map out_failure outs) \<noteq> []"
    using Cons by (cases res) (auto split: prod.splits if_splits)
qed simp

section \<open>Refinement\<close>

lemma search_abstract:
  assumes "wf_SearchRequest r" "port_errors_ok port" "\<forall>f n. isfinite (el f n)"
  shows "\<exists>evs. search port el (Typed r) (s, tr) =
    ((fst (abstract_search port r s), tr @ evs), snd (abstract_search port r s))"
proof -
  obtain s' outs where run: "run_branches port r (request_branches r) s = (s', outs)"
    by (cases "run_branches port r (request_branches r) s")
  define fails where "fails = concat (map out_failure outs)"
  define succ where "succ = concat (map out_success outs)"
  let ?st = "\<lparr>col_successful = [], col_degradations = [], col_failures = []\<rparr>"
  have el: "isfinite (el f n)" for f n using assms(3) by blast
  have fold: "\<exists>evs. svc_fold (run_branch port el r) (request_branches r) ?st (s, tr1) = ((s', tr1 @ evs),
    if \<not> req_allow_partial r \<and> fails \<noteq> [] then Inl (BranchExecutionError (fst (hd fails)) (snd (hd fails)))
    else Inr (fold (collect_ok r) outs ?st))" for tr1
    using run_branches_fold [where el = el, OF assms(1,2) el subset_refl _ run, where st = ?st and tr = tr1]
    unfolding fails_def [symmetric] Let_def by (simp only: collected.select_convs simp_thms)
  have ne: "request_branches r \<noteq> []" using assms(1) by (auto simp: wf_SearchRequest_def request_branches_def)
  have some: "succ = [] \<Longrightarrow> fails \<noteq> []" using run_branches_nonempty [OF ne run] by (simp add: succ_def fails_def)
  have res: "new_SearchResult (PStr (req_target r)) (PySeq (map Typed items)) (PySeq (map Typed degs)) (opt_str (req_request_id r)) =
      Inr \<lparr>sr_target = req_target r, sr_items = items, sr_degradations = degs, sr_request_id = req_request_id r\<rparr>" for items degs
    using assms(1) by (simp add: new_SearchResult_def wf_SearchRequest_def target_again normalize_optional_again)
  define tr1 where "tr1 = [search_event r ''core.search.started'' (start_fields r)]"
  have start: "search port el (Typed r) (s, tr) =
      svc_bind (svc_fold (run_branch port el r) (request_branches r) ?st) (complete_search el r) (s, tr @ tr1)"
    by (simp add: search_def search_emit_ok start_fields_def tr1_def)
  obtain evs where ev: "svc_fold (run_branch port el r) (request_branches r) ?st (s, tr @ tr1) = ((s', (tr @ tr1) @ evs),
    if \<not> req_allow_partial r \<and> fails \<noteq> [] then Inl (BranchExecutionError (fst (hd fails)) (snd (hd fails)))
    else Inr (fold (collect_ok r) outs ?st))" using fold by blast
  have abs: "abstract_search port r s = (s', if fails \<noteq> [] \<and> (\<not> req_allow_partial r \<or> succ = [])
      then Inl (BranchExecutionError (fst (hd fails)) (snd (hd fails)))
      else rbind (fuse_branches r succ) (\<lambda>(_, items). Inr \<lparr>sr_target = req_target r, sr_items = items,
        sr_degradations = map degradation_of fails, sr_request_id = req_request_id r\<rparr>))"
    by (simp add: abstract_search_def run fails_def succ_def Let_def)
  show ?thesis
  proof (cases "\<not> req_allow_partial r \<and> fails \<noteq> []")
    case True
    then show ?thesis using ev by (simp add: start abs)
  next
    case False
    then have ev2: "svc_fold (run_branch port el r) (request_branches r) ?st (s, tr @ tr1) = ((s', (tr @ tr1) @ evs),
        Inr \<lparr>col_successful = succ, col_degradations = map degradation_of fails, col_failures = fails\<rparr>)"
      using ev by (auto simp: fold_collect_ok succ_def fails_def)
    show ?thesis
    proof (cases "succ = []")
      case True
      then obtain c i fs where "fails = (c, i) # fs" using some by (cases fails) auto
      then show ?thesis using ev2 True el
        by (simp add: start abs complete_search_def fail_search_def emit_search_failure_def search_emit_ok)
    next
      case nonempty: False
      have cond: "\<not> (fails \<noteq> [] \<and> (\<not> req_allow_partial r \<or> succ = []))" using False nonempty by blast
      note abs2 = abs [unfolded if_not_P [OF cond]]
      show ?thesis
      proof (cases "fuse_branches r succ")
        case (Inl e)
        then show ?thesis using ev2 nonempty by (simp add: start abs2 complete_search_def)
      next
        case (Inr x)
        then show ?thesis using ev2 nonempty el
          by (cases x) (simp add: start abs2 complete_search_def search_emit_ok fusion_fields_def res del: map_map)
      qed
    qed
  qed
qed

text \<open>
  C8: \<open>search\<close> implements the abstract search: the branches run in order with their effective scopes; with
  \<open>allow_partial\<close> every failing branch becomes exactly one degradation and the request fails, with its
  first failure, only if no branch succeeded; without it the first failure ends the request and no later branch
  runs. No exception of a port escapes, and every event is accepted.
\<close>

theorem search_refines_abstract:
  assumes "wf_SearchRequest r" "port_errors_ok port" "\<forall>f n. isfinite (el f n)"
  shows "\<exists>evs. search port el (Typed r) (s, tr) =
    ((fst (abstract_search port r s), tr @ evs), snd (abstract_search port r s))"
  using assms by (rule search_abstract)

definition example_request :: SearchRequest where
  "example_request =
     \<lparr>req_lexical_branches = [\<lparr>lb_branch_id = [98], lb_query = [113], lb_weight = Fin 1, lb_candidate_limit = 10,
        lb_scope_override = None\<rparr>],
      req_vector_branches = [],
      req_scope = \<lparr>scope_resource_kinds = [], scope_media_types = [], scope_source_namespaces = [],
        scope_representation_kinds = [], scope_modalities = [], scope_unit_kinds = [], scope_facets_any = [],
        scope_facets_all = [], scope_facets_none = []\<rparr>,
      req_target = TARGET_UNIT, req_limit = 5, req_rrf_k = 60, req_evidence_limit_per_resource = 3,
      req_allow_partial = True, req_request_id = None\<rparr>"

definition failing_port :: "nat SearchPort" where
  "failing_port = \<lparr>sp_search_lexical = (\<lambda>b sc n. (n + 1, Inl TimeoutError)), sp_search_vector = (\<lambda>b sc n. (n, Inl KeyError))\<rparr>"

lemma example_request_wf: "wf_SearchRequest example_request"
  by (simp add: wf_SearchRequest_def example_request_def wf_LexicalBranch_def wf_override_def wf_name_def TARGETS_def
      blank_iff py_isspace_def utf8_encodable_def surrogate_def)

lemma failing_port_ok: "port_errors_ok failing_port"
proof -
  have "port_search failing_port b sc s \<noteq> (s', Inl (BranchExecutionError c i))" for b sc s s' c i
    by (cases b) (simp_all add: failing_port_def)
  then show ?thesis by (simp add: port_errors_ok_def)
qed

lemma example_abstract_search:
  "abstract_search failing_port example_request 0 = (1, Inl (BranchExecutionError ADAPTER_TIMEOUT [98]))"
  by (simp add: abstract_search_def request_branches_def example_request_def branch_outcome_def effective_scope_def
      failing_port_def failure_category_def)

theorem search_refines_abstract_witness:
  "\<exists>evs. search failing_port (\<lambda>_ _. Fin 1) (Typed example_request) (0, []) =
    ((1, evs), Inl (BranchExecutionError ADAPTER_TIMEOUT [98]))"
  using search_refines_abstract [OF example_request_wf failing_port_ok, of "\<lambda>_ _. Fin 1" 0 "[]"]
  by (simp add: example_abstract_search)

section \<open>The items of a result\<close>

lemma group_entry_origin:
  assumes "group_entry e (rid, entries) = Inr (n, fc)" "\<forall>x \<in> set entries. cand_resource_id (snd x) = rid"
  shows "fc_logical_id fc = rid \<and> cand_resource_id (fc_representative fc) = rid"
proof -
  obtain i c rest where s: "sort_key entry_order entries = (i, c) # rest"
    using assms(1) by (auto simp: group_entry_def split: list.splits)
  then have "(i, c) \<in> set entries" by (metis list.set_intros(1) set_sort)
  then have "cand_resource_id c = rid" using assms(2) by force
  then show ?thesis using assms(1) s
    by (auto simp: group_entry_def rbind_eq_Inr new_FusionCandidate_def require_instance_eq_Inr split: if_splits option.splits)
qed

lemma group_resources_origin:
  assumes "group_resources cs e = Inr fcs" "fc \<in> set fcs"
  shows "cand_resource_id (fc_representative fc) = fc_logical_id fc"
proof -
  obtain grouped where g: "rmap (group_entry e) (by_resource cs) = Inr grouped"
    and "fcs = map snd (sort_key (\<lambda>x. (fst x, fc_logical_id (snd x))) grouped)"
    using assms(1) by (auto simp: group_resources_def rbind_eq_Inr)
  then obtain n where "(n, fc) \<in> set grouped" using assms(2) by auto
  with g obtain x where x: "x \<in> set (by_resource cs)" "group_entry e x = Inr (n, fc)" by (rule rmap_set)
  then have "\<forall>y \<in> set (snd x). cand_resource_id (snd y) = fst x" by (auto simp: by_resource_def fold_append_entry)
  then show ?thesis using group_entry_origin [of e "fst x" "snd x" n fc] x(2) by simp
qed

lemma deduplicate_units_origin:
  assumes "deduplicate_units cs = Inr fcs" "fc \<in> set fcs"
  shows "cand_unit_id (fc_representative fc) = fc_logical_id fc"
proof -
  obtain c where "unit_candidate c = Inr fc"
    using rmap_set [OF assms(1) [unfolded deduplicate_units_def] assms(2)] by blast
  then show ?thesis
    by (auto simp: unit_candidate_def new_FusionCandidate_def split: if_splits)
qed

lemma prepare_fusion_branch_origin:
  assumes "prepare_fusion_branch r eb = Inr fb" "fc \<in> set (fb_candidates fb)"
  shows "if req_target r = TARGET_RESOURCE then cand_resource_id (fc_representative fc) = fc_logical_id fc
    else cand_unit_id (fc_representative fc) = fc_logical_id fc"
proof -
  obtain cs where cs: "(if req_target r = TARGET_RESOURCE
      then group_resources (eb_candidates eb) (req_evidence_limit_per_resource r)
      else deduplicate_units (eb_candidates eb)) = Inr cs" and "fb_candidates fb = cs"
    using assms(1) by (auto simp: prepare_fusion_branch_def rbind_eq_Inr new_FusionBranch_def split: if_splits)
  then show ?thesis using assms(2) group_resources_origin deduplicate_units_origin by (auto split: if_splits)
qed

lemma result_item_fields:
  assumes "result_item r (rank, f) = Inr it"
  shows "item_logical_id it = fd_logical_id f" "item_rank it = int rank" "item_score it = fd_score f"
    "item_evidence it = fd_evidence f" "item_resource_id it = cand_resource_id (fd_representative f)"
    "item_unit_id it = (if req_target r = TARGET_RESOURCE then None else Some (cand_unit_id (fd_representative f)))"
    "isfinite (item_score it)"
  using assms
  by (auto simp: result_item_def new_SearchResultItem_def result_simps require_finite_number_def split: if_splits)

lemma rmap_map_fields:
  assumes "rmap g xs = Inr ys" "\<And>x y. x \<in> set xs \<Longrightarrow> g x = Inr y \<Longrightarrow> p y = q x"
  shows "map p ys = map q xs"
proof -
  have "list_all2 (\<lambda>x y. g x = Inr y) xs ys" using assms(1) by (simp add: rmap_eq_Inr)
  then show ?thesis using assms(2) by (induction xs ys rule: list_all2_induct) auto
qed

lemma map_snd_of_enumerate: "map (\<lambda>x. h (snd x)) (enumerate n xs) = map h xs"
  by (induction xs arbitrary: n) auto

lemma search_returns_fused:
  assumes "search port el (Typed r) w = (w', Inr res)"
  obtains succ fbs where "fuse_branches r succ = Inr (fbs, sr_items res)"
proof -
  obtain w1 st where "complete_search el r st w1 = (w', Inr res)"
    using assms by (auto simp: search_def svc_bind_eq_Inr)
  then have "\<exists>fbs. fuse_branches r (col_successful st) = Inr (fbs, sr_items res)"
    by (auto simp: complete_search_def svc_bind_eq_Inr fail_search_def new_SearchResult_def result_simps
        split: if_splits list.splits prod.splits)
  then show ?thesis using that by blast
qed

text \<open>
  C9: the items of every search result: at most \<open>limit\<close> of them, ranked 1, 2, 3, ... without a gap, no logical
  identity twice, scores finite and never increasing; an item of a resource search is its resource and names no
  unit, an item of a unit search is its unit.
\<close>

theorem search_items_ranked:
  assumes "search port el (Typed r) w = (w', Inr res)" "1 \<le> req_limit r"
  shows "length (sr_items res) \<le> nat (req_limit r) \<and>
    map item_rank (sr_items res) = map int [1..<Suc (length (sr_items res))] \<and>
    distinct (map item_logical_id (sr_items res)) \<and>
    sorted_wrt (\<lambda>x y. item_score y \<le> item_score x) (sr_items res) \<and>
    (\<forall>it \<in> set (sr_items res). isfinite (item_score it) \<and>
      (if req_target r = TARGET_RESOURCE then item_resource_id it = item_logical_id it \<and> item_unit_id it = None
       else item_unit_id it = Some (item_logical_id it)))"
proof -
  obtain succ fbs where f: "fuse_branches r succ = Inr (fbs, sr_items res)" using assms(1) by (rule search_returns_fused)
  then obtain e fused where prep: "rmap (prepare_fusion_branch r) succ = Inr fbs"
    and rrf: "weighted_rrf fbs (req_rrf_k r) e = Inr fused"
    and items: "rmap (result_item r) (enumerate 1 (take (nat (req_limit r)) fused)) = Inr (sr_items res)"
    by (auto simp: fuse_branches_def rbind_eq_Inr)
  let ?sel = "take (nat (req_limit r)) fused"
  have len: "length (sr_items res) = length ?sel" using rmap_length [OF items] by simp
  have ranks: "map item_rank (sr_items res) = map (\<lambda>x. int (fst x)) (enumerate 1 ?sel)"
    by (rule rmap_map_fields [OF items]) (auto dest: result_item_fields(2))
  have ids: "map item_logical_id (sr_items res) = map (\<lambda>x. fd_logical_id (snd x)) (enumerate 1 ?sel)"
    by (rule rmap_map_fields [OF items]) (auto dest: result_item_fields(1))
  have scores: "map item_score (sr_items res) = map (\<lambda>x. fd_score (snd x)) (enumerate 1 ?sel)"
    by (rule rmap_map_fields [OF items]) (auto dest: result_item_fields(3))
  have "distinct (map fd_logical_id fused)" using weighted_rrf_ids [OF rrf] by blast
  then have dist: "distinct (map item_logical_id (sr_items res))" unfolding ids map_snd_of_enumerate by (simp add: take_map [symmetric] distinct_take)
  have fin: "isfinite (item_score it)" if it: "it \<in> set (sr_items res)" for it
    using items it by (rule rmap_set) (metis result_item_fields(7) prod.collapse)
  have "sorted (map fused_order ?sel)"
    using weighted_rrf_sorted [OF rrf] by (simp add: take_map [symmetric] sorted_wrt_take)
  then have "sorted_wrt (\<lambda>x y. fneg (fd_score x) \<le> fneg (fd_score y)) ?sel"
    unfolding sorted_map by (rule sorted_wrt_mono_rel [rotated]) (auto simp: fused_order_def less_eq_prod_def)
  then have neg: "sorted (map fneg (map item_score (sr_items res)))"
    unfolding scores map_snd_of_enumerate by (simp add: sorted_wrt_map)
  have "sorted_wrt (\<lambda>x y. item_score y \<le> item_score x) (sr_items res)"
  proof (rule sorted_wrt_mono_rel)
    show "sorted_wrt (\<lambda>x y. fneg (item_score x) \<le> fneg (item_score y)) (sr_items res)"
      using neg by (simp add: sorted_wrt_map)
  qed (use fin fneg_fneg_le in blast)
  moreover have "if req_target r = TARGET_RESOURCE then item_resource_id it = item_logical_id it \<and> item_unit_id it = None
       else item_unit_id it = Some (item_logical_id it)" if it: "it \<in> set (sr_items res)" for it
  proof -
    obtain n g where g: "(n, g) \<in> set (enumerate 1 ?sel)" "result_item r (n, g) = Inr it"
      using items it by (rule rmap_set) force
    then have "g \<in> set fused" using in_set_enumerateD [OF g(1)] by (auto dest: in_set_takeD nth_mem)
    then obtain c where "find (\<lambda>c. fc_logical_id c = fd_logical_id g) (concat (map fb_candidates fbs)) = Some c"
      and rep: "fd_representative g = fc_representative c" using weighted_rrf_origin [OF rrf] by blast
    then obtain fb where fb: "fb \<in> set fbs" "c \<in> set (fb_candidates fb)" "fc_logical_id c = fd_logical_id g"
      by (auto dest!: find_SomeD)
    obtain eb where "prepare_fusion_branch r eb = Inr fb" using prep fb(1) by (rule rmap_set)
    from prepare_fusion_branch_origin [OF this fb(2)] show ?thesis
      using result_item_fields [OF g(2)] rep fb(3) by (auto split: if_splits)
  qed
  moreover have "map item_rank (sr_items res) = map int [1..<Suc (length (sr_items res))]"
  proof -
    have "map (\<lambda>x. int (fst x)) (enumerate 1 ?sel) = map int (map fst (enumerate 1 ?sel))" by (simp del: map_fst_enumerate)
    then show ?thesis unfolding ranks len by (simp del: upt_Suc)
  qed
  ultimately show ?thesis using dist fin len by (simp del: upt_Suc)
qed

definition one_hit_request :: SearchRequest where
  "one_hit_request = example_request \<lparr>req_lexical_branches := [\<lparr>lb_branch_id = [98], lb_query = [113],
     lb_weight = Fin 61, lb_candidate_limit = 10, lb_scope_override = None\<rparr>]\<rparr>"

definition one_hit_port :: "nat SearchPort" where
  "one_hit_port = \<lparr>sp_search_lexical = (\<lambda>b sc n. (n + 1, Inr (PySeq [Typed (example_candidate [120] 1)]))),
     sp_search_vector = (\<lambda>b sc n. (n, Inl KeyError))\<rparr>"

lemma one_hit_port_ok: "port_errors_ok one_hit_port"
proof -
  have "port_search one_hit_port b sc s \<noteq> (s', Inl (BranchExecutionError c i))" for b sc s s' c i
    by (cases b) (simp_all add: one_hit_port_def)
  then show ?thesis by (simp add: port_errors_ok_def)
qed

lemma one_hit_request_wf: "wf_SearchRequest one_hit_request"
  using example_request_wf
  by (simp add: wf_SearchRequest_def example_request_def one_hit_request_def wf_LexicalBranch_def)

lemma mk_float_1: "mk_float 1 = Fin 1"
  using b64_round_of_int [of 1] by (simp add: mk_float_def)

lemma one_hit_score: "fdiv_int (Fin 61) 61 = Inr (Fin 1)"
  using float_of_int_exact [of 61] mk_float_1 by (simp add: fdiv_int_def)

lemma one_hit_branches:
  "run_branches one_hit_port one_hit_request (request_branches one_hit_request) 0 =
     (1, [(hd (request_branches one_hit_request), Inr [example_candidate [120] 1])])"
  by (simp add: request_branches_def one_hit_request_def example_request_def branch_outcome_def effective_scope_def
      one_hit_port_def validate_candidates_def example_candidate_def)

definition one_hit_fusion :: FusionBranch where
  "one_hit_fusion = \<lparr>fb_branch_id = [98], fb_weight = Fin 61, fb_candidates =
     [\<lparr>fc_logical_id = [120], fc_representative = example_candidate [120] 1,
       fc_evidence = [example_candidate [120] 1]\<rparr>]\<rparr>"

lemma one_hit_prepare:
  "prepare_fusion_branch one_hit_request \<lparr>eb_branch_id = [98], eb_weight = Fin 61,
     eb_candidates = [example_candidate [120] 1]\<rparr> = Inr one_hit_fusion"
proof -
  have "deduplicate_units [example_candidate [120] 1] = Inr (fb_candidates one_hit_fusion)"
    by (subst deduplicate_units_reference)
      (simp_all add: example_candidate_def one_hit_fusion_def blank_iff py_isspace_def)
  then show ?thesis
    by (simp add: prepare_fusion_branch_def new_FusionBranch_def one_hit_request_def example_request_def
      TARGET_UNIT_def TARGET_RESOURCE_def lit_def blank_iff py_isspace_def one_hit_fusion_def float_of_number_def)
qed

definition one_hit_result :: FusedCandidate where
  "one_hit_result = \<lparr>fd_logical_id = [120], fd_score = Fin 1, fd_first_seen = 0,
     fd_representative = example_candidate [120] 1, fd_evidence = [example_candidate [120] 1]\<rparr>"

lemma one_hit_rrf: "weighted_rrf [one_hit_fusion] 60 1 = Inr [one_hit_result]"
  using one_hit_score mk_float_1
  by (simp add: weighted_rrf_def one_hit_fusion_def rrf_init_def rrf_branch_def rrf_candidate_def rrf_contribute_def
      fused_candidate_def one_hit_result_def setdefault_def dict_get_def Let_def)

lemma one_hit_fused:
  "\<exists>fbs items. fuse_branches one_hit_request [\<lparr>eb_branch_id = [98], eb_weight = Fin 61,
     eb_candidates = [example_candidate [120] 1]\<rparr>] = Inr (fbs, items) \<and> map item_logical_id items = [[120]]"
proof -
  have t: "TARGET_UNIT \<noteq> TARGET_RESOURCE" by (simp add: TARGET_UNIT_def TARGET_RESOURCE_def lit_def)
  from t have "\<exists>it. result_item one_hit_request (1, one_hit_result) = Inr it \<and> item_logical_id it = [120]"
    by (simp add: result_item_def new_SearchResultItem_def one_hit_request_def example_request_def one_hit_result_def
      example_candidate_def require_non_empty_def blank_iff py_isspace_def utf8_encodable_def surrogate_def
      require_finite_number_def require_integer_def require_optional_non_empty_def
      require_utf8_encodable_def freeze_empty_mapping)
  moreover have "req_target one_hit_request = TARGET_UNIT" "req_rrf_k one_hit_request = 60" "req_limit one_hit_request = 5"
    by (simp_all add: one_hit_request_def example_request_def)
  ultimately show ?thesis using t by (auto simp: fuse_branches_def one_hit_prepare one_hit_rrf)
qed

lemma one_hit_abstract:
  "\<exists>res. abstract_search one_hit_port one_hit_request 0 = (1, Inr res) \<and> map item_logical_id (sr_items res) = [[120]]"
proof -
  have "out_success (hd (request_branches one_hit_request), Inr cs) =
      [\<lparr>eb_branch_id = [98], eb_weight = Fin 61, eb_candidates = cs\<rparr>]" for cs
    by (simp add: request_branches_def one_hit_request_def example_request_def)
  moreover obtain fbs items where "fuse_branches one_hit_request [\<lparr>eb_branch_id = [98], eb_weight = Fin 61,
     eb_candidates = [example_candidate [120] 1]\<rparr>] = Inr (fbs, items)" "map item_logical_id items = [[120]]"
    using one_hit_fused by auto
  ultimately show ?thesis by (simp add: abstract_search_def one_hit_branches)
qed

theorem search_items_ranked_witness:
  "\<exists>w' res. search one_hit_port (\<lambda>_ _. Fin 1) (Typed one_hit_request) (0, []) = (w', Inr res) \<and>
     length (sr_items res) = 1 \<and> map item_rank (sr_items res) = [1] \<and>
     item_unit_id (hd (sr_items res)) = Some [120]"
proof -
  obtain res evs where res: "search one_hit_port (\<lambda>_ _. Fin 1) (Typed one_hit_request) (0, []) = ((1, evs), Inr res)"
    and ids: "map item_logical_id (sr_items res) = [[120]]"
    using search_abstract [OF one_hit_request_wf one_hit_port_ok, of "\<lambda>_ _. Fin 1" 0 "[]"] one_hit_abstract by auto
  have "1 \<le> req_limit one_hit_request" by (simp add: one_hit_request_def example_request_def)
  from search_items_ranked [OF res this] ids have "length (sr_items res) = 1 \<and> map item_rank (sr_items res) = [1] \<and>
      item_unit_id (hd (sr_items res)) = Some [120]"
    by (auto simp: one_hit_request_def example_request_def TARGET_UNIT_def TARGET_RESOURCE_def lit_def)
  then show ?thesis using res by (intro exI [of _ "(1, evs)"] exI [of _ res]) simp
qed

end
