(* ===== verification/Core_Discovery.thy ===== *)
theory Core_Discovery
  imports Core_Search_Service
begin

text \<open>
  \<open>application/retrieval.py\<close>, \<open>ResourceDiscoveryService\<close>: exact duplicates by content hash and similar
  resources by the stored vector of a whole-resource unit. The catalog is a record of its read operations on an
  abstract state, which it shares with the vector search port. The \<open>while True\<close> loop of \<open>similar\<close>, which
  doubles the candidate limit until enough candidates of other resources are found, may run forever, so it is a
  partial function: \<open>None\<close> is non-termination.
\<close>

section \<open>Ports\<close>

record 's ReadPort =
  rp_read_resource :: "pystr \<Rightarrow> 's \<Rightarrow> 's \<times> ResourceRecord option result"
  rp_read_unit :: "pystr \<Rightarrow> 's \<Rightarrow> 's \<times> SearchUnitRecord option result"
  rp_read_vector :: "pystr \<Rightarrow> pystr \<Rightarrow> 's \<Rightarrow> 's \<times> VectorRecord option result"
  rp_find_by_content_hash :: "pystr \<Rightarrow> SearchScope \<Rightarrow> 's \<Rightarrow> 's \<times> ResourceRecord list result"

definition CATALOG_CATEGORIES :: "ErrorCategory list" where
  "CATALOG_CATEGORIES = [CATALOG_ERROR, ADAPTER_TIMEOUT]"

definition new_CatalogExecutionError :: "ErrorCategory \<Rightarrow> exn result" where
  "new_CatalogExecutionError category =
     (if category \<notin> set CATALOG_CATEGORIES then Inl (ValueError ''category is not valid for catalog execution'')
      else Inr (CatalogExecutionError category))"

definition CATALOG_ERROR_TO_DEGRADATION :: "(ErrorCategory, DegradationCategory) dict" where
  "CATALOG_ERROR_TO_DEGRADATION = [(CATALOG_ERROR, DEG_ADAPTER_ERROR), (ADAPTER_TIMEOUT, DEG_ADAPTER_TIMEOUT)]"

definition SIMILARITY_BRANCH :: pystr where "SIMILARITY_BRANCH = lit ''similarity''"

definition UNIT_WHOLE_RESOURCE :: pystr where "UNIT_WHOLE_RESOURCE = lit ''whole_resource''"

section \<open>Duplicates\<close>

text \<open>The \<open>except\<close> clauses of \<open>find_duplicates\<close>.\<close>

fun catalog_failure :: "exn \<Rightarrow> exn" where
  "catalog_failure (CatalogExecutionError c) = CatalogExecutionError c"
| "catalog_failure TimeoutError = CatalogExecutionError ADAPTER_TIMEOUT"
| "catalog_failure _ = CatalogExecutionError CATALOG_ERROR"

definition read_matches ::
  "'s ReadPort \<Rightarrow> pystr \<Rightarrow> SearchScope \<Rightarrow> 's \<Rightarrow> 's \<times> ResourceRecord list option result" where
  "read_matches catalog resource_id scope s =
     (case rp_read_resource catalog resource_id s of
        (s1, Inl e) \<Rightarrow> (s1, Inl (catalog_failure e))
      | (s1, Inr None) \<Rightarrow> (s1, Inr None)
      | (s1, Inr (Some resource)) \<Rightarrow>
          (case res_content_hash resource of
             None \<Rightarrow> (s1, Inr None)
           | Some h \<Rightarrow>
               (case rp_find_by_content_hash catalog h scope s1 of
                  (s2, Inl e) \<Rightarrow> (s2, Inl (catalog_failure e))
                | (s2, Inr ms) \<Rightarrow> (s2, Inr (Some ms)))))"

definition find_duplicates ::
  "'s ReadPort \<Rightarrow> pyobj \<Rightarrow> SearchScope anyobj \<Rightarrow> pyobj \<Rightarrow> 's \<Rightarrow> 's \<times> ResourceRecord list result" where
  "find_duplicates catalog resource_id scope limit s =
     (case resource_id of
        PStr rid \<Rightarrow>
          if blank rid then (s, Inl (ValueError ''resource_id must be a non-empty string''))
          else (case scope of
            Untyped \<Rightarrow> (s, Inl (ValueError ''scope must be a SearchScope''))
          | Typed sc \<Rightarrow>
              (case limit of
                 PInt n \<Rightarrow>
                   if n < 1 then (s, Inl (ValueError ''limit must be a positive integer''))
                   else (case read_matches catalog rid sc s of
                       (s', Inl e) \<Rightarrow> (s', Inl e)
                     | (s', Inr None) \<Rightarrow> (s', Inr [])
                     | (s', Inr (Some matches)) \<Rightarrow>
                         (s', Inr (take (nat n) (sort_key res_id (filter (\<lambda>r. res_id r \<noteq> rid) matches)))))
               | _ \<Rightarrow> (s, Inl (ValueError ''limit must be a positive integer''))))
      | _ \<Rightarrow> (s, Inl (ValueError ''resource_id must be a non-empty string'')))"

section \<open>Similar resources\<close>

definition whole_resource_scope :: "SearchScope \<Rightarrow> SearchScope option result" where
  "whole_resource_scope scope =
     (if scope_unit_kinds scope \<noteq> [] \<and> UNIT_WHOLE_RESOURCE \<notin> set (scope_unit_kinds scope) then Inr None
      else rbind (new_SearchScope (str_tuple (scope_resource_kinds scope)) (str_tuple (scope_media_types scope))
          (str_tuple (scope_source_namespaces scope)) (str_tuple (scope_representation_kinds scope))
          (str_tuple (scope_modalities scope)) (str_tuple [UNIT_WHOLE_RESOURCE])
          (PySeq (map Typed (scope_facets_any scope))) (PySeq (map Typed (scope_facets_all scope)))
          (PySeq (map Typed (scope_facets_none scope)))) (\<lambda>s. Inr (Some s)))"

definition emit_similarity ::
  "SimilarityRequest \<Rightarrow> string \<Rightarrow> (nat \<Rightarrow> (pystr, evval) dict) \<Rightarrow> ('s, unit) svc" where
  "emit_similarity request name flds =
     svc_bind (svc_lift (safe_fingerprint (simreq_query_unit_id request))) (\<lambda>fu.
     svc_bind (svc_lift (safe_fingerprint (simreq_space_id request))) (\<lambda>fs.
     svc_emit (lit name) (\<lambda>n. [(lit ''branch_fingerprint'', EvFingerprint fu),
       (lit ''space_fingerprint'', EvFingerprint fs)] @ flds n)))"

definition completed ::
  "clock \<Rightarrow> SimilarityRequest \<Rightarrow> SearchResultItem list \<Rightarrow> Degradation list \<Rightarrow> ('s, SimilarityResult) svc" where
  "completed el request items degradations =
     svc_bind (emit_similarity request ''core.similarity.completed'' (\<lambda>n.
       [(lit ''status'', EvStatus (if degradations \<noteq> [] then DEGRADED else COMPLETED)),
        (lit ''result_count'', EvInt (int (length items))),
        (lit ''degraded_branch_count'', EvInt (int (length degradations))),
        (lit ''elapsed_ms'', EvFloat (el ''elapsed_ms'' n))])) (\<lambda>_.
     svc_lift (new_SimilarityResult (PStr (simreq_query_unit_id request)) (PStr (simreq_space_id request))
       (PStr (simreq_similarity_basis request)) (PySeq (map Typed items)) (PySeq (map Typed degradations))))"

text \<open>A result with one degradation of the similarity branch.\<close>

definition degraded :: "clock \<Rightarrow> SimilarityRequest \<Rightarrow> DegradationCategory \<Rightarrow> ('s, SimilarityResult) svc" where
  "degraded el request category =
     svc_bind (svc_lift (new_Degradation (PStr SIMILARITY_BRANCH) (Typed category))) (\<lambda>d.
     completed el request [] [d])"

definition unavailable :: "clock \<Rightarrow> SimilarityRequest \<Rightarrow> ('s, SimilarityResult) svc" where
  "unavailable el request = degraded el request DEG_BRANCH_UNAVAILABLE"

text \<open>Lines 133 to 158 and 184 to 204: the \<open>except\<close> clauses around the catalog and around the search.\<close>

definition catalog_handler :: "clock \<Rightarrow> SimilarityRequest \<Rightarrow> exn \<Rightarrow> ('s, SimilarityResult) svc" where
  "catalog_handler el request e =
     (case e of
        CatalogExecutionError c \<Rightarrow>
          (case map_of CATALOG_ERROR_TO_DEGRADATION c of
             None \<Rightarrow> svc_raise KeyError
           | Some d \<Rightarrow> degraded el request d)
      | TimeoutError \<Rightarrow> degraded el request DEG_ADAPTER_TIMEOUT
      | _ \<Rightarrow> degraded el request DEG_ADAPTER_ERROR)"

definition search_handler :: "clock \<Rightarrow> SimilarityRequest \<Rightarrow> exn \<Rightarrow> ('s, SimilarityResult) svc" where
  "search_handler el request e =
     (case e of
        BranchExecutionError c i \<Rightarrow>
          svc_bind (svc_lift (error_to_degradation c)) (degraded el request)
      | TimeoutError \<Rightarrow> degraded el request DEG_ADAPTER_TIMEOUT
      | _ \<Rightarrow> degraded el request DEG_ADAPTER_ERROR)"

text \<open>\<open>return\<close> of a result before the search.\<close>

definition early_result ::
  "('s, SimilarityResult) svc \<Rightarrow> ('s, SimilarityResult + SearchUnitRecord \<times> VectorRecord) svc" where
  "early_result m = svc_bind m (\<lambda>r. svc_return (Inl r))"

text \<open>Lines 126 to 158: the query unit and its vector, or an early result.\<close>

definition query_vector ::
  "'s ReadPort \<Rightarrow> clock \<Rightarrow> SimilarityRequest \<Rightarrow> ('s, SimilarityResult + SearchUnitRecord \<times> VectorRecord) svc" where
  "query_vector catalog el request =
     svc_try
       (svc_bind (svc_port (rp_read_unit catalog (simreq_query_unit_id request))) (\<lambda>u.
        case u of
          None \<Rightarrow> early_result (unavailable el request)
        | Some qu \<Rightarrow>
            if unit_kind qu \<noteq> UNIT_WHOLE_RESOURCE
            then early_result (unavailable el request)
            else
              svc_bind (svc_port (rp_read_vector catalog (simreq_query_unit_id request) (simreq_space_id request))) (\<lambda>v.
              case v of
                None \<Rightarrow> early_result (unavailable el request)
              | Some vec \<Rightarrow> svc_return (Inr (qu, vec)))))
       (\<lambda>e. early_result (catalog_handler el request e))"

definition similarity_branch :: "SimilarityRequest \<Rightarrow> pyfloat list \<Rightarrow> int \<Rightarrow> VectorBranch result" where
  "similarity_branch request vector candidate_limit =
     new_VectorBranch (PStr SIMILARITY_BRANCH) (PStr (simreq_space_id request)) (PTuple (map PFloat vector))
       (PFloat (Fin 1)) (PInt candidate_limit) PNone None"

text \<open>Lines 175 to 180.\<close>

definition select_candidates ::
  "SimilarityRequest \<Rightarrow> pystr \<Rightarrow> RankedCandidate list \<Rightarrow> RankedCandidate list" where
  "select_candidates request resource_id candidates =
     take (nat (simreq_limit request))
       (filter (\<lambda>c. \<not> simreq_exclude_same_resource request \<or> cand_resource_id c \<noteq> resource_id) candidates)"

text \<open>One pass of the loop, lines 167 to 180: the validated candidates or the exception.\<close>

definition similarity_pass ::
  "'s SearchPort \<Rightarrow> SimilarityRequest \<Rightarrow> pyfloat list \<Rightarrow> SearchScope \<Rightarrow> int \<Rightarrow> 's \<Rightarrow> 's \<times> RankedCandidate list result" where
  "similarity_pass port request vector scope candidate_limit s =
     (case similarity_branch request vector candidate_limit of
        Inl e \<Rightarrow> (s, Inl e)
      | Inr branch \<Rightarrow>
          (case sp_search_vector port branch scope s of
             (s', Inl e) \<Rightarrow> (s', Inl e)
           | (s', Inr raw) \<Rightarrow> (s', validate_candidates (Vector branch) raw)))"

text \<open>Lines 166 to 183.\<close>

partial_function (option) similar_loop ::
  "'s SearchPort \<Rightarrow> SimilarityRequest \<Rightarrow> pystr \<Rightarrow> pyfloat list \<Rightarrow> SearchScope \<Rightarrow> int \<Rightarrow> 's \<Rightarrow>
   ('s \<times> RankedCandidate list result) option" where
  "similar_loop port request resource_id vector scope candidate_limit s =
     (case similarity_pass port request vector scope candidate_limit s of
        (s', Inl e) \<Rightarrow> Some (s', Inl e)
      | (s', Inr candidates) \<Rightarrow>
          if int (length (select_candidates request resource_id candidates)) = simreq_limit request
             \<or> int (length candidates) < candidate_limit
          then Some (s', Inr (select_candidates request resource_id candidates))
          else similar_loop port request resource_id vector scope (candidate_limit * 2) s')"

definition similarity_item :: "nat \<times> RankedCandidate \<Rightarrow> SearchResultItem result" where
  "similarity_item =
     (\<lambda>(rank, candidate).
        new_SearchResultItem (PStr (cand_resource_id candidate)) (PStr (cand_resource_id candidate))
          (PStr (cand_unit_id candidate)) (PFloat (cand_raw_score candidate)) (PInt (int rank))
          (PySeq [Typed candidate]) (PMap []) (Typed ADAPTER_RAW) (Typed RESULT))"

definition first_limit :: "SimilarityRequest \<Rightarrow> int" where
  "first_limit request = simreq_limit request + (if simreq_exclude_same_resource request then 1 else 0)"

text \<open>Lines 160 to 220: from the stored vector to the result.\<close>

definition similar_search ::
  "'s SearchPort \<Rightarrow> clock \<Rightarrow> SimilarityRequest \<Rightarrow> SearchUnitRecord \<Rightarrow> VectorRecord \<Rightarrow> 's world \<Rightarrow>
   ('s world \<times> SimilarityResult result) option" where
  "similar_search port el request qu vec = (\<lambda>(s, tr).
     case whole_resource_scope (simreq_scope request) of
       Inl e \<Rightarrow> Some ((s, tr), Inl e)
     | Inr None \<Rightarrow> Some (completed el request [] [] (s, tr))
     | Inr (Some scope) \<Rightarrow>
         (case similar_loop port request (unit_resource_id qu) (vec_vector vec) scope (first_limit request) s of
            None \<Rightarrow> None
          | Some (s', Inl e) \<Rightarrow> Some (search_handler el request e (s', tr))
          | Some (s', Inr selected) \<Rightarrow>
              Some (svc_bind (svc_lift (rmap similarity_item (enumerate 1 selected))) (\<lambda>items.
                completed el request items []) (s', tr))))"

definition similar ::
  "'s ReadPort \<Rightarrow> 's SearchPort \<Rightarrow> clock \<Rightarrow> SimilarityRequest anyobj \<Rightarrow> 's world \<Rightarrow>
   ('s world \<times> SimilarityResult result) option" where
  "similar catalog port el req w =
     (case req of
        Untyped \<Rightarrow> Some (w, Inl (ValueError ''request must be a SimilarityRequest''))
      | Typed request \<Rightarrow>
          (case svc_bind (emit_similarity request ''core.similarity.started'' (\<lambda>n.
               [(lit ''status'', EvStatus STARTED), (lit ''requested_limit'', EvInt (simreq_limit request)),
                (lit ''scope_filter_count'', EvInt (int (scope_filter_count (simreq_scope request))))])) (\<lambda>_.
             query_vector catalog el request) w of
             (w', Inl e) \<Rightarrow> Some (w', Inl e)
           | (w', Inr (Inl res)) \<Rightarrow> Some (w', Inr res)
           | (w', Inr (Inr (qu, vec))) \<Rightarrow> similar_search port el request qu vec w'))"

section \<open>The loop over a fixed ranking\<close>

text \<open>A prefix that already holds enough admitted candidates holds the first of all of them.\<close>

lemma take_filter_prefix:
  assumes "length (take k (filter P (take n xs))) = k"
  shows "take k (filter P (take n xs)) = take k (filter P xs)"
proof -
  have "filter P xs = filter P (take n xs) @ filter P (drop n xs)"
    by (metis append_take_drop_id filter_append)
  then show ?thesis using assms by simp
qed

lemma select_candidates_prefix:
  assumes "int (length (select_candidates r rid (take n all))) = simreq_limit r"
  shows "select_candidates r rid (take n all) = select_candidates r rid all"
  unfolding select_candidates_def by (rule take_filter_prefix) (use assms in \<open>simp add: select_candidates_def\<close>)

lemma valid_candidates_take:
  assumes "valid_candidates b cs"
  shows "valid_candidates b (take n cs)"
proof -
  have "take n (map int [1..<Suc m]) = map int [1..<Suc (min m n)]" for m
    by (rule nth_equalityI) (auto simp del: upt_Suc)
  then show ?thesis using assms
    by (auto simp: valid_candidates_def take_map [symmetric] distinct_take simp del: upt_Suc dest: in_set_takeD)
qed

lemma similar_loop_ranking:
  assumes "\<And>n. 1 \<le> n \<Longrightarrow> similarity_pass port r vector scope n s = (s, Inr (take (nat n) all))" "1 \<le> n"
  shows "similar_loop port r rid vector scope n s = Some (s, Inr (select_candidates r rid all))"
  using assms(2)
proof (induction "length all + 1 - nat n" arbitrary: n rule: less_induct)
  case less
  let ?sel = "select_candidates r rid (take (nat n) all)"
  show ?case
  proof (cases "int (length ?sel) = simreq_limit r \<or> int (length (take (nat n) all)) < n")
    case True
    then have "?sel = select_candidates r rid all"
    proof
      assume "int (length (take (nat n) all)) < n"
      then have "length all < nat n" by (simp split: if_splits)
      then show ?thesis by simp
    qed (rule select_candidates_prefix)
    then show ?thesis
      using True by (subst similar_loop.simps) (simp only: assms(1) [OF less.prems] prod.case sum.case if_True)
  next
    case False
    then have "nat n \<le> length all" using less.prems by (simp split: if_splits) linarith
    then have dec: "length all + 1 - nat (n * 2) < length all + 1 - nat n" using less.prems by linarith
    have "1 \<le> n * 2" using less.prems by linarith
    note IH = less.hyps [OF dec this]
    show ?thesis
      using False by (subst similar_loop.simps) (simp only: assms(1) [OF less.prems] prod.case sum.case if_False IH)
  qed
qed

text \<open>Whatever the port answers, a bound on the length of its lists makes the loop end.\<close>

lemma similar_loop_total:
  assumes "\<And>n s s' cs. similarity_pass port r vector scope n s = (s', Inr cs) \<Longrightarrow> length cs \<le> N" "1 \<le> n"
  shows "\<exists>out. similar_loop port r rid vector scope n s = Some out"
  using assms(2)
proof (induction "N + 1 - nat n" arbitrary: n s rule: less_induct)
  case less
  obtain s' res where pass: "similarity_pass port r vector scope n s = (s', res)" by (metis surj_pair)
  show ?case
  proof (cases res)
    case (Inr cs)
    show ?thesis
    proof (cases "int (length (select_candidates r rid cs)) = simreq_limit r \<or> int (length cs) < n")
      case False
      then have "nat n \<le> N" using assms(1) [OF pass [unfolded Inr]] by linarith
      then have dec: "N + 1 - nat (n * 2) < N + 1 - nat n" using less.prems by linarith
      have "1 \<le> n * 2" using less.prems by linarith
      from less.hyps [OF dec this, of s'] show ?thesis
        using False by (subst similar_loop.simps) (simp only: pass Inr prod.case sum.case if_False)
    qed (subst similar_loop.simps, simp add: pass Inr)
  qed (subst similar_loop.simps, simp add: pass)
qed

section \<open>The service\<close>

definition wf_SimilarityRequest :: "SimilarityRequest \<Rightarrow> bool" where
  "wf_SimilarityRequest r \<longleftrightarrow>
     wf_name (simreq_query_unit_id r) \<and> wf_name (simreq_space_id r) \<and> wf_name (simreq_similarity_basis r) \<and>
     wf_override (simreq_scope r) \<and> 1 \<le> simreq_limit r"

lemma new_SimilarityRequest_wf:
  assumes "new_SimilarityRequest a b c sc l e = Inr r" "\<And>s. sc = Typed s \<Longrightarrow> wf_override s"
  shows "wf_SimilarityRequest r"
  using assms by (auto simp: new_SimilarityRequest_def result_simps wf_SimilarityRequest_def wf_name_def)

definition similarity_result :: "SimilarityRequest \<Rightarrow> SearchResultItem list \<Rightarrow> Degradation list \<Rightarrow> SimilarityResult" where
  "similarity_result r items degs =
     \<lparr>simres_query_unit_id = simreq_query_unit_id r, simres_space_id = simreq_space_id r,
      simres_similarity_basis = simreq_similarity_basis r, simres_items = items, simres_degradations = degs\<rparr>"

lemma similarity_result_inject [simp]:
  "similarity_result r items degs = similarity_result r items' degs' \<longleftrightarrow> items = items' \<and> degs = degs'"
  by (simp add: similarity_result_def)

lemma wf_name_encodable: "wf_name s \<Longrightarrow> utf8_encodable s"
  by (simp add: wf_name_def)

lemma emit_similarity_ok:
  assumes "wf_SimilarityRequest r" "lit name \<in> set CORE_EVENT_NAMES" "ok_fields (flds (length tr))"
  shows "\<exists>ev. emit_similarity r name flds (s, tr) = ((s, tr @ [ev]), Inr ())"
  using assms by (auto simp: emit_similarity_def wf_SimilarityRequest_def safe_fingerprint_ok wf_name_encodable svc_emit_ok
    ok_fields_def SAFE_FIELD_NAMES_def ok_value_def)

lemma completed_ok:
  assumes "wf_SimilarityRequest r" "isfinite (el ''elapsed_ms'' (length tr))"
  shows "\<exists>ev. completed el r items degs (s, tr) = ((s, tr @ [ev]), Inr (similarity_result r items degs))"
proof -
  let ?flds = "\<lambda>n. [(lit ''status'', EvStatus (if degs \<noteq> [] then DEGRADED else COMPLETED)),
        (lit ''result_count'', EvInt (int (length items))), (lit ''degraded_branch_count'', EvInt (int (length degs))),
        (lit ''elapsed_ms'', EvFloat (el ''elapsed_ms'' n))]"
  have "\<exists>ev. emit_similarity r ''core.similarity.completed'' ?flds (s, tr) = ((s, tr @ [ev]), Inr ())"
    using assms by (intro emit_similarity_ok) (simp_all add: CORE_EVENT_NAMES_def ok_fields_def SAFE_FIELD_NAMES_def ok_value_def)
  moreover have "new_SimilarityResult (PStr (simreq_query_unit_id r)) (PStr (simreq_space_id r))
       (PStr (simreq_similarity_basis r)) (PySeq (map Typed items)) (PySeq (map Typed degs)) = Inr (similarity_result r items degs)"
    using assms(1) by (simp add: new_SimilarityResult_def wf_SimilarityRequest_def name_again similarity_result_def)
  ultimately show ?thesis by (auto simp: completed_def)
qed

definition similarity_degradation :: "DegradationCategory \<Rightarrow> Degradation" where
  "similarity_degradation d = \<lparr>deg_branch_id = SIMILARITY_BRANCH, deg_category = d\<rparr>"

lemma similarity_branch_name: "wf_name SIMILARITY_BRANCH"
  by (simp add: wf_name_def SIMILARITY_BRANCH_def lit_def blank_iff py_isspace_def utf8_encodable_def surrogate_def)

lemma degraded_ok:
  assumes "wf_SimilarityRequest r" "isfinite (el ''elapsed_ms'' (length tr))"
  shows "\<exists>ev. degraded el r d (s, tr) = ((s, tr @ [ev]), Inr (similarity_result r [] [similarity_degradation d]))"
  using completed_ok [where el = el and tr = tr, OF assms, where items = "[]" and degs = "[similarity_degradation d]" and s = s]
  by (simp add: degraded_def new_Degradation_def name_again [OF similarity_branch_name] similarity_degradation_def)

text \<open>The class invariants of the exceptions of the two ports.\<close>

definition catalog_errors_ok :: "'s ReadPort \<Rightarrow> bool" where
  "catalog_errors_ok catalog \<longleftrightarrow>
     (\<forall>u s s' c. rp_read_unit catalog u s = (s', Inl (CatalogExecutionError c)) \<longrightarrow> c \<in> set CATALOG_CATEGORIES) \<and>
     (\<forall>u v s s' c. rp_read_vector catalog u v s = (s', Inl (CatalogExecutionError c)) \<longrightarrow> c \<in> set CATALOG_CATEGORIES)"

text \<open>The category a failure of the catalog or of the adapter is reported under.\<close>

definition catalog_degradation :: "exn \<Rightarrow> DegradationCategory" where
  "catalog_degradation e =
     (if e = TimeoutError \<or> e = CatalogExecutionError ADAPTER_TIMEOUT then DEG_ADAPTER_TIMEOUT else DEG_ADAPTER_ERROR)"

definition search_degradation :: "exn \<Rightarrow> DegradationCategory" where
  "search_degradation e =
     (case e of
        BranchExecutionError c i \<Rightarrow>
          if c = BRANCH_UNAVAILABLE then DEG_BRANCH_UNAVAILABLE
          else if c = INCOMPATIBLE_VECTOR_SPACE then DEG_INCOMPATIBLE_VECTOR_SPACE
          else if c = ADAPTER_TIMEOUT then DEG_ADAPTER_TIMEOUT else DEG_ADAPTER_ERROR
      | TimeoutError \<Rightarrow> DEG_ADAPTER_TIMEOUT
      | _ \<Rightarrow> DEG_ADAPTER_ERROR)"

lemma catalog_handler_ok:
  assumes "wf_SimilarityRequest r" "isfinite (el ''elapsed_ms'' (length tr))"
    "\<And>c. e = CatalogExecutionError c \<Longrightarrow> c \<in> set CATALOG_CATEGORIES"
  shows "\<exists>ev. catalog_handler el r e (s, tr) =
    ((s, tr @ [ev]), Inr (similarity_result r [] [similarity_degradation (catalog_degradation e)]))"
proof -
  have "catalog_handler el r e = degraded el r (catalog_degradation e)"
    using assms(3)
    by (cases e) (auto simp: catalog_handler_def CATALOG_CATEGORIES_def CATALOG_ERROR_TO_DEGRADATION_def catalog_degradation_def)
  then show ?thesis using degraded_ok [where el = el and tr = tr, OF assms(1,2)] by metis
qed

lemma search_handler_ok:
  assumes "wf_SimilarityRequest r" "isfinite (el ''elapsed_ms'' (length tr))"
    "\<And>c i. e = BranchExecutionError c i \<Longrightarrow> c \<in> set BRANCH_CATEGORIES"
  shows "\<exists>ev. search_handler el r e (s, tr) =
    ((s, tr @ [ev]), Inr (similarity_result r [] [similarity_degradation (search_degradation e)]))"
proof -
  have "search_handler el r e (s, tr) = degraded el r (search_degradation e) (s, tr)"
    using assms(3)
    by (cases e) (auto simp: search_handler_def search_degradation_def error_to_degradation_def ERROR_TO_DEGRADATION_def
        BRANCH_CATEGORIES_def svc_bind_def)
  then show ?thesis using degraded_ok [where el = el and tr = tr, OF assms(1,2)] by metis
qed

lemma unavailable_step:
  assumes "wf_SimilarityRequest r" "isfinite (el ''elapsed_ms'' (length tr))"
  shows "\<exists>ev. early_result (unavailable el r) (s, tr) =
    ((s, tr @ [ev]), Inr (Inl (similarity_result r [] [similarity_degradation DEG_BRANCH_UNAVAILABLE])))"
  using degraded_ok [where el = el and tr = tr and s = s and d = DEG_BRANCH_UNAVAILABLE, OF assms]
  by (auto simp: unavailable_def early_result_def svc_bind_def svc_return_def)

section \<open>What a query should answer\<close>

text \<open>
  The calls of the adapter, as a relation of the store before and after them: a call that cannot be made, that raises
  or whose candidates are refused ends the query with that error; one that answers with enough admitted candidates, or
  with fewer than it was asked for, ends it with them; any other is followed by a call for twice as many.
\<close>

inductive adapter_run ::
  "'s SearchPort \<Rightarrow> SimilarityRequest \<Rightarrow> pystr \<Rightarrow> pyfloat list \<Rightarrow> SearchScope \<Rightarrow> int \<Rightarrow> 's \<Rightarrow> 's \<Rightarrow>
   RankedCandidate list result \<Rightarrow> bool"
  for port r rid v sc
where
  no_branch: "similarity_branch r v n = Inl e \<Longrightarrow> adapter_run port r rid v sc n s s (Inl e)"
| raises: "similarity_branch r v n = Inr b \<Longrightarrow> sp_search_vector port b sc s = (s', Inl e) \<Longrightarrow>
    adapter_run port r rid v sc n s s' (Inl e)"
| refused: "similarity_branch r v n = Inr b \<Longrightarrow> sp_search_vector port b sc s = (s', Inr raw) \<Longrightarrow>
    validate_candidates (Vector b) raw = Inl e \<Longrightarrow> adapter_run port r rid v sc n s s' (Inl e)"
| answers: "similarity_branch r v n = Inr b \<Longrightarrow> sp_search_vector port b sc s = (s', Inr raw) \<Longrightarrow>
    validate_candidates (Vector b) raw = Inr cs \<Longrightarrow>
    int (length (select_candidates r rid cs)) = simreq_limit r \<or> int (length cs) < n \<Longrightarrow>
    adapter_run port r rid v sc n s s' (Inr (select_candidates r rid cs))"
| asks_more: "similarity_branch r v n = Inr b \<Longrightarrow> sp_search_vector port b sc s = (s', Inr raw) \<Longrightarrow>
    validate_candidates (Vector b) raw = Inr cs \<Longrightarrow>
    \<not> (int (length (select_candidates r rid cs)) = simreq_limit r \<or> int (length cs) < n) \<Longrightarrow>
    adapter_run port r rid v sc (n * 2) s' s'' out \<Longrightarrow> adapter_run port r rid v sc n s s'' out"

inductive_cases adapter_run_elim: "adapter_run port r rid v sc n s s' out"

lemma adapter_run_deterministic:
  "adapter_run port r rid v sc n s s1 out1 \<Longrightarrow> adapter_run port r rid v sc n s s2 out2 \<Longrightarrow> s2 = s1 \<and> out2 = out1"
proof (induction arbitrary: s2 out2 rule: adapter_run.induct)
  case (asks_more n b s s' raw cs s'' out)
  from asks_more.prems asks_more.hyps(1-4) have "adapter_run port r rid v sc (n * 2) s' s2 out2"
    by (auto elim: adapter_run_elim)
  then show ?case by (rule asks_more.IH)
qed (auto elim: adapter_run_elim)

text \<open>
  The outcome of a query: the first thing that fails or is missing (the query unit, its vector, an answer of the
  adapter), as the category of its degradation, or the candidates it selects.
\<close>

inductive similarity_outcome ::
  "'s ReadPort \<Rightarrow> 's SearchPort \<Rightarrow> SimilarityRequest \<Rightarrow> 's \<Rightarrow> 's \<Rightarrow> DegradationCategory + RankedCandidate list \<Rightarrow> bool"
  for catalog port r s
where
  unit_fails: "rp_read_unit catalog (simreq_query_unit_id r) s = (s1, Inl e) \<Longrightarrow>
    similarity_outcome catalog port r s s1 (Inl (catalog_degradation e))"
| no_unit: "rp_read_unit catalog (simreq_query_unit_id r) s = (s1, Inr None) \<Longrightarrow>
    similarity_outcome catalog port r s s1 (Inl DEG_BRANCH_UNAVAILABLE)"
| other_unit: "rp_read_unit catalog (simreq_query_unit_id r) s = (s1, Inr (Some qu)) \<Longrightarrow>
    unit_kind qu \<noteq> UNIT_WHOLE_RESOURCE \<Longrightarrow> similarity_outcome catalog port r s s1 (Inl DEG_BRANCH_UNAVAILABLE)"
| vector_fails: "rp_read_unit catalog (simreq_query_unit_id r) s = (s1, Inr (Some qu)) \<Longrightarrow>
    unit_kind qu = UNIT_WHOLE_RESOURCE \<Longrightarrow>
    rp_read_vector catalog (simreq_query_unit_id r) (simreq_space_id r) s1 = (s2, Inl e) \<Longrightarrow>
    similarity_outcome catalog port r s s2 (Inl (catalog_degradation e))"
| no_vector: "rp_read_unit catalog (simreq_query_unit_id r) s = (s1, Inr (Some qu)) \<Longrightarrow>
    unit_kind qu = UNIT_WHOLE_RESOURCE \<Longrightarrow>
    rp_read_vector catalog (simreq_query_unit_id r) (simreq_space_id r) s1 = (s2, Inr None) \<Longrightarrow>
    similarity_outcome catalog port r s s2 (Inl DEG_BRANCH_UNAVAILABLE)"
| empty_scope: "rp_read_unit catalog (simreq_query_unit_id r) s = (s1, Inr (Some qu)) \<Longrightarrow>
    unit_kind qu = UNIT_WHOLE_RESOURCE \<Longrightarrow>
    rp_read_vector catalog (simreq_query_unit_id r) (simreq_space_id r) s1 = (s2, Inr (Some vec)) \<Longrightarrow>
    whole_resource_scope (simreq_scope r) = Inr None \<Longrightarrow> similarity_outcome catalog port r s s2 (Inr [])"
| adapter_fails: "rp_read_unit catalog (simreq_query_unit_id r) s = (s1, Inr (Some qu)) \<Longrightarrow>
    unit_kind qu = UNIT_WHOLE_RESOURCE \<Longrightarrow>
    rp_read_vector catalog (simreq_query_unit_id r) (simreq_space_id r) s1 = (s2, Inr (Some vec)) \<Longrightarrow>
    whole_resource_scope (simreq_scope r) = Inr (Some sc) \<Longrightarrow>
    adapter_run port r (unit_resource_id qu) (vec_vector vec) sc (first_limit r) s2 s3 (Inl e) \<Longrightarrow>
    similarity_outcome catalog port r s s3 (Inl (search_degradation e))"
| adapter_answers: "rp_read_unit catalog (simreq_query_unit_id r) s = (s1, Inr (Some qu)) \<Longrightarrow>
    unit_kind qu = UNIT_WHOLE_RESOURCE \<Longrightarrow>
    rp_read_vector catalog (simreq_query_unit_id r) (simreq_space_id r) s1 = (s2, Inr (Some vec)) \<Longrightarrow>
    whole_resource_scope (simreq_scope r) = Inr (Some sc) \<Longrightarrow>
    adapter_run port r (unit_resource_id qu) (vec_vector vec) sc (first_limit r) s2 s3 (Inr cs) \<Longrightarrow>
    similarity_outcome catalog port r s s3 (Inr cs)"

inductive_cases similarity_outcome_elim: "similarity_outcome catalog port r s s' out"

lemma similarity_outcome_deterministic:
  assumes "similarity_outcome catalog port r s s1 out1" "similarity_outcome catalog port r s s2 out2"
  shows "s2 = s1 \<and> out2 = out1"
  using assms
  by (cases rule: similarity_outcome.cases) (auto elim!: similarity_outcome_elim dest: adapter_run_deterministic)

lemma query_vector_ok:
  assumes "wf_SimilarityRequest r" "\<And>f n. isfinite (el f n)" "catalog_errors_ok catalog"
  shows "(\<exists>s' ev d. query_vector catalog el r (s, tr) =
      ((s', tr @ [ev]), Inr (Inl (similarity_result r [] [similarity_degradation d]))) \<and>
      similarity_outcome catalog port r s s' (Inl d)) \<or>
    (\<exists>s1 s' q v. query_vector catalog el r (s, tr) = ((s', tr), Inr (Inr (q, v))) \<and>
      rp_read_unit catalog (simreq_query_unit_id r) s = (s1, Inr (Some q)) \<and> unit_kind q = UNIT_WHOLE_RESOURCE \<and>
      rp_read_vector catalog (simreq_query_unit_id r) (simreq_space_id r) s1 = (s', Inr (Some v)))"
proof -
  let ?q = "simreq_query_unit_id r" and ?v = "simreq_space_id r"
  note fin = assms(2)
  have unav: "\<exists>ev. early_result (unavailable el r) (s', tr) =
      ((s', tr @ [ev]), Inr (Inl (similarity_result r [] [similarity_degradation DEG_BRANCH_UNAVAILABLE])))" for s'
    by (rule unavailable_step [where el = el and tr = tr, OF assms(1) fin])
  have hand: "\<exists>ev. early_result (catalog_handler el r e) (s', tr) =
      ((s', tr @ [ev]), Inr (Inl (similarity_result r [] [similarity_degradation (catalog_degradation e)])))"
    if "\<forall>c. e = CatalogExecutionError c \<longrightarrow> c \<in> set CATALOG_CATEGORIES" for e s'
    using catalog_handler_ok [where el = el and tr = tr and s = s' and e = e, OF assms(1) fin] that
    by (auto simp: early_result_def svc_bind_def svc_return_def)
  obtain s1 u where ru: "rp_read_unit catalog ?q s = (s1, u)" by (metis surj_pair)
  obtain s2 v where rv: "rp_read_vector catalog ?q ?v s1 = (s2, v)" by (metis surj_pair)
  have eu: "\<forall>c. e = CatalogExecutionError c \<longrightarrow> c \<in> set CATALOG_CATEGORIES" if "u = Inl e" for e
    using assms(3) ru that unfolding catalog_errors_ok_def by blast
  have ev: "\<forall>c. e = CatalogExecutionError c \<longrightarrow> c \<in> set CATALOG_CATEGORIES" if "v = Inl e" for e
    using assms(3) rv that unfolding catalog_errors_ok_def by blast
  have P: "svc_port (rp_read_unit catalog ?q) (s, tr) = ((s1, tr), u)"
    and Q: "svc_port (rp_read_vector catalog ?q ?v) (s1, tr) = ((s2, tr), v)"
    by (simp_all add: svc_port_def ru rv)
  obtain e1 e2 where U: "early_result (unavailable el r) (s1, tr) =
      ((s1, tr @ [e1]), Inr (Inl (similarity_result r [] [similarity_degradation DEG_BRANCH_UNAVAILABLE])))"
    and V: "early_result (unavailable el r) (s2, tr) =
      ((s2, tr @ [e2]), Inr (Inl (similarity_result r [] [similarity_degradation DEG_BRANCH_UNAVAILABLE])))"
    using unav [of s1] unav [of s2] by auto
  show ?thesis
  proof (cases u)
    case (Inl e)
    then show ?thesis using hand [OF eu [OF Inl], of s1] unit_fails [of catalog r s s1 e port] ru
      by (auto simp: query_vector_def P svc_try_def)
  next
    case u: (Inr uo)
    show ?thesis
    proof (cases "\<exists>q. uo = Some q \<and> unit_kind q = UNIT_WHOLE_RESOURCE")
      case False
      then show ?thesis using u no_unit [of catalog r s s1 port] other_unit [of catalog r s s1 _ port] ru
        by (cases uo) (auto simp: query_vector_def P U svc_try_def)
    next
      case True
      then obtain q where q: "uo = Some q" "unit_kind q = UNIT_WHOLE_RESOURCE" by blast
      show ?thesis
      proof (cases v)
        case (Inl e)
        then show ?thesis using hand [OF ev [OF Inl], of s2] vector_fails [of catalog r s s1 q s2 e port] ru rv u q
          by (auto simp: query_vector_def P Q svc_try_def)
      next
        case (Inr vo)
        then show ?thesis using u q ru rv no_vector [of catalog r s s1 q s2 port]
          by (cases vo) (auto simp: query_vector_def P Q V svc_try_def)
      qed
    qed
  qed
qed

lemma whole_resource_scope_total:
  assumes "wf_override sc"
  shows "\<exists>out. whole_resource_scope sc = Inr out"
proof -
  have "list_all wf_name [UNIT_WHOLE_RESOURCE]"
    by (simp add: wf_name_def UNIT_WHOLE_RESOURCE_def lit_def blank_iff py_isspace_def utf8_encodable_def surrogate_def)
  then show ?thesis using assms
    by (simp add: whole_resource_scope_def new_SearchScope_def wf_override_def str_tuple_def freeze_strings_again
        freeze_facets_again del: list.map list.pred_inject)
qed

lemma similarity_item_ok:
  assumes "wf_RankedCandidate c" "1 \<le> n"
  shows "\<exists>it. similarity_item (n, c) = Inr it \<and> item_unit_id it = Some (cand_unit_id c) \<and>
    item_resource_id it = cand_resource_id c \<and> item_logical_id it = cand_resource_id c \<and>
    item_rank it = int n \<and> item_score it = cand_raw_score c \<and> item_evidence it = [c]"
  using assms freeze_typed_sequence_again [of "[c]"] opt_name_again [of "Some (cand_unit_id c)"]
  by (simp add: similarity_item_def new_SearchResultItem_def wf_RankedCandidate_def name_again freeze_empty_mapping
      require_integer_def)

lemma similarity_items_ok:
  assumes "\<forall>c \<in> set cs. wf_RankedCandidate c" "1 \<le> n"
  shows "\<exists>items. rmap similarity_item (enumerate n cs) = Inr items \<and>
    list_all2 (\<lambda>c it. item_unit_id it = Some (cand_unit_id c) \<and> item_resource_id it = cand_resource_id c \<and>
      item_logical_id it = cand_resource_id c \<and> item_score it = cand_raw_score c \<and> item_evidence it = [c]) cs items \<and>
    map item_rank items = map int [n..<n + length cs]"
  using assms
proof (induction cs arbitrary: n)
  case (Cons c cs)
  obtain it where it: "similarity_item (n, c) = Inr it" "item_unit_id it = Some (cand_unit_id c)"
    "item_resource_id it = cand_resource_id c" "item_logical_id it = cand_resource_id c" "item_rank it = int n"
    "item_score it = cand_raw_score c" "item_evidence it = [c]"
    using similarity_item_ok [of c n] Cons.prems by auto
  have "[n..<n + length (c # cs)] = n # [Suc n..<Suc n + length cs]" by (simp add: upt_conv_Cons del: upt_Suc)
  then show ?case using Cons.IH [of "Suc n"] Cons.prems it by (auto simp del: upt_Suc)
qed simp

section \<open>Outcomes of the loop\<close>

lemma similarity_branch_raises: "raises_only is_ValueError (similarity_branch r v n)"
proof -
  have "raises_only is_ValueError (freeze_vector (PTuple (map PFloat v)) f)" for f
    unfolding freeze_vector_def freeze_sequence_def
    by (auto simp: in_set_enumerate_eq require_finite_number_def intro!: error_intros)
  then show ?thesis unfolding similarity_branch_def new_VectorBranch_def
    by (auto simp: require_weight_def require_finite_number_def require_integer_def integer_error_def
        require_optional_non_empty_def require_scope_override_def intro!: error_intros)
qed

lemma similarity_pass_error:
  assumes "similarity_pass port r v sc n s = (s', Inl (BranchExecutionError c i))" "port_errors_ok port"
  shows "c \<in> set BRANCH_CATEGORIES"
proof (cases "similarity_branch r v n")
  case (Inl e)
  then show ?thesis using assms(1) similarity_branch_raises [of r v n]
    by (simp add: similarity_pass_def raises_only_def)
next
  case (Inr b)
  obtain s1 out where o: "sp_search_vector port b sc s = (s1, out)" by (metis surj_pair)
  have "failure_category (BranchExecutionError c i) = ADAPTER_ERROR" if "out = Inr raw" for raw
    using assms(1) Inr o that validate_candidates_error [of "Vector b" raw] by (auto simp: similarity_pass_def)
  moreover have "c \<in> set BRANCH_CATEGORIES" if "out = Inl e" for e
    using assms(1) Inr o that assms(2) [unfolded port_errors_ok_def, rule_format, of "Vector b" sc s]
    by (simp add: similarity_pass_def)
  ultimately show ?thesis by (cases out) (auto simp: failure_category_def BRANCH_CATEGORIES_def)
qed

lemma similar_loop_outcome:
  assumes "similar_loop port r rid v sc n s = Some (s', out)"
  shows "\<exists>m s0 res. similarity_pass port r v sc m s0 = (s', res) \<and>
    out = (case res of Inl e \<Rightarrow> Inl e | Inr cs \<Rightarrow> Inr (select_candidates r rid cs))"
proof -
  have "case y of (s', out) \<Rightarrow> \<exists>m s0 res. similarity_pass port r v sc m s0 = (s', res) \<and>
      out = (case res of Inl e \<Rightarrow> Inl e | Inr cs \<Rightarrow> Inr (select_candidates r rid cs))"
    if "similar_loop port r rid v sc n s = Some y" for y
    using that
  proof (induction rule: similar_loop.raw_induct [rotated, consumes 1])
    case (1 loop port r rid v sc n s y)
    obtain s1 res where pass: "similarity_pass port r v sc n s = (s1, res)" by (metis surj_pair)
    show ?case
    proof (cases res)
      case (Inl e)
      then have "y = (s1, Inl e)" using 1(2) pass by simp
      then show ?thesis using pass Inl by force
    next
      case (Inr cs)
      show ?thesis
      proof (cases "int (length (select_candidates r rid cs)) = simreq_limit r \<or> int (length cs) < n")
        case True
        then have "y = (s1, Inr (select_candidates r rid cs))" using 1(2) pass Inr by simp
        then show ?thesis using pass Inr by force
      next
        case False
        then have "loop port r rid v sc (n * 2) s1 = Some y" using 1(2) pass Inr by simp
        then show ?thesis by (rule 1(1))
      qed
    qed
  qed
  from this [OF assms] show ?thesis by simp
qed

text \<open>The loop follows the specified calls.\<close>

lemma similar_loop_run:
  assumes "similar_loop port r rid v sc n s = Some (s', out)"
  shows "adapter_run port r rid v sc n s s' out"
proof -
  have "case y of (s', out) \<Rightarrow> adapter_run port r rid v sc n s s' out" if "similar_loop port r rid v sc n s = Some y" for y
    using that
  proof (induction rule: similar_loop.raw_induct [rotated, consumes 1])
    case (1 loop port r rid v sc n s y)
    show ?case
    proof (cases "similarity_branch r v n")
      case (Inl e)
      then have "y = (s, Inl e)" using 1(2) by (simp add: similarity_pass_def)
      then show ?thesis using Inl by (simp add: adapter_run.no_branch)
    next
      case b: (Inr b)
      obtain s1 res where call: "sp_search_vector port b sc s = (s1, res)" by (metis surj_pair)
      show ?thesis
      proof (cases res)
        case (Inl e)
        then have "y = (s1, Inl e)" using 1(2) b call by (simp add: similarity_pass_def)
        then show ?thesis using adapter_run.raises b call Inl by simp
      next
        case raw: (Inr raw)
        show ?thesis
        proof (cases "validate_candidates (Vector b) raw")
          case (Inl e)
          then have "y = (s1, Inl e)" using 1(2) b call raw by (simp add: similarity_pass_def)
          then show ?thesis using adapter_run.refused b call raw Inl by simp
        next
          case (Inr cs)
          show ?thesis
          proof (cases "int (length (select_candidates r rid cs)) = simreq_limit r \<or> int (length cs) < n")
            case True
            then have "y = (s1, Inr (select_candidates r rid cs))" using 1(2) b call raw Inr by (simp add: similarity_pass_def)
            then show ?thesis using adapter_run.answers b call raw Inr True by simp
          next
            case False
            then have "loop port r rid v sc (n * 2) s1 = Some y" using 1(2) b call raw Inr by (simp add: similarity_pass_def)
            then have "case y of (s', out) \<Rightarrow> adapter_run port r rid v sc (n * 2) s1 s' out" by (rule 1(1))
            then show ?thesis using adapter_run.asks_more [OF b call [unfolded raw] Inr False] by auto
          qed
        qed
      qed
    qed
  qed
  from this [OF assms] show ?thesis by simp
qed

text \<open>The values a search port returns were built by their constructor.\<close>

definition port_values_ok :: "'s SearchPort \<Rightarrow> bool" where
  "port_values_ok port \<longleftrightarrow>
     (\<forall>b sc s s' objs. sp_search_vector port b sc s = (s', Inr (PySeq objs)) \<longrightarrow>
        (\<forall>c. Typed c \<in> set objs \<longrightarrow> wf_RankedCandidate c))"

lemma similarity_pass_values:
  assumes "similarity_pass port r v sc n s = (s', Inr cs)" "port_values_ok port"
  shows "\<forall>c \<in> set cs. wf_RankedCandidate c"
proof -
  obtain b raw where b: "sp_search_vector port b sc s = (s', Inr raw)" "validate_candidates (Vector b) raw = Inr cs"
    using assms(1) by (auto simp: similarity_pass_def split: sum.splits prod.splits)
  then obtain objs where objs: "raw = PySeq objs" "take (nat (vb_candidate_limit b)) objs = map Typed cs"
    by (cases raw) (auto simp: validate_candidates_def valid_candidates_iff)
  then have "Typed c \<in> set objs" if "c \<in> set cs" for c
    using that by (metis in_set_takeD image_eqI set_map)
  then show ?thesis using assms(2) b(1) objs(1) unfolding port_values_ok_def by blast
qed

lemma select_candidates_set: "set (select_candidates r rid cs) \<subseteq> set cs"
  by (auto simp: select_candidates_def dest: in_set_takeD)

definition bounded_port :: "'s SearchPort \<Rightarrow> nat \<Rightarrow> bool" where
  "bounded_port port N \<longleftrightarrow>
     (\<forall>b sc s s' objs. sp_search_vector port b sc s = (s', Inr (PySeq objs)) \<longrightarrow> length objs \<le> N)"

lemma similarity_pass_bounded:
  assumes "similarity_pass port r v sc n s = (s', Inr cs)" "bounded_port port N"
  shows "length cs \<le> N"
proof -
  obtain b objs where b: "sp_search_vector port b sc s = (s', Inr (PySeq objs))"
    and cs: "take (nat (vb_candidate_limit b)) objs = map Typed cs"
    using assms(1) by (auto simp: similarity_pass_def validate_candidates_def valid_candidates_iff
        split: sum.splits prod.splits pyseq.splits)
  have "length objs \<le> N" using assms(2) b unfolding bounded_port_def by blast
  then show ?thesis using arg_cong [OF cs, of length] by simp
qed

text \<open>The items and the degradations that an outcome is reported as.\<close>

definition reported :: "DegradationCategory + RankedCandidate list \<Rightarrow> SearchResultItem list \<Rightarrow> Degradation list \<Rightarrow> bool" where
  "reported out items degs =
     (case out of
        Inl d \<Rightarrow> items = [] \<and> degs = [similarity_degradation d]
      | Inr cs \<Rightarrow> degs = [] \<and> map item_unit_id items = map (\<lambda>c. Some (cand_unit_id c)) cs \<and>
          map item_score items = map cand_raw_score cs \<and> map item_rank items = map int [1..<1 + length cs])"

lemma similar_search_returns:
  assumes "wf_SimilarityRequest r" "\<And>f n. isfinite (el f n)" "port_errors_ok port" "port_values_ok port"
    "bounded_port port N"
    "rp_read_unit catalog (simreq_query_unit_id r) st = (s1, Inr (Some qu))" "unit_kind qu = UNIT_WHOLE_RESOURCE"
    "rp_read_vector catalog (simreq_query_unit_id r) (simreq_space_id r) s1 = (s, Inr (Some vec))"
  shows "\<exists>s' ev items degs out. similar_search port el r qu vec (s, tr) =
      Some ((s', tr @ [ev]), Inr (similarity_result r items degs)) \<and> length items \<le> nat (simreq_limit r) \<and>
    similarity_outcome catalog port r st s' out \<and> reported out items degs"
proof -
  note fin = assms(2)
  obtain sco where sco: "whole_resource_scope (simreq_scope r) = Inr sco"
    using whole_resource_scope_total assms(1) unfolding wf_SimilarityRequest_def by blast
  show ?thesis
  proof (cases sco)
    case None
    obtain ev where "completed el r [] [] (s, tr) = ((s, tr @ [ev]), Inr (similarity_result r [] []))"
      using completed_ok [where el = el and tr = tr and s = s and items = "[]" and degs = "[]", OF assms(1) fin] by blast
    then show ?thesis using sco None empty_scope [OF assms(6-8), where port = port]
      by (intro exI [of _ s] exI [of _ ev] exI [of _ "[]"] exI [of _ "Inr []"]) (simp add: similar_search_def reported_def)
  next
    case (Some sc)
    let ?loop = "similar_loop port r (unit_resource_id qu) (vec_vector vec) sc (first_limit r) s"
    have "1 \<le> first_limit r" using assms(1) by (simp add: first_limit_def wf_SimilarityRequest_def)
    then have "\<exists>x. ?loop = Some x" by (rule similar_loop_total [rotated]) (erule similarity_pass_bounded [OF _ assms(5)])
    then obtain s' out where loop: "?loop = Some (s', out)" by auto
    note run = similar_loop_run [OF loop]
    from similar_loop_outcome [OF loop] obtain m s0 res
      where pass: "similarity_pass port r (vec_vector vec) sc m s0 = (s', res)"
        and out: "out = (case res of Inl e \<Rightarrow> Inl e | Inr cs \<Rightarrow> Inr (select_candidates r (unit_resource_id qu) cs))"
      by blast
    show ?thesis
    proof (cases res)
      case (Inl e)
      have cat: "c \<in> set BRANCH_CATEGORIES" if "e = BranchExecutionError c i" for c i
        using similarity_pass_error [OF _ assms(3)] pass Inl that by blast
      have "\<exists>ev. search_handler el r e (s', tr) =
          ((s', tr @ [ev]), Inr (similarity_result r [] [similarity_degradation (search_degradation e)]))"
        by (rule search_handler_ok [where el = el and tr = tr, OF assms(1) fin]) (rule cat)
      then obtain ev where "search_handler el r e (s', tr) =
          ((s', tr @ [ev]), Inr (similarity_result r [] [similarity_degradation (search_degradation e)]))" by blast
      moreover have "similarity_outcome catalog port r st s' (Inl (search_degradation e))"
        by (rule adapter_fails [OF assms(6-8) sco [unfolded Some]]) (use run out Inl in simp)
      ultimately show ?thesis using sco Some loop out Inl
        by (intro exI [of _ s'] exI [of _ ev] exI [of _ "[]"] exI [of _ "[similarity_degradation (search_degradation e)]"]
            exI [of _ "Inl (search_degradation e)"]) (simp add: similar_search_def reported_def)
    next
      case (Inr cs)
      let ?sel = "select_candidates r (unit_resource_id qu) cs"
      have "\<forall>c \<in> set ?sel. wf_RankedCandidate c"
        using similarity_pass_values [OF pass [unfolded Inr] assms(4)] select_candidates_set by blast
      then obtain items where items: "rmap similarity_item (enumerate 1 ?sel) = Inr items"
          "list_all2 (\<lambda>c it. item_unit_id it = Some (cand_unit_id c) \<and> item_resource_id it = cand_resource_id c \<and>
            item_logical_id it = cand_resource_id c \<and> item_score it = cand_raw_score c \<and> item_evidence it = [c]) ?sel items"
          "map item_rank items = map int [1..<1 + length ?sel]"
        using similarity_items_ok [of ?sel 1] by auto
      have cols: "map item_unit_id items = map (\<lambda>c. Some (cand_unit_id c)) ?sel" "map item_score items = map cand_raw_score ?sel"
        using items(2) by (induction rule: list_all2_induct) auto
      have "length items = length ?sel" using items(2) by (auto dest: list_all2_lengthD)
      moreover have "length ?sel \<le> nat (simreq_limit r)" by (simp add: select_candidates_def)
      moreover obtain ev where "completed el r items [] (s', tr) = ((s', tr @ [ev]), Inr (similarity_result r items []))"
        using completed_ok [where el = el and tr = tr and s = s' and items = items and degs = "[]", OF assms(1) fin] by auto
      moreover have "similarity_outcome catalog port r st s' (Inr ?sel)"
        by (rule adapter_answers [OF assms(6-8) sco [unfolded Some]]) (use run out Inr in simp)
      ultimately show ?thesis using items(1,3) cols sco Some loop out Inr
        by (intro exI [of _ s'] exI [of _ ev] exI [of _ items] exI [of _ "[]"] exI [of _ "Inr ?sel"])
          (simp add: similar_search_def reported_def)
    qed
  qed
qed

lemma similar_started:
  assumes "wf_SimilarityRequest r"
  shows "\<exists>ev. \<forall>s. similar catalog port el (Typed r) (s, tr) =
    (case query_vector catalog el r (s, tr @ [ev]) of
       (w', Inl e) \<Rightarrow> Some (w', Inl e)
     | (w', Inr (Inl res)) \<Rightarrow> Some (w', Inr res)
     | (w', Inr (Inr (qu, vec))) \<Rightarrow> similar_search port el r qu vec w')"
  using assms by (auto simp: similar_def emit_similarity_def wf_SimilarityRequest_def safe_fingerprint_ok wf_name_encodable
      svc_emit_ok ok_fields_def SAFE_FIELD_NAMES_def ok_value_def CORE_EVENT_NAMES_def)

lemma similar_always_returns:
  assumes "wf_SimilarityRequest r" "\<And>f n. isfinite (el f n)" "catalog_errors_ok catalog" "port_errors_ok port"
    "port_values_ok port" "bounded_port port N"
  shows "\<exists>s' evs items degs out. similar catalog port el (Typed r) (s, tr) =
      Some ((s', tr @ evs), Inr (similarity_result r items degs)) \<and> length items \<le> nat (simreq_limit r) \<and>
    similarity_outcome catalog port r s s' out \<and> reported out items degs"
proof -
  obtain ev where start: "similar catalog port el (Typed r) (s, tr) =
    (case query_vector catalog el r (s, tr @ [ev]) of
       (w', Inl e) \<Rightarrow> Some (w', Inl e)
     | (w', Inr (Inl res)) \<Rightarrow> Some (w', Inr res)
     | (w', Inr (Inr (qu, vec))) \<Rightarrow> similar_search port el r qu vec w')"
    using similar_started [where catalog = catalog and port = port and el = el and tr = tr, OF assms(1)] by blast
  from query_vector_ok [where el = el and s = s and tr = "tr @ [ev]" and port = port, OF assms(1-3)] show ?thesis
  proof (elim disjE exE conjE)
    fix s' ev' d
    assume "query_vector catalog el r (s, tr @ [ev]) =
      ((s', (tr @ [ev]) @ [ev']), Inr (Inl (similarity_result r [] [similarity_degradation d])))"
      "similarity_outcome catalog port r s s' (Inl d)"
    then show ?thesis using start
      by (intro exI [of _ s'] exI [of _ "[ev, ev']"] exI [of _ "[]"] exI [of _ "[similarity_degradation d]"] exI [of _ "Inl d"])
        (simp add: reported_def)
  next
    fix s1 s' q v
    assume q: "query_vector catalog el r (s, tr @ [ev]) = ((s', tr @ [ev]), Inr (Inr (q, v)))"
      "rp_read_unit catalog (simreq_query_unit_id r) s = (s1, Inr (Some q))" "unit_kind q = UNIT_WHOLE_RESOURCE"
      "rp_read_vector catalog (simreq_query_unit_id r) (simreq_space_id r) s1 = (s', Inr (Some v))"
    from similar_search_returns [where el = el and tr = "tr @ [ev]", OF assms(1,2,4-6) q(2-4)]
    obtain t ev' items degs out where "similar_search port el r q v (s', tr @ [ev]) =
        Some ((t, (tr @ [ev]) @ [ev']), Inr (similarity_result r items degs))" "length items \<le> nat (simreq_limit r)"
        "similarity_outcome catalog port r s t out" "reported out items degs" by blast
    then show ?thesis using start q(1)
      by (intro exI [of _ t] exI [of _ "[ev, ev']"] exI [of _ items] exI [of _ degs] exI [of _ out]) simp
  qed
qed

text \<open>
  C16: a similarity query always returns when the adapter's lists are bounded, however it answers otherwise: the
  doubling of the candidate limit ends. No exception escapes, and none is lost: the query ends in the one outcome
  that the answers of the catalog and of the adapter determine. When the query unit or its vector cannot be read or is
  missing, or a call of the adapter raises or returns candidates that are refused, the result has no items and exactly
  one degradation of the similarity branch, of the category of that failure, and no later port is called; otherwise it
  has no degradation, and its items are the selected candidates of the last call, in order.
\<close>

theorem similar_returns:
  assumes "wf_SimilarityRequest r" "\<forall>f n. isfinite (el f n)" "catalog_errors_ok catalog" "port_errors_ok port"
    "port_values_ok port" "bounded_port port N"
  shows "\<exists>s' evs items degs out. similar catalog port el (Typed r) (s, tr) =
      Some ((s', tr @ evs), Inr (similarity_result r items degs)) \<and> length items \<le> nat (simreq_limit r) \<and>
    similarity_outcome catalog port r s s' out \<and>
    (\<forall>t out'. similarity_outcome catalog port r s t out' \<longrightarrow> t = s' \<and> out' = out) \<and>
    (case out of
       Inl d \<Rightarrow> items = [] \<and> degs = [similarity_degradation d]
     | Inr cs \<Rightarrow> degs = [] \<and> map item_unit_id items = map (\<lambda>c. Some (cand_unit_id c)) cs \<and>
         map item_score items = map cand_raw_score cs \<and> map item_rank items = map int [1..<1 + length cs])"
proof -
  obtain s' evs items degs out where out: "similar catalog port el (Typed r) (s, tr) =
        Some ((s', tr @ evs), Inr (similarity_result r items degs))" "length items \<le> nat (simreq_limit r)"
      "similarity_outcome catalog port r s s' out" "reported out items degs"
    using similar_always_returns [where el = el, OF assms(1) _ assms(3-6)] assms(2) by blast
  have "\<forall>t out'. similarity_outcome catalog port r s t out' \<longrightarrow> t = s' \<and> out' = out"
    using similarity_outcome_deterministic [OF out(3)] by blast
  with out show ?thesis unfolding reported_def by blast
qed

text \<open>
  C17: over a catalog whose adapter answers with prefixes of one ranking, a similarity query returns exactly the
  first \<open>limit\<close> candidates of that ranking (of other resources, when they are excluded), ranked 1, 2, 3, ... with
  the adapter's scores, although it only asked for doubling prefixes; the store is as before.
\<close>

theorem similar_follows_ranking:
  assumes "wf_SimilarityRequest r" "\<forall>f n. isfinite (el f n)"
    "rp_read_unit catalog (simreq_query_unit_id r) s = (s, Inr (Some qu))" "unit_kind qu = UNIT_WHOLE_RESOURCE"
    "rp_read_vector catalog (simreq_query_unit_id r) (simreq_space_id r) s = (s, Inr (Some vec))" "wf_vector (vec_vector vec)"
    "whole_resource_scope (simreq_scope r) = Inr (Some sc)"
    "\<forall>b. vb_space_id b = simreq_space_id r \<and> vb_vector b = vec_vector vec \<longrightarrow>
       sp_search_vector port b sc s = (s, Inr (PySeq (map Typed (take (nat (vb_candidate_limit b)) all))))"
    "valid_candidates SIMILARITY_BRANCH all" "\<forall>c \<in> set all. wf_RankedCandidate c"
  shows "\<exists>evs res. similar catalog port el (Typed r) (s, tr) = Some ((s, tr @ evs), Inr res) \<and>
    simres_degradations res = [] \<and>
    map item_unit_id (simres_items res) = map (\<lambda>c. Some (cand_unit_id c)) (select_candidates r (unit_resource_id qu) all) \<and>
    map item_score (simres_items res) = map cand_raw_score (select_candidates r (unit_resource_id qu) all) \<and>
    map item_rank (simres_items res) = map int [1..<1 + length (simres_items res)]"
proof -
  have fin: "isfinite (el f n)" for f n using assms(2) by blast
  obtain ev where start: "similar catalog port el (Typed r) (s, tr) =
    (case query_vector catalog el r (s, tr @ [ev]) of
       (w', Inl e) \<Rightarrow> Some (w', Inl e)
     | (w', Inr (Inl res)) \<Rightarrow> Some (w', Inr res)
     | (w', Inr (Inr (qu, vec))) \<Rightarrow> similar_search port el r qu vec w')"
    using similar_started [where catalog = catalog and port = port and el = el and tr = tr, OF assms(1)] by blast
  have q: "query_vector catalog el r (s, tr @ [ev]) = ((s, tr @ [ev]), Inr (Inr (qu, vec)))"
    using assms(3-5) by (simp add: query_vector_def svc_port_def)
  have pass: "similarity_pass port r (vec_vector vec) sc n s = (s, Inr (take (nat n) all))" if "1 \<le> n" for n
  proof -
    have n: "wf_name (simreq_space_id r)" using assms(1) by (simp add: wf_SimilarityRequest_def)
    define b where "b = \<lparr>vb_branch_id = SIMILARITY_BRANCH, vb_space_id = simreq_space_id r, vb_vector = vec_vector vec,
      vb_weight = Fin 1, vb_candidate_limit = n, vb_expected_fingerprint = None, vb_scope_override = None\<rparr>"
    have b: "similarity_branch r (vec_vector vec) n = Inr b" "vb_space_id b = simreq_space_id r"
      "vb_vector b = vec_vector vec" "vb_candidate_limit b = n" "vb_branch_id b = SIMILARITY_BRANCH"
      using n that assms(6) by (simp_all add: similarity_branch_def new_VectorBranch_def name_again similarity_branch_name b_def
          freeze_vector_again require_weight_def require_integer_def require_optional_non_empty_def require_scope_override_def)
    have "valid_candidates SIMILARITY_BRANCH (take (nat n) all)"
      using assms(9) by (rule valid_candidates_take)
    then show ?thesis using assms(8) b by (simp add: similarity_pass_def validate_candidates_def valid_candidates_iff)
  qed
  let ?sel = "select_candidates r (unit_resource_id qu) all"
  have "1 \<le> first_limit r" using assms(1) by (simp add: first_limit_def wf_SimilarityRequest_def)
  note loop = similar_loop_ranking [OF pass this, of "unit_resource_id qu"]
  have "\<forall>c \<in> set ?sel. wf_RankedCandidate c" using assms(10) select_candidates_set by blast
  then obtain items where items: "rmap similarity_item (enumerate 1 ?sel) = Inr items"
    "list_all2 (\<lambda>c it. item_unit_id it = Some (cand_unit_id c) \<and> item_resource_id it = cand_resource_id c \<and>
      item_logical_id it = cand_resource_id c \<and> item_score it = cand_raw_score c \<and> item_evidence it = [c]) ?sel items"
    "map item_rank items = map int [1..<1 + length ?sel]"
    using similarity_items_ok [of ?sel 1] by auto
  have fields: "map item_unit_id items = map (\<lambda>c. Some (cand_unit_id c)) ?sel" "map item_score items = map cand_raw_score ?sel"
    "length items = length ?sel"
    using items(2) by (auto simp: list_all2_conv_all_nth intro!: nth_equalityI)
  obtain ev' where "completed el r items [] (s, tr @ [ev]) = ((s, (tr @ [ev]) @ [ev']), Inr (similarity_result r items []))"
    using completed_ok [where el = el and tr = "tr @ [ev]" and s = s and items = items and degs = "[]", OF assms(1) fin] by auto
  then have "similar catalog port el (Typed r) (s, tr) =
      Some ((s, tr @ [ev, ev']), Inr (similarity_result r items []))"
    using items(1) loop assms(7) by (simp add: start q similar_search_def)
  then show ?thesis using fields items(3) by (simp add: similarity_result_def)
qed

definition example_similarity :: SimilarityRequest where
  "example_similarity =
     \<lparr>simreq_query_unit_id = [117], simreq_space_id = [115], simreq_similarity_basis = [98],
      simreq_scope = example_scope [], simreq_limit = 1, simreq_exclude_same_resource = True\<rparr>"

definition neighbour :: "pystr \<Rightarrow> pystr \<Rightarrow> int \<Rightarrow> RankedCandidate" where
  "neighbour rid uid rank =
     (example_candidate uid rank)\<lparr>cand_resource_id := rid, cand_branch_id := SIMILARITY_BRANCH\<rparr>"

definition neighbours :: "RankedCandidate list" where
  "neighbours = [neighbour [114] [117] 1, neighbour [115] [120] 2]"

definition neighbour_port :: "nat SearchPort" where
  "neighbour_port = \<lparr>sp_search_lexical = (\<lambda>b sc n. (n, Inl KeyError)),
     sp_search_vector = (\<lambda>b sc n. (n, Inr (PySeq (map Typed (take (nat (vb_candidate_limit b)) neighbours)))))\<rparr>"

definition neighbour_catalog :: "nat ReadPort" where
  "neighbour_catalog =
     \<lparr>rp_read_resource = (\<lambda>i n. (n, Inr None)),
      rp_read_unit = (\<lambda>i n. (n, Inr (Some (example_unit\<lparr>unit_kind := UNIT_WHOLE_RESOURCE\<rparr>)))),
      rp_read_vector = (\<lambda>i j n. (n, Inr (Some \<lparr>vec_unit_id = i, vec_space_id = j, vec_vector = [Fin 1]\<rparr>))),
      rp_find_by_content_hash = (\<lambda>h sc n. (n, Inr []))\<rparr>"

lemmas concrete_names = wf_name_def blank_iff py_isspace_def utf8_encodable_def surrogate_def lit_def

lemma example_similarity_wf: "wf_SimilarityRequest example_similarity"
  by (simp add: wf_SimilarityRequest_def example_similarity_def example_scope_def wf_override_def concrete_names)

lemma neighbours_ok: "valid_candidates SIMILARITY_BRANCH neighbours" "\<forall>c \<in> set neighbours. wf_RankedCandidate c"
proof -
  show "valid_candidates SIMILARITY_BRANCH neighbours"
    by (simp add: valid_candidates_def neighbours_def neighbour_def example_candidate_def)
  have "wf_name SIMILARITY_BRANCH" by (rule similarity_branch_name)
  then show "\<forall>c \<in> set neighbours. wf_RankedCandidate c"
    using empty_mapping_frozen
    by (simp add: wf_RankedCandidate_def neighbours_def neighbour_def example_candidate_def wf_Locator_def)
      (simp add: concrete_names)
qed

theorem similar_follows_ranking_witness:
  "\<exists>evs res. similar neighbour_catalog neighbour_port (\<lambda>_ _. Fin 1) (Typed example_similarity) (0, []) =
     Some ((0, evs), Inr res) \<and> map item_unit_id (simres_items res) = [Some [120]] \<and> simres_degradations res = []"
proof -
  obtain sc where sc: "whole_resource_scope (simreq_scope example_similarity) = Inr (Some sc)"
    using whole_resource_scope_total [of "simreq_scope example_similarity"] example_similarity_wf
    by (auto simp: wf_SimilarityRequest_def example_similarity_def example_scope_def whole_resource_scope_def result_simps)
  have sel: "select_candidates example_similarity [114] neighbours = [neighbour [115] [120] 2]"
    by (simp add: select_candidates_def example_similarity_def neighbours_def neighbour_def)
  have "\<exists>evs res. similar neighbour_catalog neighbour_port (\<lambda>_ _. Fin 1) (Typed example_similarity) (0, []) =
      Some ((0, [] @ evs), Inr res) \<and> simres_degradations res = [] \<and>
    map item_unit_id (simres_items res) = map (\<lambda>c. Some (cand_unit_id c))
      (select_candidates example_similarity (unit_resource_id (example_unit\<lparr>unit_kind := UNIT_WHOLE_RESOURCE\<rparr>)) neighbours) \<and>
    map item_score (simres_items res) = map cand_raw_score
      (select_candidates example_similarity (unit_resource_id (example_unit\<lparr>unit_kind := UNIT_WHOLE_RESOURCE\<rparr>)) neighbours) \<and>
    map item_rank (simres_items res) = map int [1..<1 + length (simres_items res)]"
    by (rule similar_follows_ranking [OF example_similarity_wf _ _ _ _ _ sc _ neighbours_ok, where
        vec = "\<lparr>vec_unit_id = [117], vec_space_id = [115], vec_vector = [Fin 1]\<rparr>"])
      (simp_all add: neighbour_catalog_def neighbour_port_def example_similarity_def wf_vector_def)
  then show ?thesis by (auto simp: example_unit_def sel neighbour_def example_candidate_def)
qed

theorem similar_returns_witness:
  "\<exists>s' evs items degs. similar neighbour_catalog neighbour_port (\<lambda>_ _. Fin 1) (Typed example_similarity) (0, []) =
     Some ((s', evs), Inr (similarity_result example_similarity items degs)) \<and> length items \<le> 1"
proof -
  have "port_errors_ok neighbour_port"
    unfolding port_errors_ok_def
  proof (intro allI impI)
    fix b sc s s' c i assume "port_search neighbour_port b sc s = (s', Inl (BranchExecutionError c i))"
    then show "c \<in> set BRANCH_CATEGORIES" by (cases b) (simp_all add: neighbour_port_def)
  qed
  moreover have "port_values_ok neighbour_port"
    using neighbours_ok(2) by (auto simp: port_values_ok_def neighbour_port_def dest: in_set_takeD)
  moreover have "bounded_port neighbour_port 2"
    by (auto simp: bounded_port_def neighbour_port_def neighbours_def)
  moreover have "catalog_errors_ok neighbour_catalog" by (simp add: catalog_errors_ok_def neighbour_catalog_def)
  ultimately show ?thesis
    using similar_returns [OF example_similarity_wf, of "\<lambda>_ _. Fin 1" neighbour_catalog neighbour_port 2 0 "[]"]
    by (auto simp: example_similarity_def)
qed

section \<open>Duplicates\<close>

text \<open>Invalid arguments are refused before the catalog is read, and every failure of the catalog is a stable
  catalog error.\<close>

lemma find_duplicates_errors:
  assumes "find_duplicates catalog rid sc n s = (s', Inl e)"
  shows "is_ValueError e \<and> s' = s \<or> (\<exists>c. e = CatalogExecutionError c)"
proof -
  have cat: "\<exists>c. catalog_failure e = CatalogExecutionError c" for e by (cases e) auto
  have rm: "\<exists>c. e = CatalogExecutionError c" if "read_matches catalog i sc s = (s', Inl e)" for i sc s s' e
    using that cat by (auto simp: read_matches_def split: prod.splits sum.splits option.splits)
  show ?thesis using assms unfolding find_duplicates_def
    by (auto split: pyobj.splits anyobj.splits prod.splits sum.splits option.splits if_splits dest!: rm)
qed

lemma take_sort_key_least:
  assumes "x \<in> set xs" "x \<notin> set (take n (sort_key f xs))" "y \<in> set (take n (sort_key f xs))"
  shows "f y \<le> (f x :: 'b::linorder)"
proof -
  have "x \<in> set (drop n (sort_key f xs))"
    using assms(1,2) by (metis Un_iff append_take_drop_id set_append set_sort)
  moreover have "sorted (map f (take n (sort_key f xs) @ drop n (sort_key f xs)))" by simp
  ultimately show ?thesis using assms(3) unfolding map_append sorted_append by auto
qed

text \<open>
  Duplicates are the other resources that the catalog holds under the content hash of the given one, within
  the scope, in the order of their ids: at most \<open>limit\<close> of them, and all of them when they are fewer; what
  is left out has greater ids. Nothing but a failure of the catalog can go wrong.
\<close>

theorem find_duplicates_selects:
  assumes "\<not> blank i" "1 \<le> n" "rp_read_resource catalog i s = (s1, Inr (Some r))" "res_content_hash r = Some h"
    "rp_find_by_content_hash catalog h sc s1 = (s2, Inr ms)"
  shows "\<exists>ds. find_duplicates catalog (PStr i) (Typed sc) (PInt n) s = (s2, Inr ds) \<and>
    sorted (map res_id ds) \<and> int (length ds) \<le> n \<and>
    set ds \<subseteq> {m \<in> set ms. res_id m \<noteq> i} \<and> (int (length ds) < n \<longrightarrow> set ds = {m \<in> set ms. res_id m \<noteq> i}) \<and>
    (\<forall>m \<in> set ms. m \<notin> set ds \<and> res_id m \<noteq> i \<longrightarrow> (\<forall>d \<in> set ds. res_id d \<le> res_id m))"
proof -
  let ?xs = "filter (\<lambda>m. res_id m \<noteq> i) ms"
  let ?ds = "take (nat n) (sort_key res_id ?xs)"
  have "find_duplicates catalog (PStr i) (Typed sc) (PInt n) s = (s2, Inr ?ds)"
    using assms by (simp add: find_duplicates_def read_matches_def)
  moreover have "sorted (map res_id ?ds)" by (simp add: take_map [symmetric] sorted_wrt_take)
  moreover have "set ?ds \<subseteq> set ?xs" by (metis set_sort set_take_subset)
  moreover have "set ?ds = set ?xs" if "int (length ?ds) < n"
  proof -
    have "length ?xs \<le> nat n" using that by (simp split: if_splits)
    then show ?thesis by (simp only: take_all length_sort set_sort)
  qed
  ultimately show ?thesis using assms(2) take_sort_key_least [of _ ?xs "nat n" res_id] by auto
qed

definition twin :: "pystr \<Rightarrow> ResourceRecord" where
  "twin i = (batch_resource example_batch)\<lparr>res_id := i, res_content_hash := Some [104]\<rparr>"

definition twin_catalog :: "nat ReadPort" where
  "twin_catalog = neighbour_catalog\<lparr>rp_read_resource := (\<lambda>i n. (n, Inr (Some (twin i)))),
     rp_find_by_content_hash := (\<lambda>h sc n. (n, Inr [twin [99], twin [97], twin [98]]))\<rparr>"

lemma twin_facts: "res_content_hash (twin i) = Some [104]" "res_id (twin i) = i"
  "rp_read_resource twin_catalog i n = (n, Inr (Some (twin i)))"
  "rp_find_by_content_hash twin_catalog h sc n = (n, Inr [twin [99], twin [97], twin [98]])" "\<not> blank [98]"
  by (simp_all add: twin_def twin_catalog_def blank_iff py_isspace_def)

theorem find_duplicates_selects_witness:
  "\<exists>ds. find_duplicates twin_catalog (PStr [98]) (Typed (example_scope [])) (PInt 2) 0 = (0, Inr ds) \<and>
     sorted (map res_id ds) \<and> length ds \<le> 2 \<and> set ds \<subseteq> {twin [97], twin [99]}"
proof -
  have "(1::int) \<le> 2" by simp
  from find_duplicates_selects [OF twin_facts(5) this twin_facts(3) twin_facts(1) twin_facts(4), of "example_scope []" 0]
  obtain ds where ds: "find_duplicates twin_catalog (PStr [98]) (Typed (example_scope [])) (PInt 2) 0 = (0, Inr ds)"
    "sorted (map res_id ds)" "int (length ds) \<le> 2"
    "set ds \<subseteq> {m \<in> set [twin [99], twin [97], twin [98]]. res_id m \<noteq> [98]}"
    by auto
  have "{m \<in> set [twin [99], twin [97], twin [98]]. res_id m \<noteq> [98]} \<subseteq> {twin [97], twin [99]}"
    by (auto simp: twin_facts(2))
  then have "set ds \<subseteq> {twin [97], twin [99]}" using ds(4) by (rule subset_trans [rotated])
  moreover have "length ds \<le> 2" using ds(3) by simp
  ultimately show ?thesis using ds(1,2) by (intro exI [of _ ds] conjI)
qed

end
