(* ===== verification/Media_Common.thy ===== *)
theory Media_Common
  imports Core_Search Py_Hash
begin

text \<open>
  \<open>mdrack_media/common.py\<close>, \<open>identifiers.py\<close> and \<open>fingerprints.py\<close>: the validators of the media
  contracts, their JSON grammar and canonical text, logical identities derived from it, and the typed
  fingerprints. A \<open>pyobj\<close> is a finite tree, so a cyclic container, which the code refuses like one that is
  nested too deep, has no counterpart.
\<close>

section \<open>Validators\<close>

definition MAX_JSON_CONTAINER_DEPTH :: nat where "MAX_JSON_CONTAINER_DEPTH = 64"

definition JSON_CONTAINER_LIMIT_ERROR :: exn where
  "JSON_CONTAINER_LIMIT_ERROR = ValueError ''JSON containers must be acyclic and at most 64 levels deep''"

definition require_text :: "pyobj \<Rightarrow> string \<Rightarrow> bool \<Rightarrow> pystr result" where
  "require_text value field_name allow_empty =
     (case value of
        PStr s \<Rightarrow>
          if \<not> allow_empty \<and> blank s then Inl (ValueError (field_name @ '' must be non-empty''))
          else if utf8_encodable s then Inr s
          else Inl (ValueError (field_name @ '' must be UTF-8 encodable''))
      | _ \<Rightarrow> Inl (ValueError (field_name @ '' must be a string'')))"

definition require_int :: "pyobj \<Rightarrow> string \<Rightarrow> int \<Rightarrow> int result" where
  "require_int value field_name minimum =
     (case value of
        PInt i \<Rightarrow> if i < minimum then Inl (integer_error field_name minimum) else Inr i
      | _ \<Rightarrow> Inl (integer_error field_name minimum))"

definition probability_error :: "string \<Rightarrow> exn" where
  "probability_error field_name = ValueError (field_name @ '' must be a finite number between 0 and 1'')"

definition require_probability :: "pyobj \<Rightarrow> string \<Rightarrow> pyfloat result" where
  "require_probability value field_name =
     rbind (case value of
          PInt i \<Rightarrow> float_of_int i
        | PFloat f \<Rightarrow> Inr f
        | _ \<Rightarrow> Inl (probability_error field_name)) (\<lambda>x.
     if \<not> isfinite x \<or> \<not> (Fin 0 \<le> x \<and> x \<le> Fin 1) then Inl (probability_error field_name) else Inr x)"

section \<open>The JSON grammar\<close>

text \<open>\<open>_freeze_json\<close>; a mapping's members are visited in the order of their sorted keys, the key before the
  value.\<close>

function (sequential)
  freeze_json :: "pyobj \<Rightarrow> string \<Rightarrow> nat \<Rightarrow> json result"
  and freeze_elements :: "pyobj list \<Rightarrow> string \<Rightarrow> nat \<Rightarrow> json list result"
  and freeze_entries :: "(pystr \<times> pyobj) list \<Rightarrow> string \<Rightarrow> nat \<Rightarrow> (pystr \<times> json) list result"
where
  "freeze_json value field_name container_depth =
     (case value of
        PNone \<Rightarrow> Inr JNull
      | PBool b \<Rightarrow> Inr (JBool b)
      | PInt i \<Rightarrow> Inr (JInt i)
      | PFloat f \<Rightarrow>
          if isfinite f then Inr (JFloat f) else Inl (ValueError (field_name @ '' numbers must be finite''))
      | PStr s \<Rightarrow> rbind (require_text value field_name True) (\<lambda>t. Inr (JStr t))
      | PMap kvs \<Rightarrow>
          if MAX_JSON_CONTAINER_DEPTH \<le> container_depth then Inl JSON_CONTAINER_LIMIT_ERROR
          else (case str_items kvs of
              None \<Rightarrow> Inl (ValueError (field_name @ '' keys must be strings''))
            | Some its \<Rightarrow>
                rbind (freeze_entries (sort_key fst its) field_name (container_depth + 1)) (\<lambda>ms. Inr (JObj ms)))
      | PList xs \<Rightarrow>
          if MAX_JSON_CONTAINER_DEPTH \<le> container_depth then Inl JSON_CONTAINER_LIMIT_ERROR
          else rbind (freeze_elements xs (field_name @ ''[]'') (container_depth + 1)) (\<lambda>js. Inr (JArr js))
      | PTuple xs \<Rightarrow>
          if MAX_JSON_CONTAINER_DEPTH \<le> container_depth then Inl JSON_CONTAINER_LIMIT_ERROR
          else rbind (freeze_elements xs (field_name @ ''[]'') (container_depth + 1)) (\<lambda>js. Inr (JArr js))
      | PSequence xs \<Rightarrow>
          if MAX_JSON_CONTAINER_DEPTH \<le> container_depth then Inl JSON_CONTAINER_LIMIT_ERROR
          else rbind (freeze_elements xs (field_name @ ''[]'') (container_depth + 1)) (\<lambda>js. Inr (JArr js))
      | _ \<Rightarrow> Inl (ValueError (field_name @ '' must use the JSON value grammar'')))"
| "freeze_elements [] field_name d = Inr []"
| "freeze_elements (x # xs) field_name d =
     rbind (freeze_json x field_name d) (\<lambda>j. rbind (freeze_elements xs field_name d) (\<lambda>js. Inr (j # js)))"
| "freeze_entries [] field_name d = Inr []"
| "freeze_entries ((k, x) # kvs) field_name d =
     rbind (require_text (PStr k) (field_name @ '' key'') True) (\<lambda>key.
     rbind (freeze_json x (field_name @ '' value'') d) (\<lambda>j.
     rbind (freeze_entries kvs field_name d) (\<lambda>ms. Inr ((key, j) # ms))))"
  by pat_completeness auto
termination
  by (relation "measure (\<lambda>x. case x of
      Inl (v, f, d) \<Rightarrow> 2 * size v
    | Inr (Inl (xs, f, d)) \<Rightarrow> 2 * size_list size xs + 1
    | Inr (Inr (ms, f, d)) \<Rightarrow> 2 * size_list (size_prod (\<lambda>_. 0) size) ms + 1)")
    (auto dest!: str_items_size)

declare freeze_json.simps [simp del]

definition freeze_metadata :: "pyobj \<Rightarrow> string \<Rightarrow> (pystr \<times> json) list result" where
  "freeze_metadata value field_name =
     (case value of
        PMap _ \<Rightarrow>
          rbind (freeze_json value field_name 0) (\<lambda>frozen.
            case frozen of
              JObj ms \<Rightarrow> Inr ms
            | _ \<Rightarrow> Inl (ValueError (field_name @ '' must be a JSON object'')))
      | _ \<Rightarrow> Inl (ValueError (field_name @ '' must be a JSON object'')))"

definition plain_json :: "json \<Rightarrow> pyobj" where
  "plain_json j = to_plain_json j"

text \<open>The \<open>canonical_json\<close> of this package: validation, then the compact text with sorted keys.\<close>

definition media_canonical_json :: "pyobj \<Rightarrow> pystr result" where
  "media_canonical_json value = rbind (freeze_json value ''value'' 0) (\<lambda>frozen. Inr (canonical_json frozen))"

definition expect_mapping :: "pyobj \<Rightarrow> string \<Rightarrow> (pystr, pyobj) dict result" where
  "expect_mapping value field_name =
     (case value of
        PMap kvs \<Rightarrow>
          (case str_items kvs of
             None \<Rightarrow> Inl (ValueError (field_name @ '' must be a JSON object''))
           | Some its \<Rightarrow> Inr its)
      | _ \<Rightarrow> Inl (ValueError (field_name @ '' must be a JSON object'')))"

definition expect_keys :: "pyobj \<Rightarrow> string \<Rightarrow> pystr list \<Rightarrow> (pystr, pyobj) dict result" where
  "expect_keys value field_name ks =
     rbind (expect_mapping value field_name) (\<lambda>mapping.
     if set (keys mapping) \<noteq> set ks
     then Inl (ValueError (field_name @ '' must contain exactly: '' @ map char_of (intersperse (lit '', '') (sort ks))))
     else Inr mapping)"

definition expect_sequence :: "pyobj \<Rightarrow> string \<Rightarrow> pyobj list result" where
  "expect_sequence value field_name =
     (case value of
        PList xs \<Rightarrow> Inr xs
      | PTuple xs \<Rightarrow> Inr xs
      | _ \<Rightarrow> Inl (ValueError (field_name @ '' must be a JSON array'')))"

text \<open>\<open>data[key]\<close>.\<close>

definition data_item :: "(pystr, pyobj) dict \<Rightarrow> string \<Rightarrow> pyobj result" where
  "data_item data k = (case map_of data (lit k) of None \<Rightarrow> Inl KeyError | Some v \<Rightarrow> Inr v)"

section \<open>Logical identities\<close>

definition ID_RESOURCE :: string where "ID_RESOURCE = ''resource''"
definition ID_REPRESENTATION :: string where "ID_REPRESENTATION = ''representation''"
definition ID_ATOM :: string where "ID_ATOM = ''atom''"
definition ID_PASSAGE :: string where "ID_PASSAGE = ''passage''"
definition ID_FRAME :: string where "ID_FRAME = ''frame''"
definition ID_WHOLE :: string where "ID_WHOLE = ''whole''"

definition ID_KINDS :: "string list" where
  "ID_KINDS = [ID_RESOURCE, ID_REPRESENTATION, ID_ATOM, ID_PASSAGE, ID_FRAME, ID_WHOLE]"

text \<open>\<open>_ID_PATTERN.fullmatch\<close>: a kind, an underscore and 64 lower-case hexadecimal digits. The kinds are
  prefix-free before the underscore, so at most one alternative matches.\<close>

definition id_of_kind :: "string \<Rightarrow> pystr \<Rightarrow> bool" where
  "id_of_kind kind s \<longleftrightarrow>
     take (length kind + 1) s = lit kind @ [95] \<and> length s = length kind + 65 \<and>
     list_all hex_digit (drop (length kind + 1) s)"

definition id_match :: "pystr \<Rightarrow> string option" where
  "id_match s = find (\<lambda>kind. id_of_kind kind s) ID_KINDS"

definition validate_media_id :: "pyobj \<Rightarrow> string \<Rightarrow> string option \<Rightarrow> pystr result" where
  "validate_media_id value field_name kind =
     rbind (require_text value field_name False) (\<lambda>identifier.
     if id_match identifier = None \<or> kind \<noteq> None \<and> id_match identifier \<noteq> kind
     then Inl (ValueError (field_name @ '' must be a canonical '' @
       (case kind of None \<Rightarrow> ''media'' | Some k \<Rightarrow> k) @ '' ID''))
     else Inr identifier)"

definition media_id_payload :: "string \<Rightarrow> pyobj list \<Rightarrow> pyobj" where
  "media_id_payload kind parts =
     PMap [(PStr (lit ''contract''), PStr (lit ''mdrack.media-id.v1'')), (PStr (lit ''kind''), PStr (lit kind)),
           (PStr (lit ''parts''), PList parts)]"

definition stable_media_id :: "string \<Rightarrow> pyobj \<Rightarrow> pystr result" where
  "stable_media_id kind parts =
     (if kind \<notin> set ID_KINDS then Inl (ValueError ''kind must be a frozen media ID kind'')
      else rbind (case parts of
            PList xs \<Rightarrow> if xs = [] then Inl (ValueError ''parts must be a non-empty sequence'') else Inr xs
          | PTuple xs \<Rightarrow> if xs = [] then Inl (ValueError ''parts must be a non-empty sequence'') else Inr xs
          | _ \<Rightarrow> Inl (ValueError ''parts must be a non-empty sequence'')) (\<lambda>xs.
        rbind (media_canonical_json (media_id_payload kind xs)) (\<lambda>encoded.
        Inr (lit kind @ [95] @ hexdigest (utf8_encode encoded)))))"

definition resource_id :: "pyobj \<Rightarrow> pyobj \<Rightarrow> pystr result" where
  "resource_id source_namespace source_identity =
     rbind (require_text source_namespace ''source_namespace'' False) (\<lambda>a.
     rbind (require_text source_identity ''source_identity'' False) (\<lambda>b.
     stable_media_id ID_RESOURCE (PList [PStr a, PStr b])))"

definition representation_id :: "pyobj \<Rightarrow> pyobj \<Rightarrow> pyobj \<Rightarrow> pyobj \<Rightarrow> pystr result" where
  "representation_id resource_identifier representation_kind producer_fingerprint normalization_fingerprint =
     rbind (validate_media_id resource_identifier ''resource_id'' (Some ID_RESOURCE)) (\<lambda>a.
     rbind (require_text representation_kind ''representation_kind'' False) (\<lambda>b.
     rbind (require_text producer_fingerprint ''producer_fingerprint'' False) (\<lambda>c.
     rbind (require_text normalization_fingerprint ''normalization_fingerprint'' False) (\<lambda>d.
     stable_media_id ID_REPRESENTATION (PList [PStr a, PStr b, PStr c, PStr d])))))"

definition atom_id :: "pyobj \<Rightarrow> pyobj \<Rightarrow> pyobj \<Rightarrow> pystr result" where
  "atom_id resource_identifier producer_fingerprint ordinal =
     rbind (validate_media_id resource_identifier ''resource_id'' (Some ID_RESOURCE)) (\<lambda>a.
     rbind (require_text producer_fingerprint ''producer_fingerprint'' False) (\<lambda>b.
     rbind (require_int ordinal ''ordinal'' 0) (\<lambda>c.
     stable_media_id ID_ATOM (PList [PStr a, PStr b, PInt c]))))"

definition passage_id ::
  "pyobj \<Rightarrow> pyobj \<Rightarrow> pyobj \<Rightarrow> pyobj \<Rightarrow> pyobj \<Rightarrow> pyobj \<Rightarrow> pyobj \<Rightarrow> pyobj \<Rightarrow> pystr result" where
  "passage_id resource_identifier grouper_fingerprint ordinal first_atom_id last_atom_id start_ms end_ms text_digest =
     rbind (validate_media_id resource_identifier ''resource_id'' (Some ID_RESOURCE)) (\<lambda>a.
     rbind (require_text grouper_fingerprint ''grouper_fingerprint'' False) (\<lambda>b.
     rbind (require_int ordinal ''ordinal'' 0) (\<lambda>c.
     rbind (validate_media_id first_atom_id ''first_atom_id'' (Some ID_ATOM)) (\<lambda>d.
     rbind (validate_media_id last_atom_id ''last_atom_id'' (Some ID_ATOM)) (\<lambda>e.
     rbind (require_int start_ms ''start_ms'' 0) (\<lambda>f.
     rbind (require_int end_ms ''end_ms'' 0) (\<lambda>g.
     rbind (require_text text_digest ''text_digest'' False) (\<lambda>h.
     stable_media_id ID_PASSAGE (PList [PStr a, PStr b, PInt c, PStr d, PStr e, PInt f, PInt g, PStr h])))))))))"

definition frame_id :: "pyobj \<Rightarrow> pyobj \<Rightarrow> pyobj \<Rightarrow> pyobj \<Rightarrow> pyobj \<Rightarrow> pystr result" where
  "frame_id resource_identifier producer_fingerprint ordinal timestamp_ms observation_identity =
     rbind (validate_media_id resource_identifier ''resource_id'' (Some ID_RESOURCE)) (\<lambda>a.
     rbind (require_text producer_fingerprint ''producer_fingerprint'' False) (\<lambda>b.
     rbind (require_int ordinal ''ordinal'' 0) (\<lambda>c.
     rbind (require_int timestamp_ms ''timestamp_ms'' 0) (\<lambda>d.
     rbind (require_text observation_identity ''observation_identity'' False) (\<lambda>e.
     stable_media_id ID_FRAME (PList [PStr a, PStr b, PInt c, PInt d, PStr e]))))))"

definition whole_resource_id :: "pyobj \<Rightarrow> pyobj \<Rightarrow> pyobj \<Rightarrow> pystr result" where
  "whole_resource_id resource_identifier representation_identifier aggregation_fingerprint =
     rbind (validate_media_id resource_identifier ''resource_id'' (Some ID_RESOURCE)) (\<lambda>a.
     rbind (validate_media_id representation_identifier ''representation_id'' (Some ID_REPRESENTATION)) (\<lambda>b.
     rbind (require_text aggregation_fingerprint ''aggregation_fingerprint'' False) (\<lambda>c.
     stable_media_id ID_WHOLE (PList [PStr a, PStr b, PStr c]))))"

section \<open>Fingerprints\<close>

text \<open>The seven subclasses of \<open>_Fingerprint\<close>; a fingerprint object carries its class.\<close>

datatype fingerprint_class =
  ProducerFingerprint | NormalizationFingerprint | GrouperFingerprint | TokenCounterFingerprint
  | AggregationFingerprint | EmbeddingFingerprint | ContentFingerprint

record Fingerprint =
  fp_class :: fingerprint_class
  fp_value :: pystr

definition fingerprint_match :: "pystr \<Rightarrow> bool" where
  "fingerprint_match s \<longleftrightarrow>
     take 7 s = lit ''sha256:'' \<and> length s = 71 \<and> list_all hex_digit (drop 7 s)"

definition new_Fingerprint :: "fingerprint_class \<Rightarrow> pyobj \<Rightarrow> Fingerprint result" where
  "new_Fingerprint cls value =
     (case value of
        PStr s \<Rightarrow>
          if fingerprint_match s then Inr \<lparr>fp_class = cls, fp_value = s\<rparr>
          else Inl (ValueError ''value must be a lowercase sha256 fingerprint'')
      | _ \<Rightarrow> Inl (ValueError ''value must be a lowercase sha256 fingerprint''))"

definition fingerprint_from_payload :: "fingerprint_class \<Rightarrow> pyobj \<Rightarrow> Fingerprint result" where
  "fingerprint_from_payload cls payload =
     rbind (freeze_metadata payload ''payload'') (\<lambda>ms.
     rbind (media_canonical_json (of_jmap ms)) (\<lambda>encoded.
     new_Fingerprint cls (PStr (lit ''sha256:'' @ hexdigest (utf8_encode encoded)))))"

definition fingerprint_from_dict :: "fingerprint_class \<Rightarrow> pyobj \<Rightarrow> Fingerprint result" where
  "fingerprint_from_dict cls value =
     (case value of
        PStr s \<Rightarrow> new_Fingerprint cls value
      | _ \<Rightarrow> Inl (ValueError ''fingerprint must be a string''))"

definition fingerprint_to_dict :: "Fingerprint \<Rightarrow> pyobj" where
  "fingerprint_to_dict fp = PStr (fp_value fp)"

text \<open>\<open>isinstance(value, cls)\<close> for one of the subclasses.\<close>

definition require_fingerprint :: "fingerprint_class \<Rightarrow> Fingerprint anyobj \<Rightarrow> string \<Rightarrow> Fingerprint result" where
  "require_fingerprint cls value message =
     (case value of
        Typed fp \<Rightarrow> if fp_class fp = cls then Inr fp else Inl (ValueError message)
      | Untyped \<Rightarrow> Inl (ValueError message))"

section \<open>What the validators accept\<close>

lemma require_text_eq_Inr [result_simps]:
  "require_text v f e = Inr s \<longleftrightarrow> v = PStr s \<and> (e \<or> \<not> blank s) \<and> utf8_encodable s"
  by (cases v) (auto simp: require_text_def)

lemma require_int_eq_Inr [result_simps]: "require_int v f m = Inr i \<longleftrightarrow> v = PInt i \<and> m \<le> i"
  by (cases v) (auto simp: require_int_def)

lemma require_probability_eq_Inr:
  "require_probability (PFloat x) f = Inr y \<longleftrightarrow> y = x \<and> Fin 0 \<le> x \<and> x \<le> Fin 1"
  by (cases x) (auto simp: require_probability_def less_eq_pyfloat_def)

lemma require_probability_range: "require_probability v f = Inr y \<Longrightarrow> isfinite y \<and> Fin 0 \<le> y \<and> y \<le> Fin 1"
  by (cases v) (auto simp: require_probability_def rbind_eq_Inr split: if_splits)

lemma hex_digit_ascii: "hex_digit c \<Longrightarrow> \<not> py_isspace c \<and> \<not> surrogate c \<and> c < 127"
  by (auto simp: hex_digit_def py_isspace_def surrogate_def)

lemma id_of_kind_split:
  "id_of_kind k s \<longleftrightarrow> (\<exists>h. s = lit k @ [95] @ h \<and> length h = 64 \<and> list_all hex_digit h)"
proof
  assume a: "id_of_kind k s"
  let ?h = "drop (length k + 1) s"
  have "s = take (length k + 1) s @ ?h" by simp
  also have "take (length k + 1) s = lit k @ [95]" using a by (simp add: id_of_kind_def)
  finally have "s = lit k @ [95] @ ?h" by simp
  moreover have "length ?h = 64" "list_all hex_digit ?h" using a by (simp_all add: id_of_kind_def)
  ultimately show "\<exists>h. s = lit k @ [95] @ h \<and> length h = 64 \<and> list_all hex_digit h" by blast
qed (auto simp: id_of_kind_def lit_def)

lemma id_kind_unique:
  assumes "id_of_kind k s" "id_of_kind l s"
  shows "k = l"
proof -
  have "length k = length l" using assms(1,2) by (simp add: id_of_kind_def)
  moreover have "take (length k) s = lit k" using assms(1) by (auto simp: id_of_kind_split lit_def)
  moreover have "take (length l) s = lit l" using assms(2) by (auto simp: id_of_kind_split lit_def)
  ultimately show ?thesis by (metis lit_inject)
qed

lemma id_match_eq_Some: "id_match s = Some k \<longleftrightarrow> k \<in> set ID_KINDS \<and> id_of_kind k s"
proof
  assume "id_match s = Some k"
  then show "k \<in> set ID_KINDS \<and> id_of_kind k s" by (auto simp: id_match_def find_Some_iff)
next
  assume k: "k \<in> set ID_KINDS \<and> id_of_kind k s"
  then have "id_match s \<noteq> None" by (auto simp: id_match_def find_None_iff)
  then obtain l where l: "id_match s = Some l" by blast
  then have "l \<in> set ID_KINDS" "id_of_kind l s" by (auto simp: id_match_def find_Some_iff)
  then show "id_match s = Some k" using k l id_kind_unique by metis
qed

text \<open>A canonical identity of a kind.\<close>

definition media_id :: "string \<Rightarrow> pystr \<Rightarrow> bool" where
  "media_id k s \<longleftrightarrow> k \<in> set ID_KINDS \<and> id_of_kind k s"

lemma media_id_name:
  assumes "media_id k s"
  shows "\<not> blank s" "utf8_encodable s"
proof -
  obtain h where s: "s = lit k @ [95] @ h" and h: "list_all hex_digit h"
    using assms by (auto simp: media_id_def id_of_kind_split)
  have "py_isspace 95 = False" by (simp add: py_isspace_def)
  then show "\<not> blank s" by (simp add: s blank_iff)
  have "\<not> surrogate (of_char c)" for c :: char using nat_of_char_less_256 [of c] unfolding surrogate_def by linarith
  then have "\<forall>c \<in> set (lit k). \<not> surrogate c" by (auto simp: lit_def)
  moreover have "\<forall>c \<in> set h. \<not> surrogate c" using h hex_digit_ascii by (auto simp: list_all_iff)
  ultimately show "utf8_encodable s" by (auto simp: s utf8_encodable_def list_all_iff surrogate_def)
qed

lemma validate_media_id_eq_Inr [result_simps]:
  "validate_media_id v f (Some k) = Inr s \<longleftrightarrow> v = PStr s \<and> media_id k s"
proof
  assume "validate_media_id v f (Some k) = Inr s"
  then show "v = PStr s \<and> media_id k s"
    by (auto simp: validate_media_id_def rbind_eq_Inr require_text_eq_Inr media_id_def id_match_eq_Some split: if_splits)
next
  assume a: "v = PStr s \<and> media_id k s"
  then have "require_text v f False = Inr s" "id_match s = Some k"
    using media_id_name by (auto simp: require_text_eq_Inr id_match_eq_Some media_id_def)
  then show "validate_media_id v f (Some k) = Inr s" by (simp add: validate_media_id_def)
qed

lemma wf_name_text: "wf_name s \<longleftrightarrow> \<not> blank s \<and> utf8_encodable s"
  by (simp add: wf_name_def)

section \<open>Derived identities\<close>

lemma stable_media_id_canonical: "stable_media_id k parts = Inr s \<Longrightarrow> media_id k s"
  by (auto simp: stable_media_id_def rbind_eq_Inr media_id_def id_of_kind_split hexdigest_hex length_hexdigest
      split: if_splits)

lemma derived_ids_canonical:
  "resource_id a b = Inr s \<Longrightarrow> media_id ID_RESOURCE s"
  "representation_id a b c d = Inr s \<Longrightarrow> media_id ID_REPRESENTATION s"
  "atom_id a b c = Inr s \<Longrightarrow> media_id ID_ATOM s"
  "passage_id a b c d e f g h = Inr s \<Longrightarrow> media_id ID_PASSAGE s"
  "frame_id a b c d e = Inr s \<Longrightarrow> media_id ID_FRAME s"
  "whole_resource_id a b c = Inr s \<Longrightarrow> media_id ID_WHOLE s"
  by (auto simp: resource_id_def representation_id_def atom_id_def passage_id_def frame_id_def whole_resource_id_def
      rbind_eq_Inr dest: stable_media_id_canonical)

section \<open>Frozen metadata\<close>

fun json_depth :: "json \<Rightarrow> nat" where
  "json_depth (JArr js) = Suc (foldr max (map json_depth js) 0)"
| "json_depth (JObj ms) = Suc (foldr max (map (\<lambda>(k, j). json_depth j) ms) 0)"
| "json_depth _ = 0"

definition media_frozen :: "json \<Rightarrow> nat \<Rightarrow> bool" where
  "media_frozen j d \<longleftrightarrow> frozen j \<and> (0 < json_depth j \<longrightarrow> d + json_depth j \<le> MAX_JSON_CONTAINER_DEPTH)"

lemma depth_step:
  "d + Suc (foldr max xs 0) \<le> m \<longleftrightarrow> d < m \<and> (\<forall>x \<in> set xs. 0 < x \<longrightarrow> d + 1 + x \<le> (m::nat))"
  by (induction xs) auto

lemma media_frozen_JArr:
  "media_frozen (JArr js) d \<longleftrightarrow> d < MAX_JSON_CONTAINER_DEPTH \<and> (\<forall>j \<in> set js. media_frozen j (d + 1))"
  by (simp add: media_frozen_def depth_step list_all_iff del: add_Suc_right) blast

lemma media_frozen_JObj:
  "media_frozen (JObj ms) d \<longleftrightarrow> d < MAX_JSON_CONTAINER_DEPTH \<and> sorted (keys ms) \<and> distinct (keys ms) \<and>
     (\<forall>(k, j) \<in> set ms. utf8_encodable k \<and> media_frozen j (d + 1))"
  by (simp add: media_frozen_def depth_step list_all_iff split_def del: add_Suc_right) blast

lemma freeze_elements_eq_Inr: "freeze_elements xs f d = Inr js \<longleftrightarrow> list_all2 (\<lambda>x j. freeze_json x f d = Inr j) xs js"
  by (induction xs arbitrary: js) (auto simp: rbind_eq_Inr list_all2_Cons1)

lemma freeze_entries_eq_Inr:
  "freeze_entries its f d = Inr ms \<longleftrightarrow>
     list_all2 (\<lambda>x m. fst m = fst x \<and> utf8_encodable (fst x) \<and> freeze_json (snd x) (f @ '' value'') d = Inr (snd m)) its ms"
proof (induction its arbitrary: ms)
  case (Cons x its)
  then show ?case by (cases x) (auto simp: rbind_eq_Inr list_all2_Cons1 require_text_eq_Inr)
qed auto

lemma freeze_json_container:
  "freeze_json (PList xs) f d = (if MAX_JSON_CONTAINER_DEPTH \<le> d then Inl JSON_CONTAINER_LIMIT_ERROR
     else rbind (freeze_elements xs (f @ ''[]'') (d + 1)) (\<lambda>js. Inr (JArr js)))"
  "freeze_json (PTuple xs) f d = (if MAX_JSON_CONTAINER_DEPTH \<le> d then Inl JSON_CONTAINER_LIMIT_ERROR
     else rbind (freeze_elements xs (f @ ''[]'') (d + 1)) (\<lambda>js. Inr (JArr js)))"
  "freeze_json (PSequence xs) f d = (if MAX_JSON_CONTAINER_DEPTH \<le> d then Inl JSON_CONTAINER_LIMIT_ERROR
     else rbind (freeze_elements xs (f @ ''[]'') (d + 1)) (\<lambda>js. Inr (JArr js)))"
  by (simp_all add: freeze_json.simps)

lemma freeze_json_PMap:
  "freeze_json (PMap kvs) f d = Inr j \<longleftrightarrow> d < MAX_JSON_CONTAINER_DEPTH \<and>
     (\<exists>its ms. str_items kvs = Some its \<and> j = JObj ms \<and>
        freeze_entries (sort_key fst its) f (d + 1) = Inr ms)"
  by (auto simp: freeze_json.simps rbind_eq_Inr split: option.splits)

lemma list_all2_preimage: "list_all2 P xs ys \<Longrightarrow> y \<in> set ys \<Longrightarrow> \<exists>x \<in> set xs. P x y"
  by (induction rule: list_all2_induct) auto

lemma freeze_establishes_frozen:
  "dict_keys_distinct v \<Longrightarrow> freeze_json v f d = Inr j \<Longrightarrow> media_frozen j d"
proof (induction v arbitrary: f d j rule: dict_keys_distinct.induct)
  case (1 kvs)
  from "1.prems"(2) obtain its ms where kvs: "kvs = map (\<lambda>(s, v). (PStr s, v)) its" and j: "j = JObj ms"
    and d: "d < MAX_JSON_CONTAINER_DEPTH" and fe: "freeze_entries (sort_key fst its) f (d + 1) = Inr ms"
    by (auto simp: freeze_json_PMap str_items_eq_Some)
  from fe have l2: "list_all2 (\<lambda>x m. fst m = fst x \<and> utf8_encodable (fst x) \<and>
      freeze_json (snd x) (f @ '' value'') (d + 1) = Inr (snd m)) (sort_key fst its) ms" by (simp add: freeze_entries_eq_Inr)
  then have ks: "keys ms = keys (sort_key fst its)"
    by (auto simp: list_all2_conv_all_nth intro!: nth_equalityI)
  have "distinct (keys kvs)" using "1.prems"(1) by simp
  then have "distinct (map PStr (keys its))" unfolding kvs by (simp only: keys_map_PStr)
  then have dk: "distinct (keys its)" by (simp only: distinct_map)
  have "utf8_encodable k \<and> media_frozen x (d + 1)" if kx: "(k, x) \<in> set ms" for k x
  proof -
    obtain v where v: "(k, v) \<in> set (sort_key fst its)" "utf8_encodable k" "freeze_json v (f @ '' value'') (d + 1) = Inr x"
      using list_all2_preimage [OF l2 kx] by auto
    then have m: "(PStr k, v) \<in> set kvs" by (auto simp: kvs)
    then have "dict_keys_distinct v" using "1.prems"(1) by (auto simp: list_all_iff)
    with "1.IH" [OF m refl] v show ?thesis by blast
  qed
  then show ?case using d dk ks by (auto simp: j media_frozen_JObj distinct_map_sort_key)
next
  case (2 xs)
  then show ?case
    by (fastforce simp: freeze_json_container rbind_eq_Inr freeze_elements_eq_Inr media_frozen_JArr list_all_iff
        dest: list_all2_preimage split: if_splits)
next
  case (3 xs)
  then show ?case
    by (fastforce simp: freeze_json_container rbind_eq_Inr freeze_elements_eq_Inr media_frozen_JArr list_all_iff
        dest: list_all2_preimage split: if_splits)
next
  case (4 xs)
  then show ?case
    by (fastforce simp: freeze_json_container rbind_eq_Inr freeze_elements_eq_Inr media_frozen_JArr list_all_iff
        dest: list_all2_preimage split: if_splits)
qed (auto simp: freeze_json.simps media_frozen_def rbind_eq_Inr require_text_eq_Inr split: if_splits)

lemma refreeze_JArr:
  assumes "media_frozen (JArr js) d" "v = PList (map g js) \<or> v = PTuple (map g js)"
    "\<And>j f d. j \<in> set js \<Longrightarrow> media_frozen j d \<Longrightarrow> freeze_json (g j) f d = Inr j"
  shows "freeze_json v f d = Inr (JArr js)"
proof -
  have "freeze_elements (map g js) (f @ ''[]'') (d + 1) = Inr js"
    using assms(1,3) by (auto simp: freeze_elements_eq_Inr media_frozen_JArr list_all2_map1 list_all2_same)
  then show ?thesis using assms(1,2) by (auto simp: freeze_json_container media_frozen_JArr)
qed

lemma refreeze_JObj:
  assumes "media_frozen (JObj ms) d"
    "\<And>k j f d. (k, j) \<in> set ms \<Longrightarrow> media_frozen j d \<Longrightarrow> freeze_json (g j) f d = Inr j"
  shows "freeze_json (PMap (map (\<lambda>(k, j). (PStr k, g j)) ms)) f d = Inr (JObj ms)"
proof -
  let ?its = "map (\<lambda>(k, j). (k, g j)) ms"
  have kv: "str_items (map (\<lambda>(k, j). (PStr k, g j)) ms) = Some ?its" by (auto simp: str_items_eq_Some)
  have "keys ?its = keys ms" by (induction ms) auto
  then have "sorted (keys ?its)" using assms(1) by (simp only: media_frozen_JObj)
  then have "sort_key fst ?its = ?its" by (rule sort_key_sorted_id)
  moreover have "freeze_entries ?its f (d + 1) = Inr ms"
    using assms by (auto simp: freeze_entries_eq_Inr media_frozen_JObj list_all2_map1 list_all2_same)
  ultimately show ?thesis using assms(1) kv by (auto simp: freeze_json_PMap media_frozen_JObj)
qed

lemma freeze_json_plain: "media_frozen j d \<Longrightarrow> freeze_json (to_plain_json j) f d = Inr j"
proof (induction j arbitrary: f d rule: to_plain_json.induct)
  case (6 js)
  then show ?case by (intro refreeze_JArr) auto
next
  case (7 ms)
  then show ?case by (simp only: to_plain_json.simps) (intro refreeze_JObj, auto)
qed (auto simp: freeze_json.simps media_frozen_def require_text_def)

lemma freeze_json_of_json: "media_frozen j d \<Longrightarrow> freeze_json (of_json j) f d = Inr j"
proof (induction j arbitrary: f d rule: of_json.induct)
  case (6 js)
  then show ?case by (intro refreeze_JArr) auto
next
  case (7 ms)
  then show ?case by (simp only: of_json.simps) (intro refreeze_JObj, auto)
qed (auto simp: freeze_json.simps media_frozen_def require_text_def)

text \<open>The invariant of a metadata field of the media records.\<close>

definition wf_meta :: "(pystr \<times> json) list \<Rightarrow> bool" where
  "wf_meta ms \<longleftrightarrow> media_frozen (JObj ms) 0"

lemma freeze_metadata_frozen: "freeze_metadata v f = Inr ms \<Longrightarrow> freeze_json v f 0 = Inr (JObj ms)"
proof -
  assume a: "freeze_metadata v f = Inr ms"
  then obtain j where "freeze_json v f 0 = Inr j" by (cases v) (auto simp: freeze_metadata_def rbind_eq_Inr)
  then show ?thesis using a by (cases v; cases j) (simp_all add: freeze_metadata_def)
qed

lemma freeze_metadata_wf: "dict_keys_distinct v \<Longrightarrow> freeze_metadata v f = Inr ms \<Longrightarrow> wf_meta ms"
  unfolding wf_meta_def by (erule freeze_establishes_frozen [OF _ freeze_metadata_frozen])

lemma freeze_metadata_again:
  assumes "wf_meta ms"
  shows "freeze_metadata (of_jmap ms) f = Inr ms" "freeze_metadata (to_plain_json (JObj ms)) f = Inr ms"
proof -
  have "media_frozen (JObj ms) 0" using assms by (simp add: wf_meta_def)
  from freeze_json_of_json [OF this, of f] freeze_json_plain [OF this, of f]
  show "freeze_metadata (of_jmap ms) f = Inr ms" "freeze_metadata (to_plain_json (JObj ms)) f = Inr ms"
    by (simp_all add: freeze_metadata_def)
qed

lemma to_plain_json_dict: "frozen j \<Longrightarrow> dict_keys_distinct (to_plain_json j)"
proof (induction j rule: to_plain_json.induct)
  case (7 ms)
  have "keys (map (\<lambda>(k, j). (PStr k, to_plain_json j)) ms) = map PStr (keys ms)" by (induction ms) auto
  then have "distinct (keys (map (\<lambda>(k, j). (PStr k, to_plain_json j)) ms))"
    using "7.prems" by (simp only: distinct_map frozen.simps) (simp add: inj_on_def)
  then show ?case using 7 by (auto simp: list_all_iff)
qed (auto simp: list_all_iff)

lemma wf_meta_dict: "wf_meta ms \<Longrightarrow> dict_keys_distinct (to_plain_json (JObj ms))"
  by (rule to_plain_json_dict) (simp add: wf_meta_def media_frozen_def)

lemma require_text_raises [error_intros]: "raises_only is_ValueError (require_text v f e)"
  by (cases v) (auto simp: require_text_def intro!: error_intros)

lemma freeze_json_raises:
  "raises_only is_ValueError (freeze_json v f d)"
  "raises_only is_ValueError (freeze_elements xs f d)"
  "raises_only is_ValueError (freeze_entries kvs f d)"
proof (induction v f d and xs f d and kvs f d rule: freeze_json_freeze_elements_freeze_entries.induct)
  case (1 v f d)
  then show ?case
    by (subst freeze_json.simps)
      (auto simp: JSON_CONTAINER_LIMIT_ERROR_def intro!: error_intros split: pyobj.split option.split)
qed (auto intro!: error_intros)

section \<open>Fingerprints\<close>

definition wf_fp :: "fingerprint_class \<Rightarrow> Fingerprint \<Rightarrow> bool" where
  "wf_fp cls fp \<longleftrightarrow> fp_class fp = cls \<and> fingerprint_match (fp_value fp)"

lemma new_Fingerprint_eq_Inr: "new_Fingerprint cls v = Inr fp \<longleftrightarrow> v = PStr (fp_value fp) \<and> wf_fp cls fp"
  by (cases v; cases fp) (auto simp: new_Fingerprint_def wf_fp_def)

lemma fingerprint_from_dict_eq_Inr [result_simps]:
  "fingerprint_from_dict cls v = Inr fp \<longleftrightarrow> v = PStr (fp_value fp) \<and> wf_fp cls fp"
  by (cases v) (auto simp: fingerprint_from_dict_def new_Fingerprint_eq_Inr)

lemma fingerprint_text:
  assumes "fingerprint_match s"
  shows "\<not> blank s" "utf8_encodable s"
proof -
  have s: "s = lit ''sha256:'' @ drop 7 s" using assms by (metis append_take_drop_id fingerprint_match_def)
  have h: "list_all hex_digit (drop 7 s)" using assms by (simp add: fingerprint_match_def)
  have "\<not> blank (lit ''sha256:'')" by (simp add: lit_def blank_iff py_isspace_def)
  then show "\<not> blank s" by (subst s) (simp add: blank_append)
  have "utf8_encodable (lit ''sha256:'')" by (simp add: lit_def utf8_encodable_def surrogate_def)
  moreover have "utf8_encodable (drop 7 s)" using h hex_digit_ascii by (auto simp: utf8_encodable_def list_all_iff)
  ultimately show "utf8_encodable s" by (subst s) (simp add: utf8_encodable_def)
qed

lemma require_fingerprint_eq_Inr [result_simps]:
  "require_fingerprint cls v m = Inr fp \<longleftrightarrow> v = Typed fp \<and> fp_class fp = cls"
  by (cases v) (auto simp: require_fingerprint_def)

text \<open>A fingerprint of an accepted payload always exists.\<close>

lemma fingerprint_from_payload_ok:
  assumes "dict_keys_distinct v" "freeze_metadata v ''payload'' = Inr ms"
  shows "\<exists>fp. fingerprint_from_payload cls v = Inr fp \<and> wf_fp cls fp"
proof -
  have "media_frozen (JObj ms) 0" using freeze_metadata_wf [OF assms] by (simp add: wf_meta_def)
  then have "media_canonical_json (of_jmap ms) = Inr (canonical_json (JObj ms))"
    unfolding media_canonical_json_def by (simp only: freeze_json_of_json rbind_Inr)
  then show ?thesis using assms(2)
    by (auto simp: fingerprint_from_payload_def new_Fingerprint_def wf_fp_def fingerprint_match_def lit_def hexdigest_hex)
qed

section \<open>Framing of identities\<close>

text \<open>The text that is hashed determines what it was made of: strings are quoted and escaped, integers end at the
  next separator.\<close>

definition digit_value :: "nat \<Rightarrow> nat" where
  "digit_value c = (if c < 58 then c - 48 else c - 87)"

lemma digit_value_char: "n < 16 \<Longrightarrow> digit_value (digit_char n) = n"
  by (simp add: digit_value_def digit_char_def)

text \<open>Reading one escaped character back.\<close>

definition unescape :: "nat list \<Rightarrow> nat \<times> nat list" where
  "unescape s =
     (if hd s \<noteq> 92 then (hd s, tl s)
      else if s ! 1 = 117 then (16 * digit_value (s ! 4) + digit_value (s ! 5), drop 6 s)
      else (the (map_of [(34, 34), (92, 92), (110, 10), (114, 13), (116, 9), (102, 12), (98, 8)] (s ! 1)), drop 2 s))"

lemma unescape_escape: "unescape (escape_char c @ u) = (c, u)"
proof (cases "c \<in> {34, 92, 10, 13, 9, 12, 8}")
  case True
  then show ?thesis by (elim insertE emptyE) (simp_all add: escape_char_def unescape_def lit_def)
next
  case special: False
  show ?thesis
  proof (cases "c < 32")
    case True
    then have "digit_value (digit_char (c div 16)) = c div 16" by (intro digit_value_char) linarith
    moreover have "digit_value (digit_char (c mod 16)) = c mod 16" by (intro digit_value_char) simp
    moreover have "escape_char c = [92, 117, 48, 48, digit_char (c div 16), digit_char (c mod 16)]"
      using special True by (simp add: escape_char_def lit_def)
    ultimately show ?thesis by (simp add: unescape_def)
  next
    case False
    then have "escape_char c = [c]" using special by (simp add: escape_char_def)
    then show ?thesis using special by (simp add: unescape_def)
  qed
qed

lemma escape_char_prefix: "escape_char c @ u = escape_char d @ v \<Longrightarrow> c = d \<and> u = v"
  by (drule arg_cong [where f = unescape]) (simp only: unescape_escape prod.inject)

lemma escape_char_not_quote: "escape_char c @ u \<noteq> 34 # v"
  by (simp add: escape_char_def lit_def)

lemma escaped_prefix:
  "concat (map escape_char s) @ 34 # u = concat (map escape_char t) @ 34 # v \<Longrightarrow> s = t \<and> u = v"
proof (induction s arbitrary: t)
  case Nil
  show ?case
  proof (cases t)
    case (Cons d t')
    then have "escape_char d @ concat (map escape_char t') @ 34 # v = 34 # u" using Nil by simp
    then show ?thesis using escape_char_not_quote by blast
  qed (use Nil in simp)
next
  case (Cons c s)
  show ?case
  proof (cases t)
    case Nil
    then have "escape_char c @ concat (map escape_char s) @ 34 # u = 34 # v" using Cons.prems by simp
    then show ?thesis using escape_char_not_quote by blast
  next
    case t: (Cons d t')
    then have "c = d \<and> concat (map escape_char s) @ 34 # u = concat (map escape_char t') @ 34 # v"
      using Cons.prems by (intro escape_char_prefix) simp
    then show ?thesis using Cons.IH t by blast
  qed
qed

lemma json_string_prefix: "json_string s @ u = json_string t @ v \<Longrightarrow> s = t \<and> u = v"
  using escaped_prefix [of s u t v] by (simp add: json_string_def)

definition number_char :: "nat \<Rightarrow> bool" where
  "number_char c \<longleftrightarrow> c = 45 \<or> 48 \<le> c \<and> c \<le> 57"

lemma int_repr_chars: "list_all number_char (int_repr i)" "int_repr i \<noteq> []"
  using nat_digits_range [of i] nat_digits_range [of "- i"] nat_digits_not_Nil [of i]
  by (auto simp: int_repr_def number_char_def list_all_iff)

lemma int_repr_prefix:
  assumes "int_repr i @ a # u = int_repr j @ b # v" "\<not> number_char a" "\<not> number_char b"
  shows "i = j \<and> a # u = b # v"
proof -
  have tw: "takeWhile number_char (int_repr k @ c # w) = int_repr k" if "\<not> number_char c" for k c w
    using int_repr_chars(1) [of k] that by (simp add: list_all_iff takeWhile_tail)
  have "int_repr i = int_repr j" using arg_cong [OF assms(1), of "takeWhile number_char"] tw assms(2,3) by simp
  then show ?thesis using int_repr_inject assms(1) by auto
qed

fun scalar_json :: "json \<Rightarrow> bool" where
  "scalar_json (JStr s) = True"
| "scalar_json (JInt i) = True"
| "scalar_json _ = False"

lemma scalar_prefix:
  assumes "scalar_json j" "scalar_json k" "canonical_json j @ a # u = canonical_json k @ b # v"
    "a \<in> {44, 93}" "b \<in> {44, 93}"
  shows "j = k \<and> a # u = b # v"
proof -
  have n: "\<not> number_char a" "\<not> number_char b" using assms(4,5) by (auto simp: number_char_def)
  have ne: "int_repr i @ x \<noteq> json_string s @ y" for i x s y
    using int_repr_chars [of i] by (cases "int_repr i") (auto simp: json_string_def number_char_def)
  show ?thesis
  proof (cases j)
    case j: (JStr s)
    show ?thesis
    proof (cases k)
      case (JStr t)
      then show ?thesis using assms(3) j json_string_prefix [of s "a # u" t "b # v"] by simp
    next
      case (JInt i)
      then show ?thesis using assms(3) j ne [of i "b # v" s "a # u"] by simp
    qed (use assms(2) in auto)
  next
    case j: (JInt i)
    show ?thesis
    proof (cases k)
      case (JStr t)
      then show ?thesis using assms(3) j ne [of i "a # u" t "b # v"] by simp
    next
      case (JInt l)
      then show ?thesis using assms(3) j int_repr_prefix [of i a u l b v] n by simp
    qed (use assms(2) in auto)
  qed (use assms(1) in auto)
qed

lemma scalars_prefix:
  assumes "list_all scalar_json js" "list_all scalar_json ks"
    "intersperse [44] (map canonical_json js) @ 93 # u = intersperse [44] (map canonical_json ks) @ 93 # v"
    "js \<noteq> []" "ks \<noteq> []"
  shows "js = ks \<and> u = v"
  using assms
proof (induction js arbitrary: ks)
  case (Cons j js)
  obtain k ks' where ks: "ks = k # ks'" using Cons.prems(5) by (cases ks) auto
  define rest :: "json list \<Rightarrow> pystr \<Rightarrow> pystr" where
    "rest xs w = (if xs = [] then 93 # w else 44 # intersperse [44] (map canonical_json xs) @ 93 # w)" for xs w
  have enc: "intersperse [44] (map canonical_json (x # xs)) @ 93 # w = canonical_json x @ rest xs w" for x xs w
    by (cases xs) (simp_all add: rest_def del: canonical_json.simps)
  have start: "\<exists>a y. rest xs w = a # y \<and> a \<in> {44, 93}" for xs w by (simp add: rest_def)
  have eq: "canonical_json j @ rest js u = canonical_json k @ rest ks' v"
    using Cons.prems(3) unfolding ks enc .
  obtain a y b z where ay: "rest js u = a # y" "a \<in> {44, 93}" and bz: "rest ks' v = b # z" "b \<in> {44, 93}"
    using start by meson
  have jk: "j = k" "rest js u = rest ks' v"
    using scalar_prefix [of j k a y b z] Cons.prems(1,2) eq ay bz by (simp_all add: ks del: canonical_json.simps)
  show ?case
  proof (cases "js = []")
    case True
    then show ?thesis using jk by (auto simp: rest_def ks split: if_splits)
  next
    case False
    then have "ks' \<noteq> []" "intersperse [44] (map canonical_json js) @ 93 # u = intersperse [44] (map canonical_json ks') @ 93 # v"
      using jk(2) by (auto simp: rest_def simp del: canonical_json.simps split: if_splits)
    then show ?thesis using Cons.IH [of ks'] Cons.prems(1,2) False jk(1) by (simp add: ks del: canonical_json.simps)
  qed
qed simp

definition framed :: "string \<Rightarrow> json list \<Rightarrow> json" where
  "framed k js = JObj [(lit ''contract'', JStr (lit ''mdrack.media-id.v1'')), (lit ''kind'', JStr (lit k)),
     (lit ''parts'', JArr js)]"

lemma framed_text:
  "canonical_json (framed k js) =
     (123 # json_string (lit ''contract'') @ 58 # json_string (lit ''mdrack.media-id.v1'') @ 44 # json_string (lit ''kind'') @ [58]) @
     json_string (lit k) @ (44 # json_string (lit ''parts'') @ [58, 91]) @
     intersperse [44] (map canonical_json js) @ [93, 125]"
  by (simp add: framed_def lit_def)

lemma framed_inject:
  assumes "canonical_json (framed k js) = canonical_json (framed l ks)"
    "list_all scalar_json js" "list_all scalar_json ks" "js \<noteq> []" "ks \<noteq> []"
  shows "k = l \<and> js = ks"
proof -
  let ?m = "44 # json_string (lit ''parts'') @ [58, 91]"
  have "json_string (lit k) @ ?m @ intersperse [44] (map canonical_json js) @ [93, 125] =
      json_string (lit l) @ ?m @ intersperse [44] (map canonical_json ks) @ [93, 125]"
    using assms(1) unfolding framed_text by (simp only: same_append_eq append_assoc)
  from json_string_prefix [OF this]
  have "k = l" "intersperse [44] (map canonical_json js) @ 93 # [125] = intersperse [44] (map canonical_json ks) @ 93 # [125]"
    by (simp_all del: canonical_json.simps)
  then show ?thesis using scalars_prefix [OF assms(2,3)] assms(4,5) by blast
qed

fun scalar_part :: "pyobj \<Rightarrow> bool" where
  "scalar_part (PStr s) = utf8_encodable s"
| "scalar_part (PInt i) = True"
| "scalar_part _ = False"

fun part_json :: "pyobj \<Rightarrow> json" where
  "part_json (PStr s) = JStr s"
| "part_json (PInt i) = JInt i"
| "part_json _ = JNull"

lemma part_json_scalar: "scalar_part p \<Longrightarrow> scalar_json (part_json p) \<and> to_plain_json (part_json p) = p \<and> media_frozen (part_json p) d"
  by (cases p) (auto simp: media_frozen_def)

lemma utf8_lit: "utf8_encodable (lit k)"
proof -
  have "\<not> surrogate (of_char c)" for c :: char using nat_of_char_less_256 [of c] unfolding surrogate_def by linarith
  then show ?thesis by (simp add: utf8_encodable_def lit_def list_all_iff)
qed

lemma media_id_payload_framed:
  assumes "list_all scalar_part ps"
  shows "media_canonical_json (media_id_payload k ps) = Inr (canonical_json (framed k (map part_json ps)))"
proof -
  have "map to_plain_json (map part_json ps) = ps"
    using assms part_json_scalar by (simp add: list_all_iff map_idI)
  then have p: "media_id_payload k ps = to_plain_json (framed k (map part_json ps))"
    by (simp add: media_id_payload_def framed_def)
  have "\<forall>j \<in> set (map part_json ps). media_frozen j 2"
    using assms part_json_scalar by (auto simp: list_all_iff)
  moreover have "media_frozen (JStr (lit s)) d" for s d by (simp add: media_frozen_def utf8_lit)
  moreover have "lit ''contract'' < lit ''kind''" "lit ''kind'' < lit ''parts''" "lit ''contract'' < lit ''parts''"
    by (simp_all add: lit_def)
  ultimately have "media_frozen (framed k (map part_json ps)) 0"
    by (simp add: framed_def media_frozen_JObj media_frozen_JArr MAX_JSON_CONTAINER_DEPTH_def utf8_lit less_imp_le
        eval_nat_numeral)
  then show ?thesis unfolding media_canonical_json_def p by (simp only: freeze_json_plain rbind_Inr)
qed

lemma stable_media_id_scalar:
  assumes "list_all scalar_part ps" "ps \<noteq> []" "k \<in> set ID_KINDS"
  shows "stable_media_id k (PList ps) =
    Inr (lit k @ [95] @ hexdigest (utf8_encode (canonical_json (framed k (map part_json ps)))))"
  using assms by (simp add: stable_media_id_def media_id_payload_framed)

lemma part_json_inject: "scalar_part p \<Longrightarrow> scalar_part q \<Longrightarrow> part_json p = part_json q \<Longrightarrow> p = q"
  by (metis part_json_scalar)

section \<open>Properties\<close>

text \<open>
  C18: an identity is framed: its hashed text determines the kind and every part of the identity, so two different
  identities can only collide if SHA-256 does.
\<close>

theorem media_id_text_injective:
  assumes "media_canonical_json (media_id_payload k ps) = Inr t" "media_canonical_json (media_id_payload l qs) = Inr t"
    "list_all scalar_part ps" "list_all scalar_part qs" "ps \<noteq> []" "qs \<noteq> []"
  shows "k = l \<and> ps = qs"
proof -
  have "canonical_json (framed k (map part_json ps)) = canonical_json (framed l (map part_json qs))"
    using assms(1,2) by (simp add: media_id_payload_framed [OF assms(3)] media_id_payload_framed [OF assms(4)])
  moreover have "list_all scalar_json (map part_json xs)" if "list_all scalar_part xs" for xs
    using that part_json_scalar by (auto simp: list_all_iff)
  ultimately have "k = l" "map part_json ps = map part_json qs"
    using framed_inject assms(3-6) by (metis map_is_Nil_conv)+
  moreover have "inj_on part_json (set ps \<union> set qs)"
    using assms(3,4) part_json_inject by (auto simp: inj_on_def list_all_iff)
  ultimately show ?thesis using map_inj_on by blast
qed

theorem media_id_text_injective_witness:
  "media_canonical_json (media_id_payload ID_ATOM [PStr [97], PInt 12]) \<noteq>
   media_canonical_json (media_id_payload ID_ATOM [PStr [97, 44, 49], PInt 2])"
proof
  let ?p = "[PStr [97], PInt 12]" and ?q = "[PStr [97, 44, 49], PInt 2]"
  assume eq: "media_canonical_json (media_id_payload ID_ATOM ?p) = media_canonical_json (media_id_payload ID_ATOM ?q)"
  have s: "list_all scalar_part ?p" "list_all scalar_part ?q" by (simp_all add: utf8_encodable_def surrogate_def)
  then obtain t where t: "media_canonical_json (media_id_payload ID_ATOM ?p) = Inr t"
    using media_id_payload_framed [OF s(1)] by metis
  then have "media_canonical_json (media_id_payload ID_ATOM ?q) = Inr t" using eq by simp
  from media_id_text_injective [OF t this s] show False by simp
qed

text \<open>
  Metadata accepted by the media package is frozen (strictly sorted keys, encodable strings, finite numbers,
  at most 64 levels of containers), and freezing it again, or the plain containers made of it, changes nothing.
\<close>

theorem freeze_metadata_roundtrip:
  assumes "dict_keys_distinct v" "freeze_metadata v f = Inr ms"
  shows "frozen (JObj ms) \<and> json_depth (JObj ms) \<le> 64 \<and>
    freeze_metadata (of_jmap ms) g = Inr ms \<and> freeze_metadata (plain_json (JObj ms)) g = Inr ms"
proof -
  have "wf_meta ms" by (rule freeze_metadata_wf [OF assms])
  then show ?thesis using freeze_metadata_again [of ms g]
    by (simp add: wf_meta_def media_frozen_def MAX_JSON_CONTAINER_DEPTH_def plain_json_def)
qed

theorem freeze_metadata_roundtrip_witness:
  "freeze_metadata (PMap [(PStr [98], PList [PInt 1]), (PStr [97], PNone)]) ''metadata'' =
     Inr [([97], JNull), ([98], JArr [JInt 1])] \<and>
   freeze_metadata (plain_json (JObj [([97], JNull), ([98], JArr [JInt 1])])) ''metadata'' =
     Inr [([97], JNull), ([98], JArr [JInt 1])]"
proof -
  let ?v = "PMap [(PStr [98], PList [PInt 1]), (PStr [97], PNone)]"
  have a: "freeze_metadata ?v ''metadata'' = Inr [([97], JNull), ([98], JArr [JInt 1])]"
    by (simp add: freeze_metadata_def freeze_json.simps MAX_JSON_CONTAINER_DEPTH_def require_text_def utf8_encodable_def
        surrogate_def)
  have "dict_keys_distinct ?v" by simp
  from freeze_metadata_roundtrip [OF this a, of "''metadata''"] a show ?thesis by blast
qed

end
