(* ===== verification/Contracts.thy ===== *)
theory Contracts
  imports Prelude
begin

text \<open>
  The interfaces that several components share, as locales. Each is interpreted, in the theory of the component
  that provides it, on the model's own definitions.
\<close>

section \<open>Validated records and their plain form\<close>

text \<open>
  A record class with a validating constructor or parser: \<open>ok\<close> are the values a caller can hold, \<open>dec\<close>
  validates one, \<open>enc\<close> gives the plain form of a record, and \<open>wf\<close> is the class invariant.
\<close>

locale record_codec =
  fixes wf :: "'r \<Rightarrow> bool" and enc :: "'r \<Rightarrow> 'v" and dec :: "'v \<Rightarrow> 'r result" and ok :: "'v \<Rightarrow> bool"
  assumes decode_encode: "wf r \<Longrightarrow> dec (enc r) = Inr r"
    and decode_wf: "ok v \<Longrightarrow> dec v = Inr r \<Longrightarrow> wf r"
    and encode_ok: "wf r \<Longrightarrow> ok (enc r)"
begin

text \<open>The invariant is exactly what the constructor establishes.\<close>

lemma wf_iff_decoded: "wf r \<longleftrightarrow> (\<exists>v. ok v \<and> dec v = Inr r)"
proof
  show "wf r \<Longrightarrow> \<exists>v. ok v \<and> dec v = Inr r" by (rule exI [of _ "enc r"]) (simp add: decode_encode encode_ok)
next
  show "\<exists>v. ok v \<and> dec v = Inr r \<Longrightarrow> wf r" by (elim exE conjE) (rule decode_wf)
qed

text \<open>Decoding normalises: the plain form of what was decoded decodes to the same record.\<close>

lemma decode_again: "ok v \<Longrightarrow> dec v = Inr r \<Longrightarrow> dec (enc r) = Inr r"
  by (rule decode_encode [OF decode_wf])

lemma encode_inject: "wf r \<Longrightarrow> wf s \<Longrightarrow> enc r = enc s \<Longrightarrow> r = s"
proof -
  assume "wf r" "wf s" "enc r = enc s"
  then have "Inr r = (Inr s :: 'r result)" using decode_encode by metis
  then show ?thesis by simp
qed

text \<open>A list of plain forms decodes element by element.\<close>

lemma decode_list: "list_all wf rs \<Longrightarrow> rmap dec (map enc rs) = Inr rs"
  by (induction rs) (auto simp: decode_encode)

lemma decode_list_wf: "list_all ok vs \<Longrightarrow> rmap dec vs = Inr rs \<Longrightarrow> list_all wf rs"
  by (induction vs arbitrary: rs) (auto simp: rbind_eq_Inr dest: decode_wf)

end

end
