(* ===== verification/Media_Policies.thy ===== *)
theory Media_Policies
  imports Media_Common Contracts
begin

text \<open>
  \<open>mdrack_media/policies.py\<close> and \<open>locators.py\<close>: the grouping, normalisation and whole-text policies and
  the media locators, with their plain dictionaries.
\<close>

section \<open>Plain dictionaries\<close>

text \<open>A dictionary literal with string keys.\<close>

definition pdict :: "(string \<times> pyobj) list \<Rightarrow> pyobj" where
  "pdict kvs = PMap (map (\<lambda>(k, v). (PStr (lit k), v)) kvs)"

lemma str_items_pdict: "str_items (map (\<lambda>(k, v). (PStr (lit k), v)) kvs) = Some (map (\<lambda>(k, v). (lit k, v)) kvs)"
  by (induction kvs) auto

lemma expect_keys_pdict:
  "set ks = lit ` set (map fst kvs) \<Longrightarrow> expect_keys (pdict kvs) f ks = Inr (map (\<lambda>(k, v). (lit k, v)) kvs)"
  by (force simp: pdict_def expect_keys_def expect_mapping_def str_items_pdict [unfolded split_def] image_iff split_def)

lemma pdict_distinct:
  "dict_keys_distinct (pdict kvs) \<longleftrightarrow> distinct (map fst kvs) \<and> list_all (\<lambda>(k, v). dict_keys_distinct v) kvs"
proof -
  have "keys (map (\<lambda>(k, v). (PStr (lit k), v)) kvs) = map (\<lambda>k. PStr (lit k)) (map fst kvs)" by (induction kvs) auto
  moreover have "inj_on (\<lambda>k. PStr (lit k)) A" for A by (simp add: inj_on_def)
  ultimately have "distinct (keys (map (\<lambda>(k, v). (PStr (lit k), v)) kvs)) \<longleftrightarrow> distinct (map fst kvs)"
    by (simp only: distinct_map) simp
  then show ?thesis by (simp add: pdict_def list_all_iff split_def)
qed

lemma data_item_distinct:
  assumes "dict_keys_distinct v" "expect_keys v f ks = Inr d" "data_item d k = Inr x"
  shows "dict_keys_distinct x"
proof -
  obtain kvs where v: "v = PMap kvs" and d: "str_items kvs = Some d"
    using assms(2) by (cases v) (auto simp: expect_keys_def expect_mapping_def rbind_eq_Inr split: option.splits if_splits)
  have "(lit k, x) \<in> set d" using assms(3) by (auto simp: data_item_def dest: map_of_SomeD split: option.splits)
  then have "(PStr (lit k), x) \<in> set kvs" using d by (auto simp: str_items_eq_Some)
  then show ?thesis using assms(1) by (auto simp: v list_all_iff)
qed

lemmas plain_dict = expect_keys_pdict data_item_def

section \<open>Policies\<close>

record TimedChunkingPolicy =
  soft_min_tokens :: int
  target_tokens :: int
  soft_max_tokens :: int
  hard_max_tokens :: int
  soft_min_duration_ms :: int
  target_duration_ms :: int
  soft_max_duration_ms :: int
  hard_max_duration_ms :: int
  medium_pause_ms :: int
  strong_pause_ms :: int
  overlap_atoms :: int

definition new_TimedChunkingPolicy ::
  "pyobj \<Rightarrow> pyobj \<Rightarrow> pyobj \<Rightarrow> pyobj \<Rightarrow> pyobj \<Rightarrow> pyobj \<Rightarrow> pyobj \<Rightarrow> pyobj \<Rightarrow> pyobj \<Rightarrow> pyobj \<Rightarrow> pyobj \<Rightarrow>
   TimedChunkingPolicy result" where
  "new_TimedChunkingPolicy smin_t targ_t smax_t hard_t smin_d targ_d smax_d hard_d medium strong overlap =
     rbind (require_int smin_t ''token limit'' 1) (\<lambda>smin_t.
     rbind (require_int targ_t ''token limit'' 1) (\<lambda>targ_t.
     rbind (require_int smax_t ''token limit'' 1) (\<lambda>smax_t.
     rbind (require_int hard_t ''token limit'' 1) (\<lambda>hard_t.
     rbind (require_int smin_d ''duration limit'' 1) (\<lambda>smin_d.
     rbind (require_int targ_d ''duration limit'' 1) (\<lambda>targ_d.
     rbind (require_int smax_d ''duration limit'' 1) (\<lambda>smax_d.
     rbind (require_int hard_d ''duration limit'' 1) (\<lambda>hard_d.
     rbind (raise_if (sort [smin_t, targ_t, smax_t, hard_t] \<noteq> [smin_t, targ_t, smax_t, hard_t])
       (ValueError ''token limits must be non-decreasing'')) (\<lambda>_.
     rbind (raise_if (sort [smin_d, targ_d, smax_d, hard_d] \<noteq> [smin_d, targ_d, smax_d, hard_d])
       (ValueError ''duration limits must be non-decreasing'')) (\<lambda>_.
     rbind (require_int medium ''medium_pause_ms'' 0) (\<lambda>medium.
     rbind (require_int strong ''strong_pause_ms'' 0) (\<lambda>strong.
     rbind (raise_if (strong < medium)
       (ValueError ''strong_pause_ms must be greater than or equal to medium_pause_ms'')) (\<lambda>_.
     rbind (require_int overlap ''overlap_atoms'' 0) (\<lambda>overlap.
     Inr \<lparr>soft_min_tokens = smin_t, target_tokens = targ_t, soft_max_tokens = smax_t, hard_max_tokens = hard_t,
          soft_min_duration_ms = smin_d, target_duration_ms = targ_d, soft_max_duration_ms = smax_d,
          hard_max_duration_ms = hard_d, medium_pause_ms = medium, strong_pause_ms = strong,
          overlap_atoms = overlap\<rparr>))))))))))))))"

definition policy_to_dict :: "TimedChunkingPolicy \<Rightarrow> pyobj" where
  "policy_to_dict p = pdict
     [(''hard_max_duration_ms'', PInt (hard_max_duration_ms p)), (''hard_max_tokens'', PInt (hard_max_tokens p)),
      (''medium_pause_ms'', PInt (medium_pause_ms p)), (''overlap_atoms'', PInt (overlap_atoms p)),
      (''soft_max_duration_ms'', PInt (soft_max_duration_ms p)), (''soft_max_tokens'', PInt (soft_max_tokens p)),
      (''soft_min_duration_ms'', PInt (soft_min_duration_ms p)), (''soft_min_tokens'', PInt (soft_min_tokens p)),
      (''strong_pause_ms'', PInt (strong_pause_ms p)), (''target_duration_ms'', PInt (target_duration_ms p)),
      (''target_tokens'', PInt (target_tokens p))]"

definition policy_keys :: "pystr list" where
  "policy_keys = map lit [''hard_max_duration_ms'', ''hard_max_tokens'', ''medium_pause_ms'', ''overlap_atoms'',
     ''soft_max_duration_ms'', ''soft_max_tokens'', ''soft_min_duration_ms'', ''soft_min_tokens'', ''strong_pause_ms'',
     ''target_duration_ms'', ''target_tokens'']"

definition policy_from_dict :: "pyobj \<Rightarrow> TimedChunkingPolicy result" where
  "policy_from_dict value =
     rbind (expect_keys value ''timed chunking policy'' policy_keys) (\<lambda>data.
     rbind (data_item data ''soft_min_tokens'') (\<lambda>a.
     rbind (data_item data ''target_tokens'') (\<lambda>b.
     rbind (data_item data ''soft_max_tokens'') (\<lambda>c.
     rbind (data_item data ''hard_max_tokens'') (\<lambda>d.
     rbind (data_item data ''soft_min_duration_ms'') (\<lambda>e.
     rbind (data_item data ''target_duration_ms'') (\<lambda>f.
     rbind (data_item data ''soft_max_duration_ms'') (\<lambda>g.
     rbind (data_item data ''hard_max_duration_ms'') (\<lambda>h.
     rbind (data_item data ''medium_pause_ms'') (\<lambda>i.
     rbind (data_item data ''strong_pause_ms'') (\<lambda>j.
     rbind (data_item data ''overlap_atoms'') (\<lambda>k.
     new_TimedChunkingPolicy a b c d e f g h i j k))))))))))))"

record TextNormalizationPolicy =
  norm_version :: pystr
  norm_whitespace :: pystr

text \<open>\<open>x not in {...}\<close> for a set of strings: an unhashable object raises \<open>TypeError\<close>.\<close>

definition require_member :: "pyobj \<Rightarrow> pystr list \<Rightarrow> string \<Rightarrow> pystr result" where
  "require_member value names message =
     (if \<not> hashable value then Inl (TypeError ''unhashable type'')
      else case value of
        PStr s \<Rightarrow> if s \<in> set names then Inr s else Inl (ValueError message)
      | _ \<Rightarrow> Inl (ValueError message))"

definition new_TextNormalizationPolicy :: "pyobj \<Rightarrow> pyobj \<Rightarrow> TextNormalizationPolicy result" where
  "new_TextNormalizationPolicy version whitespace =
     rbind (require_text version ''version'' False) (\<lambda>version.
     rbind (require_member whitespace [lit ''preserve'', lit ''technical-collapse'']
       ''whitespace must be preserve or technical-collapse'') (\<lambda>whitespace.
     Inr \<lparr>norm_version = version, norm_whitespace = whitespace\<rparr>))"

definition norm_to_dict :: "TextNormalizationPolicy \<Rightarrow> pyobj" where
  "norm_to_dict p = pdict [(''version'', PStr (norm_version p)), (''whitespace'', PStr (norm_whitespace p))]"

definition norm_from_dict :: "pyobj \<Rightarrow> TextNormalizationPolicy result" where
  "norm_from_dict value =
     rbind (expect_keys value ''normalization policy'' [lit ''version'', lit ''whitespace'']) (\<lambda>data.
     rbind (data_item data ''version'') (\<lambda>a.
     rbind (data_item data ''whitespace'') (\<lambda>b.
     new_TextNormalizationPolicy a b)))"

definition OVERFLOW_POLICIES :: "pystr list" where
  "OVERFLOW_POLICIES = [lit ''reject'', lit ''caller_split'']"

record WholeResourceTextPolicy =
  whole_max_tokens :: int
  whole_overflow :: pystr

definition new_WholeResourceTextPolicy :: "pyobj \<Rightarrow> pyobj \<Rightarrow> WholeResourceTextPolicy result" where
  "new_WholeResourceTextPolicy max_tokens overflow =
     rbind (require_int max_tokens ''max_tokens'' 1) (\<lambda>max_tokens.
     rbind (require_member overflow OVERFLOW_POLICIES ''overflow must be reject or caller_split'') (\<lambda>overflow.
     Inr \<lparr>whole_max_tokens = max_tokens, whole_overflow = overflow\<rparr>))"

definition whole_to_dict :: "WholeResourceTextPolicy \<Rightarrow> pyobj" where
  "whole_to_dict p = pdict [(''max_tokens'', PInt (whole_max_tokens p)), (''overflow'', PStr (whole_overflow p))]"

definition whole_from_dict :: "pyobj \<Rightarrow> WholeResourceTextPolicy result" where
  "whole_from_dict value =
     rbind (expect_keys value ''whole resource text policy'' [lit ''max_tokens'', lit ''overflow'']) (\<lambda>data.
     rbind (data_item data ''max_tokens'') (\<lambda>a.
     rbind (data_item data ''overflow'') (\<lambda>b.
     new_WholeResourceTextPolicy a b)))"

section \<open>Locators\<close>

definition LOCATOR_TIME_SEGMENT :: pystr where "LOCATOR_TIME_SEGMENT = lit ''time_segment''"
definition LOCATOR_VIDEO_FRAME :: pystr where "LOCATOR_VIDEO_FRAME = lit ''video_frame''"
definition LOCATOR_WHOLE_MEDIA :: pystr where "LOCATOR_WHOLE_MEDIA = lit ''whole_media''"
definition TRACK_AUDIO :: pystr where "TRACK_AUDIO = lit ''audio''"
definition TRACK_VIDEO :: pystr where "TRACK_VIDEO = lit ''video''"
definition TRACKS :: "pystr list" where "TRACKS = [TRACK_AUDIO, TRACK_VIDEO]"

record TimeSegmentLocator =
  seg_start_ms :: int
  seg_end_ms :: int
  seg_track :: pystr

definition new_TimeSegmentLocator :: "pyobj \<Rightarrow> pyobj \<Rightarrow> pyobj \<Rightarrow> TimeSegmentLocator result" where
  "new_TimeSegmentLocator start_ms end_ms track =
     rbind (require_int start_ms ''start_ms'' 0) (\<lambda>start_ms.
     rbind (require_int end_ms ''end_ms'' 0) (\<lambda>end_ms.
     rbind (raise_if (end_ms \<le> start_ms) (ValueError ''end_ms must be greater than start_ms'')) (\<lambda>_.
     rbind (require_text track ''track'' False) (\<lambda>track.
     rbind (raise_if (track \<notin> set TRACKS) (ValueError ''track must be audio or video'')) (\<lambda>_.
     Inr \<lparr>seg_start_ms = start_ms, seg_end_ms = end_ms, seg_track = track\<rparr>)))))"

definition segment_to_dict :: "TimeSegmentLocator \<Rightarrow> pyobj" where
  "segment_to_dict l = pdict
     [(''end_ms'', PInt (seg_end_ms l)), (''start_ms'', PInt (seg_start_ms l)), (''track'', PStr (seg_track l))]"

definition segment_to_core_locator :: "TimeSegmentLocator \<Rightarrow> Locator result" where
  "segment_to_core_locator l = new_Locator (PStr LOCATOR_TIME_SEGMENT) (pdict
     [(''end_ms'', PInt (seg_end_ms l)), (''start_ms'', PInt (seg_start_ms l)), (''track'', PStr (seg_track l))])"

definition segment_from_dict :: "pyobj \<Rightarrow> TimeSegmentLocator result" where
  "segment_from_dict value =
     rbind (expect_keys value ''time segment locator'' [lit ''start_ms'', lit ''end_ms'', lit ''track'']) (\<lambda>data.
     rbind (data_item data ''start_ms'') (\<lambda>a.
     rbind (data_item data ''end_ms'') (\<lambda>b.
     rbind (data_item data ''track'') (\<lambda>c.
     new_TimeSegmentLocator a b c))))"

record VideoFrameLocator =
  vf_timestamp_ms :: int
  vf_frame_id :: pystr

definition new_VideoFrameLocator :: "pyobj \<Rightarrow> pyobj \<Rightarrow> VideoFrameLocator result" where
  "new_VideoFrameLocator timestamp_ms frame =
     rbind (require_int timestamp_ms ''timestamp_ms'' 0) (\<lambda>timestamp_ms.
     rbind (validate_media_id frame ''frame_id'' (Some ID_FRAME)) (\<lambda>frame.
     Inr \<lparr>vf_timestamp_ms = timestamp_ms, vf_frame_id = frame\<rparr>))"

definition frame_locator_to_dict :: "VideoFrameLocator \<Rightarrow> pyobj" where
  "frame_locator_to_dict l = pdict
     [(''frame_id'', PStr (vf_frame_id l)), (''timestamp_ms'', PInt (vf_timestamp_ms l))]"

definition frame_to_core_locator :: "VideoFrameLocator \<Rightarrow> Locator result" where
  "frame_to_core_locator l = new_Locator (PStr LOCATOR_VIDEO_FRAME) (pdict
     [(''frame_id'', PStr (vf_frame_id l)), (''timestamp_ms'', PInt (vf_timestamp_ms l))])"

definition frame_locator_from_dict :: "pyobj \<Rightarrow> VideoFrameLocator result" where
  "frame_locator_from_dict value =
     rbind (expect_keys value ''video frame locator'' [lit ''timestamp_ms'', lit ''frame_id'']) (\<lambda>data.
     rbind (data_item data ''timestamp_ms'') (\<lambda>a.
     rbind (data_item data ''frame_id'') (\<lambda>b.
     new_VideoFrameLocator a b)))"

datatype WholeMediaLocator = WholeMediaLocator

definition whole_media_to_core_locator :: "WholeMediaLocator \<Rightarrow> Locator result" where
  "whole_media_to_core_locator l = new_Locator (PStr LOCATOR_WHOLE_MEDIA) (pdict [])"

definition whole_media_to_dict :: "WholeMediaLocator \<Rightarrow> pyobj" where
  "whole_media_to_dict l = pdict []"

definition whole_media_from_dict :: "pyobj \<Rightarrow> WholeMediaLocator result" where
  "whole_media_from_dict value =
     rbind (expect_keys value ''whole media locator'' []) (\<lambda>_. Inr WholeMediaLocator)"

section \<open>Invariants and plain forms\<close>

definition wf_policy :: "TimedChunkingPolicy \<Rightarrow> bool" where
  "wf_policy p \<longleftrightarrow>
     1 \<le> soft_min_tokens p \<and> soft_min_tokens p \<le> target_tokens p \<and> target_tokens p \<le> soft_max_tokens p \<and>
     soft_max_tokens p \<le> hard_max_tokens p \<and>
     1 \<le> soft_min_duration_ms p \<and> soft_min_duration_ms p \<le> target_duration_ms p \<and>
     target_duration_ms p \<le> soft_max_duration_ms p \<and> soft_max_duration_ms p \<le> hard_max_duration_ms p \<and>
     0 \<le> medium_pause_ms p \<and> medium_pause_ms p \<le> strong_pause_ms p \<and> 0 \<le> overlap_atoms p"

lemma sort_eq_iff_sorted: "sort xs = xs \<longleftrightarrow> sorted xs"
  by (metis sorted_sort sorted_sort_id)

lemma new_TimedChunkingPolicy_wf: "new_TimedChunkingPolicy a b c d e f g h i j k = Inr p \<Longrightarrow> wf_policy p"
  unfolding new_TimedChunkingPolicy_def sort_eq_iff_sorted
  by (auto simp: result_simps wf_policy_def)

lemma new_TimedChunkingPolicy_again:
  assumes "wf_policy p"
  shows "new_TimedChunkingPolicy (PInt (soft_min_tokens p)) (PInt (target_tokens p)) (PInt (soft_max_tokens p))
    (PInt (hard_max_tokens p)) (PInt (soft_min_duration_ms p)) (PInt (target_duration_ms p)) (PInt (soft_max_duration_ms p))
    (PInt (hard_max_duration_ms p)) (PInt (medium_pause_ms p)) (PInt (strong_pause_ms p)) (PInt (overlap_atoms p)) = Inr p"
  using assms unfolding new_TimedChunkingPolicy_def sort_eq_iff_sorted
  by (simp add: require_int_def wf_policy_def)

lemma policy_codec: "record_codec wf_policy policy_to_dict policy_from_dict dict_keys_distinct"
proof
  show "policy_from_dict (policy_to_dict p) = Inr p" if "wf_policy p" for p
    using new_TimedChunkingPolicy_again [OF that]
    by (simp add: policy_from_dict_def policy_to_dict_def plain_dict policy_keys_def)
  show "wf_policy p" if "policy_from_dict v = Inr p" for v p
    using that by (auto simp: policy_from_dict_def rbind_eq_Inr dest: new_TimedChunkingPolicy_wf)
  show "dict_keys_distinct (policy_to_dict p)" for p by (simp add: policy_to_dict_def pdict_distinct)
qed

interpretation policy: record_codec wf_policy policy_to_dict policy_from_dict dict_keys_distinct
  by (rule policy_codec)

definition wf_norm_policy :: "TextNormalizationPolicy \<Rightarrow> bool" where
  "wf_norm_policy p \<longleftrightarrow> wf_name (norm_version p) \<and> norm_whitespace p \<in> {lit ''preserve'', lit ''technical-collapse''}"

lemma require_member_eq_Inr [result_simps]: "require_member v ns m = Inr s \<longleftrightarrow> v = PStr s \<and> s \<in> set ns"
  by (cases v) (auto simp: require_member_def)

interpretation norm_policy: record_codec wf_norm_policy norm_to_dict norm_from_dict dict_keys_distinct
proof
  show "norm_from_dict (norm_to_dict p) = Inr p" if "wf_norm_policy p" for p
    using that by (auto simp: norm_from_dict_def norm_to_dict_def plain_dict new_TextNormalizationPolicy_def
        wf_norm_policy_def wf_name_text require_text_def require_member_def)
  show "wf_norm_policy p" if "norm_from_dict v = Inr p" for v p
    using that by (auto simp: norm_from_dict_def new_TextNormalizationPolicy_def result_simps wf_norm_policy_def wf_name_text)
  show "dict_keys_distinct (norm_to_dict p)" for p by (simp add: norm_to_dict_def pdict_distinct)
qed

definition wf_whole_policy :: "WholeResourceTextPolicy \<Rightarrow> bool" where
  "wf_whole_policy p \<longleftrightarrow> 1 \<le> whole_max_tokens p \<and> whole_overflow p \<in> set OVERFLOW_POLICIES"

interpretation whole_policy: record_codec wf_whole_policy whole_to_dict whole_from_dict dict_keys_distinct
proof
  show "whole_from_dict (whole_to_dict p) = Inr p" if "wf_whole_policy p" for p
    using that by (auto simp: whole_from_dict_def whole_to_dict_def plain_dict new_WholeResourceTextPolicy_def
        wf_whole_policy_def require_int_def require_member_def)
  show "wf_whole_policy p" if "whole_from_dict v = Inr p" for v p
    using that by (auto simp: whole_from_dict_def new_WholeResourceTextPolicy_def result_simps wf_whole_policy_def)
  show "dict_keys_distinct (whole_to_dict p)" for p by (simp add: whole_to_dict_def pdict_distinct)
qed

definition wf_segment :: "TimeSegmentLocator \<Rightarrow> bool" where
  "wf_segment l \<longleftrightarrow> 0 \<le> seg_start_ms l \<and> seg_start_ms l < seg_end_ms l \<and> seg_track l \<in> set TRACKS"

lemma track_name: "t \<in> set TRACKS \<Longrightarrow> \<not> blank t \<and> utf8_encodable t"
  by (auto simp: TRACKS_def TRACK_AUDIO_def TRACK_VIDEO_def utf8_lit) (simp_all add: lit_def blank_iff py_isspace_def)

interpretation segment: record_codec wf_segment segment_to_dict segment_from_dict dict_keys_distinct
proof
  show "segment_from_dict (segment_to_dict l) = Inr l" if "wf_segment l" for l
  proof -
    have "set (map lit [''start_ms'', ''end_ms'', ''track'']) = lit ` set (map fst [(''end_ms'', PInt (seg_end_ms l)),
        (''start_ms'', PInt (seg_start_ms l)), (''track'', PStr (seg_track l))])" by auto
    then show ?thesis using that track_name [of "seg_track l"]
      by (simp add: segment_from_dict_def segment_to_dict_def expect_keys_pdict data_item_def new_TimeSegmentLocator_def
          wf_segment_def require_int_def require_text_def)
  qed
  show "wf_segment l" if "segment_from_dict v = Inr l" for v l
    using that by (auto simp: segment_from_dict_def new_TimeSegmentLocator_def result_simps wf_segment_def)
  show "dict_keys_distinct (segment_to_dict l)" for l by (simp add: segment_to_dict_def pdict_distinct)
qed

definition wf_frame_locator :: "VideoFrameLocator \<Rightarrow> bool" where
  "wf_frame_locator l \<longleftrightarrow> 0 \<le> vf_timestamp_ms l \<and> media_id ID_FRAME (vf_frame_id l)"

lemma validate_media_id_ok: "media_id k s \<Longrightarrow> validate_media_id (PStr s) f (Some k) = Inr s"
  by (simp add: validate_media_id_eq_Inr)

interpretation frame_locator: record_codec wf_frame_locator frame_locator_to_dict frame_locator_from_dict dict_keys_distinct
proof
  show "frame_locator_from_dict (frame_locator_to_dict l) = Inr l" if "wf_frame_locator l" for l
  proof -
    have "set (map lit [''timestamp_ms'', ''frame_id'']) = lit ` set (map fst [(''frame_id'', PStr (vf_frame_id l)),
        (''timestamp_ms'', PInt (vf_timestamp_ms l))])" by auto
    then show ?thesis using that
      by (simp add: frame_locator_from_dict_def frame_locator_to_dict_def expect_keys_pdict data_item_def
          new_VideoFrameLocator_def wf_frame_locator_def require_int_def validate_media_id_ok)
  qed
  show "wf_frame_locator l" if "frame_locator_from_dict v = Inr l" for v l
    using that by (auto simp: frame_locator_from_dict_def new_VideoFrameLocator_def result_simps wf_frame_locator_def)
  show "dict_keys_distinct (frame_locator_to_dict l)" for l by (simp add: frame_locator_to_dict_def pdict_distinct)
qed

interpretation whole_media: record_codec "\<lambda>_. True" whole_media_to_dict whole_media_from_dict dict_keys_distinct
proof
  show "whole_media_from_dict (whole_media_to_dict l) = Inr l" for l
    by (cases l) (simp add: whole_media_from_dict_def whole_media_to_dict_def expect_keys_pdict)
qed (simp_all add: whole_media_to_dict_def pdict_distinct)

section \<open>Plain values that freeze\<close>

text \<open>Plain values that freezing accepts; \<open>d\<close> is the number of enclosing containers.\<close>

fun freezable :: "pyobj \<Rightarrow> nat \<Rightarrow> bool" where
  "freezable PNone d = True"
| "freezable (PBool b) d = True"
| "freezable (PInt i) d = True"
| "freezable (PStr s) d = utf8_encodable s"
| "freezable (PList xs) d = (d < MAX_JSON_CONTAINER_DEPTH \<and> (\<forall>x \<in> set xs. freezable x (d + 1)))"
| "freezable (PMap kvs) d = (d < MAX_JSON_CONTAINER_DEPTH \<and>
     (\<forall>(k, x) \<in> set kvs. (\<exists>s. k = PStr s \<and> utf8_encodable s) \<and> freezable x (d + 1)))"
| "freezable _ d = False"

lemma freeze_elements_total: "\<forall>x \<in> set xs. \<exists>j. freeze_json x f d = Inr j \<Longrightarrow> \<exists>js. freeze_elements xs f d = Inr js"
  by (induction xs) auto

lemma freeze_entries_total:
  "\<forall>(k, x) \<in> set kvs. utf8_encodable k \<and> (\<exists>j. freeze_json x (f @ '' value'') d = Inr j) \<Longrightarrow> \<exists>ms. freeze_entries kvs f d = Inr ms"
proof (induction kvs)
  case (Cons kv kvs)
  then show ?case by (cases kv) (auto simp: require_text_def)
qed simp

lemma freezable_freezes: "freezable v d \<Longrightarrow> \<exists>j. freeze_json v f d = Inr j"
proof (induction v d arbitrary: f rule: freezable.induct)
  case (5 xs d)
  then have "\<exists>js. freeze_elements xs (f @ ''[]'') (d + 1) = Inr js" by (intro freeze_elements_total) auto
  then show ?case using 5 by (auto simp: freeze_json.simps)
next
  case (6 kvs d)
  then have k: "\<forall>(k, x) \<in> set kvs. \<exists>s. k = PStr s \<and> utf8_encodable s" by auto
  have "\<exists>its. str_items kvs = Some its" using k by (induction kvs) auto
  then obtain its where its: "str_items kvs = Some its" by blast
  then have "\<forall>(k, x) \<in> set its. (PStr k, x) \<in> set kvs" by (auto simp: str_items_eq_Some)
  then have "\<forall>(k, x) \<in> set (sort_key fst its). utf8_encodable k \<and> (\<exists>j. freeze_json x (f @ '' value'') (d + 1) = Inr j)"
    using 6 by fastforce
  then obtain ms where "freeze_entries (sort_key fst its) f (d + 1) = Inr ms" using freeze_entries_total by blast
  then show ?case using 6 its by (simp add: freeze_json.simps)
qed (simp_all add: freeze_json.simps require_text_def)

lemma freezable_pdict:
  "freezable (pdict kvs) d \<longleftrightarrow> d < MAX_JSON_CONTAINER_DEPTH \<and> (\<forall>(k, v) \<in> set kvs. freezable v (d + 1))"
  by (auto simp: pdict_def utf8_lit)

lemma freeze_metadata_total: "freezable (pdict kvs) 0 \<Longrightarrow> \<exists>ms. freeze_metadata (pdict kvs) f = Inr ms"
proof -
  assume "freezable (pdict kvs) 0"
  then obtain j where j: "freeze_json (pdict kvs) f 0 = Inr j" using freezable_freezes by blast
  then show ?thesis by (cases j) (auto simp: freeze_metadata_def pdict_def freeze_json.simps rbind_eq_Inr split: option.splits if_splits)
qed

end
