(* ===== verification/Media_Retrieval.thy ===== *)
theory Media_Retrieval
  imports Media_Policies
begin

text \<open>
  \<open>mdrack_media/retrieval.py\<close>: offline search in prepared batches. The scope and the mode select units, a text
  branch counts the query's words, the branches are projected or fused, and frames near the hits are added. Case folding
  and the word characters of the Unicode database are a parameter.
\<close>

section \<open>Unicode\<close>

text \<open>The tables of the interpreter's Unicode database: \<open>str.casefold\<close> and the class \<open>\w\<close> of a pattern.\<close>

record unicode_tables =
  casefold :: "pystr \<Rightarrow> pystr"
  word_char :: "nat \<Rightarrow> bool"

text \<open>\<open>s.count(t)\<close>: occurrences that do not overlap, from the left.\<close>

function str_count :: "pystr \<Rightarrow> pystr \<Rightarrow> nat" where
  "str_count t s =
     (if t = [] then length s + 1
      else if length s < length t then 0
      else if take (length t) s = t then 1 + str_count t (drop (length t) s)
      else str_count t (drop 1 s))"
  by pat_completeness auto
termination
  by (relation "measure (\<lambda>(t, s). length s)") (auto simp: neq_Nil_conv)

declare str_count.simps [simp del]

text \<open>\<open>re.compile(r"\w+").findall(s)\<close>: the maximal runs of word characters.\<close>

function find_words :: "(nat \<Rightarrow> bool) \<Rightarrow> pystr \<Rightarrow> pystr list" where
  "find_words w s =
     (case dropWhile (\<lambda>c. \<not> w c) s of
        [] \<Rightarrow> []
      | c # cs \<Rightarrow> (c # takeWhile w cs) # find_words w (dropWhile w cs))"
  by pat_completeness auto
termination
proof (relation "measure (\<lambda>(w, s). length s)", goal_cases)
  case (2 w s c cs)
  then have "length (c # cs) \<le> length s" by (metis length_dropWhile_le)
  then show ?case using length_dropWhile_le [of w cs] by simp
qed simp

declare find_words.simps [simp del]

section \<open>Results\<close>

definition TRANSCRIPT_UNIT :: pystr where "TRANSCRIPT_UNIT = lit ''time_segment''"
definition FRAME_UNIT :: pystr where "FRAME_UNIT = lit ''frame''"

datatype RetrievalMode = transcript_mode | frame_mode | hybrid_mode

definition mode_name :: "RetrievalMode \<Rightarrow> pystr" where
  "mode_name m = (case m of transcript_mode \<Rightarrow> lit ''transcript'' | frame_mode \<Rightarrow> lit ''frame'' | hybrid_mode \<Rightarrow> lit ''hybrid'')"

record MediaRetrievalEvidence =
  me_unit_id :: pystr
  me_resource_id :: pystr
  me_representation_id :: pystr
  me_source_type :: pystr
  me_unit_kind :: pystr
  me_timestamp_ms :: "int option"
  me_start_ms :: "int option"
  me_end_ms :: "int option"
  me_timestamp_unit :: pystr
  me_frame_id :: "pystr option"
  me_replacement :: jmap
  me_provenance :: "(string \<times> pyobj) list list"

definition evidence_to_dict :: "MediaRetrievalEvidence \<Rightarrow> pyobj" where
  "evidence_to_dict e = pdict
     [(''unit_id'', PStr (me_unit_id e)), (''resource_id'', PStr (me_resource_id e)),
      (''representation_id'', PStr (me_representation_id e)), (''source_type'', PStr (me_source_type e)),
      (''unit_kind'', PStr (me_unit_kind e)), (''timestamp_ms'', opt_int (me_timestamp_ms e)),
      (''start_ms'', opt_int (me_start_ms e)), (''end_ms'', opt_int (me_end_ms e)),
      (''timestamp_unit'', PStr (me_timestamp_unit e)), (''frame_id'', opt_str (me_frame_id e)),
      (''replacement'', of_jmap (me_replacement e)), (''provenance'', PList (map pdict (me_provenance e)))]"

record MediaRetrievalItem =
  mi_unit_id :: pystr
  mi_resource_id :: pystr
  mi_unit_kind :: pystr
  mi_score :: pyfloat
  mi_rank :: nat
  mi_evidence_locator :: Locator
  mi_metadata :: jmap
  mi_evidence :: "MediaRetrievalEvidence option"

definition media_item_to_dict :: "MediaRetrievalItem \<Rightarrow> pyobj result" where
  "media_item_to_dict x =
     (case mi_evidence x of
        None \<Rightarrow> Inl (ValueError ''retrieval item has no assembled public evidence'')
      | Some e \<Rightarrow> Inr (pdict
          [(''unit_id'', PStr (mi_unit_id x)), (''resource_id'', PStr (mi_resource_id x)),
           (''unit_kind'', PStr (mi_unit_kind x)), (''score'', PFloat (mi_score x)), (''rank'', PInt (int (mi_rank x))),
           (''evidence'', evidence_to_dict e)]))"

record MediaRetrievalResult =
  mr_query :: pystr
  mr_mode :: RetrievalMode
  mr_items :: "MediaRetrievalItem list"
  mr_nearby_frames :: "MediaRetrievalItem list"

definition media_result_to_dict :: "MediaRetrievalResult \<Rightarrow> pyobj result" where
  "media_result_to_dict r =
     rbind (rmap media_item_to_dict (mr_items r)) (\<lambda>items.
     rbind (rmap media_item_to_dict (mr_nearby_frames r)) (\<lambda>nearby.
     Inr (pdict
       [(''query'', PStr (mr_query r)), (''mode'', PStr (mode_name (mr_mode r))), (''items'', PList items),
        (''nearby_frames'', PList nearby)])))"

section \<open>Weights and modes\<close>

definition validate_weight :: "pyobj \<Rightarrow> string \<Rightarrow> unit result" where
  "validate_weight value name =
     (let bad = ValueError (name @ '' must be a finite non-negative number'')
      in case value of
           PInt i \<Rightarrow> rbind (float_of_int i) (\<lambda>_. raise_if (i < 0) bad)
         | PFloat f \<Rightarrow> raise_if (\<not> isfinite f \<or> fless f (Fin 0)) bad
         | _ \<Rightarrow> Inl bad)"

definition weight_is_zero :: "pyobj \<Rightarrow> bool" where
  "weight_is_zero value \<longleftrightarrow> (case value of PInt i \<Rightarrow> i = 0 | PFloat f \<Rightarrow> f = Fin 0 | _ \<Rightarrow> False)"

text \<open>\<open>weight / (60 + rank)\<close>: the quotient of two integers is rounded once.\<close>

definition weight_share :: "pyobj \<Rightarrow> nat \<Rightarrow> pyfloat result" where
  "weight_share weight rank =
     (case weight of
        PInt i \<Rightarrow> (case mk_float (of_int i / of_nat (60 + rank)) of Fin q \<Rightarrow> Inr (Fin q) | _ \<Rightarrow> Inl OverflowError)
      | PFloat f \<Rightarrow> fdiv_int f (int (60 + rank))
      | _ \<Rightarrow> Inl (TypeError ''unsupported operand''))"

definition retrieval_mode :: "pyobj \<Rightarrow> RetrievalMode result" where
  "retrieval_mode mode =
     (if \<not> hashable mode then Inl (TypeError ''unhashable type'')
      else if mode = PStr (lit ''transcript'') then Inr transcript_mode
      else if mode = PStr (lit ''frame'') then Inr frame_mode
      else if mode = PStr (lit ''hybrid'') then Inr hybrid_mode
      else Inl (ValueError ''mode must be transcript, frame, or hybrid''))"

section \<open>Selection of units\<close>

definition allowed_kinds :: "RetrievalMode \<Rightarrow> SearchScope \<Rightarrow> pystr list" where
  "allowed_kinds mode scope =
     (let allowed =
            (case mode of hybrid_mode \<Rightarrow> [TRANSCRIPT_UNIT, FRAME_UNIT] | transcript_mode \<Rightarrow> [TRANSCRIPT_UNIT]
             | frame_mode \<Rightarrow> [FRAME_UNIT])
      in if scope_unit_kinds scope = [] then allowed else filter (\<lambda>k. k \<in> set (scope_unit_kinds scope)) allowed)"

text \<open>The tests of \<open>_units\<close> on a batch, each of which continues with the next batch.\<close>

definition batch_in_scope :: "SearchScope \<Rightarrow> PreparedResourceBatch \<Rightarrow> bool" where
  "batch_in_scope scope batch =
     (let resource = batch_resource batch;
          facets = set (map rf_facet (batch_facets batch))
      in if scope_resource_kinds scope \<noteq> [] \<and> res_kind resource \<notin> set (scope_resource_kinds scope) then False
         else if scope_media_types scope \<noteq> [] \<and> res_media_type resource \<notin> set (scope_media_types scope) then False
         else if scope_source_namespaces scope \<noteq> [] \<and> res_source_namespace resource \<notin> set (scope_source_namespaces scope)
         then False
         else if scope_facets_any scope \<noteq> [] \<and> facets \<inter> set (scope_facets_any scope) = {} then False
         else if scope_facets_all scope \<noteq> [] \<and> \<not> set (scope_facets_all scope) \<subseteq> facets then False
         else if scope_facets_none scope \<noteq> [] \<and> facets \<inter> set (scope_facets_none scope) \<noteq> {} then False
         else True)"

definition unit_selected ::
  "RetrievalMode \<Rightarrow> SearchScope \<Rightarrow> RepresentationRecord list \<Rightarrow> SearchUnitRecord \<Rightarrow> SearchUnitRecord list result" where
  "unit_selected mode scope representations u =
     (case map_of (rev (map (\<lambda>r. (rep_id r, r)) representations)) (unit_representation_id u) of
        None \<Rightarrow> Inl KeyError
      | Some rep \<Rightarrow>
          Inr (if unit_kind u \<notin> set (allowed_kinds mode scope) then []
               else if scope_representation_kinds scope \<noteq> [] \<and>
                 rep_kind rep \<notin> set (scope_representation_kinds scope) then []
               else if scope_modalities scope \<noteq> [] \<and> unit_modality u \<notin> set (scope_modalities scope) then []
               else [u]))"

definition batch_selection ::
  "RetrievalMode \<Rightarrow> SearchScope \<Rightarrow> PreparedResourceBatch anyobj \<Rightarrow> SearchUnitRecord list result" where
  "batch_selection mode scope item =
     (case item of
        Untyped \<Rightarrow> Inl OtherException
      | Typed batch \<Rightarrow>
          if \<not> batch_in_scope scope batch then Inr []
          else rbind (rmap (unit_selected mode scope (batch_representations batch)) (batch_units batch)) (\<lambda>uss.
               Inr (concat uss)))"

definition media_units ::
  "PreparedResourceBatch pyseq \<Rightarrow> RetrievalMode \<Rightarrow> SearchScope \<Rightarrow> SearchUnitRecord list result" where
  "media_units batches mode scope =
     (case batches of
        PyNotSeq \<Rightarrow> Inl (TypeError ''batches must be a sequence'')
      | PySeq items \<Rightarrow> rbind (rmap (batch_selection mode scope) items) (\<lambda>uss. Inr (concat uss)))"

section \<open>Ranking\<close>

text \<open>\<open>float(sum(text.count(term) for term in terms))\<close>.\<close>

definition term_hits :: "unicode_tables \<Rightarrow> pystr list \<Rightarrow> SearchUnitRecord \<Rightarrow> nat" where
  "term_hits uni terms u =
     (let text = casefold uni (case unit_text u of None \<Rightarrow> [] | Some t \<Rightarrow> t)
      in sum_list (map (\<lambda>t. str_count t text) terms))"

definition rank_units ::
  "unicode_tables \<Rightarrow> SearchUnitRecord list \<Rightarrow> pystr list \<Rightarrow> (SearchUnitRecord \<times> pyfloat) list result" where
  "rank_units uni units terms =
     rbind (rmap (\<lambda>u. rbind (float_of_int (int (term_hits uni terms u))) (\<lambda>score. Inr (u, score))) units) (\<lambda>scored.
     Inr (sort_key (\<lambda>(u, score). (fneg score, unit_id u)) (filter (\<lambda>(u, score). score \<noteq> Fin 0) scored)))"

definition PUBLIC_METADATA_KEYS :: "pystr list" where
  "PUBLIC_METADATA_KEYS = map lit [''content_fingerprint'', ''observation_identity'', ''source_atom_ids'',
     ''similarity_basis'', ''grouper_fingerprint'', ''aggregation_fingerprint'', ''normalization_fingerprint'',
     ''producer_fingerprint'']"

definition json_int :: "json option \<Rightarrow> int option" where
  "json_int v = (case v of Some (JInt i) \<Rightarrow> Some i | _ \<Rightarrow> None)"

definition json_str :: "json option \<Rightarrow> pystr option" where
  "json_str v = (case v of Some (JStr s) \<Rightarrow> Some s | _ \<Rightarrow> None)"

definition media_evidence :: "SearchUnitRecord \<Rightarrow> (string \<times> pyobj) list list \<Rightarrow> MediaRetrievalEvidence" where
  "media_evidence u provenance =
     (let payload = map_of (loc_payload (unit_evidence_locator u));
          source_type = (if unit_kind u = FRAME_UNIT then lit ''frame'' else lit ''transcript'');
          source_type = (if unit_kind u = lit ''whole_resource'' then lit ''whole_resource'' else source_type)
      in \<lparr>me_unit_id = unit_id u, me_resource_id = unit_resource_id u, me_representation_id = unit_representation_id u,
          me_source_type = source_type, me_unit_kind = unit_kind u,
          me_timestamp_ms = json_int (payload (lit ''timestamp_ms'')),
          me_start_ms = json_int (payload (lit ''start_ms'')), me_end_ms = json_int (payload (lit ''end_ms'')),
          me_timestamp_unit = lit ''ms'', me_frame_id = json_str (payload (lit ''frame_id'')),
          me_replacement = filter (\<lambda>(k, v). k \<in> set PUBLIC_METADATA_KEYS) (unit_metadata u),
          me_provenance = provenance\<rparr>)"

definition media_item ::
  "SearchUnitRecord \<Rightarrow> pyfloat \<Rightarrow> nat \<Rightarrow> (string \<times> pyobj) list list \<Rightarrow> MediaRetrievalItem" where
  "media_item u score rank provenance =
     \<lparr>mi_unit_id = unit_id u, mi_resource_id = unit_resource_id u, mi_unit_kind = unit_kind u, mi_score = score,
      mi_rank = rank, mi_evidence_locator = unit_evidence_locator u, mi_metadata = unit_metadata u,
      mi_evidence = Some (media_evidence u provenance)\<rparr>"

definition project_units :: "(SearchUnitRecord \<times> pyfloat) list \<Rightarrow> nat \<Rightarrow> pystr \<Rightarrow> MediaRetrievalItem list" where
  "project_units ranked limit branch_id =
     map (\<lambda>(rank, u, score). media_item u score rank
           [[(''branch_id'', PStr branch_id), (''branch_rank'', PInt (int rank)), (''branch_score'', PFloat score)]])
       (List.enumerate 1 (take limit ranked))"

record hybrid_state =
  hs_scores :: "(pystr, pyfloat) dict"
  hs_units :: "(pystr, SearchUnitRecord) dict"
  hs_provenance :: "(pystr, (string \<times> pyobj) list list) dict"

definition hybrid_entry ::
  "pystr \<Rightarrow> pyobj \<Rightarrow> nat \<times> SearchUnitRecord \<times> pyfloat \<Rightarrow> hybrid_state \<Rightarrow> hybrid_state result" where
  "hybrid_entry branch weight = (\<lambda>(rank, u, branch_score) st.
     rbind (weight_share weight rank) (\<lambda>share.
     Inr \<lparr>hs_scores = AList.update (unit_id u) (fadd (dict_get (hs_scores st) (unit_id u) (Fin 0)) share) (hs_scores st),
          hs_units = AList.update (unit_id u) u (hs_units st),
          hs_provenance = AList.update (unit_id u)
            (dict_get (hs_provenance st) (unit_id u) [] @
              [[(''branch_id'', PStr branch), (''branch_rank'', PInt (int rank)), (''branch_weight'', weight),
                (''branch_score'', PFloat branch_score)]])
            (hs_provenance st)\<rparr>))"

definition hybrid_branch ::
  "pystr \<times> pyobj \<times> (SearchUnitRecord \<times> pyfloat) list \<Rightarrow> hybrid_state \<Rightarrow> hybrid_state result" where
  "hybrid_branch = (\<lambda>(branch, weight, ranked) st.
     if weight_is_zero weight then Inr st else rfold (hybrid_entry branch weight) (List.enumerate 1 ranked) st)"

definition hybrid_units ::
  "(SearchUnitRecord \<times> pyfloat) list \<Rightarrow> (SearchUnitRecord \<times> pyfloat) list \<Rightarrow> pyobj \<Rightarrow> pyobj \<Rightarrow> nat \<Rightarrow>
   MediaRetrievalItem list result" where
  "hybrid_units transcripts frames transcript_weight frame_weight limit =
     rbind (rfold hybrid_branch
         [(lit ''transcript'', transcript_weight, transcripts), (lit ''frame'', frame_weight, frames)]
         \<lparr>hs_scores = [], hs_units = [], hs_provenance = []\<rparr>) (\<lambda>st.
     rmap (\<lambda>(rank, uid).
         case (map_of (hs_units st) uid, map_of (hs_scores st) uid, map_of (hs_provenance st) uid) of
           (Some u, Some score, Some provenance) \<Rightarrow> Inr (media_item u score rank provenance)
         | _ \<Rightarrow> Inl KeyError)
       (List.enumerate 1 (take limit
         (sort_key (\<lambda>uid. (fneg (dict_get (hs_scores st) uid (Fin 0)), uid)) (keys (hs_scores st))))))"

section \<open>Nearby frames\<close>

definition locator_timestamp :: "Locator \<Rightarrow> int option" where
  "locator_timestamp l =
     (let payload = map_of (loc_payload l)
      in case payload (lit ''timestamp_ms'') of
           Some (JInt i) \<Rightarrow> Some i
         | _ \<Rightarrow> json_int (payload (lit ''start_ms'')))"

definition add_selected_time :: "MediaRetrievalItem \<Rightarrow> (pystr, int list) dict \<Rightarrow> (pystr, int list) dict" where
  "add_selected_time item stamps =
     (case locator_timestamp (mi_evidence_locator item) of
        None \<Rightarrow> stamps
      | Some t \<Rightarrow> AList.update (mi_resource_id item) (dict_get stamps (mi_resource_id item) [] @ [t]) stamps)"

definition nearby_candidate ::
  "pystr set \<Rightarrow> (pystr, int list) dict \<Rightarrow> SearchUnitRecord \<Rightarrow> (int \<times> SearchUnitRecord) list" where
  "nearby_candidate selected_ids stamps u =
     (if unit_kind u \<noteq> FRAME_UNIT \<or> unit_id u \<in> selected_ids then []
      else case (locator_timestamp (unit_evidence_locator u), map_of stamps (unit_resource_id u)) of
             (Some t, Some ts) \<Rightarrow> [(min_list (map (\<lambda>s. abs (t - s)) ts), u)]
           | _ \<Rightarrow> [])"

definition nearby_frames :: "SearchUnitRecord list \<Rightarrow> MediaRetrievalItem list \<Rightarrow> nat \<Rightarrow> MediaRetrievalItem list" where
  "nearby_frames units selected limit =
     (if limit = 0 then []
      else
        let stamps = fold add_selected_time selected [];
            candidates = concat (map (nearby_candidate (set (map mi_unit_id selected)) stamps) units)
        in map (\<lambda>(rank, distance, u). media_item u (Fin 0) rank
                 [[(''relation'', PStr (lit ''nearby_frame'')), (''distance_ms'', PInt distance)]])
             (List.enumerate 1 (take limit (sort_key (\<lambda>(distance, u). (distance, unit_id u)) candidates))))"

section \<open>The search\<close>

definition empty_scope :: SearchScope where
  "empty_scope = \<lparr>scope_resource_kinds = [], scope_media_types = [], scope_source_namespaces = [],
     scope_representation_kinds = [], scope_modalities = [], scope_unit_kinds = [], scope_facets_any = [],
     scope_facets_all = [], scope_facets_none = []\<rparr>"

text \<open>\<open>type(value) is not int or value < minimum\<close>.\<close>

definition int_at_least :: "int \<Rightarrow> string \<Rightarrow> pyobj \<Rightarrow> nat result" where
  "int_at_least minimum message value =
     (case value of
        PInt i \<Rightarrow> if i < minimum then Inl (ValueError message) else Inr (nat i)
      | _ \<Rightarrow> Inl (ValueError message))"

definition select_items ::
  "unicode_tables \<Rightarrow> SearchUnitRecord list \<Rightarrow> pystr \<Rightarrow> RetrievalMode \<Rightarrow> nat \<Rightarrow> pyobj \<Rightarrow> pyobj \<Rightarrow>
   MediaRetrievalItem list result" where
  "select_items uni units query mode limit transcript_weight frame_weight =
     (let terms = find_words (word_char uni) (casefold uni query);
          transcripts = rank_units uni (filter (\<lambda>u. unit_kind u = TRANSCRIPT_UNIT) units) terms;
          frames = rank_units uni (filter (\<lambda>u. unit_kind u = FRAME_UNIT) units) terms
      in case mode of
           transcript_mode \<Rightarrow> rbind transcripts (\<lambda>r. Inr (project_units r limit (lit ''transcript'')))
         | frame_mode \<Rightarrow> rbind frames (\<lambda>r. Inr (project_units r limit (lit ''frame'')))
         | hybrid_mode \<Rightarrow> rbind transcripts (\<lambda>t. rbind frames (\<lambda>f. hybrid_units t f transcript_weight frame_weight limit)))"

definition retrieve_media ::
  "unicode_tables \<Rightarrow> PreparedResourceBatch pyseq \<Rightarrow> pyobj \<Rightarrow> pyobj \<Rightarrow> SearchScope option anyobj \<Rightarrow> pyobj \<Rightarrow> pyobj \<Rightarrow>
   pyobj \<Rightarrow> pyobj \<Rightarrow> MediaRetrievalResult result" where
  "retrieve_media uni batches query mode scope limit transcript_weight frame_weight nearby_frame_limit =
     rbind (retrieval_mode mode) (\<lambda>mode.
     rbind (int_at_least 1 ''limit must be a positive integer'' limit) (\<lambda>limit.
     rbind (int_at_least 0 ''nearby_frame_limit must be a non-negative integer'' nearby_frame_limit) (\<lambda>nearby_frame_limit.
     rbind (validate_weight transcript_weight ''transcript_weight'') (\<lambda>_.
     rbind (validate_weight frame_weight ''frame_weight'') (\<lambda>_.
     rbind (raise_if (mode = hybrid_mode \<and> weight_is_zero transcript_weight \<and> weight_is_zero frame_weight)
              (ValueError ''at least one hybrid weight must be positive'')) (\<lambda>_.
     case query of
       PStr q \<Rightarrow>
         (case scope of
            Untyped \<Rightarrow> Inl (TypeError ''scope must be a SearchScope'')
          | Typed given \<Rightarrow>
              let effective_scope = (case given of None \<Rightarrow> empty_scope | Some s \<Rightarrow> s)
              in if blank q then Inr \<lparr>mr_query = q, mr_mode = mode, mr_items = [], mr_nearby_frames = []\<rparr>
                 else rbind (media_units batches mode effective_scope) (\<lambda>units.
                      rbind (select_items uni units q mode limit transcript_weight frame_weight) (\<lambda>selected.
                      Inr \<lparr>mr_query = q, mr_mode = mode, mr_items = selected,
                           mr_nearby_frames = nearby_frames units selected nearby_frame_limit\<rparr>)))
     | _ \<Rightarrow> Inl (TypeError ''query must be a string'')))))))"

section \<open>What a search returns\<close>

text \<open>The reference of the selection: a category list admits everything when it is empty, and its members otherwise.\<close>

definition admits :: "'a list \<Rightarrow> 'a \<Rightarrow> bool" where
  "admits xs x \<longleftrightarrow> xs = [] \<or> x \<in> set xs"

definition has_facet :: "PreparedResourceBatch \<Rightarrow> Facet \<Rightarrow> bool" where
  "has_facet b f \<longleftrightarrow> (\<exists>x \<in> set (batch_facets b). rf_facet x = f)"

text \<open>The last representation of a batch that has the identity a unit names.\<close>

definition representation_of :: "PreparedResourceBatch \<Rightarrow> SearchUnitRecord \<Rightarrow> RepresentationRecord option" where
  "representation_of b u = find (\<lambda>r. rep_id r = unit_representation_id u) (rev (batch_representations b))"

definition unit_in_scope :: "RetrievalMode \<Rightarrow> SearchScope \<Rightarrow> PreparedResourceBatch \<Rightarrow> SearchUnitRecord \<Rightarrow> bool" where
  "unit_in_scope mode scope b u \<longleftrightarrow>
     u \<in> set (batch_units b) \<and>
     admits (scope_resource_kinds scope) (res_kind (batch_resource b)) \<and>
     admits (scope_media_types scope) (res_media_type (batch_resource b)) \<and>
     admits (scope_source_namespaces scope) (res_source_namespace (batch_resource b)) \<and>
     (scope_facets_any scope = [] \<or> (\<exists>f \<in> set (scope_facets_any scope). has_facet b f)) \<and>
     (\<forall>f \<in> set (scope_facets_all scope). has_facet b f) \<and>
     (\<forall>f \<in> set (scope_facets_none scope). \<not> has_facet b f) \<and>
     (unit_kind u = TRANSCRIPT_UNIT \<and> mode \<noteq> frame_mode \<or> unit_kind u = FRAME_UNIT \<and> mode \<noteq> transcript_mode) \<and>
     admits (scope_unit_kinds scope) (unit_kind u) \<and>
     (\<exists>r. representation_of b u = Some r \<and> admits (scope_representation_kinds scope) (rep_kind r)) \<and>
     admits (scope_modalities scope) (unit_modality u)"

definition unit_matches :: "unicode_tables \<Rightarrow> pystr \<Rightarrow> SearchUnitRecord \<Rightarrow> bool" where
  "unit_matches uni query u \<longleftrightarrow>
     (\<exists>t \<in> set (find_words (word_char uni) (casefold uni query)).
        str_count t (casefold uni (case unit_text u of None \<Rightarrow> [] | Some s \<Rightarrow> s)) > 0)"

text \<open>The units whose branch takes part: those of a zero weight do not, in hybrid mode.\<close>

definition branch_active :: "RetrievalMode \<Rightarrow> pyobj \<Rightarrow> pyobj \<Rightarrow> SearchUnitRecord \<Rightarrow> bool" where
  "branch_active mode transcript_weight frame_weight u \<longleftrightarrow>
     mode = hybrid_mode \<longrightarrow>
       \<not> weight_is_zero (if unit_kind u = FRAME_UNIT then frame_weight else transcript_weight)"

lemma kinds_apart [simp]: "TRANSCRIPT_UNIT \<noteq> FRAME_UNIT" "FRAME_UNIT \<noteq> TRANSCRIPT_UNIT"
  by (simp_all add: TRANSCRIPT_UNIT_def FRAME_UNIT_def lit_def)

lemma batch_in_scope_iff:
  "batch_in_scope scope b \<longleftrightarrow>
     admits (scope_resource_kinds scope) (res_kind (batch_resource b)) \<and>
     admits (scope_media_types scope) (res_media_type (batch_resource b)) \<and>
     admits (scope_source_namespaces scope) (res_source_namespace (batch_resource b)) \<and>
     (scope_facets_any scope = [] \<or> (\<exists>f \<in> set (scope_facets_any scope). has_facet b f)) \<and>
     (\<forall>f \<in> set (scope_facets_all scope). has_facet b f) \<and>
     (\<forall>f \<in> set (scope_facets_none scope). \<not> has_facet b f)"
proof -
  have hf: "has_facet b = (\<lambda>f. f \<in> set (map rf_facet (batch_facets b)))"
    by (auto simp: has_facet_def fun_eq_iff)
  show ?thesis unfolding hf batch_in_scope_def Let_def admits_def by auto
qed

lemma map_of_key: "map_of (map (\<lambda>r. (f r, r)) rs) k = find (\<lambda>r. f r = k) rs"
  by (induction rs) auto

lemma unit_selected_set:
  assumes "unit_selected mode scope (batch_representations b) u = Inr us"
  shows "x \<in> set us \<longleftrightarrow> x = u \<and> unit_kind u \<in> set (allowed_kinds mode scope) \<and> admits (scope_modalities scope) (unit_modality u) \<and>
      (\<exists>r. representation_of b u = Some r \<and> admits (scope_representation_kinds scope) (rep_kind r))"
  using assms
  by (auto simp: unit_selected_def representation_of_def admits_def map_of_key rev_map split: option.splits if_splits)

lemma allowed_kinds_iff:
  "k \<in> set (allowed_kinds mode scope) \<longleftrightarrow>
     (k = TRANSCRIPT_UNIT \<and> mode \<noteq> frame_mode \<or> k = FRAME_UNIT \<and> mode \<noteq> transcript_mode) \<and> admits (scope_unit_kinds scope) k"
  by (cases mode) (auto simp: allowed_kinds_def admits_def Let_def)

lemma rmap_concat_set:
  assumes "rmap f xs = Inr yss" "\<And>x ys. x \<in> set xs \<Longrightarrow> f x = Inr ys \<Longrightarrow> y \<in> set ys \<longleftrightarrow> P x"
  shows "y \<in> set (concat yss) \<longleftrightarrow> (\<exists>x \<in> set xs. P x)"
  using assms
proof (induction xs arbitrary: yss)
  case (Cons x xs)
  then obtain ys zss where "f x = Inr ys" "rmap f xs = Inr zss" "yss = ys # zss" by (auto simp: rbind_eq_Inr)
  with Cons.IH [of zss] Cons.prems(2) show ?case by auto
qed simp

lemma batch_selection_set:
  assumes "batch_selection mode scope (Typed b) = Inr us"
  shows "u \<in> set us \<longleftrightarrow> unit_in_scope mode scope b u"
proof (cases "batch_in_scope scope b")
  case True
  then obtain vss where vss: "rmap (unit_selected mode scope (batch_representations b)) (batch_units b) = Inr vss"
    and us: "us = concat vss"
    using assms by (auto simp: batch_selection_def rbind_eq_Inr)
  have "u \<in> set us \<longleftrightarrow> (\<exists>v \<in> set (batch_units b). u = v \<and> unit_in_scope mode scope b v)"
    unfolding us using True
    by (intro rmap_concat_set [OF vss]) (auto simp: unit_selected_set unit_in_scope_def batch_in_scope_iff allowed_kinds_iff)
  then show ?thesis by (auto simp: unit_in_scope_def)
qed (use assms in \<open>auto simp: batch_selection_def unit_in_scope_def batch_in_scope_iff\<close>)

lemma media_units_set:
  assumes "media_units (PySeq (map Typed batches)) mode scope = Inr us"
  shows "u \<in> set us \<longleftrightarrow> (\<exists>b \<in> set batches. unit_in_scope mode scope b u)"
proof -
  obtain uss where uss: "rmap (batch_selection mode scope) (map Typed batches) = Inr uss" and us: "us = concat uss"
    using assms by (auto simp: media_units_def rbind_eq_Inr)
  have "u \<in> set us \<longleftrightarrow> (\<exists>x \<in> set (map Typed batches). case x of Untyped \<Rightarrow> False | Typed b \<Rightarrow> unit_in_scope mode scope b u)"
    unfolding us by (intro rmap_concat_set [OF uss]) (auto simp: batch_selection_set)
  then show ?thesis by auto
qed

section \<open>Ranked branches\<close>

lemma float_of_nat_zero:
  assumes "float_of_int (int n) = Inr s"
  shows "s = Fin 0 \<longleftrightarrow> n = 0" "isfinite s" "Fin 0 \<le> s"
proof -
  obtain q where q: "mk_float (of_int (int n)) = Fin q" "s = Fin q"
    using assms by (auto simp: float_of_int_def split: pyfloat.splits)
  have one: "mk_float 1 = Fin 1" using float_of_int_exact [of 1] by (auto simp: float_of_int_def split: pyfloat.splits)
  show "isfinite s" by (simp add: q)
  show "Fin 0 \<le> s" using mk_float_nonneg [of "of_int (int n)"] q by simp
  show "s = Fin 0 \<longleftrightarrow> n = 0"
  proof
    assume "s = Fin 0"
    show "n = 0"
    proof (rule ccontr)
      assume "n \<noteq> 0"
      then have "mk_float 1 \<le> mk_float (of_int (int n))" by (intro mk_float_mono) simp
      then show False using q \<open>s = Fin 0\<close> one by simp
    qed
  qed (use q in \<open>simp add: mk_float_def\<close>)
qed

lemma rank_units_ranked:
  assumes "rank_units uni us terms = Inr ranked"
  shows "sorted (map (\<lambda>(u, s). (fneg s, unit_id u)) ranked)"
    "fst ` set ranked = {u \<in> set us. term_hits uni terms u > 0}"
    "(u, s) \<in> set ranked \<Longrightarrow> isfinite s \<and> Fin 0 < s"
proof -
  obtain scored where sc: "list_all2 (\<lambda>u x. rbind (float_of_int (int (term_hits uni terms u))) (\<lambda>s. Inr (u, s)) = Inr x) us scored"
    and r: "ranked = sort_key (\<lambda>(u, s). (fneg s, unit_id u)) (filter (\<lambda>(u, s). s \<noteq> Fin 0) scored)"
    using assms by (auto simp: rank_units_def rbind_eq_Inr rmap_eq_Inr)
  show "sorted (map (\<lambda>(u, s). (fneg s, unit_id u)) ranked)" by (simp add: r)
  have el: "x \<in> set scored \<longleftrightarrow> (\<exists>u \<in> set us. fst x = u \<and> float_of_int (int (term_hits uni terms u)) = Inr (snd x))" for x
    using sc by (induction us scored rule: list_all2_induct) (auto simp: rbind_eq_Inr)
  have ex: "\<exists>s. float_of_int (int (term_hits uni terms u)) = Inr s" if "u \<in> set us" for u
    using sc that by (induction us scored rule: list_all2_induct) (auto simp: rbind_eq_Inr)
  show "fst ` set ranked = {u \<in> set us. term_hits uni terms u > 0}"
  proof (intro set_eqI iffI)
    fix u assume "u \<in> {u \<in> set us. term_hits uni terms u > 0}"
    moreover from this ex obtain s where s: "float_of_int (int (term_hits uni terms u)) = Inr s" by auto
    ultimately have "(u, s) \<in> set ranked" using float_of_nat_zero(1) [OF s] by (auto simp: r el)
    then show "u \<in> fst ` set ranked" by force
  qed (auto simp: r el float_of_nat_zero(1))
  show "isfinite s \<and> Fin 0 < s" if "(u, s) \<in> set ranked"
  proof -
    have "float_of_int (int (term_hits uni terms u)) = Inr s" "s \<noteq> Fin 0" using that by (auto simp: r el)
    from float_of_nat_zero [OF this(1)] this(2) show ?thesis by simp
  qed
qed

lemma term_hits_pos:
  "0 < term_hits uni (find_words (word_char uni) (casefold uni query)) u \<longleftrightarrow> unit_matches uni query u"
  by (auto simp: term_hits_def unit_matches_def Let_def sum_list_nonneg_eq_0_iff simp flip: neq0_conv)

end
