(* ===== verification/Media_Search.thy ===== *)
theory Media_Search
  imports Media_Retrieval
begin

text \<open>
  What \<open>retrieve_media\<close> returns: the hits are units of the scope that contain a word of the query, ranked without
  gaps and complete up to the limit, with frames of the same resources near them; and the public form of a result
  shows nothing of a unit beyond its identities, its times and the public part of its metadata.
\<close>

section \<open>The hybrid loop\<close>

text \<open>A contribution of a branch with its weight; the score of an identity sums the shares of its contributions in order.\<close>

type_synonym media_contribution = "pyobj \<times> nat \<times> SearchUnitRecord"

definition add_share :: "pystr \<Rightarrow> media_contribution \<Rightarrow> pyfloat \<Rightarrow> pyfloat result" where
  "add_share i = (\<lambda>(weight, rank, u) score.
     if unit_id u = i then rbind (weight_share weight rank) (\<lambda>share. Inr (fadd score share)) else Inr score)"

definition hybrid_score :: "media_contribution list \<Rightarrow> pystr \<Rightarrow> pyfloat result" where
  "hybrid_score cs i = rfold (add_share i) cs (Fin 0)"

definition media_contributions :: "pyobj \<Rightarrow> (SearchUnitRecord \<times> pyfloat) list \<Rightarrow> media_contribution list" where
  "media_contributions weight ranked =
     (if weight_is_zero weight then [] else map (\<lambda>(rank, u, s). (weight, rank, u)) (List.enumerate 1 ranked))"

definition hybrid_inv :: "media_contribution list \<Rightarrow> hybrid_state \<Rightarrow> bool" where
  "hybrid_inv cs st \<longleftrightarrow>
     distinct (keys (hs_scores st)) \<and> keys (hs_units st) = keys (hs_scores st) \<and>
     keys (hs_provenance st) = keys (hs_scores st) \<and>
     set (keys (hs_scores st)) = (\<lambda>c. unit_id (snd (snd c))) ` set cs \<and>
     (\<forall>k u. map_of (hs_units st) k = Some u \<longrightarrow> unit_id u = k \<and> u \<in> (\<lambda>c. snd (snd c)) ` set cs) \<and>
     (\<forall>i. hybrid_score cs i = Inr (dict_get (hs_scores st) i (Fin 0)))"

lemma hybrid_entry_inv:
  assumes "hybrid_entry branch w (rank, u, s) st = Inr st'" "hybrid_inv cs st"
  shows "hybrid_inv (cs @ [(w, rank, u)]) st'"
proof -
  obtain share p where share: "weight_share w rank = Inr share"
    and st': "st' = \<lparr>hs_scores = AList.update (unit_id u) (fadd (dict_get (hs_scores st) (unit_id u) (Fin 0)) share) (hs_scores st),
          hs_units = AList.update (unit_id u) u (hs_units st), hs_provenance = AList.update (unit_id u) p (hs_provenance st)\<rparr>"
    using assms(1) by (auto simp: hybrid_entry_def rbind_eq_Inr)
  have score: "hybrid_score (cs @ [(w, rank, u)]) i = Inr (dict_get (hs_scores st') i (Fin 0))" for i
    using assms(2) share by (simp add: st' hybrid_inv_def hybrid_score_def rfold_append add_share_def dict_get_def)
  have un: "unit_id v = k \<and> v \<in> (\<lambda>c. snd (snd c)) ` set (cs @ [(w, rank, u)])" if "map_of (hs_units st') k = Some v" for k v
    using that assms(2) by (auto simp: st' hybrid_inv_def split: if_splits)
  have ks: "keys (hs_scores st') = (if unit_id u \<in> set (keys (hs_scores st)) then keys (hs_scores st) else keys (hs_scores st) @ [unit_id u])"
    "keys (hs_units st') = keys (hs_scores st')" "keys (hs_provenance st') = keys (hs_scores st')"
    using assms(2) by (simp_all add: st' hybrid_inv_def update_keys)
  have "distinct (keys (hs_scores st'))" "set (keys (hs_scores st')) = (\<lambda>c. unit_id (snd (snd c))) ` set (cs @ [(w, rank, u)])"
    using assms(2) by (auto simp: ks(1) hybrid_inv_def)
  with ks(2,3) score un show ?thesis by (simp add: hybrid_inv_def)
qed

lemma hybrid_entries_inv:
  assumes "rfold (hybrid_entry branch w) rs st = Inr st'" "hybrid_inv cs st"
  shows "hybrid_inv (cs @ map (\<lambda>(rank, u, s). (w, rank, u)) rs) st'"
  using assms
proof (induction rs arbitrary: st cs)
  case (Cons r rs)
  obtain rank u s where r: "r = (rank, u, s)" by (cases r)
  obtain st1 where "hybrid_entry branch w (rank, u, s) st = Inr st1" "rfold (hybrid_entry branch w) rs st1 = Inr st'"
    using Cons.prems(1) by (auto simp: rbind_eq_Inr r)
  from Cons.IH [OF this(2) hybrid_entry_inv [OF this(1) Cons.prems(2)]] show ?case by (simp add: r)
qed simp

lemma hybrid_branches_inv:
  assumes "rfold hybrid_branch [(a, wa, ra), (b, wb, rb)] \<lparr>hs_scores = [], hs_units = [], hs_provenance = []\<rparr> = Inr st"
  shows "hybrid_inv (media_contributions wa ra @ media_contributions wb rb) st"
proof -
  have step: "hybrid_inv (cs @ media_contributions w r) t'" if "hybrid_branch (n, w, r) t = Inr t'" "hybrid_inv cs t" for n w r t t' cs
    using that by (auto simp: hybrid_branch_def media_contributions_def dest: hybrid_entries_inv split: if_splits)
  obtain t where t: "hybrid_branch (a, wa, ra) \<lparr>hs_scores = [], hs_units = [], hs_provenance = []\<rparr> = Inr t"
    "hybrid_branch (b, wb, rb) t = Inr st"
    using assms by (auto simp: rbind_eq_Inr)
  have "hybrid_inv [] \<lparr>hs_scores = [], hs_units = [], hs_provenance = []\<rparr>"
    by (simp add: hybrid_inv_def hybrid_score_def dict_get_def)
  from step [OF t(2) step [OF t(1) this]] show ?thesis by simp
qed

section \<open>Hits\<close>

text \<open>What every list of hits promises: dense ranks, the order, and the unit behind each.\<close>

definition shows_unit :: "MediaRetrievalItem \<Rightarrow> SearchUnitRecord \<Rightarrow> bool" where
  "shows_unit x u \<longleftrightarrow> (\<exists>score rank provenance. x = media_item u score rank provenance)"

definition ranked_items :: "MediaRetrievalItem list \<Rightarrow> bool" where
  "ranked_items xs \<longleftrightarrow>
     map mi_rank xs = [1..<Suc (length xs)] \<and> sorted (map (\<lambda>x. (fneg (mi_score x), mi_unit_id x)) xs)"

lemma shows_unit_id: "shows_unit x u \<Longrightarrow> mi_unit_id x = unit_id u"
  by (auto simp: shows_unit_def media_item_def)

lemma map_fst_enumerate_from: "map fst (List.enumerate n xs) = [n..<n + length xs]"
  by simp

lemma project_units_items:
  assumes "sorted (map (\<lambda>(u, s). (fneg s, unit_id u)) ranked)"
  shows "ranked_items (project_units ranked limit b)" "length (project_units ranked limit b) \<le> limit"
    "x \<in> set (project_units ranked limit b) \<Longrightarrow> \<exists>(u, s) \<in> set ranked. shows_unit x u \<and> mi_score x = s"
    "length (project_units ranked limit b) < limit \<Longrightarrow> (u, s) \<in> set ranked \<Longrightarrow> \<exists>x \<in> set (project_units ranked limit b). shows_unit x u"
proof -
  let ?xs = "project_units ranked limit b"
  have "map mi_rank ?xs = map fst (List.enumerate 1 (take limit ranked))"
    unfolding project_units_def map_map by (rule map_cong) (auto simp: media_item_def)
  moreover have "map (\<lambda>x. (fneg (mi_score x), mi_unit_id x)) ?xs =
      map (\<lambda>(u, s). (fneg s, unit_id u)) (map snd (List.enumerate 1 (take limit ranked)))"
    unfolding project_units_def map_map by (rule map_cong) (auto simp: media_item_def)
  then have "map (\<lambda>x. (fneg (mi_score x), mi_unit_id x)) ?xs = take limit (map (\<lambda>(u, s). (fneg s, unit_id u)) ranked)"
    by (simp add: take_map)
  ultimately show "ranked_items ?xs"
    using assms by (simp add: ranked_items_def sorted_wrt_take project_units_def del: upt_Suc)
  show "length ?xs \<le> limit" by (simp add: project_units_def)
  show "\<exists>(u, s) \<in> set ranked. shows_unit x u \<and> mi_score x = s" if mem: "x \<in> set ?xs"
  proof -
    obtain rank u s where r: "(rank, u, s) \<in> set (List.enumerate 1 (take limit ranked))"
      and x: "x = media_item u s rank [[(''branch_id'', PStr b), (''branch_rank'', PInt (int rank)), (''branch_score'', PFloat s)]]"
      using mem by (auto simp: project_units_def)
    from r have "(u, s) \<in> set ranked" by (metis in_set_enumerateD in_set_takeD in_set_zip map_snd_enumerate nth_mem image_eqI set_map snd_conv)
    then show ?thesis by (auto simp: x shows_unit_def media_item_def)
  qed
  show "\<exists>x \<in> set ?xs. shows_unit x u" if "length ?xs < limit" "(u, s) \<in> set ranked"
  proof -
    have "(u, s) \<in> set (map snd (List.enumerate 1 (take limit ranked)))" using that by (simp add: project_units_def)
    then obtain r where "(r, u, s) \<in> set (List.enumerate 1 (take limit ranked))" unfolding set_map by force
    then show ?thesis by (force simp: project_units_def shows_unit_def)
  qed
qed

lemma rmap_enumerate_nth:
  assumes "rmap f (List.enumerate 1 xs) = Inr ys"
  shows "length ys = length xs" "i < length xs \<Longrightarrow> f (Suc i, xs ! i) = Inr (ys ! i)"
  using assms by (auto simp: rmap_eq_Inr list_all2_conv_all_nth nth_enumerate_eq)

lemma hybrid_units_items:
  assumes "hybrid_units transcripts frames tw fw limit = Inr xs"
  defines "cs \<equiv> media_contributions tw transcripts @ media_contributions fw frames"
  shows "ranked_items xs" "length xs \<le> limit" "distinct (map mi_unit_id xs)"
    "x \<in> set xs \<Longrightarrow> (\<exists>c \<in> set cs. shows_unit x (snd (snd c))) \<and> hybrid_score cs (mi_unit_id x) = Inr (mi_score x)"
    "length xs < limit \<Longrightarrow> c \<in> set cs \<Longrightarrow> unit_id (snd (snd c)) \<in> mi_unit_id ` set xs"
proof -
  obtain st where st: "rfold hybrid_branch [(lit ''transcript'', tw, transcripts), (lit ''frame'', fw, frames)]
      \<lparr>hs_scores = [], hs_units = [], hs_provenance = []\<rparr> = Inr st"
    and xs: "rmap (\<lambda>(rank, uid).
         case (map_of (hs_units st) uid, map_of (hs_scores st) uid, map_of (hs_provenance st) uid) of
           (Some u, Some score, Some provenance) \<Rightarrow> Inr (media_item u score rank provenance)
         | _ \<Rightarrow> Inl KeyError)
       (List.enumerate 1 (take limit
         (sort_key (\<lambda>uid. (fneg (dict_get (hs_scores st) uid (Fin 0)), uid)) (keys (hs_scores st))))) = Inr xs"
    using assms(1) by (auto simp: hybrid_units_def rbind_eq_Inr simp del: rfold.simps)
  have inv: "hybrid_inv cs st" unfolding cs_def by (rule hybrid_branches_inv [OF st])
  let ?key = "\<lambda>uid. (fneg (dict_get (hs_scores st) uid (Fin 0)), uid)"
  define ids where "ids = take limit (sort_key ?key (keys (hs_scores st)))"
  note nth = rmap_enumerate_nth [OF xs, folded ids_def]
  have item: "\<exists>u provenance. map_of (hs_units st) (ids ! i) = Some u \<and>
      xs ! i = media_item u (dict_get (hs_scores st) (ids ! i) (Fin 0)) (Suc i) provenance" if "i < length ids" for i
    using nth(2) [OF that] by (auto simp: dict_get_def split: option.splits) metis
  have unit: "unit_id u = ids ! i" if "map_of (hs_units st) (ids ! i) = Some u" for u i
    using inv that by (simp add: hybrid_inv_def)
  have id: "mi_unit_id (xs ! i) = ids ! i" "mi_rank (xs ! i) = Suc i"
    "mi_score (xs ! i) = dict_get (hs_scores st) (ids ! i) (Fin 0)" if "i < length ids" for i
    using item [OF that] unit by (auto simp: media_item_def)
  have ids: "map mi_unit_id xs = ids" by (rule nth_equalityI) (simp_all add: nth(1) id)
  have "map mi_rank xs = [1..<Suc (length xs)]" by (rule nth_equalityI) (simp_all add: nth(1) id nth_append del: upt_Suc)
  moreover have "map (\<lambda>x. (fneg (mi_score x), mi_unit_id x)) xs = map ?key ids"
    by (rule nth_equalityI) (simp_all add: nth(1) id)
  moreover have "sorted (map ?key ids)" unfolding ids_def take_map [symmetric] by (intro sorted_wrt_take) simp
  ultimately show "ranked_items xs" by (simp add: ranked_items_def)
  show "length xs \<le> limit" by (simp add: nth(1) ids_def)
  show "distinct (map mi_unit_id xs)"
    unfolding ids ids_def using inv by (intro distinct_take) (simp add: hybrid_inv_def)
  show "(\<exists>c \<in> set cs. shows_unit x (snd (snd c))) \<and> hybrid_score cs (mi_unit_id x) = Inr (mi_score x)" if x: "x \<in> set xs"
  proof -
    obtain i where i: "i < length ids" "x = xs ! i" using x nth(1) by (auto simp: in_set_conv_nth)
    obtain u provenance where u: "map_of (hs_units st) (ids ! i) = Some u"
      "x = media_item u (dict_get (hs_scores st) (ids ! i) (Fin 0)) (Suc i) provenance"
      using item [OF i(1)] i(2) by auto
    then have "u \<in> (\<lambda>c. snd (snd c)) ` set cs" "shows_unit x u" using inv by (auto simp: hybrid_inv_def shows_unit_def)
    moreover have "hybrid_score cs (mi_unit_id x) = Inr (mi_score x)" using inv id [OF i(1)] by (simp add: hybrid_inv_def i(2))
    ultimately show ?thesis by auto
  qed
  show "unit_id (snd (snd c)) \<in> mi_unit_id ` set xs" if len: "length xs < limit" and c: "c \<in> set cs"
  proof -
    have "length ids = length (keys (hs_scores st))" using len by (auto simp: nth(1) ids_def)
    then have "set ids = set (keys (hs_scores st))" using len by (simp add: nth(1) ids_def)
    then have "set (map mi_unit_id xs) = (\<lambda>c. unit_id (snd (snd c))) ` set cs" using inv by (simp add: ids hybrid_inv_def)
    then show ?thesis using c by (metis image_eqI set_map)
  qed
qed

lemma media_contributions_units:
  "(\<lambda>c. snd (snd c)) ` set (media_contributions w ranked) = (if weight_is_zero w then {} else fst ` set ranked)"
proof -
  have "map (\<lambda>c. snd (snd c)) (map (\<lambda>(rank, u, s). (w, rank, u)) (List.enumerate 1 ranked)) =
      map fst (map snd (List.enumerate 1 ranked))"
    unfolding map_map by (rule map_cong) auto
  then have "(\<lambda>c. snd (snd c)) ` set (map (\<lambda>(rank, u, s). (w, rank, u)) (List.enumerate 1 ranked)) = fst ` set ranked"
    by (metis map_snd_enumerate set_map)
  then show ?thesis by (simp add: media_contributions_def)
qed

lemma branch_of_kind:
  assumes "rank_units uni (filter (\<lambda>u. unit_kind u = k) us) (find_words (word_char uni) (casefold uni q)) = Inr ranked"
  shows "fst ` set ranked = {u \<in> set us. unit_kind u = k \<and> unit_matches uni q u}"
  unfolding rank_units_ranked(2) [OF assms] term_hits_pos by auto

definition eligible ::
  "unicode_tables \<Rightarrow> pystr \<Rightarrow> RetrievalMode \<Rightarrow> pyobj \<Rightarrow> pyobj \<Rightarrow> SearchUnitRecord \<Rightarrow> bool" where
  "eligible uni q mode tw fw u \<longleftrightarrow>
     (unit_kind u = TRANSCRIPT_UNIT \<and> mode \<noteq> frame_mode \<or> unit_kind u = FRAME_UNIT \<and> mode \<noteq> transcript_mode) \<and>
     branch_active mode tw fw u \<and> unit_matches uni q u"

lemma select_items_hits:
  assumes "select_items uni us q mode limit tw fw = Inr xs"
  shows "ranked_items xs" "length xs \<le> limit" "mode = hybrid_mode \<Longrightarrow> distinct (map mi_unit_id xs)"
    "x \<in> set xs \<Longrightarrow> \<exists>u \<in> set us. eligible uni q mode tw fw u \<and> shows_unit x u"
    "length xs < limit \<Longrightarrow> u \<in> set us \<Longrightarrow> eligible uni q mode tw fw u \<Longrightarrow> unit_id u \<in> mi_unit_id ` set xs"
proof -
  have single: "ranked_items xs \<and> length xs \<le> limit \<and> (\<forall>x \<in> set xs. \<exists>u \<in> set us. unit_kind u = k \<and> unit_matches uni q u \<and> shows_unit x u) \<and>
      (length xs < limit \<longrightarrow> (\<forall>u \<in> set us. unit_kind u = k \<and> unit_matches uni q u \<longrightarrow> unit_id u \<in> mi_unit_id ` set xs))"
    if r: "rank_units uni (filter (\<lambda>u. unit_kind u = k) us) (find_words (word_char uni) (casefold uni q)) = Inr ranked"
      and xs: "xs = project_units ranked limit b" for k b ranked
  proof -
    note items = project_units_items [OF rank_units_ranked(1) [OF r], where limit = limit and b = b, folded xs]
    have "\<exists>u \<in> set us. unit_kind u = k \<and> unit_matches uni q u \<and> shows_unit x u" if x: "x \<in> set xs" for x
    proof -
      obtain u s where "(u, s) \<in> set ranked" "shows_unit x u" using items(3) [OF x] by auto
      moreover from this have "u \<in> fst ` set ranked" by force
      ultimately show ?thesis unfolding branch_of_kind [OF r] by auto
    qed
    moreover have "unit_id u \<in> mi_unit_id ` set xs"
      if "length xs < limit" "u \<in> set us" "unit_kind u = k" "unit_matches uni q u" for u
    proof -
      have "u \<in> fst ` set ranked" unfolding branch_of_kind [OF r] using that by simp
      then obtain s where "(u, s) \<in> set ranked" by auto
      from items(4) [OF that(1) this] show ?thesis by (metis image_eqI shows_unit_id)
    qed
    ultimately show ?thesis using items(1,2) by blast
  qed
  consider k b ranked where "mode \<noteq> hybrid_mode" "\<And>u. eligible uni q mode tw fw u \<longleftrightarrow> unit_kind u = k \<and> unit_matches uni q u"
      "rank_units uni (filter (\<lambda>u. unit_kind u = k) us) (find_words (word_char uni) (casefold uni q)) = Inr ranked"
      "xs = project_units ranked limit b"
    | ts fs where "mode = hybrid_mode"
      "rank_units uni (filter (\<lambda>u. unit_kind u = TRANSCRIPT_UNIT) us) (find_words (word_char uni) (casefold uni q)) = Inr ts"
      "rank_units uni (filter (\<lambda>u. unit_kind u = FRAME_UNIT) us) (find_words (word_char uni) (casefold uni q)) = Inr fs"
      "hybrid_units ts fs tw fw limit = Inr xs"
    using assms
    by (cases mode) (auto simp: select_items_def rbind_eq_Inr Let_def eligible_def branch_active_def)
  then have "ranked_items xs \<and> length xs \<le> limit \<and> (mode = hybrid_mode \<longrightarrow> distinct (map mi_unit_id xs)) \<and>
      (\<forall>x \<in> set xs. \<exists>u \<in> set us. eligible uni q mode tw fw u \<and> shows_unit x u) \<and>
      (length xs < limit \<longrightarrow> (\<forall>u \<in> set us. eligible uni q mode tw fw u \<longrightarrow> unit_id u \<in> mi_unit_id ` set xs))"
  proof cases
    case 1
    from single [OF 1(3,4)] 1(1,2) show ?thesis by simp
  next
    case 2
    let ?cs = "media_contributions tw ts @ media_contributions fw fs"
    note items = hybrid_units_items [OF 2(4)]
    have cs: "(\<lambda>c. snd (snd c)) ` set ?cs = {u \<in> set us. eligible uni q mode tw fw u}"
      unfolding set_append image_Un media_contributions_units branch_of_kind [OF 2(2)] branch_of_kind [OF 2(3)]
      by (auto simp: eligible_def branch_active_def 2(1))
    have "\<exists>u \<in> set us. eligible uni q mode tw fw u \<and> shows_unit x u" if x: "x \<in> set xs" for x
    proof -
      obtain c where "c \<in> set ?cs" "shows_unit x (snd (snd c))" using items(4) [OF x] by blast
      then show ?thesis using cs by blast
    qed
    moreover have "unit_id u \<in> mi_unit_id ` set xs" if len: "length xs < limit" and u: "u \<in> set us" "eligible uni q mode tw fw u" for u
    proof -
      obtain c where "c \<in> set ?cs" "u = snd (snd c)" using cs u by blast
      then show ?thesis using items(5) [OF len] by blast
    qed
    ultimately show ?thesis using items(1-3) by blast
  qed
  then show "ranked_items xs" "length xs \<le> limit" "mode = hybrid_mode \<Longrightarrow> distinct (map mi_unit_id xs)"
    "x \<in> set xs \<Longrightarrow> \<exists>u \<in> set us. eligible uni q mode tw fw u \<and> shows_unit x u"
    "length xs < limit \<Longrightarrow> u \<in> set us \<Longrightarrow> eligible uni q mode tw fw u \<Longrightarrow> unit_id u \<in> mi_unit_id ` set xs"
    by blast+
qed

section \<open>Frames near the hits\<close>

text \<open>The distances in time of a unit from the hits of its resource.\<close>

definition hit_distances :: "MediaRetrievalItem list \<Rightarrow> SearchUnitRecord \<Rightarrow> int set" where
  "hit_distances hits u =
     {\<bar>t - s\<bar> | t s x. x \<in> set hits \<and> mi_resource_id x = unit_resource_id u \<and>
        locator_timestamp (unit_evidence_locator u) = Some t \<and> locator_timestamp (mi_evidence_locator x) = Some s}"

definition near_hit :: "MediaRetrievalItem list \<Rightarrow> SearchUnitRecord \<Rightarrow> int \<Rightarrow> bool" where
  "near_hit hits u d \<longleftrightarrow>
     unit_kind u = FRAME_UNIT \<and> unit_id u \<notin> mi_unit_id ` set hits \<and> d \<in> hit_distances hits u \<and> (\<forall>e \<in> hit_distances hits u. d \<le> e)"

lemma selected_times:
  "map_of (fold add_selected_time xs d) r =
     (let ts = concat (map (\<lambda>x. if mi_resource_id x = r then (case locator_timestamp (mi_evidence_locator x) of None \<Rightarrow> [] | Some t \<Rightarrow> [t]) else []) xs)
      in if ts = [] then map_of d r else Some (dict_get d r [] @ ts))"
proof (induction xs arbitrary: d)
  case (Cons x xs)
  show ?case
  proof (cases "locator_timestamp (mi_evidence_locator x)")
    case None
    then show ?thesis using Cons by (simp add: add_selected_time_def)
  next
    case (Some t)
    then show ?thesis using Cons by (auto simp: add_selected_time_def Let_def dict_get_def)
  qed
qed simp

lemma min_list_least: "xs \<noteq> [] \<Longrightarrow> min_list xs \<in> set xs \<and> (\<forall>x \<in> set xs. min_list xs \<le> (x :: int))"
  by (simp add: min_list_Min)

lemma nearby_candidate_near:
  "set (nearby_candidate (set (map mi_unit_id hits)) (fold add_selected_time hits []) u) = {(d, v). v = u \<and> near_hit hits u d}"
proof -
  let ?ts = "concat (map (\<lambda>x. if mi_resource_id x = unit_resource_id u
      then (case locator_timestamp (mi_evidence_locator x) of None \<Rightarrow> [] | Some t \<Rightarrow> [t]) else []) hits)"
  have mo: "map_of (fold add_selected_time hits []) (unit_resource_id u) = (if ?ts = [] then None else Some ?ts)"
    by (simp add: selected_times Let_def dict_get_def)
  have ts: "set ?ts = {s. \<exists>x \<in> set hits. mi_resource_id x = unit_resource_id u \<and> locator_timestamp (mi_evidence_locator x) = Some s}"
    by (auto split: if_splits option.splits)
  show ?thesis
  proof (cases "locator_timestamp (unit_evidence_locator u)")
    case None
    then show ?thesis by (auto simp: nearby_candidate_def near_hit_def hit_distances_def)
  next
    case (Some t)
    have hd: "hit_distances hits u = (\<lambda>s. \<bar>t - s\<bar>) ` set ?ts" unfolding ts hit_distances_def by (auto simp: Some)
    show ?thesis
    proof (cases "?ts = []")
      case True
      then have "hit_distances hits u = {}" unfolding hd by (simp only: list.set image_empty)
      then show ?thesis using True mo by (auto simp: nearby_candidate_def near_hit_def simp del: concat_eq_Nil_conv split: option.splits)
    next
      case False
      have least: "min_list (map (\<lambda>s. \<bar>t - s\<bar>) ?ts) \<in> hit_distances hits u \<and> (\<forall>e \<in> hit_distances hits u. min_list (map (\<lambda>s. \<bar>t - s\<bar>) ?ts) \<le> e)"
        unfolding hd using min_list_least [of "map (\<lambda>s. \<bar>t - s\<bar>) ?ts"] False by (simp only: set_map map_is_Nil_conv) blast
      show ?thesis unfolding nearby_candidate_def near_hit_def using least mo False Some
        by (auto intro: antisym)
    qed
  qed
qed

lemma nearby_frames_near:
  assumes ys: "ys = nearby_frames us hits n"
  shows "length ys \<le> n" "map mi_rank ys = [1..<Suc (length ys)]"
    "\<exists>ds. sorted ds \<and> list_all2 (\<lambda>y d. \<exists>u \<in> set us. near_hit hits u d \<and> shows_unit y u) ys ds"
    "length ys < n \<Longrightarrow> u \<in> set us \<Longrightarrow> near_hit hits u d \<Longrightarrow> \<exists>y \<in> set ys. shows_unit y u"
proof -
  define cands where "cands = concat (map (nearby_candidate (set (map mi_unit_id hits)) (fold add_selected_time hits [])) us)"
  define cs where "cs = (if n = 0 then [] else take n (sort_key (\<lambda>(distance, u). (distance, unit_id u)) cands))"
  define item where "item = (\<lambda>(rank, distance, u). media_item u (Fin 0) rank
    [[(''relation'', PStr (lit ''nearby_frame'')), (''distance_ms'', PInt distance)]])"
  have ys_cs: "ys = map item (List.enumerate 1 cs)"
    by (simp add: ys nearby_frames_def cs_def cands_def item_def Let_def)
  show "length ys \<le> n" by (simp add: ys_cs cs_def)
  have "map mi_rank ys = map fst (List.enumerate 1 cs)"
    unfolding ys_cs map_map by (rule map_cong) (auto simp: item_def media_item_def)
  then show "map mi_rank ys = [1..<Suc (length ys)]" by (simp add: ys_cs)
  have mem: "(d, u) \<in> set cands \<longleftrightarrow> u \<in> set us \<and> near_hit hits u d" for d u
    by (auto simp: cands_def nearby_candidate_near [unfolded set_map])
  have sub: "set cs \<subseteq> set cands" using set_take_subset [of n "sort_key (\<lambda>(distance, u). (distance, unit_id u)) cands"] by (auto simp: cs_def)
  have near: "snd c \<in> set us \<and> near_hit hits (snd c) (fst c)" if "c \<in> set cs" for c
    using that sub mem [of "fst c" "snd c"] by auto
  have "sorted (map fst cs)"
  proof -
    have "sorted (map (\<lambda>(d, u). (d, unit_id u)) cs)" by (simp add: cs_def sorted_wrt_take flip: take_map)
    then show ?thesis unfolding sorted_map by (rule sorted_wrt_mono_rel [rotated]) auto
  qed
  moreover have "list_all2 (\<lambda>y d. \<exists>u \<in> set us. near_hit hits u d \<and> shows_unit y u) ys (map fst cs)"
  proof (rule list_all2_all_nthI)
    fix i assume i: "i < length ys"
    then have "snd (cs ! i) \<in> set us \<and> near_hit hits (snd (cs ! i)) (fst (cs ! i))" by (intro near) (simp add: ys_cs)
    moreover have "shows_unit (ys ! i) (snd (cs ! i))"
      using i by (auto simp: ys_cs nth_enumerate_eq item_def shows_unit_def split: prod.splits)
    ultimately show "\<exists>u \<in> set us. near_hit hits u (map fst cs ! i) \<and> shows_unit (ys ! i) u" using i by (auto simp: ys_cs)
  qed (simp add: ys_cs)
  ultimately show "\<exists>ds. sorted ds \<and> list_all2 (\<lambda>y d. \<exists>u \<in> set us. near_hit hits u d \<and> shows_unit y u) ys ds" by blast
  show "\<exists>y \<in> set ys. shows_unit y u" if len: "length ys < n" and u: "u \<in> set us" "near_hit hits u d"
  proof -
    have "(d, u) \<in> set cs" using mem [of d u] u len by (simp add: ys_cs cs_def split: if_splits)
    then obtain i where "i < length cs" "cs ! i = (d, u)" by (auto simp: in_set_conv_nth)
    then have "i < length ys" "shows_unit (ys ! i) u" by (auto simp: ys_cs nth_enumerate_eq item_def shows_unit_def)
    then show ?thesis by (meson nth_mem)
  qed
qed

text \<open>The arguments of a search as a caller writes them.\<close>

definition media_search ::
  "unicode_tables \<Rightarrow> PreparedResourceBatch list \<Rightarrow> pystr \<Rightarrow> RetrievalMode \<Rightarrow> SearchScope \<Rightarrow> nat \<Rightarrow> pyobj \<Rightarrow> pyobj \<Rightarrow> nat \<Rightarrow>
   MediaRetrievalResult result" where
  "media_search uni batches q mode scope limit tw fw nearby =
     retrieve_media uni (PySeq (map Typed batches)) (PStr q) (PStr (mode_name mode)) (Typed (Some scope)) (PInt (int limit)) tw fw
       (PInt (int nearby))"

lemma retrieval_mode_name [simp]: "retrieval_mode (PStr (mode_name m)) = Inr m"
  by (cases m) (simp_all add: retrieval_mode_def mode_name_def lit_def)

lemma media_search_units:
  assumes "media_search uni batches q mode scope limit tw fw nearby = Inr r" "\<not> blank q"
  obtains us where "\<And>u. u \<in> set us \<longleftrightarrow> (\<exists>b \<in> set batches. unit_in_scope mode scope b u)"
    "select_items uni us q mode limit tw fw = Inr (mr_items r)" "mr_nearby_frames r = nearby_frames us (mr_items r) nearby"
proof -
  obtain us where us: "media_units (PySeq (map Typed batches)) mode scope = Inr us"
    and "select_items uni us q mode limit tw fw = Inr (mr_items r)" "mr_nearby_frames r = nearby_frames us (mr_items r) nearby"
    using assms by (auto simp: media_search_def retrieve_media_def rbind_eq_Inr int_at_least_def Let_def split: if_splits)
  with that media_units_set [OF us] show ?thesis by blast
qed

text \<open>
  C26: What an offline search returns. The hits are at most \<open>limit\<close>, densely ranked in the order of falling score and then of
  the unit identity, distinct in hybrid mode; each is a unit of a batch within the scope, of a kind the mode
  admits and a branch with a weight, whose folded text contains a word of the query, and when the hits do not fill the limit
  every such unit is among them. The nearby frames are at most their own limit, densely ranked by distance; each is a
  frame within the scope that is no hit, at the least distance to a hit of its own resource, and when they do not
  fill their limit every such frame is among them.
\<close>

theorem media_search_hits:
  assumes "media_search uni batches q mode scope limit tw fw nearby = Inr r" "\<not> blank q"
  shows "ranked_items (mr_items r) \<and> length (mr_items r) \<le> limit \<and>
    (mode = hybrid_mode \<longrightarrow> distinct (map mi_unit_id (mr_items r))) \<and>
    (\<forall>x \<in> set (mr_items r). \<exists>b \<in> set batches. \<exists>u. unit_in_scope mode scope b u \<and> eligible uni q mode tw fw u \<and> shows_unit x u) \<and>
    (length (mr_items r) < limit \<longrightarrow>
      (\<forall>b \<in> set batches. \<forall>u. unit_in_scope mode scope b u \<and> eligible uni q mode tw fw u \<longrightarrow> unit_id u \<in> mi_unit_id ` set (mr_items r))) \<and>
    length (mr_nearby_frames r) \<le> nearby \<and> map mi_rank (mr_nearby_frames r) = [1..<Suc (length (mr_nearby_frames r))] \<and>
    (\<exists>ds. sorted ds \<and> list_all2 (\<lambda>y d. \<exists>b \<in> set batches. \<exists>u. unit_in_scope mode scope b u \<and> near_hit (mr_items r) u d \<and> shows_unit y u)
       (mr_nearby_frames r) ds) \<and>
    (length (mr_nearby_frames r) < nearby \<longrightarrow>
      (\<forall>b \<in> set batches. \<forall>u d. unit_in_scope mode scope b u \<and> near_hit (mr_items r) u d \<longrightarrow> (\<exists>y \<in> set (mr_nearby_frames r). shows_unit y u)))"
proof -
  obtain us where us: "\<And>u. u \<in> set us \<longleftrightarrow> (\<exists>b \<in> set batches. unit_in_scope mode scope b u)"
    and sel: "select_items uni us q mode limit tw fw = Inr (mr_items r)" and near: "mr_nearby_frames r = nearby_frames us (mr_items r) nearby"
    using media_search_units [OF assms] by metis
  note hits = select_items_hits [OF sel]
  note frames = nearby_frames_near [OF near]
  have "(\<lambda>y d. \<exists>u \<in> set us. near_hit (mr_items r) u d \<and> shows_unit y u) =
      (\<lambda>y d. \<exists>b \<in> set batches. \<exists>u. unit_in_scope mode scope b u \<and> near_hit (mr_items r) u d \<and> shows_unit y u)"
    by (intro ext) (use us in blast)
  with frames(3) have f3: "\<exists>ds. sorted ds \<and> list_all2 (\<lambda>y d. \<exists>b \<in> set batches. \<exists>u. unit_in_scope mode scope b u \<and>
      near_hit (mr_items r) u d \<and> shows_unit y u) (mr_nearby_frames r) ds" by simp
  have "\<forall>x \<in> set (mr_items r). \<exists>b \<in> set batches. \<exists>u. unit_in_scope mode scope b u \<and> eligible uni q mode tw fw u \<and> shows_unit x u"
    using hits(4) us by blast
  moreover have "length (mr_items r) < limit \<longrightarrow>
      (\<forall>b \<in> set batches. \<forall>u. unit_in_scope mode scope b u \<and> eligible uni q mode tw fw u \<longrightarrow> unit_id u \<in> mi_unit_id ` set (mr_items r))"
    using hits(5) us by blast
  moreover have "length (mr_nearby_frames r) < nearby \<longrightarrow>
      (\<forall>b \<in> set batches. \<forall>u d. unit_in_scope mode scope b u \<and> near_hit (mr_items r) u d \<longrightarrow> (\<exists>y \<in> set (mr_nearby_frames r). shows_unit y u))"
    using frames(4) us by blast
  ultimately show ?thesis using hits(1-3) frames(1,2) f3 by blast
qed

section \<open>What a result shows\<close>

text \<open>Of a unit: its identities, kind and text, the times and the frame of its locator, the public part of its metadata.\<close>

definition PUBLIC_LOCATOR_KEYS :: "pystr list" where
  "PUBLIC_LOCATOR_KEYS = map lit [''timestamp_ms'', ''start_ms'', ''end_ms'', ''frame_id'']"

definition blur_locator :: "Locator \<Rightarrow> Locator" where
  "blur_locator l = \<lparr>loc_kind = [], loc_payload = filter (\<lambda>(k, v). k \<in> set PUBLIC_LOCATOR_KEYS) (loc_payload l)\<rparr>"

definition blur_metadata :: "jmap \<Rightarrow> jmap" where
  "blur_metadata m = filter (\<lambda>(k, v). k \<in> set PUBLIC_METADATA_KEYS) m"

definition blur_unit :: "SearchUnitRecord \<Rightarrow> SearchUnitRecord" where
  "blur_unit u = u\<lparr>unit_evidence_locator := blur_locator (unit_evidence_locator u), unit_ordinal := 0, unit_token_count := None,
     unit_token_count_kind := None, unit_metadata := blur_metadata (unit_metadata u)\<rparr>"

definition blur_representation :: "RepresentationRecord \<Rightarrow> RepresentationRecord" where
  "blur_representation r = r\<lparr>rep_resource_id := [], rep_modality := [], rep_text := None, rep_language := None,
     rep_producer_fingerprint := None, rep_token_count := None, rep_token_count_kind := None, rep_metadata := []\<rparr>"

definition blur_batch :: "PreparedResourceBatch \<Rightarrow> PreparedResourceBatch" where
  "blur_batch b =
     \<lparr>batch_resource = (batch_resource b)\<lparr>res_id := [], res_locator := \<lparr>loc_kind = [], loc_payload = []\<rparr>, res_content_hash := None, res_title := None, res_metadata := []\<rparr>,
      batch_representations = map blur_representation (batch_representations b), batch_units = map blur_unit (batch_units b),
      batch_spaces = [], batch_vectors = [], batch_facets = batch_facets b\<rparr>"

definition blur_item :: "MediaRetrievalItem \<Rightarrow> MediaRetrievalItem" where
  "blur_item x = x\<lparr>mi_evidence_locator := blur_locator (mi_evidence_locator x), mi_metadata := blur_metadata (mi_metadata x)\<rparr>"

lemma map_of_filter_key: "P k \<Longrightarrow> map_of (filter (\<lambda>(k, v). P k) m) k = map_of m k"
  by (induction m) auto

lemma blur_unit_simps [simp]:
  "unit_id (blur_unit u) = unit_id u" "unit_resource_id (blur_unit u) = unit_resource_id u"
  "unit_representation_id (blur_unit u) = unit_representation_id u" "unit_kind (blur_unit u) = unit_kind u"
  "unit_modality (blur_unit u) = unit_modality u" "unit_text (blur_unit u) = unit_text u"
  by (simp_all add: blur_unit_def)

lemma blur_payload [simp]:
  "k \<in> set PUBLIC_LOCATOR_KEYS \<Longrightarrow> map_of (loc_payload (blur_locator l)) k = map_of (loc_payload l) k"
  unfolding blur_locator_def by (simp add: map_of_filter_key [of "\<lambda>k. k \<in> set PUBLIC_LOCATOR_KEYS"])

lemma public_locator_keys [simp]:
  "lit ''timestamp_ms'' \<in> set PUBLIC_LOCATOR_KEYS" "lit ''start_ms'' \<in> set PUBLIC_LOCATOR_KEYS"
  "lit ''end_ms'' \<in> set PUBLIC_LOCATOR_KEYS" "lit ''frame_id'' \<in> set PUBLIC_LOCATOR_KEYS"
  by (simp_all add: PUBLIC_LOCATOR_KEYS_def)

lemma locator_timestamp_blur [simp]: "locator_timestamp (blur_locator l) = locator_timestamp l"
  by (simp add: locator_timestamp_def Let_def split: option.split json.split)

lemma media_evidence_blur [simp]: "media_evidence (blur_unit u) p = media_evidence u p"
proof -
  have "unit_evidence_locator (blur_unit u) = blur_locator (unit_evidence_locator u)"
    "filter (\<lambda>(k, v). k \<in> set PUBLIC_METADATA_KEYS) (unit_metadata (blur_unit u)) =
       filter (\<lambda>(k, v). k \<in> set PUBLIC_METADATA_KEYS) (unit_metadata u)"
    by (simp_all add: blur_unit_def blur_metadata_def split_def)
  then show ?thesis by (simp add: media_evidence_def Let_def)
qed

lemma media_item_blur: "media_item (blur_unit u) s r p = blur_item (media_item u s r p)"
  by (simp add: media_item_def blur_item_def) (simp add: blur_unit_def)

lemma blur_item_simps [simp]:
  "mi_unit_id (blur_item x) = mi_unit_id x" "mi_resource_id (blur_item x) = mi_resource_id x"
  "mi_evidence_locator (blur_item x) = blur_locator (mi_evidence_locator x)"
  by (simp_all add: blur_item_def)

lemma media_item_to_dict_blur [simp]: "media_item_to_dict (blur_item x) = media_item_to_dict x"
  unfolding media_item_to_dict_def blur_item_def by (simp cong: option.case_cong)

lemma sort_key_map: "sort_key f (map g xs) = map g (sort_key (\<lambda>x. f (g x)) xs)"
proof -
  have "insort_key f (g x) (map g ys) = map g (insort_key (\<lambda>x. f (g x)) x ys)" for x ys
    by (induction ys) auto
  then show ?thesis by (induction xs) simp_all
qed

lemma rmap_map_result:
  assumes "\<And>x. f (g x) = rbind (f' x) (\<lambda>y. Inr (h y))"
  shows "rmap f (map g xs) = rbind (rmap f' xs) (\<lambda>ys. Inr (map h ys))"
  by (induction xs) (auto simp: assms rbind_def split: sum.splits)

lemma batch_selection_blur:
  "batch_selection mode scope (Typed (blur_batch b)) = rbind (batch_selection mode scope (Typed b)) (\<lambda>us. Inr (map blur_unit us))"
proof -
  have scope: "batch_in_scope scope (blur_batch b) = batch_in_scope scope b"
    by (simp add: batch_in_scope_def blur_batch_def Let_def)
  have rep: "map_of (rev (map (\<lambda>r. (rep_id r, r)) (map blur_representation rs))) i =
      map_option blur_representation (map_of (rev (map (\<lambda>r. (rep_id r, r)) rs)) i)" for rs i
    by (induction rs rule: rev_induct) (auto simp: blur_representation_def)
  have "unit_selected mode scope (map blur_representation rs) (blur_unit u) =
      rbind (unit_selected mode scope rs u) (\<lambda>us. Inr (map blur_unit us))" for rs u
    unfolding unit_selected_def rep by (auto simp: blur_representation_def split: option.splits)
  then have "rmap (unit_selected mode scope (map blur_representation rs)) (map blur_unit us) =
      rbind (rmap (unit_selected mode scope rs) us) (\<lambda>uss. Inr (map (map blur_unit) uss))" for rs us
    by (rule rmap_map_result)
  then show ?thesis
    by (simp add: batch_selection_def scope) (simp add: blur_batch_def rbind_assoc map_concat)
qed

lemma media_units_blur:
  "media_units (PySeq (map Typed (map blur_batch bs))) mode scope =
     rbind (media_units (PySeq (map Typed bs)) mode scope) (\<lambda>us. Inr (map blur_unit us))"
proof -
  have "rmap (batch_selection mode scope) (map (\<lambda>b. Typed (blur_batch b)) bs) =
      rbind (rmap (\<lambda>b. batch_selection mode scope (Typed b)) bs) (\<lambda>uss. Inr (map (map blur_unit) uss))"
    by (rule rmap_map_result) (rule batch_selection_blur)
  moreover have "rmap (batch_selection mode scope) (map Typed bs) = rmap (\<lambda>b. batch_selection mode scope (Typed b)) bs"
    by (induction bs) auto
  ultimately show ?thesis by (simp add: media_units_def rbind_assoc map_concat comp_def)
qed

lemma filter_blur: "filter (\<lambda>u. unit_kind u = k) (map blur_unit us) = map blur_unit (filter (\<lambda>u. unit_kind u = k) us)"
  by (simp add: filter_map comp_def)

lemma rank_units_blur:
  "rank_units uni (map blur_unit us) terms = rbind (rank_units uni us terms) (\<lambda>r. Inr (map (apfst blur_unit) r))"
proof -
  have "rmap (\<lambda>u. rbind (float_of_int (int (term_hits uni terms u))) (\<lambda>score. Inr (u, score))) (map blur_unit us) =
      rbind (rmap (\<lambda>u. rbind (float_of_int (int (term_hits uni terms u))) (\<lambda>score. Inr (u, score))) us)
        (\<lambda>r. Inr (map (apfst blur_unit) r))"
    by (rule rmap_map_result) (simp add: term_hits_def rbind_assoc)
  then show ?thesis
    by (simp add: rank_units_def rbind_assoc filter_map sort_key_map comp_def split_def apfst_def map_prod_def)
qed

lemma enumerate_map: "List.enumerate n (map f xs) = map (\<lambda>(i, x). (i, f x)) (List.enumerate n xs)"
  by (induction xs arbitrary: n) auto

lemma project_units_blur: "project_units (map (apfst blur_unit) r) n b = map blur_item (project_units r n b)"
  by (auto simp: project_units_def take_map enumerate_map media_item_blur)

definition blur_state :: "hybrid_state \<Rightarrow> hybrid_state" where
  "blur_state st = st\<lparr>hs_units := map (\<lambda>(k, u). (k, blur_unit u)) (hs_units st)\<rparr>"

lemma update_map_values: "AList.update k (f v) (map (\<lambda>(k, v). (k, f v)) d) = map (\<lambda>(k, v). (k, f v)) (AList.update k v d)"
  by (induction d) auto

lemma rfold_map_state:
  assumes "\<And>x s. f (g x) (h s) = rbind (f' x s) (\<lambda>s. Inr (h s))"
  shows "rfold f (map g xs) (h s) = rbind (rfold f' xs s) (\<lambda>s. Inr (h s))"
proof (induction xs arbitrary: s)
  case (Cons x xs)
  then show ?case by (cases "f' x s") (simp_all add: assms)
qed simp

lemma hybrid_branch_blur:
  "hybrid_branch (n, w, map (apfst blur_unit) r) (blur_state st) = rbind (hybrid_branch (n, w, r) st) (\<lambda>st. Inr (blur_state st))"
proof -
  have entry: "hybrid_entry n w ((\<lambda>(i, x). (i, apfst blur_unit x)) x) (blur_state st) = rbind (hybrid_entry n w x st) (\<lambda>st. Inr (blur_state st))" for x st
    by (cases x) (auto simp: hybrid_entry_def blur_state_def update_map_values rbind_def split: sum.split)
  then have "rfold (hybrid_entry n w) (map (\<lambda>(i, x). (i, apfst blur_unit x)) rs) (blur_state st) =
      rbind (rfold (hybrid_entry n w) rs st) (\<lambda>st. Inr (blur_state st))" for rs st
    by (rule rfold_map_state)
  then show ?thesis by (simp add: hybrid_branch_def enumerate_map)
qed

lemma hybrid_units_blur:
  "hybrid_units (map (apfst blur_unit) ts) (map (apfst blur_unit) fs) tw fw n = rbind (hybrid_units ts fs tw fw n) (\<lambda>xs. Inr (map blur_item xs))"
proof -
  let ?init = "\<lparr>hs_scores = [], hs_units = [], hs_provenance = []\<rparr>"
  have init: "?init = blur_state ?init" by (simp add: blur_state_def)
  have fold: "rfold hybrid_branch [(a, tw, map (apfst blur_unit) ts), (b, fw, map (apfst blur_unit) fs)] ?init =
      rbind (rfold hybrid_branch [(a, tw, ts), (b, fw, fs)] ?init) (\<lambda>st. Inr (blur_state st))" for a b
    by (subst init) (simp add: hybrid_branch_blur rbind_assoc)
  have mo: "map_of (hs_units (blur_state st)) k = map_option blur_unit (map_of (hs_units st) k)" for st k
    by (simp add: blur_state_def map_of_map)
  have same: "hs_scores (blur_state st) = hs_scores st" "hs_provenance (blur_state st) = hs_provenance st" for st
    by (simp_all add: blur_state_def)
  have item: "(\<lambda>(rank, uid).
         case (map_of (hs_units (blur_state st)) uid, map_of (hs_scores st) uid, map_of (hs_provenance st) uid) of
           (Some u, Some score, Some provenance) \<Rightarrow> Inr (media_item u score rank provenance)
         | _ \<Rightarrow> Inl KeyError) x =
     rbind ((\<lambda>(rank, uid).
         case (map_of (hs_units st) uid, map_of (hs_scores st) uid, map_of (hs_provenance st) uid) of
           (Some u, Some score, Some provenance) \<Rightarrow> Inr (media_item u score rank provenance)
         | _ \<Rightarrow> Inl KeyError) x) (\<lambda>y. Inr (blur_item y))" for st and x :: "nat \<times> pystr"
    unfolding mo by (auto simp: media_item_blur split: option.splits prod.splits)
  show ?thesis unfolding hybrid_units_def fold rbind_assoc rbind_Inr same
    by (intro rbind_cong refl) (rule rmap_map_result [of _ "\<lambda>x. x", unfolded list.map_ident, OF item])
qed

lemma select_items_blur:
  "select_items uni (map blur_unit us) q mode n tw fw = rbind (select_items uni us q mode n tw fw) (\<lambda>xs. Inr (map blur_item xs))"
  by (cases mode) (simp_all add: select_items_def Let_def filter_blur rank_units_blur rbind_assoc project_units_blur hybrid_units_blur)

lemma selected_times_blur: "fold add_selected_time (map blur_item xs) d = fold add_selected_time xs d"
  by (induction xs arbitrary: d) (simp_all add: add_selected_time_def split: option.split)

lemma nearby_frames_blur: "nearby_frames (map blur_unit us) (map blur_item xs) n = map blur_item (nearby_frames us xs n)"
proof -
  have loc: "unit_evidence_locator (blur_unit u) = blur_locator (unit_evidence_locator u)" for u by (simp add: blur_unit_def)
  have cand: "nearby_candidate S ts (blur_unit u) = map (apsnd blur_unit) (nearby_candidate S ts u)" for S ts u
    by (auto simp: nearby_candidate_def loc split: option.splits)
  have "concat (map (nearby_candidate S ts) (map blur_unit us)) = map (apsnd blur_unit) (concat (map (nearby_candidate S ts) us))" for S ts
    by (simp add: map_concat cand comp_def)
  then show ?thesis
    by (simp add: nearby_frames_def selected_times_blur Let_def sort_key_map take_map enumerate_map comp_def)
      (auto simp: split_def media_item_blur apsnd_def map_prod_def)
qed

lemma media_result_to_dict_blur:
  "media_result_to_dict (r\<lparr>mr_items := map blur_item (mr_items r), mr_nearby_frames := map blur_item (mr_nearby_frames r)\<rparr>) = media_result_to_dict r"
proof -
  have "rmap media_item_to_dict (map blur_item xs) = rmap media_item_to_dict xs" for xs
    by (induction xs) auto
  then show ?thesis by (simp add: media_result_to_dict_def)
qed

text \<open>
  C27: The public form of a search result does not depend on the private parts of the batches: replacing locators (but for
  the times and the frame of a unit), metadata (but for the public keys), the title of the resource, token counts, ordinals, the
  texts and producers of representations, vectors and embedding spaces by blanks gives the same dictionary, or the same
  exception. So no path, no vector and no private metadata of a media resource reaches the output.
\<close>

theorem media_search_private:
  "rbind (media_search uni (map blur_batch batches) q mode scope limit tw fw nearby) media_result_to_dict =
   rbind (media_search uni batches q mode scope limit tw fw nearby) media_result_to_dict"
proof -
  have "rbind (rbind (media_units (PySeq (map Typed (map blur_batch batches))) mode scope) (\<lambda>units.
          rbind (select_items uni units q mode limit tw fw) (\<lambda>selected.
          Inr \<lparr>mr_query = q, mr_mode = mode, mr_items = selected, mr_nearby_frames = nearby_frames units selected nearby\<rparr>)))
        media_result_to_dict =
      rbind (rbind (media_units (PySeq (map Typed batches)) mode scope) (\<lambda>units.
          rbind (select_items uni units q mode limit tw fw) (\<lambda>selected.
          Inr \<lparr>mr_query = q, mr_mode = mode, mr_items = selected, mr_nearby_frames = nearby_frames units selected nearby\<rparr>)))
        media_result_to_dict"
    unfolding media_units_blur rbind_assoc rbind_Inr select_items_blur nearby_frames_blur
    by (intro rbind_cong refl) (subst media_result_to_dict_blur [symmetric], simp)
  then show ?thesis
    by (cases "validate_weight tw ''transcript_weight''"; cases "validate_weight fw ''frame_weight''")
      (simp_all add: media_search_def retrieve_media_def int_at_least_def raise_if_def Let_def del: map_map)
qed

section \<open>A search\<close>

definition ascii_tables :: unicode_tables where
  "ascii_tables = \<lparr>casefold = map lower_ascii,
     word_char = (\<lambda>c. 48 \<le> c \<and> c \<le> 57 \<or> 65 \<le> c \<and> c \<le> 90 \<or> 97 \<le> c \<and> c \<le> 122 \<or> c = 95)\<rparr>"

definition media_example_unit :: "string \<Rightarrow> pystr \<Rightarrow> string \<Rightarrow> int \<Rightarrow> SearchUnitRecord" where
  "media_example_unit i k text t =
     \<lparr>unit_id = lit i, unit_resource_id = lit ''r'', unit_representation_id = lit ''p'', unit_kind = k,
      unit_modality = lit ''text'', unit_text = Some (lit text),
      unit_evidence_locator = \<lparr>loc_kind = lit ''k'', loc_payload = [(lit ''timestamp_ms'', JInt t)]\<rparr>, unit_ordinal = 0,
      unit_token_count = None, unit_token_count_kind = None, unit_metadata = []\<rparr>"

definition media_example :: PreparedResourceBatch where
  "media_example =
     \<lparr>batch_resource = \<lparr>res_id = lit ''r'', res_kind = lit ''video'', res_media_type = lit ''video/mp4'',
        res_source_namespace = lit ''n'', res_locator = \<lparr>loc_kind = lit ''file'', loc_payload = []\<rparr>, res_content_hash = None,
        res_title = None, res_metadata = []\<rparr>,
      batch_representations = [\<lparr>rep_id = lit ''p'', rep_resource_id = lit ''r'', rep_kind = lit ''x'', rep_modality = lit ''text'',
        rep_text = None, rep_language = None, rep_producer_fingerprint = None, rep_token_count = None, rep_token_count_kind = None,
        rep_metadata = []\<rparr>],
      batch_units = [media_example_unit ''t1'' TRANSCRIPT_UNIT ''Red cat'' 1000, media_example_unit ''t2'' TRANSCRIPT_UNIT ''dog'' 2000,
        media_example_unit ''f1'' FRAME_UNIT ''a CAT'' 1500, media_example_unit ''f2'' FRAME_UNIT ''sky'' 1700],
      batch_spaces = [], batch_vectors = [], batch_facets = []\<rparr>"

lemma media_example_units: "media_units (PySeq [Typed media_example]) hybrid_mode empty_scope = Inr (batch_units media_example)"
  by code_simp

lemma media_example_hits:
  "find_words (word_char ascii_tables) (casefold ascii_tables (lit ''cat'')) = [lit ''cat'']"
  "map (term_hits ascii_tables [lit ''cat'']) (batch_units media_example) = [1, 0, 1, 0]"
  "map unit_kind (batch_units media_example) = [TRANSCRIPT_UNIT, TRANSCRIPT_UNIT, FRAME_UNIT, FRAME_UNIT]"
  "map unit_id (batch_units media_example) = [lit ''t1'', lit ''t2'', lit ''f1'', lit ''f2'']"
  by code_simp+

lemma media_example_shares: "weight_share (PInt 122) (Suc 0) = Inr (Fin 2)" "weight_share (PFloat (Fin 61)) (Suc 0) = Inr (Fin 1)"
  "mk_float 1 = Fin 1" "mk_float 2 = Fin 2"
proof -
  have one: "mk_float 1 = Fin 1" using float_of_int_exact [of 1] by (auto simp: float_of_int_def split: pyfloat.splits)
  have two: "mk_float 2 = Fin 2" using float_of_int_exact [of 2] by (auto simp: float_of_int_def split: pyfloat.splits)
  show "mk_float 1 = Fin 1" "mk_float 2 = Fin 2" by (fact one two)+
  show "weight_share (PInt 122) (Suc 0) = Inr (Fin 2)" by (simp add: weight_share_def two)
  show "weight_share (PFloat (Fin 61)) (Suc 0) = Inr (Fin 1)" by (simp add: weight_share_def fdiv_int_def float_of_int_exact one)
qed

lemma media_example_selected:
  "\<exists>xs. select_items ascii_tables (batch_units media_example) (lit ''cat'') hybrid_mode 5 (PInt 122) (PFloat (Fin 61)) = Inr xs \<and>
     map mi_unit_id xs = [lit ''t1'', lit ''f1'']"
proof -
  obtain t1 t2 f1 f2 where us: "batch_units media_example = [t1, t2, f1, f2]" by (simp add: media_example_def)
  note facts = media_example_hits(2-4) [unfolded us, simplified]
  have ranked: "rank_units ascii_tables (filter (\<lambda>u. unit_kind u = TRANSCRIPT_UNIT) [t1, t2, f1, f2]) [lit ''cat''] = Inr [(t1, Fin 1)]"
    "rank_units ascii_tables (filter (\<lambda>u. unit_kind u = FRAME_UNIT) [t1, t2, f1, f2]) [lit ''cat''] = Inr [(f1, Fin 1)]"
    using facts by (simp_all add: rank_units_def float_of_int_exact)
  have "\<exists>xs. hybrid_units [(t1, Fin 1)] [(f1, Fin 1)] (PInt 122) (PFloat (Fin 61)) 5 = Inr xs \<and> map mi_unit_id xs = [lit ''t1'', lit ''f1'']"
    using facts by (simp add: hybrid_units_def hybrid_branch_def hybrid_entry_def weight_is_zero_def media_example_shares dict_get_def
        media_item_def)
  then show ?thesis by (simp add: us select_items_def media_example_hits(1) ranked Let_def del: filter.simps)
qed

lemma media_example_query: "\<not> blank (lit ''cat'')"
  by (simp add: blank_def strip_def lstrip_def rstrip_def py_isspace_def lit_def)

lemma media_example_returns:
  "\<exists>r. media_search ascii_tables [media_example] (lit ''cat'') hybrid_mode empty_scope 5 (PInt 122) (PFloat (Fin 61)) 3 = Inr r \<and>
     map mi_unit_id (mr_items r) = [lit ''t1'', lit ''f1'']"
proof -
  obtain xs where xs: "select_items ascii_tables (batch_units media_example) (lit ''cat'') hybrid_mode 5 (PInt 122) (PFloat (Fin 61)) = Inr xs"
    "map mi_unit_id xs = [lit ''t1'', lit ''f1'']"
    using media_example_selected by (elim exE conjE)
  have "media_search ascii_tables [media_example] (lit ''cat'') hybrid_mode empty_scope 5 (PInt 122) (PFloat (Fin 61)) 3 =
      Inr \<lparr>mr_query = lit ''cat'', mr_mode = hybrid_mode, mr_items = xs, mr_nearby_frames = nearby_frames (batch_units media_example) xs 3\<rparr>"
    by (simp add: media_search_def retrieve_media_def int_at_least_def validate_weight_def weight_is_zero_def float_of_int_exact
        media_example_units xs(1) media_example_query)
  with xs(2) show ?thesis by simp
qed

theorem media_search_hits_witness:
  "\<exists>r. media_search ascii_tables [media_example] (lit ''cat'') hybrid_mode empty_scope 5 (PInt 122) (PFloat (Fin 61)) 3 = Inr r \<and>
     ranked_items (mr_items r) \<and> map mi_unit_id (mr_items r) = [lit ''t1'', lit ''f1'']"
proof -
  obtain r where r: "media_search ascii_tables [media_example] (lit ''cat'') hybrid_mode empty_scope 5 (PInt 122) (PFloat (Fin 61)) 3 = Inr r"
    "map mi_unit_id (mr_items r) = [lit ''t1'', lit ''f1'']"
    using media_example_returns by (elim exE conjE)
  from media_search_hits [OF r(1) media_example_query] have "ranked_items (mr_items r)" by (rule conjunct1)
  with r show ?thesis by (intro exI conjI)
qed

end
