(* ===== verification/Media_Records.thy ===== *)
theory Media_Records
  imports Media_Policies
begin

text \<open>
  \<open>mdrack_media/records.py\<close>: token counts, timed atoms, passages, transcripts, frame captions and their
  artifacts, each with its validating constructor and its plain dictionary. A derived identity is recomputed and
  compared by the constructor.
\<close>

section \<open>Token counts\<close>

definition REPRESENTATION_AUDIO_TRANSCRIPT :: pystr where
  "REPRESENTATION_AUDIO_TRANSCRIPT = lit ''audio_transcript''"
definition REPRESENTATION_FRAME_CAPTION :: pystr where
  "REPRESENTATION_FRAME_CAPTION = lit ''frame_caption''"
definition REPRESENTATION_TIMED_PASSAGE :: pystr where
  "REPRESENTATION_TIMED_PASSAGE = lit ''timed_passage''"

record TokenCount =
  tok_count :: int
  tok_kind :: pystr
  tok_counter_fingerprint :: Fingerprint

definition new_TokenCount :: "pyobj \<Rightarrow> pyobj \<Rightarrow> Fingerprint anyobj \<Rightarrow> TokenCount result" where
  "new_TokenCount n kind counter_fingerprint =
     rbind (require_int n ''count'' 0) (\<lambda>n.
     rbind (require_member kind TOKEN_COUNT_KINDS ''kind must be exact or estimated'') (\<lambda>kind.
     rbind (require_fingerprint TokenCounterFingerprint counter_fingerprint
       ''counter_fingerprint must be a TokenCounterFingerprint'') (\<lambda>fp.
     Inr \<lparr>tok_count = n, tok_kind = kind, tok_counter_fingerprint = fp\<rparr>)))"

definition token_to_dict :: "TokenCount \<Rightarrow> pyobj" where
  "token_to_dict t = pdict
     [(''count'', PInt (tok_count t)), (''counter_fingerprint'', PStr (fp_value (tok_counter_fingerprint t))),
      (''kind'', PStr (tok_kind t))]"

definition token_from_dict :: "pyobj \<Rightarrow> TokenCount result" where
  "token_from_dict value =
     rbind (expect_keys value ''token count'' (map lit [''count'', ''kind'', ''counter_fingerprint''])) (\<lambda>data.
     rbind (data_item data ''count'') (\<lambda>n.
     rbind (data_item data ''kind'') (\<lambda>kind.
     rbind (data_item data ''counter_fingerprint'') (\<lambda>f.
     rbind (fingerprint_from_dict TokenCounterFingerprint f) (\<lambda>fp.
     new_TokenCount n kind (Typed fp))))))"

section \<open>Atoms\<close>

record TimedTextAtom =
  ta_atom_id :: pystr
  ta_resource_id :: pystr
  ta_start_ms :: int
  ta_end_ms :: int
  ta_text :: pystr
  ta_ordinal :: int
  ta_producer :: Fingerprint
  ta_normalization :: Fingerprint
  ta_token_count :: "TokenCount option"
  ta_speaker :: "pystr option"
  ta_confidence :: "pyfloat option"
  ta_metadata :: jmap

text \<open>\<open>x is None or isinstance(x, T)\<close>.\<close>

fun require_optional_instance :: "'a anyobj option \<Rightarrow> string \<Rightarrow> 'a option result" where
  "require_optional_instance None m = Inr None"
| "require_optional_instance (Some (Typed x)) m = Inr (Some x)"
| "require_optional_instance (Some Untyped) m = Inl (ValueError m)"

text \<open>\<open>if x is not None: require_text(x)\<close>.\<close>

definition require_optional_text :: "pyobj \<Rightarrow> string \<Rightarrow> pystr option result" where
  "require_optional_text value field_name =
     (case value of
        PNone \<Rightarrow> Inr None
      | _ \<Rightarrow> rbind (require_text value field_name False) (\<lambda>s. Inr (Some s)))"

definition require_optional_probability :: "pyobj \<Rightarrow> string \<Rightarrow> pyfloat option result" where
  "require_optional_probability value field_name =
     (case value of
        PNone \<Rightarrow> Inr None
      | _ \<Rightarrow> rbind (require_probability value field_name) (\<lambda>p. Inr (Some p)))"

definition new_TimedTextAtom ::
  "pyobj \<Rightarrow> pyobj \<Rightarrow> pyobj \<Rightarrow> pyobj \<Rightarrow> pyobj \<Rightarrow> pyobj \<Rightarrow> Fingerprint anyobj \<Rightarrow> Fingerprint anyobj \<Rightarrow>
   TokenCount anyobj option \<Rightarrow> pyobj \<Rightarrow> pyobj \<Rightarrow> pyobj \<Rightarrow> TimedTextAtom result" where
  "new_TimedTextAtom aid rid start_ms end_ms txt ordinal producer normalization token speaker confidence metadata =
     rbind (validate_media_id rid ''resource_id'' (Some ID_RESOURCE)) (\<lambda>rid.
     rbind (require_int start_ms ''start_ms'' 0) (\<lambda>start_ms.
     rbind (require_int end_ms ''end_ms'' 0) (\<lambda>end_ms.
     rbind (raise_if (end_ms \<le> start_ms) (ValueError ''end_ms must be greater than start_ms'')) (\<lambda>_.
     rbind (require_text txt ''text'' False) (\<lambda>txt.
     rbind (require_int ordinal ''ordinal'' 0) (\<lambda>ordinal.
     rbind (require_fingerprint ProducerFingerprint producer
       ''producer_fingerprint must be a ProducerFingerprint'') (\<lambda>producer.
     rbind (require_fingerprint NormalizationFingerprint normalization
       ''normalization_fingerprint must be a NormalizationFingerprint'') (\<lambda>normalization.
     rbind (atom_id (PStr rid) (PStr (fp_value producer)) (PInt ordinal)) (\<lambda>expected.
     rbind (validate_media_id aid ''atom_id'' (Some ID_ATOM)) (\<lambda>aid.
     rbind (raise_if (aid \<noteq> expected)
       (ValueError ''atom_id must match resource_id, producer_fingerprint, and ordinal'')) (\<lambda>_.
     rbind (require_optional_instance token ''token_count must be a TokenCount or None'') (\<lambda>token.
     rbind (require_optional_text speaker ''speaker'') (\<lambda>speaker.
     rbind (require_optional_probability confidence ''confidence'') (\<lambda>confidence.
     rbind (freeze_metadata metadata ''metadata'') (\<lambda>metadata.
     Inr \<lparr>ta_atom_id = aid, ta_resource_id = rid, ta_start_ms = start_ms, ta_end_ms = end_ms, ta_text = txt,
          ta_ordinal = ordinal, ta_producer = producer, ta_normalization = normalization, ta_token_count = token,
          ta_speaker = speaker, ta_confidence = confidence, ta_metadata = metadata\<rparr>)))))))))))))))"

definition atom_to_dict :: "TimedTextAtom \<Rightarrow> pyobj" where
  "atom_to_dict a = pdict
     [(''atom_id'', PStr (ta_atom_id a)), (''confidence'', opt_float (ta_confidence a)), (''end_ms'', PInt (ta_end_ms a)),
      (''metadata'', plain_json (JObj (ta_metadata a))),
      (''normalization_fingerprint'', PStr (fp_value (ta_normalization a))), (''ordinal'', PInt (ta_ordinal a)),
      (''producer_fingerprint'', PStr (fp_value (ta_producer a))), (''resource_id'', PStr (ta_resource_id a)),
      (''speaker'', opt_str (ta_speaker a)), (''start_ms'', PInt (ta_start_ms a)), (''text'', PStr (ta_text a)),
      (''token_count'', case ta_token_count a of None \<Rightarrow> PNone | Some t \<Rightarrow> token_to_dict t)]"

definition atom_keys :: "string list" where
  "atom_keys = [''atom_id'', ''confidence'', ''end_ms'', ''metadata'', ''normalization_fingerprint'', ''ordinal'',
     ''producer_fingerprint'', ''resource_id'', ''speaker'', ''start_ms'', ''text'', ''token_count'']"

definition atom_from_dict :: "pyobj \<Rightarrow> TimedTextAtom result" where
  "atom_from_dict value =
     rbind (expect_keys value ''timed text atom'' (map lit atom_keys)) (\<lambda>data.
     rbind (data_item data ''token_count'') (\<lambda>token.
     rbind (data_item data ''atom_id'') (\<lambda>aid.
     rbind (data_item data ''resource_id'') (\<lambda>rid.
     rbind (data_item data ''start_ms'') (\<lambda>start_ms.
     rbind (data_item data ''end_ms'') (\<lambda>end_ms.
     rbind (data_item data ''text'') (\<lambda>txt.
     rbind (data_item data ''ordinal'') (\<lambda>ordinal.
     rbind (data_item data ''producer_fingerprint'') (\<lambda>p.
     rbind (fingerprint_from_dict ProducerFingerprint p) (\<lambda>producer.
     rbind (data_item data ''normalization_fingerprint'') (\<lambda>n.
     rbind (fingerprint_from_dict NormalizationFingerprint n) (\<lambda>normalization.
     rbind (if token = PNone then Inr None else rbind (token_from_dict token) (\<lambda>t. Inr (Some t))) (\<lambda>token.
     rbind (data_item data ''speaker'') (\<lambda>speaker.
     rbind (data_item data ''confidence'') (\<lambda>confidence.
     rbind (data_item data ''metadata'') (\<lambda>m.
     rbind (expect_mapping m ''metadata'') (\<lambda>_.
     new_TimedTextAtom aid rid start_ms end_ms txt ordinal (Typed producer) (Typed normalization)
       (map_option Typed token) speaker confidence m)))))))))))))))))"

section \<open>Passages\<close>

record TimedPassage =
  tp_passage_id :: pystr
  tp_resource_id :: pystr
  tp_representation_id :: pystr
  tp_start_ms :: int
  tp_end_ms :: int
  tp_text :: pystr
  tp_ordinal :: int
  tp_token_count :: TokenCount
  tp_source_atom_ids :: "pystr list"
  tp_grouper :: Fingerprint
  tp_metadata :: jmap

definition source_items :: "pyobj \<Rightarrow> pyobj list result" where
  "source_items value =
     (case value of
        PList xs \<Rightarrow> if xs = [] then Inl (ValueError ''source_atom_ids must be a non-empty sequence'') else Inr xs
      | PTuple xs \<Rightarrow> if xs = [] then Inl (ValueError ''source_atom_ids must be a non-empty sequence'') else Inr xs
      | _ \<Rightarrow> Inl (ValueError ''source_atom_ids must be a non-empty sequence''))"

definition new_TimedPassage ::
  "pyobj \<Rightarrow> pyobj \<Rightarrow> pyobj \<Rightarrow> pyobj \<Rightarrow> pyobj \<Rightarrow> pyobj \<Rightarrow> pyobj \<Rightarrow> TokenCount anyobj \<Rightarrow> pyobj \<Rightarrow>
   Fingerprint anyobj \<Rightarrow> pyobj \<Rightarrow> TimedPassage result" where
  "new_TimedPassage pid rid repid start_ms end_ms txt ordinal token sources grouper metadata =
     rbind (validate_media_id pid ''passage_id'' (Some ID_PASSAGE)) (\<lambda>pid.
     rbind (validate_media_id rid ''resource_id'' (Some ID_RESOURCE)) (\<lambda>rid.
     rbind (validate_media_id repid ''representation_id'' (Some ID_REPRESENTATION)) (\<lambda>repid.
     rbind (require_int start_ms ''start_ms'' 0) (\<lambda>start_ms.
     rbind (require_int end_ms ''end_ms'' 0) (\<lambda>end_ms.
     rbind (raise_if (end_ms \<le> start_ms) (ValueError ''end_ms must be greater than start_ms'')) (\<lambda>_.
     rbind (require_text txt ''text'' False) (\<lambda>txt.
     rbind (require_int ordinal ''ordinal'' 0) (\<lambda>ordinal.
     rbind (require_instance token ''token_count must be a TokenCount'') (\<lambda>token.
     rbind (source_items sources) (\<lambda>xs.
     rbind (rmap (\<lambda>x. validate_media_id x ''source_atom_ids item'' (Some ID_ATOM)) xs) (\<lambda>atom_ids.
     rbind (raise_if (\<not> distinct atom_ids) (ValueError ''source_atom_ids must be unique'')) (\<lambda>_.
     rbind (require_fingerprint GrouperFingerprint grouper ''grouper_fingerprint must be a GrouperFingerprint'') (\<lambda>grouper.
     rbind (freeze_metadata metadata ''metadata'') (\<lambda>metadata.
     Inr \<lparr>tp_passage_id = pid, tp_resource_id = rid, tp_representation_id = repid, tp_start_ms = start_ms,
          tp_end_ms = end_ms, tp_text = txt, tp_ordinal = ordinal, tp_token_count = token,
          tp_source_atom_ids = atom_ids, tp_grouper = grouper, tp_metadata = metadata\<rparr>))))))))))))))"

definition passage_to_dict :: "TimedPassage \<Rightarrow> pyobj" where
  "passage_to_dict p = pdict
     [(''end_ms'', PInt (tp_end_ms p)), (''grouper_fingerprint'', PStr (fp_value (tp_grouper p))),
      (''metadata'', plain_json (JObj (tp_metadata p))), (''ordinal'', PInt (tp_ordinal p)),
      (''passage_id'', PStr (tp_passage_id p)), (''representation_id'', PStr (tp_representation_id p)),
      (''resource_id'', PStr (tp_resource_id p)), (''source_atom_ids'', PList (map PStr (tp_source_atom_ids p))),
      (''start_ms'', PInt (tp_start_ms p)), (''text'', PStr (tp_text p)),
      (''token_count'', token_to_dict (tp_token_count p))]"

definition passage_keys :: "string list" where
  "passage_keys = [''end_ms'', ''grouper_fingerprint'', ''metadata'', ''ordinal'', ''passage_id'', ''representation_id'',
     ''resource_id'', ''source_atom_ids'', ''start_ms'', ''text'', ''token_count'']"

definition passage_from_dict :: "pyobj \<Rightarrow> TimedPassage result" where
  "passage_from_dict value =
     rbind (expect_keys value ''timed passage'' (map lit passage_keys)) (\<lambda>data.
     rbind (data_item data ''passage_id'') (\<lambda>pid.
     rbind (data_item data ''resource_id'') (\<lambda>rid.
     rbind (data_item data ''representation_id'') (\<lambda>repid.
     rbind (data_item data ''start_ms'') (\<lambda>start_ms.
     rbind (data_item data ''end_ms'') (\<lambda>end_ms.
     rbind (data_item data ''text'') (\<lambda>txt.
     rbind (data_item data ''ordinal'') (\<lambda>ordinal.
     rbind (data_item data ''token_count'') (\<lambda>t.
     rbind (token_from_dict t) (\<lambda>token.
     rbind (data_item data ''source_atom_ids'') (\<lambda>s.
     rbind (expect_sequence s ''source_atom_ids'') (\<lambda>sources.
     rbind (data_item data ''grouper_fingerprint'') (\<lambda>g.
     rbind (fingerprint_from_dict GrouperFingerprint g) (\<lambda>grouper.
     rbind (data_item data ''metadata'') (\<lambda>m.
     rbind (expect_mapping m ''metadata'') (\<lambda>_.
     new_TimedPassage pid rid repid start_ms end_ms txt ordinal (Typed token) (PTuple sources) (Typed grouper) m))))))))))))))))"

section \<open>Artifacts\<close>

record TranscriptArtifact =
  tr_resource_id :: pystr
  tr_representation_id :: pystr
  tr_representation_kind :: pystr
  tr_atoms :: "TimedTextAtom list"
  tr_producer :: Fingerprint
  tr_normalization :: Fingerprint
  tr_language :: "pystr option"
  tr_duration_ms :: "int option"
  tr_metadata :: jmap

definition typed_sequence :: "'a pyseq \<Rightarrow> string \<Rightarrow> 'a list result" where
  "typed_sequence value message =
     (case value of
        PyNotSeq \<Rightarrow> Inl (ValueError message)
      | PySeq xs \<Rightarrow> (case typed_items xs of None \<Rightarrow> Inl (ValueError message) | Some ys \<Rightarrow> Inr ys))"

text \<open>\<open>any(p(previous, current) for previous, current in zip(xs, xs[1:]))\<close>.\<close>

fun any_adjacent :: "('a \<Rightarrow> 'a \<Rightarrow> bool) \<Rightarrow> 'a list \<Rightarrow> bool" where
  "any_adjacent p (x # y # zs) = (p x y \<or> any_adjacent p (y # zs))"
| "any_adjacent p _ = False"

text \<open>Lines 301 to 318: the sequence of atoms.\<close>

definition check_transcript_atoms :: "pystr \<Rightarrow> Fingerprint \<Rightarrow> Fingerprint \<Rightarrow> TimedTextAtom list \<Rightarrow> unit result" where
  "check_transcript_atoms rid producer normalization atoms =
     checks
       [raise_if (\<exists>a \<in> set atoms. ta_resource_id a \<noteq> rid) (ValueError ''all atoms must belong to resource_id''),
        raise_if (\<exists>a \<in> set atoms. ta_producer a \<noteq> producer) (ValueError ''all atoms must use producer_fingerprint''),
        raise_if (\<exists>a \<in> set atoms. ta_normalization a \<noteq> normalization)
          (ValueError ''all atoms must use normalization_fingerprint''),
        raise_if (\<not> distinct (map ta_atom_id atoms)) (ValueError ''atom IDs must be unique''),
        raise_if (map ta_ordinal atoms \<noteq> map int [0..<length atoms])
          (ValueError ''atom ordinals must be contiguous and match canonical order''),
        raise_if (any_adjacent (\<lambda>previous current. ta_start_ms current < ta_end_ms previous) atoms)
          (ValueError ''atoms must be ordered and non-overlapping'')]"

text \<open>Lines 322 to 325.\<close>

definition require_transcript_duration :: "pyobj \<Rightarrow> TimedTextAtom list \<Rightarrow> int option result" where
  "require_transcript_duration value atoms =
     (case value of
        PNone \<Rightarrow> Inr None
      | _ \<Rightarrow>
          rbind (require_int value ''duration_ms'' 0) (\<lambda>d.
          rbind (raise_if (atoms \<noteq> [] \<and> d < ta_end_ms (last atoms))
            (ValueError ''duration_ms must include every atom interval'')) (\<lambda>_.
          Inr (Some d))))"

definition new_TranscriptArtifact ::
  "pyobj \<Rightarrow> pyobj \<Rightarrow> pyobj \<Rightarrow> TimedTextAtom pyseq \<Rightarrow> Fingerprint anyobj \<Rightarrow> Fingerprint anyobj \<Rightarrow> pyobj \<Rightarrow> pyobj \<Rightarrow>
   pyobj \<Rightarrow> TranscriptArtifact result" where
  "new_TranscriptArtifact rid repid rkind atoms producer normalization language duration_ms metadata =
     rbind (validate_media_id rid ''resource_id'' (Some ID_RESOURCE)) (\<lambda>rid.
     rbind (validate_media_id repid ''representation_id'' (Some ID_REPRESENTATION)) (\<lambda>repid.
     rbind (raise_if (rkind \<noteq> PStr REPRESENTATION_AUDIO_TRANSCRIPT)
       (ValueError ''representation_kind must be audio_transcript'')) (\<lambda>_.
     rbind (require_fingerprint ProducerFingerprint producer
       ''producer_fingerprint must be a ProducerFingerprint'') (\<lambda>producer.
     rbind (require_fingerprint NormalizationFingerprint normalization
       ''normalization_fingerprint must be a NormalizationFingerprint'') (\<lambda>normalization.
     rbind (representation_id (PStr rid) rkind (PStr (fp_value producer)) (PStr (fp_value normalization))) (\<lambda>expected.
     rbind (raise_if (repid \<noteq> expected)
       (ValueError ''representation_id must match resource_id, representation_kind, producer_fingerprint, and normalization_fingerprint'')) (\<lambda>_.
     rbind (typed_sequence atoms ''atoms must contain only TimedTextAtom values'') (\<lambda>atoms.
     rbind (check_transcript_atoms rid producer normalization atoms) (\<lambda>_.
     rbind (require_optional_text language ''language'') (\<lambda>language.
     rbind (require_transcript_duration duration_ms atoms) (\<lambda>duration_ms.
     rbind (freeze_metadata metadata ''metadata'') (\<lambda>metadata.
     Inr \<lparr>tr_resource_id = rid, tr_representation_id = repid, tr_representation_kind = REPRESENTATION_AUDIO_TRANSCRIPT,
          tr_atoms = atoms, tr_producer = producer, tr_normalization = normalization, tr_language = language,
          tr_duration_ms = duration_ms, tr_metadata = metadata\<rparr>))))))))))))"

definition transcript_to_dict :: "TranscriptArtifact \<Rightarrow> pyobj" where
  "transcript_to_dict t = pdict
     [(''atoms'', PList (map atom_to_dict (tr_atoms t))), (''duration_ms'', opt_int (tr_duration_ms t)),
      (''language'', opt_str (tr_language t)), (''metadata'', plain_json (JObj (tr_metadata t))),
      (''normalization_fingerprint'', PStr (fp_value (tr_normalization t))),
      (''producer_fingerprint'', PStr (fp_value (tr_producer t))),
      (''representation_id'', PStr (tr_representation_id t)), (''representation_kind'', PStr (tr_representation_kind t)),
      (''resource_id'', PStr (tr_resource_id t))]"

definition transcript_keys :: "string list" where
  "transcript_keys = [''atoms'', ''duration_ms'', ''language'', ''metadata'', ''normalization_fingerprint'',
     ''producer_fingerprint'', ''representation_id'', ''representation_kind'', ''resource_id'']"

definition transcript_from_dict :: "pyobj \<Rightarrow> TranscriptArtifact result" where
  "transcript_from_dict value =
     rbind (expect_keys value ''transcript artifact'' (map lit transcript_keys)) (\<lambda>data.
     rbind (data_item data ''resource_id'') (\<lambda>rid.
     rbind (data_item data ''representation_id'') (\<lambda>repid.
     rbind (data_item data ''representation_kind'') (\<lambda>rkind.
     rbind (data_item data ''atoms'') (\<lambda>a.
     rbind (expect_sequence a ''atoms'') (\<lambda>items.
     rbind (rmap atom_from_dict items) (\<lambda>atoms.
     rbind (data_item data ''producer_fingerprint'') (\<lambda>p.
     rbind (fingerprint_from_dict ProducerFingerprint p) (\<lambda>producer.
     rbind (data_item data ''normalization_fingerprint'') (\<lambda>n.
     rbind (fingerprint_from_dict NormalizationFingerprint n) (\<lambda>normalization.
     rbind (data_item data ''language'') (\<lambda>language.
     rbind (data_item data ''duration_ms'') (\<lambda>duration_ms.
     rbind (data_item data ''metadata'') (\<lambda>m.
     rbind (expect_mapping m ''metadata'') (\<lambda>_.
     new_TranscriptArtifact rid repid rkind (PySeq (map Typed atoms)) (Typed producer) (Typed normalization)
       language duration_ms m)))))))))))))))"

record FrameCaptionObservation =
  fo_frame_id :: pystr
  fo_resource_id :: pystr
  fo_timestamp_ms :: int
  fo_observation_identity :: pystr
  fo_caption :: pystr
  fo_ordinal :: int
  fo_token_count :: TokenCount
  fo_producer :: Fingerprint
  fo_normalization :: Fingerprint
  fo_metadata :: jmap
  fo_content :: Fingerprint

text \<open>Lines 401 to 408: a missing content fingerprint is computed from the caption.\<close>

definition content_fingerprint :: "Fingerprint anyobj option \<Rightarrow> pystr \<Rightarrow> Fingerprint result" where
  "content_fingerprint value caption =
     (case value of
        None \<Rightarrow> fingerprint_from_payload ContentFingerprint (pdict [(''caption'', PStr caption)])
      | Some fp \<Rightarrow>
          require_fingerprint ContentFingerprint fp ''content_fingerprint must be a ContentFingerprint or None'')"

definition new_FrameCaptionObservation ::
  "pyobj \<Rightarrow> pyobj \<Rightarrow> pyobj \<Rightarrow> pyobj \<Rightarrow> pyobj \<Rightarrow> pyobj \<Rightarrow> TokenCount anyobj \<Rightarrow> Fingerprint anyobj \<Rightarrow> Fingerprint anyobj \<Rightarrow>
   pyobj \<Rightarrow> Fingerprint anyobj option \<Rightarrow> FrameCaptionObservation result" where
  "new_FrameCaptionObservation fid rid timestamp_ms identity caption ordinal token producer normalization metadata content =
     rbind (validate_media_id rid ''resource_id'' (Some ID_RESOURCE)) (\<lambda>rid.
     rbind (require_int timestamp_ms ''timestamp_ms'' 0) (\<lambda>timestamp_ms.
     rbind (require_text identity ''observation_identity'' False) (\<lambda>identity.
     rbind (require_text caption ''caption'' False) (\<lambda>caption.
     rbind (require_int ordinal ''ordinal'' 0) (\<lambda>ordinal.
     rbind (require_instance token ''token_count must be a TokenCount'') (\<lambda>token.
     rbind (require_fingerprint ProducerFingerprint producer
       ''producer_fingerprint must be a ProducerFingerprint'') (\<lambda>producer.
     rbind (require_fingerprint NormalizationFingerprint normalization
       ''normalization_fingerprint must be a NormalizationFingerprint'') (\<lambda>normalization.
     rbind (content_fingerprint content caption) (\<lambda>content.
     rbind (frame_id (PStr rid) (PStr (fp_value producer)) (PInt ordinal) (PInt timestamp_ms) (PStr identity)) (\<lambda>expected.
     rbind (validate_media_id fid ''frame_id'' (Some ID_FRAME)) (\<lambda>fid.
     rbind (raise_if (fid \<noteq> expected)
       (ValueError ''frame_id must match resource_id, producer_fingerprint, ordinal, timestamp_ms, and observation_identity'')) (\<lambda>_.
     rbind (freeze_metadata metadata ''metadata'') (\<lambda>metadata.
     Inr \<lparr>fo_frame_id = fid, fo_resource_id = rid, fo_timestamp_ms = timestamp_ms, fo_observation_identity = identity,
          fo_caption = caption, fo_ordinal = ordinal, fo_token_count = token, fo_producer = producer,
          fo_normalization = normalization, fo_metadata = metadata, fo_content = content\<rparr>)))))))))))))"

definition observation_to_dict :: "FrameCaptionObservation \<Rightarrow> pyobj" where
  "observation_to_dict f = pdict
     [(''caption'', PStr (fo_caption f)), (''content_fingerprint'', PStr (fp_value (fo_content f))),
      (''frame_id'', PStr (fo_frame_id f)), (''metadata'', plain_json (JObj (fo_metadata f))),
      (''normalization_fingerprint'', PStr (fp_value (fo_normalization f))),
      (''observation_identity'', PStr (fo_observation_identity f)), (''ordinal'', PInt (fo_ordinal f)),
      (''producer_fingerprint'', PStr (fp_value (fo_producer f))), (''resource_id'', PStr (fo_resource_id f)),
      (''timestamp_ms'', PInt (fo_timestamp_ms f)), (''token_count'', token_to_dict (fo_token_count f))]"

definition observation_keys :: "string list" where
  "observation_keys = [''caption'', ''content_fingerprint'', ''frame_id'', ''metadata'', ''normalization_fingerprint'',
     ''observation_identity'', ''ordinal'', ''producer_fingerprint'', ''resource_id'', ''timestamp_ms'', ''token_count'']"

definition observation_from_dict :: "pyobj \<Rightarrow> FrameCaptionObservation result" where
  "observation_from_dict value =
     rbind (expect_keys value ''frame caption observation'' (map lit observation_keys)) (\<lambda>data.
     rbind (data_item data ''frame_id'') (\<lambda>fid.
     rbind (data_item data ''resource_id'') (\<lambda>rid.
     rbind (data_item data ''timestamp_ms'') (\<lambda>timestamp_ms.
     rbind (data_item data ''observation_identity'') (\<lambda>identity.
     rbind (data_item data ''caption'') (\<lambda>caption.
     rbind (data_item data ''content_fingerprint'') (\<lambda>c.
     rbind (fingerprint_from_dict ContentFingerprint c) (\<lambda>content.
     rbind (data_item data ''ordinal'') (\<lambda>ordinal.
     rbind (data_item data ''token_count'') (\<lambda>t.
     rbind (token_from_dict t) (\<lambda>token.
     rbind (data_item data ''producer_fingerprint'') (\<lambda>p.
     rbind (fingerprint_from_dict ProducerFingerprint p) (\<lambda>producer.
     rbind (data_item data ''normalization_fingerprint'') (\<lambda>n.
     rbind (fingerprint_from_dict NormalizationFingerprint n) (\<lambda>normalization.
     rbind (data_item data ''metadata'') (\<lambda>m.
     rbind (expect_mapping m ''metadata'') (\<lambda>_.
     new_FrameCaptionObservation fid rid timestamp_ms identity caption ordinal (Typed token) (Typed producer)
       (Typed normalization) m (Some (Typed content)))))))))))))))))))"

record FrameCaptionArtifact =
  fa_resource_id :: pystr
  fa_representation_id :: pystr
  fa_representation_kind :: pystr
  fa_observations :: "FrameCaptionObservation list"
  fa_producer :: Fingerprint
  fa_normalization :: Fingerprint
  fa_metadata :: jmap

definition check_observations :: "pystr \<Rightarrow> Fingerprint \<Rightarrow> Fingerprint \<Rightarrow> FrameCaptionObservation list \<Rightarrow> unit result" where
  "check_observations rid producer normalization observations =
     checks
       [raise_if (\<exists>f \<in> set observations. fo_resource_id f \<noteq> rid) (ValueError ''all observations must belong to resource_id''),
        raise_if (\<exists>f \<in> set observations. fo_producer f \<noteq> producer)
          (ValueError ''all observations must use producer_fingerprint''),
        raise_if (\<exists>f \<in> set observations. fo_normalization f \<noteq> normalization)
          (ValueError ''all observations must use normalization_fingerprint''),
        raise_if (\<not> distinct (map fo_frame_id observations)) (ValueError ''frame IDs must be unique''),
        raise_if (map fo_ordinal observations \<noteq> map int [0..<length observations])
          (ValueError ''frame ordinals must be contiguous and match canonical order''),
        raise_if (any_adjacent (\<lambda>previous current. fo_timestamp_ms current < fo_timestamp_ms previous) observations)
          (ValueError ''frames must be ordered by nondecreasing timestamp_ms'')]"

definition new_FrameCaptionArtifact ::
  "pyobj \<Rightarrow> pyobj \<Rightarrow> pyobj \<Rightarrow> FrameCaptionObservation pyseq \<Rightarrow> Fingerprint anyobj \<Rightarrow> Fingerprint anyobj \<Rightarrow> pyobj \<Rightarrow>
   FrameCaptionArtifact result" where
  "new_FrameCaptionArtifact rid repid rkind observations producer normalization metadata =
     rbind (validate_media_id rid ''resource_id'' (Some ID_RESOURCE)) (\<lambda>rid.
     rbind (validate_media_id repid ''representation_id'' (Some ID_REPRESENTATION)) (\<lambda>repid.
     rbind (raise_if (rkind \<noteq> PStr REPRESENTATION_FRAME_CAPTION)
       (ValueError ''representation_kind must be frame_caption'')) (\<lambda>_.
     rbind (require_fingerprint ProducerFingerprint producer
       ''producer_fingerprint must be a ProducerFingerprint'') (\<lambda>producer.
     rbind (require_fingerprint NormalizationFingerprint normalization
       ''normalization_fingerprint must be a NormalizationFingerprint'') (\<lambda>normalization.
     rbind (representation_id (PStr rid) rkind (PStr (fp_value producer)) (PStr (fp_value normalization))) (\<lambda>expected.
     rbind (raise_if (repid \<noteq> expected)
       (ValueError ''representation_id must match resource_id, representation_kind, producer_fingerprint, and normalization_fingerprint'')) (\<lambda>_.
     rbind (typed_sequence observations ''observations must contain only FrameCaptionObservation values'') (\<lambda>observations.
     rbind (check_observations rid producer normalization observations) (\<lambda>_.
     rbind (freeze_metadata metadata ''metadata'') (\<lambda>metadata.
     Inr \<lparr>fa_resource_id = rid, fa_representation_id = repid, fa_representation_kind = REPRESENTATION_FRAME_CAPTION,
          fa_observations = observations, fa_producer = producer, fa_normalization = normalization,
          fa_metadata = metadata\<rparr>))))))))))"

definition frames_to_dict :: "FrameCaptionArtifact \<Rightarrow> pyobj" where
  "frames_to_dict f = pdict
     [(''metadata'', plain_json (JObj (fa_metadata f))),
      (''normalization_fingerprint'', PStr (fp_value (fa_normalization f))),
      (''observations'', PList (map observation_to_dict (fa_observations f))),
      (''producer_fingerprint'', PStr (fp_value (fa_producer f))), (''representation_id'', PStr (fa_representation_id f)),
      (''representation_kind'', PStr (fa_representation_kind f)), (''resource_id'', PStr (fa_resource_id f))]"

definition frames_keys :: "string list" where
  "frames_keys = [''metadata'', ''normalization_fingerprint'', ''observations'', ''producer_fingerprint'',
     ''representation_id'', ''representation_kind'', ''resource_id'']"

definition frames_from_dict :: "pyobj \<Rightarrow> FrameCaptionArtifact result" where
  "frames_from_dict value =
     rbind (expect_keys value ''frame caption artifact'' (map lit frames_keys)) (\<lambda>data.
     rbind (data_item data ''resource_id'') (\<lambda>rid.
     rbind (data_item data ''representation_id'') (\<lambda>repid.
     rbind (data_item data ''representation_kind'') (\<lambda>rkind.
     rbind (data_item data ''observations'') (\<lambda>obs.
     rbind (expect_sequence obs ''observations'') (\<lambda>items.
     rbind (rmap observation_from_dict items) (\<lambda>observations.
     rbind (data_item data ''producer_fingerprint'') (\<lambda>p.
     rbind (fingerprint_from_dict ProducerFingerprint p) (\<lambda>producer.
     rbind (data_item data ''normalization_fingerprint'') (\<lambda>n.
     rbind (fingerprint_from_dict NormalizationFingerprint n) (\<lambda>normalization.
     rbind (data_item data ''metadata'') (\<lambda>m.
     rbind (expect_mapping m ''metadata'') (\<lambda>_.
     new_FrameCaptionArtifact rid repid rkind (PySeq (map Typed observations)) (Typed producer) (Typed normalization) m)))))))))))))"

section \<open>Invariants\<close>

definition wf_token :: "TokenCount \<Rightarrow> bool" where
  "wf_token t \<longleftrightarrow> 0 \<le> tok_count t \<and> tok_kind t \<in> set TOKEN_COUNT_KINDS \<and>
     wf_fp TokenCounterFingerprint (tok_counter_fingerprint t)"

definition wf_atom :: "TimedTextAtom \<Rightarrow> bool" where
  "wf_atom a \<longleftrightarrow>
     media_id ID_RESOURCE (ta_resource_id a) \<and> 0 \<le> ta_start_ms a \<and> ta_start_ms a < ta_end_ms a \<and>
     wf_name (ta_text a) \<and> 0 \<le> ta_ordinal a \<and>
     wf_fp ProducerFingerprint (ta_producer a) \<and> wf_fp NormalizationFingerprint (ta_normalization a) \<and>
     atom_id (PStr (ta_resource_id a)) (PStr (fp_value (ta_producer a))) (PInt (ta_ordinal a)) = Inr (ta_atom_id a) \<and>
     pred_option wf_token (ta_token_count a) \<and> pred_option wf_name (ta_speaker a) \<and>
     pred_option (\<lambda>c. Fin 0 \<le> c \<and> c \<le> Fin 1) (ta_confidence a) \<and> wf_meta (ta_metadata a)"

definition wf_passage :: "TimedPassage \<Rightarrow> bool" where
  "wf_passage p \<longleftrightarrow>
     media_id ID_PASSAGE (tp_passage_id p) \<and> media_id ID_RESOURCE (tp_resource_id p) \<and>
     media_id ID_REPRESENTATION (tp_representation_id p) \<and> 0 \<le> tp_start_ms p \<and> tp_start_ms p < tp_end_ms p \<and>
     wf_name (tp_text p) \<and> 0 \<le> tp_ordinal p \<and> wf_token (tp_token_count p) \<and>
     tp_source_atom_ids p \<noteq> [] \<and> list_all (media_id ID_ATOM) (tp_source_atom_ids p) \<and> distinct (tp_source_atom_ids p) \<and>
     wf_fp GrouperFingerprint (tp_grouper p) \<and> wf_meta (tp_metadata p)"

definition wf_transcript :: "TranscriptArtifact \<Rightarrow> bool" where
  "wf_transcript t \<longleftrightarrow>
     media_id ID_RESOURCE (tr_resource_id t) \<and> tr_representation_kind t = REPRESENTATION_AUDIO_TRANSCRIPT \<and>
     wf_fp ProducerFingerprint (tr_producer t) \<and> wf_fp NormalizationFingerprint (tr_normalization t) \<and>
     representation_id (PStr (tr_resource_id t)) (PStr REPRESENTATION_AUDIO_TRANSCRIPT)
       (PStr (fp_value (tr_producer t))) (PStr (fp_value (tr_normalization t))) = Inr (tr_representation_id t) \<and>
     list_all wf_atom (tr_atoms t) \<and>
     check_transcript_atoms (tr_resource_id t) (tr_producer t) (tr_normalization t) (tr_atoms t) = Inr () \<and>
     pred_option wf_name (tr_language t) \<and>
     pred_option (\<lambda>d. 0 \<le> d \<and> (tr_atoms t \<noteq> [] \<longrightarrow> ta_end_ms (last (tr_atoms t)) \<le> d)) (tr_duration_ms t) \<and>
     wf_meta (tr_metadata t)"

definition wf_observation :: "FrameCaptionObservation \<Rightarrow> bool" where
  "wf_observation f \<longleftrightarrow>
     media_id ID_RESOURCE (fo_resource_id f) \<and> 0 \<le> fo_timestamp_ms f \<and> wf_name (fo_observation_identity f) \<and>
     wf_name (fo_caption f) \<and> 0 \<le> fo_ordinal f \<and> wf_token (fo_token_count f) \<and>
     wf_fp ProducerFingerprint (fo_producer f) \<and> wf_fp NormalizationFingerprint (fo_normalization f) \<and>
     wf_fp ContentFingerprint (fo_content f) \<and>
     frame_id (PStr (fo_resource_id f)) (PStr (fp_value (fo_producer f))) (PInt (fo_ordinal f))
       (PInt (fo_timestamp_ms f)) (PStr (fo_observation_identity f)) = Inr (fo_frame_id f) \<and>
     wf_meta (fo_metadata f)"

definition wf_frames :: "FrameCaptionArtifact \<Rightarrow> bool" where
  "wf_frames f \<longleftrightarrow>
     media_id ID_RESOURCE (fa_resource_id f) \<and> fa_representation_kind f = REPRESENTATION_FRAME_CAPTION \<and>
     wf_fp ProducerFingerprint (fa_producer f) \<and> wf_fp NormalizationFingerprint (fa_normalization f) \<and>
     representation_id (PStr (fa_resource_id f)) (PStr REPRESENTATION_FRAME_CAPTION)
       (PStr (fp_value (fa_producer f))) (PStr (fp_value (fa_normalization f))) = Inr (fa_representation_id f) \<and>
     list_all wf_observation (fa_observations f) \<and>
     check_observations (fa_resource_id f) (fa_producer f) (fa_normalization f) (fa_observations f) = Inr () \<and>
     wf_meta (fa_metadata f)"

section \<open>Field validators\<close>

lemma require_optional_instance_eq_Inr [result_simps]:
  "require_optional_instance v m = Inr x \<longleftrightarrow> v = map_option Typed x"
  by (cases "(v, m)" rule: require_optional_instance.cases; cases x) auto

lemma map_option_Typed: "map_option Typed x = map_option Typed y \<longleftrightarrow> x = y"
  by (cases x; cases y) auto

lemma require_optional_text_eq_Inr [result_simps]:
  "require_optional_text v f = Inr x \<longleftrightarrow> v = opt_str x \<and> pred_option wf_name x"
  by (cases v; cases x) (auto simp: require_optional_text_def rbind_eq_Inr require_text_eq_Inr wf_name_text)

lemma require_optional_probability_again:
  "pred_option (\<lambda>c. Fin 0 \<le> c \<and> c \<le> Fin 1) x \<Longrightarrow> require_optional_probability (opt_float x) f = Inr x"
  by (cases x) (auto simp: require_optional_probability_def opt_float_def rbind_eq_Inr require_probability_eq_Inr)

lemma require_optional_probability_wf:
  "require_optional_probability v f = Inr x \<Longrightarrow> pred_option (\<lambda>c. Fin 0 \<le> c \<and> c \<le> Fin 1) x"
  by (cases v) (auto simp: require_optional_probability_def rbind_eq_Inr dest: require_probability_range)

lemma require_transcript_duration_eq_Inr [result_simps]:
  "require_transcript_duration v as = Inr x \<longleftrightarrow>
     v = opt_int x \<and> pred_option (\<lambda>d. 0 \<le> d \<and> (as \<noteq> [] \<longrightarrow> ta_end_ms (last as) \<le> d)) x"
  by (cases v; cases x) (auto simp: require_transcript_duration_def rbind_eq_Inr require_int_eq_Inr)

lemma typed_sequence_eq_Inr [result_simps]: "typed_sequence v m = Inr xs \<longleftrightarrow> v = PySeq (map Typed xs)"
  by (cases v) (auto simp: typed_sequence_def typed_items_eq_Some split: option.splits)

lemma require_instance_eq_Typed [result_simps]: "require_instance v m = Inr x \<longleftrightarrow> v = Typed x"
  by (cases v) auto

lemma source_items_eq_Inr [result_simps]: "source_items v = Inr xs \<longleftrightarrow> xs \<noteq> [] \<and> (v = PList xs \<or> v = PTuple xs)"
  by (cases v) (auto simp: source_items_def)

lemma expect_sequence_eq_Inr: "expect_sequence v f = Inr xs \<longleftrightarrow> v = PList xs \<or> v = PTuple xs"
  by (cases v) (auto simp: expect_sequence_def)

lemma validate_ids_eq_Inr [result_simps]:
  "rmap (\<lambda>x. validate_media_id x f (Some k)) xs = Inr ids \<longleftrightarrow> xs = map PStr ids \<and> list_all (media_id k) ids"
proof (induction xs arbitrary: ids)
  case (Cons x xs)
  show ?case by (cases ids) (auto simp: rbind_eq_Inr validate_media_id_eq_Inr Cons.IH)
qed auto

lemma expect_mapping_plain: "\<exists>its. expect_mapping (plain_json (JObj ms)) f = Inr its"
proof -
  have "str_items (map (\<lambda>(k, j). (PStr k, to_plain_json j)) ms) = Some (map (\<lambda>(k, j). (k, to_plain_json j)) ms)"
    by (induction ms) auto
  then show ?thesis by (simp add: expect_mapping_def plain_json_def split_def)
qed

lemma wf_fp_class: "wf_fp cls fp \<Longrightarrow> require_fingerprint cls (Typed fp) m = Inr fp"
  by (simp add: require_fingerprint_eq_Inr wf_fp_def)

lemma wf_fp_decode: "wf_fp cls fp \<Longrightarrow> fingerprint_from_dict cls (PStr (fp_value fp)) = Inr fp"
  by (simp add: fingerprint_from_dict_eq_Inr)

lemma require_int_ok: "m \<le> i \<Longrightarrow> require_int (PInt i) f m = Inr i"
  by (simp add: require_int_eq_Inr)

lemma require_text_ok: "wf_name s \<Longrightarrow> require_text (PStr s) f False = Inr s"
  by (simp add: require_text_eq_Inr wf_name_text)

lemma freeze_metadata_plain: "wf_meta ms \<Longrightarrow> freeze_metadata (plain_json (JObj ms)) f = Inr ms"
  unfolding plain_json_def by (rule freeze_metadata_again)

lemma plain_json_dict: "wf_meta ms \<Longrightarrow> dict_keys_distinct (plain_json (JObj ms))"
  unfolding plain_json_def by (rule wf_meta_dict)

lemmas field_ok = wf_fp_class wf_fp_decode require_int_ok require_text_ok freeze_metadata_plain validate_media_id_ok
  require_optional_probability_again

section \<open>Plain forms\<close>

interpretation token: record_codec wf_token token_to_dict token_from_dict dict_keys_distinct
proof
  show "token_from_dict (token_to_dict t) = Inr t" if "wf_token t" for t
  proof -
    have "set (map lit [''count'', ''kind'', ''counter_fingerprint'']) = lit ` set (map fst
        [(''count'', PInt (tok_count t)), (''counter_fingerprint'', PStr (fp_value (tok_counter_fingerprint t))),
         (''kind'', PStr (tok_kind t))])" by auto
    then show ?thesis using that
      by (simp add: token_from_dict_def token_to_dict_def plain_dict new_TokenCount_def wf_token_def field_ok require_member_def)
  qed
  show "wf_token t" if "token_from_dict v = Inr t" for v t
    using that by (auto simp: token_from_dict_def new_TokenCount_def result_simps wf_token_def)
  show "dict_keys_distinct (token_to_dict t)" for t by (simp add: token_to_dict_def pdict_distinct)
qed

lemma token_not_None: "token_to_dict t \<noteq> PNone"
  by (simp add: token_to_dict_def pdict_def)

lemma optional_token_decode:
  "pred_option wf_token x \<Longrightarrow>
   (if (case x of None \<Rightarrow> PNone | Some t \<Rightarrow> token_to_dict t) = PNone then Inr None
    else rbind (token_from_dict (case x of None \<Rightarrow> PNone | Some t \<Rightarrow> token_to_dict t)) (\<lambda>t. Inr (Some t))) = Inr x"
  by (cases x) (auto simp: token.decode_encode token_not_None)

lemma new_TimedTextAtom_again:
  assumes "wf_atom a"
  shows "new_TimedTextAtom (PStr (ta_atom_id a)) (PStr (ta_resource_id a)) (PInt (ta_start_ms a)) (PInt (ta_end_ms a))
    (PStr (ta_text a)) (PInt (ta_ordinal a)) (Typed (ta_producer a)) (Typed (ta_normalization a))
    (map_option Typed (ta_token_count a)) (opt_str (ta_speaker a)) (opt_float (ta_confidence a))
    (plain_json (JObj (ta_metadata a))) = Inr a"
proof -
  have "media_id ID_ATOM (ta_atom_id a)" using assms derived_ids_canonical(3) by (auto simp: wf_atom_def)
  moreover have "require_optional_instance (map_option Typed (ta_token_count a)) m = Inr (ta_token_count a)" for m
    by (simp add: require_optional_instance_eq_Inr)
  moreover have "require_optional_text (opt_str (ta_speaker a)) f = Inr (ta_speaker a)" for f
    using assms by (simp add: require_optional_text_eq_Inr wf_atom_def)
  ultimately show ?thesis using assms by (simp add: new_TimedTextAtom_def wf_atom_def field_ok)
qed

lemma new_TimedTextAtom_wf:
  assumes "new_TimedTextAtom aid rid s e txt ord (Typed pr) (Typed no) (map_option Typed tok) sp conf meta = Inr a"
    "dict_keys_distinct meta" "wf_fp ProducerFingerprint pr" "wf_fp NormalizationFingerprint no" "pred_option wf_token tok"
  shows "wf_atom a"
  using assms freeze_metadata_wf [OF assms(2)]
  by (auto simp: new_TimedTextAtom_def result_simps wf_atom_def wf_name_text map_option_Typed
      dest: require_optional_probability_wf)

lemma optional_token_wf:
  "(if x = PNone then Inr None else rbind (token_from_dict x) (\<lambda>t. Inr (Some t))) = Inr y \<Longrightarrow> dict_keys_distinct x \<Longrightarrow>
   pred_option wf_token y"
  by (auto simp: rbind_eq_Inr split: if_splits dest: token.decode_wf)

lemma atom_dict_ok: "wf_atom a \<Longrightarrow> dict_keys_distinct (atom_to_dict a)"
proof -
  assume "wf_atom a"
  then have "dict_keys_distinct (plain_json (JObj (ta_metadata a)))" by (simp add: wf_atom_def plain_json_dict)
  moreover have "dict_keys_distinct (opt_float c)" "dict_keys_distinct (opt_str s)" for c s
    by (cases c; simp add: opt_float_def) (cases s; simp)
  moreover have "dict_keys_distinct (case x of None \<Rightarrow> PNone | Some t \<Rightarrow> token_to_dict t)" for x
    by (cases x) (simp_all add: token_to_dict_def pdict_distinct)
  ultimately show ?thesis by (simp add: atom_to_dict_def pdict_distinct)
qed

lemma atom_decode_wf:
  assumes "dict_keys_distinct v" "atom_from_dict v = Inr a"
  shows "wf_atom a"
proof -
  obtain data where d: "expect_keys v ''timed text atom'' (map lit atom_keys) = Inr data"
    using assms(2) by (auto simp: atom_from_dict_def rbind_eq_Inr)
  note item = data_item_distinct [OF assms(1) d]
  from assms(2) show ?thesis
    by (auto simp: atom_from_dict_def d rbind_eq_Inr fingerprint_from_dict_eq_Inr dest!: item
        elim!: new_TimedTextAtom_wf intro: optional_token_wf)
qed

interpretation atom: record_codec wf_atom atom_to_dict atom_from_dict dict_keys_distinct
proof
  show "atom_from_dict (atom_to_dict a) = Inr a" if "wf_atom a" for a
  proof -
    obtain its where "expect_mapping (plain_json (JObj (ta_metadata a))) ''metadata'' = Inr its"
      using expect_mapping_plain by blast
    then show ?thesis using that new_TimedTextAtom_again [OF that] optional_token_decode
      by (simp add: atom_from_dict_def atom_to_dict_def plain_dict atom_keys_def wf_atom_def wf_fp_decode)
  qed
qed (auto intro: atom_decode_wf atom_dict_ok)

lemma new_TimedPassage_again:
  assumes "wf_passage p"
  shows "new_TimedPassage (PStr (tp_passage_id p)) (PStr (tp_resource_id p)) (PStr (tp_representation_id p))
    (PInt (tp_start_ms p)) (PInt (tp_end_ms p)) (PStr (tp_text p)) (PInt (tp_ordinal p)) (Typed (tp_token_count p))
    (PTuple (map PStr (tp_source_atom_ids p))) (Typed (tp_grouper p)) (plain_json (JObj (tp_metadata p))) = Inr p"
proof -
  have "source_items (PTuple (map PStr (tp_source_atom_ids p))) = Inr (map PStr (tp_source_atom_ids p))"
    using assms by (simp add: source_items_def wf_passage_def)
  moreover have "rmap (\<lambda>x. validate_media_id x f (Some ID_ATOM)) (map PStr (tp_source_atom_ids p)) =
      Inr (tp_source_atom_ids p)" for f
    using assms by (simp add: validate_ids_eq_Inr wf_passage_def)
  ultimately show ?thesis using assms by (simp add: new_TimedPassage_def wf_passage_def field_ok)
qed

lemma new_TimedPassage_wf:
  assumes "new_TimedPassage pid rid repid s e txt ord (Typed tok) sources (Typed gr) meta = Inr p"
    "dict_keys_distinct meta" "wf_fp GrouperFingerprint gr" "wf_token tok"
  shows "wf_passage p"
  using assms freeze_metadata_wf [OF assms(2)]
  by (auto simp: new_TimedPassage_def result_simps wf_passage_def wf_name_text simp del: rmap_eq_Inr)

lemma passage_decode_wf:
  assumes "dict_keys_distinct v" "passage_from_dict v = Inr p"
  shows "wf_passage p"
proof -
  obtain data where d: "expect_keys v ''timed passage'' (map lit passage_keys) = Inr data"
    using assms(2) by (auto simp: passage_from_dict_def rbind_eq_Inr)
  note item = data_item_distinct [OF assms(1) d]
  from assms(2) show ?thesis
    by (auto simp: passage_from_dict_def d rbind_eq_Inr fingerprint_from_dict_eq_Inr dest!: item
        elim!: new_TimedPassage_wf intro: token.decode_wf)
qed

interpretation passage: record_codec wf_passage passage_to_dict passage_from_dict dict_keys_distinct
proof
  show "passage_from_dict (passage_to_dict p) = Inr p" if "wf_passage p" for p
  proof -
    obtain its where "expect_mapping (plain_json (JObj (tp_metadata p))) ''metadata'' = Inr its"
      using expect_mapping_plain by blast
    moreover have "wf_fp GrouperFingerprint (tp_grouper p)" "wf_token (tp_token_count p)"
      using that by (simp_all add: wf_passage_def)
    ultimately show ?thesis using new_TimedPassage_again [OF that]
      by (simp add: passage_from_dict_def passage_to_dict_def plain_dict passage_keys_def wf_fp_decode
          token.decode_encode expect_sequence_def)
  qed
  show "dict_keys_distinct (passage_to_dict p)" if "wf_passage p" for p
    using that by (simp add: passage_to_dict_def pdict_distinct wf_passage_def plain_json_dict token.encode_ok list_all_iff)
qed (rule passage_decode_wf)

lemma representation_id_media: "representation_id a b c d = Inr s \<Longrightarrow> validate_media_id (PStr s) f (Some ID_REPRESENTATION) = Inr s"
  by (simp add: validate_media_id_ok derived_ids_canonical(2))

lemma representation_id_total:
  assumes "media_id ID_RESOURCE rid" "wf_name k" "wf_name p" "wf_name n"
  shows "\<exists>r. representation_id (PStr rid) (PStr k) (PStr p) (PStr n) = Inr r"
proof -
  have "list_all scalar_part [PStr rid, PStr k, PStr p, PStr n]" using assms media_id_name(2) by (auto simp: wf_name_text)
  moreover have "ID_REPRESENTATION \<in> set ID_KINDS" by (simp add: ID_KINDS_def)
  ultimately show ?thesis using assms stable_media_id_scalar by (simp add: representation_id_def field_ok)
qed

lemma new_TranscriptArtifact_again:
  assumes "wf_transcript t"
  shows "new_TranscriptArtifact (PStr (tr_resource_id t)) (PStr (tr_representation_id t)) (PStr (tr_representation_kind t))
    (PySeq (map Typed (tr_atoms t))) (Typed (tr_producer t)) (Typed (tr_normalization t)) (opt_str (tr_language t))
    (opt_int (tr_duration_ms t)) (plain_json (JObj (tr_metadata t))) = Inr t"
proof -
  have "validate_media_id (PStr (tr_representation_id t)) f (Some ID_REPRESENTATION) = Inr (tr_representation_id t)" for f
    using assms representation_id_media by (auto simp: wf_transcript_def)
  moreover have "typed_sequence (PySeq (map Typed (tr_atoms t))) m = Inr (tr_atoms t)" for m
    by (simp add: typed_sequence_def)
  moreover have "require_optional_text (opt_str (tr_language t)) f = Inr (tr_language t)" for f
    using assms by (simp add: require_optional_text_eq_Inr wf_transcript_def)
  moreover have "require_transcript_duration (opt_int (tr_duration_ms t)) (tr_atoms t) = Inr (tr_duration_ms t)"
    using assms by (simp add: require_transcript_duration_eq_Inr wf_transcript_def)
  ultimately show ?thesis using assms by (cases t) (simp add: new_TranscriptArtifact_def wf_transcript_def field_ok)
qed

lemma new_TranscriptArtifact_wf:
  assumes "new_TranscriptArtifact rid repid k (PySeq (map Typed as)) (Typed pr) (Typed no) lang dur meta = Inr t"
    "dict_keys_distinct meta" "wf_fp ProducerFingerprint pr" "wf_fp NormalizationFingerprint no" "list_all wf_atom as"
  shows "wf_transcript t"
  using assms freeze_metadata_wf [OF assms(2)]
  by (auto simp: new_TranscriptArtifact_def rbind_eq_Inr validate_media_id_eq_Inr require_fingerprint_eq_Inr
      typed_sequence_eq_Inr require_optional_text_eq_Inr require_transcript_duration_eq_Inr wf_transcript_def)

lemma sequence_items_distinct:
  "dict_keys_distinct v \<Longrightarrow> expect_sequence v f = Inr xs \<Longrightarrow> list_all dict_keys_distinct xs"
  by (auto simp: expect_sequence_eq_Inr)

lemma transcript_decode_wf:
  assumes "dict_keys_distinct v" "transcript_from_dict v = Inr t"
  shows "wf_transcript t"
proof -
  obtain data where d: "expect_keys v ''transcript artifact'' (map lit transcript_keys) = Inr data"
    using assms(2) by (auto simp: transcript_from_dict_def rbind_eq_Inr)
  note item = data_item_distinct [OF assms(1) d]
  from assms(2) show ?thesis
    by (auto simp: transcript_from_dict_def d rbind_eq_Inr fingerprint_from_dict_eq_Inr dest!: item
        elim!: new_TranscriptArtifact_wf intro: atom.decode_list_wf sequence_items_distinct)
qed

interpretation transcript: record_codec wf_transcript transcript_to_dict transcript_from_dict dict_keys_distinct
proof
  show "transcript_from_dict (transcript_to_dict t) = Inr t" if "wf_transcript t" for t
  proof -
    obtain its where "expect_mapping (plain_json (JObj (tr_metadata t))) ''metadata'' = Inr its"
      using expect_mapping_plain by blast
    moreover have "wf_fp ProducerFingerprint (tr_producer t)" "wf_fp NormalizationFingerprint (tr_normalization t)"
      "list_all wf_atom (tr_atoms t)"
      using that by (simp_all add: wf_transcript_def)
    ultimately show ?thesis using new_TranscriptArtifact_again [OF that]
      by (simp add: transcript_from_dict_def transcript_to_dict_def plain_dict transcript_keys_def wf_fp_decode
          atom.decode_list expect_sequence_def)
  qed
  show "dict_keys_distinct (transcript_to_dict t)" if "wf_transcript t" for t
  proof -
    have "dict_keys_distinct (opt_int d)" "dict_keys_distinct (opt_str l)" for d l by (cases d; simp) (cases l; simp)
    then show ?thesis using that
      by (simp add: transcript_to_dict_def pdict_distinct wf_transcript_def plain_json_dict list_all_iff atom.encode_ok)
  qed
qed (rule transcript_decode_wf)

lemma new_FrameCaptionObservation_again:
  assumes "wf_observation f"
  shows "new_FrameCaptionObservation (PStr (fo_frame_id f)) (PStr (fo_resource_id f)) (PInt (fo_timestamp_ms f))
    (PStr (fo_observation_identity f)) (PStr (fo_caption f)) (PInt (fo_ordinal f)) (Typed (fo_token_count f))
    (Typed (fo_producer f)) (Typed (fo_normalization f)) (plain_json (JObj (fo_metadata f))) (Some (Typed (fo_content f))) = Inr f"
proof -
  have "media_id ID_FRAME (fo_frame_id f)" using assms derived_ids_canonical(5) by (auto simp: wf_observation_def)
  then show ?thesis using assms
    by (simp add: new_FrameCaptionObservation_def wf_observation_def field_ok content_fingerprint_def)
qed

lemma content_fingerprint_wf:
  assumes "content_fingerprint v caption = Inr fp" "pred_option (\<lambda>x. \<exists>c. x = Typed c \<and> fingerprint_match (fp_value c)) v"
    "wf_name caption"
  shows "wf_fp ContentFingerprint fp"
proof (cases v)
  case None
  let ?p = "pdict [(''caption'', PStr caption)]"
  have "media_frozen (JObj [(lit ''caption'', JStr caption)]) 0"
    using assms(3) by (simp add: media_frozen_JObj media_frozen_def wf_name_text utf8_lit MAX_JSON_CONTAINER_DEPTH_def)
  then have "freeze_metadata ?p ''payload'' = Inr [(lit ''caption'', JStr caption)]"
    using freeze_metadata_again(2) [of "[(lit ''caption'', JStr caption)]"] by (simp add: wf_meta_def pdict_def)
  moreover have "dict_keys_distinct ?p" by (simp add: pdict_distinct)
  ultimately obtain c where "fingerprint_from_payload ContentFingerprint ?p = Inr c" "wf_fp ContentFingerprint c"
    using fingerprint_from_payload_ok by blast
  then show ?thesis using assms(1) None by (simp add: content_fingerprint_def)
next
  case (Some x)
  then show ?thesis using assms(1,2) by (auto simp: content_fingerprint_def require_fingerprint_eq_Inr wf_fp_def)
qed

lemma new_FrameCaptionObservation_wf:
  assumes "new_FrameCaptionObservation fid rid ts ident cap ord (Typed tok) (Typed pr) (Typed no) meta content = Inr f"
    "dict_keys_distinct meta" "wf_fp ProducerFingerprint pr" "wf_fp NormalizationFingerprint no" "wf_token tok"
    "pred_option (\<lambda>x. \<exists>c. x = Typed c \<and> fingerprint_match (fp_value c)) content"
  shows "wf_observation f"
  using assms freeze_metadata_wf [OF assms(2)]
  by (auto simp: new_FrameCaptionObservation_def result_simps wf_observation_def wf_name_text
      dest: content_fingerprint_wf [OF _ assms(6)])

lemma observation_decode_wf:
  assumes "dict_keys_distinct v" "observation_from_dict v = Inr f"
  shows "wf_observation f"
proof -
  obtain data where d: "expect_keys v ''frame caption observation'' (map lit observation_keys) = Inr data"
    using assms(2) by (auto simp: observation_from_dict_def rbind_eq_Inr)
  note item = data_item_distinct [OF assms(1) d]
  from assms(2) show ?thesis
    by (auto simp: observation_from_dict_def d rbind_eq_Inr fingerprint_from_dict_eq_Inr wf_fp_def dest!: item
        elim!: new_FrameCaptionObservation_wf intro: token.decode_wf)
qed

interpretation observation: record_codec wf_observation observation_to_dict observation_from_dict dict_keys_distinct
proof
  show "observation_from_dict (observation_to_dict f) = Inr f" if "wf_observation f" for f
  proof -
    obtain its where "expect_mapping (plain_json (JObj (fo_metadata f))) ''metadata'' = Inr its"
      using expect_mapping_plain by blast
    moreover have "wf_fp ProducerFingerprint (fo_producer f)" "wf_fp NormalizationFingerprint (fo_normalization f)"
      "wf_fp ContentFingerprint (fo_content f)" "wf_token (fo_token_count f)"
      using that by (simp_all add: wf_observation_def)
    ultimately show ?thesis using new_FrameCaptionObservation_again [OF that]
      by (simp add: observation_from_dict_def observation_to_dict_def plain_dict observation_keys_def wf_fp_decode
          token.decode_encode)
  qed
  show "dict_keys_distinct (observation_to_dict f)" if "wf_observation f" for f
    using that by (simp add: observation_to_dict_def pdict_distinct wf_observation_def plain_json_dict token.encode_ok)
qed (rule observation_decode_wf)

lemma new_FrameCaptionArtifact_again:
  assumes "wf_frames f"
  shows "new_FrameCaptionArtifact (PStr (fa_resource_id f)) (PStr (fa_representation_id f)) (PStr (fa_representation_kind f))
    (PySeq (map Typed (fa_observations f))) (Typed (fa_producer f)) (Typed (fa_normalization f))
    (plain_json (JObj (fa_metadata f))) = Inr f"
proof -
  have "validate_media_id (PStr (fa_representation_id f)) n (Some ID_REPRESENTATION) = Inr (fa_representation_id f)" for n
    using assms representation_id_media by (auto simp: wf_frames_def)
  moreover have "typed_sequence (PySeq (map Typed (fa_observations f))) m = Inr (fa_observations f)" for m
    by (simp add: typed_sequence_def)
  ultimately show ?thesis using assms by (cases f) (simp add: new_FrameCaptionArtifact_def wf_frames_def field_ok)
qed

lemma new_FrameCaptionArtifact_wf:
  assumes "new_FrameCaptionArtifact rid repid k (PySeq (map Typed obs)) (Typed pr) (Typed no) meta = Inr f"
    "dict_keys_distinct meta" "wf_fp ProducerFingerprint pr" "wf_fp NormalizationFingerprint no" "list_all wf_observation obs"
  shows "wf_frames f"
  using assms freeze_metadata_wf [OF assms(2)]
  by (auto simp: new_FrameCaptionArtifact_def rbind_eq_Inr validate_media_id_eq_Inr require_fingerprint_eq_Inr
      typed_sequence_eq_Inr wf_frames_def)

lemma frames_decode_wf:
  assumes "dict_keys_distinct v" "frames_from_dict v = Inr f"
  shows "wf_frames f"
proof -
  obtain data where d: "expect_keys v ''frame caption artifact'' (map lit frames_keys) = Inr data"
    using assms(2) by (auto simp: frames_from_dict_def rbind_eq_Inr)
  note item = data_item_distinct [OF assms(1) d]
  from assms(2) show ?thesis
    by (auto simp: frames_from_dict_def d rbind_eq_Inr fingerprint_from_dict_eq_Inr dest!: item
        elim!: new_FrameCaptionArtifact_wf intro: observation.decode_list_wf sequence_items_distinct)
qed

interpretation frames: record_codec wf_frames frames_to_dict frames_from_dict dict_keys_distinct
proof
  show "frames_from_dict (frames_to_dict f) = Inr f" if "wf_frames f" for f
  proof -
    obtain its where "expect_mapping (plain_json (JObj (fa_metadata f))) ''metadata'' = Inr its"
      using expect_mapping_plain by blast
    moreover have "wf_fp ProducerFingerprint (fa_producer f)" "wf_fp NormalizationFingerprint (fa_normalization f)"
      "list_all wf_observation (fa_observations f)"
      using that by (simp_all add: wf_frames_def)
    ultimately show ?thesis using new_FrameCaptionArtifact_again [OF that]
      by (simp add: frames_from_dict_def frames_to_dict_def plain_dict frames_keys_def wf_fp_decode
          observation.decode_list expect_sequence_def)
  qed
  show "dict_keys_distinct (frames_to_dict f)" if "wf_frames f" for f
    using that by (simp add: frames_to_dict_def pdict_distinct wf_frames_def plain_json_dict list_all_iff observation.encode_ok)
qed (rule frames_decode_wf)

section \<open>Example records\<close>

text \<open>Concrete records at which the properties of the media components are applied.\<close>

definition example_fp :: "fingerprint_class \<Rightarrow> Fingerprint" where
  "example_fp cls = \<lparr>fp_class = cls, fp_value = lit ''sha256:'' @ replicate 64 48\<rparr>"

definition example_rid :: pystr where
  "example_rid = lit ''resource_'' @ replicate 64 48"

definition example_text :: pystr where
  "example_text = lit ''hello''"

definition example_atom :: "nat \<Rightarrow> int \<Rightarrow> int \<Rightarrow> TimedTextAtom" where
  "example_atom n s e =
     \<lparr>ta_atom_id = projr (atom_id (PStr example_rid) (PStr (fp_value (example_fp ProducerFingerprint))) (PInt (int n))),
      ta_resource_id = example_rid, ta_start_ms = s, ta_end_ms = e, ta_text = example_text, ta_ordinal = int n,
      ta_producer = example_fp ProducerFingerprint, ta_normalization = example_fp NormalizationFingerprint,
      ta_token_count = None, ta_speaker = None, ta_confidence = None, ta_metadata = []\<rparr>"

definition example_transcript :: TranscriptArtifact where
  "example_transcript =
     \<lparr>tr_resource_id = example_rid,
      tr_representation_id = projr (representation_id (PStr example_rid) (PStr REPRESENTATION_AUDIO_TRANSCRIPT)
        (PStr (fp_value (example_fp ProducerFingerprint))) (PStr (fp_value (example_fp NormalizationFingerprint)))),
      tr_representation_kind = REPRESENTATION_AUDIO_TRANSCRIPT, tr_atoms = [example_atom 0 0 900],
      tr_producer = example_fp ProducerFingerprint, tr_normalization = example_fp NormalizationFingerprint,
      tr_language = None, tr_duration_ms = Some 2000, tr_metadata = []\<rparr>"

lemma example_fp_wf: "wf_fp cls (example_fp cls)"
  by (simp add: wf_fp_def example_fp_def fingerprint_match_def lit_def hex_digit_def list_all_iff)

lemma example_rid_media: "media_id ID_RESOURCE example_rid"
  by (simp add: media_id_def ID_KINDS_def ID_RESOURCE_def id_of_kind_def example_rid_def lit_def hex_digit_def list_all_iff)

lemma example_text_name: "wf_name example_text"
  by (simp add: wf_name_text example_text_def utf8_lit) (simp add: lit_def blank_iff py_isspace_def)

lemma example_ids:
  "atom_id (PStr example_rid) (PStr (fp_value (example_fp ProducerFingerprint))) (PInt (int n)) =
     Inr (ta_atom_id (example_atom n s e))"
  "representation_id (PStr example_rid) (PStr REPRESENTATION_AUDIO_TRANSCRIPT)
     (PStr (fp_value (example_fp ProducerFingerprint))) (PStr (fp_value (example_fp NormalizationFingerprint))) =
     Inr (tr_representation_id example_transcript)"
proof -
  have name: "wf_name (fp_value (example_fp cls))" for cls
    using example_fp_wf [of cls] fingerprint_text by (auto simp: wf_fp_def wf_name_text)
  have kind: "wf_name REPRESENTATION_AUDIO_TRANSCRIPT"
    by (simp add: wf_name_text REPRESENTATION_AUDIO_TRANSCRIPT_def utf8_lit) (simp add: lit_def blank_iff py_isspace_def)
  have "utf8_encodable example_rid" using media_id_name [OF example_rid_media] by simp
  then have parts: "list_all scalar_part [PStr example_rid, PStr (fp_value (example_fp ProducerFingerprint)), PInt (int n)]"
    "list_all scalar_part [PStr example_rid, PStr REPRESENTATION_AUDIO_TRANSCRIPT,
       PStr (fp_value (example_fp ProducerFingerprint)), PStr (fp_value (example_fp NormalizationFingerprint))]"
    using name kind by (simp_all add: wf_name_text)
  have "ID_ATOM \<in> set ID_KINDS" "ID_REPRESENTATION \<in> set ID_KINDS" by (simp_all add: ID_KINDS_def)
  note ids = stable_media_id_scalar [OF parts(1) _ this(1)] stable_media_id_scalar [OF parts(2) _ this(2)]
  show "atom_id (PStr example_rid) (PStr (fp_value (example_fp ProducerFingerprint))) (PInt (int n)) =
      Inr (ta_atom_id (example_atom n s e))"
    using ids(1) by (simp add: example_atom_def atom_id_def example_rid_media field_ok name)
  show "representation_id (PStr example_rid) (PStr REPRESENTATION_AUDIO_TRANSCRIPT)
     (PStr (fp_value (example_fp ProducerFingerprint))) (PStr (fp_value (example_fp NormalizationFingerprint))) =
     Inr (tr_representation_id example_transcript)"
    using ids(2) by (simp add: example_transcript_def representation_id_def example_rid_media field_ok name kind)
qed

lemma wf_meta_Nil: "wf_meta []"
  by (simp add: wf_meta_def media_frozen_JObj MAX_JSON_CONTAINER_DEPTH_def)

lemma example_atom_wf: "0 \<le> s \<Longrightarrow> s < e \<Longrightarrow> wf_atom (example_atom n s e)"
  using example_ids(1) [of n s e] unfolding wf_atom_def
  by (simp add: example_atom_def example_rid_media example_text_name example_fp_wf wf_meta_Nil)

lemma example_transcript_wf: "wf_transcript example_transcript"
  using example_ids(2) example_atom_wf [of 0 900 0] unfolding wf_transcript_def
  by (simp add: example_transcript_def example_rid_media example_fp_wf wf_meta_Nil check_transcript_atoms_def example_atom_def)

section \<open>Properties\<close>

lemma any_adjacent_nth: "any_adjacent p xs \<longleftrightarrow> (\<exists>i. Suc i < length xs \<and> p (xs ! i) (xs ! Suc i))"
proof (induction p xs rule: any_adjacent.induct)
  case (1 p x y zs)
  then show ?case by (auto simp: less_Suc_eq_0_disj)
qed auto

text \<open>Intervals that do not overlap their neighbours do not overlap at all.\<close>

lemma adjacent_separated:
  assumes "\<not> any_adjacent (\<lambda>p q. st q < en p) xs" "\<forall>x \<in> set xs. st x < (en x :: int)" "i < j" "j < length xs"
  shows "en (xs ! i) \<le> st (xs ! j)"
  using assms(3,4)
proof (induction j)
  case (Suc j)
  have "en (xs ! j) \<le> st (xs ! Suc j)" using assms(1) Suc.prems by (force simp: any_adjacent_nth not_less)
  moreover have "st (xs ! j) < en (xs ! j)" using assms(2) Suc.prems by simp
  ultimately show ?case using Suc by (cases "i = j") force+
qed simp

text \<open>
  C19: a transcript read from a plain dictionary satisfies the class invariant: its atoms belong to it, carry their
  derived identities, are numbered from zero and lie one after the other within the duration; and writing it out and
  reading it back gives the same transcript.
\<close>

theorem transcript_roundtrip:
  assumes "dict_keys_distinct v" "transcript_from_dict v = Inr t"
  shows "transcript_from_dict (transcript_to_dict t) = Inr t \<and>
    map ta_ordinal (tr_atoms t) = map int [0..<length (tr_atoms t)] \<and> distinct (map ta_atom_id (tr_atoms t)) \<and>
    list_all (\<lambda>a. wf_atom a \<and> ta_resource_id a = tr_resource_id t \<and> ta_producer a = tr_producer t) (tr_atoms t) \<and>
    (\<forall>j < length (tr_atoms t). \<forall>i < j. ta_end_ms (tr_atoms t ! i) \<le> ta_start_ms (tr_atoms t ! j)) \<and>
    (\<forall>d. tr_duration_ms t = Some d \<and> tr_atoms t \<noteq> [] \<longrightarrow> ta_end_ms (last (tr_atoms t)) \<le> d)"
proof -
  have wf: "wf_transcript t" by (rule transcript_decode_wf [OF assms])
  then have atoms: "list_all wf_atom (tr_atoms t)" by (simp add: wf_transcript_def)
  have checked: "check_transcript_atoms (tr_resource_id t) (tr_producer t) (tr_normalization t) (tr_atoms t) = Inr ()"
    using wf by (simp add: wf_transcript_def)
  then have "\<not> any_adjacent (\<lambda>previous current. ta_start_ms current < ta_end_ms previous) (tr_atoms t)"
    by (simp add: check_transcript_atoms_def result_simps)
  from adjacent_separated [OF this, simplified] transcript.decode_encode [OF wf] wf checked atoms show ?thesis
    by (auto simp: check_transcript_atoms_def result_simps list_all_iff wf_transcript_def wf_atom_def)
qed

theorem transcript_roundtrip_witness:
  "transcript_from_dict (transcript_to_dict example_transcript) = Inr example_transcript \<and>
   tr_atoms example_transcript \<noteq> []"
  using transcript_roundtrip [OF transcript.encode_ok [OF example_transcript_wf] transcript.decode_encode [OF example_transcript_wf]]
  by (simp add: example_transcript_def)

end
