(* ===== verification/Media_Builders.thy ===== *)
theory Media_Builders
  imports Media_Records
begin

text \<open>
  \<open>mdrack_media/builders.py\<close>: the descriptor of a media resource and the validated inputs of the transcript and
  frame builders, with their plain dictionaries.
\<close>

section \<open>Resource descriptors\<close>

definition RESOURCE_AUDIO :: pystr where "RESOURCE_AUDIO = lit ''audio''"
definition RESOURCE_VIDEO :: pystr where "RESOURCE_VIDEO = lit ''video''"
definition MEDIA_RESOURCE_KINDS :: "pystr list" where "MEDIA_RESOURCE_KINDS = [RESOURCE_AUDIO, RESOURCE_VIDEO]"

record MediaResourceDescriptor =
  md_resource_id :: pystr
  md_resource_kind :: pystr
  md_media_type :: pystr
  md_source_namespace :: pystr
  md_locator :: Locator

text \<open>\<open>isinstance(x, str) and x.strip()\<close>.\<close>

definition require_stripped :: "pyobj \<Rightarrow> string \<Rightarrow> pystr result" where
  "require_stripped value message =
     (case value of PStr s \<Rightarrow> if blank s then Inl (ValueError message) else Inr s | _ \<Rightarrow> Inl (ValueError message))"

definition new_MediaResourceDescriptor ::
  "pyobj \<Rightarrow> pyobj \<Rightarrow> pyobj \<Rightarrow> pyobj \<Rightarrow> Locator anyobj \<Rightarrow> MediaResourceDescriptor result" where
  "new_MediaResourceDescriptor rid rkind media_type source_namespace locator =
     rbind (validate_media_id rid ''resource_id'' (Some ID_RESOURCE)) (\<lambda>rid.
     rbind (require_member rkind MEDIA_RESOURCE_KINDS ''resource_kind must be audio or video'') (\<lambda>rkind.
     rbind (require_stripped media_type ''media_type must be non-empty'') (\<lambda>media_type.
     rbind (require_stripped source_namespace ''source_namespace must be non-empty'') (\<lambda>source_namespace.
     rbind (require_instance locator ''locator must be a core Locator'') (\<lambda>locator.
     Inr \<lparr>md_resource_id = rid, md_resource_kind = rkind, md_media_type = media_type,
          md_source_namespace = source_namespace, md_locator = locator\<rparr>)))))"

definition descriptor_to_dict :: "MediaResourceDescriptor \<Rightarrow> pyobj" where
  "descriptor_to_dict d = pdict
     [(''locator'', pdict [(''kind'', PStr (loc_kind (md_locator d))),
        (''payload'', plain_json (JObj (loc_payload (md_locator d))))]),
      (''media_type'', PStr (md_media_type d)), (''resource_id'', PStr (md_resource_id d)),
      (''resource_kind'', PStr (md_resource_kind d)), (''source_namespace'', PStr (md_source_namespace d))]"

definition descriptor_keys :: "string list" where
  "descriptor_keys = [''locator'', ''media_type'', ''resource_id'', ''resource_kind'', ''source_namespace'']"

definition descriptor_from_dict :: "pyobj \<Rightarrow> MediaResourceDescriptor result" where
  "descriptor_from_dict value =
     rbind (expect_keys value ''media resource descriptor'' (map lit descriptor_keys)) (\<lambda>data.
     rbind (data_item data ''locator'') (\<lambda>l.
     rbind (expect_keys l ''locator'' (map lit [''kind'', ''payload''])) (\<lambda>locator.
     rbind (data_item data ''resource_id'') (\<lambda>rid.
     rbind (data_item data ''resource_kind'') (\<lambda>rkind.
     rbind (data_item data ''media_type'') (\<lambda>media_type.
     rbind (data_item data ''source_namespace'') (\<lambda>source_namespace.
     rbind (data_item locator ''kind'') (\<lambda>k.
     rbind (data_item locator ''payload'') (\<lambda>p.
     rbind (expect_mapping p ''locator payload'') (\<lambda>_.
     rbind (new_Locator k p) (\<lambda>loc.
     new_MediaResourceDescriptor rid rkind media_type source_namespace (Typed loc))))))))))))"

section \<open>Builder inputs\<close>

text \<open>\<open>x is None or isinstance(x, cls)\<close> for a fingerprint class.\<close>

definition require_optional_fp :: "fingerprint_class \<Rightarrow> Fingerprint anyobj option \<Rightarrow> string \<Rightarrow> Fingerprint option result" where
  "require_optional_fp cls value message =
     (case value of
        None \<Rightarrow> Inr None
      | Some v \<Rightarrow> rbind (require_fingerprint cls v message) (\<lambda>fp. Inr (Some fp)))"

text \<open>\<open>None if x is None else x.value\<close> and its reading back.\<close>

definition opt_fp :: "Fingerprint option \<Rightarrow> pyobj" where
  "opt_fp x = (case x of None \<Rightarrow> PNone | Some fp \<Rightarrow> PStr (fp_value fp))"

definition optional_item :: "(pyobj \<Rightarrow> 'a result) \<Rightarrow> pyobj \<Rightarrow> 'a option result" where
  "optional_item dec value = (if value = PNone then Inr None else rbind (dec value) (\<lambda>x. Inr (Some x)))"

text \<open>The three optional fields the two inputs share, in the order of the checks.\<close>

definition check_whole ::
  "Fingerprint anyobj option \<Rightarrow> WholeResourceTextPolicy anyobj option \<Rightarrow> Fingerprint anyobj option \<Rightarrow>
   (Fingerprint option \<times> WholeResourceTextPolicy option \<times> Fingerprint option) result" where
  "check_whole embedding whole_text_policy aggregation =
     rbind (require_optional_fp EmbeddingFingerprint embedding
       ''embedding_fingerprint must be an EmbeddingFingerprint or None'') (\<lambda>embedding.
     rbind (require_optional_instance whole_text_policy
       ''whole_text_policy must be a WholeResourceTextPolicy or None'') (\<lambda>whole_text_policy.
     rbind (raise_if ((whole_text_policy = None) \<noteq> (aggregation = None))
       (ValueError ''whole_text_policy and aggregation_fingerprint must be supplied together'')) (\<lambda>_.
     rbind (require_optional_fp AggregationFingerprint aggregation
       ''aggregation_fingerprint must be an AggregationFingerprint or None'') (\<lambda>aggregation.
     Inr (embedding, whole_text_policy, aggregation)))))"

record TranscriptBatchBuilderInput =
  ti_resource :: MediaResourceDescriptor
  ti_transcript :: TranscriptArtifact
  ti_passage_representation_id :: pystr
  ti_passage_representation_kind :: pystr
  ti_chunking_policy :: TimedChunkingPolicy
  ti_grouper :: Fingerprint
  ti_embedding :: "Fingerprint option"
  ti_whole_text_policy :: "WholeResourceTextPolicy option"
  ti_aggregation :: "Fingerprint option"

definition new_TranscriptBatchBuilderInput ::
  "MediaResourceDescriptor anyobj \<Rightarrow> TranscriptArtifact anyobj \<Rightarrow> pyobj \<Rightarrow> pyobj \<Rightarrow> TimedChunkingPolicy anyobj \<Rightarrow>
   Fingerprint anyobj \<Rightarrow> Fingerprint anyobj option \<Rightarrow> WholeResourceTextPolicy anyobj option \<Rightarrow> Fingerprint anyobj option \<Rightarrow>
   TranscriptBatchBuilderInput result" where
  "new_TranscriptBatchBuilderInput resource transcript repid rkind policy grouper embedding whole_text_policy aggregation =
     rbind (require_instance resource ''resource must be a MediaResourceDescriptor'') (\<lambda>resource.
     rbind (require_instance transcript ''transcript must be a TranscriptArtifact'') (\<lambda>transcript.
     rbind (raise_if (tr_resource_id transcript \<noteq> md_resource_id resource)
       (ValueError ''transcript must belong to resource'')) (\<lambda>_.
     rbind (validate_media_id repid ''passage_representation_id'' (Some ID_REPRESENTATION)) (\<lambda>repid.
     rbind (raise_if (rkind \<noteq> PStr REPRESENTATION_TIMED_PASSAGE)
       (ValueError ''passage_representation_kind must be timed_passage'')) (\<lambda>_.
     rbind (require_instance policy ''chunking_policy must be a TimedChunkingPolicy'') (\<lambda>policy.
     rbind (require_fingerprint GrouperFingerprint grouper ''grouper_fingerprint must be a GrouperFingerprint'') (\<lambda>grouper.
     rbind (representation_id (PStr (md_resource_id resource)) rkind (PStr (fp_value grouper))
       (PStr (fp_value (tr_normalization transcript)))) (\<lambda>expected.
     rbind (raise_if (repid \<noteq> expected)
       (ValueError ''passage_representation_id must match resource, representation kind, grouper fingerprint, and transcript normalization fingerprint'')) (\<lambda>_.
     rbind (check_whole embedding whole_text_policy aggregation) (\<lambda>(embedding, whole_text_policy, aggregation).
     Inr \<lparr>ti_resource = resource, ti_transcript = transcript, ti_passage_representation_id = repid,
          ti_passage_representation_kind = REPRESENTATION_TIMED_PASSAGE, ti_chunking_policy = policy,
          ti_grouper = grouper, ti_embedding = embedding, ti_whole_text_policy = whole_text_policy,
          ti_aggregation = aggregation\<rparr>))))))))))"

definition transcript_input_to_dict :: "TranscriptBatchBuilderInput \<Rightarrow> pyobj" where
  "transcript_input_to_dict t = pdict
     [(''aggregation_fingerprint'', opt_fp (ti_aggregation t)),
      (''chunking_policy'', policy_to_dict (ti_chunking_policy t)),
      (''embedding_fingerprint'', opt_fp (ti_embedding t)),
      (''grouper_fingerprint'', PStr (fp_value (ti_grouper t))),
      (''passage_representation_id'', PStr (ti_passage_representation_id t)),
      (''passage_representation_kind'', PStr (ti_passage_representation_kind t)),
      (''resource'', descriptor_to_dict (ti_resource t)), (''transcript'', transcript_to_dict (ti_transcript t)),
      (''whole_text_policy'', case ti_whole_text_policy t of None \<Rightarrow> PNone | Some p \<Rightarrow> whole_to_dict p)]"

definition transcript_input_keys :: "string list" where
  "transcript_input_keys = [''aggregation_fingerprint'', ''chunking_policy'', ''embedding_fingerprint'',
     ''grouper_fingerprint'', ''passage_representation_id'', ''passage_representation_kind'', ''resource'', ''transcript'',
     ''whole_text_policy'']"

definition transcript_input_from_dict :: "pyobj \<Rightarrow> TranscriptBatchBuilderInput result" where
  "transcript_input_from_dict value =
     rbind (expect_keys value ''transcript builder input'' (map lit transcript_input_keys)) (\<lambda>data.
     rbind (data_item data ''embedding_fingerprint'') (\<lambda>embedding.
     rbind (data_item data ''aggregation_fingerprint'') (\<lambda>aggregation.
     rbind (data_item data ''whole_text_policy'') (\<lambda>whole_policy.
     rbind (data_item data ''resource'') (\<lambda>r.
     rbind (descriptor_from_dict r) (\<lambda>resource.
     rbind (data_item data ''transcript'') (\<lambda>t.
     rbind (transcript_from_dict t) (\<lambda>transcript.
     rbind (data_item data ''passage_representation_id'') (\<lambda>repid.
     rbind (data_item data ''passage_representation_kind'') (\<lambda>rkind.
     rbind (data_item data ''chunking_policy'') (\<lambda>p.
     rbind (policy_from_dict p) (\<lambda>policy.
     rbind (data_item data ''grouper_fingerprint'') (\<lambda>g.
     rbind (fingerprint_from_dict GrouperFingerprint g) (\<lambda>grouper.
     rbind (optional_item (fingerprint_from_dict EmbeddingFingerprint) embedding) (\<lambda>embedding.
     rbind (optional_item whole_from_dict whole_policy) (\<lambda>whole_policy.
     rbind (optional_item (fingerprint_from_dict AggregationFingerprint) aggregation) (\<lambda>aggregation.
     new_TranscriptBatchBuilderInput (Typed resource) (Typed transcript) repid rkind (Typed policy) (Typed grouper)
       (map_option Typed embedding) (map_option Typed whole_policy) (map_option Typed aggregation))))))))))))))))))"

record FrameBatchBuilderInput =
  fi_resource :: MediaResourceDescriptor
  fi_frames :: FrameCaptionArtifact
  fi_embedding :: "Fingerprint option"
  fi_whole_text_policy :: "WholeResourceTextPolicy option"
  fi_aggregation :: "Fingerprint option"

definition new_FrameBatchBuilderInput ::
  "MediaResourceDescriptor anyobj \<Rightarrow> FrameCaptionArtifact anyobj \<Rightarrow> Fingerprint anyobj option \<Rightarrow>
   WholeResourceTextPolicy anyobj option \<Rightarrow> Fingerprint anyobj option \<Rightarrow> FrameBatchBuilderInput result" where
  "new_FrameBatchBuilderInput resource frames embedding whole_text_policy aggregation =
     rbind (require_instance resource ''resource must be a MediaResourceDescriptor'') (\<lambda>resource.
     rbind (raise_if (md_resource_kind resource \<noteq> RESOURCE_VIDEO)
       (ValueError ''frame batches require a video resource'')) (\<lambda>_.
     rbind (require_instance frames ''frames must be a FrameCaptionArtifact'') (\<lambda>frames.
     rbind (raise_if (fa_resource_id frames \<noteq> md_resource_id resource) (ValueError ''frames must belong to resource'')) (\<lambda>_.
     rbind (check_whole embedding whole_text_policy aggregation) (\<lambda>(embedding, whole_text_policy, aggregation).
     Inr \<lparr>fi_resource = resource, fi_frames = frames, fi_embedding = embedding,
          fi_whole_text_policy = whole_text_policy, fi_aggregation = aggregation\<rparr>)))))"

definition frame_input_to_dict :: "FrameBatchBuilderInput \<Rightarrow> pyobj" where
  "frame_input_to_dict f = pdict
     [(''aggregation_fingerprint'', opt_fp (fi_aggregation f)), (''embedding_fingerprint'', opt_fp (fi_embedding f)),
      (''frames'', frames_to_dict (fi_frames f)), (''resource'', descriptor_to_dict (fi_resource f)),
      (''whole_text_policy'', case fi_whole_text_policy f of None \<Rightarrow> PNone | Some p \<Rightarrow> whole_to_dict p)]"

definition frame_input_keys :: "string list" where
  "frame_input_keys = [''embedding_fingerprint'', ''frames'', ''resource'']"

text \<open>Either the three required keys, or these and both optional ones.\<close>

definition frame_input_from_dict :: "pyobj \<Rightarrow> FrameBatchBuilderInput result" where
  "frame_input_from_dict value =
     rbind (expect_mapping value ''frame builder input'') (\<lambda>data.
     rbind (raise_if (set (keys data) \<notin>
         {lit ` set frame_input_keys, lit ` set (frame_input_keys @ [''aggregation_fingerprint'', ''whole_text_policy''])})
       (ValueError ''frame builder input has unsupported or incomplete keys'')) (\<lambda>_.
     rbind (data_item data ''embedding_fingerprint'') (\<lambda>embedding.
     let aggregation = dict_get data (lit ''aggregation_fingerprint'') PNone;
         whole_policy = dict_get data (lit ''whole_text_policy'') PNone
     in rbind (data_item data ''resource'') (\<lambda>r.
        rbind (descriptor_from_dict r) (\<lambda>resource.
        rbind (data_item data ''frames'') (\<lambda>f.
        rbind (frames_from_dict f) (\<lambda>frames.
        rbind (optional_item (fingerprint_from_dict EmbeddingFingerprint) embedding) (\<lambda>embedding.
        rbind (optional_item whole_from_dict whole_policy) (\<lambda>whole_policy.
        rbind (optional_item (fingerprint_from_dict AggregationFingerprint) aggregation) (\<lambda>aggregation.
        new_FrameBatchBuilderInput (Typed resource) (Typed frames) (map_option Typed embedding)
          (map_option Typed whole_policy) (map_option Typed aggregation)))))))))))"

section \<open>Class invariants\<close>

definition wf_descriptor :: "MediaResourceDescriptor \<Rightarrow> bool" where
  "wf_descriptor d \<longleftrightarrow>
     media_id ID_RESOURCE (md_resource_id d) \<and> md_resource_kind d \<in> set MEDIA_RESOURCE_KINDS \<and>
     \<not> blank (md_media_type d) \<and> \<not> blank (md_source_namespace d) \<and> wf_Locator (md_locator d)"

text \<open>The optional fields: aggregation is configured exactly when a whole-resource policy is.\<close>

definition wf_whole :: "Fingerprint option \<Rightarrow> WholeResourceTextPolicy option \<Rightarrow> Fingerprint option \<Rightarrow> bool" where
  "wf_whole embedding policy aggregation \<longleftrightarrow>
     pred_option (wf_fp EmbeddingFingerprint) embedding \<and> pred_option wf_whole_policy policy \<and>
     (policy = None \<longleftrightarrow> aggregation = None) \<and> pred_option (wf_fp AggregationFingerprint) aggregation"

definition wf_transcript_input :: "TranscriptBatchBuilderInput \<Rightarrow> bool" where
  "wf_transcript_input t \<longleftrightarrow>
     wf_descriptor (ti_resource t) \<and> wf_transcript (ti_transcript t) \<and>
     tr_resource_id (ti_transcript t) = md_resource_id (ti_resource t) \<and>
     ti_passage_representation_kind t = REPRESENTATION_TIMED_PASSAGE \<and> wf_policy (ti_chunking_policy t) \<and>
     wf_fp GrouperFingerprint (ti_grouper t) \<and>
     representation_id (PStr (md_resource_id (ti_resource t))) (PStr REPRESENTATION_TIMED_PASSAGE)
       (PStr (fp_value (ti_grouper t))) (PStr (fp_value (tr_normalization (ti_transcript t)))) =
       Inr (ti_passage_representation_id t) \<and>
     wf_whole (ti_embedding t) (ti_whole_text_policy t) (ti_aggregation t)"

definition wf_frame_input :: "FrameBatchBuilderInput \<Rightarrow> bool" where
  "wf_frame_input f \<longleftrightarrow>
     wf_descriptor (fi_resource f) \<and> md_resource_kind (fi_resource f) = RESOURCE_VIDEO \<and> wf_frames (fi_frames f) \<and>
     fa_resource_id (fi_frames f) = md_resource_id (fi_resource f) \<and>
     wf_whole (fi_embedding f) (fi_whole_text_policy f) (fi_aggregation f)"

section \<open>Lemmas\<close>

lemma require_stripped_eq_Inr [result_simps]:
  "require_stripped v m = Inr s \<longleftrightarrow> v = PStr s \<and> \<not> blank s"
  by (cases v) (auto simp: require_stripped_def)

lemma require_optional_fp_eq_Inr:
  "require_optional_fp cls v m = Inr x \<longleftrightarrow> v = map_option Typed x \<and> pred_option (\<lambda>fp. fp_class fp = cls) x"
  by (cases v; cases x) (auto simp: require_optional_fp_def rbind_eq_Inr require_fingerprint_eq_Inr)

lemma require_optional_instance_Typed: "require_optional_instance (map_option Typed x) m = Inr x"
  by (cases x) simp_all

lemma pred_option_fp: "pred_option (wf_fp cls) x \<Longrightarrow> pred_option (\<lambda>fp. fp_class fp = cls) x"
  by (cases x) (simp_all add: wf_fp_def)

lemma check_whole_again:
  "wf_whole e p a \<Longrightarrow> check_whole (map_option Typed e) (map_option Typed p) (map_option Typed a) = Inr (e, p, a)"
proof -
  assume wf: "wf_whole e p a"
  then have "require_optional_fp EmbeddingFingerprint (map_option Typed e) m = Inr e"
    "require_optional_fp AggregationFingerprint (map_option Typed a) m = Inr a" for m
    by (simp_all add: require_optional_fp_eq_Inr wf_whole_def pred_option_fp)
  then show ?thesis using wf
    by (cases p; cases a) (simp_all add: check_whole_def require_optional_instance_Typed wf_whole_def)
qed

lemma check_whole_typed:
  "check_whole (map_option Typed e) (map_option Typed p) (map_option Typed a) = Inr (e', p', a') \<Longrightarrow>
     e' = e \<and> p' = p \<and> a' = a \<and> (p = None \<longleftrightarrow> a = None)"
  by (cases e; cases p; cases a)
    (auto simp: check_whole_def require_optional_fp_def require_fingerprint_def rbind_eq_Inr split: if_splits)

text \<open>Reading an optional field back.\<close>

lemma optional_fp_again:
  "pred_option (wf_fp cls) x \<Longrightarrow> optional_item (fingerprint_from_dict cls) (opt_fp x) = Inr x"
  by (cases x) (simp_all add: optional_item_def opt_fp_def wf_fp_decode)

lemma optional_whole_again:
  "pred_option wf_whole_policy x \<Longrightarrow>
   optional_item whole_from_dict (case x of None \<Rightarrow> PNone | Some p \<Rightarrow> whole_to_dict p) = Inr x"
  by (cases x) (simp_all add: optional_item_def whole_policy.decode_encode, simp add: whole_to_dict_def pdict_def)

lemma optional_item_pred:
  assumes "optional_item dec v = Inr x" "\<And>y. dec v = Inr y \<Longrightarrow> Q y"
  shows "pred_option Q x"
  using assms by (auto simp: optional_item_def rbind_eq_Inr split: if_splits)

lemma opt_fp_distinct [simp]: "dict_keys_distinct (opt_fp x)"
  by (cases x) (simp_all add: opt_fp_def)

lemma opt_whole_distinct:
  "pred_option wf_whole_policy x \<Longrightarrow> dict_keys_distinct (case x of None \<Rightarrow> PNone | Some p \<Rightarrow> whole_to_dict p)"
  by (cases x) (simp_all add: whole_policy.encode_ok)

section \<open>Plain forms\<close>

lemma descriptor_decode_wf:
  assumes "dict_keys_distinct v" "descriptor_from_dict v = Inr d"
  shows "wf_descriptor d"
proof -
  obtain data where d: "expect_keys v ''media resource descriptor'' (map lit descriptor_keys) = Inr data"
    using assms(2) by (auto simp: descriptor_from_dict_def rbind_eq_Inr)
  obtain l loc where l: "data_item data ''locator'' = Inr l" "expect_keys l ''locator'' [lit ''kind'', lit ''payload''] = Inr loc"
    using assms(2) by (auto simp: descriptor_from_dict_def d rbind_eq_Inr)
  obtain p where p: "data_item loc ''payload'' = Inr p"
    using assms(2) by (auto simp: descriptor_from_dict_def d l rbind_eq_Inr)
  have "dict_keys_distinct p"
    by (rule data_item_distinct [OF data_item_distinct [OF assms(1) d l(1)] l(2) p])
  then show ?thesis using assms(2)
    by (auto simp: descriptor_from_dict_def d l p rbind_eq_Inr new_MediaResourceDescriptor_def wf_descriptor_def
        validate_media_id_eq_Inr require_stripped_eq_Inr require_member_eq_Inr require_instance_eq_Typed
        dest: new_Locator_wf)
qed

interpretation descriptor: record_codec wf_descriptor descriptor_to_dict descriptor_from_dict dict_keys_distinct
proof
  show "descriptor_from_dict (descriptor_to_dict d) = Inr d" if "wf_descriptor d" for d
  proof -
    let ?p = "plain_json (JObj (loc_payload (md_locator d)))"
    obtain its where "expect_mapping ?p ''locator payload'' = Inr its" using expect_mapping_plain by blast
    moreover have "new_Locator (PStr (loc_kind (md_locator d))) ?p = Inr (md_locator d)"
      using that by (simp add: new_Locator_def wf_descriptor_def wf_Locator_def again_simps plain_json_def
          freeze_json_mapping_thaw(2) del: of_json.simps to_plain_json.simps)
    ultimately show ?thesis using that
      by (cases d) (simp add: descriptor_from_dict_def descriptor_to_dict_def plain_dict descriptor_keys_def new_MediaResourceDescriptor_def
          wf_descriptor_def field_ok require_stripped_def require_member_def)
  qed
  show "dict_keys_distinct (descriptor_to_dict d)" if "wf_descriptor d" for d
  proof -
    have "frozen (JObj (loc_payload (md_locator d)))"
      using that by (auto simp: wf_descriptor_def wf_Locator_def frozen_mapping_def fits_def)
    then show ?thesis by (simp add: descriptor_to_dict_def pdict_distinct plain_json_def to_plain_json_dict del: to_plain_json.simps)
  qed
qed (rule descriptor_decode_wf)

lemma new_TranscriptBatchBuilderInput_again:
  assumes "wf_transcript_input t"
  shows "new_TranscriptBatchBuilderInput (Typed (ti_resource t)) (Typed (ti_transcript t))
    (PStr (ti_passage_representation_id t)) (PStr (ti_passage_representation_kind t)) (Typed (ti_chunking_policy t))
    (Typed (ti_grouper t)) (map_option Typed (ti_embedding t)) (map_option Typed (ti_whole_text_policy t))
    (map_option Typed (ti_aggregation t)) = Inr t"
proof -
  have "validate_media_id (PStr (ti_passage_representation_id t)) f (Some ID_REPRESENTATION) =
      Inr (ti_passage_representation_id t)" for f
    using assms representation_id_media by (auto simp: wf_transcript_input_def)
  moreover have "check_whole (map_option Typed (ti_embedding t)) (map_option Typed (ti_whole_text_policy t))
      (map_option Typed (ti_aggregation t)) = Inr (ti_embedding t, ti_whole_text_policy t, ti_aggregation t)"
    using assms by (simp add: check_whole_again wf_transcript_input_def)
  ultimately show ?thesis using assms
    by (cases t) (simp add: new_TranscriptBatchBuilderInput_def wf_transcript_input_def field_ok)
qed

lemma new_TranscriptBatchBuilderInput_wf:
  assumes "new_TranscriptBatchBuilderInput (Typed r) (Typed tr) repid k (Typed p) (Typed g) (map_option Typed e)
      (map_option Typed w) (map_option Typed a) = Inr t"
    "wf_descriptor r" "wf_transcript tr" "wf_policy p" "wf_fp GrouperFingerprint g"
    "pred_option (wf_fp EmbeddingFingerprint) e" "pred_option wf_whole_policy w" "pred_option (wf_fp AggregationFingerprint) a"
  shows "wf_transcript_input t"
  using assms
  by (auto simp: new_TranscriptBatchBuilderInput_def rbind_eq_Inr validate_media_id_eq_Inr wf_transcript_input_def
      require_fingerprint_eq_Inr wf_whole_def dest!: check_whole_typed)

lemma transcript_input_decode_wf:
  assumes "dict_keys_distinct v" "transcript_input_from_dict v = Inr t"
  shows "wf_transcript_input t"
proof -
  obtain data where d: "expect_keys v ''transcript builder input'' (map lit transcript_input_keys) = Inr data"
    using assms(2) by (auto simp: transcript_input_from_dict_def rbind_eq_Inr)
  note item = data_item_distinct [OF assms(1) d]
  from assms(2) show ?thesis
    by (auto simp: transcript_input_from_dict_def d rbind_eq_Inr fingerprint_from_dict_eq_Inr dest!: item
        elim!: new_TranscriptBatchBuilderInput_wf
        intro: descriptor.decode_wf transcript.decode_wf policy.decode_wf optional_item_pred whole_policy.decode_wf)
qed

interpretation transcript_input:
  record_codec wf_transcript_input transcript_input_to_dict transcript_input_from_dict dict_keys_distinct
proof
  show "transcript_input_from_dict (transcript_input_to_dict t) = Inr t" if "wf_transcript_input t" for t
    using new_TranscriptBatchBuilderInput_again [OF that] that
    by (simp add: transcript_input_from_dict_def transcript_input_to_dict_def plain_dict transcript_input_keys_def
        wf_transcript_input_def wf_whole_def descriptor.decode_encode transcript.decode_encode policy.decode_encode
        wf_fp_decode optional_fp_again optional_whole_again)
  show "dict_keys_distinct (transcript_input_to_dict t)" if "wf_transcript_input t" for t
    using that by (simp add: transcript_input_to_dict_def pdict_distinct wf_transcript_input_def wf_whole_def
        descriptor.encode_ok transcript.encode_ok policy.encode_ok opt_whole_distinct)
qed (rule transcript_input_decode_wf)

lemma new_FrameBatchBuilderInput_again:
  assumes "wf_frame_input f"
  shows "new_FrameBatchBuilderInput (Typed (fi_resource f)) (Typed (fi_frames f)) (map_option Typed (fi_embedding f))
    (map_option Typed (fi_whole_text_policy f)) (map_option Typed (fi_aggregation f)) = Inr f"
  using assms by (cases f) (simp add: new_FrameBatchBuilderInput_def wf_frame_input_def check_whole_again)

lemma new_FrameBatchBuilderInput_wf:
  assumes "new_FrameBatchBuilderInput (Typed r) (Typed fr) (map_option Typed e) (map_option Typed w) (map_option Typed a) = Inr f"
    "wf_descriptor r" "wf_frames fr" "pred_option (wf_fp EmbeddingFingerprint) e" "pred_option wf_whole_policy w"
    "pred_option (wf_fp AggregationFingerprint) a"
  shows "wf_frame_input f"
  using assms
  by (auto simp: new_FrameBatchBuilderInput_def rbind_eq_Inr wf_frame_input_def wf_whole_def dest!: check_whole_typed)

lemma expect_mapping_pdict: "expect_mapping (pdict kvs) f = Inr (map (\<lambda>(k, v). (lit k, v)) kvs)"
  by (simp add: expect_mapping_def pdict_def str_items_pdict [unfolded split_def] split_def)

lemma mapping_values_distinct:
  assumes "dict_keys_distinct v" "expect_mapping v f = Inr d"
  shows "data_item d k = Inr x \<Longrightarrow> dict_keys_distinct x" "dict_keys_distinct (dict_get d (lit k) PNone)"
proof -
  obtain kvs where v: "v = PMap kvs" and d: "str_items kvs = Some d"
    using assms(2) by (cases v) (auto simp: expect_mapping_def split: option.splits)
  have ok: "dict_keys_distinct y" if "(lit k, y) \<in> set d" for y
  proof -
    have "(PStr (lit k), y) \<in> set kvs" using that d by (auto simp: str_items_eq_Some)
    then show ?thesis using assms(1) by (auto simp: v list_all_iff)
  qed
  show "data_item d k = Inr x \<Longrightarrow> dict_keys_distinct x"
    using ok by (auto simp: data_item_def dest: map_of_SomeD split: option.splits)
  show "dict_keys_distinct (dict_get d (lit k) PNone)"
    using ok by (auto simp: dict_get_def dest: map_of_SomeD split: option.splits)
qed

lemma frame_input_decode_wf:
  assumes "dict_keys_distinct v" "frame_input_from_dict v = Inr f"
  shows "wf_frame_input f"
proof -
  obtain data where d: "expect_mapping v ''frame builder input'' = Inr data"
    using assms(2) by (auto simp: frame_input_from_dict_def rbind_eq_Inr)
  note item = mapping_values_distinct [OF assms(1) d]
  have "dict_keys_distinct (dict_get data (lit ''whole_text_policy'') PNone)" by (rule item(2))
  with assms(2) show ?thesis
    by (auto simp: frame_input_from_dict_def d Let_def rbind_eq_Inr fingerprint_from_dict_eq_Inr dest!: item(1)
        elim!: new_FrameBatchBuilderInput_wf
        intro: descriptor.decode_wf frames.decode_wf optional_item_pred whole_policy.decode_wf)
qed

interpretation frame_input: record_codec wf_frame_input frame_input_to_dict frame_input_from_dict dict_keys_distinct
proof
  show "frame_input_from_dict (frame_input_to_dict f) = Inr f" if "wf_frame_input f" for f
    using new_FrameBatchBuilderInput_again [OF that] that
    by (simp add: frame_input_from_dict_def frame_input_to_dict_def expect_mapping_pdict data_item_def dict_get_def
        frame_input_keys_def wf_frame_input_def wf_whole_def descriptor.decode_encode frames.decode_encode
        optional_fp_again optional_whole_again insert_commute)
  show "dict_keys_distinct (frame_input_to_dict f)" if "wf_frame_input f" for f
    using that by (simp add: frame_input_to_dict_def pdict_distinct wf_frame_input_def wf_whole_def
        descriptor.encode_ok frames.encode_ok opt_whole_distinct)
qed (rule frame_input_decode_wf)

section \<open>Properties\<close>

text \<open>
  A transcript builder input read from a plain dictionary is coherent (the transcript belongs to the resource, the
  passage representation carries the identity derived from the resource, the kind, the grouper and the normalisation,
  and aggregation is configured exactly when a whole-text policy is), and its plain form reads back unchanged.
\<close>

theorem transcript_input_roundtrip:
  assumes "dict_keys_distinct v" "transcript_input_from_dict v = Inr t"
  shows "transcript_input_from_dict (transcript_input_to_dict t) = Inr t \<and>
    tr_resource_id (ti_transcript t) = md_resource_id (ti_resource t) \<and>
    representation_id (PStr (md_resource_id (ti_resource t))) (PStr (ti_passage_representation_kind t))
      (PStr (fp_value (ti_grouper t))) (PStr (fp_value (tr_normalization (ti_transcript t)))) =
      Inr (ti_passage_representation_id t) \<and>
    (ti_whole_text_policy t = None \<longleftrightarrow> ti_aggregation t = None)"
  using transcript_input.decode_encode transcript_input_decode_wf [OF assms]
  by (auto simp: wf_transcript_input_def wf_whole_def)

definition example_input :: TranscriptBatchBuilderInput where
  "example_input =
     \<lparr>ti_resource = \<lparr>md_resource_id = example_rid, md_resource_kind = RESOURCE_AUDIO, md_media_type = [97],
        md_source_namespace = [110], md_locator = \<lparr>loc_kind = [107], loc_payload = []\<rparr>\<rparr>,
      ti_transcript = example_transcript,
      ti_passage_representation_id = projr (representation_id (PStr example_rid) (PStr REPRESENTATION_TIMED_PASSAGE)
        (PStr (fp_value (example_fp GrouperFingerprint))) (PStr (fp_value (example_fp NormalizationFingerprint)))),
      ti_passage_representation_kind = REPRESENTATION_TIMED_PASSAGE,
      ti_chunking_policy = \<lparr>soft_min_tokens = 1, target_tokens = 2, soft_max_tokens = 3, hard_max_tokens = 4,
        soft_min_duration_ms = 1, target_duration_ms = 2, soft_max_duration_ms = 3, hard_max_duration_ms = 4,
        medium_pause_ms = 1, strong_pause_ms = 2, overlap_atoms = 0\<rparr>,
      ti_grouper = example_fp GrouperFingerprint, ti_embedding = None, ti_whole_text_policy = None,
      ti_aggregation = None\<rparr>"

lemma concrete_chars: "wf_name [107]" "\<not> blank [97]" "\<not> blank [110]"
  by (simp_all add: wf_name_text blank_iff py_isspace_def utf8_encodable_def surrogate_def)

lemma example_input_wf: "wf_transcript_input example_input"
proof -
  have name: "wf_name (fp_value (example_fp cls))" for cls
    using example_fp_wf [of cls] fingerprint_text by (auto simp: wf_fp_def wf_name_text)
  have "wf_name REPRESENTATION_TIMED_PASSAGE"
    by (simp add: wf_name_text REPRESENTATION_TIMED_PASSAGE_def utf8_lit) (simp add: lit_def blank_iff py_isspace_def)
  from representation_id_total [OF example_rid_media this name name]
  obtain r where "representation_id (PStr example_rid) (PStr REPRESENTATION_TIMED_PASSAGE)
      (PStr (fp_value (example_fp GrouperFingerprint))) (PStr (fp_value (example_fp NormalizationFingerprint))) = Inr r"
    by blast
  then have "representation_id (PStr example_rid) (PStr REPRESENTATION_TIMED_PASSAGE) (PStr (fp_value (example_fp GrouperFingerprint)))
      (PStr (fp_value (example_fp NormalizationFingerprint))) = Inr (ti_passage_representation_id example_input)"
    by (simp add: example_input_def)
  moreover have "frozen_mapping []" by (rule empty_mapping_frozen)
  ultimately show ?thesis using example_transcript_wf
    by (simp add: wf_transcript_input_def example_input_def wf_descriptor_def wf_whole_def wf_policy_def wf_Locator_def
        example_rid_media example_fp_wf concrete_chars MEDIA_RESOURCE_KINDS_def example_transcript_def)
qed

theorem transcript_input_roundtrip_witness:
  "dict_keys_distinct (transcript_input_to_dict example_input) \<and>
   transcript_input_from_dict (transcript_input_to_dict example_input) = Inr example_input \<and>
   tr_resource_id (ti_transcript example_input) = md_resource_id (ti_resource example_input)"
  using transcript_input_roundtrip [of "transcript_input_to_dict example_input" example_input]
    transcript_input.encode_ok [OF example_input_wf] transcript_input.decode_encode [OF example_input_wf] by simp

end
