(* ===== verification/Media_Grouper.thy ===== *)
theory Media_Grouper
  imports Media_Records
begin

text \<open>
  \<open>mdrack_media/grouper.py\<close>: deterministic grouping of timed atoms into passages. A boundary is chosen by
  score inside a window, never splits overlapping atoms, and every passage is an interval of consecutive atoms. The
  token counter (\<open>ports.py\<close>) is a parameter: a function from text to whatever its \<open>count\<close> returns.
\<close>

section \<open>Data\<close>

definition GROUPER_ALGORITHM :: pystr where "GROUPER_ALGORITHM = lit ''deterministic-window-v1''"
definition JOIN_POLICY :: pystr where "JOIN_POLICY = lit ''preserve-boundary-whitespace-v1''"
definition UNSPLITTABLE_REJECT :: pystr where "UNSPLITTABLE_REJECT = lit ''reject''"
definition UNSPLITTABLE_FLAG :: pystr where "UNSPLITTABLE_FLAG = lit ''flag''"
definition UNSPLITTABLE_POLICIES :: "pystr list" where
  "UNSPLITTABLE_POLICIES = [UNSPLITTABLE_REJECT, UNSPLITTABLE_FLAG]"

definition SCORE_WEIGHTS :: "(string \<times> int) list" where
  "SCORE_WEIGHTS = [(''hard_limit_risk'', 100), (''speaker_change'', 45), (''sentence_end'', 40), (''strong_pause'', 35),
     (''soft_max'', 20), (''medium_pause'', 15), (''line_break'', 15), (''target_tokens'', 10), (''target_duration'', 10)]"

definition weight :: "string \<Rightarrow> int" where
  "weight name = the (map_of SCORE_WEIGHTS name)"

text \<open>The characters \<open>.!?\<close>, their full-width forms (U+3002, U+FF01, U+FF1F) and the ellipsis U+2026.\<close>

definition SENTENCE_ENDINGS :: "nat list" where
  "SENTENCE_ENDINGS = [46, 33, 63, 12290, 65281, 65311, 8230]"

record TokenCounter =
  tc_fingerprint :: "Fingerprint anyobj"
  tc_count :: "pystr \<Rightarrow> pyobj result"

record GroupingMetrics =
  source_atom_count :: nat
  passage_count :: nat
  source_atom_reference_count :: nat
  duplicate_source_atom_count :: nat
  input_overlap_count :: nat
  output_overlap_count :: nat
  hard_limit_exceeded_count :: nat
  unsplittable_passage_count :: nat
  token_count_total :: int
  max_passage_tokens :: int
  max_passage_duration_ms :: int
  boundary_reason_counts :: "(pystr, nat) dict"

definition new_GroupingMetrics ::
  "nat \<Rightarrow> nat \<Rightarrow> nat \<Rightarrow> nat \<Rightarrow> nat \<Rightarrow> nat \<Rightarrow> nat \<Rightarrow> nat \<Rightarrow> int \<Rightarrow> int \<Rightarrow> int \<Rightarrow> (pystr, nat) dict \<Rightarrow> GroupingMetrics" where
  "new_GroupingMetrics a b c d e f g h i j k reasons =
     \<lparr>source_atom_count = a, passage_count = b, source_atom_reference_count = c, duplicate_source_atom_count = d,
      input_overlap_count = e, output_overlap_count = f, hard_limit_exceeded_count = g, unsplittable_passage_count = h,
      token_count_total = i, max_passage_tokens = j, max_passage_duration_ms = k,
      boundary_reason_counts = sort_key fst reasons\<rparr>"

definition metrics_to_dict :: "GroupingMetrics \<Rightarrow> pyobj" where
  "metrics_to_dict m = pdict
     [(''boundary_reason_counts'', PMap (map (\<lambda>(k, n). (PStr k, PInt (int n))) (boundary_reason_counts m))),
      (''duplicate_source_atom_count'', PInt (int (duplicate_source_atom_count m))),
      (''hard_limit_exceeded_count'', PInt (int (hard_limit_exceeded_count m))),
      (''input_overlap_count'', PInt (int (input_overlap_count m))),
      (''max_passage_duration_ms'', PInt (max_passage_duration_ms m)),
      (''max_passage_tokens'', PInt (max_passage_tokens m)),
      (''output_overlap_count'', PInt (int (output_overlap_count m))),
      (''passage_count'', PInt (int (passage_count m))),
      (''source_atom_count'', PInt (int (source_atom_count m))),
      (''source_atom_reference_count'', PInt (int (source_atom_reference_count m))),
      (''token_count_total'', PInt (token_count_total m)),
      (''unsplittable_passage_count'', PInt (int (unsplittable_passage_count m)))]"

record TimedGroupingResult =
  gr_resource_id :: pystr
  gr_representation_id :: pystr
  gr_atoms :: "TimedTextAtom list"
  gr_passages :: "TimedPassage list"
  gr_grouper :: Fingerprint
  gr_payload :: jmap
  gr_metrics :: GroupingMetrics

definition new_TimedGroupingResult ::
  "pystr \<Rightarrow> pystr \<Rightarrow> TimedTextAtom list \<Rightarrow> TimedPassage list \<Rightarrow> Fingerprint \<Rightarrow> pyobj \<Rightarrow> GroupingMetrics \<Rightarrow>
   TimedGroupingResult result" where
  "new_TimedGroupingResult rid repid atoms passages grouper payload metrics =
     rbind (freeze_metadata payload ''fingerprint_payload'') (\<lambda>payload.
     Inr \<lparr>gr_resource_id = rid, gr_representation_id = repid, gr_atoms = atoms, gr_passages = passages,
          gr_grouper = grouper, gr_payload = payload, gr_metrics = metrics\<rparr>)"

definition grouping_to_dict :: "TimedGroupingResult \<Rightarrow> pyobj" where
  "grouping_to_dict r = pdict
     [(''fingerprint_payload'', plain_json (JObj (gr_payload r))), (''grouper_fingerprint'', PStr (fp_value (gr_grouper r))),
      (''metrics'', metrics_to_dict (gr_metrics r)), (''passages'', PList (map passage_to_dict (gr_passages r))),
      (''representation_id'', PStr (gr_representation_id r)), (''resource_id'', PStr (gr_resource_id r))]"

record GroupingPolicyVariant =
  gv_name :: pystr
  gv_policy :: TimedChunkingPolicy

definition new_GroupingPolicyVariant :: "pyobj \<Rightarrow> TimedChunkingPolicy anyobj \<Rightarrow> GroupingPolicyVariant result" where
  "new_GroupingPolicyVariant name policy =
     rbind (case name of
          PStr s \<Rightarrow> if s = [] \<or> strip s \<noteq> s
            then Inl (ValueError ''variant name must be non-empty without outer whitespace'') else Inr s
        | _ \<Rightarrow> Inl (ValueError ''variant name must be non-empty without outer whitespace'')) (\<lambda>name.
     rbind (require_instance policy ''variant policy must be a TimedChunkingPolicy'') (\<lambda>policy.
     Inr \<lparr>gv_name = name, gv_policy = policy\<rparr>))"

record GroupingVariantResult =
  gvr_variant :: pystr
  gvr_result :: TimedGroupingResult

definition variant_to_dict :: "GroupingVariantResult \<Rightarrow> pyobj" where
  "variant_to_dict v = pdict
     [(''result'', grouping_to_dict (gvr_result v)), (''variant'', PStr (gvr_variant v))]"

record BoundaryCandidate =
  bc_end_index :: nat
  bc_text :: pystr
  bc_token_count :: int
  bc_end_ms :: int
  bc_score :: int
  bc_token_distance :: int
  bc_duration_distance :: int

record SelectedBoundary =
  sb_candidate :: BoundaryCandidate
  sb_reason :: string
  sb_hard_limit_exceeded :: bool
  sb_unsplittable :: bool

section \<open>Boundary candidates\<close>

text \<open>\<open>s[0]\<close> and \<open>s[-1]\<close>.\<close>

definition first_char :: "pystr \<Rightarrow> nat result" where
  "first_char s = (if s = [] then Inl IndexError else Inr (hd s))"

definition last_char :: "pystr \<Rightarrow> nat result" where
  "last_char s = (if s = [] then Inl IndexError else Inr (last s))"

definition append_text :: "TimedTextAtom \<Rightarrow> pystr \<Rightarrow> pystr result" where
  "append_text item value =
     rbind (last_char value) (\<lambda>c.
     rbind (if py_isspace c then Inr True else rbind (first_char (ta_text item)) (\<lambda>d. Inr (py_isspace d))) (\<lambda>space.
     Inr (if space then value @ ta_text item else value @ [32] @ ta_text item)))"

definition join_atom_texts :: "TimedTextAtom list \<Rightarrow> pystr result" where
  "join_atom_texts atoms =
     (case atoms of
        [] \<Rightarrow> Inl (AssertionError ''at least one atom is required'')
      | a # rest \<Rightarrow> rfold append_text rest (ta_text a))"

definition count_tokens :: "TokenCounter \<Rightarrow> pystr \<Rightarrow> int result" where
  "count_tokens token_counter txt =
     rbind (tc_count token_counter txt) (\<lambda>value.
     case value of
       PInt n \<Rightarrow> if n < 0 then Inl (TimedGroupingError ''invalid_token_count'') else Inr n
     | _ \<Rightarrow> Inl (TimedGroupingError ''invalid_token_count''))"

text \<open>Floor division; a policy's targets are positive.\<close>

definition distance :: "int \<Rightarrow> int \<Rightarrow> int" where
  "distance value target = \<bar>value - target\<bar> * 10 div target"

definition following_score :: "TimedTextAtom \<Rightarrow> TimedTextAtom option \<Rightarrow> int \<Rightarrow> TimedChunkingPolicy \<Rightarrow> int" where
  "following_score current following end_ms policy =
     (case following of
        None \<Rightarrow> 0
      | Some nxt \<Rightarrow>
          (if ta_speaker current \<noteq> None \<and> ta_speaker nxt \<noteq> None \<and> ta_speaker current \<noteq> ta_speaker nxt
           then weight ''speaker_change'' else 0) +
          (let gap_ms = ta_start_ms nxt - end_ms
           in if strong_pause_ms policy \<le> gap_ms then weight ''strong_pause''
              else if medium_pause_ms policy \<le> gap_ms then weight ''medium_pause'' else 0))"

definition boundary_score ::
  "TimedTextAtom list \<Rightarrow> nat \<Rightarrow> int \<Rightarrow> int \<Rightarrow> int \<Rightarrow> TimedChunkingPolicy \<Rightarrow> bool \<Rightarrow> (int \<times> int \<times> int) result" where
  "boundary_score atoms end_index token_count duration_ms end_ms policy hard_limit_risk =
     (let current = atoms ! end_index;
          following = if end_index + 1 < length atoms then Some (atoms ! (end_index + 1)) else None
      in rbind (last_char (rstrip (ta_text current))) (\<lambda>c.
         let score =
               (if hard_limit_risk then weight ''hard_limit_risk'' else 0) +
               following_score current following end_ms policy +
               (if c \<in> set SENTENCE_ENDINGS then weight ''sentence_end'' else 0) +
               (if 10 \<in> set (ta_text current) then weight ''line_break'' else 0) +
               (if soft_max_tokens policy \<le> token_count \<or> soft_max_duration_ms policy \<le> duration_ms
                then weight ''soft_max'' else 0) +
               (if target_tokens policy \<le> token_count then weight ''target_tokens'' else 0) +
               (if target_duration_ms policy \<le> duration_ms then weight ''target_duration'' else 0);
             token_distance = distance token_count (target_tokens policy);
             duration_distance = distance duration_ms (target_duration_ms policy)
         in Inr (score - token_distance - duration_distance, token_distance, duration_distance)))"

definition candidate_key :: "BoundaryCandidate \<Rightarrow> int \<times> int \<times> int \<times> int" where
  "candidate_key c =
     (bc_score c, - bc_token_distance c, - bc_duration_distance c, - int (bc_end_index c))"

text \<open>\<open>max(items, key=...)\<close>: the first item with the greatest key; no item raises \<open>ValueError\<close>.\<close>

fun max_by :: "('a \<Rightarrow> 'k :: linorder) \<Rightarrow> 'a \<Rightarrow> 'a list \<Rightarrow> 'a" where
  "max_by f best [] = best"
| "max_by f best (x # xs) = max_by f (if f best < f x then x else best) xs"

definition select_candidate :: "BoundaryCandidate list \<Rightarrow> string \<Rightarrow> SelectedBoundary result" where
  "select_candidate candidates reason =
     (case candidates of
        [] \<Rightarrow> Inl (ValueError ''max() iterable argument is empty'')
      | c # cs \<Rightarrow> Inr \<lparr>sb_candidate = max_by candidate_key c cs, sb_reason = reason,
          sb_hard_limit_exceeded = False, sb_unsplittable = False\<rparr>)"

definition candidate ::
  "TimedTextAtom list \<Rightarrow> nat \<Rightarrow> nat \<Rightarrow> int \<Rightarrow> TimedChunkingPolicy \<Rightarrow> TokenCounter \<Rightarrow> bool \<Rightarrow> BoundaryCandidate result" where
  "candidate atoms start_index end_index end_ms policy token_counter hard_limit_risk =
     rbind (join_atom_texts (drop start_index (take (end_index + 1) atoms))) (\<lambda>txt.
     rbind (count_tokens token_counter txt) (\<lambda>token_count.
     let duration_ms = end_ms - ta_start_ms (atoms ! start_index)
     in rbind (boundary_score atoms end_index token_count duration_ms end_ms policy hard_limit_risk)
          (\<lambda>(score, token_distance, duration_distance).
        Inr \<lparr>bc_end_index = end_index, bc_text = txt, bc_token_count = token_count, bc_end_ms = end_ms,
             bc_score = score, bc_token_distance = token_distance, bc_duration_distance = duration_distance\<rparr>)))"

definition next_would_exceed_hard_limit ::
  "TimedTextAtom list \<Rightarrow> nat \<Rightarrow> nat \<Rightarrow> int \<Rightarrow> TimedChunkingPolicy \<Rightarrow> TokenCounter \<Rightarrow> bool result" where
  "next_would_exceed_hard_limit atoms start_index end_index end_ms policy token_counter =
     (if length atoms \<le> end_index + 1 then Inr False
      else let next_end_ms = max end_ms (ta_end_ms (atoms ! (end_index + 1)))
        in rbind (join_atom_texts (drop start_index (take (end_index + 2) atoms))) (\<lambda>next_text.
           rbind (count_tokens token_counter next_text) (\<lambda>n.
           Inr (hard_max_tokens policy < n \<or>
                hard_max_duration_ms policy < next_end_ms - ta_start_ms (atoms ! start_index)))))"

section \<open>The boundary search\<close>

text \<open>Lines 387 to 399: the hard limit is passed and there is a candidate; the last one is scored again.\<close>

definition boost_last ::
  "TimedTextAtom list \<Rightarrow> nat \<Rightarrow> TimedChunkingPolicy \<Rightarrow> TokenCounter \<Rightarrow> BoundaryCandidate list \<Rightarrow> SelectedBoundary result" where
  "boost_last atoms start_index policy token_counter candidates =
     rbind (candidate atoms start_index (bc_end_index (last candidates)) (bc_end_ms (last candidates)) policy
       token_counter True) (\<lambda>boosted.
     select_candidate (butlast candidates @ [boosted]) ''hard_limit'')"

text \<open>The body of the loop for an index within the hard limit and at a safe boundary, lines 415 to 448: either the
  passage ends here, or the loop goes on with the candidates.\<close>

definition window_step ::
  "TimedTextAtom list \<Rightarrow> nat \<Rightarrow> TimedChunkingPolicy \<Rightarrow> TokenCounter \<Rightarrow> nat \<Rightarrow> int \<Rightarrow> BoundaryCandidate \<Rightarrow>
   BoundaryCandidate list \<Rightarrow> (SelectedBoundary + BoundaryCandidate list) result" where
  "window_step atoms start_index policy token_counter end_index end_ms current candidates =
     (let duration_ms = end_ms - ta_start_ms (atoms ! start_index);
          eligible = soft_min_tokens policy \<le> bc_token_count current \<and> soft_min_duration_ms policy \<le> duration_ms;
          soft_max_reached = soft_max_tokens policy \<le> bc_token_count current \<or> soft_max_duration_ms policy \<le> duration_ms;
          at_end = (length atoms \<le> end_index + 1)
      in rbind (next_would_exceed_hard_limit atoms start_index end_index end_ms policy token_counter) (\<lambda>hard_risk.
         rbind (if eligible \<or> hard_risk \<or> soft_max_reached \<or> at_end
                then rbind (candidate atoms start_index end_index end_ms policy token_counter hard_risk)
                  (\<lambda>c. Inr (candidates @ [c]))
                else Inr candidates) (\<lambda>candidates.
         if hard_risk then rbind (select_candidate candidates ''hard_limit'') (\<lambda>s. Inr (Inl s))
         else if soft_max_reached then rbind (select_candidate candidates ''soft_max'') (\<lambda>s. Inr (Inl s))
         else if at_end then rbind (select_candidate candidates ''end_of_input'') (\<lambda>s. Inr (Inl s))
         else Inr (Inr candidates))))"

text \<open>The \<open>for\<close> loop over the remaining indices; \<open>exceeded\<close> is
  \<open>hard_exceeded_without_safe_boundary\<close>.\<close>

fun boundary_loop ::
  "TimedTextAtom list \<Rightarrow> nat \<Rightarrow> TimedChunkingPolicy \<Rightarrow> TokenCounter \<Rightarrow> pystr \<Rightarrow> nat list \<Rightarrow> int \<Rightarrow> BoundaryCandidate list \<Rightarrow>
   bool \<Rightarrow> SelectedBoundary result" where
  "boundary_loop atoms start_index policy token_counter unsplittable [] end_ms candidates exceeded =
     (if exceeded then Inl (AssertionError ''an unsplittable boundary must terminate at end of input'')
      else Inl (AssertionError ''the final atom must terminate a passage''))"
| "boundary_loop atoms start_index policy token_counter unsplittable (end_index # rest) end_ms candidates exceeded =
     (let end_ms = max end_ms (ta_end_ms (atoms ! end_index))
      in rbind (candidate atoms start_index end_index end_ms policy token_counter False) (\<lambda>current.
         let duration_ms = end_ms - ta_start_ms (atoms ! start_index);
             hard_exceeded = (hard_max_tokens policy < bc_token_count current \<or> hard_max_duration_ms policy < duration_ms);
             safe_boundary = (length atoms \<le> end_index + 1 \<or> end_ms \<le> ta_start_ms (atoms ! (end_index + 1)))
         in if hard_exceeded then
              if candidates \<noteq> [] then boost_last atoms start_index policy token_counter candidates
              else if \<not> safe_boundary
              then boundary_loop atoms start_index policy token_counter unsplittable rest end_ms candidates True
              else if unsplittable = UNSPLITTABLE_REJECT then Inl (TimedGroupingError ''unsplittable_hard_limit'')
              else Inr \<lparr>sb_candidate = current, sb_reason = ''unsplittable'', sb_hard_limit_exceeded = True,
                        sb_unsplittable = True\<rparr>
            else if \<not> safe_boundary
            then boundary_loop atoms start_index policy token_counter unsplittable rest end_ms candidates exceeded
            else rbind (window_step atoms start_index policy token_counter end_index end_ms current candidates) (\<lambda>r.
              case r of
                Inl selected \<Rightarrow> Inr selected
              | Inr candidates \<Rightarrow>
                  boundary_loop atoms start_index policy token_counter unsplittable rest end_ms candidates exceeded)))"

definition find_boundary ::
  "TimedTextAtom list \<Rightarrow> nat \<Rightarrow> TimedChunkingPolicy \<Rightarrow> TokenCounter \<Rightarrow> pystr \<Rightarrow> SelectedBoundary result" where
  "find_boundary atoms start_index policy token_counter unsplittable =
     boundary_loop atoms start_index policy token_counter unsplittable [start_index..<length atoms]
       (ta_end_ms (atoms ! start_index)) [] False"

section \<open>Spans of atoms\<close>

text \<open>The atoms from one index through another, and the latest end among them.\<close>

definition atom_span :: "TimedTextAtom list \<Rightarrow> nat \<Rightarrow> nat \<Rightarrow> TimedTextAtom list" where
  "atom_span atoms s e = drop s (take (e + 1) atoms)"

definition span_end :: "TimedTextAtom list \<Rightarrow> nat \<Rightarrow> nat \<Rightarrow> int" where
  "span_end atoms s e = Max (ta_end_ms ` set (atom_span atoms s e))"

text \<open>What a boundary must be: an interval of atoms that no later atom overlaps, with its joined text, the count
  of that text and the latest end.\<close>

definition safe_at :: "TimedTextAtom list \<Rightarrow> nat \<Rightarrow> nat \<Rightarrow> bool" where
  "safe_at atoms s e \<longleftrightarrow> length atoms \<le> e + 1 \<or> span_end atoms s e \<le> ta_start_ms (atoms ! (e + 1))"

definition covers :: "TimedTextAtom list \<Rightarrow> nat \<Rightarrow> TokenCounter \<Rightarrow> BoundaryCandidate \<Rightarrow> bool" where
  "covers atoms s tc c \<longleftrightarrow>
     s \<le> bc_end_index c \<and> bc_end_index c < length atoms \<and> bc_end_ms c = span_end atoms s (bc_end_index c) \<and>
     join_atom_texts (atom_span atoms s (bc_end_index c)) = Inr (bc_text c) \<and>
     count_tokens tc (bc_text c) = Inr (bc_token_count c) \<and> safe_at atoms s (bc_end_index c)"

definition within_hard :: "TimedTextAtom list \<Rightarrow> nat \<Rightarrow> TimedChunkingPolicy \<Rightarrow> BoundaryCandidate \<Rightarrow> bool" where
  "within_hard atoms s policy c \<longleftrightarrow>
     bc_token_count c \<le> hard_max_tokens policy \<and> bc_end_ms c - ta_start_ms (atoms ! s) \<le> hard_max_duration_ms policy"

lemma span_self: "s < length atoms \<Longrightarrow> atom_span atoms s s = [atoms ! s]"
  by (simp add: atom_span_def take_Suc_conv_app_nth)

lemma span_Suc: "s \<le> e \<Longrightarrow> Suc e < length atoms \<Longrightarrow> atom_span atoms s (Suc e) = atom_span atoms s e @ [atoms ! Suc e]"
  by (simp add: atom_span_def take_Suc_conv_app_nth)

lemma span_not_Nil: "s \<le> e \<Longrightarrow> e < length atoms \<Longrightarrow> atom_span atoms s e \<noteq> []"
  by (simp add: atom_span_def)

lemma span_end_self: "s < length atoms \<Longrightarrow> span_end atoms s s = ta_end_ms (atoms ! s)"
  by (simp add: span_end_def span_self)

lemma span_end_Suc:
  assumes "s \<le> e" "Suc e < length atoms"
  shows "span_end atoms s (Suc e) = max (span_end atoms s e) (ta_end_ms (atoms ! Suc e))"
proof -
  have "atom_span atoms s e \<noteq> []" using assms by (simp add: span_not_Nil)
  then show ?thesis by (simp add: span_end_def span_Suc [OF assms] max.commute)
qed

lemma max_by_in: "max_by f b xs \<in> set (b # xs)"
  by (induction xs arbitrary: b) auto

lemma select_candidate_eq_Inr:
  "select_candidate cs r = Inr s \<Longrightarrow> sb_candidate s \<in> set cs \<and> \<not> sb_unsplittable s \<and> \<not> sb_hard_limit_exceeded s \<and> sb_reason s = r"
  using max_by_in [of candidate_key "hd cs" "tl cs"] by (cases cs) (auto simp: select_candidate_def)

lemma candidate_eq_Inr:
  assumes "candidate atoms s e t policy tc risk = Inr c"
  shows "bc_end_index c = e" "bc_end_ms c = t" "join_atom_texts (atom_span atoms s e) = Inr (bc_text c)"
    "count_tokens tc (bc_text c) = Inr (bc_token_count c)"
  using assms by (auto simp: candidate_def rbind_eq_Inr Let_def atom_span_def)

lemma candidate_covers:
  assumes "candidate atoms s e (span_end atoms s e) policy tc risk = Inr c" "s \<le> e" "e < length atoms" "safe_at atoms s e"
  shows "covers atoms s tc c"
  using candidate_eq_Inr [OF assms(1)] assms(2-4) by (simp add: covers_def)

lemma boost_last_ok:
  assumes "boost_last atoms s policy tc cs = Inr sel" "cs \<noteq> []"
    "\<forall>c \<in> set cs. covers atoms s tc c \<and> within_hard atoms s policy c"
  shows "covers atoms s tc (sb_candidate sel) \<and> within_hard atoms s policy (sb_candidate sel) \<and>
    \<not> sb_unsplittable sel \<and> \<not> sb_hard_limit_exceeded sel"
proof -
  let ?l = "last cs"
  obtain b where b: "candidate atoms s (bc_end_index ?l) (bc_end_ms ?l) policy tc True = Inr b"
    and sel: "select_candidate (butlast cs @ [b]) ''hard_limit'' = Inr sel"
    using assms(1) by (auto simp: boost_last_def rbind_eq_Inr)
  have l: "covers atoms s tc ?l" "within_hard atoms s policy ?l" using assms(2,3) by auto
  have "bc_text b = bc_text ?l" "bc_token_count b = bc_token_count ?l"
    using candidate_eq_Inr [OF b] l by (auto simp: covers_def)
  then have "covers atoms s tc b \<and> within_hard atoms s policy b"
    using candidate_eq_Inr [OF b] l by (auto simp: covers_def within_hard_def)
  then show ?thesis using select_candidate_eq_Inr [OF sel] assms(3) by (auto dest: in_set_butlastD)
qed

lemma window_step_cases:
  assumes "window_step atoms s policy tc e t cur cs = Inr r"
  obtains risk cs' where
    "cs' = cs \<or> (\<exists>c. candidate atoms s e t policy tc risk = Inr c \<and> cs' = cs @ [c])"
    "(\<exists>sel reason. r = Inl sel \<and> select_candidate cs' reason = Inr sel) \<or> r = Inr cs' \<and> e + 1 < length atoms"
proof -
  let ?add = "\<lambda>b risk. if b then rbind (candidate atoms s e t policy tc risk) (\<lambda>c. Inr (cs @ [c])) else Inr cs"
  let ?fin = "\<lambda>risk cs'. if risk then rbind (select_candidate cs' ''hard_limit'') (\<lambda>s. Inr (Inl s))
      else if soft_max_tokens policy \<le> bc_token_count cur \<or> soft_max_duration_ms policy \<le> t - ta_start_ms (atoms ! s)
      then rbind (select_candidate cs' ''soft_max'') (\<lambda>s. Inr (Inl s))
      else if length atoms \<le> e + 1 then rbind (select_candidate cs' ''end_of_input'') (\<lambda>s. Inr (Inl s))
      else Inr (Inr cs')"
  obtain risk b cs' where add: "?add b risk = Inr cs'" and fin: "?fin risk cs' = Inr r"
    using assms unfolding window_step_def Let_def rbind_eq_Inr by blast
  have "(\<exists>sel reason. r = Inl sel \<and> select_candidate cs' reason = Inr sel) \<or> r = Inr cs' \<and> e + 1 < length atoms"
    using fin by (auto simp: rbind_eq_Inr not_le split: if_splits)
  moreover have "cs' = cs \<or> (\<exists>c. candidate atoms s e t policy tc risk = Inr c \<and> cs' = cs @ [c])"
    using add by (auto simp: rbind_eq_Inr split: if_splits)
  ultimately show thesis by (intro that) assumption+
qed

lemma window_step_ok:
  assumes "window_step atoms s policy tc e (span_end atoms s e) cur cs = Inr r"
    "s \<le> e" "e < length atoms" "safe_at atoms s e" "candidate atoms s e (span_end atoms s e) policy tc False = Inr cur"
    "within_hard atoms s policy cur"
    "\<forall>c \<in> set cs. covers atoms s tc c \<and> within_hard atoms s policy c"
  shows "case r of
      Inl sel \<Rightarrow> covers atoms s tc (sb_candidate sel) \<and> within_hard atoms s policy (sb_candidate sel) \<and>
        \<not> sb_unsplittable sel \<and> \<not> sb_hard_limit_exceeded sel
    | Inr cs' \<Rightarrow> e + 1 < length atoms \<and> (\<forall>c \<in> set cs'. covers atoms s tc c \<and> within_hard atoms s policy c)"
proof -
  have scored: "covers atoms s tc c \<and> within_hard atoms s policy c"
    if "candidate atoms s e (span_end atoms s e) policy tc risk = Inr c" for risk c
  proof -
    have "bc_text c = bc_text cur" using candidate_eq_Inr(3) [OF that] candidate_eq_Inr(3) [OF assms(5)] by simp
    then have "bc_token_count c = bc_token_count cur"
      using candidate_eq_Inr(4) [OF that] candidate_eq_Inr(4) [OF assms(5)] by simp
    then show ?thesis
      using candidate_covers [OF that assms(2-4)] candidate_eq_Inr(2) [OF that] candidate_eq_Inr(2) [OF assms(5)] assms(6)
      by (simp add: within_hard_def)
  qed
  obtain risk cs' where cs': "cs' = cs \<or> (\<exists>c. candidate atoms s e (span_end atoms s e) policy tc risk = Inr c \<and> cs' = cs @ [c])"
    and r: "(\<exists>sel reason. r = Inl sel \<and> select_candidate cs' reason = Inr sel) \<or> r = Inr cs' \<and> e + 1 < length atoms"
    by (rule window_step_cases [OF assms(1)])
  have ok: "\<forall>c \<in> set cs'. covers atoms s tc c \<and> within_hard atoms s policy c" using cs' assms(7) scored by auto
  from r show ?thesis
  proof
    assume "\<exists>sel reason. r = Inl sel \<and> select_candidate cs' reason = Inr sel"
    then obtain sel reason where "r = Inl sel" "select_candidate cs' reason = Inr sel" by blast
    then show ?thesis using select_candidate_eq_Inr ok by fastforce
  qed (use ok in simp)
qed

text \<open>Every boundary the search selects covers its atoms; it is flagged exactly when it passes a hard limit, and
  then only under the flag policy.\<close>

lemma boundary_loop_ok:
  assumes "boundary_loop atoms s policy tc u [k..<length atoms] t cs ex = Inr sel"
    "s \<le> k" "k < length atoms \<Longrightarrow> max t (ta_end_ms (atoms ! k)) = span_end atoms s k"
    "\<forall>c \<in> set cs. covers atoms s tc c \<and> within_hard atoms s policy c"
  shows "covers atoms s tc (sb_candidate sel) \<and> sb_hard_limit_exceeded sel = sb_unsplittable sel \<and>
    (if sb_unsplittable sel then \<not> within_hard atoms s policy (sb_candidate sel) \<and> u \<noteq> UNSPLITTABLE_REJECT
     else within_hard atoms s policy (sb_candidate sel))"
  using assms
proof (induction "length atoms - k" arbitrary: k t cs ex)
  case 0
  then show ?case by (simp split: if_splits)
next
  case (Suc n)
  let ?e = "span_end atoms s k"
  have k: "k < length atoms" "n = length atoms - Suc k" using Suc.hyps(2) by simp_all
  have upt: "[k..<length atoms] = k # [Suc k..<length atoms]" using k(1) by (rule upt_conv_Cons)
  have e: "max t (ta_end_ms (atoms ! k)) = ?e" using Suc.prems(3) k(1) by simp
  have e': "Suc k < length atoms \<Longrightarrow> max ?e (ta_end_ms (atoms ! Suc k)) = span_end atoms s (Suc k)"
    using span_end_Suc [OF Suc.prems(2)] by simp
  have safe: "safe_at atoms s k \<longleftrightarrow> length atoms \<le> k + 1 \<or> ?e \<le> ta_start_ms (atoms ! (k + 1))" by (simp add: safe_at_def)
  note IH = Suc.hyps(1) [OF k(2) _ _ e']
  obtain cur where cur: "candidate atoms s k ?e policy tc False = Inr cur"
    using Suc.prems(1) by (auto simp: upt e Let_def rbind_eq_Inr)
  have hard: "within_hard atoms s policy cur \<longleftrightarrow>
      \<not> (hard_max_tokens policy < bc_token_count cur \<or> hard_max_duration_ms policy < ?e - ta_start_ms (atoms ! s))"
    using candidate_eq_Inr(2) [OF cur] by (auto simp: within_hard_def)
  note run = Suc.prems(1) [unfolded upt boundary_loop.simps e Let_def cur rbind_Inr, folded safe hard]
  show ?case
  proof (cases "within_hard atoms s policy cur")
    case True
    show ?thesis
    proof (cases "safe_at atoms s k")
      case s: True
      obtain r where r: "window_step atoms s policy tc k ?e cur cs = Inr r" using run True s hard safe by (auto simp: rbind_eq_Inr)
      note step = window_step_ok [OF r Suc.prems(2) k(1) s cur True Suc.prems(4)]
      show ?thesis
      proof (cases r)
        case (Inl a)
        then show ?thesis using step run True s hard safe r by auto
      next
        case (Inr cs')
        then show ?thesis using step run True s hard safe r IH [of cs' ex] Suc.prems(2) by auto
      qed
    next
      case False
      then show ?thesis using run True hard safe IH [of cs ex] Suc.prems(2,4) by auto
    qed
  next
    case False
    show ?thesis
    proof (cases "cs = []")
      case True
      then show ?thesis
        using run False hard safe IH [of cs True] Suc.prems(2) candidate_covers [OF cur Suc.prems(2) k(1)]
        by (auto split: if_splits)
    next
      case c: False
      then have "boost_last atoms s policy tc cs = Inr sel" using run False hard by auto
      from boost_last_ok [OF this c Suc.prems(4)] show ?thesis by simp
    qed
  qed
qed

lemma find_boundary_ok:
  assumes "find_boundary atoms s policy tc u = Inr sel" "s < length atoms"
  shows "covers atoms s tc (sb_candidate sel) \<and> sb_hard_limit_exceeded sel = sb_unsplittable sel \<and>
    (if sb_unsplittable sel then \<not> within_hard atoms s policy (sb_candidate sel) \<and> u \<noteq> UNSPLITTABLE_REJECT
     else within_hard atoms s policy (sb_candidate sel))"
  using assms(1) unfolding find_boundary_def
  by (rule boundary_loop_ok) (simp_all add: span_end_self assms(2))

section \<open>Grouping\<close>

definition fingerprint_payload :: "TimedChunkingPolicy \<Rightarrow> Fingerprint \<Rightarrow> pystr \<Rightarrow> pystr \<Rightarrow> pyobj" where
  "fingerprint_payload policy token_counter_fingerprint token_count_kind unsplittable = pdict
     [(''algorithm'', PStr GROUPER_ALGORITHM),
      (''boundary_window'', PStr (lit ''soft-min-through-first-soft-max-or-hard-risk-v1'')),
      (''distance_penalty'', PStr (lit ''floor(10*absolute_delta/target)-per-axis-v1'')),
      (''input_order'', PStr (lit ''strict-start-ms-nondecreasing-v1'')),
      (''join_policy'', PStr JOIN_POLICY),
      (''output_overlap_atoms'', PInt 0),
      (''policy'', policy_to_dict policy),
      (''score_weights'', pdict (map (\<lambda>(k, n). (k, PInt n)) SCORE_WEIGHTS)),
      (''tie_order'', PList (map (\<lambda>k. PStr (lit k))
        [''score_desc'', ''token_distance_asc'', ''duration_distance_asc'', ''boundary_asc''])),
      (''token_count_kind'', PStr token_count_kind),
      (''token_counter_fingerprint'', PStr (fp_value token_counter_fingerprint)),
      (''unsplittable'', PStr unsplittable),
      (''version'', PInt 1)]"

text \<open>The resource of the atoms: the argument, or that of the first atom. An \<open>Untyped\<close> item stands for an
  object without the attributes of the class.\<close>

definition grouped_resource :: "TimedTextAtom anyobj list \<Rightarrow> pyobj \<Rightarrow> pyobj result" where
  "grouped_resource values resource_identifier =
     (if resource_identifier \<noteq> PNone then Inr resource_identifier
      else case values of
          [] \<Rightarrow> Inl (TimedGroupingError ''resource_id_required_for_empty_input'')
        | Typed a # _ \<Rightarrow> Inr (PStr (ta_resource_id a))
        | Untyped # _ \<Rightarrow> Inl OtherException)"

definition canonical_atoms :: "TimedTextAtom list \<Rightarrow> pystr \<Rightarrow> unit result" where
  "canonical_atoms values rid =
     (case values of
        [] \<Rightarrow> Inr ()
      | first # _ \<Rightarrow> checks
          [raise_if (\<exists>a \<in> set values. ta_resource_id a \<noteq> rid \<or> ta_producer a \<noteq> ta_producer first \<or>
              ta_normalization a \<noteq> ta_normalization first) (TimedGroupingError ''mixed_atom_contract''),
           raise_if (map ta_ordinal values \<noteq> map int [0..<length values])
             (TimedGroupingError ''atom_ordinals_not_canonical''),
           raise_if (\<not> distinct (map ta_atom_id values)) (TimedGroupingError ''duplicate_atom_id''),
           raise_if (any_adjacent (\<lambda>previous current. ta_start_ms current < ta_start_ms previous) values)
             (TimedGroupingError ''atoms_not_ordered'')])"

text \<open>\<open>try: ... except ValueError as error: raise e from error\<close>.\<close>

definition reraise :: "'a result \<Rightarrow> exn \<Rightarrow> 'a result" where
  "reraise m e = (case m of Inr x \<Rightarrow> Inr x | Inl err \<Rightarrow> Inl (if is_ValueError err then e else err))"

lemma reraise_eq_Inr [simp]: "reraise m e = Inr x \<longleftrightarrow> m = Inr x"
  by (cases m) (auto simp: reraise_def)

definition validate_atoms :: "TimedTextAtom anyobj list \<Rightarrow> pyobj \<Rightarrow> (pystr \<times> TimedTextAtom list) result" where
  "validate_atoms values resource_identifier =
     rbind (grouped_resource values resource_identifier) (\<lambda>rid.
     rbind (reraise (validate_media_id rid ''resource_id'' (Some ID_RESOURCE))
       (TimedGroupingError ''invalid_resource_id'')) (\<lambda>rid.
     rbind (case typed_items values of
          None \<Rightarrow> Inl (TimedGroupingError ''invalid_atom_type'')
        | Some atoms \<Rightarrow> Inr atoms) (\<lambda>atoms.
     rbind (canonical_atoms atoms rid) (\<lambda>_.
     Inr (rid, atoms)))))"

text \<open>Lines 460 to 465: how many atoms start before the latest end so far.\<close>

fun count_overlaps :: "int \<Rightarrow> TimedTextAtom list \<Rightarrow> nat" where
  "count_overlaps prior_end [] = 0"
| "count_overlaps prior_end (a # atoms) =
     (if ta_start_ms a < prior_end then 1 else 0) + count_overlaps (max prior_end (ta_end_ms a)) atoms"

definition input_overlaps :: "TimedTextAtom list \<Rightarrow> nat" where
  "input_overlaps atoms = (case atoms of [] \<Rightarrow> 0 | a # rest \<Rightarrow> count_overlaps (max 0 (ta_end_ms a)) rest)"

fun count_adjacent :: "('a \<Rightarrow> 'a \<Rightarrow> bool) \<Rightarrow> 'a list \<Rightarrow> nat" where
  "count_adjacent p (x # y # zs) = (if p x y then 1 else 0) + count_adjacent p (y # zs)"
| "count_adjacent p _ = 0"

definition passage_meta :: "string \<Rightarrow> TimedPassage \<Rightarrow> json result" where
  "passage_meta k p = (case map_of (tp_metadata p) (lit k) of None \<Rightarrow> Inl KeyError | Some j \<Rightarrow> Inr j)"

text \<open>\<open>str(item.metadata["boundary_reason"])\<close>. The grouper stores a string there; the text of other
  values is not modelled.\<close>

definition boundary_reason :: "TimedPassage \<Rightarrow> pystr result" where
  "boundary_reason p =
     rbind (passage_meta ''boundary_reason'' p) (\<lambda>j. case j of JStr s \<Rightarrow> Inr s | _ \<Rightarrow> Inl OtherException)"

text \<open>\<open>Counter\<close>.\<close>

definition counter :: "'k list \<Rightarrow> ('k, nat) dict" where
  "counter xs = map (\<lambda>x. (x, length (filter ((=) x) xs))) (first_occurrences [] xs)"

definition count_true :: "json list \<Rightarrow> nat" where
  "count_true js = length (filter (\<lambda>j. j = JBool True) js)"

definition build_metrics :: "TimedTextAtom list \<Rightarrow> TimedPassage list \<Rightarrow> GroupingMetrics result" where
  "build_metrics atoms passages =
     (let references = concat (map tp_source_atom_ids passages)
      in rbind (rmap boundary_reason passages) (\<lambda>reasons.
         rbind (rmap (passage_meta ''hard_limit_exceeded'') passages) (\<lambda>exceeded.
         rbind (rmap (passage_meta ''unsplittable'') passages) (\<lambda>flagged.
         Inr (new_GroupingMetrics (length atoms) (length passages) (length references)
           (length references - card (set references)) (input_overlaps atoms)
           (count_adjacent (\<lambda>previous current. tp_start_ms current < tp_end_ms previous) passages)
           (count_true exceeded) (count_true flagged)
           (sum_list (map (\<lambda>p. tok_count (tp_token_count p)) passages))
           (if passages = [] then 0 else Max (set (map (\<lambda>p. tok_count (tp_token_count p)) passages)))
           (if passages = [] then 0 else Max (set (map (\<lambda>p. tp_end_ms p - tp_start_ms p) passages)))
           (counter reasons))))))"

text \<open>What the loop of \<open>group_timed_atoms\<close> closes over.\<close>

record grouping_context =
  gc_policy :: TimedChunkingPolicy
  gc_counter :: TokenCounter
  gc_kind :: pystr
  gc_unsplittable :: pystr
  gc_resource :: pystr
  gc_grouper :: Fingerprint
  gc_representation :: pystr

text \<open>Lines 560 to 596: one passage.\<close>

definition build_passage :: "grouping_context \<Rightarrow> TimedTextAtom list \<Rightarrow> nat \<Rightarrow> nat \<Rightarrow> SelectedBoundary \<Rightarrow> TimedPassage result" where
  "build_passage ctx values start_index ordinal selected =
     (let c = sb_candidate selected; source_atoms = drop start_index (take (bc_end_index c + 1) values)
      in rbind (raise_if (\<not> utf8_encodable (bc_text c)) (ValueError ''surrogates not allowed'')) (\<lambda>_.
         rbind (passage_id (PStr (gc_resource ctx)) (PStr (fp_value (gc_grouper ctx))) (PInt (int ordinal))
           (PStr (ta_atom_id (hd source_atoms))) (PStr (ta_atom_id (last source_atoms)))
           (PInt (ta_start_ms (hd source_atoms))) (PInt (bc_end_ms c))
           (PStr (lit ''sha256:'' @ hexdigest (utf8_encode (bc_text c))))) (\<lambda>pid.
         rbind (new_TokenCount (PInt (bc_token_count c)) (PStr (gc_kind ctx)) (tc_fingerprint (gc_counter ctx))) (\<lambda>token.
         new_TimedPassage (PStr pid) (PStr (gc_resource ctx)) (PStr (gc_representation ctx))
           (PInt (ta_start_ms (hd source_atoms))) (PInt (bc_end_ms c)) (PStr (bc_text c)) (PInt (int ordinal)) (Typed token)
           (PTuple (map (\<lambda>a. PStr (ta_atom_id a)) source_atoms)) (Typed (gc_grouper ctx)) (pdict
             [(''boundary_reason'', PStr (lit (sb_reason selected))), (''boundary_score'', PInt (bc_score c)),
              (''hard_limit_exceeded'', PBool (sb_hard_limit_exceeded selected)),
              (''unsplittable'', PBool (sb_unsplittable selected))])))))"

function group_loop :: "grouping_context \<Rightarrow> TimedTextAtom list \<Rightarrow> nat \<Rightarrow> TimedPassage list \<Rightarrow> TimedPassage list result" where
  "group_loop ctx values start_index grouped =
     (if start_index < length values
      then rbind (find_boundary values start_index (gc_policy ctx) (gc_counter ctx) (gc_unsplittable ctx)) (\<lambda>selected.
           rbind (build_passage ctx values start_index (length grouped) selected) (\<lambda>p.
           group_loop ctx values (bc_end_index (sb_candidate selected) + 1) (grouped @ [p])))
      else Inr grouped)"
  by pat_completeness auto
termination
proof (relation "measure (\<lambda>(ctx, values, s, g). length values - s)")
  fix ctx vs s g sel p
  assume "s < length vs" "find_boundary vs s (gc_policy ctx) (gc_counter ctx) (gc_unsplittable ctx) = Inr sel"
  from find_boundary_ok [OF this(2,1)] this(1)
  show "((ctx, vs, bc_end_index (sb_candidate sel) + 1, g @ [p]), (ctx, vs, s, g))
    \<in> measure (\<lambda>(ctx, values, s, g). length values - s)"
    by (auto simp: covers_def)
qed simp

declare group_loop.simps [simp del]

definition require_choice :: "pyobj \<Rightarrow> pystr list \<Rightarrow> string \<Rightarrow> pystr result" where
  "require_choice value names code =
     (if \<not> hashable value then Inl (TypeError ''unhashable type'')
      else case value of
        PStr s \<Rightarrow> if s \<in> set names then Inr s else Inl (TimedGroupingError code)
      | _ \<Rightarrow> Inl (TimedGroupingError code))"

definition require_typed :: "'a anyobj \<Rightarrow> string \<Rightarrow> 'a result" where
  "require_typed value code = (case value of Typed x \<Rightarrow> Inr x | Untyped \<Rightarrow> Inl (TimedGroupingError code))"

definition require_fp :: "fingerprint_class \<Rightarrow> Fingerprint anyobj \<Rightarrow> string \<Rightarrow> Fingerprint result" where
  "require_fp cls value code =
     (case value of
        Typed fp \<Rightarrow> if fp_class fp = cls then Inr fp else Inl (TimedGroupingError code)
      | Untyped \<Rightarrow> Inl (TimedGroupingError code))"

text \<open>Lines 520 to 535: the normalisation the passages refer to.\<close>

definition effective_normalization :: "TimedTextAtom list \<Rightarrow> Fingerprint anyobj option \<Rightarrow> Fingerprint result" where
  "effective_normalization values normalization =
     rbind (case normalization of
          None \<Rightarrow> Inr None
        | Some v \<Rightarrow> rbind (require_fp NormalizationFingerprint v ''invalid_normalization_fingerprint'') (\<lambda>fp. Inr (Some fp))) (\<lambda>fp.
     case values of
       a # _ \<Rightarrow>
         if fp \<noteq> None \<and> fp \<noteq> Some (ta_normalization a) then Inl (TimedGroupingError ''mixed_atom_contract'')
         else Inr (ta_normalization a)
     | [] \<Rightarrow> (case fp of
           None \<Rightarrow> Inl (TimedGroupingError ''normalization_fingerprint_required_for_empty_input'')
         | Some fp \<Rightarrow> Inr fp))"

text \<open>Lines 599 to 615: the closing assertions and the result.\<close>

definition finish_grouping :: "grouping_context \<Rightarrow> TimedTextAtom list \<Rightarrow> pyobj \<Rightarrow> TimedPassage list \<Rightarrow> TimedGroupingResult result" where
  "finish_grouping ctx values payload passages =
     rbind (build_metrics values passages) (\<lambda>metrics.
     rbind (raise_if (concat (map tp_source_atom_ids passages) \<noteq> map ta_atom_id values)
       (AssertionError ''grouping must preserve exact-once source atom order'')) (\<lambda>_.
     rbind (raise_if (output_overlap_count metrics \<noteq> 0)
       (AssertionError ''grouping must not emit overlapping passages'')) (\<lambda>_.
     new_TimedGroupingResult (gc_resource ctx) (gc_representation ctx) values passages (gc_grouper ctx) payload metrics)))"

definition group_timed_atoms ::
  "TimedTextAtom pyseq \<Rightarrow> TimedChunkingPolicy anyobj \<Rightarrow> TokenCounter anyobj \<Rightarrow> pyobj \<Rightarrow> pyobj \<Rightarrow> Fingerprint anyobj option \<Rightarrow>
   pyobj \<Rightarrow> TimedGroupingResult result" where
  "group_timed_atoms atoms policy token_counter token_count_kind resource_identifier normalization unsplittable =
     rbind (require_typed policy ''invalid_chunking_policy'') (\<lambda>policy.
     rbind (raise_if (overlap_atoms policy \<noteq> 0) (TimedGroupingError ''output_overlap_not_supported'')) (\<lambda>_.
     rbind (require_choice unsplittable UNSPLITTABLE_POLICIES ''invalid_unsplittable_policy'') (\<lambda>unsplittable.
     rbind (require_choice token_count_kind TOKEN_COUNT_KINDS ''invalid_token_count_kind'') (\<lambda>kind.
     rbind (require_typed token_counter ''invalid_token_counter'') (\<lambda>token_counter.
     rbind (require_fp TokenCounterFingerprint (tc_fingerprint token_counter) ''invalid_token_counter_fingerprint'') (\<lambda>counter_fp.
     rbind (case atoms of PyNotSeq \<Rightarrow> Inl (TimedGroupingError ''atoms_must_be_a_sequence'') | PySeq xs \<Rightarrow> Inr xs) (\<lambda>items.
     rbind (validate_atoms items resource_identifier) (\<lambda>(rid, values).
     rbind (effective_normalization values normalization) (\<lambda>norm.
     let payload = fingerprint_payload policy counter_fp kind unsplittable
     in rbind (fingerprint_from_payload GrouperFingerprint payload) (\<lambda>grouper.
        rbind (representation_id (PStr rid) (PStr REPRESENTATION_TIMED_PASSAGE) (PStr (fp_value grouper))
          (PStr (fp_value norm))) (\<lambda>repid.
        let ctx = \<lparr>gc_policy = policy, gc_counter = token_counter, gc_kind = kind, gc_unsplittable = unsplittable,
              gc_resource = rid, gc_grouper = grouper, gc_representation = repid\<rparr>
        in rbind (group_loop ctx values 0 []) (\<lambda>passages.
           finish_grouping ctx values payload passages))))))))))))"

section \<open>Policy variants\<close>

definition variant_A :: TimedChunkingPolicy where
  "variant_A = \<lparr>soft_min_tokens = 128, target_tokens = 256, soft_max_tokens = 384, hard_max_tokens = 512,
     soft_min_duration_ms = 20000, target_duration_ms = 45000, soft_max_duration_ms = 67500, hard_max_duration_ms = 90000,
     medium_pause_ms = 700, strong_pause_ms = 1500, overlap_atoms = 0\<rparr>"

text \<open>The defaults of \<open>TimedChunkingPolicy\<close>.\<close>

definition default_policy :: TimedChunkingPolicy where
  "default_policy = \<lparr>soft_min_tokens = 180, target_tokens = 320, soft_max_tokens = 480, hard_max_tokens = 800,
     soft_min_duration_ms = 20000, target_duration_ms = 60000, soft_max_duration_ms = 90000, hard_max_duration_ms = 120000,
     medium_pause_ms = 700, strong_pause_ms = 1500, overlap_atoms = 0\<rparr>"

definition variant_C :: TimedChunkingPolicy where
  "variant_C = \<lparr>soft_min_tokens = 180, target_tokens = 480, soft_max_tokens = 720, hard_max_tokens = 1000,
     soft_min_duration_ms = 20000, target_duration_ms = 90000, soft_max_duration_ms = 120000, hard_max_duration_ms = 120000,
     medium_pause_ms = 700, strong_pause_ms = 1500, overlap_atoms = 0\<rparr>"

definition provisional_abc_policies :: "GroupingPolicyVariant list" where
  "provisional_abc_policies =
     [\<lparr>gv_name = lit ''A'', gv_policy = variant_A\<rparr>, \<lparr>gv_name = lit ''B'', gv_policy = default_policy\<rparr>,
      \<lparr>gv_name = lit ''C'', gv_policy = variant_C\<rparr>]"

definition run_grouping_variants ::
  "TimedTextAtom pyseq \<Rightarrow> TokenCounter anyobj \<Rightarrow> pyobj \<Rightarrow> GroupingPolicyVariant list option \<Rightarrow> pyobj \<Rightarrow>
   Fingerprint anyobj option \<Rightarrow> pyobj \<Rightarrow> GroupingVariantResult list result" where
  "run_grouping_variants atoms token_counter token_count_kind variants resource_identifier normalization unsplittable =
     (let selected_variants = (case variants of None \<Rightarrow> provisional_abc_policies | Some vs \<Rightarrow> vs)
      in rbind (raise_if (\<not> distinct (map gv_name selected_variants)) (TimedGroupingError ''duplicate_variant_name'')) (\<lambda>_.
         rmap (\<lambda>item.
           rbind (group_timed_atoms atoms (Typed (gv_policy item)) token_counter token_count_kind resource_identifier
             normalization unsplittable) (\<lambda>result.
           Inr \<lparr>gvr_variant = gv_name item, gvr_result = result\<rparr>)) selected_variants))"

section \<open>Tilings\<close>

text \<open>What a list of passages must be: intervals of consecutive atoms, one after the other up to the last atom.\<close>

definition is_true :: "TimedPassage \<Rightarrow> string \<Rightarrow> bool" where
  "is_true p k \<longleftrightarrow> map_of (tp_metadata p) (lit k) = Some (JBool True)"

definition beyond_hard :: "TimedChunkingPolicy \<Rightarrow> TimedPassage \<Rightarrow> bool" where
  "beyond_hard policy p \<longleftrightarrow>
     hard_max_tokens policy < tok_count (tp_token_count p) \<or> hard_max_duration_ms policy < tp_end_ms p - tp_start_ms p"

definition passage_of :: "grouping_context \<Rightarrow> TimedTextAtom list \<Rightarrow> nat \<Rightarrow> nat \<Rightarrow> nat \<Rightarrow> TimedPassage \<Rightarrow> bool" where
  "passage_of ctx vs s e n p \<longleftrightarrow>
     tp_source_atom_ids p = map ta_atom_id (atom_span vs s e) \<and> tp_ordinal p = int n \<and>
     tp_start_ms p = ta_start_ms (vs ! s) \<and> tp_end_ms p = span_end vs s e \<and> tp_start_ms p < tp_end_ms p \<and>
     join_atom_texts (atom_span vs s e) = Inr (tp_text p) \<and>
     count_tokens (gc_counter ctx) (tp_text p) = Inr (tok_count (tp_token_count p)) \<and>
     is_true p ''unsplittable'' = beyond_hard (gc_policy ctx) p \<and>
     is_true p ''hard_limit_exceeded'' = beyond_hard (gc_policy ctx) p \<and>
     (beyond_hard (gc_policy ctx) p \<longrightarrow> gc_unsplittable ctx \<noteq> UNSPLITTABLE_REJECT) \<and>
     (\<exists>reason. boundary_reason p = Inr reason) \<and>
     (\<exists>a b. passage_meta ''unsplittable'' p = Inr a \<and> passage_meta ''hard_limit_exceeded'' p = Inr b)"

inductive tiling :: "grouping_context \<Rightarrow> TimedTextAtom list \<Rightarrow> nat \<Rightarrow> nat \<Rightarrow> TimedPassage list \<Rightarrow> bool"
  for ctx :: grouping_context and vs :: "TimedTextAtom list" where
  tiling_end: "tiling ctx vs (length vs) n []"
| tiling_step: "tiling ctx vs s n (p # ps)"
    if "s \<le> e" "e < length vs" "safe_at vs s e" "passage_of ctx vs s e n p" "tiling ctx vs (Suc e) (Suc n) ps"

inductive_cases tiling_NilE: "tiling ctx vs s n []"
inductive_cases tiling_ConsE: "tiling ctx vs s n (p # ps)"

lemma passage_metadata:
  "freeze_metadata (pdict [(''boundary_reason'', PStr (lit r)), (''boundary_score'', PInt i),
     (''hard_limit_exceeded'', PBool b), (''unsplittable'', PBool c)]) f =
   Inr [(lit ''boundary_reason'', JStr (lit r)), (lit ''boundary_score'', JInt i), (lit ''hard_limit_exceeded'', JBool b),
     (lit ''unsplittable'', JBool c)]"
proof -
  let ?ms = "[(lit ''boundary_reason'', JStr (lit r)), (lit ''boundary_score'', JInt i), (lit ''hard_limit_exceeded'', JBool b),
     (lit ''unsplittable'', JBool c)]"
  have "wf_meta ?ms"
    by (simp add: wf_meta_def media_frozen_def utf8_lit MAX_JSON_CONTAINER_DEPTH_def) (simp add: lit_def)
  from freeze_metadata_again(2) [OF this, of f] show ?thesis by (simp add: pdict_def)
qed

lemma span_last: "s \<le> e \<Longrightarrow> e < length vs \<Longrightarrow> last (atom_span vs s e) = vs ! e"
  by (simp add: atom_span_def last_conv_nth)

lemma span_hd: "s \<le> e \<Longrightarrow> e < length vs \<Longrightarrow> hd (atom_span vs s e) = vs ! s"
  by (simp add: atom_span_def hd_drop_conv_nth)

lemma map_PStr_eq: "map (\<lambda>a. PStr (f a)) xs = map PStr ys \<longleftrightarrow> ys = map f xs"
  by (induction xs arbitrary: ys) auto

lemma build_passage_of:
  assumes "build_passage ctx vs s n sel = Inr p" "find_boundary vs s (gc_policy ctx) (gc_counter ctx) (gc_unsplittable ctx) = Inr sel"
    "s < length vs"
  shows "passage_of ctx vs s (bc_end_index (sb_candidate sel)) n p"
proof -
  note sel = find_boundary_ok [OF assms(2,3)]
  let ?c = "sb_candidate sel"
  have c: "s \<le> bc_end_index ?c" "bc_end_index ?c < length vs" using sel by (simp_all add: covers_def)
  let ?atoms = "atom_span vs s (bc_end_index ?c)"
  let ?meta = "pdict [(''boundary_reason'', PStr (lit (sb_reason sel))), (''boundary_score'', PInt (bc_score ?c)),
      (''hard_limit_exceeded'', PBool (sb_hard_limit_exceeded sel)), (''unsplittable'', PBool (sb_unsplittable sel))]"
  obtain pid tok where tok: "new_TokenCount (PInt (bc_token_count ?c)) (PStr (gc_kind ctx)) (tc_fingerprint (gc_counter ctx)) = Inr tok"
    and p: "new_TimedPassage (PStr pid) (PStr (gc_resource ctx)) (PStr (gc_representation ctx)) (PInt (ta_start_ms (hd ?atoms)))
      (PInt (bc_end_ms ?c)) (PStr (bc_text ?c)) (PInt (int n)) (Typed tok) (PTuple (map (\<lambda>a. PStr (ta_atom_id a)) ?atoms))
      (Typed (gc_grouper ctx)) ?meta = Inr p"
    using assms(1) by (auto simp: build_passage_def Let_def rbind_eq_Inr atom_span_def)
  have count: "tok_count tok = bc_token_count ?c" using tok by (auto simp: new_TokenCount_def rbind_eq_Inr require_int_eq_Inr)
  have fields: "tp_source_atom_ids p = map ta_atom_id ?atoms" "tp_ordinal p = int n" "tp_start_ms p = ta_start_ms (vs ! s)"
    "tp_end_ms p = bc_end_ms ?c" "tp_start_ms p < tp_end_ms p" "tp_text p = bc_text ?c" "tp_token_count p = tok"
    "freeze_metadata ?meta ''metadata'' = Inr (tp_metadata p)"
    using p span_hd [OF c] unfolding new_TimedPassage_def
    by (auto simp: rbind_eq_Inr require_int_eq_Inr require_text_eq_Inr validate_media_id_eq_Inr require_instance_eq_Typed
        source_items_eq_Inr validate_ids_eq_Inr require_fingerprint_eq_Inr map_PStr_eq)
  have meta: "map_of (tp_metadata p) (lit k) = map_of [(''boundary_reason'', JStr (lit (sb_reason sel))),
      (''boundary_score'', JInt (bc_score ?c)), (''hard_limit_exceeded'', JBool (sb_hard_limit_exceeded sel)),
      (''unsplittable'', JBool (sb_unsplittable sel))] k" for k
    using fields(8) [unfolded passage_metadata] by (simp only: sum.inject) (simp add: eq_commute [of _ "tp_metadata p"])
  have "beyond_hard (gc_policy ctx) p = sb_unsplittable sel"
    using sel count fields(3,4,7) by (auto simp: beyond_hard_def within_hard_def split: if_splits)
  then show ?thesis using sel fields(1-7) count
    by (auto simp: passage_of_def covers_def is_true_def boundary_reason_def passage_meta_def meta split: if_splits)
qed

lemma group_loop_tiling:
  "group_loop ctx vs s g = Inr ps \<Longrightarrow> s \<le> length vs \<Longrightarrow> \<exists>qs. ps = g @ qs \<and> tiling ctx vs s (length g) qs"
proof (induction ctx vs s g rule: group_loop.induct)
  case (1 ctx vs s g)
  show ?case
  proof (cases "s < length vs")
    case True
    obtain sel p where sel: "find_boundary vs s (gc_policy ctx) (gc_counter ctx) (gc_unsplittable ctx) = Inr sel"
      and p: "build_passage ctx vs s (length g) sel = Inr p"
      and loop: "group_loop ctx vs (bc_end_index (sb_candidate sel) + 1) (g @ [p]) = Inr ps"
      using "1.prems"(1) True by (subst (asm) group_loop.simps) (auto simp: rbind_eq_Inr)
    have c: "covers vs s (gc_counter ctx) (sb_candidate sel)" using find_boundary_ok [OF sel True] by simp
    then obtain qs where "ps = (g @ [p]) @ qs" "tiling ctx vs (bc_end_index (sb_candidate sel) + 1) (length (g @ [p])) qs"
      using "1.IH" [OF True sel p loop] by (auto simp: covers_def)
    then show ?thesis
      using c build_passage_of [OF p sel True] by (auto simp: covers_def intro: tiling_step)
  next
    case False
    then show ?thesis using "1.prems" tiling_end [of ctx vs "length g"]
      by (subst (asm) group_loop.simps) (simp add: le_antisym)
  qed
qed

lemma span_drop: "s \<le> e \<Longrightarrow> e < length vs \<Longrightarrow> atom_span vs s e @ drop (Suc e) vs = drop s vs"
  by (metis Suc_eq_plus1 append_take_drop_id atom_span_def drop_append le_SucI length_take diff_is_0_eq drop_0
      less_eq_Suc_le min.absorb2)

lemma tiling_ids: "tiling ctx vs s n ps \<Longrightarrow> concat (map tp_source_atom_ids ps) = map ta_atom_id (drop s vs)"
proof (induction rule: tiling.induct)
  case (tiling_step s e n p ps)
  then show ?case using span_drop [OF tiling_step.hyps(1,2)] by (simp add: passage_of_def flip: map_append)
qed simp

lemma tiling_ordinals: "tiling ctx vs s n ps \<Longrightarrow> map tp_ordinal ps = map int [n..<n + length ps]"
proof (induction rule: tiling.induct)
  case (tiling_step s e n p ps)
  have "[n..<n + length (p # ps)] = n # [Suc n..<Suc n + length ps]" by (simp add: upt_conv_Cons del: upt_Suc)
  then show ?case using tiling_step by (simp add: passage_of_def del: upt_Suc)
qed simp

lemma tiling_first: "tiling ctx vs s n (p # ps) \<Longrightarrow> tp_start_ms p = ta_start_ms (vs ! s) \<and> s < length vs"
  by (erule tiling_ConsE) (simp add: passage_of_def)

lemma tiling_no_overlap: "tiling ctx vs s n ps \<Longrightarrow> \<not> any_adjacent (\<lambda>p q. tp_start_ms q < tp_end_ms p) ps"
proof (induction rule: tiling.induct)
  case (tiling_step s e n p ps)
  show ?case
  proof (cases ps)
    case (Cons q qs)
    then have "tp_start_ms q = ta_start_ms (vs ! Suc e)" "Suc e < length vs"
      using tiling_first tiling_step.hyps(5) by blast+
    then show ?thesis using tiling_step Cons by (auto simp: passage_of_def safe_at_def)
  qed simp
qed simp

lemma tiling_passages: "tiling ctx vs s n ps \<Longrightarrow> p \<in> set ps \<Longrightarrow> \<exists>a e m. a \<le> e \<and> e < length vs \<and> passage_of ctx vs a e m p"
  by (induction rule: tiling.induct) auto

lemma count_adjacent_zero: "count_adjacent P xs = 0 \<longleftrightarrow> \<not> any_adjacent P xs"
  by (induction P xs rule: any_adjacent.induct) auto

lemma validate_atoms_eq_Inr:
  assumes "validate_atoms items v = Inr (rid, vs)"
  shows "items = map Typed vs" "distinct (map ta_atom_id vs)" "media_id ID_RESOURCE rid" "\<forall>a \<in> set vs. ta_resource_id a = rid"
    "map ta_ordinal vs = map int [0..<length vs]" "v = PStr rid \<or> v = PNone"
proof -
  obtain r where r: "grouped_resource items v = Inr r" "validate_media_id r ''resource_id'' (Some ID_RESOURCE) = Inr rid"
    and items: "typed_items items = Some vs" and vs: "canonical_atoms vs rid = Inr ()"
    using assms by (auto simp: validate_atoms_def rbind_eq_Inr split: option.splits)
  from items show "items = map Typed vs" by (simp add: typed_items_eq_Some)
  from r show "media_id ID_RESOURCE rid" by (simp add: validate_media_id_eq_Inr)
  from r show "v = PStr rid \<or> v = PNone" by (auto simp: grouped_resource_def validate_media_id_eq_Inr split: if_splits)
  from vs show "distinct (map ta_atom_id vs)" "\<forall>a \<in> set vs. ta_resource_id a = rid" "map ta_ordinal vs = map int [0..<length vs]"
    by (cases vs; auto simp: canonical_atoms_def result_simps)+
qed

lemma rmap_meta:
  "\<forall>p \<in> set ps. \<exists>j. passage_meta k p = Inr j \<Longrightarrow>
   \<exists>js. rmap (passage_meta k) ps = Inr js \<and> count_true js = length (filter (\<lambda>p. is_true p k) ps)"
proof (induction ps)
  case (Cons p ps)
  then obtain j js where "passage_meta k p = Inr j" "rmap (passage_meta k) ps = Inr js"
    "count_true js = length (filter (\<lambda>p. is_true p k) ps)" by auto
  moreover from this(1) have "is_true p k \<longleftrightarrow> j = JBool True"
    by (auto simp: is_true_def passage_meta_def split: option.splits)
  ultimately show ?case by (auto simp: count_true_def)
qed (simp add: count_true_def)

text \<open>The metrics of a tiling: no duplicate, no overlap, and the flags count the passages beyond a hard limit.\<close>

lemma tiling_metrics:
  assumes "tiling ctx vs 0 0 ps" "distinct (map ta_atom_id vs)"
  obtains m where "build_metrics vs ps = Inr m" "source_atom_count m = length vs" "passage_count m = length ps"
    "source_atom_reference_count m = length vs" "duplicate_source_atom_count m = 0" "output_overlap_count m = 0"
    "hard_limit_exceeded_count m = length (filter (beyond_hard (gc_policy ctx)) ps)"
    "unsplittable_passage_count m = length (filter (beyond_hard (gc_policy ctx)) ps)"
    "token_count_total m = sum_list (map (\<lambda>p. tok_count (tp_token_count p)) ps)"
proof -
  have of_ctx: "\<forall>p \<in> set ps. \<exists>s e n. passage_of ctx vs s e n p" using tiling_passages [OF assms(1)] by blast
  have flag: "filter (\<lambda>p. is_true p k) ps = filter (beyond_hard (gc_policy ctx)) ps"
    if "k = ''unsplittable'' \<or> k = ''hard_limit_exceeded''" for k
    using of_ctx that by (intro filter_cong) (auto simp: passage_of_def)
  have meta: "\<exists>js. rmap (passage_meta k) ps = Inr js \<and> count_true js = length (filter (beyond_hard (gc_policy ctx)) ps)"
    if "k = ''unsplittable'' \<or> k = ''hard_limit_exceeded''" for k
    using rmap_meta [of ps k] of_ctx that unfolding flag [OF that] by (force simp: passage_of_def)
  have "\<forall>p \<in> set ps. \<exists>r. boundary_reason p = Inr r" using of_ctx by (auto simp: passage_of_def)
  then obtain f where "\<And>p. p \<in> set ps \<Longrightarrow> boundary_reason p = Inr (f p)" by metis
  then have "rmap boundary_reason ps = Inr (map f ps)" by (rule rmap_total)
  moreover obtain hs where "rmap (passage_meta ''hard_limit_exceeded'') ps = Inr hs"
    "count_true hs = length (filter (beyond_hard (gc_policy ctx)) ps)" using meta by blast
  moreover obtain us where "rmap (passage_meta ''unsplittable'') ps = Inr us"
    "count_true us = length (filter (beyond_hard (gc_policy ctx)) ps)" using meta by blast
  ultimately show thesis
    using tiling_ids [OF assms(1)] tiling_no_overlap [OF assms(1)] distinct_card [OF assms(2)]
    by (intro that) (auto simp: build_metrics_def new_GroupingMetrics_def Let_def count_adjacent_zero)
qed

end
