(* ===== verification/Media_Projection.thy ===== *)
theory Media_Projection
  imports Media_Builders Media_Grouper Core_Validation
begin

text \<open>
  \<open>mdrack_media/aggregation.py\<close>, \<open>audio.py\<close> and \<open>frames.py\<close>: the token-weighted centroid, and the projections of
  a transcript and of frame captions into a prepared batch. Python's \<open>sum\<close> of floats, whose rounding differs between
  the supported versions, is a parameter.
\<close>

section \<open>Arithmetic on doubles\<close>

fun fsign :: "pyfloat \<Rightarrow> rat" where
  "fsign (Fin q) = sgn q"
| "fsign PosInf = 1"
| "fsign NegInf = - 1"
| "fsign NaN = 0"

definition signed_inf :: "rat \<Rightarrow> pyfloat" where
  "signed_inf s = (if s = 0 then NaN else if 0 < s then PosInf else NegInf)"

fun fmul :: "pyfloat \<Rightarrow> pyfloat \<Rightarrow> pyfloat" where
  "fmul (Fin p) (Fin q) = mk_float (p * q)"
| "fmul x y = signed_inf (fsign x * fsign y)"

text \<open>A zero divisor raises \<open>ZeroDivisionError\<close>.\<close>

definition fdiv :: "pyfloat \<Rightarrow> pyfloat \<Rightarrow> pyfloat result" where
  "fdiv x y =
     (case (x, y) of
        (_, Fin q) \<Rightarrow>
          if q = 0 then Inl OtherException
          else Inr (case x of Fin p \<Rightarrow> mk_float (p / q) | _ \<Rightarrow> signed_inf (fsign x * sgn q))
      | (Fin p, PosInf) \<Rightarrow> Inr (Fin 0)
      | (Fin p, NegInf) \<Rightarrow> Inr (Fin 0)
      | _ \<Rightarrow> Inr NaN)"

text \<open>The integer square root, two bits at a time.\<close>

function isqrt :: "nat \<Rightarrow> nat" where
  "isqrt n = (if n = 0 then 0 else let r = 2 * isqrt (n div 4) in if (r + 1) * (r + 1) \<le> n then r + 1 else r)"
  by pat_completeness auto
termination
  by (relation "measure id") auto

declare isqrt.simps [simp del]

lemma isqrt_bounds: "isqrt n * isqrt n \<le> n \<and> n < (isqrt n + 1) * (isqrt n + 1)"
proof (induction n rule: isqrt.induct)
  case (1 n)
  show ?case
  proof (cases "n = 0")
    case False
    define s where "s = isqrt (n div 4)"
    have s: "s * s \<le> n div 4" "n div 4 < (s + 1) * (s + 1)" using 1 [OF False] by (simp_all add: s_def)
    have "4 * (s * s) \<le> n" using s(1) by linarith
    moreover have "n div 4 + 1 \<le> (s + 1) * (s + 1)" using s(2) by linarith
    then have "n < 4 * ((s + 1) * (s + 1))" by linarith
    ultimately show ?thesis
      using False by (subst (1 2 3 4) isqrt.simps) (auto simp: Let_def algebra_simps simp flip: s_def)
  qed (simp add: isqrt.simps)
qed

text \<open>
  \<open>math.sqrt\<close>, correctly rounded. A double times \<open>2 ^ 1280\<close> is an integer; its root lies strictly between two
  neighbours of a grid much finer than half a unit in the last place, unless it is on the grid.
\<close>

definition fsqrt :: "pyfloat \<Rightarrow> pyfloat result" where
  "fsqrt x =
     (case x of
        Fin q \<Rightarrow>
          if q < 0 then Inl (ValueError ''math domain error'')
          else let m = nat \<lfloor>q * 2 ^ 1280\<rfloor>; r = isqrt m
               in Inr (mk_float (if r * r = m then of_nat r / 2 ^ 640 else of_nat (2 * r + 1) / 2 ^ 641))
      | NegInf \<Rightarrow> Inl (ValueError ''math domain error'')
      | _ \<Rightarrow> Inr x)"

section \<open>Aggregation\<close>

text \<open>The items of an object one can take the length of and iterate over.\<close>

definition seq_items :: "pyobj \<Rightarrow> pyobj list result" where
  "seq_items value =
     (case value of
        PList xs \<Rightarrow> Inr xs
      | PTuple xs \<Rightarrow> Inr xs
      | PSequence xs \<Rightarrow> Inr xs
      | PStr s \<Rightarrow> Inr (map (\<lambda>c. PStr [c]) s)
      | PBytes bs \<Rightarrow> Inr (map (\<lambda>b. PInt (int b)) bs)
      | PMap kvs \<Rightarrow> Inr (map fst kvs)
      | _ \<Rightarrow> Inl (TypeError ''object has no len()''))"

definition centroid_weight :: "pyobj \<Rightarrow> int result" where
  "centroid_weight value =
     (case value of
        PInt i \<Rightarrow> if i < 1 then Inl (ValueError ''weights must be positive integers'') else Inr i
      | _ \<Rightarrow> Inl (ValueError ''weights must be positive integers''))"

text \<open>The test of \<open>any(...)\<close> on one component, with its value as a float.\<close>

definition centroid_component :: "pyobj \<Rightarrow> pyfloat result" where
  "centroid_component value =
     (case value of
        PInt i \<Rightarrow> float_of_int i
      | PFloat f \<Rightarrow> if isfinite f then Inr f else Inl (ValueError ''vectors must contain finite numbers'')
      | _ \<Rightarrow> Inl (ValueError ''vectors must contain finite numbers''))"

text \<open>\<open>result[index] += float(value) * weight\<close> for all components.\<close>

definition centroid_add :: "pyfloat \<Rightarrow> pyfloat list \<Rightarrow> pyfloat list \<Rightarrow> pyfloat list" where
  "centroid_add w components acc = map2 (\<lambda>r x. fadd r (fmul x w)) acc components"

definition centroid_step ::
  "(pystr, pyobj) dict \<Rightarrow> (pystr, pyobj) dict \<Rightarrow> pystr \<Rightarrow> int \<times> pyfloat list \<Rightarrow> (int \<times> pyfloat list) result" where
  "centroid_step vectors weights identifier = (\<lambda>(total, acc).
     rbind (case map_of weights identifier of None \<Rightarrow> Inl KeyError | Some w \<Rightarrow> centroid_weight w) (\<lambda>weight.
     rbind (case map_of vectors identifier of None \<Rightarrow> Inl KeyError | Some v \<Rightarrow> seq_items v) (\<lambda>items.
     rbind (rmap centroid_component items) (\<lambda>components.
     rbind (float_of_int weight) (\<lambda>w.
     Inr (total + weight, centroid_add w components acc))))))"

definition weighted_centroid ::
  "(pyfloat list \<Rightarrow> pyfloat) \<Rightarrow> (pystr, pyobj) dict \<Rightarrow> (pystr, pyobj) dict \<Rightarrow> bool \<Rightarrow> pyfloat list result" where
  "weighted_centroid float_sum vectors weights normalized =
     (if vectors = [] \<or> set (keys vectors) \<noteq> set (keys weights)
      then Inl (ValueError ''vectors and weights must contain the same non-empty IDs'')
      else rbind (rmap (\<lambda>(k, v). seq_items v) vectors) (\<lambda>items.
      let dimensions = remdups (map length items) in
      rbind (raise_if (length dimensions \<noteq> 1) (ValueError ''vectors must have one shared dimension'')) (\<lambda>_.
      let dimension = hd dimensions in
      rbind (raise_if (dimension < 1) (ValueError ''vectors must not be empty'')) (\<lambda>_.
      rbind (rfold (centroid_step vectors weights) (sorted_list_of_set (set (keys vectors))) (0, replicate dimension (Fin 0)))
        (\<lambda>(total, acc).
      rbind (rmap (\<lambda>x. fdiv_int x total) acc) (\<lambda>mean.
      if \<not> normalized then Inr mean
      else rbind (fsqrt (float_sum (map (\<lambda>x. fmul x x) mean))) (\<lambda>norm.
           if norm = Fin 0 then Inl (ValueError ''whole-resource centroid has zero norm'')
           else rmap (\<lambda>x. fdiv x norm) mean)))))))"

section \<open>What both projections share\<close>

definition MODALITY_TEXT :: pystr where "MODALITY_TEXT = lit ''text''"
definition UNIT_TIME_SEGMENT :: pystr where "UNIT_TIME_SEGMENT = lit ''time_segment''"
definition UNIT_FRAME :: pystr where "UNIT_FRAME = lit ''frame''"
definition UNIT_WHOLE :: pystr where "UNIT_WHOLE = lit ''whole_resource''"
definition REPRESENTATION_TRANSCRIPT_TEXT :: pystr where "REPRESENTATION_TRANSCRIPT_TEXT = lit ''transcript_text''"
definition METRIC_ERROR :: string where "METRIC_ERROR = ''metric must be cosine, dot, or l2''"

text \<open>\<open>hashlib.sha256(canonical_json(value).encode("utf-8")).hexdigest()\<close>; the strings of built records are UTF-8 encodable.\<close>

definition json_digest :: "pyobj \<Rightarrow> pystr result" where
  "json_digest value = rbind (media_canonical_json value) (\<lambda>s. Inr (hexdigest (utf8_encode s)))"

definition projected_space_id :: "pystr \<Rightarrow> nat \<Rightarrow> pystr \<Rightarrow> pystr result" where
  "projected_space_id fingerprint dimensions metric =
     rbind (json_digest (pdict [(''dimensions'', PInt (int dimensions)), (''fingerprint'', PStr fingerprint), (''metric'', PStr metric)]))
       (\<lambda>digest. Inr (lit ''space_'' @ digest))"

text \<open>\<open>"\n\n".join(texts)\<close>.\<close>

definition join_paragraphs :: "pystr list \<Rightarrow> pystr" where
  "join_paragraphs texts = intersperse [10, 10] texts"

text \<open>\<open>{**dict(metadata), key: value}\<close>.\<close>

definition plain_members :: "jmap \<Rightarrow> (pystr, pyobj) dict" where
  "plain_members m = map (\<lambda>(k, j). (k, of_json j)) m"

definition members_object :: "(pystr, pyobj) dict \<Rightarrow> pyobj" where
  "members_object d = PMap (map (\<lambda>(k, v). (PStr k, v)) d)"

text \<open>The argument \<open>vectors\<close>: a mapping or \<open>None\<close>.\<close>

definition vectors_argument :: "pyobj \<Rightarrow> (pyobj, pyobj) dict option result" where
  "vectors_argument vectors =
     (case vectors of
        PNone \<Rightarrow> Inr None
      | PMap kvs \<Rightarrow> Inr (Some kvs)
      | _ \<Rightarrow> Inl (TypeError ''vectors must be a mapping or None''))"

definition same_ids :: "(pyobj, pyobj) dict \<Rightarrow> pystr list \<Rightarrow> bool" where
  "same_ids vectors ids \<longleftrightarrow> set (keys vectors) = set (map PStr ids)"

definition vector_item :: "(pyobj, pyobj) dict \<Rightarrow> pystr \<Rightarrow> pyobj result" where
  "vector_item vectors i = (case map_of vectors (PStr i) of None \<Rightarrow> Inl KeyError | Some v \<Rightarrow> Inr v)"

text \<open>\<open>unit.token_count or 1\<close>.\<close>

definition unit_weight :: "SearchUnitRecord \<Rightarrow> int" where
  "unit_weight u = (case unit_token_count u of None \<Rightarrow> 1 | Some n \<Rightarrow> if n = 0 then 1 else n)"

text \<open>The vector of a long whole resource: the centroid of the vectors of its parts.\<close>

definition part_centroid ::
  "(pyfloat list \<Rightarrow> pyfloat) \<Rightarrow> SearchUnitRecord list \<Rightarrow> (pyobj, pyobj) dict option \<Rightarrow> pystr \<Rightarrow> string \<Rightarrow> string \<Rightarrow>
   pyfloat list result" where
  "part_centroid float_sum parts vectors metric required mismatch =
     (case vectors of
        None \<Rightarrow> Inl (ValueError required)
      | Some vs \<Rightarrow>
          rbind (raise_if (\<not> same_ids vs (map unit_id parts)) (ValueError mismatch)) (\<lambda>_.
          rbind (rmap (\<lambda>u. rbind (vector_item vs (unit_id u)) (\<lambda>v. Inr (unit_id u, v))) parts) (\<lambda>items.
          weighted_centroid float_sum (fold (\<lambda>(k, v). AList.update k v) items [])
            (fold (\<lambda>u. AList.update (unit_id u) (PInt (unit_weight u))) parts []) (metric = METRIC_COSINE))))"

text \<open>
  The vector records of the units: the vectors must belong to exactly the indexed units and have one dimension; a whole
  unit that was aggregated brings its own vector. Without vectors there must be no embedding fingerprint.
\<close>

definition project_vectors ::
  "SearchUnitRecord list \<Rightarrow> pystr list \<Rightarrow> pyfloat list option \<Rightarrow> (pyobj, pyobj) dict option \<Rightarrow> pystr \<Rightarrow> Fingerprint option \<Rightarrow>
   string \<Rightarrow> (EmbeddingSpaceRecord list \<times> VectorRecord list) result" where
  "project_vectors units expected whole_vector vectors metric embedding mismatch =
     (case vectors of
        None \<Rightarrow>
          if embedding \<noteq> None then Inl (ValueError ''embedding_fingerprint requires vectors'') else Inr ([], [])
      | Some vs \<Rightarrow>
          rbind (raise_if (\<not> same_ids vs expected) (ValueError mismatch)) (\<lambda>_.
          rbind (rmap (\<lambda>(k, v). seq_items v) vs) (\<lambda>items.
          let dimensions = remdups (map length items @ (case whole_vector of None \<Rightarrow> [] | Some w \<Rightarrow> [length w])) in
          rbind (raise_if (length dimensions \<noteq> 1) (ValueError ''vectors must have one shared dimension'')) (\<lambda>_.
          let dimension = hd dimensions;
              fingerprint = (case embedding of None \<Rightarrow> lit ''unspecified'' | Some e \<Rightarrow> fp_value e) in
          rbind (projected_space_id fingerprint dimension metric) (\<lambda>sid.
          rbind (new_EmbeddingSpaceRecord (PStr sid) (PInt (int dimension)) (PStr metric) (PStr fingerprint)
            (pdict [(''modality'', PStr MODALITY_TEXT)])) (\<lambda>space.
          let vector_map = (case whole_vector of None \<Rightarrow> vs
              | Some w \<Rightarrow> AList.update (PStr (unit_id (last units))) (PTuple (map PFloat w)) vs) in
          rbind (rmap (\<lambda>u.
              rbind (vector_item vector_map (unit_id u)) (\<lambda>v.
              rbind (seq_items v) (\<lambda>xs.
              new_VectorRecord (PStr (unit_id u)) (PStr sid) (PTuple xs)))) units) (\<lambda>records.
          Inr ([space], records))))))))"

section \<open>Transcripts\<close>

definition passage_representation ::
  "TranscriptBatchBuilderInput \<Rightarrow> TimedGroupingResult \<Rightarrow> pystr \<Rightarrow> RepresentationRecord result" where
  "passage_representation t grouped kind =
     new_RepresentationRecord (PStr (ti_passage_representation_id t)) (PStr (md_resource_id (ti_resource t)))
       (PStr REPRESENTATION_TIMED_PASSAGE) (PStr MODALITY_TEXT) (PStr (join_paragraphs (map tp_text (gr_passages grouped))))
       (opt_str (tr_language (ti_transcript t))) (PStr (fp_value (gr_grouper grouped)))
       (PInt (sum_list (map (\<lambda>p. tok_count (tp_token_count p)) (gr_passages grouped)))) (PStr kind)
       (pdict [(''transcript_representation_id'', PStr (tr_representation_id (ti_transcript t))),
         (''normalization_fingerprint'', PStr (fp_value (tr_normalization (ti_transcript t))))])"

definition passage_unit :: "TranscriptBatchBuilderInput \<Rightarrow> pystr \<Rightarrow> TimedPassage \<Rightarrow> SearchUnitRecord result" where
  "passage_unit t track p =
     rbind (rbind (new_TimeSegmentLocator (PInt (tp_start_ms p)) (PInt (tp_end_ms p)) (PStr track)) segment_to_core_locator) (\<lambda>locator.
     new_SearchUnitRecord (PStr (tp_passage_id p)) (PStr (md_resource_id (ti_resource t))) (PStr (ti_passage_representation_id t))
       (PStr UNIT_TIME_SEGMENT) (PStr MODALITY_TEXT) (PStr (tp_text p)) (Typed locator) (PInt (tp_ordinal p))
       (PInt (tok_count (tp_token_count p))) (PStr (tok_kind (tp_token_count p)))
       (members_object (AList.update (lit ''source_atom_ids'') (PTuple (map PStr (tp_source_atom_ids p)))
         (plain_members (tp_metadata p)))))"

text \<open>The whole transcript: its representation and unit, and its vector when it is too long to embed.\<close>

definition whole_transcript ::
  "(pyfloat list \<Rightarrow> pyfloat) \<Rightarrow> TranscriptBatchBuilderInput \<Rightarrow> TimedGroupingResult \<Rightarrow> pystr \<Rightarrow> (pyobj, pyobj) dict option \<Rightarrow>
   pystr \<Rightarrow> SearchUnitRecord list \<Rightarrow> WholeResourceTextPolicy \<Rightarrow>
   (RepresentationRecord \<times> SearchUnitRecord \<times> pyfloat list option) result" where
  "whole_transcript float_sum t grouped kind vectors metric passages policy =
     (let total_tokens = sum_list (map (\<lambda>p. tok_count (tp_token_count p)) (gr_passages grouped));
          is_long = total_tokens > whole_max_tokens policy;
          rid = PStr (md_resource_id (ti_resource t));
          text = PStr (join_paragraphs (map tp_text (gr_passages grouped))) in
      rbind (raise_if (is_long \<and> whole_overflow policy = lit ''reject'')
        (ValueError ''whole transcript exceeds whole_text_policy.max_tokens'')) (\<lambda>_.
      rbind (case ti_aggregation t of None \<Rightarrow> Inl OtherException | Some a \<Rightarrow> Inr (PStr (fp_value a))) (\<lambda>aggregation.
      rbind (whole_resource_id rid (PStr (tr_representation_id (ti_transcript t))) aggregation) (\<lambda>whole_id.
      rbind (representation_id rid (PStr REPRESENTATION_TRANSCRIPT_TEXT) aggregation
        (PStr (fp_value (tr_normalization (ti_transcript t))))) (\<lambda>whole_repid.
      rbind (new_RepresentationRecord (PStr whole_repid) rid (PStr REPRESENTATION_TRANSCRIPT_TEXT) (PStr MODALITY_TEXT) text
        (opt_str (tr_language (ti_transcript t))) aggregation (PInt total_tokens) (PStr kind) (PMap [])) (\<lambda>rep.
      rbind (new_Locator (PStr (lit ''whole_media'')) (PMap [])) (\<lambda>locator.
      rbind (new_SearchUnitRecord (PStr whole_id) rid (PStr whole_repid) (PStr UNIT_WHOLE) (PStr MODALITY_TEXT) text
        (Typed locator) (PInt 0) (PInt total_tokens) (PStr kind)
        (pdict [(''similarity_basis'', PStr (lit ''transcript_text''))])) (\<lambda>u.
      rbind (if is_long
          then rbind (part_centroid float_sum passages vectors metric
                 ''long transcript requires passage vectors for centroid aggregation''
                 ''vectors must contain exactly one vector per indexed transcript unit'') (\<lambda>w. Inr (Some w))
          else Inr None) (\<lambda>whole_vector.
      Inr (rep, u, whole_vector))))))))))"

definition build_transcript_batch ::
  "(pyfloat list \<Rightarrow> pyfloat) \<Rightarrow> TranscriptBatchBuilderInput anyobj \<Rightarrow> TokenCounter anyobj \<Rightarrow> pyobj \<Rightarrow> pyobj \<Rightarrow> pyobj \<Rightarrow> pyobj \<Rightarrow>
   pystr \<Rightarrow> pystr \<Rightarrow> PreparedResourceBatch result" where
  "build_transcript_batch float_sum input_value token_counter vectors metric token_count_kind unsplittable resource_kind track =
     rbind (case input_value of Untyped \<Rightarrow> Inl (TypeError ''input_value must be a TranscriptBatchBuilderInput'') | Typed t \<Rightarrow> Inr t) (\<lambda>t.
     let resource = ti_resource t; transcript = ti_transcript t in
     rbind (raise_if (md_resource_kind resource \<noteq> resource_kind) (ValueError (''transcript builder requires a '' @ map char_of resource_kind @ '' resource''))) (\<lambda>_.
     rbind (vectors_argument vectors) (\<lambda>vectors.
     rbind (require_member metric METRICS METRIC_ERROR) (\<lambda>metric.
     rbind (require_member token_count_kind TOKEN_COUNT_KINDS ''token_count_kind must be exact or estimated'') (\<lambda>kind.
     rbind (group_timed_atoms (PySeq (map Typed (tr_atoms transcript))) (Typed (ti_chunking_policy t)) token_counter (PStr kind)
       (PStr (md_resource_id resource)) (Some (Typed (tr_normalization transcript))) unsplittable) (\<lambda>grouped.
     rbind (raise_if (gr_grouper grouped \<noteq> ti_grouper t)
       (ValueError ''grouper_fingerprint does not match the effective grouping policy'')) (\<lambda>_.
     rbind (raise_if (gr_passages grouped = []) (ValueError ''transcript must contain at least one timed passage'')) (\<lambda>_.
     rbind (passage_representation t grouped kind) (\<lambda>rep.
     rbind (rmap (passage_unit t track) (gr_passages grouped)) (\<lambda>passages.
     rbind (case ti_whole_text_policy t of
         None \<Rightarrow> Inr ([rep], passages, None)
       | Some policy \<Rightarrow>
           rbind (whole_transcript float_sum t grouped kind vectors metric passages policy) (\<lambda>(whole_rep, whole, w).
           Inr ([rep, whole_rep], passages @ [whole], w))) (\<lambda>(reps, units, whole_vector).
     rbind (project_vectors units
       (map unit_id (filter (\<lambda>u. unit_kind u = UNIT_TIME_SEGMENT) units) @
         (if ti_whole_text_policy t \<noteq> None \<and> whole_vector = None then [unit_id (last units)] else []))
       whole_vector vectors metric (ti_embedding t) ''vectors must contain exactly one vector per indexed transcript unit'')
       (\<lambda>(spaces, records).
     rbind (json_digest (transcript_to_dict transcript)) (\<lambda>digest.
     rbind (new_ResourceRecord (PStr (md_resource_id resource)) (PStr resource_kind) (PStr (md_media_type resource))
       (PStr (md_source_namespace resource)) (Typed (md_locator resource)) (PStr (lit ''sha256:'' @ digest)) PNone
       (pdict [(''producer_fingerprint'', PStr (fp_value (tr_producer transcript))),
         (''normalization_fingerprint'', PStr (fp_value (tr_normalization transcript))),
         (''grouper_fingerprint'', PStr (fp_value (gr_grouper grouped)))])) (\<lambda>res.
     new_PreparedResourceBatch (Typed res) (PySeq (map Typed reps)) (PySeq (map Typed units)) (PySeq (map Typed spaces))
       (PySeq (map Typed records)) (PySeq [])))))))))))))))"

definition build_audio_transcript_batch ::
  "(pyfloat list \<Rightarrow> pyfloat) \<Rightarrow> TranscriptBatchBuilderInput anyobj \<Rightarrow> TokenCounter anyobj \<Rightarrow> pyobj \<Rightarrow> pyobj \<Rightarrow> pyobj \<Rightarrow> pyobj \<Rightarrow>
   PreparedResourceBatch result" where
  "build_audio_transcript_batch float_sum input_value token_counter vectors metric token_count_kind unsplittable =
     build_transcript_batch float_sum input_value token_counter vectors metric token_count_kind unsplittable RESOURCE_AUDIO TRACK_AUDIO"

definition build_video_transcript_batch ::
  "(pyfloat list \<Rightarrow> pyfloat) \<Rightarrow> TranscriptBatchBuilderInput anyobj \<Rightarrow> TokenCounter anyobj \<Rightarrow> pyobj \<Rightarrow> pyobj \<Rightarrow> pyobj \<Rightarrow> pyobj \<Rightarrow>
   PreparedResourceBatch result" where
  "build_video_transcript_batch float_sum input_value token_counter vectors metric token_count_kind unsplittable =
     build_transcript_batch float_sum input_value token_counter vectors metric token_count_kind unsplittable RESOURCE_VIDEO TRACK_VIDEO"

section \<open>Frame captions\<close>

text \<open>The kind of the sum: the common kind of the counts, else estimated.\<close>

definition common_kind :: "FrameCaptionObservation list \<Rightarrow> pystr" where
  "common_kind observations =
     (let token_kinds = remdups (map (\<lambda>f. tok_kind (fo_token_count f)) observations)
      in if length token_kinds = 1 then hd token_kinds else TOKEN_COUNT_ESTIMATED)"

definition caption_text :: "FrameCaptionObservation list \<Rightarrow> pystr" where
  "caption_text observations = join_paragraphs (map fo_caption observations)"

definition caption_tokens :: "FrameCaptionObservation list \<Rightarrow> int" where
  "caption_tokens observations = sum_list (map (\<lambda>f. tok_count (fo_token_count f)) observations)"

definition frame_metadata :: "FrameCaptionObservation \<Rightarrow> pyobj" where
  "frame_metadata f =
     members_object (AList.update (lit ''observation_identity'') (PStr (fo_observation_identity f))
       (AList.update (lit ''content_fingerprint'') (PStr (fp_value (fo_content f))) (plain_members (fo_metadata f))))"

definition caption_representation :: "FrameBatchBuilderInput \<Rightarrow> RepresentationRecord result" where
  "caption_representation f =
     (let artifact = fi_frames f; observations = fa_observations artifact in
      new_RepresentationRecord (PStr (fa_representation_id artifact)) (PStr (md_resource_id (fi_resource f)))
        (PStr REPRESENTATION_FRAME_CAPTION) (PStr MODALITY_TEXT) (PStr (caption_text observations)) PNone
        (PStr (fp_value (fa_producer artifact)))
        (if observations = [] then PNone else PInt (caption_tokens observations))
        (if observations = [] then PNone else PStr (common_kind observations))
        (members_object (AList.update (lit ''normalization_fingerprint'') (PStr (fp_value (fa_normalization artifact)))
          (plain_members (fa_metadata artifact)))))"

definition caption_unit :: "FrameBatchBuilderInput \<Rightarrow> FrameCaptionObservation \<Rightarrow> SearchUnitRecord result" where
  "caption_unit f observation =
     rbind (new_Locator (PStr (lit ''video_frame''))
       (pdict [(''frame_id'', PStr (fo_frame_id observation)), (''timestamp_ms'', PInt (fo_timestamp_ms observation))])) (\<lambda>locator.
     new_SearchUnitRecord (PStr (fo_frame_id observation)) (PStr (md_resource_id (fi_resource f)))
       (PStr (fa_representation_id (fi_frames f))) (PStr UNIT_FRAME) (PStr MODALITY_TEXT) (PStr (fo_caption observation))
       (Typed locator) (PInt (fo_ordinal observation)) (PInt (tok_count (fo_token_count observation)))
       (PStr (tok_kind (fo_token_count observation))) (frame_metadata observation))"

definition whole_captions ::
  "(pyfloat list \<Rightarrow> pyfloat) \<Rightarrow> FrameBatchBuilderInput \<Rightarrow> (pyobj, pyobj) dict option \<Rightarrow> pystr \<Rightarrow> SearchUnitRecord list \<Rightarrow>
   WholeResourceTextPolicy \<Rightarrow> (RepresentationRecord \<times> SearchUnitRecord \<times> pyfloat list option) result" where
  "whole_captions float_sum f vectors metric frames policy =
     (let artifact = fi_frames f; observations = fa_observations artifact; total_tokens = caption_tokens observations;
          rid = PStr (md_resource_id (fi_resource f)); text = PStr (caption_text observations);
          basis = pdict [(''similarity_basis'', PStr (lit ''frame_caption_text''))] in
      rbind (case fi_aggregation f of None \<Rightarrow> Inl (AssertionError []) | Some a \<Rightarrow> Inr (PStr (fp_value a))) (\<lambda>aggregation.
      rbind (raise_if (total_tokens > whole_max_tokens policy \<and> whole_overflow policy = lit ''reject'')
        (ValueError ''frame captions exceed whole_text_policy.max_tokens'')) (\<lambda>_.
      rbind (representation_id rid (PStr (lit ''caption_text'')) aggregation (PStr (fp_value (fa_normalization artifact)))) (\<lambda>whole_repid.
      rbind (new_RepresentationRecord (PStr whole_repid) rid (PStr (lit ''caption_text'')) (PStr MODALITY_TEXT) text PNone
        aggregation (PInt total_tokens) (PStr (common_kind observations)) basis) (\<lambda>rep.
      rbind (whole_resource_id rid (PStr (fa_representation_id artifact)) aggregation) (\<lambda>whole_id.
      rbind (new_Locator (PStr (lit ''whole_media'')) (PMap [])) (\<lambda>locator.
      rbind (new_SearchUnitRecord (PStr whole_id) rid (PStr whole_repid) (PStr UNIT_WHOLE) (PStr MODALITY_TEXT) text
        (Typed locator) (PInt 0) (PInt total_tokens) (PStr (common_kind observations)) basis) (\<lambda>u.
      rbind (if total_tokens > whole_max_tokens policy
          then rbind (part_centroid float_sum frames vectors metric
                 ''long frame captions require vectors for centroid aggregation''
                 ''vectors must contain exactly one vector per indexed frame'') (\<lambda>w. Inr (Some w))
          else Inr None) (\<lambda>whole_vector.
      Inr (rep, u, whole_vector))))))))))"

definition build_video_frame_caption_batch ::
  "(pyfloat list \<Rightarrow> pyfloat) \<Rightarrow> FrameBatchBuilderInput anyobj \<Rightarrow> pyobj \<Rightarrow> pyobj \<Rightarrow> PreparedResourceBatch result" where
  "build_video_frame_caption_batch float_sum input_value vectors metric =
     rbind (case input_value of Untyped \<Rightarrow> Inl (TypeError ''input_value must be a FrameBatchBuilderInput'') | Typed f \<Rightarrow> Inr f) (\<lambda>f.
     rbind (vectors_argument vectors) (\<lambda>vectors.
     rbind (require_member metric METRICS METRIC_ERROR) (\<lambda>metric.
     let resource = fi_resource f; artifact = fi_frames f in
     rbind (caption_representation f) (\<lambda>rep.
     rbind (rmap (caption_unit f) (fa_observations artifact)) (\<lambda>frames.
     rbind (case fi_whole_text_policy f of
         None \<Rightarrow> Inr ([rep], frames, None)
       | Some policy \<Rightarrow>
           rbind (whole_captions float_sum f vectors metric frames policy) (\<lambda>(whole_rep, whole, w).
           Inr ([rep, whole_rep], frames @ [whole], w))) (\<lambda>(reps, units, whole_vector).
     rbind (project_vectors units
       (if whole_vector = None then map unit_id units else filter (\<lambda>i. i \<noteq> unit_id (last units)) (map unit_id units))
       whole_vector vectors metric (fi_embedding f) ''vectors must contain exactly one vector per indexed frame'')
       (\<lambda>(spaces, records).
     rbind (json_digest (frames_to_dict artifact)) (\<lambda>digest.
     rbind (new_ResourceRecord (PStr (md_resource_id resource)) (PStr RESOURCE_VIDEO) (PStr (md_media_type resource))
       (PStr (md_source_namespace resource)) (Typed (md_locator resource)) (PStr (lit ''sha256:'' @ digest)) PNone
       (members_object (AList.update (lit ''normalization_fingerprint'') (PStr (fp_value (fa_normalization artifact)))
         (AList.update (lit ''producer_fingerprint'') (PStr (fp_value (fa_producer artifact))) (plain_members (fa_metadata artifact))))))
       (\<lambda>res.
     new_PreparedResourceBatch (Typed res) (PySeq (map Typed reps)) (PySeq (map Typed units)) (PySeq (map Typed spaces))
       (PySeq (map Typed records)) (PySeq []))))))))))"

end
