(* ===== verification/Media_Batches.thy ===== *)
theory Media_Batches
  imports Media_Projection
begin

text \<open>
  The batches that the projections build are valid resource graphs: what the core validator asks of them holds by
  construction, except for the uniqueness of hashed identities and for zero vectors under the cosine metric, and exactly
  these decide whether it accepts.
\<close>

section \<open>Vectors\<close>

lemma remdups_single: "length (remdups xs) = 1 \<Longrightarrow> x \<in> set xs \<Longrightarrow> x = hd (remdups xs)"
proof -
  assume a: "length (remdups xs) = 1" "x \<in> set xs"
  then obtain y where "remdups xs = [y]" by (cases "remdups xs") auto
  then show ?thesis using a(2) by (metis empty_iff empty_set list.sel(1) set_ConsD set_remdups)
qed

lemma freeze_vector_length: "freeze_vector (PTuple xs) f = Inr v \<Longrightarrow> length v = length xs"
  by (auto simp: freeze_vector_def freeze_sequence_def rbind_eq_Inr dest: rmap_length split: if_splits)

lemma new_VectorRecord_fields:
  "new_VectorRecord (PStr u) (PStr s) v = Inr x \<Longrightarrow> vec_unit_id x = u \<and> vec_space_id x = s \<and> freeze_vector v ''vector'' = Inr (vec_vector x)"
  by (auto simp: new_VectorRecord_def rbind_eq_Inr result_simps)

lemma new_EmbeddingSpaceRecord_fields:
  "new_EmbeddingSpaceRecord (PStr s) (PInt d) (PStr m) f md = Inr x \<Longrightarrow> space_id x = s \<and> space_dimensions x = d \<and> space_metric x = m"
  by (auto simp: new_EmbeddingSpaceRecord_def rbind_eq_Inr result_simps)

text \<open>The result of \<^const>\<open>project_vectors\<close>: nothing, or one space with one vector of its dimension for every unit.\<close>

definition projected_vectors :: "SearchUnitRecord list \<Rightarrow> pystr \<Rightarrow> EmbeddingSpaceRecord list \<Rightarrow> VectorRecord list \<Rightarrow> bool" where
  "projected_vectors units metric spaces records \<longleftrightarrow>
     spaces = [] \<and> records = [] \<or>
     (\<exists>s. spaces = [s] \<and> wf_EmbeddingSpaceRecord s \<and> space_metric s = metric \<and> map vec_unit_id records = map unit_id units \<and>
        list_all (\<lambda>v. wf_VectorRecord v \<and> vec_space_id v = space_id s \<and> int (length (vec_vector v)) = space_dimensions s) records)"

lemma project_vectors_ok:
  assumes "project_vectors units expected w vectors metric embedding mismatch = Inr (spaces, records)"
  shows "projected_vectors units metric spaces records"
proof (cases vectors)
  case None
  then show ?thesis using assms by (simp add: project_vectors_def projected_vectors_def split: if_splits)
next
  case (Some vs)
  define vm where "vm = (case w of None \<Rightarrow> vs | Some w \<Rightarrow> AList.update (PStr (unit_id (last units))) (PTuple (map PFloat w)) vs)"
  obtain items sid s where items: "rmap (\<lambda>(k, v). seq_items v) vs = Inr items"
    and one: "length (remdups (map length items @ (case w of None \<Rightarrow> [] | Some w \<Rightarrow> [length w]))) = 1"
    and s: "new_EmbeddingSpaceRecord (PStr sid) (PInt (int (hd (remdups (map length items @ (case w of None \<Rightarrow> [] | Some w \<Rightarrow> [length w]))))))
       (PStr metric) (PStr (case embedding of None \<Rightarrow> lit ''unspecified'' | Some e \<Rightarrow> fp_value e))
       (pdict [(''modality'', PStr MODALITY_TEXT)]) = Inr s"
    and recs: "rmap (\<lambda>u. rbind (vector_item vm (unit_id u)) (\<lambda>v. rbind (seq_items v) (\<lambda>xs.
       new_VectorRecord (PStr (unit_id u)) (PStr sid) (PTuple xs)))) units = Inr records"
    and sp: "spaces = [s]"
    using assms by (auto simp: project_vectors_def Some rbind_eq_Inr Let_def vm_def simp del: rmap_eq_Inr)
  let ?d = "hd (remdups (map length items @ (case w of None \<Rightarrow> [] | Some w \<Rightarrow> [length w])))"
  have len_vs: "length xs = ?d" if "(k, v) \<in> set vs" "seq_items v = Inr xs" for k v xs
  proof -
    from that(1) obtain i where "i < length vs" "vs ! i = (k, v)" by (auto simp: in_set_conv_nth)
    then have "xs \<in> set items" using items that(2) by (force simp: rmap_eq_Inr list_all2_conv_all_nth in_set_conv_nth)
    then show ?thesis by (intro remdups_single [OF one]) auto
  qed
  have len: "length xs = ?d" if v: "vector_item vm i = Inr v" "seq_items v = Inr xs" for i v xs
  proof (cases w)
    case None
    then have "map_of vs (PStr i) = Some v" using v(1) by (simp add: vm_def vector_item_def split: option.splits)
    then show ?thesis using len_vs [OF map_of_SomeD v(2)] by simp
  next
    case (Some z)
    show ?thesis
    proof (cases "i = unit_id (last units)")
      case True
      then have "xs = map PFloat z" using v Some by (auto simp: vm_def vector_item_def seq_items_def)
      then show ?thesis using Some by (intro remdups_single [OF one]) simp
    next
      case False
      then have "map_of vs (PStr i) = Some v" using v(1) Some by (simp add: vm_def vector_item_def split: option.splits)
      then show ?thesis using len_vs [OF map_of_SomeD v(2)] by simp
    qed
  qed
  have rec: "vec_unit_id x = unit_id u \<and> wf_VectorRecord x \<and> vec_space_id x = sid \<and> length (vec_vector x) = ?d"
    if step: "rbind (vector_item vm (unit_id u)) (\<lambda>v. rbind (seq_items v) (\<lambda>xs. new_VectorRecord (PStr (unit_id u)) (PStr sid) (PTuple xs))) = Inr x"
    for u x
  proof -
    obtain v xs where v: "vector_item vm (unit_id u) = Inr v" "seq_items v = Inr xs"
      "new_VectorRecord (PStr (unit_id u)) (PStr sid) (PTuple xs) = Inr x"
      using step by (auto simp: rbind_eq_Inr)
    with new_VectorRecord_fields [OF v(3)] len [OF v(1,2)] show ?thesis
      by (auto dest: freeze_vector_length new_VectorRecord_wf)
  qed
  have "map vec_unit_id records = map unit_id units"
    using recs rec unfolding rmap_eq_Inr by (induction units records rule: list_all2_induct) auto
  moreover have "list_all (\<lambda>v. wf_VectorRecord v \<and> vec_space_id v = sid \<and> length (vec_vector v) = ?d) records"
    using rec by (auto simp: list_all_iff elim!: rmap_set [OF recs])
  moreover have "wf_EmbeddingSpaceRecord s" by (rule new_EmbeddingSpaceRecord_wf [OF s]) (simp add: pdict_distinct)
  ultimately show ?thesis using new_EmbeddingSpaceRecord_fields [OF s] by (simp add: projected_vectors_def sp list_all_iff)
qed

section \<open>Graphs\<close>

text \<open>A batch of text units of one resource whose representations all own a unit.\<close>

lemma projected_graph:
  assumes b: "b = \<lparr>batch_resource = res, batch_representations = reps, batch_units = units, batch_spaces = spaces,
      batch_vectors = records, batch_facets = []\<rparr>"
    and reps: "reps \<noteq> []" "\<And>r. r \<in> set reps \<Longrightarrow> wf_RepresentationRecord r \<and> rep_resource_id r = res_id res \<and>
      rep_modality r = MODALITY_TEXT \<and> (\<exists>u \<in> set units. unit_representation_id u = rep_id r)"
    and units: "\<And>u. u \<in> set units \<Longrightarrow> wf_SearchUnitRecord u \<and> unit_resource_id u = res_id res \<and> unit_modality u = MODALITY_TEXT \<and>
      has_text (unit_text u) \<and> (\<exists>r \<in> set reps. rep_id r = unit_representation_id u)"
    and vecs: "projected_vectors units metric spaces records" and res: "wf_ResourceRecord res"
  shows "wf_PreparedResourceBatch b \<and> (validate_prepared_batch (Typed b) = Inr () \<longleftrightarrow>
      distinct (map rep_id reps) \<and> distinct (map unit_id units) \<and>
      (metric = METRIC_COSINE \<longrightarrow> (\<forall>v \<in> set records. \<not> zero_norm (vec_vector v))))"
proof -
  have "units \<noteq> []" using reps by (cases reps) fastforce+
  have wf: "wf_PreparedResourceBatch b"
    using vecs res reps units by (auto simp: b wf_PreparedResourceBatch_def projected_vectors_def list_all_iff)
  consider "spaces = []" "records = []" | s where "spaces = [s]" "space_metric s = metric" "map vec_unit_id records = map unit_id units"
    "\<forall>v \<in> set records. vec_space_id v = space_id s \<and> int (length (vec_vector v)) = space_dimensions s"
    using vecs by (auto simp: projected_vectors_def list_all_iff)
  then have "graph_ok b \<longleftrightarrow> distinct (map rep_id reps) \<and> distinct (map unit_id units) \<and>
      (metric = METRIC_COSINE \<longrightarrow> (\<forall>v \<in> set records. \<not> zero_norm (vec_vector v)))"
  proof cases
    case 1
    then show ?thesis using \<open>units \<noteq> []\<close> reps units by (fastforce simp: b graph_ok_def)
  next
    case 2
    have "map (\<lambda>v. (vec_unit_id v, vec_space_id v)) records = map (\<lambda>u. (u, space_id s)) (map unit_id units)"
      unfolding 2(3) [symmetric] map_map using 2(4) by (intro map_cong) auto
    then have pairs: "distinct (map (\<lambda>v. (vec_unit_id v, vec_space_id v)) records) \<longleftrightarrow> distinct (map unit_id units)"
      by (simp only: distinct_map [of "\<lambda>u. (u, space_id s)"]) (simp add: inj_on_def)
    have mem: "vec_unit_id v \<in> unit_id ` set units" if "v \<in> set records" for v
      using that 2(3) by (metis image_eqI set_map)
    show ?thesis
    proof
      assume "graph_ok b"
      then show "distinct (map rep_id reps) \<and> distinct (map unit_id units) \<and>
          (metric = METRIC_COSINE \<longrightarrow> (\<forall>v \<in> set records. \<not> zero_norm (vec_vector v)))"
        using 2 by (auto simp: b graph_ok_def Let_def)
    next
      assume *: "distinct (map rep_id reps) \<and> distinct (map unit_id units) \<and>
          (metric = METRIC_COSINE \<longrightarrow> (\<forall>v \<in> set records. \<not> zero_norm (vec_vector v)))"
      have "\<exists>u \<in> set units. unit_id u = vec_unit_id v" if "v \<in> set records" for v using mem [OF that] by force
      moreover have "\<exists>r \<in> set reps. rep_id r = unit_representation_id u \<and> rep_modality r = unit_modality u" if "u \<in> set units" for u
        using units [OF that] reps(2) by metis
      ultimately show "graph_ok b"
        using * \<open>units \<noteq> []\<close> reps units 2(2,4) pairs by (simp add: b graph_ok_def Let_def 2(1))
    qed
  qed
  then show ?thesis using wf accepted_iff_graph [OF wf] by simp
qed

section \<open>Transcripts\<close>

lemma keys_map_values: "keys (map (\<lambda>(k, v). (f k, g v)) d) = map f (keys d)"
  by (induction d) auto

lemma of_json_distinct: "frozen j \<Longrightarrow> dict_keys_distinct (of_json j)"
proof (induction j)
  case (JObj ms)
  then show ?case by (fastforce simp: keys_map_values distinct_map list_all_iff inj_on_def)
qed (auto simp: list_all_iff)

lemma members_distinct:
  assumes "distinct (keys d)" "\<And>k v. (k, v) \<in> set d \<Longrightarrow> dict_keys_distinct v"
  shows "dict_keys_distinct (members_object d)"
  using assms keys_map_values [of PStr "\<lambda>v. v" d] by (auto simp: members_object_def distinct_map list_all_iff inj_on_def)

lemma updated_members:
  assumes "distinct (keys d) \<and> (\<forall>(k, v) \<in> set d. dict_keys_distinct v)" "dict_keys_distinct x"
  shows "distinct (keys (AList.update k x d)) \<and> (\<forall>(k, v) \<in> set (AList.update k x d). dict_keys_distinct v)"
proof -
  have "(a, v) \<in> set (AList.update k x d) \<Longrightarrow> (a, v) \<in> set d \<or> v = x" for a v
    by (induction d) (auto split: if_splits)
  then show ?thesis using assms by (fastforce simp: distinct_update)
qed

lemma plain_members_ok: "wf_meta m \<Longrightarrow> distinct (keys (plain_members m)) \<and> (\<forall>(k, v) \<in> set (plain_members m). dict_keys_distinct v)"
proof -
  assume "wf_meta m"
  then have "frozen (JObj m)" by (simp add: wf_meta_def media_frozen_def)
  moreover have "keys (plain_members m) = keys m" unfolding plain_members_def by (induction m) auto
  ultimately have "distinct (keys (plain_members m))" by simp
  with \<open>frozen (JObj m)\<close> show ?thesis by (auto simp: plain_members_def list_all_iff of_json_distinct)
qed

lemma members_update_distinct:
  assumes "wf_meta m" "dict_keys_distinct x" "dict_keys_distinct y"
  shows "dict_keys_distinct (members_object (AList.update k x (plain_members m)))"
    "dict_keys_distinct (members_object (AList.update l y (AList.update k x (plain_members m))))"
  using updated_members [OF plain_members_ok [OF assms(1)] assms(2), of k]
    updated_members [OF updated_members [OF plain_members_ok [OF assms(1)] assms(2), of k] assms(3), of l]
  by (auto intro!: members_distinct)

text \<open>What the projection needs of a passage.\<close>

definition usable_passage :: "TimedPassage \<Rightarrow> bool" where
  "usable_passage p \<longleftrightarrow> \<not> blank (tp_text p) \<and> wf_meta (tp_metadata p)"

lemma build_passage_usable:
  assumes "build_passage ctx vs s n sel = Inr p"
  shows "usable_passage p"
proof -
  obtain a b c d e x f y g h reason score hard unsplittable where
    p: "new_TimedPassage a b c d e (PStr x) f y g h (pdict [(''boundary_reason'', PStr (lit reason)), (''boundary_score'', PInt score),
      (''hard_limit_exceeded'', PBool hard), (''unsplittable'', PBool unsplittable)]) = Inr p"
    using assms by (fastforce simp: build_passage_def rbind_eq_Inr Let_def)
  moreover have "wf_meta m" if "freeze_metadata (pdict [(''boundary_reason'', PStr (lit reason)), (''boundary_score'', PInt score),
      (''hard_limit_exceeded'', PBool hard), (''unsplittable'', PBool unsplittable)]) ff = Inr m" for m ff
    by (rule freeze_metadata_wf [OF _ that]) (simp add: pdict_distinct)
  ultimately show ?thesis by (auto simp: usable_passage_def new_TimedPassage_def result_simps)
qed

lemma group_loop_usable:
  assumes "group_loop ctx vs s g = Inr ps" "list_all usable_passage g"
  shows "list_all usable_passage ps"
  using assms
proof (induction ctx vs s g rule: group_loop.induct)
  case (1 ctx vs s g)
  show ?case
  proof (cases "s < length vs")
    case True
    then obtain sel p where s: "find_boundary vs s (gc_policy ctx) (gc_counter ctx) (gc_unsplittable ctx) = Inr sel"
      "build_passage ctx vs s (length g) sel = Inr p" "group_loop ctx vs (bc_end_index (sb_candidate sel) + 1) (g @ [p]) = Inr ps"
      using "1.prems"(1) by (subst (asm) group_loop.simps) (auto simp: rbind_eq_Inr)
    from "1.IH" [OF True s(1,2) s(3)] "1.prems"(2) build_passage_usable [OF s(2)] show ?thesis by simp
  next
    case False
    then show ?thesis using "1.prems" by (subst (asm) group_loop.simps) simp
  qed
qed

lemma grouped_usable:
  assumes "group_timed_atoms atoms policy tc kind rid nf unsplittable = Inr g"
  shows "list_all usable_passage (gr_passages g)"
proof -
  obtain ctx vs ps payload where "group_loop ctx vs 0 [] = Inr ps" "finish_grouping ctx vs payload ps = Inr g"
    using assms by (auto simp: group_timed_atoms_def rbind_eq_Inr Let_def)
  moreover from this(2) have "gr_passages g = ps" by (auto simp: finish_grouping_def new_TimedGroupingResult_def rbind_eq_Inr)
  ultimately show ?thesis using group_loop_usable by simp
qed

lemma new_unit_fields:
  assumes "new_SearchUnitRecord (PStr i) (PStr r) (PStr p) (PStr k) (PStr m) (PStr t) (Typed l) n c ck md = Inr u" "\<not> blank t"
    "dict_keys_distinct md" "wf_Locator l"
  shows "wf_SearchUnitRecord u" "unit_id u = i" "unit_resource_id u = r" "unit_representation_id u = p" "unit_kind u = k"
    "unit_modality u = m" "unit_text u = Some t" "has_text (unit_text u)" "unit_evidence_locator u = l"
proof -
  show "wf_SearchUnitRecord u" using new_SearchUnitRecord_wf [OF assms(1,3)] assms(4) by simp
  show "unit_id u = i" "unit_resource_id u = r" "unit_representation_id u = p" "unit_kind u = k"
    "unit_modality u = m" "unit_text u = Some t" "has_text (unit_text u)" "unit_evidence_locator u = l"
    using assms(1,2) by (auto simp: new_SearchUnitRecord_def rbind_eq_Inr result_simps has_text_def require_optional_utf8_eq_Inr opt_str_def)
qed

lemma new_representation_fields:
  assumes "new_RepresentationRecord (PStr i) (PStr r) k (PStr m) t l p c ck md = Inr x" "dict_keys_distinct md"
  shows "wf_RepresentationRecord x" "rep_id x = i" "rep_resource_id x = r" "rep_modality x = m"
  using assms new_RepresentationRecord_wf [OF assms]
  by (auto simp: new_RepresentationRecord_def rbind_eq_Inr result_simps)

lemma segment_locator_fields:
  assumes "rbind (new_TimeSegmentLocator (PInt s) (PInt e) (PStr track)) segment_to_core_locator = Inr l"
  shows "wf_Locator l"
  using assms by (auto simp: rbind_eq_Inr segment_to_core_locator_def intro!: new_Locator_wf simp: pdict_distinct)

lemma passage_unit_ok:
  assumes "passage_unit t track p = Inr u" "usable_passage p"
  shows "wf_SearchUnitRecord u \<and> unit_id u = tp_passage_id p \<and> unit_resource_id u = md_resource_id (ti_resource t) \<and>
    unit_representation_id u = ti_passage_representation_id t \<and> unit_kind u = UNIT_TIME_SEGMENT \<and> unit_modality u = MODALITY_TEXT \<and>
    unit_text u = Some (tp_text p) \<and> has_text (unit_text u) \<and>
    rbind (new_TimeSegmentLocator (PInt (tp_start_ms p)) (PInt (tp_end_ms p)) (PStr track)) segment_to_core_locator =
      Inr (unit_evidence_locator u)"
proof -
  obtain l where l: "rbind (new_TimeSegmentLocator (PInt (tp_start_ms p)) (PInt (tp_end_ms p)) (PStr track)) segment_to_core_locator = Inr l"
    and u: "new_SearchUnitRecord (PStr (tp_passage_id p)) (PStr (md_resource_id (ti_resource t))) (PStr (ti_passage_representation_id t))
       (PStr UNIT_TIME_SEGMENT) (PStr MODALITY_TEXT) (PStr (tp_text p)) (Typed l) (PInt (tp_ordinal p))
       (PInt (tok_count (tp_token_count p))) (PStr (tok_kind (tp_token_count p)))
       (members_object (AList.update (lit ''source_atom_ids'') (PTuple (map PStr (tp_source_atom_ids p)))
         (plain_members (tp_metadata p)))) = Inr u"
    using assms(1) by (auto simp: passage_unit_def rbind_eq_Inr)
  have "dict_keys_distinct (members_object (AList.update (lit ''source_atom_ids'') (PTuple (map PStr (tp_source_atom_ids p)))
      (plain_members (tp_metadata p))))"
    using assms(2) by (intro members_update_distinct(1) [where y = PNone]) (auto simp: usable_passage_def list_all_iff)
  note fields = new_unit_fields [OF u _ this segment_locator_fields [OF l]]
  show ?thesis using fields assms(2) l by (simp add: usable_passage_def)
qed

lemma join_paragraphs_blank: "blank (join_paragraphs ts) \<longleftrightarrow> list_all blank ts"
proof -
  have nl: "blank [10, 10]" by (simp add: blank_iff py_isspace_def)
  show ?thesis unfolding join_paragraphs_def
    by (induction "[10, 10] :: pystr" ts rule: intersperse.induct) (use nl in \<open>auto simp: blank_append blank_iff\<close>)
qed

lemma whole_locator: "new_Locator (PStr k) (PMap []) = Inr l \<Longrightarrow> wf_Locator l"
  by (rule new_Locator_wf [where p = "PMap []"]) simp_all

text \<open>What a representation and a unit must be to stand in a projected batch of a resource.\<close>

definition projected_rep :: "pystr \<Rightarrow> RepresentationRecord \<Rightarrow> bool" where
  "projected_rep rid r \<longleftrightarrow> wf_RepresentationRecord r \<and> rep_resource_id r = rid \<and> rep_modality r = MODALITY_TEXT"

definition projected_unit :: "pystr \<Rightarrow> pystr \<Rightarrow> SearchUnitRecord \<Rightarrow> bool" where
  "projected_unit rid repid u \<longleftrightarrow> wf_SearchUnitRecord u \<and> unit_resource_id u = rid \<and> unit_modality u = MODALITY_TEXT \<and>
     has_text (unit_text u) \<and> unit_representation_id u = repid"

lemma whole_transcript_ok:
  assumes "whole_transcript float_sum t g k vs metric passages policy = Inr (r, u, w)"
    "list_all usable_passage (gr_passages g)" "gr_passages g \<noteq> []"
  shows "projected_rep (md_resource_id (ti_resource t)) r" "projected_unit (md_resource_id (ti_resource t)) (rep_id r) u"
proof -
  let ?rid = "md_resource_id (ti_resource t)" and ?text = "join_paragraphs (map tp_text (gr_passages g))"
  obtain i j l lang f n where rep: "new_RepresentationRecord (PStr i) (PStr ?rid) (PStr REPRESENTATION_TRANSCRIPT_TEXT) (PStr MODALITY_TEXT)
      (PStr ?text) lang f (PInt n) (PStr k) (PMap []) = Inr r"
    and l: "new_Locator (PStr (lit ''whole_media'')) (PMap []) = Inr l"
    and u: "new_SearchUnitRecord (PStr j) (PStr ?rid) (PStr i) (PStr UNIT_WHOLE) (PStr MODALITY_TEXT) (PStr ?text)
        (Typed l) (PInt 0) (PInt n) (PStr k) (pdict [(''similarity_basis'', PStr (lit ''transcript_text''))]) = Inr u"
    using assms(1) by (auto simp: whole_transcript_def rbind_eq_Inr Let_def split: option.splits)
  have "\<not> blank ?text" using assms(2,3) by (cases "gr_passages g") (auto simp: join_paragraphs_blank usable_passage_def)
  note unit = new_unit_fields [OF u this _ whole_locator [OF l]]
  show "projected_rep ?rid r" using new_representation_fields [OF rep] by (simp add: projected_rep_def)
  show "projected_unit ?rid (rep_id r) u"
    using unit new_representation_fields(2) [OF rep] by (simp add: projected_unit_def pdict_distinct)
qed

text \<open>A representation with its units, and possibly a whole representation with its unit.\<close>

lemma projected_batch_valid:
  assumes b: "b = \<lparr>batch_resource = res, batch_representations = reps, batch_units = units, batch_spaces = spaces,
      batch_vectors = records, batch_facets = []\<rparr>"
    and res: "wf_ResourceRecord res" and rep: "projected_rep (res_id res) rep"
    and parts: "parts \<noteq> []" "list_all (projected_unit (res_id res) (rep_id rep)) parts"
    and whole: "(reps, units) = ([rep], parts) \<or> (\<exists>r u. (reps, units) = ([rep, r], parts @ [u]) \<and>
      projected_rep (res_id res) r \<and> projected_unit (res_id res) (rep_id r) u)"
    and vecs: "projected_vectors units metric spaces records"
  shows "wf_PreparedResourceBatch b \<and> (validate_prepared_batch (Typed b) = Inr () \<longleftrightarrow>
      distinct (map rep_id reps) \<and> distinct (map unit_id units) \<and>
      (metric = METRIC_COSINE \<longrightarrow> (\<forall>v \<in> set records. \<not> zero_norm (vec_vector v))))"
proof (rule projected_graph [OF b _ _ _ vecs res])
  show "reps \<noteq> []" using whole by auto
  obtain p ps where "parts = p # ps" using parts(1) by (cases parts) auto
  then have own: "\<exists>u \<in> set parts. unit_representation_id u = rep_id rep" using parts(2) by (auto simp: projected_unit_def)
  show "wf_RepresentationRecord r \<and> rep_resource_id r = res_id res \<and> rep_modality r = MODALITY_TEXT \<and>
      (\<exists>u \<in> set units. unit_representation_id u = rep_id r)" if "r \<in> set reps" for r
    using that whole rep own by (auto simp: projected_rep_def projected_unit_def)
  show "wf_SearchUnitRecord u \<and> unit_resource_id u = res_id res \<and> unit_modality u = MODALITY_TEXT \<and> has_text (unit_text u) \<and>
      (\<exists>r \<in> set reps. rep_id r = unit_representation_id u)" if "u \<in> set units" for u
    using that whole parts(2) by (auto simp: projected_unit_def list_all_iff)
qed

text \<open>
  C24: A batch built from a transcript is a valid graph up to the uniqueness of hashes: its records satisfy their invariants, its first
  units are the passages of the grouping, one by one, with the text of the passage and its time segment as evidence, and
  the core validator accepts it exactly when the representation and unit identities, which are SHA-256 digests of
  different contents, are distinct, and no vector is zero under the cosine metric.
\<close>

theorem transcript_batch_valid:
  assumes "wf_descriptor (ti_resource t)"
    "build_transcript_batch float_sum (Typed t) tc vectors (PStr metric) kind unsplittable rkind track = Inr b"
  shows "wf_PreparedResourceBatch b \<and>
    (validate_prepared_batch (Typed b) = Inr () \<longleftrightarrow>
       distinct (map rep_id (batch_representations b)) \<and> distinct (map unit_id (batch_units b)) \<and>
       (metric = METRIC_COSINE \<longrightarrow> (\<forall>v \<in> set (batch_vectors b). \<not> zero_norm (vec_vector v)))) \<and>
    (\<exists>g units. group_timed_atoms (PySeq (map Typed (tr_atoms (ti_transcript t)))) (Typed (ti_chunking_policy t)) tc kind
         (PStr (md_resource_id (ti_resource t))) (Some (Typed (tr_normalization (ti_transcript t)))) unsplittable = Inr g \<and>
       units = take (length (gr_passages g)) (batch_units b) \<and>
       length (batch_units b) = length (gr_passages g) + (if ti_whole_text_policy t = None then 0 else 1) \<and>
       list_all2 (\<lambda>p u. unit_id u = tp_passage_id p \<and> unit_kind u = UNIT_TIME_SEGMENT \<and> unit_text u = Some (tp_text p) \<and>
         rbind (new_TimeSegmentLocator (PInt (tp_start_ms p)) (PInt (tp_end_ms p)) (PStr track)) segment_to_core_locator =
           Inr (unit_evidence_locator u)) (gr_passages g) units)"
proof -
  let ?tr = "ti_transcript t" and ?r = "ti_resource t"
  obtain vs k g rep passages reps units w expected spaces records digest res
    where vs: "vectors_argument vectors = Inr vs" and k: "kind = PStr k"
    and g: "group_timed_atoms (PySeq (map Typed (tr_atoms ?tr))) (Typed (ti_chunking_policy t)) tc (PStr k)
       (PStr (md_resource_id ?r)) (Some (Typed (tr_normalization ?tr))) unsplittable = Inr g"
    and ne: "gr_passages g \<noteq> []"
    and rep: "passage_representation t g k = Inr rep"
    and passages: "rmap (passage_unit t track) (gr_passages g) = Inr passages"
    and whole: "(case ti_whole_text_policy t of None \<Rightarrow> Inr ([rep], passages, None)
       | Some policy \<Rightarrow> rbind (whole_transcript float_sum t g k vs metric passages policy) (\<lambda>(whole_rep, whole, w).
           Inr ([rep, whole_rep], passages @ [whole], w))) = Inr (reps, units, w)"
    and vecs: "project_vectors units expected
       w vs metric (ti_embedding t) ''vectors must contain exactly one vector per indexed transcript unit'' = Inr (spaces, records)"
    and res: "new_ResourceRecord (PStr (md_resource_id ?r)) (PStr rkind) (PStr (md_media_type ?r))
       (PStr (md_source_namespace ?r)) (Typed (md_locator ?r)) (PStr (lit ''sha256:'' @ digest)) PNone
       (pdict [(''producer_fingerprint'', PStr (fp_value (tr_producer ?tr))),
         (''normalization_fingerprint'', PStr (fp_value (tr_normalization ?tr))),
         (''grouper_fingerprint'', PStr (fp_value (ti_grouper t)))]) = Inr res"
    and b: "b = \<lparr>batch_resource = res, batch_representations = reps, batch_units = units, batch_spaces = spaces,
      batch_vectors = records, batch_facets = []\<rparr>"
    using assms(2) by (auto simp: build_transcript_batch_def rbind_eq_Inr Let_def new_PreparedResourceBatch_def
        freeze_typed_sequence_def require_member_def simp del: rmap_eq_Inr split: if_splits pyobj.splits intro!: that)
  have res_ok: "wf_ResourceRecord res" "res_id res = md_resource_id ?r"
    using new_ResourceRecord_wf [OF res] assms(1) res
    by (auto simp: pdict_distinct wf_descriptor_def new_ResourceRecord_def rbind_eq_Inr result_simps)
  have rep_ok: "projected_rep (md_resource_id ?r) rep" "rep_id rep = ti_passage_representation_id t"
    using new_representation_fields [OF rep [unfolded passage_representation_def]] by (simp_all add: projected_rep_def pdict_distinct)
  have usable: "list_all usable_passage (gr_passages g)" by (rule grouped_usable [OF g])
  have units_of: "list_all2 (\<lambda>p u. projected_unit (md_resource_id ?r) (rep_id rep) u \<and> unit_id u = tp_passage_id p \<and>
      unit_kind u = UNIT_TIME_SEGMENT \<and> unit_text u = Some (tp_text p) \<and>
      rbind (new_TimeSegmentLocator (PInt (tp_start_ms p)) (PInt (tp_end_ms p)) (PStr track)) segment_to_core_locator =
        Inr (unit_evidence_locator u)) (gr_passages g) passages"
    using passages usable rep_ok(2) unfolding rmap_eq_Inr list_all_length list_all2_conv_all_nth projected_unit_def
    by (metis passage_unit_ok)
  then have len: "length passages = length (gr_passages g)" by (rule list_all2_lengthD [symmetric])
  have parts: "list_all (projected_unit (md_resource_id ?r) (rep_id rep)) passages"
    using units_of by (auto simp: list_all2_conv_all_nth list_all_length)
  have whole_ok: "(reps, units) = ([rep], passages) \<and> ti_whole_text_policy t = None \<or>
      (\<exists>r u. (reps, units) = ([rep, r], passages @ [u]) \<and> projected_rep (md_resource_id ?r) r \<and> projected_unit (md_resource_id ?r) (rep_id r) u) \<and>
      ti_whole_text_policy t \<noteq> None"
    using whole whole_transcript_ok [OF _ usable ne] by (cases "ti_whole_text_policy t") (auto simp: rbind_eq_Inr)
  have "passages \<noteq> []" using len ne by auto
  have "wf_PreparedResourceBatch b \<and> (validate_prepared_batch (Typed b) = Inr () \<longleftrightarrow>
      distinct (map rep_id reps) \<and> distinct (map unit_id units) \<and>
      (metric = METRIC_COSINE \<longrightarrow> (\<forall>v \<in> set records. \<not> zero_norm (vec_vector v))))"
    using rep_ok(1) parts whole_ok \<open>passages \<noteq> []\<close> project_vectors_ok [OF vecs] res_ok
    by (intro projected_batch_valid [OF b res_ok(1), where rep = rep and parts = passages]) auto
  moreover have "take (length (gr_passages g)) units = passages"
    "length units = length (gr_passages g) + (if ti_whole_text_policy t = None then 0 else 1)"
    using whole_ok len by auto
  moreover have "list_all2 (\<lambda>p u. unit_id u = tp_passage_id p \<and> unit_kind u = UNIT_TIME_SEGMENT \<and> unit_text u = Some (tp_text p) \<and>
      rbind (new_TimeSegmentLocator (PInt (tp_start_ms p)) (PInt (tp_end_ms p)) (PStr track)) segment_to_core_locator =
        Inr (unit_evidence_locator u)) (gr_passages g) passages"
    by (rule list_all2_mono [OF units_of]) simp
  ultimately show ?thesis using g by (simp add: b k)
qed

section \<open>Frame captions\<close>

lemma caption_unit_ok:
  assumes "caption_unit f x = Inr u" "wf_observation x"
  shows "projected_unit (md_resource_id (fi_resource f)) (fa_representation_id (fi_frames f)) u \<and> unit_id u = fo_frame_id x \<and>
    unit_kind u = UNIT_FRAME \<and> unit_text u = Some (fo_caption x) \<and>
    new_Locator (PStr (lit ''video_frame'')) (pdict [(''frame_id'', PStr (fo_frame_id x)), (''timestamp_ms'', PInt (fo_timestamp_ms x))]) =
      Inr (unit_evidence_locator u)"
proof -
  obtain l where l: "new_Locator (PStr (lit ''video_frame''))
       (pdict [(''frame_id'', PStr (fo_frame_id x)), (''timestamp_ms'', PInt (fo_timestamp_ms x))]) = Inr l"
    and u: "new_SearchUnitRecord (PStr (fo_frame_id x)) (PStr (md_resource_id (fi_resource f)))
       (PStr (fa_representation_id (fi_frames f))) (PStr UNIT_FRAME) (PStr MODALITY_TEXT) (PStr (fo_caption x))
       (Typed l) (PInt (fo_ordinal x)) (PInt (tok_count (fo_token_count x))) (PStr (tok_kind (fo_token_count x))) (frame_metadata x) = Inr u"
    using assms(1) by (auto simp: caption_unit_def rbind_eq_Inr)
  have "dict_keys_distinct (frame_metadata x)"
    using assms(2) unfolding frame_metadata_def by (intro members_update_distinct(2)) (simp_all add: wf_observation_def)
  moreover have "wf_Locator l" by (rule new_Locator_wf [OF _ l]) (simp add: pdict_distinct)
  moreover have "\<not> blank (fo_caption x)" using assms(2) by (simp add: wf_observation_def wf_name_def)
  ultimately show ?thesis using new_unit_fields [OF u] l by (simp add: projected_unit_def)
qed

lemma whole_captions_ok:
  assumes "whole_captions float_sum f vs metric frames policy = Inr (r, u, w)"
    "list_all wf_observation (fa_observations (fi_frames f))" "fa_observations (fi_frames f) \<noteq> []"
  shows "projected_rep (md_resource_id (fi_resource f)) r" "projected_unit (md_resource_id (fi_resource f)) (rep_id r) u"
    "media_id ID_WHOLE (unit_id u)"
proof -
  let ?rid = "md_resource_id (fi_resource f)" and ?text = "caption_text (fa_observations (fi_frames f))"
  obtain i j a l f' n k where rep: "new_RepresentationRecord (PStr i) (PStr ?rid) (PStr (lit ''caption_text'')) (PStr MODALITY_TEXT)
      (PStr ?text) PNone f' (PInt n) (PStr k) (pdict [(''similarity_basis'', PStr (lit ''frame_caption_text''))]) = Inr r"
    and j: "whole_resource_id (PStr ?rid) (PStr (fa_representation_id (fi_frames f))) (PStr a) = Inr j"
    and l: "new_Locator (PStr (lit ''whole_media'')) (PMap []) = Inr l"
    and u: "new_SearchUnitRecord (PStr j) (PStr ?rid) (PStr i) (PStr UNIT_WHOLE) (PStr MODALITY_TEXT) (PStr ?text)
        (Typed l) (PInt 0) (PInt n) (PStr k) (pdict [(''similarity_basis'', PStr (lit ''frame_caption_text''))]) = Inr u"
    using assms(1) by (auto simp: whole_captions_def rbind_eq_Inr Let_def split: option.splits)
  have "\<not> blank ?text" using assms(2,3)
    by (cases "fa_observations (fi_frames f)") (auto simp: caption_text_def join_paragraphs_blank wf_observation_def wf_name_def)
  note unit = new_unit_fields [OF u this _ whole_locator [OF l]]
  show "projected_rep ?rid r" using new_representation_fields [OF rep] by (simp add: projected_rep_def pdict_distinct)
  show "projected_unit ?rid (rep_id r) u"
    using unit new_representation_fields(2) [OF rep] by (simp add: projected_unit_def pdict_distinct)
  show "media_id ID_WHOLE (unit_id u)" using unit j derived_ids_canonical by (simp add: pdict_distinct)
qed

lemma no_frames_rejected:
  assumes "batch_units b = [] \<or> (\<exists>r u rep. batch_units b = [u] \<and> unit_representation_id u = rep_id r \<and> batch_representations b = [rep, r])"
  shows "validate_prepared_batch (Typed b) \<noteq> Inr ()"
proof
  assume v: "validate_prepared_batch (Typed b) = Inr ()"
  then have "batch_units b \<noteq> []" "distinct (map rep_id (batch_representations b))"
    by (auto simp: validate_prepared_batch_def validate_batch_def rbind_eq_Inr checks_eq_Inr require_unique_eq_Inr)
  with assms obtain r u rep where b: "batch_units b = [u]" "unit_representation_id u = rep_id r" "batch_representations b = [rep, r]"
    "rep_id rep \<noteq> rep_id r" by auto
  have "set (map unit_representation_id (batch_units b)) = set (keys (dict_of rep_id (batch_representations b)))"
    using v by (auto simp: validate_prepared_batch_def validate_batch_def rbind_eq_Inr Let_def simp del: set_map)
  then show False using b keys_dict_of [of rep_id "[rep, r]"] by auto
qed

text \<open>
  C25: A batch built from frame captions is a valid graph whenever there is a frame: its first units are the observations, one by
  one, with the caption as text and the frame and its time as evidence; unit identities never clash; and the core validator accepts it
  exactly when there is an observation, the two representation identities differ, and no vector is zero under the cosine metric.
\<close>

theorem frame_batch_valid:
  assumes "wf_frame_input f"
    "build_video_frame_caption_batch float_sum (Typed f) vectors (PStr metric) = Inr b"
  shows "(validate_prepared_batch (Typed b) = Inr () \<longleftrightarrow>
       fa_observations (fi_frames f) \<noteq> [] \<and> distinct (map rep_id (batch_representations b)) \<and>
       (metric = METRIC_COSINE \<longrightarrow> (\<forall>v \<in> set (batch_vectors b). \<not> zero_norm (vec_vector v)))) \<and>
    (fa_observations (fi_frames f) \<noteq> [] \<longrightarrow> distinct (map unit_id (batch_units b))) \<and>
    length (batch_units b) = length (fa_observations (fi_frames f)) + (if fi_whole_text_policy f = None then 0 else 1) \<and>
    list_all2 (\<lambda>x u. unit_id u = fo_frame_id x \<and> unit_kind u = UNIT_FRAME \<and> unit_text u = Some (fo_caption x) \<and>
      new_Locator (PStr (lit ''video_frame'')) (pdict [(''frame_id'', PStr (fo_frame_id x)), (''timestamp_ms'', PInt (fo_timestamp_ms x))]) =
        Inr (unit_evidence_locator u)) (fa_observations (fi_frames f)) (take (length (fa_observations (fi_frames f))) (batch_units b))"
proof -
  let ?a = "fi_frames f" and ?r = "fi_resource f"
  obtain vs rep frames reps units w expected mm spaces records digest res
    where vs: "vectors_argument vectors = Inr vs"
    and rep: "caption_representation f = Inr rep"
    and frames: "rmap (caption_unit f) (fa_observations ?a) = Inr frames"
    and whole: "(case fi_whole_text_policy f of None \<Rightarrow> Inr ([rep], frames, None)
       | Some policy \<Rightarrow> rbind (whole_captions float_sum f vs metric frames policy) (\<lambda>(whole_rep, whole, w).
           Inr ([rep, whole_rep], frames @ [whole], w))) = Inr (reps, units, w)"
    and vecs: "project_vectors units expected w vs metric (fi_embedding f) mm = Inr (spaces, records)"
    and res: "new_ResourceRecord (PStr (md_resource_id ?r)) (PStr RESOURCE_VIDEO) (PStr (md_media_type ?r))
       (PStr (md_source_namespace ?r)) (Typed (md_locator ?r)) (PStr (lit ''sha256:'' @ digest)) PNone
       (members_object (AList.update (lit ''normalization_fingerprint'') (PStr (fp_value (fa_normalization ?a)))
         (AList.update (lit ''producer_fingerprint'') (PStr (fp_value (fa_producer ?a))) (plain_members (fa_metadata ?a))))) = Inr res"
    and b: "b = \<lparr>batch_resource = res, batch_representations = reps, batch_units = units, batch_spaces = spaces,
      batch_vectors = records, batch_facets = []\<rparr>"
    using assms(2) by (auto simp: build_video_frame_caption_batch_def rbind_eq_Inr Let_def new_PreparedResourceBatch_def
        freeze_typed_sequence_def require_member_def simp del: rmap_eq_Inr split: if_splits intro!: that)
  have wf: "wf_descriptor ?r" "wf_frames ?a" using assms(1) by (simp_all add: wf_frame_input_def)
  have obs: "list_all wf_observation (fa_observations ?a)" "distinct (map fo_frame_id (fa_observations ?a))" "wf_meta (fa_metadata ?a)"
    using wf(2) by (auto simp: wf_frames_def check_observations_def rbind_eq_Inr)
  have "dict_keys_distinct (members_object (AList.update (lit ''normalization_fingerprint'') (PStr (fp_value (fa_normalization ?a)))
      (AList.update (lit ''producer_fingerprint'') (PStr (fp_value (fa_producer ?a))) (plain_members (fa_metadata ?a)))))"
    by (rule members_update_distinct(2) [OF obs(3)]) simp_all
  then have res_ok: "wf_ResourceRecord res" "res_id res = md_resource_id ?r"
    using new_ResourceRecord_wf [OF res] wf(1) res
    by (auto simp: wf_descriptor_def new_ResourceRecord_def rbind_eq_Inr result_simps)
  have "dict_keys_distinct (members_object (AList.update (lit ''normalization_fingerprint'') (PStr (fp_value (fa_normalization ?a)))
      (plain_members (fa_metadata ?a))))"
    by (rule members_update_distinct(1) [OF obs(3), where y = PNone]) simp_all
  note rep_fields = new_representation_fields [OF rep [unfolded caption_representation_def Let_def] this]
  have units_of: "list_all2 (\<lambda>x u. projected_unit (md_resource_id ?r) (rep_id rep) u \<and> unit_id u = fo_frame_id x \<and>
      unit_kind u = UNIT_FRAME \<and> unit_text u = Some (fo_caption x) \<and>
      new_Locator (PStr (lit ''video_frame'')) (pdict [(''frame_id'', PStr (fo_frame_id x)), (''timestamp_ms'', PInt (fo_timestamp_ms x))]) =
        Inr (unit_evidence_locator u)) (fa_observations ?a) frames"
  proof -
    have "list_all2 (\<lambda>x u. caption_unit f x = Inr u) (fa_observations ?a) frames" using frames by (simp add: rmap_eq_Inr)
    then show ?thesis using obs(1)
    proof (induction rule: list_all2_induct)
      case (Cons x xs u us)
      from Cons.prems caption_unit_ok [OF Cons.hyps(1)] Cons.IH show ?case by (simp add: rep_fields(2))
    qed simp
  qed
  then have len: "length frames = length (fa_observations ?a)" by (rule list_all2_lengthD [symmetric])
  have parts: "list_all (projected_unit (md_resource_id ?r) (rep_id rep)) frames"
    using units_of by (auto simp: list_all2_conv_all_nth list_all_length)
  have ids: "map unit_id frames = map fo_frame_id (fa_observations ?a)"
    using units_of by (auto simp: list_all2_conv_all_nth intro: nth_equalityI)
  have shape: "(reps, units) = ([rep], frames) \<and> fi_whole_text_policy f = None \<or>
      (\<exists>policy r u. fi_whole_text_policy f = Some policy \<and> (reps, units) = ([rep, r], frames @ [u]) \<and>
        whole_captions float_sum f vs metric frames policy = Inr (r, u, w))"
    using whole by (cases "fi_whole_text_policy f") (auto simp: rbind_eq_Inr)
  have main: "(validate_prepared_batch (Typed b) = Inr () \<longleftrightarrow> distinct (map rep_id reps) \<and>
      (metric = METRIC_COSINE \<longrightarrow> (\<forall>v \<in> set records. \<not> zero_norm (vec_vector v)))) \<and> distinct (map unit_id units)"
    if ne: "fa_observations ?a \<noteq> []"
  proof -
    have "media_id ID_FRAME (fo_frame_id x)" if "x \<in> set (fa_observations ?a)" for x
      using obs(1) that derived_ids_canonical(5) by (auto simp: list_all_iff wf_observation_def)
    then have frame: "media_id ID_FRAME i" if "i \<in> set (map unit_id frames)" for i
      using that by (auto simp: ids simp del: map_eq_conv)
    have "ID_WHOLE \<noteq> ID_FRAME" by (simp add: ID_WHOLE_def ID_FRAME_def)
    then have apart: "\<not> (media_id ID_WHOLE i \<and> media_id ID_FRAME i)" for i
      using id_kind_unique [of ID_WHOLE i ID_FRAME] by (auto simp: media_id_def)
    have "unit_id u \<notin> set (map unit_id frames)" if "whole_captions float_sum f vs metric frames policy = Inr (r, u, w)" for policy r u
      using whole_captions_ok(3) [OF that obs(1) ne] frame apart by blast
    then have ids_ok: "distinct (map unit_id units)" using shape obs(2) by (auto simp: ids simp del: set_map)
    have whole_ok: "(reps, units) = ([rep], frames) \<or> (\<exists>r u. (reps, units) = ([rep, r], frames @ [u]) \<and>
        projected_rep (res_id res) r \<and> projected_unit (res_id res) (rep_id r) u)"
      using shape whole_captions_ok(1,2) [OF _ obs(1) ne] res_ok(2) by auto
    have "wf_PreparedResourceBatch b \<and> (validate_prepared_batch (Typed b) = Inr () \<longleftrightarrow>
        distinct (map rep_id reps) \<and> distinct (map unit_id units) \<and>
        (metric = METRIC_COSINE \<longrightarrow> (\<forall>v \<in> set records. \<not> zero_norm (vec_vector v))))"
      using rep_fields parts len ne res_ok(2)
      by (intro projected_batch_valid [OF b res_ok(1) _ _ _ whole_ok project_vectors_ok [OF vecs]]) (auto simp: projected_rep_def)
    then show ?thesis using ids_ok by simp
  qed
  have none: "validate_prepared_batch (Typed b) \<noteq> Inr ()" if empty: "fa_observations ?a = []"
  proof (rule no_frames_rejected)
    have "unit_representation_id u = rep_id r" if "whole_captions float_sum f vs metric frames policy = Inr (r, u, w)" for policy r u
      using that by (auto simp: whole_captions_def rbind_eq_Inr Let_def new_SearchUnitRecord_def new_RepresentationRecord_def result_simps
          split: option.splits)
    moreover have "frames = []" using len empty by simp
    ultimately show "batch_units b = [] \<or> (\<exists>r u rep. batch_units b = [u] \<and> unit_representation_id u = rep_id r \<and>
        batch_representations b = [rep, r])" using shape by (auto simp: b)
  qed
  have "take (length (fa_observations ?a)) units = frames"
    "length units = length (fa_observations ?a) + (if fi_whole_text_policy f = None then 0 else 1)"
    using shape len by auto
  moreover have "list_all2 (\<lambda>x u. unit_id u = fo_frame_id x \<and> unit_kind u = UNIT_FRAME \<and> unit_text u = Some (fo_caption x) \<and>
      new_Locator (PStr (lit ''video_frame'')) (pdict [(''frame_id'', PStr (fo_frame_id x)), (''timestamp_ms'', PInt (fo_timestamp_ms x))]) =
        Inr (unit_evidence_locator u)) (fa_observations ?a) frames"
    by (rule list_all2_mono [OF units_of]) simp
  ultimately show ?thesis using main none by (simp add: b) blast
qed

end
