(* ===== verification/Media_Native.thy ===== *)
theory Media_Native
  imports Media_Builders Core_Validation
begin

text \<open>
  \<open>mdrack_media/native.py\<close>: observations that carry a vector of the encoded signal itself, and the batches of
  vector-only units built from them. The property says what a built batch is: a valid graph whose units follow the
  observations one by one, in strictly increasing time order within the requested range.
\<close>

section \<open>Observations and inputs\<close>

definition native_digest :: "pyobj \<Rightarrow> pystr result" where
  "native_digest value =
     (case value of
        PStr s \<Rightarrow> if fingerprint_match s then Inr s else Inl (ValueError ''native_fingerprint_invalid'')
      | _ \<Rightarrow> Inl (ValueError ''native_fingerprint_invalid''))"

text \<open>\<open>type(value) is not int\<close> rejects booleans.\<close>

definition native_integer :: "pyobj \<Rightarrow> int result" where
  "native_integer value =
     (case value of
        PInt i \<Rightarrow> if i < 0 then Inl (ValueError ''native_coordinate_invalid'') else Inr i
      | _ \<Rightarrow> Inl (ValueError ''native_coordinate_invalid''))"

definition is_tuple :: "pyobj \<Rightarrow> bool" where
  "is_tuple value = (case value of PTuple _ \<Rightarrow> True | _ \<Rightarrow> False)"

record NativeFrameObservation =
  nf_timestamp_ms :: int
  nf_input_fingerprint :: pystr
  nf_vector :: pyobj

definition new_NativeFrameObservation :: "pyobj \<Rightarrow> pyobj \<Rightarrow> pyobj \<Rightarrow> NativeFrameObservation result" where
  "new_NativeFrameObservation timestamp_ms input_fingerprint vector =
     rbind (native_integer timestamp_ms) (\<lambda>timestamp_ms.
     rbind (native_digest input_fingerprint) (\<lambda>input_fingerprint.
     rbind (raise_if (\<not> is_tuple vector) (ValueError ''native_vector_invalid'')) (\<lambda>_.
     Inr \<lparr>nf_timestamp_ms = timestamp_ms, nf_input_fingerprint = input_fingerprint, nf_vector = vector\<rparr>)))"

record NativeSegmentObservation =
  ns_start_ms :: int
  ns_end_ms :: int
  ns_input_fingerprint :: pystr
  ns_vector :: pyobj

definition new_NativeSegmentObservation :: "pyobj \<Rightarrow> pyobj \<Rightarrow> pyobj \<Rightarrow> pyobj \<Rightarrow> NativeSegmentObservation result" where
  "new_NativeSegmentObservation start_ms end_ms input_fingerprint vector =
     rbind (native_integer start_ms) (\<lambda>start_ms.
     rbind (native_integer end_ms) (\<lambda>end_ms.
     rbind (native_digest input_fingerprint) (\<lambda>input_fingerprint.
     rbind (raise_if (end_ms \<le> start_ms \<or> \<not> is_tuple vector) (ValueError ''native_segment_invalid'')) (\<lambda>_.
     Inr \<lparr>ns_start_ms = start_ms, ns_end_ms = end_ms, ns_input_fingerprint = input_fingerprint, ns_vector = vector\<rparr>))))"

text \<open>An observation object with its class.\<close>

datatype native_observation =
    FrameObservation NativeFrameObservation
  | AudioObservation NativeSegmentObservation
  | VideoObservation NativeSegmentObservation

record NativeBatchInput =
  ni_resource :: MediaResourceDescriptor
  ni_source_revision :: pystr
  ni_recipe_fingerprint :: pystr
  ni_space :: EmbeddingSpaceRecord
  ni_duration_ms :: int
  ni_start_ms :: int
  ni_end_ms :: int

definition new_NativeBatchInput ::
  "MediaResourceDescriptor anyobj \<Rightarrow> pyobj \<Rightarrow> pyobj \<Rightarrow> EmbeddingSpaceRecord anyobj \<Rightarrow> pyobj \<Rightarrow> pyobj \<Rightarrow> pyobj \<Rightarrow>
   NativeBatchInput result" where
  "new_NativeBatchInput resource source_revision recipe_fingerprint space duration_ms start_ms end_ms =
     rbind (require_instance resource ''native_batch_input_invalid'') (\<lambda>resource.
     rbind (require_instance space ''native_batch_input_invalid'') (\<lambda>space.
     rbind (native_digest source_revision) (\<lambda>source_revision.
     rbind (native_digest recipe_fingerprint) (\<lambda>recipe_fingerprint.
     rbind (native_integer duration_ms) (\<lambda>duration_ms.
     rbind (native_integer start_ms) (\<lambda>start_ms.
     rbind (native_integer end_ms) (\<lambda>end_ms.
     rbind (raise_if (\<not> (0 \<le> start_ms \<and> start_ms < end_ms \<and> end_ms \<le> duration_ms)) (ValueError ''native_range_invalid'')) (\<lambda>_.
     Inr \<lparr>ni_resource = resource, ni_source_revision = source_revision, ni_recipe_fingerprint = recipe_fingerprint,
          ni_space = space, ni_duration_ms = duration_ms, ni_start_ms = start_ms, ni_end_ms = end_ms\<rparr>))))))))"

section \<open>Building a batch\<close>

text \<open>The comparison \<open>coordinate <= previous\<close> of tuples of integers.\<close>

fun tuple_le :: "int list \<Rightarrow> int list \<Rightarrow> bool" where
  "tuple_le [] ys = True"
| "tuple_le (x # xs) [] = False"
| "tuple_le (x # xs) (y # ys) = (x < y \<or> x = y \<and> tuple_le xs ys)"

text \<open>The values of the three dictionaries the kind selects from.\<close>

definition native_kinds :: "(string \<times> string) list" where
  "native_kinds = [(''frames'', ''native_video_frames''), (''audio'', ''native_audio''), (''video'', ''native_video'')]"

definition native_modality :: "string \<Rightarrow> string" where
  "native_modality kind = (if kind = ''frames'' then ''image'' else kind)"

fun is_frame :: "native_observation \<Rightarrow> bool" where
  "is_frame (FrameObservation _) = True"
| "is_frame _ = False"

fun is_audio :: "native_observation \<Rightarrow> bool" where
  "is_audio (AudioObservation _) = True"
| "is_audio _ = False"

fun is_video :: "native_observation \<Rightarrow> bool" where
  "is_video (VideoObservation _) = True"
| "is_video _ = False"

definition kind_matches :: "string \<Rightarrow> native_observation \<Rightarrow> bool" where
  "kind_matches kind observation \<longleftrightarrow>
     \<not> (kind = ''frames'' \<and> \<not> is_frame observation \<or> kind = ''audio'' \<and> \<not> is_audio observation \<or>
        kind = ''video'' \<and> \<not> is_video observation)"

text \<open>Coordinate, identity and locator of one observation.\<close>

definition locate_frame ::
  "NativeBatchInput \<Rightarrow> nat \<Rightarrow> NativeFrameObservation \<Rightarrow> (int list \<times> pystr \<times> Locator) result" where
  "locate_frame v n f =
     rbind (raise_if (\<not> (ni_start_ms v \<le> nf_timestamp_ms f \<and> nf_timestamp_ms f < ni_end_ms v))
       (ValueError ''native_observation_outside_range'')) (\<lambda>_.
     rbind (frame_id (PStr (md_resource_id (ni_resource v))) (PStr (ni_recipe_fingerprint v)) (PInt (int n))
       (PInt (nf_timestamp_ms f))
       (PStr (nf_input_fingerprint f @ ni_source_revision v @ space_fingerprint (ni_space v)))) (\<lambda>uid.
     rbind (new_VideoFrameLocator (PInt (nf_timestamp_ms f)) (PStr uid)) (\<lambda>l.
     rbind (frame_to_core_locator l) (\<lambda>locator.
     Inr ([nf_timestamp_ms f], uid, locator)))))"

definition locate_segment ::
  "NativeBatchInput \<Rightarrow> string \<Rightarrow> pystr \<Rightarrow> NativeSegmentObservation \<Rightarrow> (int list \<times> pystr \<times> Locator) result" where
  "locate_segment v kind repid s =
     rbind (raise_if (\<not> (ni_start_ms v \<le> ns_start_ms s \<and> ns_start_ms s < ns_end_ms s \<and> ns_end_ms s \<le> ni_end_ms v))
       (ValueError ''native_observation_outside_range'')) (\<lambda>_.
     rbind (stable_media_id ID_PASSAGE (PList [PStr (md_resource_id (ni_resource v)), PStr repid, PInt (ns_start_ms s),
       PInt (ns_end_ms s), PStr (ns_input_fingerprint s)])) (\<lambda>uid.
     rbind (new_TimeSegmentLocator (PInt (ns_start_ms s)) (PInt (ns_end_ms s)) (PStr (lit kind))) (\<lambda>l.
     rbind (segment_to_core_locator l) (\<lambda>locator.
     Inr ([ns_start_ms s, ns_end_ms s], uid, locator)))))"

fun observed_fingerprint :: "native_observation \<Rightarrow> pystr" where
  "observed_fingerprint (FrameObservation f) = nf_input_fingerprint f"
| "observed_fingerprint (AudioObservation s) = ns_input_fingerprint s"
| "observed_fingerprint (VideoObservation s) = ns_input_fingerprint s"

fun observed_vector :: "native_observation \<Rightarrow> pyobj" where
  "observed_vector (FrameObservation f) = nf_vector f"
| "observed_vector (AudioObservation s) = ns_vector s"
| "observed_vector (VideoObservation s) = ns_vector s"

fun locate :: "NativeBatchInput \<Rightarrow> string \<Rightarrow> pystr \<Rightarrow> nat \<Rightarrow> native_observation \<Rightarrow> (int list \<times> pystr \<times> Locator) result" where
  "locate v kind repid n (FrameObservation f) = locate_frame v n f"
| "locate v kind repid n (AudioObservation s) = locate_segment v kind repid s"
| "locate v kind repid n (VideoObservation s) = locate_segment v kind repid s"

text \<open>
  The body of the loop: the new value of \<open>previous\<close>, and the unit and the vector to append. An object of another
  class fails the test of the class for each of the three kinds.
\<close>

definition native_step ::
  "NativeBatchInput \<Rightarrow> string \<Rightarrow> string \<Rightarrow> pystr \<Rightarrow> nat \<Rightarrow> int list option \<Rightarrow> native_observation anyobj \<Rightarrow>
   (int list \<times> SearchUnitRecord \<times> VectorRecord) result" where
  "native_step v kind rkind repid n previous observation =
     (case observation of
        Untyped \<Rightarrow> Inl (ValueError ''native_observation_kind_invalid'')
      | Typed obs \<Rightarrow>
          rbind (raise_if (\<not> kind_matches kind obs) (ValueError ''native_observation_kind_invalid'')) (\<lambda>_.
          rbind (locate v kind repid n obs) (\<lambda>(coordinate, uid, locator).
          rbind (raise_if (case previous of None \<Rightarrow> False | Some p \<Rightarrow> tuple_le coordinate p)
            (ValueError ''native_observation_order_invalid'')) (\<lambda>_.
          rbind (new_SearchUnitRecord (PStr uid) (PStr (md_resource_id (ni_resource v))) (PStr repid)
            (PStr (lit (if kind = ''frames'' then ''frame'' else ''time_segment''))) (PStr (lit (native_modality kind))) PNone
            (Typed locator) (PInt (int n)) PNone PNone
            (pdict [(''representation_kind'', PStr (lit rkind)),
              (''input_fingerprint'', PStr (observed_fingerprint obs))])) (\<lambda>unit.
          rbind (new_VectorRecord (PStr uid) (PStr (space_id (ni_space v))) (observed_vector obs)) (\<lambda>vector.
          Inr (coordinate, unit, vector)))))))"

fun native_loop ::
  "NativeBatchInput \<Rightarrow> string \<Rightarrow> string \<Rightarrow> pystr \<Rightarrow> nat \<Rightarrow> int list option \<Rightarrow> native_observation anyobj list \<Rightarrow>
   (SearchUnitRecord list \<times> VectorRecord list) result" where
  "native_loop v kind rkind repid n previous [] = Inr ([], [])"
| "native_loop v kind rkind repid n previous (x # xs) =
     rbind (native_step v kind rkind repid n previous x) (\<lambda>(coordinate, unit, vector).
     rbind (native_loop v kind rkind repid (Suc n) (Some coordinate) xs) (\<lambda>(units, vectors).
     Inr (unit # units, vector # vectors)))"

text \<open>\<open>PySeq\<close> is a tuple here; any other object, a list too, is \<open>PyNotSeq\<close>.\<close>

definition build_native ::
  "NativeBatchInput anyobj \<Rightarrow> native_observation pyseq \<Rightarrow> string \<Rightarrow> PreparedResourceBatch result" where
  "build_native value observations kind =
     (case (value, observations) of
        (Typed v, PySeq (x # xs)) \<Rightarrow>
          let descriptor = ni_resource v; rid = md_resource_id descriptor; recipe = ni_recipe_fingerprint v in
          rbind (raise_if (kind \<in> {''frames'', ''video''} \<and> md_resource_kind descriptor \<noteq> RESOURCE_VIDEO)
            (ValueError ''native_resource_kind_invalid'')) (\<lambda>_.
          rbind (raise_if (kind = ''audio'' \<and> md_resource_kind descriptor \<notin> {RESOURCE_AUDIO, RESOURCE_VIDEO})
            (ValueError ''native_resource_kind_invalid'')) (\<lambda>_.
          rbind (case map_of native_kinds kind of None \<Rightarrow> Inl KeyError | Some k \<Rightarrow> Inr k) (\<lambda>rkind.
          rbind (representation_id (PStr rid) (PStr (lit rkind)) (PStr recipe)
            (PStr (ni_source_revision v @ lit '':'' @ space_fingerprint (ni_space v)))) (\<lambda>repid.
          rbind (new_RepresentationRecord (PStr repid) (PStr rid) (PStr (lit rkind)) (PStr (lit (native_modality kind)))
            PNone PNone (PStr recipe) PNone PNone (pdict [(''recipe_fingerprint'', PStr recipe)])) (\<lambda>rep.
          rbind (native_loop v kind rkind repid 0 None (x # xs)) (\<lambda>(units, vectors).
          rbind (new_ResourceRecord (PStr rid) (PStr (md_resource_kind descriptor)) (PStr (md_media_type descriptor))
            (PStr (md_source_namespace descriptor)) (Typed (md_locator descriptor)) (PStr (ni_source_revision v)) PNone
            (pdict [(''source_revision'', PStr (ni_source_revision v))])) (\<lambda>resource.
          rbind (new_PreparedResourceBatch (Typed resource) (PySeq [Typed rep]) (PySeq (map Typed units))
            (PySeq [Typed (ni_space v)]) (PySeq (map Typed vectors)) (PySeq [])) (\<lambda>batch.
          rbind (validate_prepared_batch (Typed batch)) (\<lambda>_.
          Inr batch)))))))))
      | _ \<Rightarrow> Inl (ValueError ''native_observations_required''))"

definition build_native_frame_batch :: "NativeBatchInput anyobj \<Rightarrow> native_observation pyseq \<Rightarrow> PreparedResourceBatch result" where
  "build_native_frame_batch value observations = build_native value observations ''frames''"

definition build_native_audio_batch :: "NativeBatchInput anyobj \<Rightarrow> native_observation pyseq \<Rightarrow> PreparedResourceBatch result" where
  "build_native_audio_batch value observations = build_native value observations ''audio''"

definition build_native_video_batch :: "NativeBatchInput anyobj \<Rightarrow> native_observation pyseq \<Rightarrow> PreparedResourceBatch result" where
  "build_native_video_batch value observations = build_native value observations ''video''"

section \<open>What a built batch is\<close>

fun coordinate_of :: "native_observation \<Rightarrow> int list" where
  "coordinate_of (FrameObservation f) = [nf_timestamp_ms f]"
| "coordinate_of (AudioObservation s) = [ns_start_ms s, ns_end_ms s]"
| "coordinate_of (VideoObservation s) = [ns_start_ms s, ns_end_ms s]"

fun within_range :: "NativeBatchInput \<Rightarrow> native_observation \<Rightarrow> bool" where
  "within_range v (FrameObservation f) = (ni_start_ms v \<le> nf_timestamp_ms f \<and> nf_timestamp_ms f < ni_end_ms v)"
| "within_range v (AudioObservation s) =
     (ni_start_ms v \<le> ns_start_ms s \<and> ns_start_ms s < ns_end_ms s \<and> ns_end_ms s \<le> ni_end_ms v)"
| "within_range v (VideoObservation s) =
     (ni_start_ms v \<le> ns_start_ms s \<and> ns_start_ms s < ns_end_ms s \<and> ns_end_ms s \<le> ni_end_ms v)"

lemma tuple_le_total: "tuple_le xs ys \<or> tuple_le ys xs"
  by (induction xs ys rule: tuple_le.induct) auto

lemma tuple_le_trans: "tuple_le xs ys \<Longrightarrow> tuple_le ys zs \<Longrightarrow> tuple_le xs zs"
proof (induction xs ys arbitrary: zs rule: tuple_le.induct)
  case (3 x xs y ys)
  then show ?case by (cases zs) auto
qed auto

text \<open>The units and vectors that the loop must have built for a list of observations.\<close>

definition built_from ::
  "NativeBatchInput \<Rightarrow> string \<Rightarrow> pystr \<Rightarrow> nat \<Rightarrow> native_observation \<Rightarrow> SearchUnitRecord \<Rightarrow> VectorRecord \<Rightarrow> bool" where
  "built_from v kind repid n obs u vec \<longleftrightarrow>
     kind_matches kind obs \<and> within_range v obs \<and> unit_ordinal u = int n \<and>
     unit_resource_id u = md_resource_id (ni_resource v) \<and> unit_representation_id u = repid \<and>
     vec_unit_id vec = unit_id u \<and> vec_space_id vec = space_id (ni_space v) \<and>
     freeze_vector (observed_vector obs) ''vector'' = Inr (vec_vector vec) \<and>
     wf_SearchUnitRecord u \<and> wf_VectorRecord vec"

lemma locate_eq_Inr:
  assumes "locate v kind repid n obs = Inr (c, uid, l)"
  shows "c = coordinate_of obs" "within_range v obs" "wf_Locator l"
proof -
  have d: "dict_keys_distinct (pdict [(''end_ms'', PInt a), (''start_ms'', PInt b), (''track'', PStr t)])"
    "dict_keys_distinct (pdict [(''frame_id'', PStr t), (''timestamp_ms'', PInt a)])" for a b t
    by (simp_all add: pdict_distinct)
  show "c = coordinate_of obs" "within_range v obs" "wf_Locator l"
    using assms by (cases obs; auto simp: locate_frame_def locate_segment_def rbind_eq_Inr frame_to_core_locator_def
        segment_to_core_locator_def dest: new_Locator_wf [OF d(1)] new_Locator_wf [OF d(2)])+
qed

lemma native_step_built:
  assumes "native_step v kind rkind repid n previous x = Inr (c, u, vec)"
  obtains obs where "x = Typed obs" "c = coordinate_of obs" "built_from v kind repid n obs u vec"
    "pred_option (\<lambda>p. \<not> tuple_le c p) previous"
proof -
  obtain obs where x: "x = Typed obs" using assms by (cases x) (simp_all add: native_step_def)
  obtain uid l where loc: "locate v kind repid n obs = Inr (c, uid, l)"
    and prev: "pred_option (\<lambda>p. \<not> tuple_le c p) previous" and kind: "kind_matches kind obs"
    and u: "new_SearchUnitRecord (PStr uid) (PStr (md_resource_id (ni_resource v))) (PStr repid)
       (PStr (lit (if kind = ''frames'' then ''frame'' else ''time_segment''))) (PStr (lit (native_modality kind))) PNone
       (Typed l) (PInt (int n)) PNone PNone
       (pdict [(''representation_kind'', PStr (lit rkind)), (''input_fingerprint'', PStr (observed_fingerprint obs))]) = Inr u"
    and vec: "new_VectorRecord (PStr uid) (PStr (space_id (ni_space v))) (observed_vector obs) = Inr vec"
    using assms by (auto simp: x native_step_def rbind_eq_Inr raise_if_eq_Inr split: option.splits)
  have "wf_SearchUnitRecord u"
    using locate_eq_Inr(3) [OF loc] by (intro new_SearchUnitRecord_wf [OF u]) (auto simp: pdict_distinct)
  moreover have "wf_VectorRecord vec" by (rule new_VectorRecord_wf [OF vec])
  moreover have "unit_ordinal u = int n" "unit_resource_id u = md_resource_id (ni_resource v)"
    "unit_representation_id u = repid" "unit_id u = uid"
    using u by (auto simp: new_SearchUnitRecord_def rbind_eq_Inr result_simps)
  moreover have "vec_unit_id vec = uid" "vec_space_id vec = space_id (ni_space v)"
    "freeze_vector (observed_vector obs) ''vector'' = Inr (vec_vector vec)"
    using vec by (auto simp: new_VectorRecord_def rbind_eq_Inr result_simps)
  ultimately have "built_from v kind repid n obs u vec" using kind locate_eq_Inr(2) [OF loc] by (simp add: built_from_def)
  then show thesis using that x locate_eq_Inr(1) [OF loc] prev by blast
qed

lemma native_loop_built:
  assumes "native_loop v kind rkind repid n previous xs = Inr (units, vectors)"
  obtains obs where "xs = map Typed obs" "length units = length obs" "length vectors = length obs"
    "\<forall>i < length obs. built_from v kind repid (n + i) (obs ! i) (units ! i) (vectors ! i)"
    "sorted_wrt (\<lambda>a b. \<not> tuple_le (coordinate_of b) (coordinate_of a)) obs"
    "\<forall>p. previous = Some p \<longrightarrow> (\<forall>x \<in> set obs. \<not> tuple_le (coordinate_of x) p)"
proof -
  have "\<exists>obs. xs = map Typed obs \<and> length units = length obs \<and> length vectors = length obs \<and>
    (\<forall>i < length obs. built_from v kind repid (n + i) (obs ! i) (units ! i) (vectors ! i)) \<and>
    sorted_wrt (\<lambda>a b. \<not> tuple_le (coordinate_of b) (coordinate_of a)) obs \<and>
    (\<forall>p. previous = Some p \<longrightarrow> (\<forall>x \<in> set obs. \<not> tuple_le (coordinate_of x) p))"
    using assms
  proof (induction v kind rkind repid n previous xs arbitrary: units vectors rule: native_loop.induct)
    case (2 v kind rkind repid n previous x xs)
    from "2.prems" obtain c u vec us vs where step: "native_step v kind rkind repid n previous x = Inr (c, u, vec)"
      and rest: "native_loop v kind rkind repid (Suc n) (Some c) xs = Inr (us, vs)"
      and res: "units = u # us" "vectors = vec # vs"
      by (auto simp: rbind_eq_Inr)
    from native_step_built [OF step] obtain o' where hd: "x = Typed o'" "c = coordinate_of o'"
      "built_from v kind repid n o' u vec" "pred_option (\<lambda>p. \<not> tuple_le c p) previous" by blast
    from "2.IH" [OF step refl refl rest] obtain obs where tl: "xs = map Typed obs" "length us = length obs" "length vs = length obs"
      "\<forall>i < length obs. built_from v kind repid (Suc n + i) (obs ! i) (us ! i) (vs ! i)"
      "sorted_wrt (\<lambda>a b. \<not> tuple_le (coordinate_of b) (coordinate_of a)) obs"
      "\<forall>x \<in> set obs. \<not> tuple_le (coordinate_of x) c" by auto
    have "\<not> tuple_le (coordinate_of y) p" if "y \<in> set obs" "previous = Some p" for y p
      using that tl(6) hd(4) tuple_le_total [of c p] tuple_le_trans by (metis option.pred_inject(2))
    moreover have "built_from v kind repid (n + i) ((o' # obs) ! i) (units ! i) (vectors ! i)" if "i < length (o' # obs)" for i
      using that tl(4) hd(3) by (cases i) (auto simp: res)
    ultimately show ?case using hd tl by (intro exI [of _ "o' # obs"]) (auto simp: res)
  qed simp
  then show thesis using that by blast
qed

lemma build_native_parts:
  assumes "build_native (Typed v) (PySeq xs) kind = Inr b"
  obtains rkind repid rep where "xs \<noteq> []" "map_of native_kinds kind = Some rkind"
    "new_RepresentationRecord (PStr repid) (PStr (md_resource_id (ni_resource v))) (PStr (lit rkind))
       (PStr (lit (native_modality kind))) PNone PNone (PStr (ni_recipe_fingerprint v)) PNone PNone
       (pdict [(''recipe_fingerprint'', PStr (ni_recipe_fingerprint v))]) = Inr rep"
    "native_loop v kind rkind repid 0 None xs = Inr (batch_units b, batch_vectors b)"
    "new_ResourceRecord (PStr (md_resource_id (ni_resource v))) (PStr (md_resource_kind (ni_resource v)))
       (PStr (md_media_type (ni_resource v))) (PStr (md_source_namespace (ni_resource v)))
       (Typed (md_locator (ni_resource v))) (PStr (ni_source_revision v)) PNone
       (pdict [(''source_revision'', PStr (ni_source_revision v))]) = Inr (batch_resource b)"
    "batch_representations b = [rep]" "batch_spaces b = [ni_space v]" "batch_facets b = []"
    "validate_prepared_batch (Typed b) = Inr ()"
proof -
  obtain x ys where xs: "xs = x # ys" using assms by (cases xs) (simp_all add: build_native_def)
  have one: "typed_items [Typed r] = Some [r]" for r :: 'a by simp
  from assms show thesis
    by (auto simp: xs build_native_def Let_def rbind_eq_Inr new_PreparedResourceBatch_def freeze_typed_sequence_def
        split: option.splits intro!: that simp del: native_loop.simps)
qed

lemma record_ids:
  "new_ResourceRecord i k m s l c t md = Inr r \<Longrightarrow> i = PStr (res_id r)"
  "new_RepresentationRecord i' r' k m' t' l' p c' ck md = Inr x \<Longrightarrow> i' = PStr (rep_id x)"
  by (auto simp: new_ResourceRecord_def new_RepresentationRecord_def rbind_eq_Inr result_simps)

text \<open>
  C23: a batch built from native observations is a valid graph of the requested resource. Unit \<open>i\<close> and vector \<open>i\<close>
  come from observation \<open>i\<close>, which is of the requested kind and inside the requested range; the vectors belong to
  the requested space; and the observations are in strictly increasing time order.
\<close>

theorem native_batch_valid:
  assumes "wf_descriptor (ni_resource v)" "wf_EmbeddingSpaceRecord (ni_space v)"
    "build_native (Typed v) (PySeq xs) kind = Inr b"
  shows "graph_ok b \<and> res_id (batch_resource b) = md_resource_id (ni_resource v) \<and> batch_spaces b = [ni_space v] \<and>
    (\<exists>obs repid. xs = map Typed obs \<and> map rep_id (batch_representations b) = [repid] \<and>
       length (batch_units b) = length obs \<and> length (batch_vectors b) = length obs \<and>
       (\<forall>i < length obs. built_from v kind repid i (obs ! i) (batch_units b ! i) (batch_vectors b ! i)) \<and>
       sorted_wrt (\<lambda>a b. \<not> tuple_le (coordinate_of b) (coordinate_of a)) obs)"
proof -
  from build_native_parts [OF assms(3)] obtain rkind repid rep where p: "xs \<noteq> []" "map_of native_kinds kind = Some rkind"
    "new_RepresentationRecord (PStr repid) (PStr (md_resource_id (ni_resource v))) (PStr (lit rkind))
       (PStr (lit (native_modality kind))) PNone PNone (PStr (ni_recipe_fingerprint v)) PNone PNone
       (pdict [(''recipe_fingerprint'', PStr (ni_recipe_fingerprint v))]) = Inr rep"
    "native_loop v kind rkind repid 0 None xs = Inr (batch_units b, batch_vectors b)"
    "new_ResourceRecord (PStr (md_resource_id (ni_resource v))) (PStr (md_resource_kind (ni_resource v)))
       (PStr (md_media_type (ni_resource v))) (PStr (md_source_namespace (ni_resource v)))
       (Typed (md_locator (ni_resource v))) (PStr (ni_source_revision v)) PNone
       (pdict [(''source_revision'', PStr (ni_source_revision v))]) = Inr (batch_resource b)"
    "batch_representations b = [rep]" "batch_spaces b = [ni_space v]" "batch_facets b = []"
    "validate_prepared_batch (Typed b) = Inr ()" .
  from native_loop_built [OF p(4)] obtain obs where o: "xs = map Typed obs" "length (batch_units b) = length obs"
    "length (batch_vectors b) = length obs"
    "\<forall>i < length obs. built_from v kind repid i (obs ! i) (batch_units b ! i) (batch_vectors b ! i)"
    "sorted_wrt (\<lambda>a b. \<not> tuple_le (coordinate_of b) (coordinate_of a)) obs" by auto
  have "wf_RepresentationRecord rep" by (rule new_RepresentationRecord_wf [OF p(3)]) (simp add: pdict_distinct)
  moreover have "wf_ResourceRecord (batch_resource b)"
    using assms(1) by (intro new_ResourceRecord_wf [OF p(5)]) (auto simp: pdict_distinct wf_descriptor_def)
  moreover have "list_all wf_SearchUnitRecord (batch_units b)" "list_all wf_VectorRecord (batch_vectors b)"
    using o(2,3,4) by (simp_all add: list_all_length built_from_def)
  ultimately have "wf_PreparedResourceBatch b" using assms(2) p(6,7,8) by (simp add: wf_PreparedResourceBatch_def)
  then have "graph_ok b" using p(9) accepted_iff_graph by blast
  moreover have "res_id (batch_resource b) = md_resource_id (ni_resource v)" "rep_id rep = repid"
    using record_ids(1) [OF p(5)] record_ids(2) [OF p(3)] by simp_all
  ultimately show ?thesis using o p(6,7) by (intro conjI exI [of _ obs] exI [of _ repid]) simp_all
qed

definition example_native :: NativeBatchInput where
  "example_native =
     \<lparr>ni_resource = ti_resource example_input, ni_source_revision = fp_value (example_fp ContentFingerprint),
      ni_recipe_fingerprint = fp_value (example_fp ProducerFingerprint),
      ni_space = \<lparr>space_id = [115], space_dimensions = 1, space_metric = METRIC_DOT, space_fingerprint = [102],
        space_metadata = []\<rparr>,
      ni_duration_ms = 10, ni_start_ms = 0, ni_end_ms = 10\<rparr>"

definition example_observation :: native_observation where
  "example_observation = AudioObservation
     \<lparr>ns_start_ms = 0, ns_end_ms = 5, ns_input_fingerprint = fp_value (example_fp ContentFingerprint),
      ns_vector = PTuple [PFloat (Fin 1)]\<rparr>"

lemma length_json_string: "length (json_string s) \<le> 6 * length s + 2"
proof -
  have "length (escape_char c) \<le> 6" for c by (simp add: escape_char_def lit_def)
  then have "length (concat (map escape_char s)) \<le> 6 * length s" by (induction s) (auto intro: add_mono)
  then show ?thesis by (simp add: json_string_def)
qed

text \<open>A flat mapping of strings and integers fits when its text is short.\<close>

fun flat :: "json \<Rightarrow> bool" where
  "flat (JStr s) = utf8_encodable s"
| "flat (JInt i) = True"
| "flat _ = False"

lemma flat_frozen: "flat j \<Longrightarrow> frozen j \<and> json_height j = 0 \<and> json_items j = 0"
  by (cases j) auto

lemma flat_mapping_frozen:
  assumes "sorted (keys ms)" "distinct (keys ms)" "list_all (\<lambda>(k, j). utf8_encodable k \<and> flat j) ms"
    "length ms \<le> MAX_JSON_ITEMS" "4 * length (canonical_json (JObj ms)) \<le> MAX_JSON_BYTES"
  shows "frozen_mapping ms"
proof -
  have f: "frozen j \<and> json_height j = 0 \<and> json_items j = 0" if "(k, j) \<in> set ms" for k j
    using that assms(3) flat_frozen by (auto simp: list_all_iff)
  then have zero: "sum_list (map (\<lambda>(k, j). json_items j) ms) = 0" by auto
  have "json_items (JObj ms) = length ms" by (simp only: json_items.simps zero add_0_right)
  moreover have "json_height (JObj ms) \<le> 1" using f by (induction ms) fastforce+
  moreover have "frozen (JObj ms)" using assms(1,2,3) f by (auto simp: list_all_iff)
  moreover have "length (utf8_encode (canonical_json (JObj ms))) \<le> MAX_JSON_BYTES"
    using assms(5) length_utf8_encode [of "canonical_json (JObj ms)"] by linarith
  ultimately show ?thesis using assms(4) unfolding frozen_mapping_def fits_def MAX_JSON_DEPTH_def
    by (simp del: json_items.simps json_height.simps frozen.simps canonical_json.simps)
qed

lemma example_strings:
  "length (json_string (fp_value (example_fp cls))) \<le> 428" "utf8_encodable (fp_value (example_fp cls))"
  using length_json_string [of "fp_value (example_fp cls)"] example_fp_wf [of cls] fingerprint_text
  by (auto simp: wf_fp_def fingerprint_match_def)

lemma length_json_lit: "length (json_string (lit s)) \<le> 6 * length s + 2"
  using length_json_string [of "lit s"] by (simp add: lit_def)

lemma example_metadata:
  "freeze_json_mapping (pdict [(''recipe_fingerprint'', PStr (fp_value (example_fp cls)))]) f =
     Inr [(lit ''recipe_fingerprint'', JStr (fp_value (example_fp cls)))]"
  "freeze_json_mapping (pdict [(''source_revision'', PStr (fp_value (example_fp cls)))]) f =
     Inr [(lit ''source_revision'', JStr (fp_value (example_fp cls)))]"
proof -
  have "frozen_mapping [(lit k, JStr (fp_value (example_fp cls)))]" if "length k \<le> 100" for k
    using example_strings [of cls] length_json_lit [of k] that
    by (intro flat_mapping_frozen) (simp_all add: utf8_lit MAX_JSON_ITEMS_def MAX_JSON_BYTES_def)
  from freeze_json_mapping_thaw(2) [OF this, of "''recipe_fingerprint''" f]
    freeze_json_mapping_thaw(2) [OF this, of "''source_revision''" f]
  show "freeze_json_mapping (pdict [(''recipe_fingerprint'', PStr (fp_value (example_fp cls)))]) f =
     Inr [(lit ''recipe_fingerprint'', JStr (fp_value (example_fp cls)))]"
    "freeze_json_mapping (pdict [(''source_revision'', PStr (fp_value (example_fp cls)))]) f =
     Inr [(lit ''source_revision'', JStr (fp_value (example_fp cls)))]" by (simp_all add: pdict_def)
qed

lemma freeze_json_mapping_swap:
  assumes "k \<noteq> l"
  shows "freeze_json_mapping (pdict [(k, v), (l, w)]) f = freeze_json_mapping (pdict [(l, w), (k, v)]) f"
proof -
  have "freeze_json_value (PMap [(PStr (lit k), v), (PStr (lit l), w)]) 0 0 =
      freeze_json_value (PMap [(PStr (lit l), w), (PStr (lit k), v)]) 0 0"
    using assms by (intro freeze_json_value_PMap_mset) simp_all
  then show ?thesis by (simp add: freeze_json_mapping_def pdict_def)
qed

lemma example_unit_metadata:
  "\<exists>ms. freeze_json_mapping (pdict [(''representation_kind'', PStr (lit ''native_audio'')),
       (''input_fingerprint'', PStr (fp_value (example_fp cls)))]) f = Inr ms"
proof -
  let ?ms = "[(lit ''input_fingerprint'', JStr (fp_value (example_fp cls))), (lit ''representation_kind'', JStr (lit ''native_audio''))]"
  have "lit ''input_fingerprint'' \<le> lit ''representation_kind''" by (simp add: lit_def)
  then have "frozen_mapping ?ms"
    using example_strings [of cls] length_json_lit [of "''input_fingerprint''"] length_json_lit [of "''representation_kind''"]
      length_json_lit [of "''native_audio''"]
    by (intro flat_mapping_frozen) (simp_all add: utf8_lit MAX_JSON_ITEMS_def MAX_JSON_BYTES_def)
  from freeze_json_mapping_thaw(2) [OF this, of f]
  have "freeze_json_mapping (pdict [(''input_fingerprint'', PStr (fp_value (example_fp cls))),
      (''representation_kind'', PStr (lit ''native_audio''))]) f = Inr ?ms" by (simp add: pdict_def)
  then show ?thesis using freeze_json_mapping_swap by auto
qed

lemma example_locator:
  "\<exists>l. rbind (new_TimeSegmentLocator (PInt 0) (PInt 5) (PStr (lit ''audio''))) segment_to_core_locator = Inr l"
proof -
  let ?ms = "[(lit ''end_ms'', JInt 5), (lit ''start_ms'', JInt 0), (lit ''track'', JStr (lit ''audio''))]"
  have "lit ''end_ms'' \<le> lit ''start_ms''" "lit ''start_ms'' \<le> lit ''track''" "lit ''end_ms'' \<le> lit ''track''"
    by (simp_all add: lit_def)
  moreover have "length (int_repr 5) = 1" "length (int_repr 0) = 1" by (simp_all add: int_repr_def nat_digits.simps)
  ultimately have "frozen_mapping ?ms"
    using length_json_lit [of "''end_ms''"] length_json_lit [of "''start_ms''"] length_json_lit [of "''track''"]
      length_json_lit [of "''audio''"]
    by (intro flat_mapping_frozen) (simp_all add: utf8_lit MAX_JSON_ITEMS_def MAX_JSON_BYTES_def)
  from freeze_json_mapping_thaw(2) [OF this, of "''payload''"]
  have "freeze_json_mapping (pdict [(''end_ms'', PInt 5), (''start_ms'', PInt 0), (''track'', PStr (lit ''audio''))]) ''payload'' =
      Inr ?ms" by (simp add: pdict_def)
  moreover have "wf_name (lit ''audio'')" "wf_name LOCATOR_TIME_SEGMENT"
    by (simp_all add: wf_name_text LOCATOR_TIME_SEGMENT_def utf8_lit) (simp_all add: lit_def blank_iff py_isspace_def)
  ultimately show ?thesis
    by (simp add: new_TimeSegmentLocator_def segment_to_core_locator_def new_Locator_def field_ok TRACKS_def TRACK_AUDIO_def
        name_again)
qed

lemma example_native_wf: "wf_descriptor (ni_resource example_native)" "wf_EmbeddingSpaceRecord (ni_space example_native)"
proof -
  show "wf_descriptor (ni_resource example_native)"
    using example_input_wf by (simp add: example_native_def wf_transcript_input_def)
  show "wf_EmbeddingSpaceRecord (ni_space example_native)"
    by (simp add: example_native_def wf_EmbeddingSpaceRecord_def METRICS_def empty_mapping_frozen wf_name_text
        blank_iff py_isspace_def utf8_encodable_def surrogate_def METRIC_DOT_def)
qed

lemma example_fp_name: "wf_name (fp_value (example_fp cls))"
  using example_fp_wf [of cls] fingerprint_text by (auto simp: wf_fp_def wf_name_text)

lemma native_names: "wf_name (lit ''native_audio'')" "wf_name (lit ''audio'')" "wf_name (lit ''time_segment'')"
  "wf_name [115]" "wf_name [97]" "wf_name [110]"
  by (simp_all add: wf_name_text lit_def blank_iff py_isspace_def utf8_encodable_def surrogate_def)

lemma example_ids_exist:
  "\<exists>r. representation_id (PStr example_rid) (PStr (lit ''native_audio'')) (PStr (fp_value (example_fp ProducerFingerprint)))
     (PStr (fp_value (example_fp ContentFingerprint) @ lit '':'' @ [102])) = Inr r"
  "wf_name r \<Longrightarrow> \<exists>u. stable_media_id ID_PASSAGE (PList [PStr example_rid, PStr r, PInt 0, PInt 5,
     PStr (fp_value (example_fp ContentFingerprint))]) = Inr u"
proof -
  have "wf_name (fp_value (example_fp ContentFingerprint) @ lit '':'' @ [102])"
    using example_fp_name [of ContentFingerprint]
    by (auto simp: wf_name_text blank_iff lit_def py_isspace_def utf8_encodable_def surrogate_def)
  then show "\<exists>r. representation_id (PStr example_rid) (PStr (lit ''native_audio'')) (PStr (fp_value (example_fp ProducerFingerprint)))
     (PStr (fp_value (example_fp ContentFingerprint) @ lit '':'' @ [102])) = Inr r"
    by (intro representation_id_total example_rid_media example_fp_name native_names)
  show "\<exists>u. stable_media_id ID_PASSAGE (PList [PStr example_rid, PStr r, PInt 0, PInt 5,
     PStr (fp_value (example_fp ContentFingerprint))]) = Inr u" if "wf_name r"
    using that example_fp_name [of ContentFingerprint] media_id_name(2) [OF example_rid_media]
      stable_media_id_scalar [of "[PStr example_rid, PStr r, PInt 0, PInt 5, PStr (fp_value (example_fp ContentFingerprint))]"
        ID_PASSAGE]
    by (auto simp: wf_name_text ID_KINDS_def)
qed

lemma example_step:
  assumes "wf_name repid"
  shows "\<exists>c u vec. native_step example_native ''audio'' ''native_audio'' repid 0 None (Typed example_observation) =
    Inr (c, u, vec) \<and> vec_vector vec = [Fin 1] \<and> unit_modality u = lit ''audio''"
proof -
  obtain uid where uid: "stable_media_id ID_PASSAGE (PList [PStr example_rid, PStr repid, PInt 0, PInt 5,
      PStr (fp_value (example_fp ContentFingerprint))]) = Inr uid" using example_ids_exist(2) [OF assms] by blast
  then have name: "wf_name uid" using stable_media_id_canonical media_id_name unfolding wf_name_text by blast
  obtain l where l: "rbind (new_TimeSegmentLocator (PInt 0) (PInt 5) (PStr (lit ''audio''))) segment_to_core_locator = Inr l"
    using example_locator by blast
  then have loc: "locate example_native ''audio'' repid 0 example_observation = Inr ([0, 5], uid, l)"
    by (auto simp: locate_segment_def example_observation_def example_native_def example_input_def uid rbind_eq_Inr)
  obtain ms where "freeze_json_mapping (pdict [(''representation_kind'', PStr (lit ''native_audio'')),
      (''input_fingerprint'', PStr (fp_value (example_fp ContentFingerprint)))]) ''metadata'' = Inr ms"
    using example_unit_metadata by blast
  moreover have "freeze_vector (PTuple [PFloat (Fin 1)]) ''vector'' = Inr [Fin 1]"
    using freeze_vector_again [of "[Fin 1]"] by (simp add: wf_vector_def)
  moreover have "wf_name example_rid" using media_id_name [OF example_rid_media] by (simp add: wf_name_text)
  ultimately show ?thesis using assms name native_names
    by (simp add: native_step_def loc)
      (simp add: example_observation_def example_native_def example_input_def kind_matches_def native_modality_def
        new_SearchUnitRecord_def new_VectorRecord_def name_again require_optional_utf8_def validate_token_count_def
        require_integer_def)
qed

lemma example_build: "\<exists>b. build_native (Typed example_native) (PySeq [Typed example_observation]) ''audio'' = Inr b"
proof -
  obtain repid where repid: "representation_id (PStr example_rid) (PStr (lit ''native_audio''))
      (PStr (fp_value (example_fp ProducerFingerprint))) (PStr (fp_value (example_fp ContentFingerprint) @ lit '':'' @ [102])) =
      Inr repid" using example_ids_exist(1) by blast
  then have "wf_name repid" using derived_ids_canonical(2) media_id_name unfolding wf_name_text by blast
  from example_step [OF this] obtain c u vec where
    step: "native_step example_native ''audio'' ''native_audio'' repid 0 None (Typed example_observation) = Inr (c, u, vec)"
    and vec: "vec_vector vec = [Fin 1]" "unit_modality u = lit ''audio''" by blast
  from native_step_built [OF step] have built: "built_from example_native ''audio'' repid 0 example_observation u vec" by auto
  have "wf_name example_rid" using media_id_name [OF example_rid_media] by (simp add: wf_name_text)
  then obtain rep where rep: "new_RepresentationRecord (PStr repid) (PStr example_rid) (PStr (lit ''native_audio''))
      (PStr (lit ''audio'')) PNone PNone (PStr (fp_value (example_fp ProducerFingerprint))) PNone PNone
      (pdict [(''recipe_fingerprint'', PStr (fp_value (example_fp ProducerFingerprint)))]) = Inr rep"
    "rep_id rep = repid" "rep_resource_id rep = example_rid" "rep_modality rep = lit ''audio''"
    using \<open>wf_name repid\<close> native_names example_fp_name
    by (simp add: new_RepresentationRecord_def name_again require_optional_utf8_def require_optional_non_empty_def
        validate_token_count_def example_metadata)
  obtain res where res: "new_ResourceRecord (PStr example_rid) (PStr RESOURCE_AUDIO) (PStr [97]) (PStr [110])
      (Typed \<lparr>loc_kind = [107], loc_payload = []\<rparr>) (PStr (fp_value (example_fp ContentFingerprint))) PNone
      (pdict [(''source_revision'', PStr (fp_value (example_fp ContentFingerprint)))]) = Inr res" "res_id res = example_rid"
    using \<open>wf_name example_rid\<close> native_names example_fp_name
    by (simp add: new_ResourceRecord_def name_again require_optional_utf8_def require_optional_non_empty_def
        example_metadata RESOURCE_AUDIO_def)
  let ?b = "\<lparr>batch_resource = res, batch_representations = [rep], batch_units = [u], batch_spaces = [ni_space example_native],
    batch_vectors = [vec], batch_facets = []\<rparr>"
  have "wf_PreparedResourceBatch ?b"
    using built example_native_wf new_RepresentationRecord_wf [OF rep(1)] new_ResourceRecord_wf [OF res(1)]
    by (simp add: wf_PreparedResourceBatch_def built_from_def pdict_distinct wf_descriptor_def example_native_def
        example_input_def)
  moreover have "graph_ok ?b"
    using built vec rep(2,3,4) res(2)
    by (simp add: graph_ok_def built_from_def zero_norm_def example_native_def example_input_def METRIC_DOT_def METRIC_COSINE_def)
  ultimately have "validate_prepared_batch (Typed ?b) = Inr ()" using accepted_iff_graph by blast
  then have "build_native (Typed example_native) (PySeq [Typed example_observation]) ''audio'' = Inr ?b"
    using step rep(1) res(1) repid
    by (simp add: build_native_def native_kinds_def native_modality_def new_PreparedResourceBatch_def
        freeze_typed_sequence_def Let_def) (simp add: example_native_def example_input_def)
  then show ?thesis by blast
qed

theorem native_batch_valid_witness:
  "\<exists>b. build_native (Typed example_native) (PySeq [Typed example_observation]) ''audio'' = Inr b \<and> graph_ok b \<and>
     length (batch_units b) = 1"
proof -
  obtain b where b: "build_native (Typed example_native) (PySeq [Typed example_observation]) ''audio'' = Inr b"
    using example_build by blast
  with native_batch_valid [OF example_native_wf b] show ?thesis by auto
qed

end
