(* ===== verification/Media_Grouping.thy ===== *)
theory Media_Grouping
  imports Media_Grouper
begin

text \<open>
  What \<open>group_timed_atoms\<close> guarantees: its result is a tiling of the atoms, its flags tell the truth about the
  hard limits, its assertions never fire, and it always returns a result or one stable error.
\<close>

section \<open>Runs that return\<close>

lemma group_timed_atoms_run:
  assumes "group_timed_atoms atoms policy tc kind rid nf u = Inr r"
  obtains pol ctr ctx where "policy = Typed pol" "tc = Typed ctr" "atoms = PySeq (map Typed (gr_atoms r))"
    "gc_policy ctx = pol" "gc_counter ctx = ctr" "u = PStr (gc_unsplittable ctx)"
    "distinct (map ta_atom_id (gr_atoms r))" "tiling ctx (gr_atoms r) 0 0 (gr_passages r)"
    "build_metrics (gr_atoms r) (gr_passages r) = Inr (gr_metrics r)"
proof -
  obtain pol us k ctr items rid' vs payload g repid ps where
    typed: "policy = Typed pol" "tc = Typed ctr" "atoms = PySeq items" "u = PStr us" and
    vs: "validate_atoms items rid = Inr (rid', vs)" and
    run: "let ctx = \<lparr>gc_policy = pol, gc_counter = ctr, gc_kind = k, gc_unsplittable = us, gc_resource = rid',
        gc_grouper = g, gc_representation = repid\<rparr>
      in group_loop ctx vs 0 [] = Inr ps \<and> finish_grouping ctx vs payload ps = Inr r"
    using assms
    by (auto simp: group_timed_atoms_def rbind_eq_Inr require_typed_def require_choice_def Let_def
        split: anyobj.splits pyseq.splits pyobj.splits if_splits)
  define ctx where "ctx = \<lparr>gc_policy = pol, gc_counter = ctr, gc_kind = k, gc_unsplittable = us, gc_resource = rid',
        gc_grouper = g, gc_representation = repid\<rparr>"
  have ctx: "gc_policy ctx = pol" "gc_counter ctx = ctr" "gc_unsplittable ctx = us" by (simp_all add: ctx_def)
  have loop: "group_loop ctx vs 0 [] = Inr ps" and fin: "finish_grouping ctx vs payload ps = Inr r"
    using run by (simp_all add: Let_def ctx_def)
  obtain m where m: "build_metrics vs ps = Inr m" "gr_atoms r = vs" "gr_passages r = ps" "gr_metrics r = m"
    using fin by (auto simp: finish_grouping_def rbind_eq_Inr new_TimedGroupingResult_def)
  have "tiling ctx vs 0 0 ps" using group_loop_tiling [OF loop] by simp
  then show thesis using typed ctx m validate_atoms_eq_Inr(1,2) [OF vs] by (intro that) simp_all
qed

section \<open>Every run returns\<close>

text \<open>What the grouper needs of an atom, a part of the class invariant.\<close>

definition usable_atom :: "TimedTextAtom \<Rightarrow> bool" where
  "usable_atom a \<longleftrightarrow> media_id ID_ATOM (ta_atom_id a) \<and> 0 \<le> ta_start_ms a \<and> ta_start_ms a < ta_end_ms a \<and>
     wf_name (ta_text a) \<and> wf_fp NormalizationFingerprint (ta_normalization a)"

lemma wf_atom_usable: "wf_atom a \<Longrightarrow> usable_atom a"
  using derived_ids_canonical(3) by (auto simp: wf_atom_def usable_atom_def)

text \<open>A counter that keeps its protocol: a non-negative integer for every text.\<close>

definition counts :: "TokenCounter \<Rightarrow> bool" where
  "counts tc \<longleftrightarrow> (\<forall>txt. \<exists>n. tc_count tc txt = Inr (PInt n) \<and> 0 \<le> n)"

lemma counts_total: "counts tc \<Longrightarrow> \<exists>n. count_tokens tc txt = Inr n \<and> 0 \<le> n"
  by (auto simp: counts_def count_tokens_def dest!: spec [of _ "txt"])

lemma append_text_total:
  assumes "wf_name v" "wf_name (ta_text a)"
  shows "\<exists>v'. append_text a v = Inr v' \<and> wf_name v'"
proof -
  have "v \<noteq> []" "ta_text a \<noteq> []" using assms by (auto simp: wf_name_text blank_iff)
  moreover have "wf_name (v @ w)" if "utf8_encodable w" for w
    using assms that by (simp add: wf_name_text blank_append utf8_encodable_def)
  moreover have "utf8_encodable (32 # ta_text a)" "utf8_encodable (ta_text a)"
    using assms by (simp_all add: wf_name_text utf8_encodable_def surrogate_def)
  ultimately show ?thesis by (auto simp: append_text_def last_char_def first_char_def)
qed

lemma append_texts_total:
  "wf_name v \<Longrightarrow> \<forall>a \<in> set as. wf_name (ta_text a) \<Longrightarrow> \<exists>v'. rfold append_text as v = Inr v' \<and> wf_name v'"
proof (induction as arbitrary: v)
  case (Cons a as)
  from append_text_total [OF Cons.prems(1), of a] Cons.prems(2) obtain w where "append_text a v = Inr w" "wf_name w" by auto
  then show ?case using Cons by simp
qed simp

lemma join_total:
  "as \<noteq> [] \<Longrightarrow> \<forall>a \<in> set as. wf_name (ta_text a) \<Longrightarrow> \<exists>v. join_atom_texts as = Inr v \<and> wf_name v"
  by (cases as) (auto simp: join_atom_texts_def intro: append_texts_total)

lemma set_atom_span: "set (atom_span vs s e) \<subseteq> set vs"
  by (auto simp: atom_span_def dest: in_set_dropD in_set_takeD)

lemma span_text_total:
  assumes "list_all usable_atom vs" "s \<le> e" "e < length vs"
  shows "\<exists>v. join_atom_texts (atom_span vs s e) = Inr v \<and> wf_name v"
  using join_total [OF span_not_Nil [OF assms(2,3)]] assms(1) set_atom_span [of vs s e]
  by (auto simp: list_all_iff usable_atom_def)

lemma candidate_total:
  assumes "list_all usable_atom vs" "counts tc" "s \<le> e" "e < length vs"
  shows "\<exists>c. candidate vs s e t pol tc risk = Inr c"
proof -
  obtain v where v: "join_atom_texts (atom_span vs s e) = Inr v" using span_text_total [OF assms(1,3,4)] by blast
  obtain n where n: "count_tokens tc v = Inr n" using counts_total [OF assms(2)] by blast
  have "wf_name (ta_text (vs ! e))" using assms(1,4) by (simp add: list_all_length usable_atom_def)
  then have "rstrip (ta_text (vs ! e)) \<noteq> []" using rstrip_last(1) by (simp add: wf_name_text)
  then show ?thesis using v n by (auto simp: candidate_def atom_span_def boundary_score_def last_char_def Let_def)
qed

lemma next_total:
  assumes "list_all usable_atom vs" "counts tc" "s \<le> e" "e < length vs"
  shows "\<exists>b. next_would_exceed_hard_limit vs s e t pol tc = Inr b"
proof (cases "e + 1 < length vs")
  case True
  obtain v where v: "join_atom_texts (atom_span vs s (e + 1)) = Inr v"
    using span_text_total [of vs s "e + 1"] assms True by auto
  moreover obtain n where "count_tokens tc v = Inr n" using counts_total [OF assms(2)] by blast
  ultimately show ?thesis by (auto simp: next_would_exceed_hard_limit_def atom_span_def Let_def numeral_2_eq_2)
qed (auto simp: next_would_exceed_hard_limit_def)

lemma select_total: "cs \<noteq> [] \<Longrightarrow> \<exists>sel. select_candidate cs r = Inr sel"
  by (cases cs) (auto simp: select_candidate_def)

lemma window_step_total:
  assumes "list_all usable_atom vs" "counts tc" "s \<le> e" "e < length vs"
  shows "\<exists>r. window_step vs s pol tc e t cur cs = Inr r"
proof -
  obtain risk where risk: "next_would_exceed_hard_limit vs s e t pol tc = Inr risk" using next_total [OF assms] by blast
  obtain c where "candidate vs s e t pol tc risk = Inr c" using candidate_total [OF assms] by blast
  moreover obtain a b d where "select_candidate (cs @ [c]) ''hard_limit'' = Inr a"
    "select_candidate (cs @ [c]) ''soft_max'' = Inr b" "select_candidate (cs @ [c]) ''end_of_input'' = Inr d"
    using select_total [of "cs @ [c]"] by blast
  ultimately show ?thesis using risk by (simp add: window_step_def Let_def)
qed

lemma boost_total:
  assumes "list_all usable_atom vs" "counts tc" "cs \<noteq> []" "\<forall>c \<in> set cs. covers vs s tc c"
  shows "\<exists>sel. boost_last vs s pol tc cs = Inr sel"
proof -
  have "covers vs s tc (last cs)" using assms(3,4) by simp
  then have "s \<le> bc_end_index (last cs)" "bc_end_index (last cs) < length vs" by (simp_all add: covers_def)
  from candidate_total [OF assms(1,2) this]
  obtain b where "candidate vs s (bc_end_index (last cs)) (bc_end_ms (last cs)) pol tc True = Inr b" by blast
  then show ?thesis using select_total by (auto simp: boost_last_def)
qed

text \<open>The search ends at the last atom at the latest; only the rejecting policy raises.\<close>

lemma boundary_loop_total:
  assumes "list_all usable_atom vs" "counts tc" "s \<le> k" "k < length vs"
    "max t (ta_end_ms (vs ! k)) = span_end vs s k" "\<forall>c \<in> set cs. covers vs s tc c \<and> within_hard vs s pol c"
  shows "(\<exists>sel. boundary_loop vs s pol tc u [k..<length vs] t cs ex = Inr sel) \<or>
    u = UNSPLITTABLE_REJECT \<and>
    boundary_loop vs s pol tc u [k..<length vs] t cs ex = Inl (TimedGroupingError ''unsplittable_hard_limit'')"
  using assms(3-6)
proof (induction "length vs - k" arbitrary: k t cs ex)
  case 0
  then show ?case by simp
next
  case (Suc n)
  let ?e = "span_end vs s k"
  have k: "n = length vs - Suc k" using Suc.hyps(2) by simp
  have upt: "[k..<length vs] = k # [Suc k..<length vs]" using Suc.prems(2) by (rule upt_conv_Cons)
  have e': "Suc k < length vs \<Longrightarrow> max ?e (ta_end_ms (vs ! Suc k)) = span_end vs s (Suc k)"
    using span_end_Suc [OF Suc.prems(1)] by simp
  obtain cur where cur: "candidate vs s k ?e pol tc False = Inr cur"
    using candidate_total [OF assms(1,2) Suc.prems(1,2)] by blast
  have hard: "within_hard vs s pol cur \<longleftrightarrow>
      \<not> (hard_max_tokens pol < bc_token_count cur \<or> hard_max_duration_ms pol < ?e - ta_start_ms (vs ! s))"
    using candidate_eq_Inr(2) [OF cur] by (auto simp: within_hard_def)
  have safe: "safe_at vs s k \<longleftrightarrow> length vs \<le> k + 1 \<or> ?e \<le> ta_start_ms (vs ! (k + 1))" by (simp add: safe_at_def)
  have unfold: "boundary_loop vs s pol tc u [k..<length vs] t cs ex =
      (if \<not> within_hard vs s pol cur then
         if cs \<noteq> [] then boost_last vs s pol tc cs
         else if \<not> safe_at vs s k then boundary_loop vs s pol tc u [Suc k..<length vs] ?e cs True
         else if u = UNSPLITTABLE_REJECT then Inl (TimedGroupingError ''unsplittable_hard_limit'')
         else Inr \<lparr>sb_candidate = cur, sb_reason = ''unsplittable'', sb_hard_limit_exceeded = True, sb_unsplittable = True\<rparr>
       else if \<not> safe_at vs s k then boundary_loop vs s pol tc u [Suc k..<length vs] ?e cs ex
       else rbind (window_step vs s pol tc k ?e cur cs) (\<lambda>r. case r of Inl sel \<Rightarrow> Inr sel
         | Inr cs' \<Rightarrow> boundary_loop vs s pol tc u [Suc k..<length vs] ?e cs' ex))"
    unfolding upt boundary_loop.simps Suc.prems(3) Let_def cur rbind_Inr hard safe by simp
  note IH = Suc.hyps(1) [OF k _ _ e']
  show ?case
  proof (cases "within_hard vs s pol cur \<and> safe_at vs s k")
    case True
    obtain r where r: "window_step vs s pol tc k ?e cur cs = Inr r"
      using window_step_total [OF assms(1,2) Suc.prems(1,2)] by blast
    note step = window_step_ok [OF r Suc.prems(1,2) _ cur _ Suc.prems(4)]
    show ?thesis
    proof (cases r)
      case (Inr cs')
      then show ?thesis using True r step IH [of cs' ex] Suc.prems(1) unfolding unfold by simp
    qed (use True r unfold in simp)
  next
    case False
    have later: "\<not> safe_at vs s k \<Longrightarrow> Suc k < length vs" by (auto simp: safe_at_def)
    show ?thesis
      using False boost_total [OF assms(1,2), of cs s pol] Suc.prems(1,4) later IH [of cs True] IH [of cs ex]
      unfolding unfold by auto
  qed
qed

lemma find_boundary_total:
  assumes "list_all usable_atom vs" "counts tc" "s < length vs"
  shows "(\<exists>sel. find_boundary vs s pol tc u = Inr sel) \<or>
    u = UNSPLITTABLE_REJECT \<and> find_boundary vs s pol tc u = Inl (TimedGroupingError ''unsplittable_hard_limit'')"
  unfolding find_boundary_def
  by (rule boundary_loop_total [OF assms(1,2)]) (simp_all add: span_end_self assms(3))

lemma text_digest_name: "wf_name (lit ''sha256:'' @ hexdigest m)"
proof -
  have "fingerprint_match (lit ''sha256:'' @ hexdigest m)" by (simp add: fingerprint_match_def lit_def hexdigest_hex)
  then show ?thesis using fingerprint_text by (simp add: wf_name_text)
qed

lemma wf_fp_name: "wf_fp cls fp \<Longrightarrow> wf_name (fp_value fp)"
  using fingerprint_text by (simp add: wf_fp_def wf_name_text)

lemma passage_id_total:
  assumes "media_id ID_RESOURCE rid" "wf_name g" "0 \<le> n" "media_id ID_ATOM a" "media_id ID_ATOM b" "0 \<le> s" "0 \<le> e" "wf_name d"
  shows "\<exists>pid. passage_id (PStr rid) (PStr g) (PInt n) (PStr a) (PStr b) (PInt s) (PInt e) (PStr d) = Inr pid"
proof -
  have "list_all scalar_part [PStr rid, PStr g, PInt n, PStr a, PStr b, PInt s, PInt e, PStr d]"
    using assms media_id_name(2) by (auto simp: wf_name_text)
  moreover have "ID_PASSAGE \<in> set ID_KINDS" by (simp add: ID_KINDS_def)
  ultimately show ?thesis using assms stable_media_id_scalar by (simp add: passage_id_def field_ok)
qed

definition wf_context :: "grouping_context \<Rightarrow> bool" where
  "wf_context ctx \<longleftrightarrow>
     media_id ID_RESOURCE (gc_resource ctx) \<and> media_id ID_REPRESENTATION (gc_representation ctx) \<and>
     wf_fp GrouperFingerprint (gc_grouper ctx) \<and> gc_kind ctx \<in> set TOKEN_COUNT_KINDS \<and> counts (gc_counter ctx) \<and>
     (\<exists>fp. tc_fingerprint (gc_counter ctx) = Typed fp \<and> wf_fp TokenCounterFingerprint fp)"

lemma span_end_ge: "s \<le> e \<Longrightarrow> e < length vs \<Longrightarrow> ta_end_ms (vs ! s) \<le> span_end vs s e"
  unfolding span_end_def by (rule Max_ge) (auto simp: span_hd [symmetric] span_not_Nil)

lemma build_passage_total:
  assumes "wf_context ctx" "list_all usable_atom vs" "distinct (map ta_atom_id vs)" "s < length vs"
    "find_boundary vs s (gc_policy ctx) (gc_counter ctx) (gc_unsplittable ctx) = Inr sel"
  shows "\<exists>p. build_passage ctx vs s n sel = Inr p"
proof -
  let ?c = "sb_candidate sel"
  let ?e = "bc_end_index ?c"
  have c: "covers vs s (gc_counter ctx) ?c" using find_boundary_ok [OF assms(5,4)] by simp
  then have e: "s \<le> ?e" "?e < length vs" "bc_end_ms ?c = span_end vs s ?e" by (simp_all add: covers_def)
  have atom: "usable_atom (vs ! i)" if "i < length vs" for i using assms(2) that by (simp add: list_all_length)
  have name: "wf_name (bc_text ?c)" using span_text_total [OF assms(2) e(1,2)] c by (auto simp: covers_def)
  have start: "0 \<le> ta_start_ms (vs ! s)" "ta_start_ms (vs ! s) < bc_end_ms ?c"
    using atom [OF assms(4)] span_end_ge [OF e(1,2)] e(3) by (simp_all add: usable_atom_def)
  have ids: "media_id ID_ATOM (ta_atom_id (hd (atom_span vs s ?e)))" "media_id ID_ATOM (ta_atom_id (last (atom_span vs s ?e)))"
    using span_hd [OF e(1,2)] span_last [OF e(1,2)] atom e(1,2) by (simp_all add: usable_atom_def)
  obtain pid where pid: "passage_id (PStr (gc_resource ctx)) (PStr (fp_value (gc_grouper ctx))) (PInt (int n))
      (PStr (ta_atom_id (hd (atom_span vs s ?e)))) (PStr (ta_atom_id (last (atom_span vs s ?e))))
      (PInt (ta_start_ms (vs ! s))) (PInt (bc_end_ms ?c)) (PStr (lit ''sha256:'' @ hexdigest (utf8_encode (bc_text ?c)))) = Inr pid"
    using passage_id_total [OF _ _ _ ids _ _ text_digest_name] assms(1) start wf_fp_name by (force simp: wf_context_def)
  have k: "count_tokens (gc_counter ctx) (bc_text ?c) = Inr (bc_token_count ?c)" "0 \<le> bc_token_count ?c"
    using c counts_total [of "gc_counter ctx" "bc_text ?c"] assms(1) by (auto simp: covers_def wf_context_def)
  obtain fp where fp: "tc_fingerprint (gc_counter ctx) = Typed fp" "wf_fp TokenCounterFingerprint fp"
    using assms(1) by (auto simp: wf_context_def)
  have tok: "new_TokenCount (PInt (bc_token_count ?c)) (PStr (gc_kind ctx)) (tc_fingerprint (gc_counter ctx)) =
      Inr \<lparr>tok_count = bc_token_count ?c, tok_kind = gc_kind ctx, tok_counter_fingerprint = fp\<rparr>"
    using assms(1) k(2) fp by (simp add: new_TokenCount_def field_ok require_member_def wf_context_def)
  have src: "source_items (PTuple (map (\<lambda>a. PStr (ta_atom_id a)) (atom_span vs s ?e))) =
      Inr (map (\<lambda>a. PStr (ta_atom_id a)) (atom_span vs s ?e))"
    using span_not_Nil [OF e(1,2)] by (simp add: source_items_def)
  have valid: "rmap (\<lambda>x. validate_media_id x f (Some ID_ATOM)) (map (\<lambda>a. PStr (ta_atom_id a)) (atom_span vs s ?e)) =
      Inr (map ta_atom_id (atom_span vs s ?e))" for f
    using assms(2) set_atom_span [of vs s ?e]
    by (auto simp: validate_ids_eq_Inr list_all_iff usable_atom_def)
  have "distinct (map ta_atom_id (atom_span vs s ?e))"
    using assms(3) unfolding atom_span_def by (simp add: drop_map [symmetric] take_map [symmetric])
  moreover have "media_id ID_PASSAGE pid" using pid derived_ids_canonical(4) by blast
  moreover have "utf8_encodable (bc_text ?c)" using name by (simp add: wf_name_text)
  ultimately show ?thesis
    unfolding build_passage_def Let_def atom_span_def [symmetric]
    using assms(1) name start pid tok src valid span_hd [OF e(1,2)]
    by (simp add: new_TimedPassage_def field_ok passage_metadata wf_context_def)
qed

lemma group_loop_total:
  assumes "wf_context ctx" "list_all usable_atom vs" "distinct (map ta_atom_id vs)"
  shows "(\<exists>ps. group_loop ctx vs s g = Inr ps) \<or> gc_unsplittable ctx = UNSPLITTABLE_REJECT \<and>
    group_loop ctx vs s g = Inl (TimedGroupingError ''unsplittable_hard_limit'')"
  using assms
proof (induction ctx vs s g rule: group_loop.induct)
  case (1 ctx vs s g)
  have counts: "counts (gc_counter ctx)" using "1.prems" by (simp add: wf_context_def)
  show ?case
  proof (cases "s < length vs")
    case True
    consider sel where "find_boundary vs s (gc_policy ctx) (gc_counter ctx) (gc_unsplittable ctx) = Inr sel"
      | "gc_unsplittable ctx = UNSPLITTABLE_REJECT"
        "find_boundary vs s (gc_policy ctx) (gc_counter ctx) (gc_unsplittable ctx) = Inl (TimedGroupingError ''unsplittable_hard_limit'')"
      using find_boundary_total [OF "1.prems"(2) counts True] by blast
    then show ?thesis
    proof cases
      case 1
      then obtain p where p: "build_passage ctx vs s (length g) sel = Inr p"
        using build_passage_total "1.prems" True by blast
      show ?thesis
        using "1.IH" [OF True 1 p "1.prems"] by (subst (1 2) group_loop.simps) (simp add: True 1 p)
    qed (subst (1 2) group_loop.simps, simp add: True)
  qed (subst group_loop.simps, simp)
qed

lemma payload_frozen:
  assumes "wf_fp TokenCounterFingerprint fp" "k \<in> set TOKEN_COUNT_KINDS" "us \<in> set UNSPLITTABLE_POLICIES"
  shows "\<exists>ms. freeze_metadata (fingerprint_payload pol fp k us) f = Inr ms" "dict_keys_distinct (fingerprint_payload pol fp k us)"
proof -
  have "utf8_encodable k" "utf8_encodable us"
    using assms(2,3) by (auto simp: TOKEN_COUNT_KINDS_def TOKEN_COUNT_EXACT_def TOKEN_COUNT_ESTIMATED_def
        UNSPLITTABLE_POLICIES_def UNSPLITTABLE_REJECT_def UNSPLITTABLE_FLAG_def utf8_lit)
  moreover have "utf8_encodable (fp_value fp)" using wf_fp_name [OF assms(1)] by (simp add: wf_name_text)
  ultimately have "freezable (fingerprint_payload pol fp k us) 0"
    by (auto simp: fingerprint_payload_def policy_to_dict_def freezable_pdict MAX_JSON_CONTAINER_DEPTH_def utf8_lit
        GROUPER_ALGORITHM_def JOIN_POLICY_def)
  then show "\<exists>ms. freeze_metadata (fingerprint_payload pol fp k us) f = Inr ms"
    unfolding fingerprint_payload_def by (rule freeze_metadata_total)
  show "dict_keys_distinct (fingerprint_payload pol fp k us)"
    by (simp add: fingerprint_payload_def policy_to_dict_def pdict_distinct SCORE_WEIGHTS_def list_all_iff)
qed

lemma group_total:
  assumes "overlap_atoms pol = 0" "us \<in> set UNSPLITTABLE_POLICIES" "k \<in> set TOKEN_COUNT_KINDS"
    "tc_fingerprint ctr = Typed fp" "wf_fp TokenCounterFingerprint fp" "counts ctr" "media_id ID_RESOURCE rid" "vs \<noteq> []"
    "list_all usable_atom vs" "canonical_atoms vs rid = Inr ()"
  shows "(\<exists>r. group_timed_atoms (PySeq (map Typed vs)) (Typed pol) (Typed ctr) (PStr k) (PStr rid) None (PStr us) = Inr r \<and>
      gr_atoms r = vs) \<or>
    us = UNSPLITTABLE_REJECT \<and> group_timed_atoms (PySeq (map Typed vs)) (Typed pol) (Typed ctr) (PStr k) (PStr rid) None (PStr us) =
      Inl (TimedGroupingError ''unsplittable_hard_limit'')"
proof -
  let ?payload = "fingerprint_payload pol fp k us"
  obtain a as where vs: "vs = a # as" using assms(8) by (cases vs) auto
  have norm: "effective_normalization vs None = Inr (ta_normalization a)" "wf_fp NormalizationFingerprint (ta_normalization a)"
    using assms(9) by (simp_all add: vs effective_normalization_def usable_atom_def)
  have valid: "validate_atoms (map Typed vs) (PStr rid) = Inr (rid, vs)"
    using assms(7,10) by (simp add: validate_atoms_def grouped_resource_def reraise_def validate_media_id_ok)
  have choice: "require_choice (PStr s) ns m = Inr s" if "s \<in> set ns" for s ns m using that by (simp add: require_choice_def)
  obtain ms where ms: "freeze_metadata ?payload ''fingerprint_payload'' = Inr ms" using payload_frozen(1) [OF assms(5,3,2)] by blast
  obtain g where g: "fingerprint_from_payload GrouperFingerprint ?payload = Inr g" "wf_fp GrouperFingerprint g"
    using fingerprint_from_payload_ok payload_frozen [OF assms(5,3,2)] by blast
  have "wf_name REPRESENTATION_TIMED_PASSAGE"
    by (simp add: wf_name_text REPRESENTATION_TIMED_PASSAGE_def utf8_lit) (simp add: lit_def blank_iff py_isspace_def)
  then obtain repid where repid: "representation_id (PStr rid) (PStr REPRESENTATION_TIMED_PASSAGE) (PStr (fp_value g))
      (PStr (fp_value (ta_normalization a))) = Inr repid"
    using representation_id_total [OF assms(7) _ wf_fp_name [OF g(2)] wf_fp_name [OF norm(2)]] by blast
  let ?ctx = "\<lparr>gc_policy = pol, gc_counter = ctr, gc_kind = k, gc_unsplittable = us, gc_resource = rid, gc_grouper = g,
      gc_representation = repid\<rparr>"
  have run: "group_timed_atoms (PySeq (map Typed vs)) (Typed pol) (Typed ctr) (PStr k) (PStr rid) None (PStr us) =
      rbind (group_loop ?ctx vs 0 []) (finish_grouping ?ctx vs ?payload)"
    using assms(1,4,5) choice [OF assms(2)] choice [OF assms(3)] valid norm(1) g(1) repid
    by (simp add: group_timed_atoms_def require_typed_def require_fp_def wf_fp_def Let_def)
  have d: "distinct (map ta_atom_id vs)" using assms(10) by (simp add: vs canonical_atoms_def result_simps)
  have wf: "wf_context ?ctx"
    using assms(3-7) g(2) derived_ids_canonical(2) [OF repid] by (simp add: wf_context_def)
  consider ps where "group_loop ?ctx vs 0 [] = Inr ps"
    | "us = UNSPLITTABLE_REJECT" "group_loop ?ctx vs 0 [] = Inl (TimedGroupingError ''unsplittable_hard_limit'')"
    using group_loop_total [OF wf assms(9) d, of 0 "[]"] by auto
  then show ?thesis
  proof cases
    case 1
    have t: "tiling ?ctx vs 0 0 ps" using group_loop_tiling [OF 1] by simp
    obtain m where "build_metrics vs ps = Inr m" "output_overlap_count m = 0" by (rule tiling_metrics [OF t d])
    then show ?thesis using tiling_ids [OF t] ms unfolding run 1
      by (simp add: finish_grouping_def new_TimedGroupingResult_def)
  next
    case 2
    then show ?thesis unfolding run by simp
  qed
qed

section \<open>Example atoms\<close>

definition example_item :: "nat \<Rightarrow> int \<Rightarrow> int \<Rightarrow> TimedTextAtom" where
  "example_item n s e = (example_atom n s e)\<lparr>ta_atom_id := lit ''atom_'' @ replicate 63 48 @ [48 + n]\<rparr>"

definition example_counter :: TokenCounter where
  "example_counter = \<lparr>tc_fingerprint = Typed (example_fp TokenCounterFingerprint), tc_count = (\<lambda>t. Inr (PInt (int (length t))))\<rparr>"

text \<open>The second and the third atom overlap.\<close>

definition example_items :: "TimedTextAtom list" where
  "example_items = [example_item 0 0 5000, example_item 1 5000 60000, example_item 2 50000 93000]"

abbreviation example_grouping :: "TimedChunkingPolicy \<Rightarrow> pystr \<Rightarrow> TimedGroupingResult result" where
  "example_grouping pol us \<equiv> group_timed_atoms (PySeq (map Typed example_items)) (Typed pol) (Typed example_counter)
     (PStr TOKEN_COUNT_EXACT) (PStr example_rid) None (PStr us)"

lemma example_item_usable: "n < 10 \<Longrightarrow> 0 \<le> s \<Longrightarrow> s < e \<Longrightarrow> usable_atom (example_item n s e)"
proof -
  assume n: "n < 10" "0 \<le> s" "s < e"
  then have "hex_digit (48 + n)" by (simp add: hex_digit_def)
  then have "media_id ID_ATOM (lit ''atom_'' @ replicate 63 48 @ [48 + n])"
    by (simp add: media_id_def ID_KINDS_def ID_ATOM_def id_of_kind_def lit_def list_all_iff) (simp add: hex_digit_def)
  then show ?thesis using n by (simp add: usable_atom_def example_item_def example_atom_def example_text_name example_fp_wf)
qed

lemma example_items_ok: "list_all usable_atom example_items" "canonical_atoms example_items example_rid = Inr ()"
proof -
  show "list_all usable_atom example_items" by (simp add: example_items_def example_item_usable)
  show "canonical_atoms example_items example_rid = Inr ()"
    by (simp add: example_items_def canonical_atoms_def example_item_def example_atom_def)
qed

lemma example_counter_ok: "counts example_counter" "tc_fingerprint example_counter = Typed (example_fp TokenCounterFingerprint)"
  by (simp_all add: counts_def example_counter_def)

lemma example_kind: "TOKEN_COUNT_EXACT \<in> set TOKEN_COUNT_KINDS"
  by (simp add: TOKEN_COUNT_KINDS_def)

lemma example_grouping_total:
  assumes "overlap_atoms pol = 0"
  shows "\<exists>r. example_grouping pol UNSPLITTABLE_FLAG = Inr r \<and> gr_atoms r = example_items"
proof -
  have "UNSPLITTABLE_FLAG \<in> set UNSPLITTABLE_POLICIES" "UNSPLITTABLE_FLAG \<noteq> UNSPLITTABLE_REJECT" "example_items \<noteq> []"
    by (simp_all add: UNSPLITTABLE_POLICIES_def UNSPLITTABLE_FLAG_def UNSPLITTABLE_REJECT_def example_items_def)
  with group_total [OF assms _ example_kind example_counter_ok(2) example_fp_wf example_counter_ok(1) example_rid_media _
      example_items_ok] show ?thesis by blast
qed

lemma example_item_fields:
  "ta_text (example_item n s e) = example_text" "ta_start_ms (example_item n s e) = s" "ta_end_ms (example_item n s e) = e"
  by (simp_all add: example_item_def example_atom_def)

lemma example_text_fields: "example_text \<noteq> []" "length example_text = 5" "\<not> py_isspace (last example_text)"
  by (simp_all add: example_text_def) (simp_all add: lit_def py_isspace_def)

lemma example_append:
  "v \<noteq> [] \<Longrightarrow> \<not> py_isspace (last v) \<Longrightarrow> append_text (example_item n s e) v = Inr (v @ 32 # example_text)"
  by (simp add: append_text_def last_char_def first_char_def example_item_fields)
    (simp add: example_text_def lit_def py_isspace_def)

lemmas example_texts = example_item_fields example_text_fields example_append

lemma example_nth:
  "example_items ! 0 = example_item 0 0 5000" "example_items ! Suc 0 = example_item 1 5000 60000"
  "example_items ! Suc (Suc 0) = example_item 2 50000 93000" "length example_items = 3"
  by (simp_all add: example_items_def)

lemma example_count: "count_tokens example_counter v = Inr (int (length v))"
  by (simp add: count_tokens_def example_counter_def)

lemma example_candidate:
  assumes "s \<le> e" "e < 3"
  shows "\<exists>c. candidate example_items s e t pol example_counter False = Inr c \<and> bc_end_index c = e \<and>
    bc_end_ms c = t \<and> bc_token_count c = 6 * int (e - s) + 5"
proof -
  obtain c where c: "candidate example_items s e t pol example_counter False = Inr c"
    using candidate_total [OF example_items_ok(1) example_counter_ok(1) assms(1)] assms(2) [folded example_nth(4)] by blast
  have "(s, e) \<in> {(0, 0), (0, 1), (0, 2), (1, 1), (1, 2), (2, 2)}" using assms by auto
  then have "\<exists>v. join_atom_texts (atom_span example_items s e) = Inr v \<and> int (length v) = 6 * int (e - s) + 5"
    by (auto simp: atom_span_def example_items_def join_atom_texts_def example_texts eval_nat_numeral)
  then show ?thesis using candidate_eq_Inr [OF c] c example_count by auto
qed

section \<open>Properties\<close>

text \<open>
  C20: grouping preserves its input exactly. The passages list the identities of the atoms once each and in order,
  are numbered from zero, do not overlap in time, and each is an interval of consecutive atoms with their joined text,
  the count of that text, the start of the first and the latest end of its atoms. The two closing assertions of the code
  hold, and the metrics agree.
\<close>

theorem group_timed_atoms_exact:
  assumes "group_timed_atoms atoms policy tc kind rid nf u = Inr r"
  shows "atoms = PySeq (map Typed (gr_atoms r)) \<and>
    concat (map tp_source_atom_ids (gr_passages r)) = map ta_atom_id (gr_atoms r) \<and>
    distinct (concat (map tp_source_atom_ids (gr_passages r))) \<and>
    map tp_ordinal (gr_passages r) = map int [0..<length (gr_passages r)] \<and>
    (\<forall>j < length (gr_passages r). \<forall>i < j. tp_end_ms (gr_passages r ! i) \<le> tp_start_ms (gr_passages r ! j)) \<and>
    (\<exists>ctr. tc = Typed ctr \<and> (\<forall>p \<in> set (gr_passages r). \<exists>s e. s \<le> e \<and> e < length (gr_atoms r) \<and>
       tp_source_atom_ids p = map ta_atom_id (atom_span (gr_atoms r) s e) \<and>
       tp_start_ms p = ta_start_ms (gr_atoms r ! s) \<and> tp_end_ms p = span_end (gr_atoms r) s e \<and>
       join_atom_texts (atom_span (gr_atoms r) s e) = Inr (tp_text p) \<and>
       count_tokens ctr (tp_text p) = Inr (tok_count (tp_token_count p)))) \<and>
    passage_count (gr_metrics r) = length (gr_passages r) \<and> source_atom_count (gr_metrics r) = length (gr_atoms r) \<and>
    duplicate_source_atom_count (gr_metrics r) = 0 \<and> output_overlap_count (gr_metrics r) = 0"
proof -
  obtain pol ctr ctx where run: "tc = Typed ctr" "atoms = PySeq (map Typed (gr_atoms r))" "gc_counter ctx = ctr"
    and d: "distinct (map ta_atom_id (gr_atoms r))" and t: "tiling ctx (gr_atoms r) 0 0 (gr_passages r)"
    and m: "build_metrics (gr_atoms r) (gr_passages r) = Inr (gr_metrics r)"
    by (rule group_timed_atoms_run [OF assms])
  have ps: "\<exists>s e. s \<le> e \<and> e < length (gr_atoms r) \<and> (\<exists>n. passage_of ctx (gr_atoms r) s e n p)"
    if "p \<in> set (gr_passages r)" for p using tiling_passages [OF t that] by blast
  have "\<forall>p \<in> set (gr_passages r). tp_start_ms p < tp_end_ms p" using ps by (force simp: passage_of_def)
  note apart = adjacent_separated [where st = tp_start_ms and en = tp_end_ms, OF tiling_no_overlap [OF t] this]
  have "\<exists>ctr. tc = Typed ctr \<and> (\<forall>p \<in> set (gr_passages r). \<exists>s e. s \<le> e \<and> e < length (gr_atoms r) \<and>
       tp_source_atom_ids p = map ta_atom_id (atom_span (gr_atoms r) s e) \<and>
       tp_start_ms p = ta_start_ms (gr_atoms r ! s) \<and> tp_end_ms p = span_end (gr_atoms r) s e \<and>
       join_atom_texts (atom_span (gr_atoms r) s e) = Inr (tp_text p) \<and>
       count_tokens ctr (tp_text p) = Inr (tok_count (tp_token_count p)))"
    unfolding run(1) using ps run(3) by (auto simp: passage_of_def) blast
  moreover obtain m' where "build_metrics (gr_atoms r) (gr_passages r) = Inr m'" "passage_count m' = length (gr_passages r)"
    "source_atom_count m' = length (gr_atoms r)" "duplicate_source_atom_count m' = 0" "output_overlap_count m' = 0"
    by (rule tiling_metrics [OF t d])
  ultimately show ?thesis
    using run(2) apart tiling_ids [OF t] tiling_ordinals [OF t] d m by simp
qed

theorem group_timed_atoms_exact_witness:
  "\<exists>r. example_grouping default_policy UNSPLITTABLE_FLAG = Inr r \<and>
     concat (map tp_source_atom_ids (gr_passages r)) = map ta_atom_id example_items"
proof -
  obtain r where r: "example_grouping default_policy UNSPLITTABLE_FLAG = Inr r" "gr_atoms r = example_items"
    using example_grouping_total [of default_policy] by (auto simp: default_policy_def)
  from group_timed_atoms_exact [OF r(1)] r show ?thesis by auto
qed

text \<open>
  C21: the hard limits. A passage is flagged (both in \<open>unsplittable\<close> and in \<open>hard_limit_exceeded\<close>)
  exactly when it is longer than the hard token limit or the hard duration limit of the policy, the metrics count
  exactly these passages, and under the rejecting policy there is none.
\<close>

theorem group_timed_atoms_hard_limits:
  assumes "group_timed_atoms atoms (Typed pol) tc kind rid nf u = Inr r"
  shows "(\<forall>p \<in> set (gr_passages r). is_true p ''unsplittable'' = beyond_hard pol p \<and>
      is_true p ''hard_limit_exceeded'' = beyond_hard pol p) \<and>
    hard_limit_exceeded_count (gr_metrics r) = length (filter (beyond_hard pol) (gr_passages r)) \<and>
    unsplittable_passage_count (gr_metrics r) = length (filter (beyond_hard pol) (gr_passages r)) \<and>
    (u = PStr UNSPLITTABLE_REJECT \<longrightarrow> filter (beyond_hard pol) (gr_passages r) = [])"
proof -
  obtain ctx where ctx: "gc_policy ctx = pol" "u = PStr (gc_unsplittable ctx)"
    and d: "distinct (map ta_atom_id (gr_atoms r))" and t: "tiling ctx (gr_atoms r) 0 0 (gr_passages r)"
    and m: "build_metrics (gr_atoms r) (gr_passages r) = Inr (gr_metrics r)"
    by (rule group_timed_atoms_run [OF assms]) simp
  have "\<forall>p \<in> set (gr_passages r). \<exists>s e n. passage_of ctx (gr_atoms r) s e n p" using tiling_passages [OF t] by blast
  moreover obtain m' where "build_metrics (gr_atoms r) (gr_passages r) = Inr m'"
    "hard_limit_exceeded_count m' = length (filter (beyond_hard (gc_policy ctx)) (gr_passages r))"
    "unsplittable_passage_count m' = length (filter (beyond_hard (gc_policy ctx)) (gr_passages r))"
    by (rule tiling_metrics [OF t d])
  ultimately show ?thesis using ctx m by (auto simp: passage_of_def filter_empty_conv)
qed

theorem group_timed_atoms_hard_limits_witness:
  "\<exists>r. example_grouping variant_A UNSPLITTABLE_FLAG = Inr r \<and>
     hard_limit_exceeded_count (gr_metrics r) = length (filter (beyond_hard variant_A) (gr_passages r))"
proof -
  obtain r where r: "example_grouping variant_A UNSPLITTABLE_FLAG = Inr r"
    using example_grouping_total [of variant_A] by (auto simp: variant_A_def)
  from group_timed_atoms_hard_limits [OF r] r show ?thesis by auto
qed

text \<open>
  C22: grouping is total. For a policy without overlap, a counter that keeps its protocol and atoms that pass the
  input checks, it returns a result for these atoms, except that the rejecting policy may raise the categorical error
  for an unsplittable passage. No assertion, index or lookup fails, and every loop ends.
\<close>

theorem group_timed_atoms_total:
  assumes "overlap_atoms pol = 0" "us \<in> set UNSPLITTABLE_POLICIES" "k \<in> set TOKEN_COUNT_KINDS"
    "tc_fingerprint ctr = Typed fp" "wf_fp TokenCounterFingerprint fp" "counts ctr" "media_id ID_RESOURCE rid" "vs \<noteq> []"
    "list_all usable_atom vs" "canonical_atoms vs rid = Inr ()"
  shows "(\<exists>r. group_timed_atoms (PySeq (map Typed vs)) (Typed pol) (Typed ctr) (PStr k) (PStr rid) None (PStr us) = Inr r \<and>
      gr_atoms r = vs) \<or>
    us = UNSPLITTABLE_REJECT \<and> group_timed_atoms (PySeq (map Typed vs)) (Typed pol) (Typed ctr) (PStr k) (PStr rid) None (PStr us) =
      Inl (TimedGroupingError ''unsplittable_hard_limit'')"
  by (rule group_total [OF assms])

theorem group_timed_atoms_total_witness:
  "(\<exists>r. example_grouping default_policy UNSPLITTABLE_REJECT = Inr r) \<or>
   example_grouping default_policy UNSPLITTABLE_REJECT = Inl (TimedGroupingError ''unsplittable_hard_limit'')"
proof -
  have "overlap_atoms default_policy = 0" "UNSPLITTABLE_REJECT \<in> set UNSPLITTABLE_POLICIES" "example_items \<noteq> []"
    by (simp_all add: default_policy_def UNSPLITTABLE_POLICIES_def example_items_def)
  from group_timed_atoms_total [OF this(1,2) example_kind example_counter_ok(2) example_fp_wf example_counter_ok(1)
      example_rid_media this(3) example_items_ok] show ?thesis by blast
qed

text \<open>
  C40: the rejection of an unsplittable passage is not limited to inputs with an oversized component. In the example
  the first atom ends before the others start, it is within the limits alone, and so is the component of the other two;
  still the search started at the first atom raises, because the boundary after it lies below the soft minimum and is
  no longer a candidate when the hard limit is passed.
\<close>

theorem rejects_a_splittable_input:
  "find_boundary example_items 0 variant_A example_counter UNSPLITTABLE_REJECT =
     Inl (TimedGroupingError ''unsplittable_hard_limit'') \<and>
   safe_at example_items 0 0 \<and>
   (\<exists>c. candidate example_items 0 0 5000 variant_A example_counter False = Inr c \<and> within_hard example_items 0 variant_A c) \<and>
   (\<exists>sel. find_boundary example_items 1 variant_A example_counter UNSPLITTABLE_REJECT = Inr sel \<and>
      bc_end_index (sb_candidate sel) = 2 \<and> within_hard example_items 1 variant_A (sb_candidate sel))"
proof -
  obtain c00 c01 c02 c11 c12 where c:
    "candidate example_items 0 0 5000 variant_A example_counter False = Inr c00" "bc_end_ms c00 = 5000" "bc_token_count c00 = 5"
    "candidate example_items 0 (Suc 0) 60000 variant_A example_counter False = Inr c01" "bc_token_count c01 = 11"
    "candidate example_items 0 (Suc (Suc 0)) 93000 variant_A example_counter False = Inr c02" "bc_token_count c02 = 17"
    "candidate example_items (Suc 0) (Suc 0) 60000 variant_A example_counter False = Inr c11" "bc_token_count c11 = 5"
    "candidate example_items (Suc 0) (Suc (Suc 0)) 93000 variant_A example_counter False = Inr c12" "bc_token_count c12 = 11"
    "bc_end_index c12 = Suc (Suc 0)" "bc_end_ms c12 = 93000"
    using example_candidate [of 0 0 5000 variant_A] example_candidate [of 0 "Suc 0" 60000 variant_A] example_candidate [of 0 "Suc (Suc 0)" 93000 variant_A] example_candidate [of "Suc 0" "Suc 0" 60000 variant_A]
      example_candidate [of "Suc 0" "Suc (Suc 0)" 93000 variant_A] by auto
  have risk: "next_would_exceed_hard_limit example_items 0 0 5000 variant_A example_counter = Inr False"
    "next_would_exceed_hard_limit example_items (Suc 0) (Suc (Suc 0)) t variant_A example_counter = Inr False" for t
    by (auto simp: next_would_exceed_hard_limit_def example_items_def join_atom_texts_def example_texts example_count variant_A_def
        eval_nat_numeral)
  have policy: "soft_min_tokens variant_A = 128" "soft_max_tokens variant_A = 384" "hard_max_tokens variant_A = 512"
    "soft_min_duration_ms variant_A = 20000" "soft_max_duration_ms variant_A = 67500" "hard_max_duration_ms variant_A = 90000"
    by (simp_all add: variant_A_def)
  have upt: "[0..<3] = [0, Suc 0, Suc (Suc 0)]" "[Suc 0..<3] = [Suc 0, Suc (Suc 0)]" by (simp_all add: upt_rec)
  note eval = find_boundary_def window_step_def example_nth upt example_item_fields c risk policy within_hard_def safe_at_def select_candidate_def
  have "find_boundary example_items 0 variant_A example_counter UNSPLITTABLE_REJECT =
      Inl (TimedGroupingError ''unsplittable_hard_limit'')"
    by (simp add: eval)
  moreover have "safe_at example_items 0 0" by (simp add: safe_at_def span_end_self example_nth example_item_fields)
  moreover have "within_hard example_items 0 variant_A c00" by (simp add: eval)
  moreover have "\<exists>sel. find_boundary example_items (Suc 0) variant_A example_counter UNSPLITTABLE_REJECT = Inr sel \<and>
      bc_end_index (sb_candidate sel) = Suc (Suc 0) \<and> within_hard example_items (Suc 0) variant_A (sb_candidate sel)"
    by (simp add: eval)
  ultimately show ?thesis using c(1) by (simp add: numeral_2_eq_2)
qed

end
