(* ===== verification/Media_Batch_Examples.thy ===== *)
theory Media_Batch_Examples
  imports Media_Batches Media_Native Media_Grouping
begin

text \<open>
  Concrete inputs for the properties of the projections: a transcript of one atom and an artifact with one frame, and the lemmas
  that build their records, in particular that short metadata freezes.
\<close>

section \<open>Short metadata freezes\<close>

fun short_json :: "json \<Rightarrow> bool" where
  "short_json (JStr s) = (utf8_encodable s \<and> length s \<le> 1000)"
| "short_json (JInt i) = (length (int_repr i) \<le> 1000)"
| "short_json (JBool b) = True"
| "short_json (JArr [JStr s]) = (utf8_encodable s \<and> length s \<le> 1000)"
| "short_json _ = False"

lemma short_json_frozen: "short_json j \<Longrightarrow> frozen j \<and> json_height j \<le> 1 \<and> json_items j \<le> 1 \<and> length (canonical_json j) \<le> 6004"
proof (induction j rule: short_json.induct)
  case (1 s)
  then show ?case using length_json_string [of s] by simp
next
  case (4 s)
  then show ?case using length_json_string [of s] by simp
qed (simp_all add: lit_def)

lemma length_intersperse: "length (intersperse [c] xs) \<le> sum_list (map (\<lambda>x. length x + 1) xs)"
  by (induction "[c]" xs rule: intersperse.induct) auto

lemma short_mapping_freezes:
  assumes "distinct (keys d)" "list_all (\<lambda>(k, j). length k \<le> 100 \<and> utf8_encodable k \<and> short_json j) d" "length d \<le> 8"
  shows "\<exists>ms. freeze_json_mapping (of_jmap d) f = Inr ms"
proof -
  let ?ms = "sort_key fst d" and ?kvs = "map (\<lambda>(k, j). (PStr k, of_json j))"
  have all: "length k \<le> 100 \<and> utf8_encodable k \<and> frozen j \<and> json_height j \<le> 1 \<and> json_items j \<le> 1 \<and>
      length (canonical_json j) \<le> 6004" if "(k, j) \<in> set ?ms" for k j
    using assms(2) that short_json_frozen by (auto simp: list_all_iff)
  have "sum_list (map (\<lambda>(k, j). json_items j) ?ms) \<le> sum_list (map (\<lambda>_. 1) ?ms)"
    using all by (intro sum_list_mono) auto
  then have items: "json_items (JObj ?ms) \<le> MAX_JSON_ITEMS" using assms(3) by (simp add: sum_list_triv MAX_JSON_ITEMS_def)
  have "foldr max (map (\<lambda>(k, j). Suc (json_height j)) xs) 0 \<le> 2" if "set xs \<subseteq> set ?ms" for xs
    using that all by (induction xs) fastforce+
  then have height: "json_height (JObj ?ms) \<le> MAX_JSON_DEPTH" using order.trans [of _ 2] by (fastforce simp: MAX_JSON_DEPTH_def)
  have "length (json_string k) \<le> 602" if "length k \<le> 100" for k using length_json_string [of k] that by linarith
  then have "sum_list (map (\<lambda>x. length x + 1) (map (\<lambda>(k, j). json_string k @ [58] @ canonical_json j) ?ms)) \<le>
      sum_list (map (\<lambda>_. 7000) ?ms)" using all unfolding map_map by (intro sum_list_mono) (force intro: order_trans [OF add_mono])
  then have "length (canonical_json (JObj ?ms)) \<le> 100000"
    using assms(3) length_intersperse [of 44 "map (\<lambda>(k, j). json_string k @ [58] @ canonical_json j) ?ms"]
    by (simp add: sum_list_triv sort_key_sorted_id)
  then have "length (utf8_encode (canonical_json (JObj ?ms))) \<le> MAX_JSON_BYTES"
    using length_utf8_encode [of "canonical_json (JObj ?ms)"] by (simp add: MAX_JSON_BYTES_def del: canonical_json.simps)
  moreover have "frozen (JObj ?ms)" using all assms(1) distinct_map_sort_key [of fst fst d] by (auto simp: list_all_iff)
  ultimately have "frozen_mapping ?ms" using items height unfolding frozen_mapping_def fits_def by simp
  then have "freeze_json_mapping (of_jmap ?ms) f = Inr ?ms" by (rule freeze_json_mapping_thaw)
  moreover have "distinct (keys (?kvs d))" using assms(1) keys_map_values [of PStr of_json d] by (simp add: distinct_map inj_on_def)
  then have "freeze_json_value (of_jmap d) 0 0 = freeze_json_value (of_jmap ?ms) 0 0"
    unfolding of_json.simps by (intro freeze_json_value_PMap_mset) simp_all
  ultimately have "freeze_json_mapping (of_jmap d) f = Inr ?ms" unfolding freeze_json_mapping_def by simp
  then show ?thesis by blast
qed

lemma short_pdict_freezes:
  assumes "list_all (\<lambda>(k, j). length k \<le> 100 \<and> short_json j) d" "distinct (map fst d)" "length d \<le> 8"
  shows "\<exists>ms. freeze_json_mapping (pdict (map (\<lambda>(k, j). (k, of_json j)) d)) f = Inr ms"
proof -
  let ?d = "map (\<lambda>(k, j). (lit k, j)) d"
  have "distinct (keys ?d)" using assms(2) keys_map_values [of lit "\<lambda>j. j" d] by (simp add: distinct_map inj_on_def)
  moreover have "list_all (\<lambda>(k, j). length k \<le> 100 \<and> utf8_encodable k \<and> short_json j) ?d"
    using assms(1) by (force simp: list_all_iff utf8_lit)
  moreover have "pdict (map (\<lambda>(k, j). (k, of_json j)) d) = of_jmap ?d" by (simp add: pdict_def comp_def split_def)
  ultimately show ?thesis using short_mapping_freezes [of ?d f] assms(3) by (simp only: length_map)
qed

lemma freezable_digest: "freezable v 0 \<Longrightarrow> \<exists>b. json_digest v = Inr (hexdigest b)"
  using freezable_freezes [of v 0 "''value''"] by (auto simp: json_digest_def media_canonical_json_def)

section \<open>Records\<close>

lemma unit_total:
  assumes "wf_name i" "wf_name r" "wf_name p" "wf_name k" "utf8_encodable t" "0 \<le> n" "0 \<le> c" "tk \<in> set TOKEN_COUNT_KINDS"
    "freeze_json_mapping md ''metadata'' = Inr ms"
  shows "\<exists>u. new_SearchUnitRecord (PStr i) (PStr r) (PStr p) (PStr k) (PStr MODALITY_TEXT) (PStr t) (Typed l) (PInt n) (PInt c) (PStr tk) md = Inr u"
proof -
  have "wf_name MODALITY_TEXT" by (simp add: wf_name_text MODALITY_TEXT_def utf8_lit) (simp add: lit_def blank_iff py_isspace_def)
  moreover have "validate_token_count (PInt c) (PStr tk) = Inr (Some c, Some tk)"
    using assms(7,8) by (simp add: validate_token_count_eq_Inr wf_token_count_def)
  ultimately show ?thesis using assms
    by (simp add: new_SearchUnitRecord_def name_again opt_utf8_again [of "Some t", simplified] require_integer_def)
qed

lemma representation_total:
  assumes "wf_name i" "wf_name r" "wf_name k" "utf8_encodable t" "wf_name p" "0 \<le> c" "tk \<in> set TOKEN_COUNT_KINDS"
    "freeze_json_mapping md ''metadata'' = Inr ms"
  shows "\<exists>x. new_RepresentationRecord (PStr i) (PStr r) (PStr k) (PStr MODALITY_TEXT) (PStr t) PNone (PStr p) (PInt c) (PStr tk) md = Inr x"
proof -
  have "wf_name MODALITY_TEXT" by (simp add: wf_name_text MODALITY_TEXT_def utf8_lit) (simp add: lit_def blank_iff py_isspace_def)
  moreover have "validate_token_count (PInt c) (PStr tk) = Inr (Some c, Some tk)"
    using assms(6,7) by (simp add: validate_token_count_eq_Inr wf_token_count_def)
  ultimately show ?thesis using assms
    by (simp add: new_RepresentationRecord_def name_again opt_utf8_again [of "Some t", simplified] require_optional_non_empty_def)
qed

lemma projected_resource_total:
  assumes "wf_name i" "wf_name k" "freeze_json_mapping md ''metadata'' = Inr ms"
  shows "\<exists>x. new_ResourceRecord (PStr i) (PStr k) (PStr [97]) (PStr [110]) (Typed l) (PStr (lit ''sha256:'' @ hexdigest b)) PNone md = Inr x"
  using assms native_names text_digest_name
  by (simp add: new_ResourceRecord_def name_again require_optional_utf8_def require_optional_non_empty_def)

lemma example_kinds: "TOKEN_COUNT_EXACT \<in> set TOKEN_COUNT_KINDS" "wf_name RESOURCE_VIDEO" "wf_name RESOURCE_AUDIO"
  "wf_name REPRESENTATION_FRAME_CAPTION" "wf_name REPRESENTATION_TIMED_PASSAGE" "wf_name UNIT_FRAME" "wf_name UNIT_TIME_SEGMENT"
  "wf_name example_rid" "utf8_encodable example_text" "\<not> blank example_text"
  using media_id_name [OF example_rid_media] example_text_name
  by (simp_all add: TOKEN_COUNT_KINDS_def RESOURCE_VIDEO_def RESOURCE_AUDIO_def REPRESENTATION_FRAME_CAPTION_def UNIT_FRAME_def
      UNIT_TIME_SEGMENT_def REPRESENTATION_TIMED_PASSAGE_def wf_name_text utf8_lit) (simp_all add: lit_def blank_iff py_isspace_def)

section \<open>An artifact with one frame\<close>

definition example_frame :: FrameCaptionObservation where
  "example_frame =
     \<lparr>fo_frame_id = projr (frame_id (PStr example_rid) (PStr (fp_value (example_fp ProducerFingerprint))) (PInt 0) (PInt 7) (PStr example_text)),
      fo_resource_id = example_rid, fo_timestamp_ms = 7, fo_observation_identity = example_text, fo_caption = example_text,
      fo_ordinal = 0, fo_token_count = \<lparr>tok_count = 1, tok_kind = TOKEN_COUNT_EXACT,
        tok_counter_fingerprint = example_fp TokenCounterFingerprint\<rparr>,
      fo_producer = example_fp ProducerFingerprint, fo_normalization = example_fp NormalizationFingerprint, fo_metadata = [],
      fo_content = example_fp ContentFingerprint\<rparr>"

definition example_frames :: FrameBatchBuilderInput where
  "example_frames =
     \<lparr>fi_resource = (ti_resource example_input)\<lparr>md_resource_kind := RESOURCE_VIDEO\<rparr>,
      fi_frames = \<lparr>fa_resource_id = example_rid,
        fa_representation_id = projr (representation_id (PStr example_rid) (PStr REPRESENTATION_FRAME_CAPTION)
          (PStr (fp_value (example_fp ProducerFingerprint))) (PStr (fp_value (example_fp NormalizationFingerprint)))),
        fa_representation_kind = REPRESENTATION_FRAME_CAPTION, fa_observations = [example_frame],
        fa_producer = example_fp ProducerFingerprint, fa_normalization = example_fp NormalizationFingerprint, fa_metadata = []\<rparr>,
      fi_embedding = None, fi_whole_text_policy = None, fi_aggregation = None\<rparr>"

lemma example_frame_ids:
  "frame_id (PStr example_rid) (PStr (fp_value (example_fp ProducerFingerprint))) (PInt 0) (PInt 7) (PStr example_text) =
     Inr (fo_frame_id example_frame)"
  "representation_id (PStr example_rid) (PStr REPRESENTATION_FRAME_CAPTION) (PStr (fp_value (example_fp ProducerFingerprint)))
     (PStr (fp_value (example_fp NormalizationFingerprint))) = Inr (fa_representation_id (fi_frames example_frames))"
proof -
  have "list_all scalar_part [PStr example_rid, PStr (fp_value (example_fp ProducerFingerprint)), PInt 0, PInt 7, PStr example_text]"
    using example_kinds(8,9) example_fp_name by (simp add: wf_name_text)
  moreover have "ID_FRAME \<in> set ID_KINDS" by (simp add: ID_KINDS_def)
  ultimately have "\<exists>r. frame_id (PStr example_rid) (PStr (fp_value (example_fp ProducerFingerprint))) (PInt 0) (PInt 7) (PStr example_text) = Inr r"
    using stable_media_id_scalar by (simp add: frame_id_def example_rid_media field_ok example_fp_name example_text_name)
  then show "frame_id (PStr example_rid) (PStr (fp_value (example_fp ProducerFingerprint))) (PInt 0) (PInt 7) (PStr example_text) =
     Inr (fo_frame_id example_frame)" by (auto simp: example_frame_def)
  show "representation_id (PStr example_rid) (PStr REPRESENTATION_FRAME_CAPTION) (PStr (fp_value (example_fp ProducerFingerprint)))
     (PStr (fp_value (example_fp NormalizationFingerprint))) = Inr (fa_representation_id (fi_frames example_frames))"
    using representation_id_total [OF example_rid_media example_kinds(4) example_fp_name [of ProducerFingerprint]
      example_fp_name [of NormalizationFingerprint]] by (auto simp: example_frames_def)
qed

lemma example_frames_wf: "wf_frame_input example_frames"
proof -
  have fields: "fi_resource example_frames = (ti_resource example_input)\<lparr>md_resource_kind := RESOURCE_VIDEO\<rparr>"
    "md_resource_id (ti_resource example_input) = example_rid" by (simp_all add: example_frames_def example_input_def)
  have "wf_descriptor (fi_resource example_frames)" using example_input_wf
    by (simp add: fields wf_transcript_input_def wf_descriptor_def MEDIA_RESOURCE_KINDS_def)
  moreover have "wf_observation example_frame"
    using example_frame_ids(1) by (simp add: wf_observation_def example_rid_media example_text_name example_kinds example_fp_wf wf_token_def
        wf_meta_Nil example_frame_def)
  moreover have "check_observations example_rid (example_fp ProducerFingerprint) (example_fp NormalizationFingerprint) [example_frame] = Inr ()"
    by (simp add: check_observations_def example_frame_def)
  moreover have "wf_frames (fi_frames example_frames)" using calculation(2,3) example_frame_ids(2)
    by (simp add: wf_frames_def example_frames_def example_rid_media example_fp_wf wf_meta_Nil)
  ultimately show ?thesis using fields by (simp add: wf_frame_input_def wf_whole_def) (simp add: example_frames_def)
qed

lemma example_frame_fields:
  "fo_caption example_frame = example_text" "fo_metadata example_frame = []" "fo_timestamp_ms example_frame = 7"
  "fo_ordinal example_frame = 0" "fo_observation_identity example_frame = example_text"
  "fo_content example_frame = example_fp ContentFingerprint" "tok_count (fo_token_count example_frame) = 1"
  "tok_kind (fo_token_count example_frame) = TOKEN_COUNT_EXACT" "fa_observations (fi_frames example_frames) = [example_frame]"
  "fa_metadata (fi_frames example_frames) = []" "fa_normalization (fi_frames example_frames) = example_fp NormalizationFingerprint"
  "fa_producer (fi_frames example_frames) = example_fp ProducerFingerprint" "md_resource_id (fi_resource example_frames) = example_rid"
  "md_media_type (fi_resource example_frames) = [97]" "md_source_namespace (fi_resource example_frames) = [110]"
  "fi_whole_text_policy example_frames = None" "fi_embedding example_frames = None"
  by (simp_all add: example_frame_def example_frames_def example_input_def)

lemma media_id_length: "media_id k s \<Longrightarrow> length s \<le> length k + 65"
  by (auto simp: media_id_def id_of_kind_split lit_def)

lemma example_frame_names: "wf_name (fo_frame_id example_frame)" "wf_name (fa_representation_id (fi_frames example_frames))"
  "length (fo_frame_id example_frame) \<le> 100"
proof -
  have "media_id ID_FRAME (fo_frame_id example_frame)" using derived_ids_canonical(5) [OF example_frame_ids(1)] .
  moreover have "media_id ID_REPRESENTATION (fa_representation_id (fi_frames example_frames))"
    using derived_ids_canonical(2) [OF example_frame_ids(2)] .
  ultimately show "wf_name (fo_frame_id example_frame)" "wf_name (fa_representation_id (fi_frames example_frames))"
    "length (fo_frame_id example_frame) \<le> 100"
    using media_id_name media_id_length by (fastforce simp: wf_name_text ID_FRAME_def)+
qed

lemma short_fp: "short_json (JStr (fp_value (example_fp cls)))" "short_json (JStr example_text)"
  using example_strings(2) example_kinds(9) by (simp_all add: example_text_def) (simp_all add: example_fp_def lit_def)

lemma members_pdict: "members_object (map (\<lambda>(k, v). (lit k, v)) d) = pdict d"
  by (simp add: members_object_def pdict_def comp_def split_def)

lemma example_frames_records:
  "\<exists>x. caption_representation example_frames = Inr x" "\<exists>x. caption_unit example_frames example_frame = Inr x"
proof -
  let ?fp = "\<lambda>cls. JStr (fp_value (example_fp cls))"
  obtain ms where "freeze_json_mapping (pdict [(''normalization_fingerprint'', PStr (fp_value (example_fp NormalizationFingerprint)))]) ''metadata'' = Inr ms"
    using short_pdict_freezes [of "[(''normalization_fingerprint'', ?fp NormalizationFingerprint)]"] short_fp by auto
  then have "freeze_json_mapping (members_object (AList.update (lit ''normalization_fingerprint'')
      (PStr (fp_value (example_fp NormalizationFingerprint))) (plain_members []))) ''metadata'' = Inr ms"
    by (simp add: members_object_def plain_members_def pdict_def)
  from representation_total [OF example_frame_names(2) example_kinds(8,4,9) example_fp_name _ example_kinds(1) this, of 1]
  show "\<exists>x. caption_representation example_frames = Inr x"
    by (simp add: caption_representation_def Let_def example_frame_fields caption_text_def join_paragraphs_def common_kind_def caption_tokens_def)
  obtain ms where "freeze_json_mapping (pdict [(''content_fingerprint'', PStr (fp_value (example_fp ContentFingerprint))),
      (''observation_identity'', PStr example_text)]) ''metadata'' = Inr ms"
    using short_pdict_freezes [of "[(''content_fingerprint'', ?fp ContentFingerprint), (''observation_identity'', JStr example_text)]"] short_fp by auto
  then have "freeze_json_mapping (frame_metadata example_frame) ''metadata'' = Inr ms"
    by (simp add: frame_metadata_def members_object_def pdict_def plain_members_def example_frame_fields)
  note unit = unit_total [OF example_frame_names(1) example_kinds(8) example_frame_names(2) example_kinds(6,9) _ _ example_kinds(1) this]
  have "short_json (JInt 7)" by (simp add: int_repr_def nat_digits.simps)
  moreover have "short_json (JStr (fo_frame_id example_frame))" using example_frame_names by (simp add: wf_name_text)
  ultimately obtain ls where "freeze_json_mapping (pdict [(''frame_id'', PStr (fo_frame_id example_frame)), (''timestamp_ms'', PInt 7)]) ''payload'' = Inr ls"
    using short_pdict_freezes [of "[(''frame_id'', JStr (fo_frame_id example_frame)), (''timestamp_ms'', JInt 7)]"] by auto
  moreover have "wf_name (lit ''video_frame'')" by (simp add: wf_name_text utf8_lit) (simp add: lit_def blank_iff py_isspace_def)
  ultimately show "\<exists>x. caption_unit example_frames example_frame = Inr x"
    using unit by (simp add: caption_unit_def new_Locator_def name_again example_frame_fields)
qed

lemma example_frames_digest: "\<exists>b. json_digest (frames_to_dict (fi_frames example_frames)) = Inr (hexdigest b)"
proof (rule freezable_digest)
  have "utf8_encodable TOKEN_COUNT_EXACT" "utf8_encodable REPRESENTATION_FRAME_CAPTION"
    by (simp_all add: TOKEN_COUNT_EXACT_def REPRESENTATION_FRAME_CAPTION_def utf8_lit)
  then show "freezable (frames_to_dict (fi_frames example_frames)) 0"
    using example_frame_names example_kinds example_strings(2)
    by (simp add: frames_to_dict_def observation_to_dict_def token_to_dict_def plain_json_def freezable_pdict MAX_JSON_CONTAINER_DEPTH_def
        example_frame_fields)
      (simp add: example_frames_def example_frame_def wf_name_text)
qed

lemma example_frames_build: "\<exists>b. build_video_frame_caption_batch float_sum (Typed example_frames) PNone (PStr METRIC_COSINE) = Inr b"
proof -
  obtain rep u where parts: "caption_representation example_frames = Inr rep" "caption_unit example_frames example_frame = Inr u"
    using example_frames_records by blast
  let ?fp = "\<lambda>cls. JStr (fp_value (example_fp cls))"
  obtain ms where ms: "freeze_json_mapping (pdict [(''producer_fingerprint'', PStr (fp_value (example_fp ProducerFingerprint))),
      (''normalization_fingerprint'', PStr (fp_value (example_fp NormalizationFingerprint)))]) ''metadata'' = Inr ms"
    using short_pdict_freezes [of "[(''producer_fingerprint'', ?fp ProducerFingerprint), (''normalization_fingerprint'', ?fp NormalizationFingerprint)]"] short_fp
    by auto
  then have md: "freeze_json_mapping (members_object (AList.update (lit ''normalization_fingerprint'') (PStr (fp_value (example_fp NormalizationFingerprint)))
      (AList.update (lit ''producer_fingerprint'') (PStr (fp_value (example_fp ProducerFingerprint))) (plain_members [])))) ''metadata'' = Inr ms"
    by (simp add: members_object_def pdict_def plain_members_def)
  obtain h where h: "json_digest (frames_to_dict (fi_frames example_frames)) = Inr (hexdigest h)" using example_frames_digest by blast
  obtain res where "new_ResourceRecord (PStr example_rid) (PStr RESOURCE_VIDEO) (PStr [97]) (PStr [110])
      (Typed (md_locator (fi_resource example_frames))) (PStr (lit ''sha256:'' @ hexdigest h)) PNone
      (members_object (AList.update (lit ''normalization_fingerprint'') (PStr (fp_value (example_fp NormalizationFingerprint)))
        (AList.update (lit ''producer_fingerprint'') (PStr (fp_value (example_fp ProducerFingerprint))) (plain_members [])))) = Inr res"
    using projected_resource_total [OF example_kinds(8,2) md] by blast
  with parts h show ?thesis
    by (simp add: build_video_frame_caption_batch_def Let_def vectors_argument_def require_member_def METRICS_def METRIC_COSINE_def project_vectors_def
        example_frame_fields new_PreparedResourceBatch_def freeze_typed_sequence_def)
qed

theorem frame_batch_valid_witness:
  "\<exists>b. build_video_frame_caption_batch (\<lambda>_. Fin 0) (Typed example_frames) PNone (PStr METRIC_COSINE) = Inr b \<and>
     distinct (map unit_id (batch_units b)) \<and> length (batch_units b) = 1 \<and> unit_text (hd (batch_units b)) = Some example_text"
proof -
  obtain b where b: "build_video_frame_caption_batch (\<lambda>_. Fin 0) (Typed example_frames) PNone (PStr METRIC_COSINE) = Inr b"
    using example_frames_build by blast
  from frame_batch_valid [OF example_frames_wf b] obtain u where "batch_units b = [u]" "unit_text u = Some example_text"
    by (auto simp: example_frame_fields length_Suc_conv)
  then show ?thesis using b by auto
qed

section \<open>A transcript of one atom\<close>

abbreviation one_atom :: "TimedTextAtom list" where
  "one_atom \<equiv> [example_item 0 0 900]"

lemma one_atom_boundary:
  "find_boundary one_atom 0 default_policy example_counter u =
     Inr \<lparr>sb_candidate = \<lparr>bc_end_index = 0, bc_text = example_text, bc_token_count = 5, bc_end_ms = 900, bc_score = - 18,
         bc_token_distance = 9, bc_duration_distance = 9\<rparr>,
       sb_reason = ''end_of_input'', sb_hard_limit_exceeded = False, sb_unsplittable = False\<rparr>"
proof -
  have "last_char (rstrip example_text) = Inr 111" "111 \<notin> set SENTENCE_ENDINGS" "10 \<notin> set example_text"
    by (simp_all add: example_text_def lit_def rstrip_def last_char_def py_isspace_def SENTENCE_ENDINGS_def)
  then have "candidate one_atom 0 0 900 default_policy example_counter False = Inr \<lparr>bc_end_index = 0, bc_text = example_text,
      bc_token_count = 5, bc_end_ms = 900, bc_score = - 18, bc_token_distance = 9, bc_duration_distance = 9\<rparr>"
    by (simp add: candidate_def join_atom_texts_def example_texts example_count boundary_score_def following_score_def default_policy_def
        distance_def)
  then show ?thesis
    by (simp add: find_boundary_def window_step_def next_would_exceed_hard_limit_def select_candidate_def example_texts)
      (simp add: default_policy_def)
qed

text \<open>What the projection reads of the one passage.\<close>

definition one_passage :: "TimedPassage \<Rightarrow> bool" where
  "one_passage p \<longleftrightarrow> media_id ID_PASSAGE (tp_passage_id p) \<and> tp_start_ms p = 0 \<and> tp_end_ms p = 900 \<and> tp_text p = example_text \<and>
     tp_ordinal p = 0 \<and> tp_source_atom_ids p = [ta_atom_id (example_item 0 0 900)] \<and>
     tok_count (tp_token_count p) = 5 \<and> tok_kind (tp_token_count p) = TOKEN_COUNT_EXACT \<and>
     tp_metadata p = [(lit ''boundary_reason'', JStr (lit ''end_of_input'')), (lit ''boundary_score'', JInt (- 18)),
       (lit ''hard_limit_exceeded'', JBool False), (lit ''unsplittable'', JBool False)]"

lemma build_one_passage:
  assumes "build_passage ctx one_atom 0 0 sel = Inr p" "gc_kind ctx = TOKEN_COUNT_EXACT"
    "find_boundary one_atom 0 default_policy example_counter u = Inr sel"
  shows "one_passage p"
proof -
  have sel: "sb_candidate sel = \<lparr>bc_end_index = 0, bc_text = example_text, bc_token_count = 5, bc_end_ms = 900, bc_score = - 18,
         bc_token_distance = 9, bc_duration_distance = 9\<rparr>" "sb_reason sel = ''end_of_input''" "\<not> sb_hard_limit_exceeded sel"
    "\<not> sb_unsplittable sel" using assms(3) unfolding one_atom_boundary by auto
  obtain pid tok where pid: "media_id ID_PASSAGE pid"
    and tok: "new_TokenCount (PInt 5) (PStr TOKEN_COUNT_EXACT) (tc_fingerprint (gc_counter ctx)) = Inr tok"
    and p: "new_TimedPassage (PStr pid) (PStr (gc_resource ctx)) (PStr (gc_representation ctx)) (PInt 0)
      (PInt 900) (PStr example_text) (PInt 0) (Typed tok) (PTuple [PStr (ta_atom_id (example_item 0 0 900))])
      (Typed (gc_grouper ctx)) (pdict [(''boundary_reason'', PStr (lit ''end_of_input'')), (''boundary_score'', PInt (- 18)),
      (''hard_limit_exceeded'', PBool False), (''unsplittable'', PBool False)]) = Inr p"
    using assms(1,2) derived_ids_canonical(4)
    by (fastforce simp: build_passage_def Let_def rbind_eq_Inr sel example_item_fields)
  have "tok_count tok = 5" "tok_kind tok = TOKEN_COUNT_EXACT"
    using tok by (auto simp: new_TokenCount_def result_simps require_member_def split: if_splits)
  then show ?thesis using p pid unfolding new_TimedPassage_def one_passage_def
    by (auto simp: rbind_eq_Inr require_int_eq_Inr require_text_eq_Inr validate_media_id_eq_Inr require_instance_eq_Typed
        source_items_eq_Inr validate_ids_eq_Inr require_fingerprint_eq_Inr passage_metadata)
qed

lemma one_atom_grouping:
  "\<exists>g p. group_timed_atoms (PySeq (map Typed one_atom)) (Typed default_policy) (Typed example_counter) (PStr TOKEN_COUNT_EXACT)
     (PStr example_rid) (Some (Typed (example_fp NormalizationFingerprint))) (PStr UNSPLITTABLE_FLAG) = Inr g \<and>
   gr_passages g = [p] \<and> one_passage p \<and> wf_fp GrouperFingerprint (gr_grouper g)"
proof -
  have norm: "ta_normalization (example_item 0 0 900) = example_fp NormalizationFingerprint"
    by (simp add: example_item_def example_atom_def)
  have atoms: "list_all usable_atom one_atom" "canonical_atoms one_atom example_rid = Inr ()"
    using example_item_usable [of 0 0 900] by (simp_all add: canonical_atoms_def) (simp_all add: example_item_def example_atom_def)
  then have valid: "validate_atoms [Typed (example_item 0 0 900)] (PStr example_rid) = Inr (example_rid, one_atom)"
    by (simp add: validate_atoms_def grouped_resource_def reraise_def validate_media_id_ok example_rid_media)
  have same: "group_timed_atoms (PySeq (map Typed one_atom)) (Typed default_policy) (Typed example_counter) (PStr TOKEN_COUNT_EXACT)
     (PStr example_rid) (Some (Typed (example_fp NormalizationFingerprint))) (PStr UNSPLITTABLE_FLAG) =
     group_timed_atoms (PySeq (map Typed one_atom)) (Typed default_policy) (Typed example_counter) (PStr TOKEN_COUNT_EXACT)
     (PStr example_rid) None (PStr UNSPLITTABLE_FLAG)"
    using atoms(2) norm by (simp add: group_timed_atoms_def valid effective_normalization_def require_fp_def example_fp_def)
  have "overlap_atoms default_policy = 0" "UNSPLITTABLE_FLAG \<in> set UNSPLITTABLE_POLICIES" "UNSPLITTABLE_FLAG \<noteq> UNSPLITTABLE_REJECT"
    by (simp_all add: default_policy_def UNSPLITTABLE_POLICIES_def UNSPLITTABLE_FLAG_def UNSPLITTABLE_REJECT_def)
  with atoms obtain g where g: "group_timed_atoms (PySeq (map Typed one_atom)) (Typed default_policy) (Typed example_counter)
      (PStr TOKEN_COUNT_EXACT) (PStr example_rid) None (PStr UNSPLITTABLE_FLAG) = Inr g"
    using group_total [of default_policy UNSPLITTABLE_FLAG TOKEN_COUNT_EXACT example_counter "example_fp TokenCounterFingerprint" example_rid one_atom]
      example_kind example_counter_ok example_fp_wf example_rid_media by blast
  then obtain ctx ps payload where run: "group_loop ctx one_atom 0 [] = Inr ps" "gr_passages g = ps"
      "gc_kind ctx = TOKEN_COUNT_EXACT" "gc_policy ctx = default_policy" "gc_counter ctx = example_counter"
      "fingerprint_from_payload GrouperFingerprint payload = Inr (gr_grouper g)"
    by (auto simp: group_timed_atoms_def rbind_eq_Inr valid require_typed_def require_choice_def Let_def finish_grouping_def
        new_TimedGroupingResult_def split: if_splits)
  then have "wf_fp GrouperFingerprint (gr_grouper g)"
    by (cases "gr_grouper g") (auto simp: fingerprint_from_payload_def new_Fingerprint_def rbind_eq_Inr wf_fp_def split: if_splits pyobj.splits)
  obtain sel p where "find_boundary one_atom 0 default_policy example_counter (gc_unsplittable ctx) = Inr sel"
    "build_passage ctx one_atom 0 0 sel = Inr p" "bc_end_index (sb_candidate sel) = 0" "ps = [p]"
    using run(1,4,5) one_atom_boundary by (subst (asm) group_loop.simps, subst (asm) group_loop.simps) (auto simp: rbind_eq_Inr)
  moreover from this have "one_passage p" using build_one_passage run(3) by blast
  ultimately show ?thesis using same g run(2) \<open>wf_fp GrouperFingerprint (gr_grouper g)\<close> by auto
qed

definition one_atom_transcript :: TranscriptArtifact where
  "one_atom_transcript = example_transcript\<lparr>tr_atoms := one_atom\<rparr>"

text \<open>The example input with this transcript, for the grouper fingerprint of the grouping.\<close>

definition one_atom_input :: "Fingerprint \<Rightarrow> TranscriptBatchBuilderInput" where
  "one_atom_input g = example_input\<lparr>ti_transcript := one_atom_transcript, ti_chunking_policy := default_policy, ti_grouper := g\<rparr>"

lemma one_atom_fields:
  "ti_resource (one_atom_input g) = ti_resource example_input" "ti_transcript (one_atom_input g) = one_atom_transcript"
  "ti_chunking_policy (one_atom_input g) = default_policy" "ti_grouper (one_atom_input g) = g" "ti_embedding (one_atom_input g) = None"
  "ti_whole_text_policy (one_atom_input g) = None" "tr_atoms one_atom_transcript = one_atom" "tr_language one_atom_transcript = None"
  "tr_normalization one_atom_transcript = example_fp NormalizationFingerprint"
  "tr_producer one_atom_transcript = example_fp ProducerFingerprint"
  "md_resource_id (ti_resource example_input) = example_rid" "md_resource_kind (ti_resource example_input) = RESOURCE_AUDIO"
  "md_media_type (ti_resource example_input) = [97]" "md_source_namespace (ti_resource example_input) = [110]"
  "ti_passage_representation_id (one_atom_input g) = ti_passage_representation_id example_input"
  "tr_representation_id one_atom_transcript = tr_representation_id example_transcript"
  by (simp_all add: one_atom_input_def one_atom_transcript_def) (simp_all add: example_input_def example_transcript_def)

lemma one_atom_names: "wf_name (ti_passage_representation_id example_input)" "wf_name (tr_representation_id example_transcript)"
  "length (tr_representation_id example_transcript) \<le> 100"
proof -
  have "media_id ID_REPRESENTATION (ti_passage_representation_id example_input)"
    "media_id ID_REPRESENTATION (tr_representation_id example_transcript)"
    using example_input_wf derived_ids_canonical(2) example_ids(2) by (auto simp: wf_transcript_input_def)
  then show "wf_name (ti_passage_representation_id example_input)" "wf_name (tr_representation_id example_transcript)"
    "length (tr_representation_id example_transcript) \<le> 100"
    using media_id_name media_id_length by (fastforce simp: wf_name_text ID_REPRESENTATION_def)+
qed

lemma short_wf_fp: "wf_fp cls fp \<Longrightarrow> short_json (JStr (fp_value fp))"
  using wf_fp_name [of cls fp] by (auto simp: wf_fp_def fingerprint_match_def wf_name_text)

lemma one_atom_id: "utf8_encodable (ta_atom_id (example_item 0 0 900))"
  using example_item_usable [of 0 0 900] media_id_name(2) by (auto simp: usable_atom_def)

lemma one_atom_locator: "\<exists>l. rbind (new_TimeSegmentLocator (PInt 0) (PInt 900) (PStr TRACK_AUDIO)) segment_to_core_locator = Inr l"
proof -
  have "short_json (JInt 0)" "short_json (JInt 900)" by (simp_all add: int_repr_def nat_digits.simps)
  then obtain ms where "freeze_json_mapping (pdict [(''end_ms'', PInt 900), (''start_ms'', PInt 0), (''track'', PStr (lit ''audio''))]) ''payload'' = Inr ms"
    using short_pdict_freezes [of "[(''end_ms'', JInt 900), (''start_ms'', JInt 0), (''track'', JStr (lit ''audio''))]"] by (auto simp: utf8_lit)
  moreover have "wf_name LOCATOR_TIME_SEGMENT"
    by (simp add: wf_name_text LOCATOR_TIME_SEGMENT_def utf8_lit) (simp add: lit_def blank_iff py_isspace_def)
  ultimately show ?thesis using native_names(2)
    by (simp add: new_TimeSegmentLocator_def segment_to_core_locator_def new_Locator_def field_ok TRACKS_def TRACK_AUDIO_def name_again)
qed

lemma one_atom_records:
  assumes "one_passage p" "gr_passages g = [p]" "wf_fp GrouperFingerprint (gr_grouper g)"
  shows "\<exists>x. passage_representation (one_atom_input (gr_grouper g)) g TOKEN_COUNT_EXACT = Inr x"
    "\<exists>x. passage_unit (one_atom_input (gr_grouper g)) TRACK_AUDIO p = Inr x"
proof -
  let ?fp = "\<lambda>cls. JStr (fp_value (example_fp cls))"
  obtain ms where "freeze_json_mapping (pdict [(''transcript_representation_id'', PStr (tr_representation_id example_transcript)),
      (''normalization_fingerprint'', PStr (fp_value (example_fp NormalizationFingerprint)))]) ''metadata'' = Inr ms"
    using short_pdict_freezes [of "[(''transcript_representation_id'', JStr (tr_representation_id example_transcript)),
      (''normalization_fingerprint'', ?fp NormalizationFingerprint)]"] short_fp one_atom_names by (auto simp: wf_name_text)
  from representation_total [OF one_atom_names(1) example_kinds(8,5,9) wf_fp_name [OF assms(3)] _ example_kinds(1) this, of 5]
  show "\<exists>x. passage_representation (one_atom_input (gr_grouper g)) g TOKEN_COUNT_EXACT = Inr x"
    using assms(1,2) by (simp add: passage_representation_def one_atom_fields join_paragraphs_def one_passage_def)
  let ?id = "ta_atom_id (example_item 0 0 900)"
  have id: "utf8_encodable ?id" "length ?id \<le> 1000" using one_atom_id by (simp_all add: example_item_def)
  have "short_json (JInt (- 18))" by (simp add: int_repr_def nat_digits.simps)
  then obtain ms where "freeze_json_mapping (pdict [(''boundary_reason'', PStr (lit ''end_of_input'')), (''boundary_score'', PInt (- 18)),
       (''hard_limit_exceeded'', PBool False), (''unsplittable'', PBool False), (''source_atom_ids'', PTuple [PStr ?id])]) ''metadata'' = Inr ms"
    using short_pdict_freezes [of "[(''boundary_reason'', JStr (lit ''end_of_input'')), (''boundary_score'', JInt (- 18)),
       (''hard_limit_exceeded'', JBool False), (''unsplittable'', JBool False), (''source_atom_ids'', JArr [JStr ?id])]"] id
    by (auto simp: utf8_lit)
  then have "freeze_json_mapping (members_object (AList.update (lit ''source_atom_ids'') (PTuple (map PStr (tp_source_atom_ids p)))
      (plain_members (tp_metadata p)))) ''metadata'' = Inr ms"
    using assms(1) by (simp add: one_passage_def members_object_def pdict_def plain_members_def)
  note unit = unit_total [OF _ example_kinds(8) one_atom_names(1) example_kinds(7,9) _ _ example_kinds(1) this, of "tp_passage_id p" 0 5]
  obtain l where "rbind (new_TimeSegmentLocator (PInt 0) (PInt 900) (PStr TRACK_AUDIO)) segment_to_core_locator = Inr l"
    using one_atom_locator by blast
  moreover have "wf_name (tp_passage_id p)" using assms(1) media_id_name by (auto simp: one_passage_def wf_name_text)
  ultimately show "\<exists>x. passage_unit (one_atom_input (gr_grouper g)) TRACK_AUDIO p = Inr x"
    using unit assms(1) by (simp add: passage_unit_def one_atom_fields one_passage_def)
qed

lemma one_atom_digest: "\<exists>b. json_digest (transcript_to_dict one_atom_transcript) = Inr (hexdigest b)"
proof (rule freezable_digest)
  show "freezable (transcript_to_dict one_atom_transcript) 0"
    using one_atom_id one_atom_names example_kinds example_strings(2)
    by (simp add: transcript_to_dict_def atom_to_dict_def plain_json_def freezable_pdict MAX_JSON_CONTAINER_DEPTH_def
        one_atom_fields example_texts)
      (simp add: one_atom_transcript_def example_transcript_def example_item_def example_atom_def wf_name_text
        REPRESENTATION_AUDIO_TRANSCRIPT_def utf8_lit)
qed

abbreviation one_atom_batch :: "Fingerprint \<Rightarrow> PreparedResourceBatch result" where
  "one_atom_batch g \<equiv> build_transcript_batch (\<lambda>_. Fin 0) (Typed (one_atom_input g)) (Typed example_counter) PNone (PStr METRIC_COSINE)
     (PStr TOKEN_COUNT_EXACT) (PStr UNSPLITTABLE_FLAG) RESOURCE_AUDIO TRACK_AUDIO"

lemma one_atom_build: "\<exists>g b. one_atom_batch g = Inr b"
proof -
  obtain g p where g: "group_timed_atoms (PySeq (map Typed one_atom)) (Typed default_policy) (Typed example_counter) (PStr TOKEN_COUNT_EXACT)
     (PStr example_rid) (Some (Typed (example_fp NormalizationFingerprint))) (PStr UNSPLITTABLE_FLAG) = Inr g"
    and p: "one_passage p" "gr_passages g = [p]" "wf_fp GrouperFingerprint (gr_grouper g)" using one_atom_grouping by blast
  obtain rep u where parts: "passage_representation (one_atom_input (gr_grouper g)) g TOKEN_COUNT_EXACT = Inr rep"
    "passage_unit (one_atom_input (gr_grouper g)) TRACK_AUDIO p = Inr u" using one_atom_records [OF p] by blast
  obtain h where h: "json_digest (transcript_to_dict one_atom_transcript) = Inr (hexdigest h)" using one_atom_digest by blast
  let ?fp = "\<lambda>cls. JStr (fp_value (example_fp cls))"
  obtain ms where "freeze_json_mapping (pdict [(''producer_fingerprint'', PStr (fp_value (example_fp ProducerFingerprint))),
      (''normalization_fingerprint'', PStr (fp_value (example_fp NormalizationFingerprint))),
      (''grouper_fingerprint'', PStr (fp_value (gr_grouper g)))]) ''metadata'' = Inr ms"
    using short_pdict_freezes [of "[(''producer_fingerprint'', ?fp ProducerFingerprint), (''normalization_fingerprint'', ?fp NormalizationFingerprint),
      (''grouper_fingerprint'', JStr (fp_value (gr_grouper g)))]"] short_fp short_wf_fp [OF p(3)] by auto
  then obtain res where res: "new_ResourceRecord (PStr example_rid) (PStr RESOURCE_AUDIO) (PStr [97]) (PStr [110])
      (Typed (md_locator (ti_resource example_input))) (PStr (lit ''sha256:'' @ hexdigest h)) PNone
      (pdict [(''producer_fingerprint'', PStr (fp_value (example_fp ProducerFingerprint))),
      (''normalization_fingerprint'', PStr (fp_value (example_fp NormalizationFingerprint))),
      (''grouper_fingerprint'', PStr (fp_value (gr_grouper g)))]) = Inr res"
    using projected_resource_total [OF example_kinds(8,3)] by blast
  have "\<exists>b. one_atom_batch (gr_grouper g) = Inr b"
    using g p(2) parts h res example_kind
    by (simp add: build_transcript_batch_def Let_def vectors_argument_def require_member_def METRICS_def METRIC_COSINE_def project_vectors_def
        one_atom_fields new_PreparedResourceBatch_def freeze_typed_sequence_def)
  then show ?thesis by blast
qed

theorem transcript_batch_valid_witness:
  "\<exists>g b. one_atom_batch g = Inr b \<and> wf_PreparedResourceBatch b \<and> (\<exists>u. batch_units b = [u])"
proof -
  obtain g b where b: "one_atom_batch g = Inr b" using one_atom_build by blast
  have "wf_descriptor (ti_resource (one_atom_input g))" using example_input_wf by (simp add: wf_transcript_input_def one_atom_fields)
  note valid = transcript_batch_valid [OF this b]
  obtain g' p where "group_timed_atoms (PySeq (map Typed one_atom)) (Typed default_policy) (Typed example_counter) (PStr TOKEN_COUNT_EXACT)
     (PStr example_rid) (Some (Typed (example_fp NormalizationFingerprint))) (PStr UNSPLITTABLE_FLAG) = Inr g'" "gr_passages g' = [p]"
    using one_atom_grouping by blast
  with valid have "length (batch_units b) = 1" by (auto simp: one_atom_fields)
  then show ?thesis using b valid by (auto simp: length_Suc_conv)
qed

end
