(* ===== verification/Sqlite_Tables.thy ===== *)
theory Sqlite_Tables
  imports Core_Validation Py_Hash
begin

text \<open>
  The tables of the SQLite catalog and the statements that \<open>resource_store.py\<close> executes on them. A table is the
  list of its rows. A row of \<open>core_representations\<close>, \<open>core_search_units\<close> or \<open>core_embedding_spaces\<close> has the columns
  of the record class it stores. A column of canonical JSON text stands as the frozen mapping it is the text of, the
  confidence of a facet as the number it is the text of. A statement is refused with \<open>IntegrityError\<close> when it
  violates a primary key, a unique constraint or a foreign key, and a bound integer beyond 64 bits raises
  \<open>OverflowError\<close>; the \<open>CHECK\<close> constraints on blank texts and on the range of numbers hold for every value the
  store binds, which it has validated.
\<close>

section \<open>Rows\<close>

type_synonym jmapping = "(pystr \<times> json) list"

record resource_row =
  row_resource :: ResourceRecord
  row_fingerprint :: pystr
  row_indexed_at :: pystr

record embedding_row =
  emb_unit_id :: pystr
  emb_space_id :: pystr
  emb_payload :: "nat list"
  emb_at :: pystr

record facet_row =
  fr_facet_id :: int
  fr_namespace :: pystr
  fr_value :: pystr

record assignment_row =
  as_resource_id :: pystr
  as_facet_id :: int
  as_origin :: pystr
  as_producer_is_null :: int
  as_producer_value :: pystr
  as_confidence :: "pyfloat option"

record fts_row =
  fts_unit_id :: pystr
  fts_content :: pystr

record state_row =
  sr_resource_id :: pystr
  sr_status :: PublicationStatus
  sr_lifecycle_id :: pystr
  sr_state_token :: pystr
  sr_source_namespace :: pystr
  sr_locator_kind :: pystr
  sr_locator_json :: jmapping
  sr_metadata_json :: jmapping

text \<open>
  A database: the tables of the catalog, whether the publication table exists, and the tables \<open>'v\<close> of the injected
  vector backend.
\<close>

record 'v db =
  has_states :: bool
  t_resources :: "resource_row list"
  t_representations :: "RepresentationRecord list"
  t_units :: "SearchUnitRecord list"
  t_spaces :: "EmbeddingSpaceRecord list"
  t_embeddings :: "embedding_row list"
  t_facets :: "facet_row list"
  t_assignments :: "assignment_row list"
  t_fts :: "fts_row list"
  t_states :: "state_row list"
  t_backend :: 'v

section \<open>Queries\<close>

abbreviation row_id :: "resource_row \<Rightarrow> pystr" where
  "row_id r \<equiv> res_id (row_resource r)"

type_synonym source_key = "pystr \<times> pystr \<times> pystr"

definition row_source_key :: "resource_row \<Rightarrow> source_key" where
  "row_source_key r = (res_source_namespace (row_resource r), loc_kind (res_locator (row_resource r)), row_fingerprint r)"

definition select_resource :: "pystr \<Rightarrow> 'v db \<Rightarrow> resource_row option" where
  "select_resource rid d = find (\<lambda>r. row_id r = rid) (t_resources d)"

definition select_by_source :: "source_key \<Rightarrow> 'v db \<Rightarrow> resource_row option" where
  "select_by_source key d = find (\<lambda>r. row_source_key r = key) (t_resources d)"

definition select_space :: "pystr \<Rightarrow> 'v db \<Rightarrow> EmbeddingSpaceRecord option" where
  "select_space sid d = find (\<lambda>s. space_id s = sid) (t_spaces d)"

definition select_state :: "pystr \<Rightarrow> 'v db \<Rightarrow> state_row option" where
  "select_state rid d = find (\<lambda>s. sr_resource_id s = rid) (t_states d)"

definition select_facet :: "pystr \<Rightarrow> pystr \<Rightarrow> 'v db \<Rightarrow> facet_row option" where
  "select_facet ns v d = find (\<lambda>f. fr_namespace f = ns \<and> fr_value f = v) (t_facets d)"

definition unit_ids_of :: "pystr \<Rightarrow> 'v db \<Rightarrow> pystr list" where
  "unit_ids_of rid d = map unit_id (filter (\<lambda>u. unit_resource_id u = rid) (t_units d))"

section \<open>Statements\<close>

definition int64 :: "int \<Rightarrow> bool" where
  "int64 i \<longleftrightarrow> - (2 ^ 63) \<le> i \<and> i < 2 ^ 63"

definition bind_ints :: "int list \<Rightarrow> unit result" where
  "bind_ints is = raise_if (\<not> list_all int64 is) OverflowError"

definition opt_list :: "'a option \<Rightarrow> 'a list" where
  "opt_list x = (case x of None \<Rightarrow> [] | Some y \<Rightarrow> [y])"

definition integrity :: "bool \<Rightarrow> unit result" where
  "integrity ok = raise_if (\<not> ok) IntegrityError"

definition insert_resource :: "resource_row \<Rightarrow> 'v db \<Rightarrow> 'v db result" where
  "insert_resource r d =
     rbind (integrity (row_id r \<notin> set (map row_id (t_resources d)) \<and>
         row_source_key r \<notin> set (map row_source_key (t_resources d)))) (\<lambda>_.
     Inr (d\<lparr>t_resources := t_resources d @ [r]\<rparr>))"

text \<open>\<open>ON CONFLICT(space_id) DO NOTHING\<close>.\<close>

definition insert_space :: "EmbeddingSpaceRecord \<Rightarrow> 'v db \<Rightarrow> 'v db result" where
  "insert_space s d =
     rbind (bind_ints [space_dimensions s]) (\<lambda>_.
     if space_id s \<in> set (map space_id (t_spaces d)) then Inr d
     else Inr (d\<lparr>t_spaces := t_spaces d @ [s]\<rparr>))"

definition insert_representation :: "RepresentationRecord \<Rightarrow> 'v db \<Rightarrow> 'v db result" where
  "insert_representation r d =
     rbind (bind_ints (opt_list (rep_token_count r))) (\<lambda>_.
     rbind (integrity (rep_id r \<notin> set (map rep_id (t_representations d)) \<and>
         rep_resource_id r \<in> set (map row_id (t_resources d)))) (\<lambda>_.
     Inr (d\<lparr>t_representations := t_representations d @ [r]\<rparr>)))"

definition insert_unit :: "SearchUnitRecord \<Rightarrow> 'v db \<Rightarrow> 'v db result" where
  "insert_unit u d =
     rbind (bind_ints (unit_ordinal u # opt_list (unit_token_count u))) (\<lambda>_.
     rbind (integrity (unit_id u \<notin> set (map unit_id (t_units d)) \<and>
         (unit_representation_id u, unit_ordinal u) \<notin>
           set (map (\<lambda>v. (unit_representation_id v, unit_ordinal v)) (t_units d)) \<and>
         (unit_resource_id u, unit_representation_id u) \<in>
           set (map (\<lambda>r. (rep_resource_id r, rep_id r)) (t_representations d)))) (\<lambda>_.
     Inr (d\<lparr>t_units := t_units d @ [u]\<rparr>)))"

definition insert_embedding :: "embedding_row \<Rightarrow> 'v db \<Rightarrow> 'v db result" where
  "insert_embedding e d =
     rbind (integrity ((emb_unit_id e, emb_space_id e) \<notin> set (map (\<lambda>x. (emb_unit_id x, emb_space_id x)) (t_embeddings d)) \<and>
         emb_unit_id e \<in> set (map unit_id (t_units d)) \<and> emb_space_id e \<in> set (map space_id (t_spaces d)) \<and>
         emb_payload e \<noteq> [])) (\<lambda>_.
     Inr (d\<lparr>t_embeddings := t_embeddings d @ [e]\<rparr>))"

text \<open>\<open>ON CONFLICT(namespace,value) DO NOTHING\<close>; a new \<open>INTEGER PRIMARY KEY\<close> is one more than the largest.\<close>

definition next_facet_id :: "facet_row list \<Rightarrow> int" where
  "next_facet_id fs = (if fs = [] then 1 else Max (fr_facet_id ` set fs) + 1)"

definition insert_facet :: "pystr \<Rightarrow> pystr \<Rightarrow> 'v db \<Rightarrow> 'v db result" where
  "insert_facet ns v d =
     (if select_facet ns v d \<noteq> None then Inr d
      else Inr (d\<lparr>t_facets := t_facets d @
        [\<lparr>fr_facet_id = next_facet_id (t_facets d), fr_namespace = ns, fr_value = v\<rparr>]\<rparr>))"

definition assignment_key :: "assignment_row \<Rightarrow> pystr \<times> int \<times> pystr \<times> int \<times> pystr" where
  "assignment_key a = (as_resource_id a, as_facet_id a, as_origin a, as_producer_is_null a, as_producer_value a)"

definition insert_assignment :: "assignment_row \<Rightarrow> 'v db \<Rightarrow> 'v db result" where
  "insert_assignment a d =
     rbind (integrity (assignment_key a \<notin> set (map assignment_key (t_assignments d)) \<and>
         as_resource_id a \<in> set (map row_id (t_resources d)) \<and> as_facet_id a \<in> set (map fr_facet_id (t_facets d)))) (\<lambda>_.
     Inr (d\<lparr>t_assignments := t_assignments d @ [a]\<rparr>))"

definition insert_fts :: "pystr \<Rightarrow> pystr \<Rightarrow> 'v db \<Rightarrow> 'v db result" where
  "insert_fts uid content d = Inr (d\<lparr>t_fts := t_fts d @ [\<lparr>fts_unit_id = uid, fts_content = content\<rparr>]\<rparr>)"

text \<open>
  \<open>DELETE FROM core_resources\<close> and its cascades: representations, units of these representations, embeddings of
  these units, facet assignments.
\<close>

definition delete_resource_row :: "pystr \<Rightarrow> 'v db \<Rightarrow> 'v db result" where
  "delete_resource_row rid d =
     (let reps = filter (\<lambda>r. rep_resource_id r = rid) (t_representations d);
          dead = (\<lambda>u. (unit_resource_id u, unit_representation_id u) \<in> set (map (\<lambda>r. (rep_resource_id r, rep_id r)) reps));
          gone = map unit_id (filter dead (t_units d))
      in Inr (d\<lparr>t_resources := filter (\<lambda>r. row_id r \<noteq> rid) (t_resources d),
                t_representations := filter (\<lambda>r. rep_resource_id r \<noteq> rid) (t_representations d),
                t_units := filter (\<lambda>u. \<not> dead u) (t_units d),
                t_embeddings := filter (\<lambda>e. emb_unit_id e \<notin> set gone) (t_embeddings d),
                t_assignments := filter (\<lambda>a. as_resource_id a \<noteq> rid) (t_assignments d)\<rparr>))"

definition delete_fts_rows :: "pystr \<Rightarrow> 'v db \<Rightarrow> 'v db result" where
  "delete_fts_rows rid d = Inr (d\<lparr>t_fts := filter (\<lambda>f. fts_unit_id f \<notin> set (unit_ids_of rid d)) (t_fts d)\<rparr>)"

definition prune_facet_rows :: "'v db \<Rightarrow> 'v db result" where
  "prune_facet_rows d =
     Inr (d\<lparr>t_facets := filter (\<lambda>f. fr_facet_id f \<in> set (map as_facet_id (t_assignments d))) (t_facets d)\<rparr>)"

text \<open>The unique index over the source bindings of the states that are not deleted.\<close>

definition state_source :: "state_row \<Rightarrow> pystr \<times> pystr \<times> jmapping" where
  "state_source s = (sr_source_namespace s, sr_locator_kind s, sr_locator_json s)"

definition upsert_state :: "state_row \<Rightarrow> 'v db \<Rightarrow> 'v db result" where
  "upsert_state s d =
     (let others = filter (\<lambda>x. sr_resource_id x \<noteq> sr_resource_id s) (t_states d) in
      rbind (integrity (sr_status s = deleted \<or>
         state_source s \<notin> set (map state_source (filter (\<lambda>x. sr_status x \<noteq> deleted) others)))) (\<lambda>_.
      if select_state (sr_resource_id s) d = None then Inr (d\<lparr>t_states := t_states d @ [s]\<rparr>)
      else Inr (d\<lparr>t_states := map (\<lambda>x. if sr_resource_id x = sr_resource_id s then s else x) (t_states d)\<rparr>)))"

text \<open>\<open>PRAGMA foreign_key_check\<close>.\<close>

definition foreign_keys_ok :: "'v db \<Rightarrow> bool" where
  "foreign_keys_ok d \<longleftrightarrow>
     list_all (\<lambda>r. rep_resource_id r \<in> set (map row_id (t_resources d))) (t_representations d) \<and>
     list_all (\<lambda>u. (unit_resource_id u, unit_representation_id u) \<in>
        set (map (\<lambda>r. (rep_resource_id r, rep_id r)) (t_representations d))) (t_units d) \<and>
     list_all (\<lambda>e. emb_unit_id e \<in> set (map unit_id (t_units d)) \<and> emb_space_id e \<in> set (map space_id (t_spaces d)))
        (t_embeddings d) \<and>
     list_all (\<lambda>a. as_resource_id a \<in> set (map row_id (t_resources d)) \<and> as_facet_id a \<in> set (map fr_facet_id (t_facets d)))
        (t_assignments d)"

end
