(* ===== verification/Sqlite_Connection.thy ===== *)
theory Sqlite_Connection
  imports Sqlite_Tables
begin

text \<open>
  A connection of the \<open>sqlite3\<close> module and the operations on it. The last committed database and the working copy of
  an open transaction are kept apart: a statement changes the working copy, \<open>commit\<close> makes it the committed database,
  \<open>rollback\<close> drops it. An operation returns the connection also when it raises. What is outside the program (the
  failure hook, errors of the engine, the clock and the generated identities) is an argument of each operation.
\<close>

section \<open>Connections and operations\<close>

record 'v conn =
  committed :: "'v db"
  working :: "'v db option"
  open_count :: nat

text \<open>
  The surroundings of one call: what the failure hook raises at a named point, what the engine raises at a statement,
  the readings of the clock, and the results of the two calls of \<open>uuid4\<close>.
\<close>

record surroundings =
  hook :: "string \<Rightarrow> exn option"
  engine :: "string \<Rightarrow> exn option"
  now :: "nat \<Rightarrow> pystr"
  new_lifecycle :: pystr
  new_token :: pystr

type_synonym ('v, 'a) sop = "'v conn \<Rightarrow> 'v conn \<times> 'a result"

definition op_return :: "'a \<Rightarrow> ('v, 'a) sop" where
  "op_return x = (\<lambda>c. (c, Inr x))"

definition op_raise :: "exn \<Rightarrow> ('v, 'a) sop" where
  "op_raise e = (\<lambda>c. (c, Inl e))"

definition op_lift :: "'a result \<Rightarrow> ('v, 'a) sop" where
  "op_lift r = (\<lambda>c. (c, r))"

definition op_bind :: "('v, 'a) sop \<Rightarrow> ('a \<Rightarrow> ('v, 'b) sop) \<Rightarrow> ('v, 'b) sop" where
  "op_bind m f = (\<lambda>c. case m c of (c', Inl e) \<Rightarrow> (c', Inl e) | (c', Inr x) \<Rightarrow> f x c')"

text \<open>\<open>try: m except E as e: h\<close>; a handler that does not catch \<open>e\<close> raises it again.\<close>

definition op_try :: "('v, 'a) sop \<Rightarrow> (exn \<Rightarrow> ('v, 'a) sop) \<Rightarrow> ('v, 'a) sop" where
  "op_try m h = (\<lambda>c. case m c of (c', Inl e) \<Rightarrow> h e c' | (c', Inr x) \<Rightarrow> (c', Inr x))"

text \<open>\<open>try: m finally: f\<close> with an \<open>f\<close> that does not raise.\<close>

definition op_finally :: "('v, 'a) sop \<Rightarrow> ('v conn \<Rightarrow> 'v conn) \<Rightarrow> ('v, 'a) sop" where
  "op_finally m f = (\<lambda>c. case m c of (c', r) \<Rightarrow> (f c', r))"

fun op_for :: "'a list \<Rightarrow> ('a \<Rightarrow> ('v, unit) sop) \<Rightarrow> ('v, unit) sop" where
  "op_for [] f = op_return ()"
| "op_for (x # xs) f = op_bind (f x) (\<lambda>_. op_for xs f)"

section \<open>The engine\<close>

definition current :: "'v conn \<Rightarrow> 'v db" where
  "current c = (case working c of None \<Rightarrow> committed c | Some w \<Rightarrow> w)"

definition in_transaction :: "'v conn \<Rightarrow> bool" where
  "in_transaction c \<longleftrightarrow> working c \<noteq> None"

definition op_in_transaction :: "('v, bool) sop" where
  "op_in_transaction = (\<lambda>c. (c, Inr (in_transaction c)))"

definition op_fault :: "exn option \<Rightarrow> ('v, unit) sop" where
  "op_fault e = (case e of None \<Rightarrow> op_return () | Some x \<Rightarrow> op_raise x)"

text \<open>A \<open>SELECT\<close>.\<close>

definition op_query :: "surroundings \<Rightarrow> string \<Rightarrow> ('v db \<Rightarrow> 'a) \<Rightarrow> ('v, 'a) sop" where
  "op_query ev label f = op_bind (op_fault (engine ev label)) (\<lambda>_ c. (c, Inr (f (current c))))"

text \<open>A statement that changes the tables; outside a transaction the module opens one first.\<close>

definition op_exec :: "surroundings \<Rightarrow> string \<Rightarrow> ('v db \<Rightarrow> 'v db result) \<Rightarrow> ('v, unit) sop" where
  "op_exec ev label f =
     op_bind (op_fault (engine ev label)) (\<lambda>_ c.
       case f (current c) of
         Inl e \<Rightarrow> (c\<lparr>working := Some (current c)\<rparr>, Inl e)
       | Inr w \<Rightarrow> (c\<lparr>working := Some w\<rparr>, Inr ()))"

definition op_begin_immediate :: "surroundings \<Rightarrow> ('v, unit) sop" where
  "op_begin_immediate ev =
     op_bind (op_fault (engine ev ''BEGIN IMMEDIATE'')) (\<lambda>_ c.
       if in_transaction c then (c, Inl (OperationalError False))
       else (c\<lparr>working := Some (committed c)\<rparr>, Inr ()))"

definition op_commit :: "surroundings \<Rightarrow> ('v, unit) sop" where
  "op_commit ev =
     op_bind (op_fault (engine ev ''COMMIT'')) (\<lambda>_ c. (c\<lparr>committed := current c, working := None\<rparr>, Inr ()))"

definition conn_rollback :: "'v conn \<Rightarrow> 'v conn" where
  "conn_rollback c = c\<lparr>working := None\<rparr>"

definition op_rollback :: "('v, unit) sop" where
  "op_rollback = (\<lambda>c. (conn_rollback c, Inr ()))"

section \<open>Execution rules\<close>

lemma op_simps [simp]:
  "op_return x c = (c, Inr x)" "op_raise e c = (c, Inl e)" "op_lift r c = (c, r)" "op_rollback c = (conn_rollback c, Inr ())"
  "op_in_transaction c = (c, Inr (in_transaction c))"
  by (simp_all add: op_return_def op_raise_def op_lift_def op_rollback_def op_in_transaction_def)

lemma op_bind_Inl [simp]: "m c = (c', Inl e) \<Longrightarrow> op_bind m f c = (c', Inl e)"
  by (simp add: op_bind_def)

lemma op_bind_Inr [simp]: "m c = (c', Inr x) \<Longrightarrow> op_bind m f c = f x c'"
  by (simp add: op_bind_def)

lemma op_try_Inl [simp]: "m c = (c', Inl e) \<Longrightarrow> op_try m h c = h e c'"
  by (simp add: op_try_def)

lemma op_try_Inr [simp]: "m c = (c', Inr x) \<Longrightarrow> op_try m h c = (c', Inr x)"
  by (simp add: op_try_def)

lemma op_bind_eq_Inr: "op_bind m f c = (c', Inr y) \<longleftrightarrow> (\<exists>c1 x. m c = (c1, Inr x) \<and> f x c1 = (c', Inr y))"
  by (auto simp: op_bind_def split: prod.splits sum.splits)

lemma op_bind_eq_Inl:
  "op_bind m f c = (c', Inl e) \<longleftrightarrow> m c = (c', Inl e) \<or> (\<exists>c1 x. m c = (c1, Inr x) \<and> f x c1 = (c', Inl e))"
  by (auto simp: op_bind_def split: prod.splits sum.splits)

lemma op_try_eq_Inr:
  "op_try m h c = (c', Inr y) \<longleftrightarrow> m c = (c', Inr y) \<or> (\<exists>c1 e. m c = (c1, Inl e) \<and> h e c1 = (c', Inr y))"
  by (auto simp: op_try_def split: prod.splits sum.splits)

lemma op_try_eq_Inl: "op_try m h c = (c', Inl e) \<longleftrightarrow> (\<exists>c1 e1. m c = (c1, Inl e1) \<and> h e1 c1 = (c', Inl e))"
  by (auto simp: op_try_def split: prod.splits sum.splits)

lemma op_fault_eq: "op_fault e c = (c', Inr u) \<longleftrightarrow> e = None \<and> c' = c"
  by (cases e) (auto simp: op_fault_def)

lemma op_query_eq_Inr: "op_query ev l f c = (c', Inr x) \<longleftrightarrow> engine ev l = None \<and> c' = c \<and> x = f (current c)"
  by (auto simp: op_query_def op_bind_eq_Inr op_fault_eq)

lemma op_exec_eq_Inr:
  "op_exec ev l f c = (c', Inr u) \<longleftrightarrow>
     engine ev l = None \<and> (\<exists>w. f (current c) = Inr w \<and> c' = c\<lparr>working := Some w\<rparr>)"
  by (auto simp: op_exec_def op_bind_eq_Inr op_fault_eq split: sum.splits)

lemma current_simps [simp]:
  "current (c\<lparr>working := Some w\<rparr>) = w" "current (c\<lparr>working := None\<rparr>) = committed c" "current (c\<lparr>open_count := n\<rparr>) = current c"
  by (simp_all add: current_def split: option.split)

section \<open>Operations that do not commit\<close>

text \<open>The committed database is as before, whatever the outcome.\<close>

definition keeps :: "('v, 'a) sop \<Rightarrow> bool" where
  "keeps m \<longleftrightarrow> (\<forall>c. committed (fst (m c)) = committed c)"

named_theorems keeps_intros

lemma keepsD: "keeps m \<Longrightarrow> m c = (c', r) \<Longrightarrow> committed c' = committed c"
  unfolding keeps_def by (metis fst_conv)

lemma keeps_basic [keeps_intros]:
  "keeps (op_return x)" "keeps (op_raise e)" "keeps (op_lift r)" "keeps op_rollback" "keeps op_in_transaction"
  by (simp_all add: keeps_def conn_rollback_def)

lemma keeps_bind [keeps_intros]: "keeps m \<Longrightarrow> (\<And>x. keeps (f x)) \<Longrightarrow> keeps (op_bind m f)"
  by (auto simp: keeps_def op_bind_def split: prod.splits sum.splits) (metis fst_conv)+

lemma keeps_try [keeps_intros]: "keeps m \<Longrightarrow> (\<And>e. keeps (h e)) \<Longrightarrow> keeps (op_try m h)"
  by (auto simp: keeps_def op_try_def split: prod.splits sum.splits) (metis fst_conv)+

lemma keeps_if [keeps_intros]: "keeps a \<Longrightarrow> keeps b \<Longrightarrow> keeps (if x then a else b)"
  by simp

lemma keeps_option [keeps_intros]: "keeps a \<Longrightarrow> (\<And>x. keeps (f x)) \<Longrightarrow> keeps (case z of None \<Rightarrow> a | Some x \<Rightarrow> f x)"
  by (cases z) simp_all

lemma keeps_for [keeps_intros]: "(\<And>x. keeps (f x)) \<Longrightarrow> keeps (op_for xs f)"
  by (induction xs) (auto intro: keeps_intros)

lemma keeps_fault [keeps_intros]: "keeps (op_fault e)"
  by (cases e) (simp_all add: op_fault_def keeps_basic)

lemma keeps_query [keeps_intros]: "keeps (op_query ev l f)"
  unfolding op_query_def by (intro keeps_intros) (simp add: keeps_def)

lemma keeps_exec [keeps_intros]: "keeps (op_exec ev l f)"
  unfolding op_exec_def by (intro keeps_intros) (simp add: keeps_def split: sum.split)

lemma keeps_begin [keeps_intros]: "keeps (op_begin_immediate ev)"
  unfolding op_begin_immediate_def by (intro keeps_intros) (simp add: keeps_def)

end
