(* ===== verification/Sqlite_Store.thy ===== *)
theory Sqlite_Store
  imports Sqlite_Connection
begin

text \<open>
  \<open>mdrack_sqlite/resource_store.py\<close>, the write side of \<open>SQLiteResourceStore\<close>: the preparation of a batch, the
  replacement of a resource graph, the publication states with their conditional operations, deletion and the repair
  of the text index. The vector codecs and the vector backend are injected: a codec is a pair of functions, the
  backend reads the whole database and writes its own tables. An exception is an instance of \<open>Exception\<close>.
\<close>

section \<open>Vector codecs\<close>

record vector_codec =
  vc_encode :: "pyfloat list \<Rightarrow> int \<Rightarrow> nat list result"
  vc_decode :: "nat list \<Rightarrow> int \<Rightarrow> pyfloat list result"

type_synonym codec_registry = "(pystr \<times> vector_codec) list"

definition FLOAT64_CODEC_ID :: pystr where "FLOAT64_CODEC_ID = lit ''ieee754-f64-le-v1''"
definition FLOAT32_CODEC_ID :: pystr where "FLOAT32_CODEC_ID = lit ''ieee754-f32-le-v1''"
definition LEGACY_JSON_F64_CODEC_ID :: pystr where "LEGACY_JSON_F64_CODEC_ID = lit ''json-f64-v1''"

text \<open>\<open>metadata.get(key)\<close>; an explicit \<open>null\<close> reads as a missing key.\<close>

definition meta_get :: "jmapping \<Rightarrow> string \<Rightarrow> json" where
  "meta_get m k = (case map_of m (lit k) of None \<Rightarrow> JNull | Some j \<Rightarrow> j)"

definition codec_id_from_metadata :: "jmapping \<Rightarrow> pystr result" where
  "codec_id_from_metadata metadata =
     (let policy = meta_get metadata ''vector_value_policy''; codec = meta_get metadata ''vector_codec'' in
      if policy = JNull then
        if codec = JNull \<or> codec = JStr FLOAT64_CODEC_ID then Inr FLOAT64_CODEC_ID
        else if codec = JStr FLOAT32_CODEC_ID
        then Inl (ValueError ''float32 codec requires an explicit float32 value policy'')
        else if codec = JStr LEGACY_JSON_F64_CODEC_ID
        then Inl (ValueError ''legacy JSON codec is diagnostic read-only'')
        else Inl (ValueError ''unknown vector codec'')
      else if policy \<noteq> JStr (lit ''ieee754-f32-canonical-v1'') \<or> codec \<noteq> JStr FLOAT32_CODEC_ID
      then Inl (ValueError ''vector value policy and codec are incompatible'')
      else Inr FLOAT32_CODEC_ID)"

definition registry_get :: "codec_registry \<Rightarrow> pystr \<Rightarrow> vector_codec result" where
  "registry_get reg cid =
     (if cid = [] then Inl (ValueError ''vector codec id must be non-empty'')
      else case map_of reg cid of None \<Rightarrow> Inl (ValueError ''unknown vector codec'') | Some c \<Rightarrow> Inr c)"

text \<open>The binary payload, or the legacy JSON payload of a space whose metadata names no codec.\<close>

definition decode_vector_payload :: "codec_registry \<Rightarrow> nat list \<Rightarrow> int \<Rightarrow> jmapping \<Rightarrow> pyfloat list result" where
  "decode_vector_payload reg payload dimensions metadata =
     rbind (codec_id_from_metadata metadata) (\<lambda>cid.
     case rbind (registry_get reg cid) (\<lambda>c. vc_decode c payload dimensions) of
       Inl (ValueError m) \<Rightarrow>
         if cid \<noteq> FLOAT64_CODEC_ID \<or> meta_get metadata ''vector_codec'' \<noteq> JNull then Inl (ValueError m)
         else rbind (registry_get reg LEGACY_JSON_F64_CODEC_ID) (\<lambda>c. vc_decode c payload dimensions)
     | r \<Rightarrow> r)"

definition codec_for_space :: "codec_registry \<Rightarrow> EmbeddingSpaceRecord \<Rightarrow> vector_codec result" where
  "codec_for_space reg sp = rbind (codec_id_from_metadata (space_metadata sp)) (registry_get reg)"

section \<open>The store\<close>

record 'v vector_backend =
  vb_replace_vectors :: "pystr \<Rightarrow> EmbeddingSpaceRecord list \<Rightarrow> VectorRecord list \<Rightarrow> 'v db \<Rightarrow> 'v result"
  vb_delete_vectors :: "pystr \<Rightarrow> 'v db \<Rightarrow> 'v result"
  vb_verify :: "'v db \<Rightarrow> unit result"

record 'v store =
  codecs :: codec_registry
  backend :: "'v vector_backend"

text \<open>\<open>BuiltinExactVectorBackend\<close> keeps no rows of its own.\<close>

definition builtin_exact_backend :: "unit vector_backend" where
  "builtin_exact_backend =
     \<lparr>vb_replace_vectors = (\<lambda>_ _ _ _. Inr ()), vb_delete_vectors = (\<lambda>_ _. Inr ()), vb_verify = (\<lambda>_. Inr ())\<rparr>"

definition op_backend :: "surroundings \<Rightarrow> string \<Rightarrow> ('v db \<Rightarrow> 'v result) \<Rightarrow> ('v, unit) sop" where
  "op_backend ev label f = op_exec ev label (\<lambda>d. rbind (f d) (\<lambda>v. Inr (d\<lparr>t_backend := v\<rparr>)))"

definition verify_backend :: "'v store \<Rightarrow> surroundings \<Rightarrow> ('v, unit) sop" where
  "verify_backend st ev = op_bind (op_query ev ''backend.verify'' (vb_verify (backend st))) op_lift"

definition is_busy :: "exn \<Rightarrow> bool" where
  "is_busy e = (case e of OperationalError busy \<Rightarrow> busy | _ \<Rightarrow> False)"

text \<open>The two last \<open>except\<close> clauses of every operation.\<close>

definition catalog_error :: "exn \<Rightarrow> exn" where
  "catalog_error e = CatalogExecutionError (if is_busy e then ADAPTER_TIMEOUT else CATALOG_ERROR)"

section \<open>Encoding\<close>

definition encode_mapping :: "jmapping \<Rightarrow> string \<Rightarrow> jmapping result" where
  "encode_mapping value field_name = freeze_json_mapping (of_jmap value) field_name"

definition decode_mapping :: "jmapping \<Rightarrow> string \<Rightarrow> jmapping result" where
  "decode_mapping value field_name =
     rbind (freeze_json_mapping (to_plain_json (JObj value)) field_name) (\<lambda>frozen.
     if canonical_json (JObj frozen) \<noteq> canonical_json (JObj value)
     then Inl (ValueError (field_name @ '' is not canonical JSON'')) else Inr frozen)"

definition locator_fingerprint :: "jmapping \<Rightarrow> pystr" where
  "locator_fingerprint payload = lit ''sha256:'' @ hexdigest (utf8_encode (canonical_json (JObj payload)))"

definition locator_parts :: "Locator \<Rightarrow> string \<Rightarrow> (pystr \<times> jmapping \<times> pystr) result" where
  "locator_parts l field_name =
     rbind (require_non_empty (PStr (loc_kind l)) (field_name @ ''.kind'')) (\<lambda>kind.
     rbind (encode_mapping (loc_payload l) (field_name @ ''.payload'')) (\<lambda>payload.
     Inr (kind, payload, locator_fingerprint payload)))"

definition decode_locator :: "pystr \<Rightarrow> jmapping \<Rightarrow> string \<Rightarrow> Locator result" where
  "decode_locator kind payload field_name =
     rbind (require_non_empty (PStr kind) (field_name @ ''.kind'')) (\<lambda>kind.
     rbind (decode_mapping payload (field_name @ ''.payload'')) (\<lambda>payload.
     new_Locator (PStr kind) (of_jmap payload)))"

definition validate_token_pair :: "int option \<Rightarrow> pystr option \<Rightarrow> unit result" where
  "validate_token_pair n kind =
     (case (n, kind) of
        (None, None) \<Rightarrow> Inr ()
      | (Some i, Some k) \<Rightarrow>
          raise_if (i < 0 \<or> k \<notin> {lit ''exact'', lit ''estimated''}) (ValueError ''token count and kind are invalid'')
      | _ \<Rightarrow> Inl (ValueError ''token count and kind are invalid''))"

section \<open>Preparing a batch\<close>

text \<open>The assignment columns of a facet: origin, discriminator and value of the producer, confidence.\<close>

type_synonym facet_values = "pystr \<times> pystr \<times> pystr \<times> int \<times> pystr \<times> pyfloat option"

record prepared =
  pp_batch :: PreparedResourceBatch
  pp_resource :: resource_row
  pp_representations :: "RepresentationRecord list"
  pp_units :: "SearchUnitRecord list"
  pp_spaces :: "EmbeddingSpaceRecord list"
  pp_vectors :: "embedding_row list"
  pp_facets :: "facet_values list"
  pp_fts :: "(pystr \<times> pystr) list"
  pp_source_key :: source_key

text \<open>
  The validators return their argument, so the columns of a row are the fields of the record, with the JSON columns
  re-frozen.
\<close>

definition need :: "pystr \<Rightarrow> string \<Rightarrow> unit result" where
  "need s field_name = void (require_non_empty (PStr s) field_name)"

definition need_optional :: "pystr option \<Rightarrow> string \<Rightarrow> unit result" where
  "need_optional s field_name = void (require_optional_non_empty (opt_str s) field_name)"

definition need_utf8 :: "pystr option \<Rightarrow> string \<Rightarrow> unit result" where
  "need_utf8 s field_name = (case s of None \<Rightarrow> Inr () | Some t \<Rightarrow> void (require_utf8_encodable (PStr t) field_name))"

definition prepare_resource :: "surroundings \<Rightarrow> ResourceRecord \<Rightarrow> resource_row result" where
  "prepare_resource ev r =
     rbind (locator_parts (res_locator r) ''resource.locator'') (\<lambda>(kind, payload, fingerprint).
     rbind (checks [need (res_id r) ''resource_id'', need (res_kind r) ''resource_kind'', need (res_media_type r) ''media_type'',
       need (res_source_namespace r) ''source_namespace'', need_optional (res_content_hash r) ''content_hash'',
       need_utf8 (res_title r) ''title'']) (\<lambda>_.
     rbind (encode_mapping (res_metadata r) ''resource.metadata'') (\<lambda>metadata.
     Inr \<lparr>row_resource = r\<lparr>res_locator := \<lparr>loc_kind = kind, loc_payload = payload\<rparr>, res_metadata := metadata\<rparr>,
          row_fingerprint = fingerprint, row_indexed_at = now ev 0\<rparr>)))"

definition prepare_representation :: "RepresentationRecord \<Rightarrow> RepresentationRecord result" where
  "prepare_representation r =
     rbind (validate_token_pair (rep_token_count r) (rep_token_count_kind r)) (\<lambda>_.
     rbind (checks [need (rep_id r) ''representation_id'', need (rep_resource_id r) ''resource_id'',
       need (rep_kind r) ''representation_kind'', need (rep_modality r) ''modality'', need_utf8 (rep_text r) ''text'',
       need_optional (rep_language r) ''language'', need_optional (rep_producer_fingerprint r) ''producer_fingerprint'']) (\<lambda>_.
     rbind (encode_mapping (rep_metadata r) ''representation.metadata'') (\<lambda>metadata.
     Inr (r\<lparr>rep_metadata := metadata\<rparr>))))"

text \<open>The modalities seen so far; their keys are \<open>representation_ids\<close>.\<close>

fun prepare_representations ::
  "pystr \<Rightarrow> (pystr \<times> pystr) list \<Rightarrow> RepresentationRecord list \<Rightarrow>
   ((pystr \<times> pystr) list \<times> RepresentationRecord list) result" where
  "prepare_representations rid mods [] = Inr (mods, [])"
| "prepare_representations rid mods (r # rs) =
     rbind (raise_if (rep_resource_id r \<noteq> rid \<or> rep_id r \<in> set (keys mods))
       (ValueError ''invalid representation ownership or identity'')) (\<lambda>_.
     rbind (prepare_representation r) (\<lambda>row.
     rbind (prepare_representations rid ((rep_id r, rep_modality r) # mods) rs) (\<lambda>(mods', rows).
     Inr (mods', row # rows))))"

definition prepare_unit :: "pystr \<Rightarrow> (pystr \<times> pystr) list \<Rightarrow> SearchUnitRecord list \<Rightarrow> SearchUnitRecord \<Rightarrow> SearchUnitRecord result" where
  "prepare_unit rid mods seen u =
     rbind (locator_parts (unit_evidence_locator u) ''evidence_locator'') (\<lambda>(kind, payload, _).
     rbind (raise_if (unit_resource_id u \<noteq> rid \<or> unit_id u \<in> set (map unit_id seen) \<or>
         unit_representation_id u \<notin> set (keys mods) \<or>
         (unit_representation_id u, unit_ordinal u) \<in> set (map (\<lambda>v. (unit_representation_id v, unit_ordinal v)) seen) \<or>
         map_of mods (unit_representation_id u) \<noteq> Some (unit_modality u))
       (ValueError ''invalid unit ownership, identity, modality, or ordinal'')) (\<lambda>_.
     rbind (raise_if (unit_ordinal u < 0) (ValueError ''ordinal must be a non-negative integer'')) (\<lambda>_.
     rbind (validate_token_pair (unit_token_count u) (unit_token_count_kind u)) (\<lambda>_.
     rbind (checks [need (unit_id u) ''unit_id'', need (unit_resource_id u) ''resource_id'',
       need (unit_representation_id u) ''representation_id'', need (unit_kind u) ''unit_kind'',
       need (unit_modality u) ''modality'', need_utf8 (unit_text u) ''text'']) (\<lambda>_.
     rbind (encode_mapping (unit_metadata u) ''unit.metadata'') (\<lambda>metadata.
     Inr (u\<lparr>unit_evidence_locator := \<lparr>loc_kind = kind, loc_payload = payload\<rparr>, unit_metadata := metadata\<rparr>)))))))"

fun prepare_units ::
  "pystr \<Rightarrow> (pystr \<times> pystr) list \<Rightarrow> SearchUnitRecord list \<Rightarrow> SearchUnitRecord list \<Rightarrow> SearchUnitRecord list result" where
  "prepare_units rid mods seen [] = Inr []"
| "prepare_units rid mods seen (u # us) =
     rbind (prepare_unit rid mods seen u) (\<lambda>row.
     rbind (prepare_units rid mods (u # seen) us) (\<lambda>rows. Inr (row # rows)))"

definition text_rows :: "SearchUnitRecord list \<Rightarrow> (pystr \<times> pystr) list" where
  "text_rows us = concat (map (\<lambda>u. case unit_text u of
     None \<Rightarrow> [] | Some t \<Rightarrow> if blank t then [] else [(unit_id u, t)]) us)"

definition prepare_space ::
  "codec_registry \<Rightarrow> EmbeddingSpaceRecord list \<Rightarrow> EmbeddingSpaceRecord \<Rightarrow> (vector_codec \<times> EmbeddingSpaceRecord) result" where
  "prepare_space reg seen sp =
     rbind (raise_if (space_id sp \<in> set (map space_id seen)) (ValueError ''duplicate space_id'')) (\<lambda>_.
     rbind (raise_if (space_dimensions sp < 1) (ValueError ''space dimensions must be a positive integer'')) (\<lambda>_.
     rbind (raise_if (space_metric sp \<notin> set METRICS) (ValueError ''space metric is invalid'')) (\<lambda>_.
     rbind (codec_for_space reg sp) (\<lambda>codec.
     rbind (checks [need (space_id sp) ''space_id'', need (space_metric sp) ''metric'',
       need (space_fingerprint sp) ''fingerprint'']) (\<lambda>_.
     rbind (encode_mapping (space_metadata sp) ''space.metadata'') (\<lambda>metadata.
     Inr (codec, sp\<lparr>space_metadata := metadata\<rparr>)))))))"

fun prepare_spaces ::
  "codec_registry \<Rightarrow> EmbeddingSpaceRecord list \<Rightarrow> EmbeddingSpaceRecord list \<Rightarrow>
   ((pystr \<times> vector_codec \<times> EmbeddingSpaceRecord) list \<times> EmbeddingSpaceRecord list) result" where
  "prepare_spaces reg seen [] = Inr ([], [])"
| "prepare_spaces reg seen (sp # sps) =
     rbind (prepare_space reg seen sp) (\<lambda>(codec, row).
     rbind (prepare_spaces reg (sp # seen) sps) (\<lambda>(table, rows).
     Inr ((space_id sp, codec, sp) # table, row # rows)))"

definition prepare_vector ::
  "surroundings \<Rightarrow> pystr list \<Rightarrow> (pystr \<times> vector_codec \<times> EmbeddingSpaceRecord) list \<Rightarrow> VectorRecord list \<Rightarrow> VectorRecord \<Rightarrow>
   embedding_row result" where
  "prepare_vector ev uids table seen v =
     (case map_of table (vec_space_id v) of
        None \<Rightarrow> Inl (ValueError ''invalid vector ownership or identity'')
      | Some (codec, sp) \<Rightarrow>
          rbind (raise_if ((vec_unit_id v, vec_space_id v) \<in> set (map (\<lambda>x. (vec_unit_id x, vec_space_id x)) seen) \<or>
              vec_unit_id v \<notin> set uids) (ValueError ''invalid vector ownership or identity'')) (\<lambda>_.
          rbind (vc_encode codec (vec_vector v) (space_dimensions sp)) (\<lambda>encoded.
          rbind (raise_if (space_metric sp = METRIC_COSINE \<and> zero_norm (vec_vector v))
            (ValueError ''cosine vector norm must be non-zero'')) (\<lambda>_.
          Inr \<lparr>emb_unit_id = vec_unit_id v, emb_space_id = vec_space_id v, emb_payload = encoded,
               emb_at = now ev (Suc (length seen))\<rparr>))))"

fun prepare_vectors ::
  "surroundings \<Rightarrow> pystr list \<Rightarrow> (pystr \<times> vector_codec \<times> EmbeddingSpaceRecord) list \<Rightarrow> VectorRecord list \<Rightarrow>
   VectorRecord list \<Rightarrow> embedding_row list result" where
  "prepare_vectors ev uids table seen [] = Inr []"
| "prepare_vectors ev uids table seen (v # vs) =
     rbind (prepare_vector ev uids table seen v) (\<lambda>row.
     rbind (prepare_vectors ev uids table (v # seen) vs) (\<lambda>rows. Inr (row # rows)))"

definition facet_row_of :: "ResourceFacet \<Rightarrow> facet_values" where
  "facet_row_of f = (facet_namespace (rf_facet f), facet_value (rf_facet f), rf_origin f,
     if rf_producer_fingerprint f = None then 1 else 0,
     case rf_producer_fingerprint f of None \<Rightarrow> [] | Some p \<Rightarrow> p, rf_confidence f)"

definition facet_row_key :: "facet_values \<Rightarrow> pystr \<times> pystr \<times> pystr \<times> int \<times> pystr" where
  "facet_row_key x = (case x of (n, v, p, i, w, c) \<Rightarrow> (n, v, p, i, w))"

definition encode_confidence :: "pyfloat option \<Rightarrow> unit result" where
  "encode_confidence c =
     (case c of
        None \<Rightarrow> Inr ()
      | Some x \<Rightarrow>
          rbind (raise_if (\<not> isfinite x) (ValueError ''confidence must be finite'')) (\<lambda>_.
          raise_if (\<not> (Fin 0 \<le> x \<and> x \<le> Fin 1)) (ValueError ''confidence must be between 0 and 1'')))"

definition prepare_facet :: "pystr \<Rightarrow> facet_values list \<Rightarrow> ResourceFacet \<Rightarrow> facet_values result" where
  "prepare_facet rid seen f =
     rbind (raise_if (rf_resource_id f \<noteq> rid) (ValueError ''facet belongs to another resource'')) (\<lambda>_.
     rbind (checks [need (facet_namespace (rf_facet f)) ''facet.namespace'', need (facet_value (rf_facet f)) ''facet.value'',
       need (rf_origin f) ''facet.origin'', need_optional (rf_producer_fingerprint f) ''producer_fingerprint'',
       encode_confidence (rf_confidence f)]) (\<lambda>_.
     rbind (raise_if (facet_row_key (facet_row_of f) \<in> set (map facet_row_key seen)) (ValueError ''duplicate facet assignment'')) (\<lambda>_.
     Inr (facet_row_of f))))"

fun prepare_facets :: "pystr \<Rightarrow> facet_values list \<Rightarrow> ResourceFacet list \<Rightarrow> facet_values list result" where
  "prepare_facets rid seen [] = Inr []"
| "prepare_facets rid seen (f # fs) =
     rbind (prepare_facet rid seen f) (\<lambda>row.
     rbind (prepare_facets rid (row # seen) fs) (\<lambda>rows. Inr (row # rows)))"

definition preflight :: "'v store \<Rightarrow> surroundings \<Rightarrow> PreparedResourceBatch anyobj \<Rightarrow> prepared result" where
  "preflight st ev obj =
     (case obj of
        Untyped \<Rightarrow> Inl (ValueError ''batch must be PreparedResourceBatch'')
      | Typed b \<Rightarrow>
          let rid = res_id (batch_resource b) in
          rbind (validate_prepared_batch (Typed b)) (\<lambda>_.
          rbind (prepare_resource ev (batch_resource b)) (\<lambda>resource.
          rbind (prepare_representations rid [] (batch_representations b)) (\<lambda>(mods, representations).
          rbind (prepare_units rid mods [] (batch_units b)) (\<lambda>units.
          rbind (raise_if (mods = [] \<or> batch_units b = [])
            (ValueError ''resource graph must contain representations and units'')) (\<lambda>_.
          rbind (raise_if (set (map unit_representation_id (batch_units b)) \<noteq> set (keys mods))
            (ValueError ''every representation must own a unit'')) (\<lambda>_.
          rbind (prepare_spaces (codecs st) [] (batch_spaces b)) (\<lambda>(table, spaces).
          rbind (prepare_vectors ev (map unit_id (batch_units b)) table [] (batch_vectors b)) (\<lambda>vectors.
          rbind (raise_if (\<not> list_all (\<lambda>u. has_text (unit_text u) \<or> unit_id u \<in> set (map vec_unit_id (batch_vectors b)))
              (batch_units b)) (ValueError ''every unit must have text or a vector'')) (\<lambda>_.
          rbind (prepare_facets rid [] (batch_facets b)) (\<lambda>facets.
          Inr \<lparr>pp_batch = b, pp_resource = resource, pp_representations = representations, pp_units = units,
               pp_spaces = spaces, pp_vectors = vectors, pp_facets = facets, pp_fts = text_rows (batch_units b),
               pp_source_key = row_source_key resource\<rparr>)))))))))))"

end
