(* ===== verification/Sqlite_Read.thy ===== *)
theory Sqlite_Read
  imports Sqlite_Store
begin

text \<open>
  The read side of \<open>resource_store.py\<close> and \<open>graph_reader.py\<close>: rows are decoded and validated again on the way out. The
  definitions are functions of a database; the operations read the current one.
\<close>

section \<open>Rows\<close>

definition resource_from_row :: "resource_row \<Rightarrow> ResourceRecord result" where
  "resource_from_row row =
     (let r = row_resource row in
      rbind (decode_locator (loc_kind (res_locator r)) (loc_payload (res_locator r)) ''locator'') (\<lambda>locator.
      rbind (locator_parts locator ''locator'') (\<lambda>(_, canonical, fingerprint).
      rbind (raise_if (canonical_json (JObj canonical) \<noteq> canonical_json (JObj (loc_payload (res_locator r))) \<or>
          fingerprint \<noteq> row_fingerprint row) (ValueError ''locator fingerprint mismatch'')) (\<lambda>_.
      rbind (checks [need (res_id r) ''resource_id'', need (res_kind r) ''resource_kind'', need (res_media_type r) ''media_type'',
        need (res_source_namespace r) ''source_namespace'', need_optional (res_content_hash r) ''content_hash'',
        need_utf8 (res_title r) ''title'']) (\<lambda>_.
      rbind (decode_mapping (res_metadata r) ''metadata'') (\<lambda>metadata.
      new_ResourceRecord (PStr (res_id r)) (PStr (res_kind r)) (PStr (res_media_type r)) (PStr (res_source_namespace r))
        (Typed locator) (opt_str (res_content_hash r)) (opt_str (res_title r)) (of_jmap metadata)))))))"

text \<open>A unit joined with its representation.\<close>

definition unit_from_row :: "SearchUnitRecord \<times> RepresentationRecord \<Rightarrow> SearchUnitRecord result" where
  "unit_from_row row =
     (case row of (u, p) \<Rightarrow>
      rbind (checks [need (unit_resource_id u) ''resource_id'', need (unit_modality u) ''modality'',
        need (rep_resource_id p) ''representation.resource_id'']) (\<lambda>_.
      rbind (raise_if (rep_resource_id p \<noteq> unit_resource_id u) (CatalogExecutionError CATALOG_ERROR)) (\<lambda>_.
      rbind (need (rep_modality p) ''representation.modality'') (\<lambda>_.
      rbind (raise_if (rep_modality p \<noteq> unit_modality u) (CatalogExecutionError CATALOG_ERROR)) (\<lambda>_.
      rbind (checks [need (unit_id u) ''unit_id'', need (unit_representation_id u) ''representation_id'',
        need (unit_kind u) ''unit_kind'', need_utf8 (unit_text u) ''text'']) (\<lambda>_.
      rbind (decode_locator (loc_kind (unit_evidence_locator u)) (loc_payload (unit_evidence_locator u)) ''evidence_locator'') (\<lambda>locator.
      rbind (decode_mapping (unit_metadata u) ''metadata'') (\<lambda>metadata.
      new_SearchUnitRecord (PStr (unit_id u)) (PStr (unit_resource_id u)) (PStr (unit_representation_id u))
        (PStr (unit_kind u)) (PStr (unit_modality u)) (opt_str (unit_text u)) (Typed locator) (PInt (unit_ordinal u))
        (opt_int (unit_token_count u)) (opt_str (unit_token_count_kind u)) (of_jmap metadata)))))))))"

definition validate_facet_row :: "assignment_row \<Rightarrow> (pystr option \<times> pyfloat option) result" where
  "validate_facet_row a =
     rbind (if as_producer_is_null a = 1 \<and> as_producer_value a = [] then Inr None
            else if as_producer_is_null a = 0
            then rbind (require_non_empty (PStr (as_producer_value a)) ''producer_fingerprint'') (\<lambda>p. Inr (Some p))
            else Inl (ValueError ''invalid producer discriminator'')) (\<lambda>producer.
     rbind (encode_confidence (as_confidence a)) (\<lambda>_.
     Inr (producer, as_confidence a)))"

section \<open>Queries\<close>

definition join_units :: "'v db \<Rightarrow> (SearchUnitRecord \<Rightarrow> bool) \<Rightarrow> (SearchUnitRecord \<times> RepresentationRecord) list" where
  "join_units d P = concat (map (\<lambda>u. map (Pair u) (filter (\<lambda>p. rep_id p = unit_representation_id u) (t_representations d)))
     (filter P (t_units d)))"

definition assignments_of :: "pystr \<Rightarrow> 'v db \<Rightarrow> assignment_row list" where
  "assignments_of rid d = filter (\<lambda>a. as_resource_id a = rid) (t_assignments d)"

definition embeddings_of :: "pystr \<Rightarrow> 'v db \<Rightarrow> embedding_row list" where
  "embeddings_of rid d = filter (\<lambda>e. emb_unit_id e \<in> set (unit_ids_of rid d)) (t_embeddings d)"

definition select_embedding :: "pystr \<Rightarrow> pystr \<Rightarrow> 'v db \<Rightarrow> embedding_row option" where
  "select_embedding uid sid d = find (\<lambda>e. emb_unit_id e = uid \<and> emb_space_id e = sid) (t_embeddings d)"

text \<open>An embedding joined with its space.\<close>

definition decode_embedding :: "codec_registry \<Rightarrow> 'v db \<Rightarrow> embedding_row \<Rightarrow> VectorRecord option result" where
  "decode_embedding reg d e =
     (case select_space (emb_space_id e) d of
        None \<Rightarrow> Inr None
      | Some sp \<Rightarrow>
          rbind (decode_mapping (space_metadata sp) ''space.metadata'') (\<lambda>metadata.
          rbind (decode_vector_payload reg (emb_payload e) (space_dimensions sp) metadata) (\<lambda>vector.
          rbind (new_VectorRecord (PStr (emb_unit_id e)) (PStr (emb_space_id e)) (PTuple (map PFloat vector))) (\<lambda>v.
          Inr (Some v)))))"

section \<open>Reading single records\<close>

definition read_resource_db :: "pystr \<Rightarrow> 'v db \<Rightarrow> ResourceRecord option result" where
  "read_resource_db rid d =
     (case select_resource rid d of
        None \<Rightarrow> Inr None
      | Some row \<Rightarrow>
          rbind (rmap validate_facet_row (assignments_of rid d)) (\<lambda>_.
          rbind (resource_from_row row) (\<lambda>r. Inr (Some r))))"

text \<open>\<open>except CatalogExecutionError: raise\<close>, then the two last clauses.\<close>

definition guarded :: "('v, 'a) sop \<Rightarrow> ('v, 'a) sop" where
  "guarded m = op_try m (\<lambda>e. op_raise (case e of CatalogExecutionError c \<Rightarrow> e | _ \<Rightarrow> catalog_error e))"

definition read_resource :: "surroundings \<Rightarrow> pyobj \<Rightarrow> ('v, ResourceRecord option) sop" where
  "read_resource ev obj =
     guarded (op_bind (op_lift (require_non_empty obj ''resource_id'')) (\<lambda>rid.
       op_bind (op_query ev ''SELECT core_resources'' (read_resource_db rid)) op_lift))"

definition read_unit :: "surroundings \<Rightarrow> pyobj \<Rightarrow> ('v, SearchUnitRecord option) sop" where
  "read_unit ev obj =
     op_try (op_bind (op_lift (require_non_empty obj ''unit_id'')) (\<lambda>uid.
       op_bind (op_query ev ''SELECT core_search_units'' (\<lambda>d.
         case filter (\<lambda>(u, p). unit_resource_id u \<in> set (map row_id (t_resources d))) (join_units d (\<lambda>u. unit_id u = uid)) of
           [] \<Rightarrow> Inr None
         | row # _ \<Rightarrow> rbind (unit_from_row row) (\<lambda>u. Inr (Some u)))) op_lift)) (\<lambda>e. op_raise (catalog_error e))"

definition read_vector :: "'v store \<Rightarrow> surroundings \<Rightarrow> pyobj \<Rightarrow> pyobj \<Rightarrow> ('v, VectorRecord option) sop" where
  "read_vector st ev uid sid =
     op_try (op_bind (op_lift (require_non_empty uid ''unit_id'')) (\<lambda>uid.
       op_bind (op_lift (require_non_empty sid ''space_id'')) (\<lambda>sid.
       op_bind (op_query ev ''SELECT core_unit_embeddings'' (\<lambda>d.
         case select_embedding uid sid d of
           None \<Rightarrow> Inr None
         | Some e \<Rightarrow> decode_embedding (codecs st) d e)) op_lift))) (\<lambda>e. op_raise (catalog_error e))"

definition space_from_row :: "EmbeddingSpaceRecord \<Rightarrow> EmbeddingSpaceRecord result" where
  "space_from_row s =
     rbind (decode_mapping (space_metadata s) ''space.metadata'') (\<lambda>metadata.
     new_EmbeddingSpaceRecord (PStr (space_id s)) (PInt (space_dimensions s)) (PStr (space_metric s))
       (PStr (space_fingerprint s)) (of_jmap metadata))"

definition resolve_embedding_spaces ::
  "surroundings \<Rightarrow> pyobj \<Rightarrow> pyobj \<Rightarrow> ('v, EmbeddingSpaceRecord list) sop" where
  "resolve_embedding_spaces ev fingerprint dimensions =
     (case fingerprint of
        PStr (x # xs) \<Rightarrow>
          (case dimensions of
             PInt n \<Rightarrow>
               if n < 1 then op_raise (ValueError ''dimensions must be a positive integer'')
               else op_try (op_bind (op_query ev ''SELECT core_embedding_spaces'' (\<lambda>d.
                   rbind (bind_ints [n]) (\<lambda>_.
                   rmap space_from_row (sort_key space_id
                     (filter (\<lambda>s. space_fingerprint s = x # xs \<and> space_dimensions s = n) (t_spaces d)))))) op_lift)
                 (\<lambda>e. op_raise (CatalogExecutionError CATALOG_ERROR))
           | _ \<Rightarrow> op_raise (ValueError ''dimensions must be a positive integer''))
      | _ \<Rightarrow> op_raise (ValueError ''fingerprint must be non-empty''))"

section \<open>Reading a graph\<close>

definition representation_from_row :: "RepresentationRecord \<Rightarrow> RepresentationRecord result" where
  "representation_from_row r =
     rbind (decode_mapping (rep_metadata r) ''representation.metadata'') (\<lambda>metadata.
     new_RepresentationRecord (PStr (rep_id r)) (PStr (rep_resource_id r)) (PStr (rep_kind r)) (PStr (rep_modality r))
       (opt_str (rep_text r)) (opt_str (rep_language r)) (opt_str (rep_producer_fingerprint r)) (opt_int (rep_token_count r))
       (opt_str (rep_token_count_kind r)) (of_jmap metadata))"

definition graph_unit_from_row :: "SearchUnitRecord \<Rightarrow> SearchUnitRecord result" where
  "graph_unit_from_row u =
     rbind (decode_mapping (loc_payload (unit_evidence_locator u)) ''locator'') (\<lambda>payload.
     rbind (new_Locator (PStr (loc_kind (unit_evidence_locator u))) (of_jmap payload)) (\<lambda>locator.
     rbind (decode_mapping (unit_metadata u) ''unit.metadata'') (\<lambda>metadata.
     new_SearchUnitRecord (PStr (unit_id u)) (PStr (unit_resource_id u)) (PStr (unit_representation_id u))
       (PStr (unit_kind u)) (PStr (unit_modality u)) (opt_str (unit_text u)) (Typed locator) (PInt (unit_ordinal u))
       (opt_int (unit_token_count u)) (opt_str (unit_token_count_kind u)) (of_jmap metadata))))"

text \<open>An assignment joined with its facet.\<close>

definition facet_from_row :: "pystr \<Rightarrow> facet_row \<times> assignment_row \<Rightarrow> ResourceFacet result" where
  "facet_from_row rid row =
     (case row of (f, a) \<Rightarrow>
      rbind (new_Facet (PStr (fr_namespace f)) (PStr (fr_value f))) (\<lambda>facet.
      new_ResourceFacet (PStr rid) (Typed facet) (PStr (as_origin a))
        (if as_producer_is_null a = 1 then PNone else PStr (as_producer_value a)) (opt_float (as_confidence a))))"

definition join_facets :: "pystr \<Rightarrow> 'v db \<Rightarrow> (facet_row \<times> assignment_row) list" where
  "join_facets rid d =
     concat (map (\<lambda>a. map (\<lambda>f. (f, a)) (filter (\<lambda>f. fr_facet_id f = as_facet_id a) (t_facets d))) (assignments_of rid d))"

definition facet_order :: "facet_row \<times> assignment_row \<Rightarrow> pystr \<times> pystr \<times> pystr \<times> int \<times> pystr" where
  "facet_order row =
     (case row of (f, a) \<Rightarrow> (fr_namespace f, fr_value f, as_origin a, as_producer_is_null a, as_producer_value a))"

definition spaces_of :: "pystr \<Rightarrow> 'v db \<Rightarrow> EmbeddingSpaceRecord list" where
  "spaces_of rid d = filter (\<lambda>s. space_id s \<in> set (map emb_space_id (embeddings_of rid d))) (t_spaces d)"

definition graph_vectors :: "codec_registry \<Rightarrow> pystr \<Rightarrow> 'v db \<Rightarrow> VectorRecord list result" where
  "graph_vectors reg rid d =
     rbind (rmap (decode_embedding reg d) (sort_key (\<lambda>e. (emb_unit_id e, emb_space_id e)) (embeddings_of rid d))) (\<lambda>vs.
     Inr (concat (map opt_list vs)))"

definition read_graph_db :: "codec_registry \<Rightarrow> pystr \<Rightarrow> 'v db \<Rightarrow> PreparedResourceBatch option result" where
  "read_graph_db reg rid d =
     rbind (case rbind (require_non_empty (PStr rid) ''resource_id'') (\<lambda>rid. read_resource_db rid d) of
              Inl (CatalogExecutionError c) \<Rightarrow> Inl (CatalogExecutionError c)
            | Inl e \<Rightarrow> Inl (catalog_error e)
            | Inr r \<Rightarrow> Inr r) (\<lambda>resource.
     case resource of
       None \<Rightarrow> Inr None
     | Some r \<Rightarrow>
         rbind (rmap representation_from_row (sort_key rep_id
           (filter (\<lambda>p. rep_resource_id p = rid) (t_representations d)))) (\<lambda>representations.
         rbind (rmap graph_unit_from_row (sort_key (\<lambda>u. (unit_representation_id u, unit_ordinal u, unit_id u))
           (filter (\<lambda>u. unit_resource_id u = rid) (t_units d)))) (\<lambda>units.
         rbind (rmap space_from_row (sort_key space_id (spaces_of rid d))) (\<lambda>spaces.
         rbind (graph_vectors reg rid d) (\<lambda>vectors.
         rbind (rmap (facet_from_row rid) (sort_key facet_order (join_facets rid d))) (\<lambda>facets.
         rbind (new_PreparedResourceBatch (Typed r) (PySeq (map Typed representations)) (PySeq (map Typed units))
           (PySeq (map Typed spaces)) (PySeq (map Typed vectors)) (PySeq (map Typed facets))) (\<lambda>b.
         Inr (Some b))))))))"

definition read_graph :: "'v store \<Rightarrow> surroundings \<Rightarrow> pystr \<Rightarrow> ('v, PreparedResourceBatch option) sop" where
  "read_graph st ev rid = op_bind (op_query ev ''SELECT graph'' (read_graph_db (codecs st) rid)) op_lift"

text \<open>\<open>BEGIN\<close> without \<open>IMMEDIATE\<close>.\<close>

definition op_begin_deferred :: "surroundings \<Rightarrow> ('v, unit) sop" where
  "op_begin_deferred ev =
     op_bind (op_fault (engine ev ''BEGIN'')) (\<lambda>_ c.
       if in_transaction c then (c, Inl (OperationalError False))
       else (c\<lparr>working := Some (committed c)\<rparr>, Inr ()))"

definition export_graph :: "'v store \<Rightarrow> surroundings \<Rightarrow> pystr \<Rightarrow> ('v, PreparedResourceBatch option) sop" where
  "export_graph st ev rid = (\<lambda>c.
     if in_transaction c then read_graph st ev rid c
     else op_finally (op_bind (op_begin_deferred ev) (\<lambda>_. read_graph st ev rid)) conn_rollback c)"

end
