(* ===== verification/Sqlite_Publish.thy ===== *)
theory Sqlite_Publish
  imports Sqlite_Read
begin

text \<open>
  The operations of \<open>resource_store.py\<close> that change the database: the replacement of a graph, the publication
  protocol, deletion and the repair of the text index, each as one transaction over the connection.
\<close>

section \<open>Points and transactions\<close>

definition point :: "surroundings \<Rightarrow> string \<Rightarrow> ('v, unit) sop" where
  "point ev name = op_fault (hook ev name)"

definition op_begin :: "surroundings \<Rightarrow> ('v, unit) sop" where
  "op_begin ev =
     op_bind (point ev ''before_begin'') (\<lambda>_.
     op_bind (op_begin_immediate ev) (\<lambda>_ c.
     (c\<lparr>open_count := Suc (open_count c)\<rparr>, Inr ())))"

definition rollback :: "('v, unit) sop" where
  "rollback = op_bind op_in_transaction (\<lambda>open. if open then op_rollback else op_return ())"

text \<open>\<open>except BaseException: self._rollback(); raise\<close>.\<close>

definition or_rollback :: "('v, 'a) sop \<Rightarrow> ('v, 'a) sop" where
  "or_rollback m = op_try m (\<lambda>e. op_bind rollback (\<lambda>_. op_raise e))"

definition refuse_external_transaction :: "('v, unit) sop" where
  "refuse_external_transaction =
     op_bind op_in_transaction (\<lambda>open. op_lift (raise_if open (SQLiteCatalogError ''active_transaction'')))"

section \<open>Writing a graph\<close>

definition check_source_identity :: "surroundings \<Rightarrow> prepared \<Rightarrow> ('v, unit) sop" where
  "check_source_identity ev pp =
     (let rid = res_id (batch_resource (pp_batch pp)); key = pp_source_key pp in
      op_bind (op_query ev ''SELECT core_resources'' (select_resource rid)) (\<lambda>by_id.
      op_bind (op_lift (raise_if (by_id \<noteq> None \<and> row_source_key (the by_id) \<noteq> key)
        (ValueError ''resource_id is bound to another source identity''))) (\<lambda>_.
      op_bind (op_query ev ''SELECT core_resources'' (select_by_source key)) (\<lambda>by_key.
      op_lift (raise_if (by_key \<noteq> None \<and> row_id (the by_key) \<noteq> rid)
        (ValueError ''source identity is bound to another resource_id''))))))"

definition space_conflict :: "EmbeddingSpaceRecord \<Rightarrow> 'v db \<Rightarrow> bool" where
  "space_conflict sp d = (case select_space (space_id sp) d of None \<Rightarrow> False | Some row \<Rightarrow> row \<noteq> sp)"

definition check_spaces :: "surroundings \<Rightarrow> prepared \<Rightarrow> ('v, unit) sop" where
  "check_spaces ev pp =
     op_for (pp_spaces pp) (\<lambda>sp.
       op_bind (op_query ev ''SELECT core_embedding_spaces'' (space_conflict sp)) (\<lambda>conflict.
       op_lift (raise_if conflict (ValueError ''embedding space identity mismatch''))))"

definition write_facet :: "surroundings \<Rightarrow> pystr \<Rightarrow> facet_values \<Rightarrow> ('v, unit) sop" where
  "write_facet ev rid fv =
     (case fv of (ns, v, origin, is_null, producer, confidence) \<Rightarrow>
      op_bind (op_exec ev ''INSERT core_facets'' (insert_facet ns v)) (\<lambda>_.
      op_bind (op_query ev ''SELECT core_facets'' (select_facet ns v)) (\<lambda>row.
      case row of
        None \<Rightarrow> op_raise (TypeError ''NoneType object is not subscriptable'')
      | Some f \<Rightarrow>
          op_exec ev ''INSERT core_resource_facets'' (insert_assignment
            \<lparr>as_resource_id = rid, as_facet_id = fr_facet_id f, as_origin = origin, as_producer_is_null = is_null,
             as_producer_value = producer, as_confidence = confidence\<rparr>))))"

text \<open>\<open>_verify\<close>, as a function of the database it reads.\<close>

definition graph_counts :: "pystr \<Rightarrow> 'v db \<Rightarrow> nat \<times> nat \<times> nat \<times> nat" where
  "graph_counts rid d =
     (length (filter (\<lambda>p. rep_resource_id p = rid) (t_representations d)),
      length (filter (\<lambda>u. unit_resource_id u = rid) (t_units d)),
      length (embeddings_of rid d), length (assignments_of rid d))"

definition verify_vector :: "codec_registry \<Rightarrow> 'v db \<Rightarrow> VectorRecord \<Rightarrow> unit result" where
  "verify_vector reg d v =
     (case select_embedding (vec_unit_id v) (vec_space_id v) d of
        None \<Rightarrow> Inl (TypeError ''NoneType object is not subscriptable'')
      | Some e \<Rightarrow>
          (case select_space (vec_space_id v) d of
             None \<Rightarrow> Inl (TypeError ''NoneType object is not subscriptable'')
           | Some sp \<Rightarrow>
               rbind (decode_mapping (space_metadata sp) ''space.metadata'') (\<lambda>metadata.
               void (decode_vector_payload reg (emb_payload e) (space_dimensions sp) metadata))))"

definition verify_db :: "codec_registry \<Rightarrow> PreparedResourceBatch \<Rightarrow> 'v db \<Rightarrow> unit result" where
  "verify_db reg b d =
     (let rid = res_id (batch_resource b) in
      rbind (raise_if (graph_counts rid d \<noteq> (length (batch_representations b), length (batch_units b),
          length (batch_vectors b), length (batch_facets b))) (RuntimeError ''resource graph count invariant failed'')) (\<lambda>_.
      rbind (raise_if (\<not> list_all (\<lambda>p. unit_representation_id ` set (t_units d) \<inter> {rep_id p} \<noteq> {})
          (filter (\<lambda>p. rep_resource_id p = rid) (t_representations d)))
        (RuntimeError ''representation ownership invariant failed'')) (\<lambda>_.
      rbind (raise_if (set (map fts_unit_id (t_fts d)) \<inter> set (unit_ids_of rid d) \<noteq>
            set (map unit_id (filter (\<lambda>u. has_text (unit_text u)) (batch_units b))) \<or> \<not> foreign_keys_ok d)
        (RuntimeError ''FTS or foreign-key invariant failed'')) (\<lambda>_.
      rbind (case select_resource rid d of
               None \<Rightarrow> Inl (TypeError ''NoneType object is not subscriptable'')
             | Some row \<Rightarrow> resource_from_row row) (\<lambda>_.
      rbind (rmap unit_from_row (join_units d (\<lambda>u. unit_resource_id u = rid))) (\<lambda>_.
      rbind (checks (map (verify_vector reg d) (batch_vectors b))) (\<lambda>_.
      void (rmap validate_facet_row (assignments_of rid d)))))))))"

definition delete_graph :: "'v store \<Rightarrow> surroundings \<Rightarrow> pystr \<Rightarrow> ('v, unit) sop" where
  "delete_graph st ev rid =
     op_bind (op_backend ev ''backend.delete_vectors'' (vb_delete_vectors (backend st) rid)) (\<lambda>_.
     op_bind (op_exec ev ''DELETE core_search_units_fts'' (delete_fts_rows rid)) (\<lambda>_.
     op_bind (op_exec ev ''DELETE core_resources'' (delete_resource_row rid)) (\<lambda>_.
     point ev ''after_delete'')))"

definition write_graph :: "'v store \<Rightarrow> surroundings \<Rightarrow> prepared \<Rightarrow> ('v, unit) sop" where
  "write_graph st ev pp =
     (let b = pp_batch pp; rid = res_id (batch_resource b) in
      or_rollback (
      op_bind (check_source_identity ev pp) (\<lambda>_.
      op_bind (check_spaces ev pp) (\<lambda>_.
      op_bind (delete_graph st ev rid) (\<lambda>_.
      op_bind (op_exec ev ''INSERT core_resources'' (insert_resource (pp_resource pp))) (\<lambda>_.
      op_bind (op_for (pp_spaces pp) (\<lambda>s. op_exec ev ''INSERT core_embedding_spaces'' (insert_space s))) (\<lambda>_.
      op_bind (op_for (pp_representations pp) (\<lambda>r. op_exec ev ''INSERT core_representations'' (insert_representation r))) (\<lambda>_.
      op_bind (point ev ''after_representations'') (\<lambda>_.
      op_bind (op_for (pp_units pp) (\<lambda>u. op_exec ev ''INSERT core_search_units'' (insert_unit u))) (\<lambda>_.
      op_bind (point ev ''after_units'') (\<lambda>_.
      op_bind (op_for (pp_vectors pp) (\<lambda>e. op_exec ev ''INSERT core_unit_embeddings'' (insert_embedding e))) (\<lambda>_.
      op_bind (point ev ''after_vectors'') (\<lambda>_.
      op_bind (op_for (pp_facets pp) (write_facet ev rid)) (\<lambda>_.
      op_bind (point ev ''after_facets'') (\<lambda>_.
      op_bind (op_for (pp_fts pp) (\<lambda>(uid, content). op_exec ev ''INSERT core_search_units_fts'' (insert_fts uid content))) (\<lambda>_.
      op_bind (point ev ''after_fts'') (\<lambda>_.
      op_bind (op_exec ev ''DELETE core_facets'' prune_facet_rows) (\<lambda>_.
      op_bind (op_backend ev ''backend.replace_vectors''
        (vb_replace_vectors (backend st) rid (batch_spaces b) (batch_vectors b))) (\<lambda>_.
      op_bind (op_bind (op_query ev ''SELECT verify'' (verify_db (codecs st) b)) op_lift) (\<lambda>_.
      verify_backend st ev))))))))))))))))))))"

section \<open>Publication states\<close>

text \<open>
  Equality of JSON values and of locators as Python compares them: numbers by value whatever their type, booleans as
  numbers, dictionaries by their members.
\<close>

fun json_number :: "json \<Rightarrow> pyfloat option" where
  "json_number (JInt i) = Some (Fin (of_int i))"
| "json_number (JBool b) = Some (Fin (if b then 1 else 0))"
| "json_number (JFloat f) = Some f"
| "json_number _ = None"

function json_eq :: "json \<Rightarrow> json \<Rightarrow> bool" where
  "json_eq (JArr xs) b = (case b of JArr ys \<Rightarrow> list_all2 json_eq xs ys | _ \<Rightarrow> False)"
| "json_eq (JObj ms) b =
     (case b of
        JObj ns \<Rightarrow> length ms = length ns \<and> (\<forall>(k, x) \<in> set ms. case map_of ns k of None \<Rightarrow> False | Some y \<Rightarrow> json_eq x y)
      | _ \<Rightarrow> False)"
| "json_eq JNull b = (b = JNull)"
| "json_eq (JStr s) b = (b = JStr s)"
| "json_eq (JInt i) b = (json_number b = json_number (JInt i))"
| "json_eq (JBool v) b = (json_number b = json_number (JBool v))"
| "json_eq (JFloat f) b = (f \<noteq> NaN \<and> json_number b = Some f)"
  by pat_completeness auto
termination
  by (relation "measure (size \<circ> fst)") (auto simp: less_Suc_eq_le intro: size_list_estimation' dest!: size_list_estimation [of _ _ _ "\<lambda>x. x"])

definition locator_eq :: "Locator \<Rightarrow> Locator \<Rightarrow> bool" where
  "locator_eq a b \<longleftrightarrow> loc_kind a = loc_kind b \<and> json_eq (JObj (loc_payload a)) (JObj (loc_payload b))"

definition state_eq :: "PublicationState \<Rightarrow> PublicationState \<Rightarrow> bool" where
  "state_eq a b \<longleftrightarrow>
     pub_resource_id a = pub_resource_id b \<and> pub_status a = pub_status b \<and> pub_lifecycle_id a = pub_lifecycle_id b \<and>
     pub_state_token a = pub_state_token b \<and> pub_source_namespace a = pub_source_namespace b \<and>
     (case (pub_source_locator a, pub_source_locator b) of
        (None, None) \<Rightarrow> True
      | (Some l, Some m) \<Rightarrow> locator_eq l m
      | _ \<Rightarrow> False)"

definition publication_enabled :: "surroundings \<Rightarrow> ('v, bool) sop" where
  "publication_enabled ev = op_query ev ''SELECT sqlite_master'' has_states"

definition state_from_row :: "pystr \<Rightarrow> state_row option \<Rightarrow> PublicationState result" where
  "state_from_row rid row =
     (case row of
        None \<Rightarrow> new_PublicationState (PStr rid) (PStr (lit ''never_created'')) PNone PNone PNone None
      | Some s \<Rightarrow>
          rbind (decode_mapping (sr_metadata_json s) ''source.metadata'') (\<lambda>_.
          rbind (decode_locator (sr_locator_kind s) (sr_locator_json s) ''source_locator'') (\<lambda>locator.
          new_PublicationState (PStr rid) (PStr (status_name (sr_status s))) (PStr (sr_lifecycle_id s))
            (PStr (sr_state_token s)) (PStr (sr_source_namespace s)) (Some (Typed locator)))))"

text \<open>A catalog from before the publication migration has no table of states: the statement fails.\<close>

definition read_state_db :: "pystr \<Rightarrow> 'v db \<Rightarrow> PublicationState result" where
  "read_state_db rid d =
     (if has_states d then state_from_row rid (select_state rid d) else Inl (OperationalError False))"

lemma read_state_db_eq_Inr: "read_state_db rid d = Inr p \<longleftrightarrow> has_states d \<and> state_from_row rid (select_state rid d) = Inr p"
  by (simp add: read_state_db_def)

definition read_state :: "surroundings \<Rightarrow> pystr \<Rightarrow> ('v, PublicationState) sop" where
  "read_state ev rid = op_bind (op_query ev ''SELECT core_publication_states'' (read_state_db rid)) op_lift"

definition source_metadata ::
  "surroundings \<Rightarrow> PublicationState \<Rightarrow> PublicationStatus \<Rightarrow> PreparedResourceBatch option \<Rightarrow> ('v, jmapping) sop" where
  "source_metadata ev previous status batch =
     (if status = deleted then op_return []
      else case batch of
        Some b \<Rightarrow> op_lift (encode_mapping (res_metadata (batch_resource b)) ''source.metadata'')
      | None \<Rightarrow>
          op_bind (op_query ev ''SELECT source_metadata_json'' (select_state (pub_resource_id previous))) (\<lambda>row.
          case row of
            None \<Rightarrow> op_raise (TypeError ''NoneType object is not subscriptable'')
          | Some s \<Rightarrow> op_return (sr_metadata_json s)))"

definition put_state ::
  "surroundings \<Rightarrow> PublicationState \<Rightarrow> PublicationStatus \<Rightarrow> PreparedResourceBatch option \<Rightarrow> ('v, unit) sop" where
  "put_state ev previous status batch =
     (let locator = (case batch of None \<Rightarrow> pub_source_locator previous | Some b \<Rightarrow> Some (res_locator (batch_resource b)));
          namespace = (case batch of None \<Rightarrow> pub_source_namespace previous | Some b \<Rightarrow> Some (res_source_namespace (batch_resource b)))
      in case (locator, namespace) of
        (Some l, Some n) \<Rightarrow>
          op_bind (op_lift (raise_if (live previous \<and> (pub_source_namespace previous \<noteq> Some n \<or>
              \<not> (case pub_source_locator previous of None \<Rightarrow> False | Some m \<Rightarrow> locator_eq l m)))
            (ValueError ''live source binding cannot change''))) (\<lambda>_.
          op_bind (source_metadata ev previous status batch) (\<lambda>metadata.
          op_bind (op_lift (encode_mapping (loc_payload l) ''source_locator'')) (\<lambda>payload.
          op_bind (op_lift (if live previous
              then (case pub_lifecycle_id previous of None \<Rightarrow> Inl IntegrityError | Some lid \<Rightarrow> Inr lid)
              else Inr (new_lifecycle ev))) (\<lambda>lifecycle.
          op_bind (op_exec ev ''INSERT core_publication_states'' (upsert_state
            \<lparr>sr_resource_id = pub_resource_id previous, sr_status = status, sr_lifecycle_id = lifecycle,
             sr_state_token = new_token ev, sr_source_namespace = n, sr_locator_kind = loc_kind l,
             sr_locator_json = payload, sr_metadata_json = metadata\<rparr>)) (\<lambda>_.
          point ev ''after_state'')))))
      | _ \<Rightarrow> op_raise (AssertionError ''locator and namespace''))"

section \<open>Publishing\<close>

text \<open>The part of \<open>_publish\<close> after the comparison; \<open>previous\<close> is \<open>None\<close> when the publication table does not exist.\<close>

definition publish_body ::
  "'v store \<Rightarrow> surroundings \<Rightarrow> prepared \<Rightarrow> PublicationState option \<Rightarrow> ('v, PublicationResult option) sop" where
  "publish_body st ev pp previous =
     (let b = pp_batch pp; rid = res_id (batch_resource b) in
      op_bind (write_graph st ev pp) (\<lambda>_.
      op_bind (case previous of None \<Rightarrow> op_return () | Some prev \<Rightarrow> put_state ev prev published (Some b)) (\<lambda>_.
      op_bind (point ev ''before_commit'') (\<lambda>_.
      op_bind (case previous of None \<Rightarrow> op_return None | Some _ \<Rightarrow> op_bind (read_state ev rid) (\<lambda>s. op_return (Some s))) (\<lambda>state.
      op_bind (op_commit ev) (\<lambda>_.
      op_return (map_option (\<lambda>s. \<lparr>pr_applied = True, pr_state = s\<rparr>) state)))))))"

definition publish :: "'v store \<Rightarrow> surroundings \<Rightarrow> prepared \<Rightarrow> ExpectedPublication option \<Rightarrow> ('v, PublicationResult option) sop" where
  "publish st ev pp expected =
     (let b = pp_batch pp; rid = res_id (batch_resource b) in
      op_bind (op_begin ev) (\<lambda>_.
      or_rollback (
      op_bind (point ev ''after_begin'') (\<lambda>_.
      op_bind (publication_enabled ev) (\<lambda>enabled.
      op_bind (op_lift (raise_if (expected \<noteq> None \<and> \<not> enabled) (ValueError ''publication schema required''))) (\<lambda>_.
      op_bind (if enabled then op_bind (read_state ev rid) (\<lambda>s. op_return (Some s)) else op_return None) (\<lambda>previous.
      case (expected, previous) of
        (Some ex, Some prev) \<Rightarrow>
          if \<not> state_eq prev (exp_state ex)
          then op_bind op_rollback (\<lambda>_. op_return (Some \<lparr>pr_applied = False, pr_state = prev\<rparr>))
          else publish_body st ev pp previous
      | _ \<Rightarrow> publish_body st ev pp previous)))))))"

definition replace_resource :: "'v store \<Rightarrow> surroundings \<Rightarrow> PreparedResourceBatch anyobj \<Rightarrow> ('v, unit) sop" where
  "replace_resource st ev batch =
     guarded (
       op_bind (op_lift (preflight st ev batch)) (\<lambda>pp.
       op_bind op_in_transaction (\<lambda>open.
       op_bind (op_lift (raise_if open (ValueError ''caller transaction is active''))) (\<lambda>_.
       op_bind (publish st ev pp None) (\<lambda>_. op_return ())))))"

definition compare_and_publish ::
  "'v store \<Rightarrow> surroundings \<Rightarrow> PreparedResourceBatch anyobj \<Rightarrow> ExpectedPublication anyobj \<Rightarrow> ('v, PublicationResult) sop" where
  "compare_and_publish st ev batch expected =
     op_bind (op_lift (preflight st ev batch)) (\<lambda>pp.
     case expected of
       Untyped \<Rightarrow> op_raise (ValueError ''invalid expected state'')
     | Typed ex \<Rightarrow>
         op_bind (op_lift (raise_if (pub_resource_id (exp_state ex) \<noteq> res_id (batch_resource (pp_batch pp)))
           (ValueError ''invalid expected state''))) (\<lambda>_.
         op_bind refuse_external_transaction (\<lambda>_.
         op_try (op_bind (publish st ev pp (Some ex)) (\<lambda>res.
             case res of None \<Rightarrow> op_raise (AssertionError ''result'') | Some r \<Rightarrow> op_return r))
           (\<lambda>e. op_raise (catalog_error e)))))"

text \<open>The part of \<open>_remove_if_current\<close> after the comparison.\<close>

definition removed_status :: "bool \<Rightarrow> PublicationStatus" where
  "removed_status del = (if del then deleted else live_without_projections)"

definition remove_body :: "'v store \<Rightarrow> surroundings \<Rightarrow> pystr \<Rightarrow> PublicationState \<Rightarrow> bool \<Rightarrow> ('v, PublicationResult) sop" where
  "remove_body st ev rid previous del =
     op_bind (delete_graph st ev rid) (\<lambda>_.
     op_bind (put_state ev previous (removed_status del) None) (\<lambda>_.
     op_bind (op_exec ev ''DELETE core_facets'' prune_facet_rows) (\<lambda>_.
     op_bind (verify_backend st ev) (\<lambda>_.
     op_bind (read_state ev rid) (\<lambda>state.
     op_bind (point ev ''before_commit'') (\<lambda>_.
     op_bind (op_commit ev) (\<lambda>_.
     op_return \<lparr>pr_applied = True, pr_state = state\<rparr>)))))))"

definition remove_if_current ::
  "'v store \<Rightarrow> surroundings \<Rightarrow> pystr \<Rightarrow> ExpectedPublication anyobj \<Rightarrow> bool \<Rightarrow> ('v, PublicationResult) sop" where
  "remove_if_current st ev rid expected del =
     (case expected of
        Untyped \<Rightarrow> op_raise (ValueError ''live expected state required'')
      | Typed ex \<Rightarrow>
          op_bind (op_lift (raise_if (exp_create ex \<or> pub_resource_id (exp_state ex) \<noteq> rid)
            (ValueError ''live expected state required''))) (\<lambda>_.
          op_bind refuse_external_transaction (\<lambda>_.
          op_bind (op_begin ev) (\<lambda>_.
          or_rollback (
          op_bind (read_state ev rid) (\<lambda>previous.
          if \<not> state_eq previous (exp_state ex)
          then op_bind op_rollback (\<lambda>_. op_return \<lparr>pr_applied = False, pr_state = previous\<rparr>)
          else remove_body st ev rid previous del))))))"

definition remove_safely ::
  "'v store \<Rightarrow> surroundings \<Rightarrow> pystr \<Rightarrow> ExpectedPublication anyobj \<Rightarrow> bool \<Rightarrow> ('v, PublicationResult) sop" where
  "remove_safely st ev rid expected del =
     op_try (remove_if_current st ev rid expected del)
       (\<lambda>e. op_raise (case e of SQLiteCatalogError c \<Rightarrow> e | _ \<Rightarrow> catalog_error e))"

definition withdraw_if_current ::
  "'v store \<Rightarrow> surroundings \<Rightarrow> pystr \<Rightarrow> ExpectedPublication anyobj \<Rightarrow> ('v, PublicationResult) sop" where
  "withdraw_if_current st ev rid expected = remove_safely st ev rid expected False"

definition delete_if_current ::
  "'v store \<Rightarrow> surroundings \<Rightarrow> pystr \<Rightarrow> ExpectedPublication anyobj \<Rightarrow> ('v, PublicationResult) sop" where
  "delete_if_current st ev rid expected = remove_safely st ev rid expected True"

definition delete_transaction :: "'v store \<Rightarrow> surroundings \<Rightarrow> pyobj \<Rightarrow> ('v, bool) sop" where
  "delete_transaction st ev obj =
     op_bind (op_lift (require_non_empty obj ''resource_id'')) (\<lambda>rid.
     op_bind op_in_transaction (\<lambda>open.
     op_bind (op_lift (raise_if open (ValueError ''caller transaction is active''))) (\<lambda>_.
     op_bind (op_begin ev) (\<lambda>_.
     op_bind (point ev ''after_begin'') (\<lambda>_.
     op_bind (publication_enabled ev) (\<lambda>enabled.
     op_bind (if enabled then op_bind (read_state ev rid) (\<lambda>s. op_return (Some s)) else op_return None) (\<lambda>state.
     op_bind (case state of
         Some s \<Rightarrow> op_return (live s)
       | None \<Rightarrow> op_query ev ''SELECT core_resources'' (\<lambda>d. select_resource rid d \<noteq> None)) (\<lambda>existed.
     op_bind (delete_graph st ev rid) (\<lambda>_.
     op_bind (case state of
         Some s \<Rightarrow> if live s then put_state ev s deleted None else op_return ()
       | None \<Rightarrow> op_return ()) (\<lambda>_.
     op_bind (op_exec ev ''DELETE core_facets'' prune_facet_rows) (\<lambda>_.
     op_bind (verify_backend st ev) (\<lambda>_.
     op_bind (point ev ''before_commit'') (\<lambda>_.
     op_bind (op_commit ev) (\<lambda>_.
     op_return existed))))))))))))))"

definition delete_live_resource :: "'v store \<Rightarrow> surroundings \<Rightarrow> pyobj \<Rightarrow> ('v, bool) sop" where
  "delete_live_resource st ev obj =
     op_bind refuse_external_transaction (\<lambda>_.
     op_try (delete_transaction st ev obj) (\<lambda>e.
       op_bind rollback (\<lambda>_.
       op_raise (case e of CatalogExecutionError c \<Rightarrow> e | _ \<Rightarrow> catalog_error e))))"

definition store_delete_resource :: "'v store \<Rightarrow> surroundings \<Rightarrow> pyobj \<Rightarrow> ('v, unit) sop" where
  "store_delete_resource st ev obj = op_bind (delete_live_resource st ev obj) (\<lambda>_. op_return ())"

definition rebuild_fts_db :: "'v db \<Rightarrow> 'v db result" where
  "rebuild_fts_db d = Inr (d\<lparr>t_fts := map (\<lambda>(uid, content). \<lparr>fts_unit_id = uid, fts_content = content\<rparr>)
     (text_rows (sort_key unit_id (t_units d)))\<rparr>)"

definition rebuild_fts_index :: "'v store \<Rightarrow> surroundings \<Rightarrow> ('v, nat \<times> nat) sop" where
  "rebuild_fts_index st ev =
     op_bind refuse_external_transaction (\<lambda>_.
     op_bind (op_begin ev) (\<lambda>_.
     or_rollback (
     op_bind (op_exec ev ''DELETE core_search_units_fts'' (\<lambda>d. Inr (d\<lparr>t_fts := []\<rparr>))) (\<lambda>_.
     op_bind (op_exec ev ''INSERT core_search_units_fts'' rebuild_fts_db) (\<lambda>_.
     op_bind (op_query ev ''SELECT count'' (\<lambda>d. length (t_fts d))) (\<lambda>n.
     op_bind (point ev ''before_commit'') (\<lambda>_.
     op_bind (op_commit ev) (\<lambda>_.
     op_return (n, n)))))))))"

definition read_snapshot :: "'v store \<Rightarrow> surroundings \<Rightarrow> pyobj \<Rightarrow> ('v, ResourceSnapshot) sop" where
  "read_snapshot st ev obj =
     op_bind (op_lift (require_non_empty obj ''resource_id'')) (\<lambda>rid.
     op_bind refuse_external_transaction (\<lambda>_.
     op_finally (op_try (
       op_bind (op_begin_deferred ev) (\<lambda>_.
       op_bind (read_state ev rid) (\<lambda>state.
       op_bind (point ev ''after_snapshot_state'') (\<lambda>_.
       op_bind (read_graph st ev rid) (\<lambda>b.
       op_lift (new_ResourceSnapshot (Typed state) b))))))
       (\<lambda>e. op_raise (case e of CatalogExecutionError c \<Rightarrow> e | _ \<Rightarrow> CatalogExecutionError CATALOG_ERROR))) conn_rollback))"

section \<open>Calls\<close>

text \<open>The operations of the store that open a write transaction, as one function of a call.\<close>

datatype store_call =
    Replace "PreparedResourceBatch anyobj"
  | CompareAndPublish "PreparedResourceBatch anyobj" "ExpectedPublication anyobj"
  | Withdraw pystr "ExpectedPublication anyobj"
  | DeleteIfCurrent pystr "ExpectedPublication anyobj"
  | Delete pyobj
  | RebuildFts

datatype reply = Done | Published PublicationResult | Existed bool | Counts nat nat

fun run_call :: "'v store \<Rightarrow> surroundings \<Rightarrow> store_call \<Rightarrow> ('v, reply) sop" where
  "run_call st ev (Replace b) = op_bind (replace_resource st ev b) (\<lambda>_. op_return Done)"
| "run_call st ev (CompareAndPublish b ex) = op_bind (compare_and_publish st ev b ex) (\<lambda>r. op_return (Published r))"
| "run_call st ev (Withdraw rid ex) = op_bind (withdraw_if_current st ev rid ex) (\<lambda>r. op_return (Published r))"
| "run_call st ev (DeleteIfCurrent rid ex) = op_bind (delete_if_current st ev rid ex) (\<lambda>r. op_return (Published r))"
| "run_call st ev (Delete obj) = op_bind (delete_live_resource st ev obj) (\<lambda>b. op_return (Existed b))"
| "run_call st ev RebuildFts = op_bind (rebuild_fts_index st ev) (\<lambda>(a, b). op_return (Counts a b))"

end
