(* ===== verification/Sqlite_Atomicity.thy ===== *)
theory Sqlite_Atomicity
  imports Sqlite_Publish
begin

text \<open>
  Every write operation of the store is one transaction: it takes effect as a whole when it succeeds, and a failure
  at any statement or point leaves the committed database as it was and no transaction open.
\<close>

section \<open>Operations that commit only when they succeed\<close>

definition safe :: "('v, 'a) sop \<Rightarrow> bool" where
  "safe m \<longleftrightarrow> (\<forall>c c' e. m c = (c', Inl e) \<longrightarrow> committed c' = committed c)"

lemma keeps_safe: "keeps m \<Longrightarrow> safe m"
  by (simp add: safe_def) (metis keepsD)

lemma safe_bind: "keeps m \<Longrightarrow> (\<And>x. safe (f x)) \<Longrightarrow> safe (op_bind m f)"
  by (simp add: safe_def op_bind_eq_Inl) (metis keepsD)

lemma safe_return: "safe m \<Longrightarrow> safe (op_bind m (\<lambda>x. op_return (f x)))"
  by (auto simp: safe_def op_bind_eq_Inl)

lemma safe_try: "safe m \<Longrightarrow> (\<And>e. keeps (h e)) \<Longrightarrow> safe (op_try m h)"
  by (simp add: safe_def op_try_eq_Inl) (metis keepsD)

lemma safe_option: "safe a \<Longrightarrow> (\<And>x. safe (f x)) \<Longrightarrow> safe (case z of None \<Rightarrow> a | Some x \<Rightarrow> f x)"
  by (cases z) simp_all

lemma safe_anyobj: "safe a \<Longrightarrow> (\<And>x. safe (f x)) \<Longrightarrow> safe (case z of Untyped \<Rightarrow> a | Typed x \<Rightarrow> f x)"
  by (cases z) simp_all

lemma safe_if: "safe a \<Longrightarrow> safe b \<Longrightarrow> safe (if x then a else b)"
  by simp

lemma safe_commit: "safe (op_bind (op_commit ev) (\<lambda>_. op_return x))"
  by (rule safe_return) (simp add: safe_def op_commit_def op_bind_eq_Inl op_fault_def split: option.splits)

lemma keeps_parts [keeps_intros]:
  "keeps (point ev n)" "keeps (op_begin ev)" "keeps rollback" "keeps refuse_external_transaction"
  "keeps (publication_enabled ev)" "keeps (read_state ev rid)" "keeps (verify_backend st ev)" "keeps (delete_graph st ev rid)"
proof -
  show p: "keeps (point ev n)" for n unfolding point_def by (intro keeps_intros)
  have "keeps (\<lambda>c. (c\<lparr>open_count := Suc (open_count c)\<rparr>, Inr ()))" by (simp add: keeps_def)
  then show "keeps (op_begin ev)" unfolding op_begin_def by (intro keeps_intros p)
  show "keeps rollback" unfolding rollback_def by (intro keeps_intros)
  show "keeps refuse_external_transaction" unfolding refuse_external_transaction_def by (intro keeps_intros)
  show "keeps (publication_enabled ev)" unfolding publication_enabled_def by (intro keeps_intros)
  show "keeps (read_state ev rid)" unfolding read_state_def by (intro keeps_intros)
  show "keeps (verify_backend st ev)" unfolding verify_backend_def by (intro keeps_intros)
  show "keeps (delete_graph st ev rid)" unfolding delete_graph_def op_backend_def by (intro keeps_intros p)
qed

lemma keeps_or_rollback [keeps_intros]: "keeps m \<Longrightarrow> keeps (or_rollback m)"
  unfolding or_rollback_def by (intro keeps_intros)

lemma keeps_put_state [keeps_intros]: "keeps (put_state ev prev status b)"
  unfolding put_state_def source_metadata_def Let_def by (auto intro!: keeps_intros split: option.split)

lemma keeps_write_graph [keeps_intros]: "keeps (write_graph st ev pp)"
proof -
  have "keeps (check_source_identity ev pp)" unfolding check_source_identity_def Let_def by (intro keeps_intros)
  moreover have "keeps (check_spaces ev pp)" unfolding check_spaces_def by (intro keeps_intros)
  moreover have "keeps (write_facet ev rid fv)" for rid fv
    unfolding write_facet_def by (cases fv) (auto intro!: keeps_intros split: option.split)
  moreover have "keeps (case x of (uid, content) \<Rightarrow> op_exec ev l (insert_fts uid content))" for x l
    by (cases x) (auto intro!: keeps_intros)
  ultimately show ?thesis unfolding write_graph_def Let_def op_backend_def by (intro keeps_intros)
qed

lemma safe_or_rollback: "safe m \<Longrightarrow> safe (or_rollback m)"
  unfolding or_rollback_def by (rule safe_try) (assumption, intro keeps_intros)

lemma safe_refused: "safe (op_bind op_rollback (\<lambda>_. op_return x))"
  by (rule keeps_safe) (intro keeps_intros)

text \<open>A commit followed by the result comes before the rule for a sequence.\<close>

lemmas safe_rules = safe_commit safe_refused keeps_safe [OF keeps_basic(2)] safe_or_rollback safe_option safe_anyobj safe_if safe_bind

lemma safe_publish_body: "safe (publish_body st ev pp prev)"
  unfolding publish_body_def Let_def by (rule safe_rules keeps_intros)+

lemma safe_publish: "safe (publish st ev pp ex)"
  unfolding publish_def Let_def prod.case by (rule safe_publish_body safe_rules keeps_intros)+

lemma safe_remove: "safe (remove_if_current st ev rid ex del)"
  unfolding remove_if_current_def remove_body_def by (rule safe_rules keeps_intros)+

lemma safe_delete: "safe (delete_transaction st ev obj)"
  unfolding delete_transaction_def by (rule safe_rules keeps_intros)+

lemma safe_rebuild: "safe (rebuild_fts_index st ev)"
  unfolding rebuild_fts_index_def by (rule safe_rules keeps_intros)+

lemma safe_replace: "safe (replace_resource st ev b)"
  unfolding replace_resource_def guarded_def
  by (rule safe_try safe_publish safe_return safe_rules keeps_intros)+

text \<open>With an expectation there is always a result, so nothing is raised after the commit.\<close>

lemma publish_body_result: "publish_body st ev pp (Some p) c = (c', Inr res) \<Longrightarrow> res \<noteq> None"
  by (auto simp: publish_body_def Let_def op_bind_eq_Inr)

lemma publish_result: "publish st ev pp (Some ex) c = (c', Inr res) \<Longrightarrow> res \<noteq> None"
  by (auto simp: publish_def Let_def or_rollback_def op_bind_eq_Inr op_try_eq_Inr split: if_splits dest: publish_body_result)

lemma safe_compare_and_publish: "safe (compare_and_publish st ev b ex)"
proof -
  have p: "safe (op_bind (publish st ev pp (Some ex)) (\<lambda>res. case res of None \<Rightarrow> op_raise (AssertionError ''result'') | Some r \<Rightarrow> op_return r))"
    for pp ex
    using safe_publish [of st ev pp "Some ex"] publish_result
    by (fastforce simp: safe_def op_bind_eq_Inl split: option.splits)
  show ?thesis unfolding compare_and_publish_def by (rule p safe_try safe_rules keeps_intros)+
qed

section \<open>Operations that leave no transaction open\<close>

text \<open>After success no transaction is open; a failed \<open>BEGIN\<close> leaves none open either.\<close>

definition closes :: "('v, 'a) sop \<Rightarrow> bool" where
  "closes m \<longleftrightarrow> (\<forall>c c' x. m c = (c', Inr x) \<longrightarrow> working c' = None)"

definition shuts :: "('v, 'a) sop \<Rightarrow> bool" where
  "shuts m \<longleftrightarrow> (\<forall>c. working c = None \<longrightarrow> working (fst (m c)) = None)"

lemma closes_commit: "closes (op_bind (op_commit ev) (\<lambda>_. op_return x))"
  by (auto simp: closes_def op_bind_eq_Inr op_commit_def op_fault_eq)

lemma closes_bind: "(\<And>x. closes (f x)) \<Longrightarrow> closes (op_bind m f)"
  by (auto simp: closes_def op_bind_eq_Inr)

lemma closes_if: "closes a \<Longrightarrow> closes b \<Longrightarrow> closes (if x then a else b)"
  by simp

lemma closes_option: "closes a \<Longrightarrow> (\<And>x. closes (f x)) \<Longrightarrow> closes (case z of None \<Rightarrow> a | Some x \<Rightarrow> f x)"
  by (cases z) simp_all

lemma closes_refused: "closes (op_bind op_rollback (\<lambda>_. op_return x))"
  by (auto simp: closes_def op_bind_eq_Inr conn_rollback_def)

lemmas closes_rules = closes_commit closes_refused closes_option closes_if closes_bind

lemma rollback_closes: "rollback c = (conn_rollback c, Inr ())"
  by (cases c) (auto simp: rollback_def op_bind_def in_transaction_def conn_rollback_def)

lemma closed_result:
  assumes "closes m" "or_rollback m c = (c', r)"
  shows "working c' = None"
  using assms by (cases "m c"; cases "snd (m c)")
    (auto simp: closes_def or_rollback_def op_try_def rollback_closes op_bind_def conn_rollback_def)

lemma op_begin_fails: "op_begin ev c = (c', Inl e) \<Longrightarrow> working c' = working c"
  by (cases "hook ev ''before_begin''"; cases "engine ev ''BEGIN IMMEDIATE''")
    (auto simp: op_begin_def point_def op_begin_immediate_def op_bind_def op_fault_def split: if_splits)

lemma shuts_or_rollback:
  assumes "closes m"
  shows "shuts (op_bind (op_begin ev) (\<lambda>_. or_rollback m))"
  unfolding shuts_def
proof (intro allI impI)
  fix c :: "'a conn"
  assume c: "working c = None"
  show "working (fst (op_bind (op_begin ev) (\<lambda>_. or_rollback m) c)) = None"
  proof (cases "op_begin ev c")
    case (Pair c1 r)
    show ?thesis
    proof (cases r)
      case (Inl e)
      then show ?thesis using op_begin_fails [of ev c c1 e] Pair c by simp
    next
      case (Inr u)
      then show ?thesis using closed_result [OF assms, of c1] Pair by (cases "or_rollback m c1") simp
    qed
  qed
qed

lemma shuts_undone: "closes m \<Longrightarrow> shuts (op_try m (\<lambda>e. op_bind rollback (\<lambda>_. op_raise (f e))))"
  by (auto simp: closes_def shuts_def op_try_def rollback_closes op_bind_def conn_rollback_def split: prod.splits sum.splits)

lemma shuts_lift: "shuts (op_lift r)"
  by (simp add: shuts_def)

lemma shuts_raise: "shuts (op_raise e)"
  by (simp add: shuts_def)

lemma shuts_return: "shuts (op_return x)"
  by (simp add: shuts_def)

lemma shuts_in_transaction: "shuts op_in_transaction"
  by (simp add: shuts_def)

lemma shuts_bind: "shuts m \<Longrightarrow> (\<And>x. shuts (f x)) \<Longrightarrow> shuts (op_bind m f)"
  by (auto simp: shuts_def op_bind_def split: prod.splits sum.splits) (metis fst_conv)+

lemma shuts_try: "shuts m \<Longrightarrow> (\<And>e. shuts (h e)) \<Longrightarrow> shuts (op_try m h)"
  by (auto simp: shuts_def op_try_def split: prod.splits sum.splits) (metis fst_conv)+

lemma shuts_option: "shuts a \<Longrightarrow> (\<And>x. shuts (f x)) \<Longrightarrow> shuts (case z of None \<Rightarrow> a | Some x \<Rightarrow> f x)"
  by (cases z) simp_all

lemma shuts_anyobj: "shuts a \<Longrightarrow> (\<And>x. shuts (f x)) \<Longrightarrow> shuts (case z of Untyped \<Rightarrow> a | Typed x \<Rightarrow> f x)"
  by (cases z) simp_all

lemma shuts_prod: "(\<And>x y. shuts (f x y)) \<Longrightarrow> shuts (case z of (x, y) \<Rightarrow> f x y)"
  by (cases z) simp

lemma shuts_refuse: "shuts refuse_external_transaction"
  by (simp add: shuts_def refuse_external_transaction_def op_bind_def)

lemmas shuts_rules = shuts_or_rollback shuts_lift shuts_raise shuts_return shuts_in_transaction shuts_refuse shuts_option
  shuts_anyobj shuts_prod shuts_try shuts_bind

lemma closes_publish_body: "closes (publish_body st ev pp prev)"
  unfolding publish_body_def Let_def by (rule closes_rules)+

lemma shuts_publish: "shuts (publish st ev pp ex)"
  unfolding publish_def Let_def prod.case by (rule shuts_or_rollback, (rule closes_publish_body closes_rules)+)

lemma shuts_delete: "shuts (delete_live_resource st ev obj)"
proof -
  have "closes (delete_transaction st ev obj)" unfolding delete_transaction_def by (rule closes_rules)+
  then show ?thesis unfolding delete_live_resource_def by (intro shuts_bind shuts_refuse shuts_undone)
qed

lemma shuts_calls: "shuts (run_call st ev call)"
proof (cases call)
  case (Replace b)
  show ?thesis unfolding Replace run_call.simps replace_resource_def guarded_def by (rule shuts_publish shuts_rules)+
next
  case (CompareAndPublish b ex)
  show ?thesis unfolding CompareAndPublish run_call.simps compare_and_publish_def by (rule shuts_publish shuts_rules)+
next
  case (Withdraw rid ex)
  show ?thesis unfolding Withdraw run_call.simps withdraw_if_current_def remove_safely_def remove_if_current_def remove_body_def
    by (rule shuts_rules closes_rules)+
next
  case (DeleteIfCurrent rid ex)
  show ?thesis unfolding DeleteIfCurrent run_call.simps delete_if_current_def remove_safely_def remove_if_current_def remove_body_def
    by (rule shuts_rules closes_rules)+
next
  case (Delete obj)
  show ?thesis unfolding Delete run_call.simps by (rule shuts_delete shuts_rules)+
next
  case RebuildFts
  show ?thesis unfolding RebuildFts run_call.simps rebuild_fts_index_def by (rule shuts_rules closes_rules)+
qed

section \<open>Properties\<close>

lemma safe_calls: "safe (run_call st ev call)"
proof (cases call)
  case (Delete obj)
  have "safe (delete_live_resource st ev obj)"
    unfolding delete_live_resource_def by (rule safe_try safe_delete safe_bind keeps_intros)+
  then show ?thesis unfolding Delete run_call.simps by (rule safe_return)
next
  case RebuildFts
  show ?thesis unfolding RebuildFts run_call.simps split_def by (rule safe_return [OF safe_rebuild])
qed (auto simp: withdraw_if_current_def delete_if_current_def remove_safely_def
    intro!: safe_return safe_replace safe_compare_and_publish safe_try safe_remove keeps_intros)

text \<open>A refused comparison does not commit.\<close>

definition refused :: "reply \<Rightarrow> bool" where
  "refused r = (case r of Published p \<Rightarrow> \<not> pr_applied p | _ \<Rightarrow> False)"

lemma op_begin_eq_Inr:
  "op_begin ev c = (c', Inr u) \<longleftrightarrow>
     hook ev ''before_begin'' = None \<and> engine ev ''BEGIN IMMEDIATE'' = None \<and> working c = None \<and>
     c' = c\<lparr>working := Some (committed c), open_count := Suc (open_count c)\<rparr>"
  by (auto simp: op_begin_def point_def op_begin_immediate_def op_bind_eq_Inr op_fault_eq in_transaction_def)

lemma point_eq_Inr: "point ev n c = (c', Inr u) \<longleftrightarrow> hook ev n = None \<and> c' = c"
  by (simp add: point_def op_fault_eq)

lemma or_rollback_eq_Inr: "or_rollback m c = (c', Inr x) \<longleftrightarrow> m c = (c', Inr x)"
  by (auto simp: or_rollback_def op_try_eq_Inr rollback_closes op_bind_eq_Inr)

lemma read_state_eq_Inr:
  "read_state ev rid c = (c', Inr s) \<longleftrightarrow>
     engine ev ''SELECT core_publication_states'' = None \<and> c' = c \<and> read_state_db rid (current c) = Inr s"
  by (auto simp: read_state_def op_bind_eq_Inr op_query_eq_Inr)

lemma publication_enabled_eq_Inr:
  "publication_enabled ev c = (c', Inr b) \<longleftrightarrow> engine ev ''SELECT sqlite_master'' = None \<and> c' = c \<and> b = has_states (current c)"
  by (simp add: publication_enabled_def op_query_eq_Inr)

lemma op_lift_eq: "op_lift r c = (c', Inr x) \<longleftrightarrow> c' = c \<and> r = Inr x"
  by auto

lemma op_commit_eq_Inr:
  "op_commit ev c = (c', Inr u) \<longleftrightarrow> engine ev ''COMMIT'' = None \<and> c' = c\<lparr>committed := current c, working := None\<rparr>"
  by (auto simp: op_commit_def op_bind_eq_Inr op_fault_eq)

lemmas op_eqs = op_begin_eq_Inr point_eq_Inr or_rollback_eq_Inr read_state_eq_Inr publication_enabled_eq_Inr op_lift_eq
  op_commit_eq_Inr op_bind_eq_Inr

lemma publish_body_applied: "publish_body st ev pp p c = (c', Inr (Some r)) \<Longrightarrow> pr_applied r"
  by (auto simp: publish_body_def Let_def op_bind_eq_Inr)

text \<open>What a successful conditional publication saw and returned.\<close>

lemma publish_cases:
  assumes "publish st ev pp (Some ex) c = (c', Inr res)"
  obtains (refused) p where "res = Some \<lparr>pr_applied = False, pr_state = p\<rparr>" "committed c' = committed c"
      "read_state_db (res_id (batch_resource (pp_batch pp))) (committed c) = Inr p" "\<not> state_eq p (exp_state ex)"
  | (applied) p r c1 where "res = Some r" "pr_applied r" "state_eq p (exp_state ex)" "working c = None"
      "read_state_db (res_id (batch_resource (pp_batch pp))) (committed c) = Inr p"
      "c1 = c\<lparr>working := Some (committed c), open_count := Suc (open_count c)\<rparr>"
      "publish_body st ev pp (Some p) c1 = (c', Inr (Some r))"
proof -
  from assms obtain p where p: "read_state_db (res_id (batch_resource (pp_batch pp))) (committed c) = Inr p"
    "(if \<not> state_eq p (exp_state ex)
      then op_bind op_rollback (\<lambda>_. op_return (Some \<lparr>pr_applied = False, pr_state = p\<rparr>))
      else publish_body st ev pp (Some p)) (c\<lparr>working := Some (committed c), open_count := Suc (open_count c)\<rparr>) = (c', Inr res)"
    "working c = None"
    by (auto simp: publish_def Let_def op_eqs)
  show thesis
  proof (cases "state_eq p (exp_state ex)")
    case True
    then have b: "publish_body st ev pp (Some p) (c\<lparr>working := Some (committed c), open_count := Suc (open_count c)\<rparr>) = (c', Inr res)"
      using p(2) by simp
    then obtain r where "res = Some r" using publish_body_result by blast
    then show thesis using applied True p b publish_body_applied by blast
  next
    case False
    then show thesis using refused p by (auto simp: op_bind_eq_Inr conn_rollback_def)
  qed
qed

text \<open>The same for a conditional removal.\<close>

lemma remove_cases:
  assumes "remove_if_current st ev rid ex del c = (c', Inr res)"
  obtains (refused) p e where "ex = Typed e" "res = \<lparr>pr_applied = False, pr_state = p\<rparr>" "committed c' = committed c"
      "read_state_db rid (committed c) = Inr p" "\<not> state_eq p (exp_state e)"
  | (applied) p e c1 where "ex = Typed e" "pr_applied res" "state_eq p (exp_state e)" "working c = None"
      "pub_resource_id (exp_state e) = rid" "\<not> exp_create e" "read_state_db rid (committed c) = Inr p"
      "c1 = c\<lparr>working := Some (committed c), open_count := Suc (open_count c)\<rparr>"
      "remove_body st ev rid p del c1 = (c', Inr res)"
proof -
  obtain e where e: "ex = Typed e" using assms by (cases ex) (simp_all add: remove_if_current_def)
  from assms obtain p where p: "read_state_db rid (committed c) = Inr p"
    "(if \<not> state_eq p (exp_state e)
      then op_bind op_rollback (\<lambda>_. op_return \<lparr>pr_applied = False, pr_state = p\<rparr>)
      else remove_body st ev rid p del) (c\<lparr>working := Some (committed c), open_count := Suc (open_count c)\<rparr>) = (c', Inr res)"
    "working c = None" "pub_resource_id (exp_state e) = rid" "\<not> exp_create e"
    by (auto simp: remove_if_current_def e refuse_external_transaction_def op_eqs)
  show thesis
  proof (cases "state_eq p (exp_state e)")
    case True
    then have b: "remove_body st ev rid p del (c\<lparr>working := Some (committed c), open_count := Suc (open_count c)\<rparr>) = (c', Inr res)"
      using p(2) by simp
    moreover have "pr_applied res" using b by (auto simp: remove_body_def op_bind_eq_Inr)
    ultimately show thesis using applied e True p by blast
  next
    case False
    then show thesis using refused e p by (auto simp: op_bind_eq_Inr conn_rollback_def)
  qed
qed

end
