(* ===== verification/Sqlite_Effects.thy ===== *)
theory Sqlite_Effects
  imports Sqlite_Atomicity
begin

text \<open>
  What the operations do to the tables when they succeed. Each statement is a function of the database; a
  sequence of statements that succeeds is the composition of these functions, whatever points and queries lie between.
\<close>

section \<open>Sequences of statements\<close>

text \<open>A successful \<open>m\<close> has changed the working copy as \<open>f\<close> does.\<close>

definition performs :: "('v, 'a) sop \<Rightarrow> ('v db \<Rightarrow> 'v db result) \<Rightarrow> bool" where
  "performs m f \<longleftrightarrow>
     (\<forall>c c' x. working c \<noteq> None \<longrightarrow> m c = (c', Inr x) \<longrightarrow> (\<exists>w. f (current c) = Inr w \<and> c' = c\<lparr>working := Some w\<rparr>))"

named_theorems performs_intros

definition nothing :: "'v db \<Rightarrow> 'v db result" where
  "nothing d = Inr d"

lemma nothing_simps [simp]: "rbind (nothing d) f = f d" "(\<lambda>d. rbind (f d) nothing) = f"
  by (simp_all add: nothing_def fun_eq_iff rbind_def split: sum.split)

lemma same_conn: "working c \<noteq> None \<Longrightarrow> c\<lparr>working := Some (current c)\<rparr> = c"
  by (cases c) (auto simp: current_def)

lemma performs_nothing:
  assumes "\<And>c c' x. m c = (c', Inr x) \<Longrightarrow> c' = c"
  shows "performs m nothing"
  using assms same_conn by (fastforce simp: performs_def nothing_def)

lemma performs_reads:
  "performs (op_return x) nothing" "performs (op_lift r) nothing" "performs (op_raise e) nothing"
  "performs (point ev n) nothing" "performs (op_query ev l q) nothing" "performs (read_state ev rid) nothing"
  "performs (verify_backend st ev) nothing"
  by (rule performs_nothing, auto simp: op_eqs op_query_eq_Inr verify_backend_def)+

lemma performs_exec: "performs (op_exec ev l f) f"
  by (auto simp: performs_def op_exec_eq_Inr)

lemma performs_bind:
  assumes "performs m f" "\<And>x. performs (k x) g"
  shows "performs (op_bind m k) (\<lambda>d. rbind (f d) g)"
  unfolding performs_def
proof (intro allI impI)
  fix c c' x
  assume c: "working c \<noteq> None" and r: "op_bind m k c = (c', Inr x)"
  from r obtain c1 y where m: "m c = (c1, Inr y)" and k: "k y c1 = (c', Inr x)" by (auto simp: op_bind_eq_Inr)
  from assms(1) c m obtain w where w: "f (current c) = Inr w" "c1 = c\<lparr>working := Some w\<rparr>" unfolding performs_def by blast
  then have "working c1 \<noteq> None" "current c1 = w" by simp_all
  with assms(2) [of y] k obtain w' where "g w = Inr w'" "c' = c1\<lparr>working := Some w'\<rparr>" unfolding performs_def by blast
  then show "\<exists>w. rbind (f (current c)) g = Inr w \<and> c' = c\<lparr>working := Some w\<rparr>" using w by auto
qed

lemma performs_then: "performs m f \<Longrightarrow> (\<And>x. performs (k x) nothing) \<Longrightarrow> performs (op_bind m k) f"
  using performs_bind [of m f k nothing] by simp

lemma performs_after: "performs m nothing \<Longrightarrow> (\<And>x. performs (k x) g) \<Longrightarrow> performs (op_bind m k) g"
  using performs_bind [of m nothing k g] by simp

lemma performs_for: "(\<And>x. performs (f x) (g x)) \<Longrightarrow> performs (op_for xs f) (rfold g xs)"
proof (induction xs)
  case Nil
  have "rfold g [] = nothing" by (simp add: fun_eq_iff nothing_def)
  then show ?case using performs_reads(1) by (simp only: op_for.simps)
next
  case (Cons x xs)
  then show ?case using performs_bind [of "f x" "g x" "\<lambda>_. op_for xs f" "rfold g xs"] by simp
qed

lemma performs_or_rollback: "performs m f \<Longrightarrow> performs (or_rollback m) f"
  by (simp add: performs_def or_rollback_eq_Inr)

lemma performsD:
  "performs m f \<Longrightarrow> working c = Some d \<Longrightarrow> m c = (c', Inr x) \<Longrightarrow> \<exists>w. f d = Inr w \<and> c' = c\<lparr>working := Some w\<rparr>"
  unfolding performs_def current_def by force

section \<open>Writing a graph\<close>

definition assign_facet :: "pystr \<Rightarrow> facet_values \<Rightarrow> 'v db \<Rightarrow> 'v db result" where
  "assign_facet rid fv d =
     (case fv of (ns, v, origin, is_null, producer, confidence) \<Rightarrow>
      rbind (insert_facet ns v d) (\<lambda>d.
      case select_facet ns v d of
        None \<Rightarrow> Inl (TypeError ''NoneType object is not subscriptable'')
      | Some f \<Rightarrow> insert_assignment
          \<lparr>as_resource_id = rid, as_facet_id = fr_facet_id f, as_origin = origin, as_producer_is_null = is_null,
           as_producer_value = producer, as_confidence = confidence\<rparr> d))"

lemma performs_write_facet: "performs (write_facet ev rid fv) (assign_facet rid fv)"
  by (cases fv) (auto simp: performs_def write_facet_def assign_facet_def op_bind_eq_Inr op_exec_eq_Inr op_query_eq_Inr
      split: option.splits)

definition backend_step :: "('v db \<Rightarrow> 'v result) \<Rightarrow> 'v db \<Rightarrow> 'v db result" where
  "backend_step f d = rbind (f d) (\<lambda>v. Inr (d\<lparr>t_backend := v\<rparr>))"

definition delete_graph_db :: "'v store \<Rightarrow> pystr \<Rightarrow> 'v db \<Rightarrow> 'v db result" where
  "delete_graph_db st rid d =
     rbind (backend_step (vb_delete_vectors (backend st) rid) d) (\<lambda>d.
     rbind (delete_fts_rows rid d) (delete_resource_row rid))"

lemma performs_delete_graph: "performs (delete_graph st ev rid) (delete_graph_db st rid)"
  unfolding delete_graph_def delete_graph_db_def op_backend_def backend_step_def [symmetric, abs_def]
  by (intro performs_bind performs_then performs_exec performs_reads)

text \<open>The statements that insert a graph, in the order of \<open>_write_graph\<close>.\<close>

definition insert_graph_db :: "'v store \<Rightarrow> prepared \<Rightarrow> 'v db \<Rightarrow> 'v db result" where
  "insert_graph_db st pp d =
     (let b = pp_batch pp; rid = res_id (batch_resource b) in
      rbind (insert_resource (pp_resource pp) d) (\<lambda>d.
      rbind (rfold insert_space (pp_spaces pp) d) (\<lambda>d.
      rbind (rfold insert_representation (pp_representations pp) d) (\<lambda>d.
      rbind (rfold insert_unit (pp_units pp) d) (\<lambda>d.
      rbind (rfold insert_embedding (pp_vectors pp) d) (\<lambda>d.
      rbind (rfold (assign_facet rid) (pp_facets pp) d) (\<lambda>d.
      rbind (rfold (\<lambda>(uid, content). insert_fts uid content) (pp_fts pp) d) (\<lambda>d.
      rbind (prune_facet_rows d)
        (backend_step (vb_replace_vectors (backend st) rid (batch_spaces b) (batch_vectors b)))))))))))"

definition write_graph_db :: "'v store \<Rightarrow> prepared \<Rightarrow> 'v db \<Rightarrow> 'v db result" where
  "write_graph_db st pp d =
     rbind (delete_graph_db st (res_id (batch_resource (pp_batch pp))) d) (insert_graph_db st pp)"

lemma performs_checks:
  "performs (check_source_identity ev pp) nothing" "performs (check_spaces ev pp :: ('v, unit) sop) nothing"
proof -
  show "performs (check_source_identity ev pp) nothing"
    unfolding check_source_identity_def Let_def by (intro performs_after performs_reads)
  have "performs (check_spaces ev pp :: ('v, unit) sop) (rfold (\<lambda>_. nothing) (pp_spaces pp))"
    unfolding check_spaces_def by (intro performs_for performs_after performs_reads)
  moreover have "rfold (\<lambda>_. nothing) xs = (nothing :: 'v db \<Rightarrow> 'v db result)" for xs :: "EmbeddingSpaceRecord list"
    by (induction xs) (simp_all add: fun_eq_iff nothing_def)
  ultimately show "performs (check_spaces ev pp :: ('v, unit) sop) nothing" by simp
qed

lemma performs_write_graph: "performs (write_graph st ev pp) (write_graph_db st pp)"
proof -
  have fts: "performs (case x of (uid, content) \<Rightarrow> op_exec ev l (insert_fts uid content)) ((\<lambda>(uid, content). insert_fts uid content) x)"
    for x l by (cases x) (simp add: performs_exec)
  show ?thesis
    unfolding write_graph_def write_graph_db_def insert_graph_db_def Let_def op_backend_def backend_step_def [symmetric, abs_def]
    apply (rule performs_or_rollback)
    apply (rule performs_after [OF performs_checks(1)])
    apply (rule performs_after [OF performs_checks(2)])
    apply (rule performs_bind [OF performs_delete_graph])
    apply (rule performs_bind [OF performs_exec])
    apply (rule performs_bind [OF performs_for [OF performs_exec]])
    apply (rule performs_bind [OF performs_for [OF performs_exec]])
    apply (rule performs_after [OF performs_reads(4)])
    apply (rule performs_bind [OF performs_for [OF performs_exec]])
    apply (rule performs_after [OF performs_reads(4)])
    apply (rule performs_bind [OF performs_for [OF performs_exec]])
    apply (rule performs_after [OF performs_reads(4)])
    apply (rule performs_bind [OF performs_for [OF performs_write_facet]])
    apply (rule performs_after [OF performs_reads(4)])
    apply (rule performs_bind [OF performs_for [OF fts]])
    apply (rule performs_after [OF performs_reads(4)])
    apply (rule performs_bind [OF performs_exec])
    apply (rule performs_then [OF performs_exec])
    apply (intro performs_after performs_reads)
    done
qed

section \<open>The effect on the tables\<close>

lemma insert_effects:
  "insert_resource r d = Inr d' \<Longrightarrow> d' = d\<lparr>t_resources := t_resources d @ [r]\<rparr>"
  "insert_representation p d = Inr d' \<Longrightarrow> d' = d\<lparr>t_representations := t_representations d @ [p]\<rparr>"
  "insert_unit u d = Inr d' \<Longrightarrow> d' = d\<lparr>t_units := t_units d @ [u]\<rparr>"
  "insert_embedding e d = Inr d' \<Longrightarrow> d' = d\<lparr>t_embeddings := t_embeddings d @ [e]\<rparr>"
  by (auto simp: insert_resource_def insert_representation_def insert_unit_def insert_embedding_def rbind_eq_Inr)

text \<open>Statements that append a row each append the rows together.\<close>

lemma rfold_appends:
  assumes "\<And>x d d'. f x d = Inr d' \<Longrightarrow> d' = g [x] d" "\<And>d. g [] d = d" "\<And>xs ys d. g ys (g xs d) = g (xs @ ys) d"
  shows "rfold f xs d = Inr d' \<Longrightarrow> d' = g xs d"
proof (induction xs arbitrary: d)
  case (Cons x xs)
  from Cons.prems obtain d1 where d1: "f x d = Inr d1" "rfold f xs d1 = Inr d'" by (auto simp: rbind_eq_Inr)
  have "d' = g xs d1" by (rule Cons.IH [OF d1(2)])
  then show ?case using assms(1) [OF d1(1)] assms(3) [of xs "[x]" d] by simp
qed (simp add: assms(2))

lemma insert_all_representations:
  "rfold insert_representation ps d = Inr d' \<Longrightarrow> d' = d\<lparr>t_representations := t_representations d @ ps\<rparr>"
  by (rule rfold_appends [of insert_representation "\<lambda>ps d. d\<lparr>t_representations := t_representations d @ ps\<rparr>"])
    (auto dest: insert_effects)

lemma insert_all_units: "rfold insert_unit us d = Inr d' \<Longrightarrow> d' = d\<lparr>t_units := t_units d @ us\<rparr>"
  by (rule rfold_appends [of insert_unit "\<lambda>us d. d\<lparr>t_units := t_units d @ us\<rparr>"]) (auto dest: insert_effects)

lemma insert_all_embeddings: "rfold insert_embedding es d = Inr d' \<Longrightarrow> d' = d\<lparr>t_embeddings := t_embeddings d @ es\<rparr>"
  by (rule rfold_appends [of insert_embedding "\<lambda>es d. d\<lparr>t_embeddings := t_embeddings d @ es\<rparr>"]) (auto dest: insert_effects)

definition fts_rows :: "(pystr \<times> pystr) list \<Rightarrow> fts_row list" where
  "fts_rows fs = map (\<lambda>(uid, content). \<lparr>fts_unit_id = uid, fts_content = content\<rparr>) fs"

lemma insert_all_fts:
  "rfold (\<lambda>(uid, content). insert_fts uid content) fs d = Inr d' \<Longrightarrow> d' = d\<lparr>t_fts := t_fts d @ fts_rows fs\<rparr>"
  by (rule rfold_appends [of "\<lambda>(uid, content). insert_fts uid content" "\<lambda>fs d. d\<lparr>t_fts := t_fts d @ fts_rows fs\<rparr>"])
    (auto simp: insert_fts_def fts_rows_def)

text \<open>Spaces not stored before are appended.\<close>

fun add_spaces :: "EmbeddingSpaceRecord list \<Rightarrow> EmbeddingSpaceRecord list \<Rightarrow> EmbeddingSpaceRecord list" where
  "add_spaces old [] = old"
| "add_spaces old (s # ss) = add_spaces (if space_id s \<in> set (map space_id old) then old else old @ [s]) ss"

lemma insert_all_spaces: "rfold insert_space ss d = Inr d' \<Longrightarrow> d' = d\<lparr>t_spaces := add_spaces (t_spaces d) ss\<rparr>"
proof (induction ss arbitrary: d)
  case (Cons s ss)
  from Cons.prems obtain d1 where d1: "insert_space s d = Inr d1" "rfold insert_space ss d1 = Inr d'" by (auto simp: rbind_eq_Inr)
  have "d1 = d\<lparr>t_spaces := if space_id s \<in> set (map space_id (t_spaces d)) then t_spaces d else t_spaces d @ [s]\<rparr>"
    using d1(1) by (auto simp: insert_space_def rbind_eq_Inr split: if_splits)
  with Cons.IH [OF d1(2)] show ?case by simp
qed simp

text \<open>Facets and their assignments, as functions of these two tables alone.\<close>

definition add_facet :: "facet_row list \<Rightarrow> pystr \<Rightarrow> pystr \<Rightarrow> facet_row list" where
  "add_facet fs ns v =
     (if \<exists>f \<in> set fs. fr_namespace f = ns \<and> fr_value f = v then fs
      else fs @ [\<lparr>fr_facet_id = next_facet_id fs, fr_namespace = ns, fr_value = v\<rparr>])"

lemma select_facet_None: "select_facet ns v d = None \<longleftrightarrow> \<not> (\<exists>f \<in> set (t_facets d). fr_namespace f = ns \<and> fr_value f = v)"
  by (auto simp: select_facet_def find_None_iff)

lemma insert_facet_effect: "insert_facet ns v d = Inr (d\<lparr>t_facets := add_facet (t_facets d) ns v\<rparr>)"
  by (auto simp: insert_facet_def add_facet_def select_facet_None)

fun assigned :: "facet_row list \<Rightarrow> facet_values \<Rightarrow> pystr \<Rightarrow> assignment_row option" where
  "assigned fs (ns, v, origin, is_null, producer, confidence) rid =
     map_option (\<lambda>f. \<lparr>as_resource_id = rid, as_facet_id = fr_facet_id f, as_origin = origin, as_producer_is_null = is_null,
        as_producer_value = producer, as_confidence = confidence\<rparr>)
       (find (\<lambda>f. fr_namespace f = ns \<and> fr_value f = v) fs)"

fun add_facets :: "facet_row list \<Rightarrow> facet_values list \<Rightarrow> facet_row list" where
  "add_facets fs [] = fs"
| "add_facets fs ((ns, v, xs) # fvs) = add_facets (add_facet fs ns v) fvs"

fun add_assignments :: "pystr \<Rightarrow> facet_row list \<Rightarrow> facet_values list \<Rightarrow> assignment_row list" where
  "add_assignments rid fs [] = []"
| "add_assignments rid fs ((ns, v, xs) # fvs) =
     (let fs' = add_facet fs ns v in opt_list (assigned fs' (ns, v, xs) rid) @ add_assignments rid fs' fvs)"

lemma assign_facet_effect:
  assumes "assign_facet rid (ns, v, xs) d = Inr d'"
  shows "d' = d\<lparr>t_facets := add_facet (t_facets d) ns v,
    t_assignments := t_assignments d @ opt_list (assigned (add_facet (t_facets d) ns v) (ns, v, xs) rid)\<rparr>"
proof -
  obtain origin is_null producer confidence where xs: "xs = (origin, is_null, producer, confidence)" by (cases xs)
  show ?thesis using assms
    by (auto simp: xs assign_facet_def insert_facet_effect select_facet_def insert_assignment_def rbind_eq_Inr opt_list_def
        split: option.splits)
qed

lemma assign_all_facets:
  "rfold (assign_facet rid) fvs d = Inr d' \<Longrightarrow>
   d' = d\<lparr>t_facets := add_facets (t_facets d) fvs,
     t_assignments := t_assignments d @ add_assignments rid (t_facets d) fvs\<rparr>"
proof (induction fvs arbitrary: d)
  case (Cons fv fvs)
  obtain ns v xs where fv: "fv = (ns, v, xs)" by (cases fv)
  from Cons.prems obtain d1 where d1: "assign_facet rid (ns, v, xs) d = Inr d1" "rfold (assign_facet rid) fvs d1 = Inr d'"
    by (auto simp: fv rbind_eq_Inr)
  show ?case using Cons.IH [OF d1(2)] assign_facet_effect [OF d1(1)] by (simp add: fv Let_def)
qed simp

text \<open>The tables after a graph has been written.\<close>

definition dead_unit :: "pystr \<Rightarrow> 'v db \<Rightarrow> SearchUnitRecord \<Rightarrow> bool" where
  "dead_unit rid d u \<longleftrightarrow>
     (unit_resource_id u, unit_representation_id u) \<in>
       set (map (\<lambda>r. (rep_resource_id r, rep_id r)) (filter (\<lambda>r. rep_resource_id r = rid) (t_representations d)))"

definition without :: "pystr \<Rightarrow> 'v db \<Rightarrow> 'v db" where
  "without rid d = d\<lparr>
     t_resources := filter (\<lambda>r. row_id r \<noteq> rid) (t_resources d),
     t_representations := filter (\<lambda>r. rep_resource_id r \<noteq> rid) (t_representations d),
     t_units := filter (\<lambda>u. \<not> dead_unit rid d u) (t_units d),
     t_embeddings := filter (\<lambda>e. emb_unit_id e \<notin> set (map unit_id (filter (dead_unit rid d) (t_units d)))) (t_embeddings d),
     t_assignments := filter (\<lambda>a. as_resource_id a \<noteq> rid) (t_assignments d),
     t_fts := filter (\<lambda>f. fts_unit_id f \<notin> set (unit_ids_of rid d)) (t_fts d)\<rparr>"

lemma delete_rows_effect: "rbind (delete_fts_rows rid d) (delete_resource_row rid) = Inr (without rid d)"
  by (simp add: delete_fts_rows_def delete_resource_row_def Let_def without_def dead_unit_def [abs_def])

lemma without_backend: "without rid (d\<lparr>t_backend := v\<rparr>) = (without rid d)\<lparr>t_backend := v\<rparr>"
  by (simp add: without_def unit_ids_of_def dead_unit_def [abs_def])

lemma delete_graph_effect: "delete_graph_db st rid d = Inr d' \<Longrightarrow> \<exists>v. d' = (without rid d)\<lparr>t_backend := v\<rparr>"
  unfolding delete_graph_db_def delete_rows_effect by (auto simp: rbind_eq_Inr backend_step_def without_backend)

definition with_graph :: "prepared \<Rightarrow> 'v db \<Rightarrow> 'v db" where
  "with_graph pp d =
     (let rid = res_id (batch_resource (pp_batch pp)); w = without rid d;
          assignments = t_assignments w @ add_assignments rid (t_facets d) (pp_facets pp)
      in w\<lparr>
        t_resources := t_resources w @ [pp_resource pp],
        t_spaces := add_spaces (t_spaces d) (pp_spaces pp),
        t_representations := t_representations w @ pp_representations pp,
        t_units := t_units w @ pp_units pp,
        t_embeddings := t_embeddings w @ pp_vectors pp,
        t_facets := filter (\<lambda>f. fr_facet_id f \<in> set (map as_facet_id assignments)) (add_facets (t_facets d) (pp_facets pp)),
        t_assignments := assignments,
        t_fts := t_fts w @ fts_rows (pp_fts pp)\<rparr>)"

lemma write_graph_effect:
  assumes "write_graph_db st pp d = Inr d'"
  shows "\<exists>v. d' = (with_graph pp d)\<lparr>t_backend := v\<rparr>"
proof -
  let ?rid = "res_id (batch_resource (pp_batch pp))"
  obtain d0 where d0: "delete_graph_db st ?rid d = Inr d0" and ins: "insert_graph_db st pp d0 = Inr d'"
    using assms by (auto simp: write_graph_db_def rbind_eq_Inr)
  obtain v where v: "d0 = (without ?rid d)\<lparr>t_backend := v\<rparr>" using delete_graph_effect [OF d0] by blast
  from ins obtain d1 d2 d3 d4 d5 d6 d7 v' where steps:
    "insert_resource (pp_resource pp) d0 = Inr d1" "rfold insert_space (pp_spaces pp) d1 = Inr d2"
    "rfold insert_representation (pp_representations pp) d2 = Inr d3" "rfold insert_unit (pp_units pp) d3 = Inr d4"
    "rfold insert_embedding (pp_vectors pp) d4 = Inr d5" "rfold (assign_facet ?rid) (pp_facets pp) d5 = Inr d6"
    "rfold (\<lambda>(uid, content). insert_fts uid content) (pp_fts pp) d6 = Inr d7"
    "d' = (projr (prune_facet_rows d7))\<lparr>t_backend := v'\<rparr>"
    by (auto simp: insert_graph_db_def Let_def rbind_eq_Inr backend_step_def prune_facet_rows_def)
  note e = insert_effects(1) [OF steps(1)] insert_all_spaces [OF steps(2)] insert_all_representations [OF steps(3)]
    insert_all_units [OF steps(4)] insert_all_embeddings [OF steps(5)] assign_all_facets [OF steps(6)]
    insert_all_fts [OF steps(7)]
  have d3: "d3 = d0\<lparr>t_resources := t_resources d0 @ [pp_resource pp], t_spaces := add_spaces (t_spaces d0) (pp_spaces pp),
      t_representations := t_representations d0 @ pp_representations pp\<rparr>"
    using e(1,2,3) by simp
  have d5: "d5 = d3\<lparr>t_units := t_units d0 @ pp_units pp, t_embeddings := t_embeddings d0 @ pp_vectors pp\<rparr>"
    using e(4,5) by (simp add: d3)
  have d7: "d7 = d5\<lparr>t_facets := add_facets (t_facets d0) (pp_facets pp),
      t_assignments := t_assignments d0 @ add_assignments ?rid (t_facets d0) (pp_facets pp), t_fts := t_fts d0 @ fts_rows (pp_fts pp)\<rparr>"
    using e(6,7) by (simp add: d5 d3)
  have "d' = (with_graph pp d)\<lparr>t_backend := v'\<rparr>"
    unfolding steps(8) d7 d5 d3 v by (simp add: prune_facet_rows_def with_graph_def without_def Let_def image_Un)
  then show ?thesis by blast
qed

section \<open>Publication states\<close>

text \<open>The row that \<open>_put_state\<close> writes.\<close>

definition put_row :: "surroundings \<Rightarrow> PublicationState \<Rightarrow> PublicationStatus \<Rightarrow> PreparedResourceBatch option \<Rightarrow> state_row \<Rightarrow> bool" where
  "put_row ev prev status batch row \<longleftrightarrow>
     sr_resource_id row = pub_resource_id prev \<and> sr_status row = status \<and> sr_state_token row = new_token ev \<and>
     (if live prev then pub_lifecycle_id prev = Some (sr_lifecycle_id row) else sr_lifecycle_id row = new_lifecycle ev) \<and>
     (case batch of
        Some b \<Rightarrow> sr_source_namespace row = res_source_namespace (batch_resource b) \<and>
          sr_locator_kind row = loc_kind (res_locator (batch_resource b)) \<and>
          encode_mapping (loc_payload (res_locator (batch_resource b))) ''source_locator'' = Inr (sr_locator_json row)
      | None \<Rightarrow> pub_source_namespace prev = Some (sr_source_namespace row) \<and>
          (\<exists>l. pub_source_locator prev = Some l \<and> sr_locator_kind row = loc_kind l \<and>
             encode_mapping (loc_payload l) ''source_locator'' = Inr (sr_locator_json row)))"

lemma put_state_effect:
  assumes "put_state ev prev status batch c = (c', Inr u)" "working c = Some d"
  shows "\<exists>row w. put_row ev prev status batch row \<and> upsert_state row d = Inr w \<and> c' = c\<lparr>working := Some w\<rparr>"
proof -
  have cur: "current c = d" using assms(2) by (simp add: current_def)
  have meta: "source_metadata ev p st b c1 = (c2, Inr m) \<Longrightarrow> c2 = c1" for p st b c1 m and c2 :: "'a conn"
    by (auto simp: source_metadata_def op_bind_eq_Inr op_query_eq_Inr split: option.splits if_splits)
  obtain l n lid payload metadata w where
    src: "(case batch of None \<Rightarrow> pub_source_locator prev | Some b \<Rightarrow> Some (res_locator (batch_resource b))) = Some l"
      "(case batch of None \<Rightarrow> pub_source_namespace prev | Some b \<Rightarrow> Some (res_source_namespace (batch_resource b))) = Some n"
    and lid: "if live prev then pub_lifecycle_id prev = Some lid else lid = new_lifecycle ev"
    and payload: "encode_mapping (loc_payload l) ''source_locator'' = Inr payload"
    and up: "upsert_state \<lparr>sr_resource_id = pub_resource_id prev, sr_status = status, sr_lifecycle_id = lid,
        sr_state_token = new_token ev, sr_source_namespace = n, sr_locator_kind = loc_kind l,
        sr_locator_json = payload, sr_metadata_json = metadata\<rparr> d = Inr w" "c' = c\<lparr>working := Some w\<rparr>"
    using assms(1) cur
    by (cases "live prev"; cases batch)
      (auto simp: put_state_def Let_def op_eqs op_exec_eq_Inr dest!: meta split: option.splits)
  let ?row = "\<lparr>sr_resource_id = pub_resource_id prev, sr_status = status, sr_lifecycle_id = lid,
    sr_state_token = new_token ev, sr_source_namespace = n, sr_locator_kind = loc_kind l,
    sr_locator_json = payload, sr_metadata_json = metadata\<rparr>"
  have "put_row ev prev status batch ?row"
    using src lid payload by (cases batch) (auto simp: put_row_def)
  then show ?thesis using up by blast
qed

lemma upsert_effects:
  assumes "upsert_state row d = Inr d'"
  shows "select_state (sr_resource_id row) d' = Some row"
    "rid \<noteq> sr_resource_id row \<Longrightarrow> select_state rid d' = select_state rid d"
    "\<exists>states. d' = d\<lparr>t_states := states\<rparr>"
proof -
  have find_map: "find (\<lambda>s. sr_resource_id s = i) (map (\<lambda>x. if sr_resource_id x = sr_resource_id row then row else x) xs) =
      (if i = sr_resource_id row then (if \<exists>x \<in> set xs. sr_resource_id x = i then Some row else None)
       else find (\<lambda>s. sr_resource_id s = i) xs)" for i xs
    by (induction xs) auto
  have find_app: "find P (xs @ ys) = (case find P xs of None \<Rightarrow> find P ys | Some x \<Rightarrow> Some x)" for P and xs ys :: "state_row list"
    by (induction xs) auto
  have some: "find P xs = Some x \<Longrightarrow> x \<in> set xs \<and> P x" for P and xs :: "state_row list" and x
    by (auto simp: find_Some_iff)
  show "select_state (sr_resource_id row) d' = Some row"
    "rid \<noteq> sr_resource_id row \<Longrightarrow> select_state rid d' = select_state rid d"
    "\<exists>states. d' = d\<lparr>t_states := states\<rparr>"
    using assms by (auto simp: upsert_state_def Let_def rbind_eq_Inr select_state_def find_map find_app
        split: if_splits option.splits dest!: some)
qed

end
