(* ===== verification/Sqlite_Protocol.thy ===== *)
theory Sqlite_Protocol
  imports Sqlite_Effects
begin

text \<open>
  The publication protocol as a state machine over which resources have a graph and which publication state each has.
  Every call of the store, whatever its outcome, takes at most one step of the machine (refinement); its invariants and
  the impossibility of an unnoticed change are proved on the machine.
\<close>

section \<open>The machine\<close>

type_synonym pub_view = "pystr set \<times> (pystr \<Rightarrow> state_row option)"

definition live_row :: "state_row option \<Rightarrow> bool" where
  "live_row s = (case s of None \<Rightarrow> False | Some r \<Rightarrow> sr_status r \<in> {published, live_without_projections})"

text \<open>A live state keeps its lifecycle; publishing an absent or deleted resource starts a new one.\<close>

definition continues :: "surroundings \<Rightarrow> state_row option \<Rightarrow> state_row \<Rightarrow> bool" where
  "continues ev old row \<longleftrightarrow>
     sr_state_token row = new_token ev \<and>
     (if live_row old then sr_lifecycle_id row = sr_lifecycle_id (the old) else sr_lifecycle_id row = new_lifecycle ev)"

inductive pub_step :: "surroundings \<Rightarrow> pub_view \<Rightarrow> pub_view \<Rightarrow> bool" for ev where
  stay: "pub_step ev (G, S) (G, S)"
| publishes: "continues ev (S rid) row \<Longrightarrow> sr_resource_id row = rid \<Longrightarrow> sr_status row = published \<Longrightarrow>
    pub_step ev (G, S) (insert rid G, S(rid \<mapsto> row))"
| removes: "live_row (S rid) \<Longrightarrow> continues ev (S rid) row \<Longrightarrow> sr_resource_id row = rid \<Longrightarrow>
    sr_status row \<in> {live_without_projections, deleted} \<Longrightarrow>
    pub_step ev (G, S) (G - {rid}, S(rid \<mapsto> row))"
| discards: "\<not> live_row (S rid) \<Longrightarrow> pub_step ev (G, S) (G - {rid}, S)"

inductive_cases pub_stepE: "pub_step ev (G, S) (G', S')"

definition view :: "'v db \<Rightarrow> pub_view" where
  "view d = (set (map row_id (t_resources d)), \<lambda>rid. select_state rid d)"

section \<open>Reading states\<close>

lemma publication_status_name: "publication_status (PStr (status_name s)) = Inr s"
  by (cases s) (simp_all add: publication_status_def status_name_def)

lemma state_from_row_fields:
  assumes "state_from_row rid row = Inr p"
  shows "pub_resource_id p = rid"
    "row = Some s \<Longrightarrow> sr_status s \<noteq> never_created \<Longrightarrow> pub_status p = sr_status s \<and>
       pub_lifecycle_id p = Some (sr_lifecycle_id s) \<and> pub_state_token p = Some (sr_state_token s) \<and>
       pub_source_namespace p = Some (sr_source_namespace s)"
    "row = None \<Longrightarrow> pub_status p = never_created"
    "pub_status p \<noteq> never_created \<Longrightarrow> \<exists>s. row = Some s \<and> sr_status s = pub_status p"
  using assms
  by (auto simp: state_from_row_def new_PublicationState_def publication_status_name require_non_empty_eq_Inr rbind_eq_Inr
      split: option.splits if_splits)

text \<open>Rows never hold the status of an absent resource.\<close>

definition rows_stored :: "'v db \<Rightarrow> bool" where
  "rows_stored d \<longleftrightarrow> (\<forall>rid s. select_state rid d = Some s \<longrightarrow> sr_status s \<noteq> never_created)"

lemma live_read_state:
  assumes "read_state_db rid d = Inr p" "rows_stored d"
  shows "live p \<longleftrightarrow> live_row (select_state rid d)"
    "live p \<Longrightarrow> pub_lifecycle_id p = Some (sr_lifecycle_id (the (select_state rid d)))"
proof -
  have st: "state_from_row rid (select_state rid d) = Inr p" using assms(1) by (simp add: read_state_db_eq_Inr)
  show eq: "live p \<longleftrightarrow> live_row (select_state rid d)"
  proof (cases "select_state rid d")
    case None
    then show ?thesis using state_from_row_fields(3) [OF st] by (simp add: live_def live_row_def)
  next
    case (Some s)
    then have "sr_status s \<noteq> never_created" using assms(2) by (auto simp: rows_stored_def)
    then show ?thesis using state_from_row_fields(2) [OF st Some] by (simp add: live_def live_row_def Some)
  qed
  show "live p \<Longrightarrow> pub_lifecycle_id p = Some (sr_lifecycle_id (the (select_state rid d)))"
  proof -
    assume "live p"
    then have "live_row (select_state rid d)" using eq by simp
    then obtain s where s: "select_state rid d = Some s" "sr_status s \<noteq> never_created"
      by (auto simp: live_row_def split: option.splits)
    then show ?thesis using state_from_row_fields(2) [OF st s(1) s(2)] by simp
  qed
qed

section \<open>Refinement\<close>

lemma publish_body_effect:
  assumes "publish_body st ev pp (Some p) c = (c', Inr res)" "working c = Some d"
  shows "\<exists>w row s. write_graph_db st pp d = Inr w \<and> put_row ev p published (Some (pp_batch pp)) row \<and>
    upsert_state row w = Inr (committed c') \<and> res = Some \<lparr>pr_applied = True, pr_state = s\<rparr> \<and>
    read_state_db (res_id (batch_resource (pp_batch pp))) (committed c') = Inr s"
proof -
  let ?rid = "res_id (batch_resource (pp_batch pp))"
  from assms(1) obtain c1 c2 s where c1: "write_graph st ev pp c = (c1, Inr ())"
    and c2: "put_state ev p published (Some (pp_batch pp)) c1 = (c2, Inr ())"
    and s: "read_state_db ?rid (current c2) = Inr s" "c' = c2\<lparr>committed := current c2, working := None\<rparr>"
      "res = Some \<lparr>pr_applied = True, pr_state = s\<rparr>"
    by (auto simp: publish_body_def Let_def op_eqs)
  obtain w where w: "write_graph_db st pp d = Inr w" "c1 = c\<lparr>working := Some w\<rparr>"
    using performsD [OF performs_write_graph assms(2) c1] by blast
  obtain row w' where "put_row ev p published (Some (pp_batch pp)) row" "upsert_state row w = Inr w'" "c2 = c1\<lparr>working := Some w'\<rparr>"
    using put_state_effect [OF c2, of w] w(2) by auto
  then show ?thesis using w s by auto
qed

lemma publish_effect:
  assumes "publish st ev pp ex c = (c', Inr res)" "has_states (committed c)"
  shows "committed c' = committed c \<or>
    (\<exists>p w row. read_state_db (res_id (batch_resource (pp_batch pp))) (committed c) = Inr p \<and>
       write_graph_db st pp (committed c) = Inr w \<and> put_row ev p published (Some (pp_batch pp)) row \<and>
       upsert_state row w = Inr (committed c'))"
proof (cases ex)
  case None
  with assms obtain p where p: "read_state_db (res_id (batch_resource (pp_batch pp))) (committed c) = Inr p"
    "publish_body st ev pp (Some p) (c\<lparr>working := Some (committed c), open_count := Suc (open_count c)\<rparr>) = (c', Inr res)"
    by (auto simp: publish_def Let_def op_eqs split: if_splits)
  show ?thesis using publish_body_effect [OF p(2)] p(1) by auto
next
  case (Some e)
  from assms(1) [unfolded Some] show ?thesis
  proof (cases rule: publish_cases)
    case (applied p r c1)
    then show ?thesis using publish_body_effect [OF applied(7), of "committed c"] by auto
  qed simp
qed

lemma preflight_id: "preflight st ev obj = Inr pp \<Longrightarrow> row_id (pp_resource pp) = res_id (batch_resource (pp_batch pp))"
  by (auto simp: preflight_def Let_def rbind_eq_Inr prepare_resource_def split: anyobj.splits)

lemma upsert_view:
  assumes "upsert_state row d = Inr d'"
  shows "view d' = (fst (view d), (snd (view d))(sr_resource_id row \<mapsto> row))"
proof -
  have "t_resources d' = t_resources d" using upsert_effects(3) [OF assms] by auto
  moreover have "select_state rid d' = (if rid = sr_resource_id row then Some row else select_state rid d)" for rid
    using upsert_effects(1,2) [OF assms] by auto
  ultimately show ?thesis by (auto simp: view_def)
qed

lemma view_backend: "view (d\<lparr>t_backend := v\<rparr>) = view d"
  by (simp add: view_def select_state_def)

lemma view_without: "view (without rid d) = (fst (view d) - {rid}, snd (view d))"
  by (auto simp: view_def without_def select_state_def)

lemma view_with_graph:
  assumes "row_id (pp_resource pp) = res_id (batch_resource (pp_batch pp))"
  shows "view (with_graph pp d) = (insert (res_id (batch_resource (pp_batch pp))) (fst (view d)), snd (view d))"
  using assms by (auto simp: view_def with_graph_def without_def select_state_def Let_def)

lemma put_row_continues:
  assumes "read_state_db rid d = Inr p" "rows_stored d" "put_row ev p status b row"
  shows "continues ev (select_state rid d) row" "sr_resource_id row = rid" "sr_status row = status"
proof -
  have "pub_resource_id p = rid" using assms(1) state_from_row_fields(1) by (auto simp: read_state_db_eq_Inr)
  then show "sr_resource_id row = rid" "sr_status row = status" using assms(3) by (simp_all add: put_row_def)
  show "continues ev (select_state rid d) row"
    using live_read_state [OF assms(1,2)] assms(3) by (auto simp: continues_def put_row_def split: if_splits)
qed

text \<open>No call changes whether the publication table exists.\<close>

lemma upsert_schema: "upsert_state row d = Inr d' \<Longrightarrow> has_states d' = has_states d"
  using upsert_effects(3) by fastforce

lemma write_graph_schema: "write_graph_db st pp d = Inr d' \<Longrightarrow> has_states d' = has_states d"
  using write_graph_effect by (fastforce simp: with_graph_def without_def Let_def)

lemma delete_graph_schema: "delete_graph_db st rid d = Inr d' \<Longrightarrow> has_states d' = has_states d"
  using delete_graph_effect by (fastforce simp: without_def)

lemma prune_schema: "prune_facet_rows d = Inr d' \<Longrightarrow> has_states d' = has_states d"
  by (auto simp: prune_facet_rows_def)

lemma publish_refines:
  assumes "publish st ev pp ex c = (c', Inr res)" "has_states (committed c)" "rows_stored (committed c)"
    "row_id (pp_resource pp) = res_id (batch_resource (pp_batch pp))"
  shows "pub_step ev (view (committed c)) (view (committed c')) \<and> has_states (committed c')"
proof -
  let ?d = "committed c" and ?rid = "res_id (batch_resource (pp_batch pp))"
  from publish_effect [OF assms(1,2)] show ?thesis
  proof (elim disjE exE conjE)
    assume "committed c' = committed c"
    then show ?thesis using assms(2) by (cases "view ?d") (simp add: pub_step.stay)
  next
    fix p w row
    assume a: "read_state_db ?rid ?d = Inr p" "write_graph_db st pp ?d = Inr w" "put_row ev p published (Some (pp_batch pp)) row"
      "upsert_state row w = Inr (committed c')"
    have "view w = (insert ?rid (fst (view ?d)), snd (view ?d))"
      using write_graph_effect [OF a(2)] by (auto simp: view_backend view_with_graph [OF assms(4)])
    moreover note row = put_row_continues [OF a(1) assms(3) a(3)]
    ultimately have "view (committed c') = (insert ?rid (fst (view ?d)), (snd (view ?d))(?rid \<mapsto> row))"
      using upsert_view [OF a(4)] by simp
    moreover have "pub_step ev (fst (view ?d), snd (view ?d)) (insert ?rid (fst (view ?d)), (snd (view ?d))(?rid \<mapsto> row))"
      using row by (intro pub_step.publishes) (simp_all add: view_def)
    moreover have "has_states (committed c')" using upsert_schema [OF a(4)] write_graph_schema [OF a(2)] assms(2) by simp
    ultimately show ?thesis by simp
  qed
qed

lemma view_prune: "prune_facet_rows d = Inr d' \<Longrightarrow> view d' = view d"
  by (auto simp: prune_facet_rows_def view_def select_state_def)

lemma removed_status_cases: "removed_status del \<in> {live_without_projections, deleted}"
  by (simp add: removed_status_def)

text \<open>Deleting the graph of a live resource and recording a state for it.\<close>

lemma removal_step:
  assumes "delete_graph_db st rid d = Inr d1" "read_state_db rid d = Inr p" "rows_stored d" "live p"
    "put_row ev p status None row" "upsert_state row d1 = Inr d2" "prune_facet_rows d2 = Inr d3"
    "status \<in> {live_without_projections, deleted}"
  shows "pub_step ev (view d) (view d3) \<and> has_states d3 = has_states d"
proof -
  have "view d1 = (fst (view d) - {rid}, snd (view d))"
    using delete_graph_effect [OF assms(1)] by (auto simp: view_backend view_without)
  moreover note row = put_row_continues [OF assms(2,3,5)]
  ultimately have "view d3 = (fst (view d) - {rid}, (snd (view d))(rid \<mapsto> row))"
    using upsert_view [OF assms(6)] view_prune [OF assms(7)] by simp
  moreover have "live_row (select_state rid d)" using live_read_state(1) [OF assms(2,3)] assms(4) by simp
  then have "pub_step ev (fst (view d), snd (view d)) (fst (view d) - {rid}, (snd (view d))(rid \<mapsto> row))"
    using row assms(8) by (intro pub_step.removes) (simp_all add: view_def)
  moreover have "has_states d3 = has_states d"
    using prune_schema [OF assms(7)] upsert_schema [OF assms(6)] delete_graph_schema [OF assms(1)] by simp
  ultimately show ?thesis by simp
qed

text \<open>The class invariant of \<open>ExpectedPublication\<close>, for the expectations a call carries.\<close>

definition expected_ok :: "ExpectedPublication anyobj \<Rightarrow> bool" where
  "expected_ok ex = (case ex of Untyped \<Rightarrow> True | Typed e \<Rightarrow> exp_create e = (\<not> live (exp_state e)))"

fun call_ok :: "store_call \<Rightarrow> bool" where
  "call_ok (CompareAndPublish b ex) = expected_ok ex"
| "call_ok (Withdraw rid ex) = expected_ok ex"
| "call_ok (DeleteIfCurrent rid ex) = expected_ok ex"
| "call_ok _ = True"

lemma expected_ok_new: "new_ExpectedPublication s create = Inr e \<Longrightarrow> expected_ok (Typed e)"
  by (auto simp: new_ExpectedPublication_def expected_ok_def split: anyobj.splits pyobj.splits if_splits)

lemma remove_body_effect:
  assumes "remove_body st ev rid p del c = (c', Inr res)" "working c = Some d"
  shows "\<exists>d1 row d2 s. delete_graph_db st rid d = Inr d1 \<and> put_row ev p (removed_status del) None row \<and>
    upsert_state row d1 = Inr d2 \<and> prune_facet_rows d2 = Inr (committed c') \<and>
    res = \<lparr>pr_applied = True, pr_state = s\<rparr> \<and> read_state_db rid (committed c') = Inr s"
proof -
  from assms(1) obtain c1 c2 c3 c4 s where c1: "delete_graph st ev rid c = (c1, Inr ())"
    and c2: "put_state ev p (removed_status del) None c1 = (c2, Inr ())"
    and c3: "op_exec ev ''DELETE core_facets'' prune_facet_rows c2 = (c3, Inr ())"
    and c4: "verify_backend st ev c3 = (c4, Inr ())"
    and s: "read_state_db rid (current c4) = Inr s" "c' = c4\<lparr>committed := current c4, working := None\<rparr>"
      "res = \<lparr>pr_applied = True, pr_state = s\<rparr>"
    by (auto simp: remove_body_def op_eqs)
  obtain d1 where d1: "delete_graph_db st rid d = Inr d1" "c1 = c\<lparr>working := Some d1\<rparr>"
    using performsD [OF performs_delete_graph assms(2) c1] by blast
  obtain row d2 where d2: "put_row ev p (removed_status del) None row" "upsert_state row d1 = Inr d2" "c2 = c1\<lparr>working := Some d2\<rparr>"
    using put_state_effect [OF c2, of d1] d1(2) by auto
  obtain d3 where d3: "prune_facet_rows d2 = Inr d3" "c3 = c2\<lparr>working := Some d3\<rparr>"
    using c3 d2(3) by (auto simp: op_exec_eq_Inr)
  have "c4 = c3" using c4 by (auto simp: verify_backend_def op_eqs op_query_eq_Inr)
  then show ?thesis using d1 d2 d3 s by auto
qed

lemma remove_refines:
  assumes "remove_if_current st ev rid ex del c = (c', Inr res)" "rows_stored (committed c)" "expected_ok ex" "has_states (committed c)"
  shows "pub_step ev (view (committed c)) (view (committed c')) \<and> has_states (committed c')"
  using assms(1)
proof (cases rule: remove_cases)
  case (refused p e)
  then show ?thesis using assms(4) by (cases "view (committed c)") (simp add: pub_step.stay)
next
  case (applied p e c1)
  have "live p" using applied(1,3,6) assms(3) by (auto simp: expected_ok_def state_eq_def live_def)
  moreover have "working c1 = Some (committed c)" using applied(8) by simp
  from remove_body_effect [OF applied(9) this] obtain d1 row d2 where d: "delete_graph_db st rid (committed c) = Inr d1"
    "put_row ev p (removed_status del) None row" "upsert_state row d1 = Inr d2" "prune_facet_rows d2 = Inr (committed c')" by blast
  ultimately show ?thesis using removal_step [OF d(1) applied(7) assms(2) _ d(2,3,4) removed_status_cases] assms(4) by blast
qed

lemma delete_refines:
  assumes "delete_transaction st ev obj c = (c', Inr res)" "has_states (committed c)" "rows_stored (committed c)"
  shows "pub_step ev (view (committed c)) (view (committed c')) \<and> has_states (committed c')"
proof -
  let ?c0 = "c\<lparr>working := Some (committed c), open_count := Suc (open_count c)\<rparr>"
  from assms(1,2) obtain rid p c1 c2 c3 c4 where rid: "read_state_db rid (committed c) = Inr p"
    and c1: "delete_graph st ev rid ?c0 = (c1, Inr ())"
    and c2: "(if live p then put_state ev p deleted None else op_return ()) c1 = (c2, Inr ())"
    and c3: "op_exec ev ''DELETE core_facets'' prune_facet_rows c2 = (c3, Inr ())"
    and c4: "verify_backend st ev c3 = (c4, Inr ())" "c' = c4\<lparr>committed := current c4, working := None\<rparr>"
    by (auto simp: delete_transaction_def op_eqs)
  have "c4 = c3" using c4 by (auto simp: verify_backend_def op_eqs op_query_eq_Inr)
  obtain d1 where d1: "delete_graph_db st rid (committed c) = Inr d1" "c1 = ?c0\<lparr>working := Some d1\<rparr>"
    using performsD [OF performs_delete_graph _ c1, of "committed c"] by auto
  show ?thesis
  proof (cases "live p")
    case True
    then obtain row d2 where d2: "put_row ev p deleted None row" "upsert_state row d1 = Inr d2" "c2 = c1\<lparr>working := Some d2\<rparr>"
      using put_state_effect [of ev p deleted None c1 c2 "()" d1] c2 d1(2) by auto
    then have "prune_facet_rows d2 = Inr (committed c')" using c3 c4(2) \<open>c4 = c3\<close> by (auto simp: op_exec_eq_Inr)
    then show ?thesis using removal_step [OF d1(1) rid assms(3) True d2(1,2)] assms(2) by simp
  next
    case False
    then have "prune_facet_rows d1 = Inr (committed c')" using c2 c3 c4(2) d1(2) \<open>c4 = c3\<close> by (auto simp: op_exec_eq_Inr)
    moreover have "view d1 = (fst (view (committed c)) - {rid}, snd (view (committed c)))"
      using delete_graph_effect [OF d1(1)] by (auto simp: view_backend view_without)
    moreover have "\<not> live_row (select_state rid (committed c))" using live_read_state(1) [OF rid assms(3)] False by simp
    then have "pub_step ev (fst (view (committed c)), snd (view (committed c)))
        (fst (view (committed c)) - {rid}, snd (view (committed c)))"
      by (intro pub_step.discards) (simp add: view_def)
    ultimately show ?thesis using view_prune [of d1 "committed c'"] prune_schema [of d1 "committed c'"]
        delete_graph_schema [OF d1(1)] assms(2) by simp
  qed
qed

lemma rebuild_view:
  assumes "rebuild_fts_index st ev c = (c', Inr res)"
  shows "\<exists>fts. committed c' = (committed c)\<lparr>t_fts := fts\<rparr>"
  using assms by (auto simp: rebuild_fts_index_def refuse_external_transaction_def op_eqs op_exec_eq_Inr op_query_eq_Inr
      rebuild_fts_db_def)

text \<open>Every call, successful or not, is at most one step of the machine.\<close>

lemma call_refines:
  assumes "run_call st ev call c = (c', r)" "has_states (committed c)" "rows_stored (committed c)" "call_ok call"
  shows "pub_step ev (view (committed c)) (view (committed c')) \<and> has_states (committed c')"
proof (cases r)
  case (Inl e)
  then have "committed c' = committed c" using safe_calls [of st ev call] assms(1) by (auto simp: safe_def)
  then show ?thesis using assms(2) by (cases "view (committed c)") (simp add: pub_step.stay)
next
  case (Inr x)
  show ?thesis
  proof (cases call)
    case (Replace b)
    with assms(1) Inr obtain pp res where pp: "preflight st ev b = Inr pp" "publish st ev pp None c = (c', Inr res)"
      by (auto simp: replace_resource_def guarded_def op_eqs op_try_eq_Inr)
    show ?thesis using publish_refines [OF pp(2) assms(2,3) preflight_id [OF pp(1)]] .
  next
    case (CompareAndPublish b ex)
    with assms(1) Inr obtain pp e res where pp: "preflight st ev b = Inr pp" "publish st ev pp (Some e) c = (c', Inr res)"
      by (cases ex) (auto simp: compare_and_publish_def refuse_external_transaction_def op_eqs op_try_eq_Inr
          split: option.splits)
    show ?thesis using publish_refines [OF pp(2) assms(2,3) preflight_id [OF pp(1)]] .
  next
    case (Withdraw rid ex)
    with assms(1) Inr obtain res where "remove_if_current st ev rid ex False c = (c', Inr res)"
      by (auto simp: withdraw_if_current_def remove_safely_def op_eqs op_try_eq_Inr)
    then show ?thesis using remove_refines assms(2,3,4) Withdraw by simp
  next
    case (DeleteIfCurrent rid ex)
    with assms(1) Inr obtain res where "remove_if_current st ev rid ex True c = (c', Inr res)"
      by (auto simp: delete_if_current_def remove_safely_def op_eqs op_try_eq_Inr)
    then show ?thesis using remove_refines assms(2,3,4) DeleteIfCurrent by simp
  next
    case (Delete obj)
    with assms(1) Inr obtain res where "delete_transaction st ev obj c = (c', Inr res)"
      by (auto simp: delete_live_resource_def refuse_external_transaction_def op_eqs op_try_eq_Inr)
    then show ?thesis using delete_refines assms(2,3) by blast
  next
    case RebuildFts
    with assms(1) Inr obtain n where "rebuild_fts_index st ev c = (c', Inr n)" by (auto simp: op_eqs)
    then have "view (committed c') = view (committed c)" "has_states (committed c')"
      using rebuild_view assms(2) by (fastforce simp: view_def select_state_def)+
    then show ?thesis by (cases "view (committed c)") (simp add: pub_step.stay)
  qed
qed

section \<open>Runs\<close>

text \<open>
  A sequence of calls, each with its own surroundings: any interleaving of the calls of several callers. The store can
  only be reached through its operations, so these are the databases a caller can see.
\<close>

fun run_calls :: "'v store \<Rightarrow> (surroundings \<times> store_call) list \<Rightarrow> 'v conn \<Rightarrow> 'v conn" where
  "run_calls st [] c = c"
| "run_calls st ((ev, call) # xs) c = run_calls st xs (fst (run_call st ev call c))"

lemma run_calls_append: "run_calls st (xs @ ys) c = run_calls st ys (run_calls st xs c)"
  by (induction xs arbitrary: c) auto

text \<open>
  The invariant of the protocol: a resource has a graph exactly when its state is published; and the rows are those of
  stored states.
\<close>

definition view_inv :: "pub_view \<Rightarrow> bool" where
  "view_inv V \<longleftrightarrow>
     (\<forall>rid. (rid \<in> fst V \<longleftrightarrow> (\<exists>s. snd V rid = Some s \<and> sr_status s = published)) \<and>
        (\<forall>s. snd V rid = Some s \<longrightarrow> sr_status s \<noteq> never_created))"

definition protocol_inv :: "'v db \<Rightarrow> bool" where
  "protocol_inv d \<longleftrightarrow> has_states d \<and> view_inv (view d)"

lemma pub_step_inv: "pub_step ev V V' \<Longrightarrow> view_inv V \<Longrightarrow> view_inv V'"
  by (induction rule: pub_step.induct) (auto simp: view_inv_def live_row_def split: option.splits)

lemma protocol_inv_stored: "protocol_inv d \<Longrightarrow> rows_stored d"
  by (auto simp: protocol_inv_def view_inv_def view_def rows_stored_def)

lemma call_inv:
  assumes "protocol_inv (committed c)" "call_ok call"
  shows "protocol_inv (committed (fst (run_call st ev call c)))"
proof -
  obtain c' r where c': "run_call st ev call c = (c', r)" by fastforce
  have "has_states (committed c)" "rows_stored (committed c)" using assms(1) protocol_inv_stored by (auto simp: protocol_inv_def)
  from call_refines [OF c' this assms(2)]
  have "pub_step ev (view (committed c)) (view (committed c'))" "has_states (committed c')" by simp_all
  then show ?thesis using pub_step_inv [of ev "view (committed c)"] assms(1) by (simp add: protocol_inv_def c')
qed

lemma run_calls_inv:
  "protocol_inv (committed c) \<Longrightarrow> list_all (\<lambda>(ev, call). call_ok call) xs \<Longrightarrow> protocol_inv (committed (run_calls st xs c))"
  by (induction xs arbitrary: c) (auto simp: call_inv)

text \<open>
  Tokens: those of a run are pairwise different and none of them is stored at the start. Then a step that changes the
  state of a resource gives it a token it never had.
\<close>

definition token_at :: "pystr \<Rightarrow> 'v conn \<Rightarrow> pystr option" where
  "token_at rid c = map_option sr_state_token (select_state rid (committed c))"

lemma pub_step_token:
  assumes "pub_step ev (G, S) (G', S')"
  shows "S' rid = S rid \<or> (\<exists>row. S' rid = Some row \<and> sr_state_token row = new_token ev)"
  using assms by (elim pub_stepE) (auto simp: continues_def)

lemma call_token:
  assumes "protocol_inv (committed c)" "call_ok call" "run_call st ev call c = (c', r)"
  shows "select_state rid (committed c') = select_state rid (committed c) \<or> token_at rid c' = Some (new_token ev)"
proof -
  have "has_states (committed c)" "rows_stored (committed c)" using assms(1) protocol_inv_stored by (auto simp: protocol_inv_def)
  from call_refines [OF assms(3) this assms(2)]
  have "pub_step ev (fst (view (committed c)), snd (view (committed c))) (fst (view (committed c')), snd (view (committed c')))" by simp
  from pub_step_token [OF this, of rid] show ?thesis by (auto simp: view_def token_at_def)
qed

text \<open>Over a run the state of a resource either never changed or now has a token of the run.\<close>

lemma run_token:
  assumes "protocol_inv (committed c)" "list_all (\<lambda>(ev, call). call_ok call) xs"
  shows "(\<forall>ys zs. xs = ys @ zs \<longrightarrow> select_state rid (committed (run_calls st ys c)) = select_state rid (committed c)) \<or>
    (\<exists>ev \<in> fst ` set xs. token_at rid (run_calls st xs c) = Some (new_token ev))"
  using assms
proof (induction xs arbitrary: c)
  case (Cons x xs)
  obtain ev call where x: "x = (ev, call)" by (cases x)
  obtain c' r where c': "run_call st ev call c = (c', r)" by fastforce
  have ok: "call_ok call" "list_all (\<lambda>(ev, call). call_ok call) xs" using Cons.prems(2) by (simp_all add: x)
  have inv: "protocol_inv (committed c')" using call_inv [OF Cons.prems(1) ok(1), of st ev] c' by simp
  from Cons.IH [OF inv ok(2)] consider
    (same) "\<forall>ys zs. xs = ys @ zs \<longrightarrow> select_state rid (committed (run_calls st ys c')) = select_state rid (committed c')"
  | (new) "\<exists>ev \<in> fst ` set xs. token_at rid (run_calls st xs c') = Some (new_token ev)" by blast
  then show ?case
  proof cases
    case same
    from call_token [OF Cons.prems(1) ok(1) c', of rid] show ?thesis
    proof
      assume "select_state rid (committed c') = select_state rid (committed c)"
      with same show ?thesis by (auto simp: x c' Cons_eq_append_conv)
    next
      assume t: "token_at rid c' = Some (new_token ev)"
      have "select_state rid (committed (run_calls st xs c')) = select_state rid (committed c')" using same by simp
      then have "token_at rid (run_calls st xs c') = Some (new_token ev)" using t by (simp add: token_at_def)
      then show ?thesis by (auto simp: x c')
    qed
  next
    case new
    then show ?thesis by (auto simp: x c')
  qed
qed simp

end
