(* ===== verification/Sqlite_Codecs.thy ===== *)
theory Sqlite_Codecs
  imports Sqlite_Store Contracts
begin

text \<open>
  \<open>mdrack_sqlite/vector_codecs.py\<close>: the codecs a store writes vectors with. \<open>struct\<close> packs a number as an IEEE 754
  binary format in little-endian order; a format is given by the width of its fraction and the exponent of its
  smallest unit. The text parser behind the legacy codec (\<open>json.loads\<close> after decoding UTF-8) is an argument.
\<close>

section \<open>Binary formats\<close>

text \<open>
  The exponent and fraction fields together: a number \<open>m * 2 ^ u\<close>, with \<open>u\<close> the exponent of the unit in its last
  place, has the fields \<open>(u - l) * 2 ^ w + m\<close>, for normal and subnormal numbers alike.
\<close>

definition unit_exp :: "nat \<Rightarrow> int \<Rightarrow> rat \<Rightarrow> int" where
  "unit_exp w l q = max (rat_exp q - int w) l"

definition magnitude_bits :: "nat \<Rightarrow> int \<Rightarrow> rat \<Rightarrow> nat" where
  "magnitude_bits w l q =
     (if q = 0 then 0
      else nat (unit_exp w l q - l) * 2 ^ w + nat (round_half_even (q / 2 powi unit_exp w l q)))"

definition bits_magnitude :: "nat \<Rightarrow> int \<Rightarrow> nat \<Rightarrow> rat" where
  "bits_magnitude w l b =
     (if b < 2 ^ w then of_nat b * 2 powi l
      else of_nat (b mod 2 ^ w + 2 ^ w) * 2 powi (int (b div 2 ^ w) - 1 + l))"

text \<open>Little-endian bytes.\<close>

fun to_bytes :: "nat \<Rightarrow> nat \<Rightarrow> nat list" where
  "to_bytes 0 b = []"
| "to_bytes (Suc n) b = b mod 256 # to_bytes n (b div 256)"

fun of_bytes :: "nat list \<Rightarrow> nat" where
  "of_bytes [] = 0"
| "of_bytes (b # bs) = b + 256 * of_bytes bs"

text \<open>
  A format: the number of bytes, the width of the fraction, the exponent of the smallest unit and the number of
  magnitudes below infinity. Packing a number beyond them raises \<open>OverflowError\<close>.
\<close>

record float_format =
  ff_bytes :: nat
  ff_fraction :: nat
  ff_least :: int
  ff_infinity :: nat

definition sign_bit :: "float_format \<Rightarrow> nat" where
  "sign_bit ff = 2 ^ (8 * ff_bytes ff - 1)"

definition BINARY64 :: float_format where
  "BINARY64 = \<lparr>ff_bytes = 8, ff_fraction = 52, ff_least = - 1074, ff_infinity = 2047 * 2 ^ 52\<rparr>"

definition BINARY32 :: float_format where
  "BINARY32 = \<lparr>ff_bytes = 4, ff_fraction = 23, ff_least = - 149, ff_infinity = 255 * 2 ^ 23\<rparr>"

fun pack :: "float_format \<Rightarrow> pyfloat \<Rightarrow> nat list result" where
  "pack ff (Fin q) =
     (let b = magnitude_bits (ff_fraction ff) (ff_least ff) \<bar>q\<bar> in
      if ff_infinity ff \<le> b then Inl OverflowError
      else Inr (to_bytes (ff_bytes ff) (b + (if q < 0 then sign_bit ff else 0))))"
| "pack ff PosInf = Inr (to_bytes (ff_bytes ff) (ff_infinity ff))"
| "pack ff NegInf = Inr (to_bytes (ff_bytes ff) (ff_infinity ff + sign_bit ff))"
| "pack ff NaN = Inr (to_bytes (ff_bytes ff) (ff_infinity ff + 2 ^ (ff_fraction ff - 1)))"

definition unpack :: "float_format \<Rightarrow> nat list \<Rightarrow> pyfloat" where
  "unpack ff bs =
     (let n = of_bytes bs; neg = (sign_bit ff \<le> n); b = n mod sign_bit ff in
      if ff_infinity ff < b then NaN
      else if b = ff_infinity ff then (if neg then NegInf else PosInf)
      else Fin ((if neg then - 1 else 1) * bits_magnitude (ff_fraction ff) (ff_least ff) b))"

fun chunks :: "nat \<Rightarrow> nat \<Rightarrow> 'a list \<Rightarrow> 'a list list" where
  "chunks 0 w xs = []"
| "chunks (Suc n) w xs = take w xs # chunks n w (drop w xs)"

section \<open>Codecs\<close>

text \<open>\<open>_finite_vector\<close>.\<close>

definition finite_number :: "string \<Rightarrow> pyobj \<Rightarrow> pyfloat result" where
  "finite_number field_name value =
     (let bad = Inl (ValueError (field_name @ '' must contain finite numbers'')) in
      case value of
        PInt i \<Rightarrow> (case float_of_int i of Inl _ \<Rightarrow> bad | Inr x \<Rightarrow> Inr x)
      | PFloat x \<Rightarrow> if isfinite x then Inr x else bad
      | _ \<Rightarrow> bad)"

definition finite_vector :: "pyobj \<Rightarrow> int \<Rightarrow> string \<Rightarrow> pyfloat list result" where
  "finite_vector vector dimensions field_name =
     (let empty = Inl (ValueError (field_name @ '' must be a non-empty ordered sequence'')) in
      rbind (case vector of
          PList (x # xs) \<Rightarrow> Inr (x # xs)
        | PTuple (x # xs) \<Rightarrow> Inr (x # xs)
        | _ \<Rightarrow> empty) (\<lambda>items.
      rbind (raise_if (dimensions < 1) (ValueError ''dimensions must be a positive integer'')) (\<lambda>_.
      rbind (rmap (finite_number field_name) items) (\<lambda>numbers.
      rbind (raise_if (int (length numbers) \<noteq> dimensions) (ValueError ''vector dimension mismatch'')) (\<lambda>_.
      Inr numbers)))))"

definition check_payload :: "nat list \<Rightarrow> int \<Rightarrow> nat \<Rightarrow> unit result" where
  "check_payload bs dimensions width =
     rbind (raise_if (dimensions < 1) (ValueError ''dimensions must be a positive integer'')) (\<lambda>_.
     raise_if (int (length bs) \<noteq> dimensions * int width) (ValueError ''vector payload length does not match dimensions''))"

abbreviation floats :: "pyfloat list \<Rightarrow> pyobj" where
  "floats xs \<equiv> PTuple (map PFloat xs)"

definition pack_all :: "float_format \<Rightarrow> pyfloat list \<Rightarrow> nat list result" where
  "pack_all ff xs = rbind (rmap (pack ff) xs) (\<lambda>bss. Inr (concat bss))"

definition unpack_all :: "float_format \<Rightarrow> nat \<Rightarrow> nat list \<Rightarrow> pyfloat list" where
  "unpack_all ff n bs = map (unpack ff) (chunks n (ff_bytes ff) bs)"

definition decode_with :: "float_format \<Rightarrow> nat list \<Rightarrow> int \<Rightarrow> pyfloat list result" where
  "decode_with ff bs dimensions =
     rbind (check_payload bs dimensions (ff_bytes ff)) (\<lambda>_.
     finite_vector (floats (unpack_all ff (nat dimensions) bs)) dimensions ''embedding'')"

definition Float64LECodec :: vector_codec where
  "Float64LECodec =
     \<lparr>vc_encode = (\<lambda>vector dimensions.
        rbind (finite_vector (floats vector) dimensions ''vector'') (pack_all BINARY64)),
      vc_decode = decode_with BINARY64\<rparr>"

definition Float32LECodec :: vector_codec where
  "Float32LECodec =
     \<lparr>vc_encode = (\<lambda>vector dimensions.
        rbind (finite_vector (floats vector) dimensions ''vector'') (\<lambda>xs.
        case pack_all BINARY32 xs of
          Inl _ \<Rightarrow> Inl (ValueError ''vector value is outside the float32 range'')
        | Inr encoded \<Rightarrow>
            if xs \<noteq> unpack_all BINARY32 (nat dimensions) encoded
            then Inl (ValueError ''vector must already use canonical float32 values'')
            else Inr encoded)),
      vc_decode = decode_with BINARY32\<rparr>"

definition float_array :: "pyfloat list \<Rightarrow> pystr" where
  "float_array xs = canonical_json (JArr (map JFloat xs))"

definition JsonF64Codec :: "(nat list \<Rightarrow> pyobj option) \<Rightarrow> vector_codec" where
  "JsonF64Codec loads =
     \<lparr>vc_encode = (\<lambda>_ _. Inl (ValueError ''legacy JSON vector codec is read-only'')),
      vc_decode = (\<lambda>bs dimensions.
        case loads bs of
          None \<Rightarrow> Inl (ValueError ''legacy JSON vector payload is invalid'')
        | Some (PList items) \<Rightarrow>
            rbind (finite_vector (PList items) dimensions ''embedding'') (\<lambda>xs.
            if utf8_encode (float_array xs) \<noteq> bs
            then Inl (ValueError ''legacy JSON vector payload is not canonical'') else Inr xs)
        | Some _ \<Rightarrow> Inl (ValueError ''legacy JSON vector payload must be an array''))\<rparr>"

definition default_registry :: "(nat list \<Rightarrow> pyobj option) \<Rightarrow> codec_registry" where
  "default_registry loads =
     [(FLOAT64_CODEC_ID, Float64LECodec), (FLOAT32_CODEC_ID, Float32LECodec), (LEGACY_JSON_F64_CODEC_ID, JsonF64Codec loads)]"

section \<open>What was packed is unpacked\<close>

lemma of_to_bytes: "b < 256 ^ n \<Longrightarrow> of_bytes (to_bytes n b) = b"
  by (induction n arbitrary: b) (auto simp: less_mult_imp_div_less mult.commute)

lemma length_to_bytes [simp]: "length (to_bytes n b) = n"
  by (induction n arbitrary: b) auto

lemma chunks_concat: "list_all (\<lambda>xs. length xs = w) xss \<Longrightarrow> chunks (length xss) w (concat xss) = xss"
  by (induction xss) auto

text \<open>The numbers a format can represent.\<close>

definition representable :: "nat \<Rightarrow> int \<Rightarrow> rat \<Rightarrow> bool" where
  "representable w l q \<longleftrightarrow> q = 0 \<or> \<bar>q\<bar> / 2 powi unit_exp w l \<bar>q\<bar> \<in> \<int>"

lemma unit_mantissa:
  assumes "0 < q" "unit_exp w l q = u" "q / 2 powi u \<in> \<int>"
  obtains m where "q = of_nat m * 2 powi u" "m < 2 ^ (w + 1)" "u = l \<or> 2 ^ w \<le> m" "round_half_even (q / 2 powi u) = int m"
proof -
  from assms(3) obtain i where i: "q / 2 powi u = of_int i" by (auto elim: Ints_cases)
  have "0 < q / 2 powi u" using assms(1) by simp
  then have "0 < i" using i by simp
  define m where "m = nat i"
  have m: "q / 2 powi u = of_nat m" using i \<open>0 < i\<close> by (simp add: m_def of_nat_nat)
  then have eq: "q = of_nat m * 2 powi u" by (simp add: field_simps)
  have "rat_exp q \<le> u + int w" using assms(2) by (simp add: unit_exp_def)
  then have "q < 2 powi (u + int w + 1)"
    using rat_exp_bounds(2) [OF assms(1)] power_int_increasing [of "rat_exp q + 1" "u + int w + 1" "2::rat"] by simp
  moreover have "(2::rat) powi (u + int w + 1) = 2 ^ (w + 1) * 2 powi u"
    using power_int_add [of "2::rat" "int (w + 1)" u] by (simp only: power_int_of_nat) (simp add: add.commute add.left_commute)
  ultimately have "(of_nat m :: rat) * 2 powi u < 2 ^ (w + 1) * 2 powi u" using eq by simp
  then have "(of_nat m :: rat) < of_nat (2 ^ (w + 1))" by simp
  then have lt: "m < 2 ^ (w + 1)" by (simp only: of_nat_less_iff)
  have ge: "u = l \<or> 2 ^ w \<le> m"
  proof (cases "u = l")
    case False
    then have "rat_exp q = u + int w" using assms(2) by (simp add: unit_exp_def split: if_splits)
    then have "2 powi (u + int w) \<le> q" using rat_exp_bounds(1) [OF assms(1)] by simp
    moreover have "(2::rat) powi (u + int w) = 2 ^ w * 2 powi u"
      using power_int_add [of "2::rat" "int w" u] by (simp add: add.commute)
    ultimately have "(2::rat) ^ w * 2 powi u \<le> of_nat m * 2 powi u" using eq by simp
    then have "(of_nat (2 ^ w) :: rat) \<le> of_nat m" by simp
    then have "2 ^ w \<le> m" by (simp only: of_nat_le_iff)
    then show ?thesis ..
  qed simp
  have "round_half_even (q / 2 powi u) = int m" using i \<open>0 < i\<close> by (simp add: m_def)
  with eq lt ge show thesis by (rule that)
qed

lemma bits_magnitude_bits:
  assumes "0 \<le> q" "representable w l q"
  shows "bits_magnitude w l (magnitude_bits w l q) = q"
proof (cases "q = 0")
  case False
  then have pos: "0 < q" using assms(1) by simp
  define u where "u = unit_exp w l q"
  have "q / 2 powi u \<in> \<int>" using assms pos by (simp add: representable_def u_def)
  from unit_mantissa [OF pos u_def [symmetric] this]
  obtain m where m: "q = of_nat m * 2 powi u" "m < 2 ^ (w + 1)" "u = l \<or> 2 ^ w \<le> m" "round_half_even (q / 2 powi u) = int m" by blast
  have "l \<le> u" by (simp add: u_def unit_exp_def)
  then obtain k where k: "u = l + int k" using zle_iff_zadd by blast
  have b: "magnitude_bits w l q = k * 2 ^ w + m"
    using pos m(4) by (simp add: magnitude_bits_def u_def [symmetric] k)
  show ?thesis
  proof (cases "m < 2 ^ w")
    case True
    then have "u = l" using m(3) by auto
    then show ?thesis unfolding b bits_magnitude_def using True m(1) k by simp
  next
    case False
    define r where "r = m - 2 ^ w"
    have r: "m = 2 ^ w + r" "r < 2 ^ w" using False m(2) by (simp_all add: r_def)
    have "k * 2 ^ w + m = (k + 1) * 2 ^ w + r" using r(1) by simp
    then have "(k * 2 ^ w + m) div 2 ^ w = k + 1" "(k * 2 ^ w + m) mod 2 ^ w = r" using r(2) by simp_all
    then show ?thesis unfolding b bits_magnitude_def using r m(1) by (simp add: k add.commute)
  qed
qed (simp add: magnitude_bits_def bits_magnitude_def)

lemma sign_split: "b < s \<Longrightarrow> (b + (if n then s else 0)) mod s = b \<and> (s \<le> b + (if n then s else 0)) = n" for b s :: nat
  by (cases n) auto

lemma unpack_pack:
  assumes "pack ff (Fin q) = Inr bs" "representable (ff_fraction ff) (ff_least ff) \<bar>q\<bar>"
    "ff_infinity ff \<le> sign_bit ff" "0 < ff_bytes ff"
  shows "unpack ff bs = Fin q" "length bs = ff_bytes ff"
proof -
  define b where "b = magnitude_bits (ff_fraction ff) (ff_least ff) \<bar>q\<bar>"
  define n where "n = b + (if q < 0 then sign_bit ff else 0)"
  have b: "b < ff_infinity ff" "bs = to_bytes (ff_bytes ff) n"
    using assms(1) by (auto simp: b_def [symmetric] n_def Let_def split: if_splits)
  then show "length bs = ff_bytes ff" by simp
  have small: "b < sign_bit ff" using b(1) assms(3) by simp
  have "sign_bit ff + sign_bit ff = 256 ^ ff_bytes ff"
    using assms(4) by (cases "ff_bytes ff") (simp_all add: sign_bit_def power_add power_mult)
  then have "n < 256 ^ ff_bytes ff" using small by (simp add: n_def)
  then have n: "of_bytes bs = n" using b(2) by (simp add: of_to_bytes)
  have "n mod sign_bit ff = b" "sign_bit ff \<le> n \<longleftrightarrow> q < 0" using sign_split [OF small, of "q < 0"] by (simp_all add: n_def)
  moreover have "bits_magnitude (ff_fraction ff) (ff_least ff) b = \<bar>q\<bar>"
    unfolding b_def using assms(2) by (intro bits_magnitude_bits) simp_all
  ultimately show "unpack ff bs = Fin q" using b(1) by (auto simp: unpack_def Let_def n)
qed

text \<open>A value of the type \<open>float\<close>.\<close>

fun is_double :: "pyfloat \<Rightarrow> bool" where
  "is_double (Fin q) = (b64_round q = q)"
| "is_double _ = True"

lemma double_representable: "b64_round q = q \<Longrightarrow> representable 52 (- 1074) \<bar>q\<bar>"
proof (cases "q = 0")
  case False
  assume "b64_round q = q"
  then have "q / 2 powi ulp_exp q = of_int (round_half_even (q / 2 powi ulp_exp q))"
    using False by (simp add: b64_round_def field_simps)
  then have "\<bar>q / 2 powi ulp_exp q\<bar> \<in> \<int>" by (metis Ints_abs Ints_of_int)
  moreover have "unit_exp 52 (- 1074) \<bar>q\<bar> = ulp_exp q" by (simp add: unit_exp_def ulp_exp_def)
  ultimately show ?thesis by (simp add: representable_def abs_divide)
qed (simp add: representable_def)

lemma formats [simp]: "ff_infinity BINARY64 \<le> sign_bit BINARY64" "ff_bytes BINARY64 = 8" "ff_fraction BINARY64 = 52" "ff_least BINARY64 = - 1074"
  by (simp_all add: BINARY64_def sign_bit_def)

lemma pack_double: "is_double x \<Longrightarrow> isfinite x \<Longrightarrow> pack BINARY64 x = Inr bs \<Longrightarrow> unpack BINARY64 bs = x \<and> length bs = 8"
  using unpack_pack [of BINARY64 _ bs] double_representable by (cases x) (auto simp del: pack.simps)

section \<open>The law of a codec\<close>

text \<open>
  What the store relies on: a vector that a codec encodes is a finite vector of the dimension, and decoding the payload
  returns it. \<open>ok\<close> are the numbers the law is for.
\<close>

locale lossless_codec =
  fixes codec :: vector_codec and ok :: "pyfloat \<Rightarrow> bool"
  assumes decode_encode: "list_all ok v \<Longrightarrow> vc_encode codec v n = Inr bs \<Longrightarrow> vc_decode codec bs n = Inr v"
begin

text \<open>A payload determines its vector.\<close>

lemma encode_inject:
  "list_all ok v \<Longrightarrow> list_all ok w \<Longrightarrow> vc_encode codec v n = Inr bs \<Longrightarrow> vc_encode codec w n = Inr bs \<Longrightarrow> v = w"
  using decode_encode [of v n bs] decode_encode [of w n bs] by simp

end

lemma finite_vector_floats:
  "finite_vector (floats v) n f = Inr w \<longleftrightarrow> w = v \<and> v \<noteq> [] \<and> list_all isfinite v \<and> n = int (length v)"
proof -
  have fin: "rmap (finite_number f) (map PFloat xs) = Inr ys \<longleftrightarrow> ys = xs \<and> list_all isfinite xs" for xs ys
    by (induction xs arbitrary: ys) (auto simp: finite_number_def Let_def rbind_eq_Inr)
  show ?thesis
    using fin [of v] by (cases v) (auto simp: finite_vector_def Let_def rbind_eq_Inr raise_if_def simp del: rmap.simps)
qed

lemma pack_all_eq_Inr:
  "pack_all ff v = Inr bs \<longleftrightarrow> (\<exists>bss. list_all2 (\<lambda>x b. pack ff x = Inr b) v bss \<and> bs = concat bss)"
proof -
  have "rmap (pack ff) v = Inr bss \<longleftrightarrow> list_all2 (\<lambda>x b. pack ff x = Inr b) v bss" for bss
    by (induction v arbitrary: bss) (auto simp: rbind_eq_Inr list_all2_Cons1)
  then show ?thesis by (auto simp: pack_all_def rbind_eq_Inr)
qed

lemma decode_with_concat:
  assumes "list_all2 (\<lambda>x b. unpack ff b = x \<and> length b = ff_bytes ff) v bss" "v \<noteq> []" "list_all isfinite v"
  shows "decode_with ff (concat bss) (int (length v)) = Inr v"
proof -
  have len: "length bss = length v" "list_all (\<lambda>b. length b = ff_bytes ff) bss" "map (unpack ff) bss = v"
    "length (concat bss) = length v * ff_bytes ff"
    using assms(1) by (induction v bss rule: list_all2_induct) auto
  moreover have "unpack_all ff (length v) (concat bss) = v"
    using chunks_concat [OF len(2)] len(1,3) by (simp add: unpack_all_def)
  ultimately show ?thesis using assms(2,3) finite_vector_floats [of v "int (length v)" "''embedding''" v]
    by (simp add: decode_with_def check_payload_def raise_if_def Suc_le_eq)
qed

interpretation float64: lossless_codec Float64LECodec is_double
proof
  fix v n bs
  assume v: "list_all is_double v" and enc: "vc_encode Float64LECodec v n = Inr bs"
  from enc obtain bss where e: "v \<noteq> []" "list_all isfinite v" "n = int (length v)" "bs = concat bss"
    "list_all2 (\<lambda>x b. pack BINARY64 x = Inr b) v bss"
    by (auto simp: Float64LECodec_def rbind_eq_Inr finite_vector_floats pack_all_eq_Inr)
  have "list_all2 (\<lambda>x b. unpack BINARY64 b = x \<and> length b = ff_bytes BINARY64) v bss"
    using e(5,2) v by (induction v bss rule: list_all2_induct) (auto dest: pack_double)
  from decode_with_concat [OF this e(1,2)] show "vc_decode Float64LECodec bs n = Inr v"
    by (simp add: Float64LECodec_def e(3,4))
qed

lemma pack_length: "pack ff x = Inr b \<Longrightarrow> length b = ff_bytes ff"
  by (cases x) (auto simp: Let_def split: if_splits)

lemma list_all2_unpacked: "list_all P bss \<Longrightarrow> list_all2 (\<lambda>x b. f b = x \<and> P b) (map f bss) bss"
  by (induction bss) auto

interpretation float32: lossless_codec Float32LECodec "\<lambda>_. True"
proof
  fix v n bs
  assume enc: "vc_encode Float32LECodec v n = Inr bs"
  then obtain w where w: "finite_vector (floats v) n ''vector'' = Inr w" by (auto simp: Float32LECodec_def rbind_eq_Inr)
  then have v: "w = v" "v \<noteq> []" "list_all isfinite v" "n = int (length v)" using finite_vector_floats by simp_all
  have "pack_all BINARY32 v = Inr bs \<and> unpack_all BINARY32 (nat n) bs = v"
    using enc w v(1) by (simp add: Float32LECodec_def split: sum.splits if_splits)
  then obtain bss where e: "v \<noteq> []" "list_all isfinite v" "n = int (length v)" "bs = concat bss"
    "list_all2 (\<lambda>x b. pack BINARY32 x = Inr b) v bss" "unpack_all BINARY32 (nat n) bs = v"
    using v pack_all_eq_Inr by blast
  have len: "length bss = length v" "list_all (\<lambda>b. length b = ff_bytes BINARY32) bss"
    using e(5) by (induction v bss rule: list_all2_induct) (auto dest: pack_length)
  then have "map (unpack BINARY32) bss = v" using chunks_concat [OF len(2)] e(3,4,6) by (simp add: unpack_all_def)
  then have "list_all2 (\<lambda>x b. unpack BINARY32 b = x \<and> length b = ff_bytes BINARY32) v bss"
    using list_all2_unpacked [OF len(2), of "unpack BINARY32"] by (simp only:)
  from decode_with_concat [OF this e(1,2)] show "vc_decode Float32LECodec bs n = Inr v"
    by (simp add: Float32LECodec_def e(3,4))
qed

text \<open>The legacy codec never writes.\<close>

interpretation json_f64: lossless_codec "JsonF64Codec loads" "\<lambda>_. True" for loads
  by unfold_locales (simp add: JsonF64Codec_def)

text \<open>Every codec of the registry keeps the law.\<close>

definition codecs_lossless :: "codec_registry \<Rightarrow> bool" where
  "codecs_lossless reg \<longleftrightarrow> (\<forall>c \<in> snd ` set reg. lossless_codec c is_double)"

lemma lossless_weaken: "lossless_codec c (\<lambda>_. True) \<Longrightarrow> lossless_codec c is_double"
  by (simp add: lossless_codec_def list_all_iff)

lemma default_registry_lossless: "codecs_lossless (default_registry loads)"
  using float64.lossless_codec_axioms float32.lossless_codec_axioms json_f64.lossless_codec_axioms [of loads]
  by (auto simp: codecs_lossless_def default_registry_def intro: lossless_weaken)

lemma registry_lossless:
  assumes "codecs_lossless reg" "registry_get reg cid = Inr c" "list_all is_double v" "vc_encode c v n = Inr bs"
  shows "vc_decode c bs n = Inr v"
proof -
  have "map_of reg cid = Some c" using assms(2) by (auto simp: registry_get_def split: if_splits option.splits)
  then have "c \<in> snd ` set reg" by (force dest: map_of_SomeD)
  then show ?thesis using assms(1,3,4) lossless_codec.decode_encode by (force simp: codecs_lossless_def)
qed

section \<open>Two numbers\<close>

lemma to_bytes_8: "to_bytes 8 b = map (\<lambda>k. b div k mod 256)
    [1, 256, 65536, 16777216, 4294967296, 1099511627776, 281474976710656, 72057594037927936]"
proof -
  have "8 = Suc (Suc (Suc (Suc (Suc (Suc (Suc (Suc 0)))))))" by simp
  then have "to_bytes 8 b = to_bytes (Suc (Suc (Suc (Suc (Suc (Suc (Suc (Suc 0)))))))) b" by (rule arg_cong)
  also have "\<dots> = map (\<lambda>k. b div k mod 256)
    [1, 256, 65536, 16777216, 4294967296, 1099511627776, 281474976710656, 72057594037927936]"
    by (simp add: div_mult2_eq [symmetric])
  finally show ?thesis .
qed

lemma pack_example: "pack BINARY64 (Fin 0) = Inr [0, 0, 0, 0, 0, 0, 0, 0]" "pack BINARY64 (Fin 1) = Inr [0, 0, 0, 0, 0, 0, 240, 63]"
proof -
  have "(1::rat) / 2 powi (- 52) = of_int 4503599627370496" by (simp add: power_int_minus)
  then have "round_half_even (1 / 2 powi (- 52)) = 4503599627370496" by (simp only: round_half_even_of_int)
  moreover have "rat_exp 1 = 0" by (simp add: rat_exp_def ilog2.simps)
  ultimately have "magnitude_bits 52 (- 1074) 1 = 4607182418800017408"
    by (simp add: magnitude_bits_def unit_exp_def)
  then show "pack BINARY64 (Fin 1) = Inr [0, 0, 0, 0, 0, 0, 240, 63]"
    by (simp add: BINARY64_def Let_def to_bytes_8)
  show "pack BINARY64 (Fin 0) = Inr [0, 0, 0, 0, 0, 0, 0, 0]"
    by (simp add: BINARY64_def Let_def magnitude_bits_def to_bytes_8)
qed

lemma example_doubles: "is_double (Fin 0)" "is_double (Fin 1)"
  using b64_round_of_int [of 1] by simp_all

end
