(* ===== verification/Sqlite_Example.thy ===== *)
theory Sqlite_Example
  imports Sqlite_Protocol Sqlite_Codecs
begin

text \<open>A concrete store and a publication that succeeds, at which the properties of the store are applied.\<close>

definition quiet :: surroundings where
  "quiet = \<lparr>hook = (\<lambda>_. None), engine = (\<lambda>_. None), now = (\<lambda>_. [116]), new_lifecycle = [65], new_token = [66]\<rparr>"

definition example_store :: "unit store" where
  "example_store = \<lparr>codecs = default_registry (\<lambda>_. None), backend = builtin_exact_backend\<rparr>"

definition empty_db :: "unit db" where
  "empty_db = \<lparr>has_states = True, t_resources = [], t_representations = [], t_units = [], t_spaces = [], t_embeddings = [],
     t_facets = [], t_assignments = [], t_fts = [], t_states = [], t_backend = ()\<rparr>"

definition empty_conn :: "unit conn" where
  "empty_conn = \<lparr>committed = empty_db, working = None, open_count = 0\<rparr>"

text \<open>The published batch: one resource with one unit that has a text and a vector.\<close>

lemma example_batch_ok: "validate_prepared_batch (Typed example_batch) = Inr ()"
  using accepted_iff_graph [OF example_batch_wf] example_batch_graph by blast

definition example_payload :: "nat list" where
  "example_payload = [0, 0, 0, 0, 0, 0, 0, 0, 0, 0, 0, 0, 0, 0, 240, 63]"

lemma example_codec:
  "vc_encode Float64LECodec [Fin 0, Fin 1] 2 = Inr example_payload"
  "vc_decode Float64LECodec example_payload 2 = Inr [Fin 0, Fin 1]"
proof -
  show enc: "vc_encode Float64LECodec [Fin 0, Fin 1] 2 = Inr example_payload"
    using finite_vector_floats [of "[Fin 0, Fin 1]" 2 "''vector''" "[Fin 0, Fin 1]"]
    by (simp add: Float64LECodec_def pack_all_def pack_example example_payload_def del: pack.simps)
  show "vc_decode Float64LECodec example_payload 2 = Inr [Fin 0, Fin 1]"
    by (rule float64.decode_encode [OF _ enc]) (simp add: example_doubles del: is_double.simps)
qed

lemma example_registry:
  "codec_id_from_metadata [] = Inr FLOAT64_CODEC_ID" "registry_get (codecs example_store) FLOAT64_CODEC_ID = Inr Float64LECodec"
  by (simp_all add: codec_id_from_metadata_def meta_get_def registry_get_def example_store_def default_registry_def
      FLOAT64_CODEC_ID_def lit_def Let_def)

lemma example_encode: "encode_mapping [] f = Inr []" "decode_mapping [] f = Inr []"
  using freeze_json_mapping_thaw [OF empty_mapping_frozen] by (simp_all add: encode_mapping_def decode_mapping_def)

lemma example_names: "require_non_empty (PStr [n]) f = Inr [n]" if "n \<in> {65, 66, 102, 107, 108, 109, 110, 112, 114, 115, 117}"
  using that by (intro name_again) (auto simp: wf_name_def blank_iff py_isspace_def utf8_encodable_def surrogate_def)

definition text_prepared :: prepared where
  "text_prepared =
     \<lparr>pp_batch = example_batch,
      pp_resource = \<lparr>row_resource = batch_resource example_batch, row_fingerprint = locator_fingerprint [], row_indexed_at = [116]\<rparr>,
      pp_representations = batch_representations example_batch, pp_units = batch_units example_batch, pp_spaces = batch_spaces example_batch,
      pp_vectors = [\<lparr>emb_unit_id = [117], emb_space_id = [115], emb_payload = example_payload, emb_at = [116]\<rparr>], pp_facets = [], pp_fts = [([117], [120])],
      pp_source_key = ([110], [108], locator_fingerprint [])\<rparr>"

lemma example_preflight: "preflight example_store quiet (Typed example_batch) = Inr text_prepared"
proof -
  let ?sp = "\<lparr>space_id = [115], space_dimensions = 2, space_metric = METRIC_COSINE, space_fingerprint = [102], space_metadata = []\<rparr>"
  have metric: "require_non_empty (PStr METRIC_COSINE) f = Inr METRIC_COSINE" for f
    by (rule name_again, rule metric_name) (simp add: METRICS_def)
  have "prepare_spaces (codecs example_store) [] (batch_spaces example_batch) = Inr ([([115], Float64LECodec, ?sp)], [?sp])"
    by (simp add: example_batch_def prepare_space_def codec_for_space_def example_registry need_def metric example_names example_encode
        METRICS_def)
  moreover have "prepare_vectors quiet [[117]] [([115], Float64LECodec, ?sp)] [] (batch_vectors example_batch) =
      Inr [\<lparr>emb_unit_id = [117], emb_space_id = [115], emb_payload = example_payload, emb_at = [116]\<rparr>]"
    by (simp add: example_batch_def prepare_vector_def example_codec zero_norm_def) (simp add: quiet_def)
  ultimately show ?thesis
    by (simp add: preflight_def example_batch_ok Let_def)
      (simp add: example_batch_def example_unit_def prepare_resource_def locator_parts_def example_encode example_names
      need_def need_optional_def need_utf8_def require_optional_non_empty_def prepare_representation_def validate_token_pair_def
      prepare_unit_def has_text_def text_prepared_def text_rows_def row_source_key_def quiet_def blank_iff py_isspace_def
      require_utf8_encodable_def utf8_encodable_def surrogate_def)
qed

section \<open>Execution without faults\<close>

lemma quiet_ops:
  "op_exec quiet l f c = (case f (current c) of Inl e \<Rightarrow> (c\<lparr>working := Some (current c)\<rparr>, Inl e)
     | Inr w \<Rightarrow> (c\<lparr>working := Some w\<rparr>, Inr ()))"
  "op_query quiet l q c = (c, Inr (q (current c)))"
  "point quiet n c = (c, Inr ())"
  "op_commit quiet c = (c\<lparr>committed := current c, working := None\<rparr>, Inr ())"
  by (simp_all add: quiet_def op_exec_def op_query_def point_def op_commit_def op_fault_def op_bind_def split: sum.split)

lemma quiet_begin: "working c = None \<Longrightarrow> op_begin quiet c = (c\<lparr>working := Some (committed c), open_count := Suc (open_count c)\<rparr>, Inr ())"
  by (simp add: op_begin_eq_Inr) (simp add: quiet_def)

lemma quiet_exec: "f (current c) = Inr w \<Longrightarrow> op_exec quiet l f c = (c\<lparr>working := Some w\<rparr>, Inr ())"
  by (simp add: quiet_ops)

definition graph_db :: "unit db" where
  "graph_db = empty_db\<lparr>t_resources := [pp_resource text_prepared], t_representations := batch_representations example_batch,
     t_units := batch_units example_batch, t_spaces := batch_spaces example_batch, t_embeddings := pp_vectors text_prepared, t_fts := [\<lparr>fts_unit_id = [117], fts_content = [120]\<rparr>]\<rparr>"

lemma example_checks:
  "check_source_identity quiet text_prepared (c\<lparr>working := Some empty_db\<rparr>) = (c\<lparr>working := Some empty_db\<rparr>, Inr ())"
  "check_spaces quiet text_prepared (c\<lparr>working := Some empty_db\<rparr>) = (c\<lparr>working := Some empty_db\<rparr>, Inr ())"
  by (simp_all add: check_source_identity_def space_conflict_def select_space_def example_batch_def check_spaces_def text_prepared_def quiet_ops op_bind_def Let_def
      select_resource_def select_by_source_def empty_db_def)

lemmas example_eval = example_encode example_names need_def need_optional_def need_utf8_def require_optional_non_empty_def
  require_utf8_encodable_def utf8_encodable_def surrogate_def blank_iff py_isspace_def freeze_empty_mapping
  require_optional_utf8_def require_integer_def validate_token_count_def

lemma text_locator: "decode_locator [108] [] f = Inr \<lparr>loc_kind = [108], loc_payload = []\<rparr>"
  by (simp add: decode_locator_def new_Locator_def example_eval)

lemma example_rows:
  "resource_from_row (pp_resource text_prepared) = Inr (batch_resource example_batch)"
  "unit_from_row (hd (batch_units example_batch), hd (batch_representations example_batch)) = Inr (hd (batch_units example_batch))"
  by (simp_all add: resource_from_row_def unit_from_row_def text_prepared_def example_batch_def example_unit_def Let_def
      text_locator locator_parts_def new_ResourceRecord_def new_SearchUnitRecord_def example_eval)

lemma example_tables:
  "batch_facets example_batch = []" "vec_vector (hd (batch_vectors example_batch)) = [Fin 0, Fin 1]"
  "res_id (batch_resource example_batch) = [114]" "unit_id (hd (batch_units example_batch)) = [117]"
  "vec_unit_id (hd (batch_vectors example_batch)) = [117]" "vec_space_id (hd (batch_vectors example_batch)) = [115]"
  "space_dimensions (hd (batch_spaces example_batch)) = 2" "space_metadata (hd (batch_spaces example_batch)) = []"
  "space_id (hd (batch_spaces example_batch)) = [115]"
  by (simp_all add: example_batch_def example_unit_def)

lemma example_spaces: "find (\<lambda>s. space_id s = [115]) (batch_spaces example_batch) = Some (hd (batch_spaces example_batch))"
  by (simp add: example_batch_def)

lemma example_verify: "verify_db (codecs example_store) example_batch graph_db = Inr ()"
proof -
  have ids: "unit_ids_of [114] graph_db = [[117]]" "map fts_unit_id (t_fts graph_db) = [[117]]"
    by (simp_all add: unit_ids_of_def graph_db_def example_batch_def example_unit_def)
  have "graph_counts [114] graph_db = (1, 1, 1, 0)"
    by (simp add: graph_counts_def embeddings_of_def ids assignments_of_def)
      (simp add: graph_db_def text_prepared_def example_batch_def example_unit_def empty_db_def)
  moreover have "join_units graph_db (\<lambda>u. unit_resource_id u = [114]) = [(hd (batch_units example_batch), hd (batch_representations example_batch))]"
    by (simp add: join_units_def graph_db_def example_batch_def example_unit_def)
  moreover have "select_resource [114] graph_db = Some (pp_resource text_prepared)" "assignments_of [114] graph_db = []"
    by (simp_all add: select_resource_def graph_db_def text_prepared_def example_batch_def assignments_of_def empty_db_def)
  moreover have "foreign_keys_ok graph_db"
    by (simp add: foreign_keys_ok_def graph_db_def text_prepared_def example_batch_def example_unit_def empty_db_def)
  moreover have "verify_vector (codecs example_store) graph_db (hd (batch_vectors example_batch)) = Inr ()"
    by (simp add: verify_vector_def select_embedding_def select_space_def graph_db_def example_tables text_prepared_def
        example_spaces example_encode decode_vector_payload_def example_registry example_codec)
  moreover have "t_units graph_db = batch_units example_batch" "t_representations graph_db = batch_representations example_batch"
    by (simp_all add: graph_db_def)
  moreover have "set (map unit_id (filter (\<lambda>u. has_text (unit_text u)) (batch_units example_batch))) = {[117]}"
    "unit_representation_id ` set (batch_units example_batch) = {[112]}"
    "filter (\<lambda>p. rep_resource_id p = [114]) (batch_representations example_batch) = batch_representations example_batch"
    "\<forall>p \<in> set (batch_representations example_batch). rep_id p = [112]" "length (batch_representations example_batch) = 1"
    "length (batch_units example_batch) = 1" "length (batch_vectors example_batch) = 1"
    "checks (map (verify_vector r d) (batch_vectors example_batch)) = checks [verify_vector r d (hd (batch_vectors example_batch))]" for r and d :: "unit db"
    by (simp_all add: example_batch_def example_unit_def has_text_def blank_iff py_isspace_def)
  ultimately show ?thesis
    unfolding verify_db_def Let_def example_tables(1,3) by (auto simp: example_rows ids list_all_iff simp del: set_map set_filter)
qed

lemma example_statements:
  "delete_graph example_store quiet [114] (c\<lparr>working := Some empty_db\<rparr>) = (c\<lparr>working := Some empty_db\<rparr>, Inr ())"
  "insert_resource (pp_resource text_prepared) empty_db = Inr (empty_db\<lparr>t_resources := [pp_resource text_prepared]\<rparr>)"
  by (simp_all add: delete_graph_def op_backend_def quiet_ops op_bind_def delete_fts_rows_def delete_resource_row_def
      example_store_def builtin_exact_backend_def empty_db_def Let_def insert_resource_def integrity_def)

definition example_embedding :: embedding_row where
  "example_embedding = \<lparr>emb_unit_id = [117], emb_space_id = [115], emb_payload = example_payload, emb_at = [116]\<rparr>"

text \<open>The databases between the statements of the write.\<close>

definition rows_1 :: "unit db" where
  "rows_1 = empty_db\<lparr>t_resources := [pp_resource text_prepared], t_spaces := batch_spaces example_batch\<rparr>"

definition rows_2 :: "unit db" where
  "rows_2 = rows_1\<lparr>t_representations := batch_representations example_batch\<rparr>"

definition rows_3 :: "unit db" where
  "rows_3 = rows_2\<lparr>t_units := batch_units example_batch\<rparr>"

definition rows_4 :: "unit db" where
  "rows_4 = rows_3\<lparr>t_embeddings := pp_vectors text_prepared\<rparr>"

lemma example_inserts:
  "insert_space (hd (batch_spaces example_batch)) (empty_db\<lparr>t_resources := [pp_resource text_prepared]\<rparr>) = Inr rows_1"
  "insert_representation (hd (batch_representations example_batch)) rows_1 = Inr rows_2"
  "insert_unit (hd (batch_units example_batch)) rows_2 = Inr rows_3"
  "insert_embedding example_embedding rows_3 = Inr rows_4"
  "insert_fts [117] [120] rows_4 = Inr graph_db" "prune_facet_rows graph_db = Inr graph_db"
  by (simp_all add: insert_space_def insert_representation_def insert_unit_def insert_embedding_def insert_fts_def prune_facet_rows_def
      integrity_def bind_ints_def int64_def opt_list_def rows_1_def rows_2_def rows_3_def rows_4_def graph_db_def text_prepared_def
      example_batch_def example_unit_def empty_db_def example_payload_def example_embedding_def)

lemma example_write:
  "write_graph example_store quiet text_prepared (c\<lparr>working := Some empty_db\<rparr>) = (c\<lparr>working := Some graph_db\<rparr>, Inr ())"
proof -
  have rows: "pp_representations text_prepared = [hd (batch_representations example_batch)]"
    "pp_units text_prepared = [hd (batch_units example_batch)]" "pp_batch text_prepared = example_batch"
    "res_id (batch_resource example_batch) = [114]" "pp_spaces text_prepared = [hd (batch_spaces example_batch)]"
    "pp_vectors text_prepared = [example_embedding]"
    "pp_facets text_prepared = []" "pp_fts text_prepared = [([117], [120])]"
    by (simp_all add: text_prepared_def example_batch_def example_embedding_def)
  have backend: "op_backend quiet l (vb_replace_vectors (backend example_store) rid ss vs) (c\<lparr>working := Some graph_db\<rparr>) =
      (c\<lparr>working := Some graph_db\<rparr>, Inr ())" "verify_backend example_store quiet (c\<lparr>working := Some graph_db\<rparr>) = (c\<lparr>working := Some graph_db\<rparr>, Inr ())"
    for l rid ss vs
    by (simp_all add: op_backend_def verify_backend_def quiet_ops example_store_def builtin_exact_backend_def op_bind_def)
  show ?thesis
    unfolding write_graph_def Let_def rows
    by (simp add: or_rollback_def op_try_def example_checks example_statements example_inserts quiet_exec quiet_ops(2,3) backend
        example_verify op_bind_def)
qed

section \<open>The publication\<close>

definition absent_state :: PublicationState where
  "absent_state = \<lparr>pub_resource_id = [114], pub_status = never_created, pub_lifecycle_id = None, pub_state_token = None,
     pub_source_namespace = None, pub_source_locator = None\<rparr>"

definition expect_absent :: ExpectedPublication where
  "expect_absent = \<lparr>exp_state = absent_state, exp_create = True\<rparr>"

definition example_row :: state_row where
  "example_row = \<lparr>sr_resource_id = [114], sr_status = published, sr_lifecycle_id = [65], sr_state_token = [66],
     sr_source_namespace = [110], sr_locator_kind = [108], sr_locator_json = [], sr_metadata_json = []\<rparr>"

definition published_db :: "unit db" where
  "published_db = graph_db\<lparr>t_states := [example_row]\<rparr>"

definition published_conn :: "unit conn" where
  "published_conn = \<lparr>committed = published_db, working = None, open_count = 1\<rparr>"

definition published_state :: PublicationState where
  "published_state = \<lparr>pub_resource_id = [114], pub_status = published, pub_lifecycle_id = Some [65], pub_state_token = Some [66],
     pub_source_namespace = Some [110], pub_source_locator = Some \<lparr>loc_kind = [108], loc_payload = []\<rparr>\<rparr>"

lemma example_states:
  "read_state_db [114] empty_db = Inr absent_state" "read_state_db [114] published_db = Inr published_state"
  "state_eq absent_state absent_state" "state_eq published_state published_state" "\<not> state_eq published_state absent_state"
  by (simp_all add: read_state_db_def select_state_def empty_db_def published_db_def graph_db_def example_row_def state_from_row_def
      publication_status_name [of published, unfolded status_name_def, simplified]
      publication_status_name [of never_created, unfolded status_name_def, simplified]
      absent_state_def published_state_def status_name_def new_PublicationState_def example_encode example_names text_locator
      state_eq_def locator_eq_def)

lemma example_put:
  "put_state quiet absent_state published (Some example_batch) (c\<lparr>working := Some graph_db\<rparr>) = (c\<lparr>working := Some published_db\<rparr>, Inr ())"
proof -
  have "upsert_state example_row graph_db = Inr published_db"
    by (simp add: upsert_state_def graph_db_def empty_db_def select_state_def integrity_def published_db_def)
  then have "op_exec quiet l (upsert_state example_row) (c\<lparr>working := Some graph_db\<rparr>) = (c\<lparr>working := Some published_db\<rparr>, Inr ())" for l
    by (simp add: quiet_exec)
  then show ?thesis
    by (simp add: put_state_def source_metadata_def absent_state_def live_def example_batch_def example_encode
        op_bind_def quiet_ops(3) example_row_def) (simp add: quiet_def)
qed

lemma example_publish:
  "compare_and_publish example_store quiet (Typed example_batch) (Typed expect_absent) (empty_conn\<lparr>open_count := n\<rparr>) =
   (published_conn\<lparr>open_count := Suc n\<rparr>, Inr \<lparr>pr_applied = True, pr_state = published_state\<rparr>)"
proof -
  let ?c = "empty_conn\<lparr>open_count := Suc n, working := Some empty_db\<rparr>"
  have rid: "res_id (batch_resource example_batch) = [114]" "pp_batch text_prepared = example_batch"
    by (simp_all add: example_batch_def text_prepared_def)
  have wr: "write_graph example_store quiet text_prepared ?c = (?c\<lparr>working := Some graph_db\<rparr>, Inr ())"
    using example_write [of ?c] by simp
  have read: "read_state quiet [114] (?c\<lparr>working := Some published_db\<rparr>) = (?c\<lparr>working := Some published_db\<rparr>, Inr published_state)"
    "read_state quiet [114] ?c = (?c, Inr absent_state)"
    by (simp_all add: read_state_def quiet_ops(2) example_states current_def)
  have put: "put_state quiet absent_state published (Some example_batch) (?c\<lparr>working := Some graph_db\<rparr>) = (?c\<lparr>working := Some published_db\<rparr>, Inr ())"
    by (rule example_put)
  have "publish_body example_store quiet text_prepared (Some absent_state) ?c =
      (published_conn\<lparr>open_count := Suc n\<rparr>, Inr (Some \<lparr>pr_applied = True, pr_state = published_state\<rparr>))"
    unfolding publish_body_def Let_def rid using wr put read
    by (simp add: op_bind_def quiet_ops(3,4) current_def published_conn_def empty_conn_def)
  moreover have "op_begin quiet (empty_conn\<lparr>open_count := n\<rparr>) = (?c, Inr ())" by (simp add: quiet_begin empty_conn_def)
  moreover have "publication_enabled quiet ?c = (?c, Inr True)"
    by (simp add: publication_enabled_def quiet_ops(2) current_def empty_db_def)
  ultimately have "publish example_store quiet text_prepared (Some expect_absent) (empty_conn\<lparr>open_count := n\<rparr>) =
      (published_conn\<lparr>open_count := Suc n\<rparr>, Inr (Some \<lparr>pr_applied = True, pr_state = published_state\<rparr>))"
    unfolding publish_def Let_def rid using read(2)
    by (simp add: op_bind_def quiet_ops(3) or_rollback_def op_try_def expect_absent_def example_states)
  then show ?thesis
    unfolding compare_and_publish_def
    by (simp add: example_preflight refuse_external_transaction_def op_bind_def rid expect_absent_def op_try_def)
      (simp add: absent_state_def empty_conn_def in_transaction_def)
qed

end
