(* ===== verification/Sqlite_Contract.thy ===== *)
theory Sqlite_Contract
  imports Sqlite_Example
begin

text \<open>
  The contract of the SQLite store, as properties over all of its calls: atomicity, the publication protocol as a
  refinement of the state machine, its invariant over every sequence of calls, and the absence of lost updates.
\<close>

section \<open>Atomicity\<close>

lemma refused_keeps:
  assumes "run_call st ev call c = (c', Inr x)" "refused x"
  shows "committed c' = committed c"
proof (cases call)
  case (CompareAndPublish b ex)
  with assms obtain pp e r where pub: "publish st ev pp (Some e) c = (c', Inr (Some r))" "\<not> pr_applied r"
    by (cases ex) (auto simp: compare_and_publish_def refuse_external_transaction_def op_eqs op_try_eq_Inr refused_def
        split: option.splits)
  from pub(1) show ?thesis by (cases rule: publish_cases) (use pub(2) in auto)
next
  case (Withdraw rid ex)
  with assms obtain r where rem: "remove_if_current st ev rid ex False c = (c', Inr r)" "\<not> pr_applied r"
    by (auto simp: withdraw_if_current_def remove_safely_def op_eqs op_try_eq_Inr refused_def)
  from rem(1) show ?thesis by (cases rule: remove_cases) (use rem(2) in auto)
next
  case (DeleteIfCurrent rid ex)
  with assms obtain r where rem: "remove_if_current st ev rid ex True c = (c', Inr r)" "\<not> pr_applied r"
    by (auto simp: delete_if_current_def remove_safely_def op_eqs op_try_eq_Inr refused_def)
  from rem(1) show ?thesis by (cases rule: remove_cases) (use rem(2) in auto)
qed (use assms in \<open>auto simp: op_eqs refused_def split: prod.splits\<close>)

lemma caller_transaction_refused:
  assumes "in_transaction c"
  shows "\<exists>e. run_call st ev call c = (c, Inl e)"
proof -
  have refuse: "refuse_external_transaction c = (c, Inl (SQLiteCatalogError ''active_transaction''))"
    using assms by (simp add: refuse_external_transaction_def op_bind_def)
  have remove: "\<exists>e. remove_if_current st ev rid ex del c = (c, Inl e)" for rid ex del
    by (cases ex) (auto simp: remove_if_current_def op_bind_def refuse raise_if_def)
  show ?thesis
  proof (cases call)
    case (Replace b)
    then show ?thesis using assms
      by (cases "preflight st ev b") (auto simp: replace_resource_def guarded_def op_try_def op_bind_def)
  next
    case (CompareAndPublish b ex)
    then show ?thesis
      by (cases "preflight st ev b"; cases ex) (auto simp: compare_and_publish_def op_bind_def refuse raise_if_def)
  next
    case (Withdraw rid ex)
    then show ?thesis using remove [of rid ex False] by (auto simp: withdraw_if_current_def remove_safely_def)
  next
    case (DeleteIfCurrent rid ex)
    then show ?thesis using remove [of rid ex True] by (auto simp: delete_if_current_def remove_safely_def)
  next
    case (Delete obj)
    then show ?thesis by (simp add: delete_live_resource_def refuse)
  next
    case RebuildFts
    then show ?thesis by (simp add: rebuild_fts_index_def refuse)
  qed
qed

text \<open>
  C34: every write of the store is all or nothing. Whatever fails (a statement, the failure hook at any point, the
  injected backend, a verification), a call that raises leaves the committed database as it was, and so does a call
  whose comparison is refused; no call leaves a transaction open; and a call inside a caller's transaction is refused
  without touching the connection.
\<close>

theorem store_calls_atomic:
  assumes "run_call st ev call c = (c', r)"
  shows "(case r of Inl e \<Rightarrow> committed c' = committed c | Inr x \<Rightarrow> refused x \<longrightarrow> committed c' = committed c) \<and>
    (if in_transaction c then c' = c \<and> (\<exists>e. r = Inl e) else \<not> in_transaction c')"
proof -
  have "committed c' = committed c" if "r = Inl e" for e
    using safe_calls [of st ev call] assms that by (auto simp: safe_def)
  moreover have "committed c' = committed c" if "r = Inr x" "refused x" for x
    using refused_keeps assms that by blast
  moreover have "working c' = None" if "working c = None"
    using shuts_calls [of st ev call] assms that by (metis fst_conv shuts_def)
  moreover have "c' = c \<and> (\<exists>e. r = Inl e)" if "in_transaction c"
    using caller_transaction_refused [OF that, of st ev call] assms by auto
  ultimately show ?thesis by (cases r; cases "working c") (simp_all add: in_transaction_def)
qed

text \<open>A repair of the text index that is interrupted before the commit.\<close>

definition interrupted :: surroundings where
  "interrupted = quiet\<lparr>hook := (\<lambda>n. if n = ''before_commit'' then Some (RuntimeError ''interrupted'') else None)\<rparr>"

theorem store_calls_atomic_witness:
  "\<exists>c'. run_call example_store interrupted RebuildFts published_conn = (c', Inl (RuntimeError ''interrupted'')) \<and>
     committed c' = published_db \<and> \<not> in_transaction c'"
proof -
  obtain c' where c': "run_call example_store interrupted RebuildFts published_conn = (c', Inl (RuntimeError ''interrupted''))"
    by (simp add: rebuild_fts_index_def interrupted_def quiet_def refuse_external_transaction_def published_conn_def in_transaction_def
        op_begin_def point_def op_begin_immediate_def op_fault_def or_rollback_def op_try_def op_bind_def op_exec_def rebuild_fts_db_def
        op_query_def rollback_def)
  then show ?thesis using store_calls_atomic [OF c'] by (auto simp: published_conn_def in_transaction_def)
qed

section \<open>The protocol\<close>

text \<open>
  C35: the store refines the publication state machine. Every call, with any outcome, takes the published resources and
  their states through at most one step: nothing changes, or a resource is published, withdrawn or deleted under a new
  token (a live one keeps its lifecycle identity, another one gets a new one), or rows that no state owns are discarded.
\<close>

theorem store_refines_machine:
  assumes "run_call st ev call c = (c', r)" "protocol_inv (committed c)" "call_ok call"
  shows "pub_step ev (view (committed c)) (view (committed c')) \<and> protocol_inv (committed c')"
  using call_refines [OF assms(1) _ protocol_inv_stored [OF assms(2)] assms(3)] call_inv [OF assms(2,3), of st ev] assms(1,2)
  by (simp add: protocol_inv_def)

lemma empty_protocol: "protocol_inv empty_db"
  by (simp add: protocol_inv_def view_inv_def view_def empty_db_def select_state_def)

definition example_call :: store_call where
  "example_call = CompareAndPublish (Typed example_batch) (Typed expect_absent)"

lemma example_call_ok: "call_ok example_call"
  by (simp add: example_call_def expected_ok_def expect_absent_def absent_state_def live_def)

lemma example_run: "run_call example_store quiet example_call empty_conn = (published_conn, Inr (Published \<lparr>pr_applied = True, pr_state = published_state\<rparr>))"
  using example_publish [of 0] by (simp add: example_call_def op_bind_def empty_conn_def published_conn_def)

theorem store_refines_machine_witness:
  "pub_step quiet (view empty_db) (view published_db) \<and> protocol_inv published_db"
  using store_refines_machine [OF example_run _ example_call_ok] empty_protocol
  by (simp add: empty_conn_def published_conn_def)

text \<open>
  C36: over every sequence of calls, from any number of callers and with any faults, a resource has a row in the catalog
  exactly when its publication state is published.
\<close>

theorem published_iff_graph:
  assumes "protocol_inv (committed c)" "list_all (\<lambda>(ev, call). call_ok call) calls"
  shows "(\<exists>r \<in> set (t_resources (committed (run_calls st calls c))). row_id r = rid) \<longleftrightarrow>
    (\<exists>s. select_state rid (committed (run_calls st calls c)) = Some s \<and> sr_status s = published)"
proof -
  have "rid \<in> fst (view (committed (run_calls st calls c))) \<longleftrightarrow>
      (\<exists>s. snd (view (committed (run_calls st calls c))) rid = Some s \<and> sr_status s = published)"
    using run_calls_inv [OF assms, of st] by (simp add: protocol_inv_def view_inv_def)
  then show ?thesis by (auto simp: view_def)
qed

theorem published_iff_graph_witness:
  "(\<exists>r \<in> set (t_resources (committed (run_calls example_store [(quiet, example_call)] empty_conn))). row_id r = [114]) \<and>
   (\<exists>s. select_state [114] (committed (run_calls example_store [(quiet, example_call)] empty_conn)) = Some s \<and> sr_status s = published)"
proof -
  have "\<exists>s. select_state [114] (committed (run_calls example_store [(quiet, example_call)] empty_conn)) = Some s \<and> sr_status s = published"
    by (simp add: example_run published_conn_def published_db_def select_state_def example_row_def)
  then show ?thesis
    using published_iff_graph [of empty_conn "[(quiet, example_call)]" example_store "[114]"] empty_protocol example_call_ok
    by (simp add: empty_conn_def)
qed

section \<open>No lost updates\<close>

text \<open>The expectation of a conditional call.\<close>

fun expectation :: "store_call \<Rightarrow> ExpectedPublication option" where
  "expectation (CompareAndPublish b (Typed e)) = Some e"
| "expectation (Withdraw rid (Typed e)) = Some e"
| "expectation (DeleteIfCurrent rid (Typed e)) = Some e"
| "expectation _ = None"

text \<open>A conditional call that was applied found the state it expected.\<close>

lemma applied_matched:
  assumes "run_call st ev call c = (c', Inr (Published r))" "pr_applied r" "expectation call = Some e"
  shows "\<exists>p. read_state_db (pub_resource_id (exp_state e)) (committed c) = Inr p \<and> state_eq p (exp_state e)"
proof (cases call)
  case (CompareAndPublish b ex)
  with assms obtain pp res where pub: "publish st ev pp (Some e) c = (c', Inr (Some r))"
      "pub_resource_id (exp_state e) = res_id (batch_resource (pp_batch pp))"
    by (cases ex) (auto simp: compare_and_publish_def refuse_external_transaction_def op_eqs op_try_eq_Inr split: option.splits)
  from pub(1) show ?thesis by (cases rule: publish_cases) (use pub(2) assms(2) in auto)
next
  case (Withdraw rid ex)
  with assms have rem: "remove_if_current st ev rid (Typed e) False c = (c', Inr r)"
    by (cases ex) (auto simp: withdraw_if_current_def remove_safely_def op_eqs op_try_eq_Inr)
  then show ?thesis by (cases rule: remove_cases) (use assms(2) in auto)
next
  case (DeleteIfCurrent rid ex)
  with assms have rem: "remove_if_current st ev rid (Typed e) True c = (c', Inr r)"
    by (cases ex) (auto simp: delete_if_current_def remove_safely_def op_eqs op_try_eq_Inr)
  then show ?thesis by (cases rule: remove_cases) (use assms(2) in auto)
qed (use assms in auto)

lemma read_state_token:
  assumes "read_state_db rid (committed c) = Inr p" "rows_stored (committed c)"
  shows "pub_state_token p = token_at rid c"
proof (cases "select_state rid (committed c)")
  case None
  then show ?thesis using assms(1)
    by (auto simp: read_state_db_eq_Inr state_from_row_def token_at_def new_PublicationState_def rbind_eq_Inr split: if_splits
        dest!: publication_status_name [of never_created, THEN trans, rotated])
next
  case (Some s)
  then show ?thesis using assms state_from_row_fields(2) [of rid "Some s" p s]
    by (auto simp: read_state_db_eq_Inr token_at_def rows_stored_def)
qed

text \<open>
  C37: no update is lost. A caller reads the state of a resource, any calls of any callers follow, and then the caller's
  conditional publication, withdrawal or deletion is applied with the state it read as its expectation. If the tokens
  generated in between are not the one that was read, the state of the resource did not change at any moment in
  between (in particular it was not changed and changed back).
\<close>

theorem no_lost_update:
  assumes "protocol_inv (committed c)" "list_all (\<lambda>(ev, call). call_ok call) calls"
    and "read_state_db rid (committed c) = Inr (exp_state e)"
    and "\<forall>(ev, call) \<in> set calls. token_at rid c \<noteq> Some (new_token ev)"
    and "expectation call = Some e" "run_call st ev call (run_calls st calls c) = (c', Inr (Published r))" "pr_applied r"
    and "calls = before @ after"
  shows "select_state rid (committed (run_calls st before c)) = select_state rid (committed c)"
proof -
  have rid: "pub_resource_id (exp_state e) = rid" using assms(3) state_from_row_fields(1) by (auto simp: read_state_db_eq_Inr)
  obtain p where p: "read_state_db rid (committed (run_calls st calls c)) = Inr p" "state_eq p (exp_state e)"
    using applied_matched [OF assms(6,7,5)] rid by auto
  have inv: "protocol_inv (committed (run_calls st calls c))" by (rule run_calls_inv [OF assms(1,2)])
  have "token_at rid (run_calls st calls c) = token_at rid c"
    using read_state_token [OF p(1) protocol_inv_stored [OF inv]] read_state_token [OF assms(3) protocol_inv_stored [OF assms(1)]] p(2)
    by (simp add: state_eq_def)
  then have "\<not> (\<exists>ev \<in> fst ` set calls. token_at rid (run_calls st calls c) = Some (new_token ev))"
    using assms(4) by fastforce
  then show ?thesis using run_token [OF assms(1,2), of rid st] assms(8) by blast
qed

text \<open>Another caller's publication that fails before its commit lies in between.\<close>

lemma interrupted_call: "\<exists>n. fst (run_call example_store interrupted example_call empty_conn) = empty_conn\<lparr>open_count := n\<rparr>"
proof -
  obtain c' r where run: "run_call example_store interrupted example_call empty_conn = (c', r)" by fastforce
  have "\<not> pr_applied x" if "r = Inr (Published x)" for x
  proof
    assume "pr_applied x"
    with run that obtain pp e where "publish example_store interrupted pp (Some e) empty_conn = (c', Inr (Some x))"
      by (auto simp: example_call_def compare_and_publish_def refuse_external_transaction_def op_eqs op_try_eq_Inr split: option.splits)
    then show False using \<open>pr_applied x\<close>
      by (cases rule: publish_cases) (auto simp: publish_body_def Let_def op_eqs interrupted_def)
  qed
  moreover have "\<exists>x. r = Inr (Published x)" if "r = Inr y" for y
    using run that by (auto simp: example_call_def op_eqs)
  ultimately have "committed c' = committed empty_conn"
    using run safe_calls [of example_store interrupted example_call] refused_keeps [of example_store interrupted example_call empty_conn c']
    by (cases r) (auto simp: safe_def refused_def)
  moreover have "working c' = None"
    using run shuts_calls [of example_store interrupted example_call] by (metis empty_conn_def conn.select_convs(2) fst_conv shuts_def)
  ultimately have "c' = empty_conn\<lparr>open_count := open_count c'\<rparr>" by (simp add: empty_conn_def)
  then show ?thesis using run by auto
qed

theorem no_lost_update_witness:
  "select_state [114] (committed (run_calls example_store [(interrupted, example_call)] empty_conn)) = None"
proof -
  let ?xs = "[(interrupted, example_call)]"
  obtain n where n: "run_calls example_store ?xs empty_conn = empty_conn\<lparr>open_count := n\<rparr>" using interrupted_call by auto
  have "run_call example_store quiet example_call (run_calls example_store ?xs empty_conn) =
      (published_conn\<lparr>open_count := Suc n\<rparr>, Inr (Published \<lparr>pr_applied = True, pr_state = published_state\<rparr>))"
    unfolding n using example_publish [of n] by (simp add: example_call_def op_bind_def)
  moreover have "expectation example_call = Some expect_absent" by (simp add: example_call_def)
  moreover have "read_state_db [114] (committed empty_conn) = Inr (exp_state expect_absent)"
    by (simp add: empty_conn_def expect_absent_def example_states)
  moreover have "token_at [114] empty_conn = None" by (simp add: token_at_def empty_conn_def empty_db_def select_state_def)
  ultimately show ?thesis
    using no_lost_update [of empty_conn ?xs "[114]" expect_absent example_call example_store quiet _ _ ?xs "[]"]
      empty_protocol example_call_ok by (simp add: empty_conn_def empty_db_def select_state_def)
qed

end
