(* ===== verification/Sqlite_Index.thy ===== *)
theory Sqlite_Index
  imports Sqlite_Contract Core_Indexing
begin

text \<open>
  The indexing service of the core over the SQLite store. What the service needs of its write port is a locale; the
  store's operations are an instance of it, and the service then keeps the catalog intact on every failure.
\<close>

section \<open>Ports that write all or nothing\<close>

text \<open>
  \<open>contents\<close> is what later calls can read. A failed write and a refused comparison leave it as it was, and \<open>idle\<close> is
  the state of the port between calls.
\<close>

locale atomic_write_port =
  fixes port :: "'s WritePort" and contents :: "'s \<Rightarrow> 'o" and idle :: "'s \<Rightarrow> bool"
  assumes replace_atomic: "wp_replace_resource port b s = (s', Inl e) \<Longrightarrow> contents s' = contents s"
    and delete_atomic: "wp_delete_resource port i s = (s', Inl e) \<Longrightarrow> contents s' = contents s"
    and publish_atomic: "wp_compare_and_publish port = Some f \<Longrightarrow> f b ex s = (s', r) \<Longrightarrow>
      (case r of Inr (Some x) \<Rightarrow> \<not> pr_applied x | _ \<Rightarrow> True) \<Longrightarrow> contents s' = contents s"
    and idle_after: "idle s \<Longrightarrow> idle (fst (wp_replace_resource port b s))" "idle s \<Longrightarrow> idle (fst (wp_delete_resource port i s))"
      "idle s \<Longrightarrow> wp_compare_and_publish port = Some f \<Longrightarrow> idle (fst (f b ex s))"
begin

text \<open>A write that has not taken effect: it raised, or the comparison was refused.\<close>

lemma port_write_atomic:
  assumes "port_write port batch expected s = (s', r)" "case r of Inr (Some x) \<Rightarrow> \<not> pr_applied x | Inr None \<Rightarrow> expected \<noteq> None | Inl e \<Rightarrow> True"
  shows "contents s' = contents s"
proof (cases batch)
  case (Typed b)
  show ?thesis
  proof (cases expected)
    case None
    obtain x where "wp_replace_resource port b s = (s', x)" "r = rbind x (\<lambda>_. Inr None)"
      using assms(1) by (auto simp: port_write_def Typed None split: prod.splits)
    then show ?thesis using assms(2) replace_atomic [of b s s'] by (cases x) (auto simp: None)
  next
    case (Some ex)
    show ?thesis
    proof (cases "wp_compare_and_publish port")
      case None
      then show ?thesis using assms(1) by (simp add: port_write_def Typed Some)
    next
      case (Some f)
      then have "f b ex s = (s', r)" using assms(1) by (simp add: port_write_def Typed \<open>expected = Some ex\<close>)
      then show ?thesis using publish_atomic [OF Some] assms(2) by (auto split: sum.splits option.splits)
    qed
  qed
qed (use assms(1) in \<open>simp add: port_write_def\<close>)

lemma port_write_idle: "idle s \<Longrightarrow> idle (fst (port_write port batch expected s))"
  using idle_after [of s] by (cases batch; cases expected; cases "wp_compare_and_publish port") (simp_all add: port_write_def split_def)

text \<open>The service keeps the contents whenever it raises, and when the publication was not applied.\<close>

lemma index_batch_atomic:
  assumes "\<And>f n. isfinite (el f n)" "index_batch port el batch expected (s, tr) = ((s', tr'), r)"
    "case r of Inr (Some x) \<Rightarrow> \<not> pr_applied x | Inr None \<Rightarrow> expected \<noteq> None | Inl e \<Rightarrow> True"
  shows "contents s' = contents s"
proof -
  obtain s1 names r1 where o: "index_outcome port batch expected s = (s1, names, r1)" by (cases "index_outcome port batch expected s")
  with index_batch_outcome [where el = el and tr = tr, OF _ o] assms(1) assms(2) have eq: "s1 = s'" "r1 = r" by auto
  show ?thesis using o eq assms(3) port_write_atomic [of batch expected s]
    by (fastforce simp: index_outcome_def split: if_splits prod.splits sum.splits)
qed

lemma index_batch_idle:
  assumes "\<And>f n. isfinite (el f n)" "index_batch port el batch expected (s, tr) = ((s', tr'), r)" "idle s"
  shows "idle s'"
proof -
  obtain s1 names r1 where o: "index_outcome port batch expected s = (s1, names, r1)" by (cases "index_outcome port batch expected s")
  with index_batch_outcome [where el = el and tr = tr, OF _ o] assms(1) assms(2) have eq: "s1 = s'" by auto
  show ?thesis using o eq assms(3) port_write_idle [of s batch expected]
    by (auto simp: index_outcome_def split: if_splits prod.splits sum.splits)
qed

lemma delete_resource_atomic:
  assumes "delete_resource port rid (s, tr) = ((s', tr'), Inl e)"
  shows "contents s' = contents s"
proof (cases "require_non_empty rid ''resource_id''")
  case (Inl x)
  then have "is_ValueError x" using require_non_empty_raises [of rid "''resource_id''"] by (simp add: raises_only_def)
  then show ?thesis using assms Inl by (simp add: delete_resource_def)
next
  case (Inr i)
  then show ?thesis using assms delete_atomic [of i s]
    by (auto simp: delete_resource_def svc_bind_def svc_try_def svc_port_def split: prod.splits sum.splits)
qed

end

section \<open>The store as a port\<close>

text \<open>\<open>SQLiteResourceStore\<close> where the core expects a \<open>ResourceCatalogWritePort\<close> with the publication capability.\<close>

definition sqlite_write_port :: "'v store \<Rightarrow> surroundings \<Rightarrow> 'v conn WritePort" where
  "sqlite_write_port st ev =
     \<lparr>wp_replace_resource = (\<lambda>b. replace_resource st ev (Typed b)),
      wp_delete_resource = (\<lambda>i. store_delete_resource st ev (PStr i)),
      wp_compare_and_publish = Some (\<lambda>b ex. op_bind (compare_and_publish st ev (Typed b) (Typed ex)) (\<lambda>r. op_return (Some r)))\<rparr>"

lemma call_of_replace: "run_call st ev (Replace b) c = (c', map_sum id (\<lambda>_. Done) r)" if "replace_resource st ev b c = (c', r)"
  using that by (cases r) simp_all

lemma call_of_publish:
  "run_call st ev (CompareAndPublish b ex) c = (c', map_sum id Published r)" if "compare_and_publish st ev b ex c = (c', r)"
  using that by (cases r) simp_all

lemma call_of_delete:
  "\<exists>x. run_call st ev (Delete obj) c = (c', map_sum id (\<lambda>_. x) r)" if "store_delete_resource st ev obj c = (c', r)"
  using that by (auto simp: store_delete_resource_def op_bind_def split: prod.splits sum.splits)

lemma calls_keep:
  assumes "run_call st ev call c = (c', r)" "case r of Inl e \<Rightarrow> True | Inr x \<Rightarrow> refused x"
  shows "committed c' = committed c"
  using assms safe_calls [of st ev call] refused_keeps [of st ev call c c'] by (auto simp: safe_def split: sum.splits)

lemma calls_close:
  assumes "run_call st ev call c = (c', r)" "\<not> in_transaction c"
  shows "\<not> in_transaction c'"
  using assms shuts_calls [of st ev call] by (auto simp: shuts_def in_transaction_def) (metis fst_conv option.distinct(1))

interpretation sqlite_port: atomic_write_port "sqlite_write_port st ev" committed "\<lambda>c. \<not> in_transaction c"
  for st :: "'v store" and ev
proof
  fix b i e f ex r and s s' :: "'v conn"
  show "committed s' = committed s" if "wp_replace_resource (sqlite_write_port st ev) b s = (s', Inl e)"
    using calls_keep [OF call_of_replace [of st ev "Typed b" s s' "Inl e"]] that by (simp add: sqlite_write_port_def)
  show "committed s' = committed s" if "wp_delete_resource (sqlite_write_port st ev) i s = (s', Inl e)"
    using call_of_delete [of st ev "PStr i" s s' "Inl e"] calls_keep that by (fastforce simp: sqlite_write_port_def)
  show "committed s' = committed s" if pub: "wp_compare_and_publish (sqlite_write_port st ev) = Some f" "f b ex s = (s', r)"
    "case r of Inr (Some x) \<Rightarrow> \<not> pr_applied x | _ \<Rightarrow> True"
  proof -
    obtain r' where r': "compare_and_publish st ev (Typed b) (Typed ex) s = (s', r')" "r = map_sum id Some r'"
      using pub(1,2) by (auto simp: sqlite_write_port_def op_bind_def split: prod.splits sum.splits)
    show ?thesis using calls_keep [OF call_of_publish [OF r'(1)]] pub(3) r'(2) by (cases r') (auto simp: refused_def)
  qed
  show "\<not> in_transaction (fst (wp_replace_resource (sqlite_write_port st ev) b s))" if "\<not> in_transaction s"
    using calls_close [OF call_of_replace, of st ev "Typed b" s] that
    by (cases "replace_resource st ev (Typed b) s") (simp add: sqlite_write_port_def)
  show "\<not> in_transaction (fst (wp_delete_resource (sqlite_write_port st ev) i s))" if "\<not> in_transaction s"
    using call_of_delete [of st ev "PStr i" s] calls_close [of st ev "Delete (PStr i)" s] that
    by (cases "store_delete_resource st ev (PStr i) s") (fastforce simp: sqlite_write_port_def)
  show "\<not> in_transaction (fst (f b ex s))" if "\<not> in_transaction s" "wp_compare_and_publish (sqlite_write_port st ev) = Some f"
  proof -
    obtain c r' where r': "compare_and_publish st ev (Typed b) (Typed ex) s = (c, r')" by fastforce
    then have "fst (f b ex s) = c" using that(2) by (cases r') (auto simp: sqlite_write_port_def)
    then show ?thesis using calls_close [OF call_of_publish [OF r'] that(1)] by simp
  qed
qed

text \<open>
  C38: indexing over the SQLite store is all or nothing. Whatever goes wrong (an invalid graph, a fault of the engine or
  of the injected backend, a verification that fails), when \<open>CoreIndexingService\<close> raises, or reports that a conditional
  publication was not applied, the committed catalog is exactly what it was, and the connection is left without an
  open transaction.
\<close>

theorem indexing_keeps_catalog:
  assumes "\<forall>f n. isfinite (el f n)" "\<not> in_transaction c"
    and "index_batch (sqlite_write_port st ev) el batch expected (c, tr) = ((c', tr'), r)"
  shows "\<not> in_transaction c' \<and> (case r of
      Inl e \<Rightarrow> committed c' = committed c
    | Inr None \<Rightarrow> expected \<noteq> None \<longrightarrow> committed c' = committed c
    | Inr (Some x) \<Rightarrow> \<not> pr_applied x \<longrightarrow> committed c' = committed c)"
proof (intro conjI)
  show "\<not> in_transaction c'" using sqlite_port.index_batch_idle [OF _ assms(3,2)] assms(1) by blast
  show "case r of Inl e \<Rightarrow> committed c' = committed c | Inr None \<Rightarrow> expected \<noteq> None \<longrightarrow> committed c' = committed c
      | Inr (Some x) \<Rightarrow> \<not> pr_applied x \<longrightarrow> committed c' = committed c"
    using sqlite_port.index_batch_atomic [OF _ assms(3)] assms(1) by (auto split: sum.splits option.splits)
qed

text \<open>A publication interrupted before its commit, through the service.\<close>

lemma interrupted_publication:
  "\<exists>c' e. compare_and_publish example_store interrupted (Typed example_batch) (Typed expect_absent) empty_conn = (c', Inl e)"
proof (rule ccontr)
  assume a: "\<not> ?thesis"
  obtain c' r where run: "compare_and_publish example_store interrupted (Typed example_batch) (Typed expect_absent) empty_conn = (c', r)"
    by fastforce
  with a obtain x where r: "r = Inr x" by (cases r) auto
  from run r obtain pp where pp: "preflight example_store interrupted (Typed example_batch) = Inr pp"
      "publish example_store interrupted pp (Some expect_absent) empty_conn = (c', Inr (Some x))"
    by (auto simp: compare_and_publish_def refuse_external_transaction_def op_eqs op_try_eq_Inr split: option.splits)
  have rid: "res_id (batch_resource (pp_batch pp)) = [114]"
    using pp(1) by (auto simp: preflight_def Let_def rbind_eq_Inr example_batch_def)
  from pp(2) show False
    by (cases rule: publish_cases)
      (auto simp: rid empty_conn_def example_states expect_absent_def publish_body_def Let_def op_eqs interrupted_def)
qed

theorem indexing_keeps_catalog_witness:
  "\<exists>c' tr' e. index_batch (sqlite_write_port example_store interrupted) (\<lambda>_ _. Fin 1) (Typed example_batch) (Some expect_absent)
     (empty_conn, []) = ((c', tr'), Inl e) \<and> committed c' = empty_db \<and> \<not> in_transaction c'"
proof -
  let ?port = "sqlite_write_port example_store interrupted"
  obtain c' e where e: "compare_and_publish example_store interrupted (Typed example_batch) (Typed expect_absent) empty_conn = (c', Inl e)"
    using interrupted_publication by blast
  then have "\<exists>names e. index_outcome ?port (Typed example_batch) (Some expect_absent) empty_conn = (c', names, Inl e)"
    by (simp add: index_outcome_def example_batch_ok port_write_def sqlite_write_port_def)
  then obtain tr' e where run: "index_batch ?port (\<lambda>_ _. Fin 1) (Typed example_batch) (Some expect_absent) (empty_conn, []) = ((c', tr'), Inl e)"
    using index_batch_outcome [of "\<lambda>_ _. Fin 1" ?port "Typed example_batch" "Some expect_absent" empty_conn] by fastforce
  have "\<not> in_transaction empty_conn" "committed empty_conn = empty_db" by (simp_all add: empty_conn_def in_transaction_def)
  with indexing_keeps_catalog [OF _ _ run] run show ?thesis by auto
qed

end
