(* ===== verification/Sqlite_Roundtrip.thy ===== *)
theory Sqlite_Roundtrip
  imports Sqlite_Contract Sqlite_Codecs
begin

text \<open>
  What was published is what is read: after a publication that was applied, the graph reader returns the batch, with its
  lists in the order of their keys. The proof goes table by table: a row decodes to the record it was written from,
  the verification of the counts shows that the resource has no other rows, and the rows of shared tables (embedding
  spaces and facets) are found by their unique keys.
\<close>

section \<open>Rows of a well-formed record\<close>

lemma mapping_again: "frozen_mapping m \<Longrightarrow> encode_mapping m f = Inr m" "frozen_mapping m \<Longrightarrow> decode_mapping m f = Inr m"
  using freeze_json_mapping_thaw [of m] by (simp_all add: encode_mapping_def decode_mapping_def del: of_json.simps to_plain_json.simps)

lemma locator_again:
  assumes "wf_Locator l"
  shows "locator_parts l f = Inr (loc_kind l, loc_payload l, locator_fingerprint (loc_payload l))"
    "decode_locator (loc_kind l) (loc_payload l) f = Inr l"
proof -
  have "wf_name (loc_kind l)" "frozen_mapping (loc_payload l)" using assms by (simp_all add: wf_Locator_def)
  then show "locator_parts l f = Inr (loc_kind l, loc_payload l, locator_fingerprint (loc_payload l))"
    "decode_locator (loc_kind l) (loc_payload l) f = Inr l"
    using new_Locator_again [OF assms] by (simp_all add: locator_parts_def decode_locator_def mapping_again name_again del: of_json.simps)
qed

lemma need_again: "wf_name s \<Longrightarrow> need s f = Inr ()" "pred_option wf_name x \<Longrightarrow> need_optional x f = Inr ()"
  by (simp_all add: need_def need_optional_def name_again opt_name_again)

lemma need_utf8_again: "pred_option utf8_encodable x \<Longrightarrow> need_utf8 x f = Inr ()"
  by (cases x) (simp_all add: need_utf8_def require_utf8_encodable_def)

lemma resource_row_again:
  assumes "wf_ResourceRecord r" "prepare_resource ev r = Inr row"
  shows "row_resource row = r" "resource_from_row row = Inr r"
proof -
  have wf: "wf_Locator (res_locator r)" "frozen_mapping (res_metadata r)" using assms(1) by (simp_all add: wf_ResourceRecord_def)
  have row: "row = \<lparr>row_resource = r, row_fingerprint = locator_fingerprint (loc_payload (res_locator r)), row_indexed_at = now ev 0\<rparr>"
    using assms(2) wf by (auto simp: prepare_resource_def locator_again mapping_again rbind_eq_Inr)
  then show "row_resource row = r" by simp
  show "resource_from_row row = Inr r"
    using assms(1) by (simp add: resource_from_row_def row Let_def locator_again(2) locator_again(1) wf mapping_again need_again need_utf8_again
        wf_ResourceRecord_def new_ResourceRecord_again [OF assms(1)] del: of_json.simps)
qed

lemma representation_row_again:
  assumes "wf_RepresentationRecord r"
  shows "prepare_representation r = Inr x \<Longrightarrow> x = r" "representation_from_row r = Inr r"
  using assms by (auto simp: prepare_representation_def representation_from_row_def rbind_eq_Inr wf_RepresentationRecord_def
      mapping_again new_RepresentationRecord_again [OF assms] simp del: of_json.simps)

lemma prepare_representations_again:
  assumes "prepare_representations rid mods rs = Inr (mods', rows)" "list_all wf_RepresentationRecord rs"
  shows "rows = rs \<and> list_all (\<lambda>r. rep_resource_id r = rid) rs"
  using assms
proof (induction rs arbitrary: mods mods' rows)
  case (Cons r rs)
  then show ?case by (fastforce simp: rbind_eq_Inr raise_if_def dest: representation_row_again(1) split: if_splits prod.splits)
qed simp

lemma unit_row_again:
  assumes "wf_SearchUnitRecord u"
  shows "prepare_unit rid mods seen u = Inr x \<Longrightarrow> x = u \<and> unit_resource_id u = rid" "graph_unit_from_row u = Inr u"
proof -
  have wf: "wf_Locator (unit_evidence_locator u)" "frozen_mapping (unit_metadata u)"
    "frozen_mapping (loc_payload (unit_evidence_locator u))" using assms by (simp_all add: wf_SearchUnitRecord_def wf_Locator_def)
  show "prepare_unit rid mods seen u = Inr x \<Longrightarrow> x = u \<and> unit_resource_id u = rid"
    by (auto simp: prepare_unit_def rbind_eq_Inr locator_again wf mapping_again raise_if_def split: if_splits)
  show "graph_unit_from_row u = Inr u"
    using new_Locator_again [OF wf(1)] new_SearchUnitRecord_again [OF assms]
    by (simp add: graph_unit_from_row_def mapping_again wf del: of_json.simps)
qed

lemma prepare_units_again:
  assumes "prepare_units rid mods seen us = Inr rows" "list_all wf_SearchUnitRecord us"
  shows "rows = us \<and> list_all (\<lambda>u. unit_resource_id u = rid) us"
  using assms
proof (induction us arbitrary: seen rows)
  case (Cons u us)
  then show ?case by (fastforce simp: rbind_eq_Inr dest: unit_row_again(1))
qed simp

lemma space_row_again: "wf_EmbeddingSpaceRecord s \<Longrightarrow> space_from_row s = Inr s"
  using new_EmbeddingSpaceRecord_again [of s]
  by (simp add: space_from_row_def wf_EmbeddingSpaceRecord_def mapping_again del: of_json.simps)

lemma prepare_spaces_again:
  assumes "prepare_spaces reg seen ss = Inr (table, rows)" "list_all wf_EmbeddingSpaceRecord ss"
  shows "rows = ss \<and> map fst table = map space_id ss \<and> map (snd \<circ> snd) table = ss \<and>
    list_all (\<lambda>(i, codec, s). codec_for_space reg s = Inr codec \<and> i = space_id s) table"
  using assms
proof (induction ss arbitrary: seen table rows)
  case (Cons s ss)
  then obtain codec row table' rows' where s: "prepare_space reg seen s = Inr (codec, row)"
    "prepare_spaces reg (s # seen) ss = Inr (table', rows')" "table = (space_id s, codec, s) # table'" "rows = row # rows'"
    by (auto simp: rbind_eq_Inr)
  have "row = s" "codec_for_space reg s = Inr codec"
    using s(1) Cons.prems(2) by (auto simp: prepare_space_def rbind_eq_Inr wf_EmbeddingSpaceRecord_def mapping_again)
  then show ?case using Cons.IH [OF s(2)] Cons.prems(2) s(3,4) by simp
qed simp

section \<open>Vectors\<close>

text \<open>An embedding row and the vector it was written from.\<close>

definition vector_row :: "codec_registry \<Rightarrow> EmbeddingSpaceRecord list \<Rightarrow> embedding_row \<Rightarrow> VectorRecord \<Rightarrow> bool" where
  "vector_row reg ss e v \<longleftrightarrow>
     emb_unit_id e = vec_unit_id v \<and> emb_space_id e = vec_space_id v \<and>
     (\<exists>sp \<in> set ss. \<exists>codec. space_id sp = vec_space_id v \<and> codec_for_space reg sp = Inr codec \<and>
        vc_encode codec (vec_vector v) (space_dimensions sp) = Inr (emb_payload e))"

lemma prepare_vectors_rows:
  assumes "prepare_vectors ev uids table seen vs = Inr rows"
    "list_all (\<lambda>(i, codec, s). codec_for_space reg s = Inr codec \<and> i = space_id s) table" "map (snd \<circ> snd) table = ss"
  shows "list_all2 (vector_row reg ss) rows vs \<and> (\<forall>v \<in> set vs. vec_unit_id v \<in> set uids)"
  using assms(1)
proof (induction vs arbitrary: seen rows)
  case (Cons v vs)
  from Cons.prems obtain row rows' where v: "prepare_vector ev uids table seen v = Inr row"
    "prepare_vectors ev uids table (v # seen) vs = Inr rows'" "rows = row # rows'" by (auto simp: rbind_eq_Inr)
  from v(1) obtain codec sp where sp: "map_of table (vec_space_id v) = Some (codec, sp)" "vec_unit_id v \<in> set uids"
    "vc_encode codec (vec_vector v) (space_dimensions sp) = Inr (emb_payload row)"
    "emb_unit_id row = vec_unit_id v" "emb_space_id row = vec_space_id v"
    by (auto simp: prepare_vector_def rbind_eq_Inr raise_if_def split: option.splits if_splits)
  from map_of_SomeD [OF sp(1)] assms(2) have "codec_for_space reg sp = Inr codec" "space_id sp = vec_space_id v"
    by (auto simp: list_all_iff)
  moreover have "sp \<in> set ss" using map_of_SomeD [OF sp(1)] assms(3) by force
  ultimately show ?case using Cons.IH [OF v(2)] sp v(3) by (auto simp: vector_row_def)
qed simp

lemma decode_vector_row:
  assumes "vector_row reg ss e v" "codecs_lossless reg" "wf_VectorRecord v" "list_all is_double (vec_vector v)"
    "\<And>sp. sp \<in> set ss \<Longrightarrow> wf_EmbeddingSpaceRecord sp \<and> select_space (space_id sp) d = Some sp"
  shows "decode_embedding reg d e = Inr (Some v)"
proof -
  obtain sp codec where sp: "sp \<in> set ss" "space_id sp = vec_space_id v" "codec_for_space reg sp = Inr codec"
    "vc_encode codec (vec_vector v) (space_dimensions sp) = Inr (emb_payload e)"
    and e: "emb_unit_id e = vec_unit_id v" "emb_space_id e = vec_space_id v"
    using assms(1) by (auto simp: vector_row_def)
  from sp(3) obtain cid where cid: "codec_id_from_metadata (space_metadata sp) = Inr cid" "registry_get reg cid = Inr codec"
    by (auto simp: codec_for_space_def rbind_eq_Inr)
  have "vc_decode codec (emb_payload e) (space_dimensions sp) = Inr (vec_vector v)"
    by (rule registry_lossless [OF assms(2) cid(2) assms(4) sp(4)])
  then have "decode_vector_payload reg (emb_payload e) (space_dimensions sp) (space_metadata sp) = Inr (vec_vector v)"
    by (simp add: decode_vector_payload_def cid)
  moreover have "frozen_mapping (space_metadata sp)" "select_space (emb_space_id e) d = Some sp"
    using assms(5) [OF sp(1)] by (simp_all add: wf_EmbeddingSpaceRecord_def sp(2) e(2))
  ultimately show ?thesis using new_VectorRecord_again [OF assms(3)] by (simp add: decode_embedding_def mapping_again e)
qed

section \<open>Facets\<close>

lemma prepare_facets_rows:
  "prepare_facets rid seen fs = Inr rows \<Longrightarrow> rows = map facet_row_of fs \<and> list_all (\<lambda>f. rf_resource_id f = rid) fs"
proof (induction fs arbitrary: seen rows)
  case (Cons f fs)
  then show ?case by (fastforce simp: prepare_facet_def rbind_eq_Inr raise_if_def split: if_splits)
qed simp

text \<open>A joined row and the values it was written from.\<close>

definition facet_join_values :: "facet_row \<times> assignment_row \<Rightarrow> facet_values" where
  "facet_join_values row = (case row of (f, a) \<Rightarrow>
     (fr_namespace f, fr_value f, as_origin a, as_producer_is_null a, as_producer_value a, as_confidence a))"

lemma facet_order_values: "facet_order row = facet_row_key (facet_join_values row)"
  by (simp add: facet_order_def facet_join_values_def facet_row_key_def split: prod.split)

lemma facet_from_join:
  assumes "facet_join_values row = facet_row_of rf" "wf_ResourceFacet rf"
  shows "facet_from_row (rf_resource_id rf) row = Inr rf"
proof -
  obtain f a where row: "row = (f, a)" by (cases row)
  have eq: "fr_namespace f = facet_namespace (rf_facet rf)" "fr_value f = facet_value (rf_facet rf)" "as_origin a = rf_origin rf"
    "as_confidence a = rf_confidence rf"
    "(if as_producer_is_null a = 1 then PNone else PStr (as_producer_value a)) = opt_str (rf_producer_fingerprint rf)"
    using assms(1) by (cases "rf_producer_fingerprint rf"; simp add: facet_join_values_def facet_row_of_def row)+
  have "new_Facet (PStr (fr_namespace f)) (PStr (fr_value f)) = Inr (rf_facet rf)"
    using assms(2) by (simp add: new_Facet_def eq wf_ResourceFacet_def wf_Facet_def name_again)
  then show ?thesis using new_ResourceFacet_again [OF assms(2)] by (simp add: facet_from_row_def row eq)
qed

lemma add_facets_superset: "set fs \<subseteq> set (add_facets fs fvs)"
proof (induction fs fvs rule: add_facets.induct)
  case (2 fs ns v xs fvs)
  have "set fs \<subseteq> set (add_facet fs ns v)" by (auto simp: add_facet_def)
  with 2 show ?case by simp
qed simp

lemma find_add_facet: "\<exists>f. find (\<lambda>f. fr_namespace f = ns \<and> fr_value f = v) (add_facet fs ns v) = Some f \<and>
    f \<in> set (add_facet fs ns v) \<and> fr_namespace f = ns \<and> fr_value f = v"
proof -
  have "find (\<lambda>f. fr_namespace f = ns \<and> fr_value f = v) (add_facet fs ns v) \<noteq> None"
    by (simp add: add_facet_def find_None_iff) (metis facet_row.select_convs(2,3))
  then obtain f where "find (\<lambda>f. fr_namespace f = ns \<and> fr_value f = v) (add_facet fs ns v) = Some f" by blast
  then show ?thesis using find_SomeD by fastforce
qed

text \<open>Every assignment refers to a facet of the table, in the order of the values.\<close>

lemma assignments_rows:
  "list_all2 (\<lambda>a fv. as_resource_id a = rid \<and>
      (\<exists>f \<in> set (add_facets fs fvs). fr_facet_id f = as_facet_id a \<and> facet_join_values (f, a) = fv))
    (add_assignments rid fs fvs) fvs"
proof (induction fvs arbitrary: fs)
  case (Cons fv fvs)
  obtain ns v origin is_null producer confidence where fv: "fv = (ns, v, origin, is_null, producer, confidence)" by (cases fv)
  obtain f where f: "find (\<lambda>f. fr_namespace f = ns \<and> fr_value f = v) (add_facet fs ns v) = Some f"
    "f \<in> set (add_facet fs ns v)" "fr_namespace f = ns" "fr_value f = v" using find_add_facet by blast
  have "f \<in> set (add_facets (add_facet fs ns v) fvs)" using f(2) add_facets_superset by blast
  then show ?case using Cons.IH [of "add_facet fs ns v"] f
    by (auto simp: fv Let_def opt_list_def facet_join_values_def)
qed simp

lemma next_facet_id_new: "next_facet_id fs \<notin> fr_facet_id ` set fs"
proof (cases "fs = []")
  case False
  then have "\<forall>i \<in> fr_facet_id ` set fs. i \<le> Max (fr_facet_id ` set fs)" by simp
  then have "i < next_facet_id fs" if "i \<in> fr_facet_id ` set fs" for i using that False by (fastforce simp: next_facet_id_def)
  then show ?thesis by blast
qed simp

lemma add_facets_distinct: "distinct (map fr_facet_id fs) \<Longrightarrow> distinct (map fr_facet_id (add_facets fs fvs))"
proof (induction fs fvs rule: add_facets.induct)
  case (2 fs ns v xs fvs)
  then show ?case using next_facet_id_new [of fs] by (simp add: add_facet_def)
qed simp

lemma join_facets_rows:
  assumes "distinct (map fr_facet_id (t_facets d))"
    "list_all2 (\<lambda>a fv. \<exists>f \<in> set (t_facets d). fr_facet_id f = as_facet_id a \<and> facet_join_values (f, a) = fv)
      (assignments_of rid d) fvs"
  shows "list_all2 (\<lambda>row fv. facet_join_values row = fv) (join_facets rid d) fvs"
proof -
  have one: "filter (\<lambda>f. fr_facet_id f = fr_facet_id g) fs = [g]" if "distinct (map fr_facet_id fs)" "g \<in> set fs" for g fs
    using that by (induction fs) (auto simp: filter_empty_conv image_iff)
  have "list_all2 (\<lambda>row fv. facet_join_values row = fv)
      (concat (map (\<lambda>a. map (\<lambda>f. (f, a)) (filter (\<lambda>f. fr_facet_id f = as_facet_id a) (t_facets d))) as)) fvs"
    if "list_all2 (\<lambda>a fv. \<exists>f \<in> set (t_facets d). fr_facet_id f = as_facet_id a \<and> facet_join_values (f, a) = fv) as fvs" for "as"
    using that by (induction "as" fvs rule: list_all2_induct) (auto simp: one [OF assms(1)] dest!: sym [of "fr_facet_id _"])
  from this [OF assms(2)] show ?thesis by (simp add: join_facets_def)
qed

section \<open>Lists in the order of their keys\<close>

lemma list_all2_sort_key:
  assumes "list_all2 R xs ys" "\<And>x y. R x y \<Longrightarrow> k x = l y"
  shows "list_all2 R (sort_key k xs) (sort_key l ys)"
  using assms(1)
proof (induction xs ys rule: list_all2_induct)
  case (Cons x xs y ys)
  have "list_all2 R (insort_key k x as) (insort_key l y bs)" if "list_all2 R as bs" for "as" bs
    using that Cons.hyps(1) by (induction "as" bs rule: list_all2_induct) (auto simp: assms(2))
  then show ?case using Cons.IH by simp
qed simp

lemma rmap_all2: "list_all2 (\<lambda>x y. f x = Inr y) xs ys \<Longrightarrow> rmap f xs = Inr ys"
  by (induction xs ys rule: list_all2_induct) auto

lemma rmap_id: "list_all (\<lambda>x. f x = Inr x) xs \<Longrightarrow> rmap f xs = Inr xs"
  by (induction xs) auto

lemma sort_key_same_set:
  assumes "distinct (map k xs)" "distinct (map k ys)" "set xs = set ys"
  shows "sort_key k xs = sort_key k ys"
proof (rule sort_key_inj_key_eq)
  show "mset xs = mset (sort_key k ys)" using assms by (simp add: distinct_map set_eq_iff_mset_eq_distinct)
qed (use assms(1) in \<open>simp_all add: distinct_map\<close>)

lemma list_all2_mono':
  assumes "list_all2 P xs ys" "\<And>x y. x \<in> set xs \<Longrightarrow> y \<in> set ys \<Longrightarrow> P x y \<Longrightarrow> Q x y"
  shows "list_all2 Q xs ys"
  using assms by (auto simp: list_all2_conv_all_nth)

section \<open>Spaces\<close>

lemma add_spaces_distinct: "distinct (map space_id old) \<Longrightarrow> distinct (map space_id (add_spaces old ss))"
  by (induction old ss rule: add_spaces.induct) auto

lemma add_spaces_sets: "set old \<subseteq> set (add_spaces old ss)" "set (add_spaces old ss) \<subseteq> set old \<union> set ss"
  by (induction old ss rule: add_spaces.induct) auto

lemma add_spaces_new:
  "distinct (map space_id ss) \<Longrightarrow> s \<in> set ss \<Longrightarrow> (\<forall>x \<in> set old. space_id x = space_id s \<longrightarrow> x = s) \<Longrightarrow> s \<in> set (add_spaces old ss)"
proof (induction old ss rule: add_spaces.induct)
  case (2 old x ss)
  let ?new = "if space_id x \<in> set (map space_id old) then old else old @ [x]"
  show ?case
  proof (cases "s = x")
    case True
    then have "s \<in> set ?new" using "2.prems"(3) by auto
    then have "s \<in> set (add_spaces ?new ss)" using add_spaces_sets(1) by blast
    then show ?thesis by simp
  next
    case False
    then have "s \<in> set ss" using "2.prems"(2) by simp
    moreover from this have "space_id s \<noteq> space_id x" using "2.prems"(1) by (auto simp: image_iff)
    moreover have "\<forall>y \<in> set ?new. space_id y = space_id s \<longrightarrow> y = s" using "2.prems"(3) calculation by auto
    ultimately show ?thesis using "2.IH" "2.prems"(1) by simp
  qed
qed simp

lemma find_space: "distinct (map space_id xs) \<Longrightarrow> s \<in> set xs \<Longrightarrow> find (\<lambda>x. space_id x = space_id s) xs = Some s"
  by (induction xs) auto

section \<open>Reading the graph back\<close>

text \<open>The batch as the reader returns it: its lists in the order of their keys, and the spaces that have vectors.\<close>

definition stored :: "PreparedResourceBatch \<Rightarrow> PreparedResourceBatch" where
  "stored b = b\<lparr>
     batch_representations := sort_key rep_id (batch_representations b),
     batch_units := sort_key (\<lambda>u. (unit_representation_id u, unit_ordinal u, unit_id u)) (batch_units b),
     batch_spaces := sort_key space_id (filter (\<lambda>s. space_id s \<in> set (map vec_space_id (batch_vectors b))) (batch_spaces b)),
     batch_vectors := sort_key (\<lambda>v. (vec_unit_id v, vec_space_id v)) (batch_vectors b),
     batch_facets := sort_key (\<lambda>f. facet_row_key (facet_row_of f)) (batch_facets b)\<rparr>"

text \<open>The unique keys of the shared tables.\<close>

definition keys_ok :: "'v db \<Rightarrow> bool" where
  "keys_ok d \<longleftrightarrow> distinct (map space_id (t_spaces d)) \<and> distinct (map fr_facet_id (t_facets d))"

text \<open>What a preflight of a well-formed batch prepares.\<close>

lemma preflight_again:
  assumes "preflight st ev (Typed b) = Inr pp" "wf_PreparedResourceBatch b"
  shows "pp_batch pp = b" "row_resource (pp_resource pp) = batch_resource b" "resource_from_row (pp_resource pp) = Inr (batch_resource b)"
    "pp_representations pp = batch_representations b" "pp_units pp = batch_units b" "pp_spaces pp = batch_spaces b"
    "list_all2 (vector_row (codecs st) (batch_spaces b)) (pp_vectors pp) (batch_vectors b)"
    "pp_facets pp = map facet_row_of (batch_facets b)" "pp_fts pp = text_rows (batch_units b)" "graph_ok b"
proof -
  note wf = assms(2) [unfolded wf_PreparedResourceBatch_def]
  from assms(1) obtain resource mods representations units table spaces vectors facets where
    p: "validate_prepared_batch (Typed b) = Inr ()" "prepare_resource ev (batch_resource b) = Inr resource"
    "prepare_representations (res_id (batch_resource b)) [] (batch_representations b) = Inr (mods, representations)"
    "prepare_units (res_id (batch_resource b)) mods [] (batch_units b) = Inr units"
    "prepare_spaces (codecs st) [] (batch_spaces b) = Inr (table, spaces)"
    "prepare_vectors ev (map unit_id (batch_units b)) table [] (batch_vectors b) = Inr vectors"
    "prepare_facets (res_id (batch_resource b)) [] (batch_facets b) = Inr facets"
    "pp = \<lparr>pp_batch = b, pp_resource = resource, pp_representations = representations, pp_units = units,
        pp_spaces = spaces, pp_vectors = vectors, pp_facets = facets, pp_fts = text_rows (batch_units b),
        pp_source_key = row_source_key resource\<rparr>"
    by (auto simp: preflight_def Let_def rbind_eq_Inr)
  note r = resource_row_again [OF _ p(2)] prepare_representations_again [OF p(3)] prepare_units_again [OF p(4)]
    prepare_spaces_again [OF p(5)] prepare_facets_rows [OF p(7)]
  show "pp_batch pp = b" "row_resource (pp_resource pp) = batch_resource b" "resource_from_row (pp_resource pp) = Inr (batch_resource b)"
    "pp_representations pp = batch_representations b" "pp_units pp = batch_units b" "pp_spaces pp = batch_spaces b"
    "pp_facets pp = map facet_row_of (batch_facets b)" "pp_fts pp = text_rows (batch_units b)"
    using r wf p(8) by simp_all
  show "list_all2 (vector_row (codecs st) (batch_spaces b)) (pp_vectors pp) (batch_vectors b)"
    using prepare_vectors_rows [OF p(6)] r(5) wf p(8) by simp
  show "graph_ok b" using accepted_iff_graph [OF assms(2)] p(1) by blast
qed

text \<open>The verification at the end of a write, and the check of the spaces at its start.\<close>

lemma write_graph_checked:
  assumes "write_graph st ev pp c = (c', Inr u)"
  shows "verify_db (codecs st) (pp_batch pp) (current c') = Inr ()" "\<forall>s \<in> set (pp_spaces pp). \<not> space_conflict s (current c)"
proof -
  obtain c1 where s: "check_source_identity ev pp c = (c1, Inr ())" "\<exists>c2. check_spaces ev pp c1 = (c2, Inr ())"
    using assms by (auto simp: write_graph_def Let_def or_rollback_eq_Inr op_bind_eq_Inr)
  have "c1 = c" using s(1) by (auto simp: check_source_identity_def Let_def op_eqs op_query_eq_Inr)
  have "\<forall>s \<in> set ss. \<not> space_conflict s (current c)"
    if "op_for ss (\<lambda>sp. op_bind (op_query ev l (space_conflict sp)) (\<lambda>b. op_lift (raise_if b e))) c = (c2, Inr ())" for ss l e c2
    using that by (induction ss) (auto simp: op_eqs op_query_eq_Inr raise_if_def split: if_splits)
  then show "\<forall>s \<in> set (pp_spaces pp). \<not> space_conflict s (current c)"
    using s(2) unfolding \<open>c1 = c\<close> check_spaces_def by blast
  obtain c2 where "(op_bind (op_bind (op_query ev ''SELECT verify'' (verify_db (codecs st) (pp_batch pp))) op_lift) (\<lambda>_.
      verify_backend st ev)) c2 = (c', Inr u)"
    using assms by (auto simp: write_graph_def Let_def or_rollback_eq_Inr op_bind_eq_Inr [of _ "\<lambda>_. op_bind _ _"])
  then show "verify_db (codecs st) (pp_batch pp) (current c') = Inr ()"
    by (auto simp: op_eqs op_query_eq_Inr verify_backend_def)
qed

text \<open>The database \<open>d'\<close> holds the batch, written into \<open>d\<close> and verified.\<close>

definition written :: "'v store \<Rightarrow> PreparedResourceBatch \<Rightarrow> 'v db \<Rightarrow> 'v db \<Rightarrow> bool" where
  "written st b d d' \<longleftrightarrow>
     (\<exists>ev pp v. preflight st ev (Typed b) = Inr pp \<and> d' = (with_graph pp d)\<lparr>t_backend := v\<rparr> \<and>
        verify_db (codecs st) b d' = Inr ()) \<and>
     wf_PreparedResourceBatch b \<and> keys_ok d \<and> (\<forall>s \<in> set (batch_spaces b). \<not> space_conflict s d)"

lemma counted_suffix: "length (filter P (xs @ ys)) = length zs \<Longrightarrow> list_all P ys \<Longrightarrow> length ys = length zs \<Longrightarrow> filter P (xs @ ys) = ys"
  by (simp add: list_all_iff)

lemma find_after_filter: "P r \<Longrightarrow> find P (filter (\<lambda>x. \<not> P x) xs @ [r]) = Some r"
  by (induction xs) auto

lemma written_graph:
  assumes "written st b d d'" "rid = res_id (batch_resource b)"
  shows "\<exists>row. select_resource rid d' = Some row \<and> resource_from_row row = Inr (batch_resource b)"
    "filter (\<lambda>p. rep_resource_id p = rid) (t_representations d') = batch_representations b"
    "filter (\<lambda>u. unit_resource_id u = rid) (t_units d') = batch_units b"
    "list_all2 (vector_row (codecs st) (batch_spaces b)) (embeddings_of rid d') (batch_vectors b)"
    "\<exists>fs. rmap validate_facet_row (assignments_of rid d') = Inr fs"
proof -
  obtain ev pp v where pre: "preflight st ev (Typed b) = Inr pp" and d': "d' = (with_graph pp d)\<lparr>t_backend := v\<rparr>"
    and ver: "verify_db (codecs st) b d' = Inr ()" using assms(1) by (auto simp: written_def)
  note p = preflight_again [OF pre] and wf = assms(1) [unfolded written_def, THEN conjunct2, THEN conjunct1]
  have g: "graph_ok b" using p(10) wf by blast
  have counts: "graph_counts rid d' = (length (batch_representations b), length (batch_units b), length (batch_vectors b), length (batch_facets b))"
    using ver by (auto simp: verify_db_def Let_def rbind_eq_Inr raise_if_def assms(2) split: if_splits)
  have t: "t_resources d' = filter (\<lambda>r. row_id r \<noteq> rid) (t_resources d) @ [pp_resource pp]"
    "t_representations d' = filter (\<lambda>r. rep_resource_id r \<noteq> rid) (t_representations d) @ batch_representations b"
    "\<exists>us. t_units d' = us @ batch_units b" "\<exists>es. t_embeddings d' = es @ pp_vectors pp"
    using p wf by (auto simp: d' with_graph_def without_def Let_def assms(2))
  have "select_resource rid d' = Some (pp_resource pp)"
    using p(2) wf find_after_filter [of "\<lambda>r. row_id r = rid" "pp_resource pp"] by (simp add: select_resource_def t(1) assms(2))
  then show "\<exists>row. select_resource rid d' = Some row \<and> resource_from_row row = Inr (batch_resource b)" using p wf by blast
  show "filter (\<lambda>p. rep_resource_id p = rid) (t_representations d') = batch_representations b"
    using g by (auto simp: t(2) graph_ok_def Let_def assms(2) filter_empty_conv)
  show units: "filter (\<lambda>u. unit_resource_id u = rid) (t_units d') = batch_units b"
    using t(3) counts g counted_suffix [of "\<lambda>u. unit_resource_id u = rid" _ "batch_units b" "batch_units b"]
    by (auto simp: graph_counts_def graph_ok_def Let_def assms(2) list_all_iff)
  have "list_all (\<lambda>e. emb_unit_id e \<in> set (unit_ids_of rid d')) (pp_vectors pp)"
  proof -
    have "vec_unit_id x \<in> set (map unit_id (batch_units b))" if "x \<in> set (batch_vectors b)" for x
      using g that by (force simp: graph_ok_def Let_def)
    with p(7) [OF wf] show ?thesis
      by (auto simp: unit_ids_of_def units list_all_length list_all2_conv_all_nth vector_row_def)
  qed
  then have "embeddings_of rid d' = pp_vectors pp"
    using t(4) counts p(7) [OF wf, THEN list_all2_lengthD]
      counted_suffix [of "\<lambda>e. emb_unit_id e \<in> set (unit_ids_of rid d')" _ "pp_vectors pp" "batch_vectors b"]
    by (auto simp: graph_counts_def embeddings_of_def)
  then show "list_all2 (vector_row (codecs st) (batch_spaces b)) (embeddings_of rid d') (batch_vectors b)" using p(7) wf by simp
  show "\<exists>fs. rmap validate_facet_row (assignments_of rid d') = Inr fs"
    using ver by (auto simp: verify_db_def Let_def rbind_eq_Inr assms(2))
qed

lemma written_ok: "written st b d d' \<Longrightarrow> graph_ok b"
  using preflight_again(10) by (auto simp: written_def)

lemma written_spaces:
  assumes "written st b d d'"
  shows "distinct (map space_id (t_spaces d'))" "set (batch_spaces b) \<subseteq> set (t_spaces d')"
proof -
  obtain ev pp v where pre: "preflight st ev (Typed b) = Inr pp" and d': "d' = (with_graph pp d)\<lparr>t_backend := v\<rparr>"
    and wf: "wf_PreparedResourceBatch b" and keys: "keys_ok d" and spaces: "\<forall>s \<in> set (batch_spaces b). \<not> space_conflict s d"
    using assms by (auto simp: written_def)
  have t: "t_spaces d' = add_spaces (t_spaces d) (batch_spaces b)"
    using preflight_again(6) [OF pre wf] by (simp add: d' with_graph_def Let_def)
  show "distinct (map space_id (t_spaces d'))" using keys add_spaces_distinct by (simp add: t keys_ok_def)
  have "distinct (map space_id (batch_spaces b))" using preflight_again(10) [OF pre wf] by (simp add: graph_ok_def Let_def)
  moreover have "x = s" if "s \<in> set (batch_spaces b)" "x \<in> set (t_spaces d)" "space_id x = space_id s" for s x
    using spaces that keys find_space [of "t_spaces d" x] by (auto simp: keys_ok_def space_conflict_def select_space_def)
  ultimately show "set (batch_spaces b) \<subseteq> set (t_spaces d')" using add_spaces_new unfolding t by blast
qed

lemma written_facets:
  assumes "written st b d d'"
  shows "list_all2 (\<lambda>row fv. facet_join_values row = fv) (join_facets (res_id (batch_resource b)) d') (map facet_row_of (batch_facets b))"
proof -
  let ?rid = "res_id (batch_resource b)"
  obtain ev pp v where pre: "preflight st ev (Typed b) = Inr pp" and d': "d' = (with_graph pp d)\<lparr>t_backend := v\<rparr>"
    and wf: "wf_PreparedResourceBatch b" and keys: "keys_ok d"
    using assms by (auto simp: written_def)
  note p = preflight_again [OF pre wf]
  let ?as = "add_assignments ?rid (t_facets d) (map facet_row_of (batch_facets b))"
  let ?fs = "add_facets (t_facets d) (map facet_row_of (batch_facets b))"
  note rows = assignments_rows [of ?rid "t_facets d" "map facet_row_of (batch_facets b)"]
  have ids: "\<forall>a \<in> set ?as. as_resource_id a = ?rid"
    using rows by (auto simp: list_all2_conv_all_nth in_set_conv_nth)
  have as: "t_assignments d' = filter (\<lambda>a. as_resource_id a \<noteq> ?rid) (t_assignments d) @ ?as"
    and fs: "t_facets d' = filter (\<lambda>f. fr_facet_id f \<in> set (map as_facet_id (t_assignments d'))) ?fs"
    using p(1,8) by (simp_all add: d' with_graph_def without_def Let_def image_Un)
  have "filter (\<lambda>a. as_resource_id a = ?rid) ?as = ?as" using ids by (simp add: filter_id_conv)
  then have t: "assignments_of ?rid d' = ?as" "set ?as \<subseteq> set (t_assignments d')"
    by (simp_all add: assignments_of_def as)
  have "distinct (map fr_facet_id (t_facets d'))"
    using keys add_facets_distinct unfolding fs by (auto simp: keys_ok_def intro: distinct_map_filter)
  moreover have "list_all2 (\<lambda>a fv. \<exists>f \<in> set (t_facets d'). fr_facet_id f = as_facet_id a \<and> facet_join_values (f, a) = fv)
      (assignments_of ?rid d') (map facet_row_of (batch_facets b))"
    unfolding t(1)
  proof (rule list_all2_mono' [OF rows])
    fix a fv
    assume a: "a \<in> set ?as" "as_resource_id a = ?rid \<and> (\<exists>f \<in> set ?fs. fr_facet_id f = as_facet_id a \<and> facet_join_values (f, a) = fv)"
    then obtain f where "f \<in> set ?fs" "fr_facet_id f = as_facet_id a" "facet_join_values (f, a) = fv" by blast
    moreover have "fr_facet_id f \<in> set (map as_facet_id (t_assignments d'))" using t(2) a(1) calculation(2) by force
    ultimately show "\<exists>f \<in> set (t_facets d'). fr_facet_id f = as_facet_id a \<and> facet_join_values (f, a) = fv" unfolding fs by auto
  qed
  ultimately show ?thesis by (rule join_facets_rows)
qed

text \<open>The floats of the vectors are binary64 values, as those of every Python program are.\<close>

definition doubles :: "PreparedResourceBatch \<Rightarrow> bool" where
  "doubles b \<longleftrightarrow> list_all (\<lambda>v. list_all is_double (vec_vector v)) (batch_vectors b)"

lemma written_spaces_of:
  assumes "written st b d d'" "rid = res_id (batch_resource b)"
  shows "sort_key space_id (spaces_of rid d') =
    sort_key space_id (filter (\<lambda>s. space_id s \<in> set (map vec_space_id (batch_vectors b))) (batch_spaces b))"
proof -
  have wf: "graph_ok b" using assms(1) preflight_again(10) by (auto simp: written_def)
  have used: "emb_space_id ` set (embeddings_of rid d') = vec_space_id ` set (batch_vectors b)"
    using written_graph(4) [OF assms] by (induction rule: list_all2_induct) (auto simp: vector_row_def)
  note sp = written_spaces [OF assms(1)]
  have "s \<in> set (batch_spaces b)" if s: "s \<in> set (t_spaces d')" "space_id s \<in> vec_space_id ` set (batch_vectors b)" for s
  proof -
    obtain x where x: "x \<in> set (batch_spaces b)" "space_id x = space_id s" using wf s(2) by (fastforce simp: graph_ok_def Let_def)
    then have "x = s" using sp s(1) by (auto simp: distinct_map inj_on_def)
    then show ?thesis using x by simp
  qed
  then show ?thesis using sp wf
    by (intro sort_key_same_set) (auto simp: spaces_of_def used distinct_map_filter graph_ok_def Let_def)
qed

lemma read_back:
  assumes w: "written st b d d'" and codecs: "codecs_lossless (codecs st)" and doubles: "doubles b"
  shows "read_graph_db (codecs st) (res_id (batch_resource b)) d' = Inr (Some (stored b))"
proof -
  let ?rid = "res_id (batch_resource b)"
  note g = written_graph [OF w refl] and wf = w [unfolded written_def wf_PreparedResourceBatch_def, THEN conjunct2, THEN conjunct1]
  have owned: "list_all (\<lambda>f. rf_resource_id f = ?rid) (batch_facets b)"
    using written_ok [OF w] by (simp add: graph_ok_def Let_def list_all_iff)
  have name: "wf_name ?rid" using wf by (simp add: wf_ResourceRecord_def)
  have res: "read_resource_db ?rid d' = Inr (Some (batch_resource b))"
    using g(1,5) by (auto simp: read_resource_db_def)
  have reps: "rmap representation_from_row (sort_key rep_id (batch_representations b)) = Inr (sort_key rep_id (batch_representations b))"
    using wf by (intro rmap_id) (auto simp: list_all_iff representation_row_again(2))
  have units: "rmap graph_unit_from_row (sort_key (\<lambda>u. (unit_representation_id u, unit_ordinal u, unit_id u)) (batch_units b)) =
      Inr (sort_key (\<lambda>u. (unit_representation_id u, unit_ordinal u, unit_id u)) (batch_units b))"
    using wf by (intro rmap_id) (auto simp: list_all_iff unit_row_again(2))
  have spaces: "rmap space_from_row (sort_key space_id (spaces_of ?rid d')) = Inr (batch_spaces (stored b))"
    unfolding written_spaces_of [OF w refl] using wf by (simp add: stored_def) (intro rmap_id, auto simp: list_all_iff space_row_again)
  have select: "wf_EmbeddingSpaceRecord sp \<and> select_space (space_id sp) d' = Some sp" if "sp \<in> set (batch_spaces b)" for sp
    using written_spaces [OF w] find_space [of "t_spaces d'" sp] that wf by (auto simp: select_space_def list_all_iff)
  have "list_all2 (\<lambda>e v. decode_embedding (codecs st) d' e = Inr (Some v) \<and> (emb_unit_id e, emb_space_id e) = (vec_unit_id v, vec_space_id v))
      (embeddings_of ?rid d') (batch_vectors b)"
  proof (rule list_all2_mono' [OF g(4)])
    fix e v
    assume v: "v \<in> set (batch_vectors b)" and row: "vector_row (codecs st) (batch_spaces b) e v"
    have "wf_VectorRecord v" "list_all is_double (vec_vector v)" using v wf doubles by (simp_all add: list_all_iff doubles_def)
    from decode_vector_row [OF row codecs this select] row
    show "decode_embedding (codecs st) d' e = Inr (Some v) \<and> (emb_unit_id e, emb_space_id e) = (vec_unit_id v, vec_space_id v)"
      by (simp add: vector_row_def)
  qed
  then have "list_all2 (\<lambda>e v. decode_embedding (codecs st) d' e = Inr (Some v))
      (sort_key (\<lambda>e. (emb_unit_id e, emb_space_id e)) (embeddings_of ?rid d')) (batch_vectors (stored b))"
    by (simp add: stored_def) (rule list_all2_mono, erule list_all2_sort_key, simp_all)
  then have "rmap (decode_embedding (codecs st) d') (sort_key (\<lambda>e. (emb_unit_id e, emb_space_id e)) (embeddings_of ?rid d')) =
      Inr (map Some (batch_vectors (stored b)))"
    by (intro rmap_all2) (simp add: list_all2_map2)
  then have vectors: "graph_vectors (codecs st) ?rid d' = Inr (batch_vectors (stored b))"
    by (simp add: graph_vectors_def opt_list_def concat_map_singleton comp_def)
  have "list_all2 (\<lambda>row f. facet_join_values row = facet_row_of f \<and> wf_ResourceFacet f \<and> rf_resource_id f = ?rid)
      (join_facets ?rid d') (batch_facets b)"
    using written_facets [OF w] wf owned by (auto simp: list_all2_conv_all_nth list_all_length)
  then have "list_all2 (\<lambda>row f. facet_from_row ?rid row = Inr f) (sort_key facet_order (join_facets ?rid d')) (batch_facets (stored b))"
    by (simp add: stored_def) (rule list_all2_mono, erule list_all2_sort_key, auto simp: facet_order_values dest: facet_from_join)
  then have facets: "rmap (facet_from_row ?rid) (sort_key facet_order (join_facets ?rid d')) = Inr (batch_facets (stored b))"
    by (rule rmap_all2)
  show ?thesis
    unfolding read_graph_db_def
    using name res reps units spaces vectors facets g(2,3) new_PreparedResourceBatch_again
    by (simp add: name_again stored_def)
qed

lemma read_graph_states: "read_graph_db reg rid (d\<lparr>t_states := ss\<rparr>) = read_graph_db reg rid d"
proof -
  have sel: "select_resource rid (d\<lparr>t_states := ss\<rparr>) = select_resource rid d" "assignments_of rid (d\<lparr>t_states := ss\<rparr>) = assignments_of rid d"
    "unit_ids_of rid (d\<lparr>t_states := ss\<rparr>) = unit_ids_of rid d" "select_space i (d\<lparr>t_states := ss\<rparr>) = select_space i d" for i
    by (simp_all add: select_resource_def assignments_of_def unit_ids_of_def select_space_def)
  then have emb: "embeddings_of rid (d\<lparr>t_states := ss\<rparr>) = embeddings_of rid d" by (simp add: embeddings_of_def)
  have "decode_embedding reg (d\<lparr>t_states := ss\<rparr>) = decode_embedding reg d"
    by (simp add: fun_eq_iff decode_embedding_def sel)
  moreover have "read_resource_db i (d\<lparr>t_states := ss\<rparr>) = read_resource_db i d" for i
    by (simp add: read_resource_db_def select_resource_def assignments_of_def split: option.split)
  moreover have "spaces_of rid (d\<lparr>t_states := ss\<rparr>) = spaces_of rid d" "join_facets rid (d\<lparr>t_states := ss\<rparr>) = join_facets rid d"
    using emb sel by (simp_all add: spaces_of_def join_facets_def)
  moreover have "graph_vectors reg rid (d\<lparr>t_states := ss\<rparr>) = graph_vectors reg rid d"
    using emb calculation(1) by (simp add: graph_vectors_def)
  moreover have "t_representations (d\<lparr>t_states := ss\<rparr>) = t_representations d" "t_units (d\<lparr>t_states := ss\<rparr>) = t_units d" by simp_all
  ultimately show ?thesis by (simp only: read_graph_db_def)
qed

lemma published_written:
  assumes "compare_and_publish st ev (Typed b) (Typed e) c = (c', Inr r)" "pr_applied r"
    and "wf_PreparedResourceBatch b" "keys_ok (committed c)"
  shows "\<exists>w ss. written st b (committed c) w \<and> committed c' = w\<lparr>t_states := ss\<rparr> \<and> working c' = None"
proof -
  from assms(1) obtain pp where pre: "preflight st ev (Typed b) = Inr pp"
    and pub: "publish st ev pp (Some e) c = (c', Inr (Some r))"
    by (auto simp: compare_and_publish_def refuse_external_transaction_def op_eqs op_try_eq_Inr split: option.splits)
  note p = preflight_again [OF pre assms(3)]
  from pub show ?thesis
  proof (cases rule: publish_cases)
    case (refused q)
    then show ?thesis using assms(2) by simp
  next
    case (applied q x c1)
    from applied(7) obtain c2 c3 where c2: "write_graph st ev pp c1 = (c2, Inr ())"
      and c3: "put_state ev q published (Some (pp_batch pp)) c2 = (c3, Inr ())" "c' = c3\<lparr>committed := current c3, working := None\<rparr>"
      by (auto simp: publish_body_def Let_def op_eqs)
    have c1: "working c1 = Some (committed c)" "current c1 = committed c" using applied(6) by simp_all
    obtain w where w: "write_graph_db st pp (committed c) = Inr w" "c2 = c1\<lparr>working := Some w\<rparr>"
      using performsD [OF performs_write_graph c1(1) c2] by blast
    obtain row w' where "upsert_state row w = Inr w'" "c3 = c2\<lparr>working := Some w'\<rparr>"
      using put_state_effect [OF c3(1), of w] w(2) by auto
    moreover from this obtain ss where "w' = w\<lparr>t_states := ss\<rparr>" using upsert_effects(3) by blast
    moreover have "verify_db (codecs st) b w = Inr ()" "\<forall>s \<in> set (batch_spaces b). \<not> space_conflict s (committed c)"
      using write_graph_checked [OF c2] p(1,6) c1(2) w(2) by simp_all
    then have "written st b (committed c) w"
      using write_graph_effect [OF w(1)] pre assms(3,4) by (auto simp: written_def)
    ultimately show ?thesis using c3(2) by auto
  qed
qed

text \<open>
  C39: what was published is what is read. When a conditional publication of a well-formed batch is applied, a later
  \<open>export_graph\<close> of its resource returns that batch: every representation, unit, vector and facet, each list in the
  order of its keys, with the embedding spaces its vectors use. No field is lost in the tables, no vector component in
  the codecs, and no row of another resource is mixed in.
\<close>

theorem published_graph_reads_back:
  assumes "compare_and_publish st ev (Typed b) (Typed e) c = (c', Inr r)" "pr_applied r"
    and "wf_PreparedResourceBatch b" "doubles b" "codecs_lossless (codecs st)" "keys_ok (committed c)"
    and "\<forall>label. engine ev' label = None"
  shows "export_graph st ev' (res_id (batch_resource b)) c' = (c', Inr (Some (stored b)))"
proof -
  from published_written [OF assms(1,2,3,6)] obtain w ss where w: "written st b (committed c) w"
    "committed c' = w\<lparr>t_states := ss\<rparr>" "working c' = None" by blast
  have "read_graph_db (codecs st) (res_id (batch_resource b)) (committed c') = Inr (Some (stored b))"
    using read_back [OF w(1) assms(5,4)] by (simp add: w(2) read_graph_states)
  moreover have "op_begin_deferred ev' c' = (c'\<lparr>working := Some (committed c')\<rparr>, Inr ())"
    using w(3) assms(7) by (simp add: op_begin_deferred_def op_fault_def in_transaction_def op_bind_def)
  ultimately show ?thesis using w(3) assms(7)
    by (simp add: export_graph_def in_transaction_def op_finally_def read_graph_def op_query_def op_fault_def op_bind_def conn_rollback_def)
qed

theorem published_graph_reads_back_witness:
  "export_graph example_store quiet [114] (published_conn\<lparr>open_count := Suc 0\<rparr>) =
     (published_conn\<lparr>open_count := Suc 0\<rparr>, Inr (Some (stored example_batch))) \<and>
   stored example_batch = example_batch"
proof -
  have "doubles example_batch"
    by (simp add: doubles_def example_batch_def example_doubles del: is_double.simps)
  moreover have "codecs_lossless (codecs example_store)" by (simp add: example_store_def default_registry_lossless)
  moreover have "keys_ok (committed (empty_conn\<lparr>open_count := 0\<rparr>))" by (simp add: keys_ok_def empty_conn_def empty_db_def)
  moreover have "\<forall>label. engine quiet label = None" by (simp add: quiet_def)
  moreover have "stored example_batch = example_batch" by (simp add: stored_def example_batch_def)
  ultimately show ?thesis
    using published_graph_reads_back [OF example_publish [of 0] _ example_batch_wf] example_tables(3) by simp
qed

end
