(* ===== verification/App_Text.thy ===== *)
theory App_Text
  imports Core_Common Py_Hash
begin

text \<open>
  What the application layer uses of Python's \<open>str\<close>, \<open>re\<close> and lists: slices, lines, searches, checked
  indexing, iteration over the matches of a pattern; and \<open>mdrack/domain/identifiers.py\<close>.
\<close>

section \<open>Slices\<close>

text \<open>\<open>s[start:end]\<close> for bounds that are not negative.\<close>

definition py_slice :: "'a list \<Rightarrow> nat \<Rightarrow> nat \<Rightarrow> 'a list" where
  "py_slice s start stop = take (stop - start) (drop start s)"

lemma length_py_slice: "length (py_slice s i j) = min j (length s) - i"
  by (simp add: py_slice_def)

lemma py_slice_append: "i \<le> j \<Longrightarrow> j \<le> k \<Longrightarrow> py_slice s i j @ py_slice s j k = py_slice s i k"
proof -
  assume "i \<le> j" "j \<le> k"
  then have "take (j - i + (k - j)) (drop i s) = take (j - i) (drop i s) @ take (k - j) (drop (j - i) (drop i s))"
    by (simp only: take_add)
  with \<open>i \<le> j\<close> \<open>j \<le> k\<close> show ?thesis by (simp add: py_slice_def)
qed

lemma py_slice_all: "length s \<le> j \<Longrightarrow> py_slice s 0 j = s"
  by (simp add: py_slice_def)

lemma py_slice_empty: "j \<le> i \<Longrightarrow> py_slice s i j = []"
  by (simp add: py_slice_def)

lemma set_py_slice: "set (py_slice s i j) \<subseteq> set s"
  unfolding py_slice_def by (meson in_set_dropD in_set_takeD subsetI)

text \<open>\<open>xs[i]\<close> for an index that is not negative.\<close>

definition item_at :: "'a list \<Rightarrow> nat \<Rightarrow> 'a result" where
  "item_at xs i = (if i < length xs then Inr (xs ! i) else Inl IndexError)"

lemma item_at_eq_Inr [simp, result_simps]: "item_at xs i = Inr x \<longleftrightarrow> i < length xs \<and> x = xs ! i"
  by (auto simp: item_at_def)

text \<open>\<open>s.encode("utf-8")\<close>; \<open>UnicodeEncodeError\<close> is a \<open>ValueError\<close>.\<close>

definition encode :: "pystr \<Rightarrow> nat list result" where
  "encode s = (if utf8_encodable s then Inr (utf8_encode s) else Inl (ValueError ''surrogates not allowed''))"

section \<open>Lines\<close>

definition is_line_break :: "nat \<Rightarrow> bool" where
  "is_line_break c \<longleftrightarrow> c \<in> {10, 11, 12, 13, 28, 29, 30, 133, 8232, 8233}"

text \<open>The lines of a text with their terminators, in the order of the text.\<close>

function line_parts :: "pystr \<Rightarrow> (pystr \<times> pystr) list" where
  "line_parts s =
     (if s = [] then []
      else let body = takeWhile (\<lambda>c. \<not> is_line_break c) s
           in case dropWhile (\<lambda>c. \<not> is_line_break c) s of
                [] \<Rightarrow> [(body, [])]
              | c # rest \<Rightarrow>
                  if c = 13 \<and> rest \<noteq> [] \<and> hd rest = 10 then (body, [13, 10]) # line_parts (tl rest)
                  else (body, [c]) # line_parts rest)"
  by pat_completeness auto
termination
proof (relation "measure length", goal_cases)
  case (2 s body c rest)
  then have "length (c # rest) \<le> length s" by (metis length_dropWhile_le)
  then show ?case by (cases rest) auto
next
  case (3 s body c rest)
  then have "length (c # rest) \<le> length s" by (metis length_dropWhile_le)
  then show ?case by simp
qed simp

declare line_parts.simps [simp del]

definition splitlines :: "pystr \<Rightarrow> pystr list" where
  "splitlines s = map fst (line_parts s)"

definition splitlines_keep :: "pystr \<Rightarrow> pystr list" where
  "splitlines_keep s = map (\<lambda>(body, terminator). body @ terminator) (line_parts s)"

lemma concat_splitlines_keep: "concat (splitlines_keep s) = s"
proof (induction s rule: line_parts.induct)
  case (1 s)
  let ?b = "takeWhile (\<lambda>c. \<not> is_line_break c) s" and ?d = "dropWhile (\<lambda>c. \<not> is_line_break c) s"
  have s: "?b @ ?d = s" by (rule takeWhile_dropWhile_id)
  show ?case
  proof (cases "s = []")
    case False
    show ?thesis
    proof (cases ?d)
      case Nil
      with s have "?b = s" by simp
      with Nil show ?thesis using False by (subst splitlines_keep_def, subst line_parts.simps) (simp only: Let_def, simp)
    next
      case (Cons c rest)
      show ?thesis
      proof (cases "c = 13 \<and> rest \<noteq> [] \<and> hd rest = 10")
        case True
        then have "rest = 10 # tl rest" by (cases rest) auto
        with 1(1) [OF False refl Cons True] show ?thesis using False s Cons True
          by (simp add: splitlines_keep_def line_parts.simps [of s] Let_def)
      next
        case no: False
        with 1(2) [OF False refl Cons no] show ?thesis using False s Cons
          by (auto simp: splitlines_keep_def line_parts.simps [of s] Let_def)
      qed
    qed
  qed (simp add: splitlines_keep_def line_parts.simps)
qed

lemma length_splitlines: "length (splitlines_keep s) = length (splitlines s)"
  by (simp add: splitlines_def splitlines_keep_def)

lemma splitlines_Nil [simp]: "splitlines s = [] \<longleftrightarrow> s = []"
proof
  assume "splitlines s = []"
  then have "splitlines_keep s = []" by (metis length_splitlines length_0_conv)
  then show "s = []" using concat_splitlines_keep [of s] by simp
qed (simp add: splitlines_def line_parts.simps)

text \<open>\<open>s.strip("\n")\<close>.\<close>

definition strip_newlines :: "pystr \<Rightarrow> pystr" where
  "strip_newlines s = rev (dropWhile ((=) 10) (rev (dropWhile ((=) 10) s)))"

section \<open>Searches\<close>

text \<open>\<open>s.startswith(t, i)\<close> and \<open>s.find(t)\<close>.\<close>

definition starts_at :: "pystr \<Rightarrow> pystr \<Rightarrow> nat \<Rightarrow> bool" where
  "starts_at s t i \<longleftrightarrow> i + length t \<le> length s \<and> py_slice s i (i + length t) = t"

definition find_text :: "pystr \<Rightarrow> pystr \<Rightarrow> nat option" where
  "find_text s t = find (starts_at s t) [0..<Suc (length s)]"

lemma find_text_Some: "find_text s t = Some i \<Longrightarrow> i + length t \<le> length s \<and> py_slice s i (i + length t) = t"
  unfolding find_text_def by (auto simp: find_Some_iff starts_at_def)

lemma find_text_None: "find_text s t = None \<longleftrightarrow> (\<nexists>i. i + length t \<le> length s \<and> py_slice s i (i + length t) = t)"
  unfolding find_text_def find_None_iff starts_at_def by auto

text \<open>\<open>s.count("\n", 0, end)\<close>; a negative end counts from the end of the text.\<close>

definition count_newlines :: "pystr \<Rightarrow> int \<Rightarrow> nat" where
  "count_newlines s stop =
     length (filter ((=) 10) (take (nat (if stop < 0 then stop + int (length s) else stop)) s))"

text \<open>The end of the longest run of characters from a position on, up to the end of the region.\<close>

definition run_end :: "(nat \<Rightarrow> bool) \<Rightarrow> pystr \<Rightarrow> nat \<Rightarrow> nat \<Rightarrow> nat" where
  "run_end p s i stop = i + length (takeWhile p (py_slice s i stop))"

text \<open>\<open>pattern.finditer(text, pos, endpos)\<close> for a pattern that does not match the empty string, given as the end of
  the match at a position.\<close>

function finditer :: "(nat \<Rightarrow> nat option) \<Rightarrow> nat \<Rightarrow> nat \<Rightarrow> (nat \<times> nat) list" where
  "finditer match pos stop =
     (if stop \<le> pos then []
      else case match pos of
             Some e \<Rightarrow> (pos, e) # finditer match (max e (Suc pos)) stop
           | None \<Rightarrow> finditer match (Suc pos) stop)"
  by pat_completeness auto
termination
  by (relation "measure (\<lambda>(match, pos, stop). stop - pos)") auto

declare finditer.simps [simp del]

section \<open>Identifiers\<close>

text \<open>\<open>s.replace("\r\n", "\n").replace("\r", "\n")\<close>.\<close>

fun unify_newlines :: "pystr \<Rightarrow> pystr" where
  "unify_newlines [] = []"
| "unify_newlines [c] = [if c = 13 then 10 else c]"
| "unify_newlines (c # d # s) =
     (if c = 13 \<and> d = 10 then 10 # unify_newlines s
      else (if c = 13 then 10 else c) # unify_newlines (d # s))"

text \<open>\<open>re.sub(r"\s+", " ", s)\<close>; a run of white space becomes one space. Case folding is the argument \<open>casefold\<close>.\<close>

function collapse_spaces :: "pystr \<Rightarrow> pystr" where
  "collapse_spaces [] = []"
| "collapse_spaces (c # s) =
     (if py_isspace c then 32 # collapse_spaces (dropWhile py_isspace s) else c # collapse_spaces s)"
  by pat_completeness auto
termination
  by (relation "measure length") (auto simp: le_imp_less_Suc length_dropWhile_le)

definition normalize_heading_path :: "(pystr \<Rightarrow> pystr) \<Rightarrow> pystr list \<Rightarrow> pystr list" where
  "normalize_heading_path casefold parts = map (\<lambda>part. casefold (strip (collapse_spaces part))) parts"

definition source_fingerprint :: "pystr \<Rightarrow> pystr result" where
  "source_fingerprint content = rbind (encode (strip (unify_newlines content))) (\<lambda>b. Inr (hexdigest b))"

text \<open>The parts are strings and integers.\<close>

definition logical_id :: "pystr \<Rightarrow> json list \<Rightarrow> pystr result" where
  "logical_id kind parts =
     rbind (encode (canonical_json (JArr parts))) (\<lambda>b. Inr (kind @ [95] @ take 32 (hexdigest b)))"

definition safe_file_ref :: "pystr \<Rightarrow> pystr \<Rightarrow> pystr result" where
  "safe_file_ref root_id relative_path = logical_id (lit ''file'') [JStr root_id, JStr relative_path]"

end
