(* ===== verification/App_Blocks.thy ===== *)
theory App_Blocks
  imports App_Text
begin

text \<open>
  \<open>mdrack/domain/blocks.py\<close>, \<open>chunks.py\<close> and \<open>documents.py\<close>: the parser-independent blocks of a Markdown document
  with their source spans, the retrieval chunks derived from them, and the document. A field that no constructor
  inspects has the type the code annotates.
\<close>

section \<open>Blocks\<close>

datatype BlockType =
    block_FRONTMATTER | block_HEADING | block_PARAGRAPH | block_LIST | block_BLOCKQUOTE | block_CALLOUT | block_CODE
  | block_MERMAID | block_TABLE | block_THEMATIC_BREAK | block_UNKNOWN

record SourceSpan =
  sp_start_line :: int
  sp_end_line :: int
  sp_start_offset :: "int option"
  sp_end_offset :: "int option"

definition new_SourceSpan :: "int \<Rightarrow> int \<Rightarrow> int option \<Rightarrow> int option \<Rightarrow> SourceSpan result" where
  "new_SourceSpan line1 line2 start stop =
     rbind (raise_if (line1 < 1 \<or> line2 < line1) (ValueError ''source span must use positive ordered line numbers'')) (\<lambda>_.
     rbind (raise_if ((start = None) \<noteq> (stop = None))
       (ValueError ''source offsets must either both be present or both be absent'')) (\<lambda>_.
     rbind (raise_if (case start of None \<Rightarrow> False | Some s \<Rightarrow> s < 0 \<or> (case stop of None \<Rightarrow> True | Some e \<Rightarrow> e < s))
       (ValueError ''source offsets must be non-negative and ordered'')) (\<lambda>_.
     Inr \<lparr>sp_start_line = line1, sp_end_line = line2, sp_start_offset = start, sp_end_offset = stop\<rparr>)))"

record SourceBlock =
  blk_id :: pystr
  blk_document_id :: pystr
  blk_type :: BlockType
  blk_raw_markdown :: pystr
  blk_plain_text :: "pystr option"
  blk_language :: "pystr option"
  blk_heading_level :: "int option"
  blk_heading_path :: "pystr list"
  blk_source_span :: SourceSpan
  blk_attributes :: "(pystr, pyobj) dict"

definition new_SourceBlock ::
  "pystr \<Rightarrow> pystr \<Rightarrow> BlockType \<Rightarrow> pystr \<Rightarrow> pystr option \<Rightarrow> pystr option \<Rightarrow> int option \<Rightarrow> pystr list \<Rightarrow> SourceSpan \<Rightarrow>
   (pystr, pyobj) dict \<Rightarrow> SourceBlock result" where
  "new_SourceBlock bid did btype raw plain language level path source_span attributes =
     rbind (raise_if (bid = [] \<or> did = []) (ValueError ''block_id and document_id are required'')) (\<lambda>_.
     rbind (raise_if (case level of None \<Rightarrow> False | Some n \<Rightarrow> \<not> (1 \<le> n \<and> n \<le> 6)) (ValueError ''heading_level must be in [1, 6]'')) (\<lambda>_.
     Inr \<lparr>blk_id = bid, blk_document_id = did, blk_type = btype, blk_raw_markdown = raw, blk_plain_text = plain,
          blk_language = language, blk_heading_level = level, blk_heading_path = path, blk_source_span = source_span,
          blk_attributes = attributes\<rparr>))"

section \<open>Chunks\<close>

datatype RetrievalContentType =
    content_TEXT | content_LIST | content_BLOCKQUOTE | content_CALLOUT | content_CODE | content_TABLE | content_MERMAID
  | content_UNKNOWN | content_HEADING

text \<open>The values of the enumeration.\<close>

definition content_value :: "RetrievalContentType \<Rightarrow> string" where
  "content_value c =
     (case c of content_TEXT \<Rightarrow> ''text'' | content_LIST \<Rightarrow> ''list'' | content_BLOCKQUOTE \<Rightarrow> ''blockquote''
      | content_CALLOUT \<Rightarrow> ''callout'' | content_CODE \<Rightarrow> ''code'' | content_TABLE \<Rightarrow> ''table'' | content_MERMAID \<Rightarrow> ''mermaid''
      | content_UNKNOWN \<Rightarrow> ''unknown'' | content_HEADING \<Rightarrow> ''heading'')"

record RetrievalChunk =
  chk_id :: pystr
  chk_document_id :: pystr
  chk_parent_block_ids :: "pystr list"
  chk_display_content :: pystr
  chk_embedding_text :: pystr
  chk_content_type :: RetrievalContentType
  chk_index :: nat
  chk_heading_path :: "pystr list"
  chk_source_span :: SourceSpan
  chk_estimated_tokens :: nat

text \<open>An index and an estimate are natural numbers here, so the only number the last test refuses is an estimate of 0.\<close>

definition new_RetrievalChunk ::
  "pystr \<Rightarrow> pystr \<Rightarrow> pystr list \<Rightarrow> pystr \<Rightarrow> pystr \<Rightarrow> RetrievalContentType \<Rightarrow> nat \<Rightarrow> pystr list \<Rightarrow> SourceSpan \<Rightarrow> nat \<Rightarrow>
   RetrievalChunk result" where
  "new_RetrievalChunk cid did parents display embedding ctype position path source_span tokens =
     rbind (raise_if (cid = [] \<or> did = [] \<or> parents = [])
       (ValueError ''chunk, document, and parent block identifiers are required'')) (\<lambda>_.
     rbind (raise_if (blank display \<or> blank embedding) (ValueError ''display_content and embedding_text are required'')) (\<lambda>_.
     rbind (raise_if (tokens < 1) (ValueError ''chunk_index and estimated_tokens must be positive'')) (\<lambda>_.
     Inr \<lparr>chk_id = cid, chk_document_id = did, chk_parent_block_ids = parents, chk_display_content = display,
          chk_embedding_text = embedding, chk_content_type = ctype, chk_index = position, chk_heading_path = path,
          chk_source_span = source_span, chk_estimated_tokens = tokens\<rparr>)))"

section \<open>Documents\<close>

record MetadataDiagnostic =
  diag_category :: pystr
  diag_count :: int

definition new_MetadataDiagnostic :: "pystr \<Rightarrow> int \<Rightarrow> MetadataDiagnostic result" where
  "new_MetadataDiagnostic category n =
     (if category = [] \<or> n < 1 then Inl (ValueError ''metadata diagnostic requires a category and positive count'')
      else Inr \<lparr>diag_category = category, diag_count = n\<rparr>)"

text \<open>An item of the diagnostics: the structured value, a legacy category, or an object of another class.\<close>

datatype diagnostic_item = Structured MetadataDiagnostic | Legacy pystr | NoDiagnostic

definition count_diagnostic :: "diagnostic_item \<Rightarrow> (pystr, int) dict \<Rightarrow> (pystr, int) dict result" where
  "count_diagnostic item totals =
     rbind (case item of
         Legacy s \<Rightarrow> Inr (s, 1)
       | Structured d \<Rightarrow> Inr (diag_category d, diag_count d)
       | NoDiagnostic \<Rightarrow> Inl (TypeError ''metadata diagnostics must be categories or MetadataDiagnostic values'')) (\<lambda>(category, n).
     if category = [] \<or> n < 1 then Inl (ValueError ''metadata diagnostic requires a category and positive count'')
     else Inr (AList.update category (dict_get totals category 0 + n) totals))"

definition canonical_metadata_diagnostics :: "diagnostic_item list \<Rightarrow> MetadataDiagnostic list result" where
  "canonical_metadata_diagnostics diagnostics =
     rbind (rfold count_diagnostic diagnostics []) (\<lambda>totals.
     rmap (\<lambda>(category, n). new_MetadataDiagnostic category n) (sort_key fst totals))"

record Document =
  doc_id :: pystr
  doc_relative_path :: pystr
  doc_title :: pystr
  doc_frontmatter :: "(pystr, pyobj) dict"
  doc_blocks :: "SourceBlock list"
  doc_source_hash :: pystr
  doc_parser_name :: pystr
  doc_parser_version :: pystr
  doc_metadata_diagnostics :: "MetadataDiagnostic list"
  doc_metadata_fingerprint :: pystr
  doc_metadata_policy_fingerprint :: pystr
  doc_metadata_normalizer_version :: pystr

definition new_Document ::
  "pystr \<Rightarrow> pystr \<Rightarrow> pystr \<Rightarrow> (pystr, pyobj) dict \<Rightarrow> SourceBlock list \<Rightarrow> pystr \<Rightarrow> pystr \<Rightarrow> pystr \<Rightarrow> diagnostic_item list \<Rightarrow>
   pystr \<Rightarrow> pystr \<Rightarrow> pystr \<Rightarrow> Document result" where
  "new_Document did path title frontmatter blocks shash pname pversion diagnostics fingerprint policy version =
     rbind (raise_if (did = [] \<or> path = []) (ValueError ''document_id and relative_path are required'')) (\<lambda>_.
     rbind (raise_if (shash = [] \<or> pname = [] \<or> pversion = []) (ValueError ''source hash and parser identity are required'')) (\<lambda>_.
     rbind (canonical_metadata_diagnostics diagnostics) (\<lambda>canonical.
     Inr \<lparr>doc_id = did, doc_relative_path = path, doc_title = title, doc_frontmatter = frontmatter, doc_blocks = blocks,
          doc_source_hash = shash, doc_parser_name = pname, doc_parser_version = pversion,
          doc_metadata_diagnostics = canonical, doc_metadata_fingerprint = fingerprint,
          doc_metadata_policy_fingerprint = policy, doc_metadata_normalizer_version = version\<rparr>)))"

end
