(* ===== verification/App_Splitting.thy ===== *)
theory App_Splitting
  imports App_Text
begin

text \<open>
  The splitting of prose in \<open>mdrack/application/chunking.py\<close>: a text that does not fit its budget is cut at paragraphs,
  then sentences, then words, then characters, and the pieces are packed. Positions are natural numbers; the limits,
  which the callers keep at 1 or more, too.
\<close>

section \<open>The patterns\<close>

text \<open>Each pattern as the end of its match at a position, in a region that ends at \<open>stop\<close>. A look-behind sees the
  character before the region.\<close>

definition paragraph_boundary :: "pystr \<Rightarrow> nat \<Rightarrow> nat \<Rightarrow> nat option" where
  "paragraph_boundary text stop i =
     (if i < stop \<and> text ! i = 10
      then let j = run_end (\<lambda>c. c = 32 \<or> c = 9) text (i + 1) stop
           in if j < stop \<and> text ! j = 10 then Some (run_end (\<lambda>c. c = 10) text j stop) else None
      else None)"

definition sentence_boundary :: "pystr \<Rightarrow> nat \<Rightarrow> nat \<Rightarrow> nat option" where
  "sentence_boundary text stop i =
     (if 0 < i \<and> text ! (i - 1) \<in> {46, 33, 63, 8230} \<and> i < stop \<and> py_isspace (text ! i)
      then Some (run_end py_isspace text i stop) else None)"

definition word_unit :: "pystr \<Rightarrow> nat \<Rightarrow> nat \<Rightarrow> nat option" where
  "word_unit text stop i =
     (let j = run_end py_isspace text i stop
      in if j < stop then Some (run_end (\<lambda>c. \<not> py_isspace c) text j stop) else None)"

definition level_pattern :: "nat \<Rightarrow> pystr \<Rightarrow> nat \<Rightarrow> nat \<Rightarrow> nat option" where
  "level_pattern level = (if level = 0 then paragraph_boundary else if level = 1 then sentence_boundary else word_unit)"

section \<open>Units\<close>

text \<open>\<open>_units\<close> with \<open>word_mode\<close>: the first and the last word take the rest of the region.\<close>

definition word_units :: "(nat \<Rightarrow> nat option) \<Rightarrow> nat \<Rightarrow> nat \<Rightarrow> (nat \<times> nat) list" where
  "word_units match start stop =
     (let units = finditer match start stop;
          units = (if units \<noteq> [] \<and> start < fst (hd units) then (start, snd (hd units)) # tl units else units)
      in if units \<noteq> [] \<and> snd (last units) < stop then butlast units @ [(fst (last units), stop)] else units)"

text \<open>The loop without \<open>word_mode\<close>: the regions between the ends of the matches.\<close>

fun boundary_units :: "nat \<Rightarrow> (nat \<times> nat) list \<Rightarrow> nat \<Rightarrow> (nat \<times> nat) list" where
  "boundary_units cursor [] stop = [(cursor, stop)]"
| "boundary_units cursor ((a, e) # matches) stop = (cursor, e) # boundary_units e matches stop"

definition text_units :: "(nat \<Rightarrow> nat option) \<Rightarrow> nat \<Rightarrow> nat \<Rightarrow> bool \<Rightarrow> (nat \<times> nat) list" where
  "text_units match start stop word_mode =
     (if word_mode then word_units match start stop
      else filter (\<lambda>(a, b). a < b) (boundary_units start (finditer match start stop) stop))"

section \<open>Packing and splitting\<close>

definition within_budget :: "pystr \<Rightarrow> nat \<Rightarrow> nat \<Rightarrow> bool result" where
  "within_budget text max_chars max_bytes =
     (if length text \<le> max_chars then rbind (encode text) (\<lambda>b. Inr (length b \<le> max_bytes)) else Inr False)"

text \<open>The body of the loop of \<open>_pack_units\<close> over the pieces so far and the current range.\<close>

definition pack_unit ::
  "pystr \<Rightarrow> nat \<Rightarrow> nat \<Rightarrow> (nat \<Rightarrow> nat \<Rightarrow> (nat \<times> nat) list result) \<Rightarrow> nat \<times> nat \<Rightarrow>
   (nat \<times> nat) list \<times> (nat \<times> nat) option \<Rightarrow> ((nat \<times> nat) list \<times> (nat \<times> nat) option) result" where
  "pack_unit text max_chars max_bytes split = (\<lambda>(unit_start, unit_end) (pieces, current).
     rbind (within_budget (py_slice text unit_start unit_end) max_chars max_bytes) (\<lambda>b.
     if \<not> b
     then rbind (split unit_start unit_end) (\<lambda>more.
          Inr ((case current of None \<Rightarrow> pieces | Some c \<Rightarrow> pieces @ [c]) @ more, None))
     else case current of
            None \<Rightarrow> Inr (pieces, Some (unit_start, unit_end))
          | Some (current_start, current_end) \<Rightarrow>
              rbind (within_budget (py_slice text current_start unit_end) max_chars max_bytes) (\<lambda>joins.
              if joins then Inr (pieces, Some (current_start, unit_end))
              else Inr (pieces @ [(current_start, current_end)], Some (unit_start, unit_end)))))"

definition pack_units ::
  "pystr \<Rightarrow> (nat \<times> nat) list \<Rightarrow> nat \<Rightarrow> nat \<Rightarrow> (nat \<Rightarrow> nat \<Rightarrow> (nat \<times> nat) list result) \<Rightarrow> (nat \<times> nat) list result" where
  "pack_units text units max_chars max_bytes split =
     rbind (rfold (pack_unit text max_chars max_bytes split) units ([], None)) (\<lambda>(pieces, current).
     Inr (case current of None \<Rightarrow> pieces | Some c \<Rightarrow> pieces @ [c]))"

text \<open>The inner loop of the last level: the longest prefix of the piece that fits the bytes.\<close>

function shrink_piece :: "pystr \<Rightarrow> nat \<Rightarrow> nat \<Rightarrow> nat \<Rightarrow> nat result" where
  "shrink_piece text max_bytes cursor piece_end =
     (if cursor < piece_end
      then rbind (encode (py_slice text cursor piece_end)) (\<lambda>b.
           if max_bytes < length b then shrink_piece text max_bytes cursor (piece_end - 1) else Inr piece_end)
      else Inr piece_end)"
  by pat_completeness auto
termination
  by (relation "measure (\<lambda>(text, max_bytes, cursor, piece_end). piece_end)") auto

declare shrink_piece.simps [simp del]

lemma shrink_piece_bounds:
  "shrink_piece s max_bytes cursor piece_end = Inr e \<Longrightarrow> cursor \<le> piece_end \<Longrightarrow> cursor \<le> e \<and> e \<le> piece_end"
proof (induction s max_bytes cursor piece_end rule: shrink_piece.induct)
  case (1 s max_bytes cursor piece_end)
  from "1.prems" show ?case
    by (subst (asm) shrink_piece.simps) (use "1.IH" in \<open>fastforce simp: rbind_eq_Inr split: if_splits\<close>)
qed

function char_pieces :: "pystr \<Rightarrow> nat \<Rightarrow> nat \<Rightarrow> nat \<Rightarrow> nat \<Rightarrow> (nat \<times> nat) list result" where
  "char_pieces text max_chars max_bytes cursor stop =
     (if cursor < stop
      then rbind (shrink_piece text max_bytes cursor (min stop (cursor + max_chars))) (\<lambda>piece_end.
           if piece_end = cursor then Inl (ValueError ''chunk limits cannot represent one Unicode character'')
           else rbind (char_pieces text max_chars max_bytes piece_end stop) (\<lambda>pieces. Inr ((cursor, piece_end) # pieces)))
      else Inr [])"
  by pat_completeness auto
termination
  by (relation "measure (\<lambda>(text, max_chars, max_bytes, cursor, stop). stop - cursor)") (auto dest!: shrink_piece_bounds)

declare char_pieces.simps [simp del]

function split_range :: "pystr \<Rightarrow> nat \<Rightarrow> nat \<Rightarrow> nat \<Rightarrow> nat \<Rightarrow> nat \<Rightarrow> (nat \<times> nat) list result" where
  "split_range text start stop max_chars max_bytes level =
     rbind (within_budget (py_slice text start stop) max_chars max_bytes) (\<lambda>b.
     if b then Inr [(start, stop)]
     else if level < 3 then
       let units = text_units (level_pattern level text stop) start stop (level = 2)
       in if 1 < length units
          then pack_units text units max_chars max_bytes (\<lambda>a b. split_range text a b max_chars max_bytes (level + 1))
          else split_range text start stop max_chars max_bytes (level + 1)
     else char_pieces text max_chars max_bytes start stop)"
  by pat_completeness auto
termination
  by (relation "measure (\<lambda>(text, start, stop, max_chars, max_bytes, level). 3 - level)") auto

declare split_range.simps [simp del]

definition split_prose_ranges :: "pystr \<Rightarrow> nat \<Rightarrow> nat \<Rightarrow> (pystr \<times> nat \<times> nat) list result" where
  "split_prose_ranges text max_chars max_bytes =
     (if blank text then Inr []
      else rbind (split_range text 0 (length text) max_chars max_bytes 0) (\<lambda>ranges.
           Inr (map (\<lambda>(a, b). (py_slice text a b, a, b)) ranges)))"

definition split_prose :: "pystr \<Rightarrow> nat \<Rightarrow> nat \<Rightarrow> pystr list result" where
  "split_prose text max_chars max_bytes =
     rbind (split_prose_ranges text max_chars max_bytes) (\<lambda>ranged. Inr (map fst ranged))"

section \<open>Tilings\<close>

text \<open>Ranges that follow one another without a gap from one position to another, none of them empty.\<close>

fun tiles :: "nat \<Rightarrow> (nat \<times> nat) list \<Rightarrow> nat \<Rightarrow> bool" where
  "tiles a [] b = (a = b)"
| "tiles a ((x, y) # rs) b = (x = a \<and> x < y \<and> tiles y rs b)"

lemma tiles_le: "tiles a rs b \<Longrightarrow> a \<le> b"
  by (induction a rs b rule: tiles.induct) auto

lemma tiles_append [simp]: "tiles a (rs @ qs) b \<longleftrightarrow> (\<exists>m. tiles a rs m \<and> tiles m qs b)"
  by (induction rs arbitrary: a) auto

lemma tiles_in: "tiles a rs b \<Longrightarrow> (x, y) \<in> set rs \<Longrightarrow> a \<le> x \<and> x < y \<and> y \<le> b"
proof (induction a rs b rule: tiles.induct)
  case (2 a x' y' rs b)
  then show ?case using tiles_le [of y' rs b] by auto
qed simp

lemma tiles_concat: "tiles a rs b \<Longrightarrow> concat (map (\<lambda>(x, y). py_slice s x y) rs) = py_slice s a b"
proof (induction a rs b rule: tiles.induct)
  case (2 a x y rs b)
  then show ?case using tiles_le [of y rs b] by (simp add: py_slice_append)
qed (simp add: py_slice_empty)

section \<open>The units of a region tile it\<close>

lemma run_end_bounds: "i \<le> run_end p s i stop" "i \<le> stop \<Longrightarrow> run_end p s i stop \<le> stop"
  using length_takeWhile_le [of p "py_slice s i stop"] by (auto simp: run_end_def length_py_slice)

lemma run_end_step: "i < stop \<Longrightarrow> stop \<le> length s \<Longrightarrow> p (s ! i) \<Longrightarrow> i < run_end p s i stop"
proof -
  assume a: "i < stop" "stop \<le> length s" "p (s ! i)"
  then have "py_slice s i stop = s ! i # py_slice s (Suc i) stop"
    by (simp add: py_slice_def Cons_nth_drop_Suc [symmetric] take_Cons' Suc_diff_le)
  with a(3) show ?thesis by (simp add: run_end_def)
qed

lemma run_end_stop:
  assumes "run_end p s i stop < stop" "stop \<le> length s"
  shows "\<not> p (s ! run_end p s i stop)"
proof -
  let ?t = "py_slice s i stop" and ?n = "length (takeWhile p (py_slice s i stop))"
  have n: "?n < length ?t" using assms by (simp add: run_end_def length_py_slice)
  then have "?t ! ?n = s ! (i + ?n)" using assms(2) by (simp add: py_slice_def length_py_slice)
  with nth_length_takeWhile [OF n] show ?thesis by (simp add: run_end_def)
qed

text \<open>A pattern whose matches are not empty and stay in the region.\<close>

definition proper_match :: "(nat \<Rightarrow> nat option) \<Rightarrow> nat \<Rightarrow> bool" where
  "proper_match match stop \<longleftrightarrow> (\<forall>i e. match i = Some e \<longrightarrow> i < e \<and> e \<le> stop)"

lemma patterns_proper:
  assumes "stop \<le> length s"
  shows "proper_match (level_pattern level s stop) stop"
proof -
  have "i < e \<and> e \<le> stop" if a: "paragraph_boundary s stop i = Some e" for i e
  proof -
    let ?j = "run_end (\<lambda>c. c = 32 \<or> c = 9) s (i + 1) stop"
    have j: "?j < stop" "e = run_end (\<lambda>c. c = 10) s ?j stop" using a by (simp_all add: paragraph_boundary_def Let_def split: if_splits)
    have "i + 1 \<le> ?j" by (rule run_end_bounds(1))
    moreover have "?j \<le> e" unfolding j(2) by (rule run_end_bounds(1))
    moreover have "e \<le> stop" unfolding j(2) using j(1) by (rule run_end_bounds(2) [OF less_imp_le])
    ultimately show ?thesis by simp
  qed
  moreover have "i < e \<and> e \<le> stop" if "sentence_boundary s stop i = Some e" for i e
    using that run_end_step [OF _ assms] run_end_bounds(2) by (auto simp: sentence_boundary_def split: if_splits)
  moreover have "i < e \<and> e \<le> stop" if a: "word_unit s stop i = Some e" for i e
  proof -
    let ?j = "run_end py_isspace s i stop"
    have j: "?j < stop" "e = run_end (\<lambda>c. \<not> py_isspace c) s ?j stop" using a by (auto simp: word_unit_def Let_def split: if_splits)
    then have "?j < e" using run_end_stop [OF j(1) assms] run_end_step [OF j(1) assms] by simp
    moreover have "i \<le> ?j" by (rule run_end_bounds(1))
    moreover have "e \<le> stop" unfolding j(2) using j(1) by (rule run_end_bounds(2) [OF less_imp_le])
    ultimately show ?thesis by simp
  qed
  ultimately show ?thesis by (simp add: proper_match_def level_pattern_def)
qed

lemma finditer_ends:
  assumes "proper_match match stop" "cursor \<le> pos" "pos \<le> stop"
  shows "tiles cursor (filter (\<lambda>(a, b). a < b) (boundary_units cursor (finditer match pos stop) stop)) stop"
  using assms
proof (induction match pos stop arbitrary: cursor rule: finditer.induct)
  case (1 match pos stop)
  show ?case
  proof (cases "stop \<le> pos")
    case True
    then show ?thesis using "1.prems" by (subst finditer.simps) simp
  next
    case pos: False
    show ?thesis
    proof (cases "match pos")
      case None
      with "1.IH"(1) [OF pos None "1.prems"(1), of cursor] "1.prems" pos show ?thesis by (subst finditer.simps) simp
    next
      case (Some e)
      then have e: "pos < e" "e \<le> stop" using "1.prems"(1) by (auto simp: proper_match_def)
      with "1.IH"(2) [OF pos Some "1.prems"(1), of e] "1.prems" pos Some show ?thesis
        by (subst finditer.simps) (auto simp: max_def)
    qed
  qed
qed

lemma word_unit_None: "word_unit s stop i = None \<Longrightarrow> stop \<le> length s \<Longrightarrow> i \<le> j \<Longrightarrow> word_unit s stop j = None"
proof -
  assume a: "word_unit s stop i = None" "stop \<le> length s" "i \<le> j"
  have sp: "\<forall>c \<in> set (py_slice s i stop). py_isspace c"
  proof (cases "i < stop")
    case True
    have "length (takeWhile py_isspace (py_slice s i stop)) = length (py_slice s i stop)"
      using a(1,2) True length_takeWhile_le [of py_isspace "py_slice s i stop"]
      by (auto simp: word_unit_def Let_def run_end_def length_py_slice split: if_splits)
    then have "takeWhile py_isspace (py_slice s i stop) = py_slice s i stop" by (metis take_all_iff order_refl takeWhile_eq_take)
    then show ?thesis by (metis set_takeWhileD)
  qed (simp add: py_slice_empty)
  have "set (py_slice s j stop) \<subseteq> set (py_slice s i stop)"
  proof (cases "j \<le> stop")
    case True
    then have "py_slice s i stop = py_slice s i j @ py_slice s j stop" using a(3) by (simp add: py_slice_append)
    then show ?thesis by simp
  qed (simp add: py_slice_empty)
  then have t: "takeWhile py_isspace (py_slice s j stop) = py_slice s j stop" using sp unfolding takeWhile_eq_all_conv by blast
  show ?thesis using a(2) unfolding word_unit_def run_end_def Let_def t by (simp add: length_py_slice)
qed

lemma finditer_words:
  assumes "stop \<le> length s" "pos \<le> stop"
  shows "\<exists>e \<le> stop. tiles pos (finditer (word_unit s stop) pos stop) e"
  using assms
proof (induction "stop - pos" arbitrary: pos rule: less_induct)
  case less
  have none: "finditer (word_unit s stop) i stop = []" if "word_unit s stop pos = None" "pos \<le> i" for i
    using that(2)
  proof (induction "stop - i" arbitrary: i rule: less_induct)
    case less
    then show ?case using word_unit_None [OF that(1) assms(1) less.prems] by (subst finditer.simps) simp
  qed
  show ?case
  proof (cases "stop \<le> pos \<or> word_unit s stop pos = None")
    case True
    then have "finditer (word_unit s stop) pos stop = []" using none by (auto simp: finditer.simps [of _ pos])
    then show ?thesis using less.prems by (intro exI [of _ pos]) simp
  next
    case False
    then obtain e where e: "word_unit s stop pos = Some e" by auto
    then have b: "pos < e" "e \<le> stop" using patterns_proper [OF assms(1), of 2] by (auto simp: proper_match_def level_pattern_def)
    have "stop - e < stop - pos" using b by simp
    from less.hyps [OF this assms(1) b(2)] obtain e' where "e' \<le> stop" "tiles e (finditer (word_unit s stop) e stop) e'" by blast
    moreover have "finditer (word_unit s stop) pos stop = (pos, e) # finditer (word_unit s stop) e stop"
      using e b False by (subst finditer.simps) (simp add: max_absorb1)
    ultimately show ?thesis using b by auto
  qed
qed

lemma tiles_extend_last: "tiles a rs e \<Longrightarrow> rs \<noteq> [] \<Longrightarrow> e \<le> stop \<Longrightarrow> tiles a (butlast rs @ [(fst (last rs), stop)]) stop \<and> snd (last rs) = e"
proof (induction a rs e rule: tiles.induct)
  case (2 a x y rs b)
  then show ?case using tiles_le [of y rs b] by (cases rs) auto
qed simp

lemma text_units_tile:
  assumes "start \<le> stop" "stop \<le> length s"
  shows "text_units (level_pattern level s stop) start stop (level = 2) = [] \<or>
    tiles start (text_units (level_pattern level s stop) start stop (level = 2)) stop"
proof (cases "level = 2")
  case True
  let ?us = "finditer (word_unit s stop) start stop"
  obtain e where e: "e \<le> stop" "tiles start ?us e" using finditer_words [OF assms(2,1)] by blast
  have "\<not> start < fst (hd ?us)" if "?us \<noteq> []" using e(2) that by (cases ?us) auto
  then have words: "word_units (word_unit s stop) start stop = (if ?us \<noteq> [] \<and> snd (last ?us) < stop
      then butlast ?us @ [(fst (last ?us), stop)] else ?us)" by (auto simp: word_units_def Let_def)
  show ?thesis
  proof (cases "?us = []")
    case False
    note ext = tiles_extend_last [OF e(2) False e(1)]
    have "tiles start (word_units (word_unit s stop) start stop) stop"
    proof (cases "e < stop")
      case True
      then show ?thesis using ext False unfolding words by simp
    next
      case False
      then show ?thesis using ext e unfolding words by simp
    qed
    then show ?thesis using True by (simp add: text_units_def level_pattern_def)
  qed (use True words in \<open>simp add: text_units_def level_pattern_def\<close>)
next
  case False
  then show ?thesis using finditer_ends [OF patterns_proper [OF assms(2)] order_refl assms(1)] by (simp add: text_units_def)
qed

section \<open>Every piece fits\<close>

definition within_limits :: "pystr \<Rightarrow> nat \<Rightarrow> nat \<Rightarrow> bool" where
  "within_limits s max_chars max_bytes \<longleftrightarrow> length s \<le> max_chars \<and> length (utf8_encode s) \<le> max_bytes"

lemma within_budget_ok: "utf8_encodable s \<Longrightarrow> within_budget s max_chars max_bytes = Inr (within_limits s max_chars max_bytes)"
  by (simp add: within_budget_def encode_def within_limits_def)

lemma utf8_slice: "utf8_encodable s \<Longrightarrow> utf8_encodable (py_slice s i j)"
  using set_py_slice [of s i j] by (auto simp: utf8_encodable_def list_all_iff)

text \<open>A tiling of a region by pieces that fit.\<close>

definition fitting :: "pystr \<Rightarrow> nat \<Rightarrow> nat \<Rightarrow> nat \<Rightarrow> (nat \<times> nat) list \<Rightarrow> nat \<Rightarrow> bool" where
  "fitting s max_chars max_bytes a rs b \<longleftrightarrow>
     tiles a rs b \<and> list_all (\<lambda>(x, y). within_limits (py_slice s x y) max_chars max_bytes) rs"

lemma shrink_piece_ok:
  assumes "utf8_encodable s" "4 \<le> max_bytes" "cursor < piece_end" "piece_end \<le> length s"
  shows "\<exists>e. shrink_piece s max_bytes cursor piece_end = Inr e \<and> cursor < e \<and> e \<le> piece_end \<and>
    length (utf8_encode (py_slice s cursor e)) \<le> max_bytes"
  using assms(3,4)
proof (induction piece_end rule: less_induct)
  case (less e)
  have enc: "encode (py_slice s cursor e) = Inr (utf8_encode (py_slice s cursor e))"
    using utf8_slice [OF assms(1)] by (simp add: encode_def)
  show ?case
  proof (cases "max_bytes < length (utf8_encode (py_slice s cursor e))")
    case True
    have "length (utf8_encode (py_slice s cursor e)) \<le> 4 * (e - cursor)"
      using length_utf8_encode [of "py_slice s cursor e"] less.prems by (simp add: length_py_slice)
    then have "cursor < e - 1" using True assms(2) by linarith
    moreover have "e - 1 < e" "e - 1 \<le> length s" using less.prems by simp_all
    ultimately obtain e' where "shrink_piece s max_bytes cursor (e - 1) = Inr e'" "cursor < e'" "e' \<le> e - 1"
      "length (utf8_encode (py_slice s cursor e')) \<le> max_bytes"
      using less.IH [of "e - 1"] by blast
    then show ?thesis using True enc less.prems(1) by (subst shrink_piece.simps) auto
  next
    case False
    then show ?thesis using enc less.prems(1) by (subst shrink_piece.simps) auto
  qed
qed

lemma char_pieces_fit:
  assumes "utf8_encodable s" "4 \<le> max_bytes" "1 \<le> max_chars" "stop \<le> length s" "cursor \<le> stop"
  shows "\<exists>rs. char_pieces s max_chars max_bytes cursor stop = Inr rs \<and> fitting s max_chars max_bytes cursor rs stop"
  using assms(5)
proof (induction "stop - cursor" arbitrary: cursor rule: less_induct)
  case less
  show ?case
  proof (cases "cursor < stop")
    case True
    let ?m = "min stop (cursor + max_chars)"
    have "cursor < ?m" "?m \<le> length s" using True assms(3,4) by auto
    then obtain e where e: "shrink_piece s max_bytes cursor ?m = Inr e" "cursor < e" "e \<le> ?m"
      "length (utf8_encode (py_slice s cursor e)) \<le> max_bytes" using shrink_piece_ok [OF assms(1,2)] by blast
    then obtain rs where "char_pieces s max_chars max_bytes e stop = Inr rs" "fitting s max_chars max_bytes e rs stop"
      using less.hyps [of e] True by (metis diff_less_mono2 min.bounded_iff)
    moreover have "e \<le> cursor + max_chars" using e(3) by simp
    then have "within_limits (py_slice s cursor e) max_chars max_bytes" using e(4) by (simp add: within_limits_def length_py_slice)
    ultimately show ?thesis using True e(1,2) by (subst char_pieces.simps) (simp add: fitting_def)
  next
    case False
    then show ?thesis using less.prems by (subst char_pieces.simps) (simp add: fitting_def)
  qed
qed

text \<open>What the loop of the packing keeps: the pieces so far, and then the current range, tile the region up to here.\<close>

definition packed :: "pystr \<Rightarrow> nat \<Rightarrow> nat \<Rightarrow> nat \<Rightarrow> (nat \<times> nat) list \<times> (nat \<times> nat) option \<Rightarrow> nat \<Rightarrow> bool" where
  "packed s max_chars max_bytes a = (\<lambda>(pieces, current) b.
     fitting s max_chars max_bytes a (pieces @ (case current of None \<Rightarrow> [] | Some c \<Rightarrow> [c])) b)"

lemma pack_unit_ok:
  assumes "utf8_encodable s" "packed s max_chars max_bytes a st x" "x < y"
    "\<exists>rs. split x y = Inr rs \<and> fitting s max_chars max_bytes x rs y"
  shows "\<exists>st'. pack_unit s max_chars max_bytes split (x, y) st = Inr st' \<and> packed s max_chars max_bytes a st' y"
proof -
  obtain pieces current where st: "st = (pieces, current)" by (cases st)
  obtain rs where rs: "split x y = Inr rs" "fitting s max_chars max_bytes x rs y" using assms(4) by blast
  note budget = within_budget_ok [OF utf8_slice [OF assms(1)]]
  show ?thesis
  proof (cases "within_limits (py_slice s x y) max_chars max_bytes")
    case False
    then show ?thesis using assms(2) rs
      by (cases current) (auto simp: pack_unit_def st budget packed_def fitting_def)
  next
    case True
    show ?thesis
    proof (cases current)
      case None
      then show ?thesis using assms(2,3) True by (auto simp: pack_unit_def st budget packed_def fitting_def)
    next
      case (Some c)
      obtain u v where c: "c = (u, v)" by (cases c)
      then show ?thesis using assms(2,3) True Some by (auto simp: pack_unit_def st budget packed_def fitting_def)
    qed
  qed
qed

lemma pack_units_ok:
  assumes "utf8_encodable s" "tiles a units b"
    "\<And>x y. (x, y) \<in> set units \<Longrightarrow> \<exists>rs. split x y = Inr rs \<and> fitting s max_chars max_bytes x rs y"
  shows "\<exists>rs. pack_units s units max_chars max_bytes split = Inr rs \<and> fitting s max_chars max_bytes a rs b"
proof -
  have "\<exists>st'. rfold (pack_unit s max_chars max_bytes split) us st = Inr st' \<and> packed s max_chars max_bytes a st' b"
    if "packed s max_chars max_bytes a st m" "tiles m us b" "set us \<subseteq> set units" for us st m
    using that
  proof (induction us arbitrary: st m)
    case (Cons u us)
    obtain x y where u: "u = (x, y)" by (cases u)
    from Cons.prems u have "packed s max_chars max_bytes a st x" "x < y" "tiles y us b" "(x, y) \<in> set units" by auto
    then obtain st' where "pack_unit s max_chars max_bytes split u st = Inr st'" "packed s max_chars max_bytes a st' y"
      using pack_unit_ok [where split = split, OF assms(1) _ _ assms(3) [OF \<open>(x, y) \<in> set units\<close>]] u by blast
    then show ?case using Cons.IH [of st' y] \<open>tiles y us b\<close> Cons.prems(3) by auto
  qed simp
  from this [of "([], None)" a units] assms(2) obtain pieces current where
    "rfold (pack_unit s max_chars max_bytes split) units ([], None) = Inr (pieces, current)"
    "packed s max_chars max_bytes a (pieces, current) b" by (auto simp: packed_def fitting_def)
  then show ?thesis by (cases current) (auto simp: pack_units_def packed_def)
qed

lemma split_range_fits:
  assumes "utf8_encodable s" "4 \<le> max_bytes" "1 \<le> max_chars" "start < stop" "stop \<le> length s"
  shows "\<exists>rs. split_range s start stop max_chars max_bytes level = Inr rs \<and> fitting s max_chars max_bytes start rs stop"
  using assms(4,5)
proof (induction "3 - level" arbitrary: start stop level rule: less_induct)
  case less
  note budget = within_budget_ok [OF utf8_slice [OF assms(1)]]
  show ?case
  proof (cases "within_limits (py_slice s start stop) max_chars max_bytes")
    case True
    then show ?thesis using less.prems by (subst split_range.simps) (simp add: budget fitting_def)
  next
    case nofit: False
    show ?thesis
    proof (cases "level < 3")
      case False
      then show ?thesis using nofit char_pieces_fit [OF assms(1-3) less.prems(2), of start] less.prems(1)
        by (subst split_range.simps) (simp add: budget)
    next
      case level: True
      let ?us = "text_units (level_pattern level s stop) start stop (level = 2)"
      show ?thesis
      proof (cases "1 < length ?us")
        case True
        then have us: "tiles start ?us stop" using text_units_tile [of start stop s level] less.prems by fastforce
        have "\<exists>rs. split_range s x y max_chars max_bytes (level + 1) = Inr rs \<and> fitting s max_chars max_bytes x rs y"
          if "(x, y) \<in> set ?us" for x y
          using less.hyps [of "level + 1" x y] level tiles_in [OF us that] less.prems(2) by simp
        from pack_units_ok [OF assms(1) us this] show ?thesis
          using nofit level True by (subst split_range.simps) (simp add: budget Let_def)
      next
        case False
        then show ?thesis using nofit level less.hyps [of "level + 1" start stop] less.prems
          by (subst split_range.simps) (simp add: budget Let_def)
      qed
    qed
  qed
qed

section \<open>Properties\<close>

text \<open>C31: prose is split without loss. For a text that can be encoded and limits that admit every character, the
  splitting returns, its pieces follow one another and make up the text, and each is within both limits.\<close>

theorem split_prose_lossless:
  assumes "utf8_encodable s" "\<not> blank s" "1 \<le> max_chars" "4 \<le> max_bytes"
  shows "\<exists>ranged. split_prose_ranges s max_chars max_bytes = Inr ranged \<and> concat (map fst ranged) = s \<and>
    tiles 0 (map snd ranged) (length s) \<and>
    (\<forall>(piece, x, y) \<in> set ranged. piece = py_slice s x y \<and> length piece \<le> max_chars \<and> length (utf8_encode piece) \<le> max_bytes)"
proof -
  have "0 < length s" using assms(2) by (auto simp: blank_iff)
  from split_range_fits [OF assms(1,4,3) this order_refl] obtain rs where
    rs: "split_range s 0 (length s) max_chars max_bytes 0 = Inr rs" "fitting s max_chars max_bytes 0 rs (length s)" by blast
  have "concat (map (\<lambda>(x, y). py_slice s x y) rs) = s"
    using tiles_concat [of 0 rs "length s" s] rs(2) by (simp add: fitting_def py_slice_all)
  then show ?thesis using rs assms(2)
    by (intro exI [of _ "map (\<lambda>(a, b). (py_slice s a b, a, b)) rs"])
      (auto simp: split_prose_ranges_def fitting_def list_all_iff within_limits_def comp_def split_def)
qed

end
