(* ===== verification/App_Chunking.thy ===== *)
theory App_Chunking
  imports App_Blocks App_Splitting
begin

text \<open>
  \<open>mdrack/application/chunking.py\<close>: from the blocks of a document to its retrieval chunks. Prose is split, code and
  diagrams are cut into windows of lines, Python code along its top-level definitions, tables repeat their header, small
  neighbours are merged. The parser of Python's \<open>ast\<close> module and case folding are parameters.
\<close>

section \<open>Configuration and drafts\<close>

record StructuralChunkingConfig =
  min_chars :: int
  target_chars :: int
  hard_limit_chars :: int
  max_tokens :: int
  overlap_chars :: int
  code_window_lines :: int
  table_rows_per_chunk :: int
  mermaid_window_lines :: int

definition new_StructuralChunkingConfig ::
  "int \<Rightarrow> int \<Rightarrow> int \<Rightarrow> int \<Rightarrow> int \<Rightarrow> int \<Rightarrow> int \<Rightarrow> int \<Rightarrow> StructuralChunkingConfig result" where
  "new_StructuralChunkingConfig least target hard tokens overlap code_lines table_rows mermaid_lines =
     rbind (raise_if ((\<exists>v \<in> set [least, target, hard, tokens, code_lines, table_rows, mermaid_lines]. v < 1) \<or> overlap < 0)
       (ValueError ''chunking limits must be positive and overlap non-negative'')) (\<lambda>_.
     rbind (raise_if (hard < target) (ValueError ''target_chars cannot exceed hard_limit_chars'')) (\<lambda>_.
     rbind (raise_if (target < least) (ValueError ''min_chars cannot exceed target_chars'')) (\<lambda>_.
     Inr \<lparr>min_chars = least, target_chars = target, hard_limit_chars = hard, max_tokens = tokens, overlap_chars = overlap,
          code_window_lines = code_lines, table_rows_per_chunk = table_rows, mermaid_window_lines = mermaid_lines\<rparr>)))"

record Draft =
  dr_blocks :: "SourceBlock list"
  dr_display :: pystr
  dr_content_type :: RetrievalContentType
  dr_span :: SourceSpan
  dr_mergeable :: bool

definition estimate_tokens :: "pystr \<Rightarrow> nat result" where
  "estimate_tokens text = rbind (encode text) (\<lambda>b. Inr (max 1 ((length b + 3) div 4)))"

text \<open>
  What the code takes from outside: \<open>str.casefold\<close>, and \<open>ast.parse\<close> as the statements of a module, of which it reads the
  line numbers, counted from 1, or \<open>None\<close> for a syntax error.
\<close>

record python_node =
  pn_structural :: bool
  pn_lineno :: nat
  pn_decorator_linenos :: "nat list"
  pn_end_lineno :: "nat option"

record chunking_env =
  ce_casefold :: "pystr \<Rightarrow> pystr"
  ce_parse :: "pystr \<Rightarrow> python_node list option result"

section \<open>Limits and the embedding text\<close>

definition join_with :: "string \<Rightarrow> pystr list \<Rightarrow> pystr" where
  "join_with sep parts = intersperse (lit sep) parts"

definition join_lines :: "pystr list \<Rightarrow> pystr" where
  "join_lines parts = intersperse [10] parts"

definition prefix_label :: "SourceBlock \<Rightarrow> RetrievalContentType \<Rightarrow> pystr" where
  "prefix_label block content_type =
     (if content_type = content_CODE
      then lit ''[code:'' @ (case blk_language block of None \<Rightarrow> lit ''text'' | Some l \<Rightarrow> if l = [] then lit ''text'' else l) @ lit '']''
      else if content_type = content_MERMAID then lit ''[mermaid diagram]''
      else if content_type \<noteq> content_TEXT then lit ''['' @ lit (content_value content_type) @ lit '']''
      else [])"

text \<open>The loop that shortens the prefix is the one of \<^const>\<open>shrink_piece\<close>, from position 0.\<close>

definition embedding_prefix :: "StructuralChunkingConfig \<Rightarrow> SourceBlock \<Rightarrow> RetrievalContentType \<Rightarrow> pystr result" where
  "embedding_prefix cfg block content_type =
     (let heading = join_with '' > '' (blk_heading_path block);
          prefix = join_lines (filter (\<lambda>p. p \<noteq> []) [heading, prefix_label block content_type]);
          max_prefix_bytes = max_tokens cfg * 4 - 6
      in if max_prefix_bytes \<le> 0 then Inr []
         else rbind (shrink_piece prefix (nat max_prefix_bytes) 0 (length prefix)) (\<lambda>stop.
              Inr (rstrip (take stop prefix))))"

definition embedding_text ::
  "StructuralChunkingConfig \<Rightarrow> SourceBlock \<Rightarrow> pystr \<Rightarrow> RetrievalContentType \<Rightarrow> pystr result" where
  "embedding_text cfg block display content_type =
     rbind (embedding_prefix cfg block content_type) (\<lambda>prefix.
     Inr (if prefix \<noteq> [] then prefix @ [10, 10] @ display else display))"

definition body_limits ::
  "StructuralChunkingConfig \<Rightarrow> SourceBlock \<Rightarrow> RetrievalContentType \<Rightarrow> bool \<Rightarrow> (nat \<times> nat) result" where
  "body_limits cfg block content_type use_target =
     rbind (embedding_prefix cfg block content_type) (\<lambda>prefix.
     rbind (encode prefix) (\<lambda>b.
     let separator_bytes = (if prefix \<noteq> [] then 2 else 0);
         token_bytes = max_tokens cfg * 4 - int (length b) - separator_bytes;
         char_limit = (if use_target then target_chars cfg else hard_limit_chars cfg)
     in Inr (nat (max 1 (min char_limit (hard_limit_chars cfg))), nat (max 1 token_bytes))))"

section \<open>Source spans\<close>

text \<open>A row of \<open>projection_spans\<close> the code accepts: a list of six integers.\<close>

definition int_row :: "pyobj \<Rightarrow> int list option" where
  "int_row row =
     (case row of
        PList xs \<Rightarrow>
          if length xs = 6 \<and> list_all (\<lambda>x. case x of PInt _ \<Rightarrow> True | _ \<Rightarrow> False) xs
          then Some (map (\<lambda>x. case x of PInt i \<Rightarrow> i | _ \<Rightarrow> 0) xs) else None
      | _ \<Rightarrow> None)"

definition projected_raw_bounds :: "pyobj \<Rightarrow> int \<Rightarrow> int \<Rightarrow> (int \<times> int) option" where
  "projected_raw_bounds value start stop =
     (case value of
        PList items \<Rightarrow>
          (case filter (\<lambda>row. start < row ! 1 \<and> row ! 0 < stop) (List.map_filter int_row items) of
             [] \<Rightarrow> None
           | first_row # other_rows \<Rightarrow>
               let last_row = last (first_row # other_rows)
               in Some (if start \<le> first_row ! 0 then first_row ! 2 else first_row ! 4 + start - first_row ! 0,
                        if last_row ! 1 \<le> stop then last_row ! 3 else last_row ! 4 + stop - last_row ! 0))
      | _ \<Rightarrow> None)"

text \<open>The text with \<open>\r\n\<close> as one line feed, each character with its position in the source.\<close>

fun normalized_chars :: "nat \<Rightarrow> pystr \<Rightarrow> (nat \<times> nat) list" where
  "normalized_chars i [] = []"
| "normalized_chars i [c] = [(c, i)]"
| "normalized_chars i (c # d # s) =
     (if c = 13 \<and> d = 10 then (10, i) # normalized_chars (i + 2) s else (c, i) # normalized_chars (i + 1) (d # s))"

definition text_raw_bounds :: "pystr \<Rightarrow> pystr \<Rightarrow> nat \<Rightarrow> nat \<Rightarrow> (int \<times> int) result" where
  "text_raw_bounds raw text start stop =
     (case find_text raw text of
        Some direct \<Rightarrow> Inr (int (direct + start), int (direct + stop))
      | None \<Rightarrow>
          let chars = normalized_chars 0 raw; normalized_to_raw = map snd chars @ [length raw]
          in case find_text (map fst chars) text of
               None \<Rightarrow> Inl (ValueError ''chunk text cannot be located in its source block'')
             | Some n \<Rightarrow>
                 rbind (item_at normalized_to_raw (n + start)) (\<lambda>a.
                 rbind (item_at normalized_to_raw (n + stop)) (\<lambda>b. Inr (int a, int b))))"

definition span_for_text_slice :: "SourceBlock \<Rightarrow> pystr \<Rightarrow> nat \<Rightarrow> nat \<Rightarrow> SourceSpan result" where
  "span_for_text_slice block text start stop =
     rbind (case projected_raw_bounds (dict_get (blk_attributes block) (lit ''projection_spans'') PNone) (int start) (int stop) of
         Some bounds \<Rightarrow> Inr bounds
       | None \<Rightarrow> text_raw_bounds (blk_raw_markdown block) text start stop) (\<lambda>(raw_start, raw_end).
     let raw = blk_raw_markdown block; source_span = blk_source_span block;
         line1 = sp_start_line source_span + int (count_newlines raw raw_start);
         end_probe = max raw_start (raw_end - 1);
         line2 = sp_start_line source_span + int (count_newlines raw end_probe)
     in case sp_start_offset source_span of
          None \<Rightarrow> new_SourceSpan line1 line2 None None
        | Some offset \<Rightarrow> new_SourceSpan line1 line2 (Some (offset + raw_start)) (Some (offset + raw_end)))"

definition union_span :: "SourceSpan \<Rightarrow> SourceSpan \<Rightarrow> SourceSpan result" where
  "union_span left right =
     (let line1 = min (sp_start_line left) (sp_start_line right); line2 = max (sp_end_line left) (sp_end_line right)
      in case (sp_start_offset left, sp_end_offset left, sp_start_offset right, sp_end_offset right) of
           (Some a, Some b, Some c, Some d) \<Rightarrow> new_SourceSpan line1 line2 (Some (min a c)) (Some (max b d))
         | _ \<Rightarrow> new_SourceSpan line1 line2 None None)"

definition slice_draft :: "SourceBlock \<Rightarrow> RetrievalContentType \<Rightarrow> pystr \<Rightarrow> bool \<Rightarrow> nat \<times> nat \<times> pystr \<Rightarrow> Draft result" where
  "slice_draft block content_type content mergeable = (\<lambda>(start, stop, display).
     rbind (span_for_text_slice block content start stop) (\<lambda>source_span.
     Inr \<lparr>dr_blocks = [block], dr_display = display, dr_content_type = content_type, dr_span = source_span,
          dr_mergeable = mergeable\<rparr>))"

section \<open>Lines\<close>

fun running_sums :: "nat \<Rightarrow> nat list \<Rightarrow> nat list" where
  "running_sums n [] = [n]"
| "running_sums n (x # xs) = n # running_sums (n + x) xs"

definition line_starts :: "pystr \<Rightarrow> nat list" where
  "line_starts text =
     (let starts = running_sums 0 (map length (splitlines_keep text))
      in if last starts < length text then starts @ [length text] else starts)"

definition line_content_end :: "pystr \<Rightarrow> nat list \<Rightarrow> nat \<Rightarrow> nat" where
  "line_content_end text starts end_line = (if length starts \<le> end_line then length text else starts ! end_line)"

text \<open>The group of the collected lines, which end before a line.\<close>

definition close_group :: "pystr \<Rightarrow> nat list \<Rightarrow> nat \<Rightarrow> pystr list \<Rightarrow> nat \<Rightarrow> (nat \<times> nat \<times> pystr) result" where
  "close_group content starts group_start current end_line =
     rbind (item_at starts group_start) (\<lambda>s. Inr (s, line_content_end content starts end_line, join_lines current))"

text \<open>The body of the loop over the lines, on the groups, the current lines and the start of their group.\<close>

definition line_step ::
  "pystr \<Rightarrow> nat list \<Rightarrow> int \<Rightarrow> nat \<Rightarrow> nat \<Rightarrow> nat \<times> pystr \<Rightarrow> (nat \<times> nat \<times> pystr) list \<times> pystr list \<times> nat \<Rightarrow>
   ((nat \<times> nat \<times> pystr) list \<times> pystr list \<times> nat) result" where
  "line_step content starts window_lines max_chars max_bytes = (\<lambda>(line_index, line) (groups, current, group_start).
     rbind (if current = [] then Inr False
            else if window_lines \<le> int (length current) then Inr True
            else rbind (within_budget (join_lines (current @ [line])) max_chars max_bytes) (\<lambda>b. Inr (\<not> b))) (\<lambda>flush.
     rbind (if flush
            then rbind (close_group content starts group_start current line_index) (\<lambda>g. Inr (groups @ [g], [], line_index))
            else Inr (groups, current, group_start)) (\<lambda>(groups, current, group_start).
     rbind (within_budget line max_chars max_bytes) (\<lambda>b.
     if b then Inr (groups, current @ [line], group_start)
     else
       rbind (if current \<noteq> []
              then rbind (close_group content starts group_start current line_index) (\<lambda>g. Inr (groups @ [g]))
              else Inr groups) (\<lambda>groups.
       rbind (item_at starts line_index) (\<lambda>line_start.
       rbind (split_range content line_start (line_content_end content starts (line_index + 1)) max_chars max_bytes 3) (\<lambda>ranges.
       Inr (groups @ map (\<lambda>(a, b). (a, b, py_slice content a b)) ranges, [], line_index + 1))))))))"

definition line_groups :: "pystr \<Rightarrow> int \<Rightarrow> nat \<Rightarrow> nat \<Rightarrow> (nat \<times> nat \<times> pystr) list result" where
  "line_groups content window_lines max_chars max_bytes =
     (let lines = splitlines content; starts = line_starts content
      in rbind (rfold (line_step content starts window_lines max_chars max_bytes) (List.enumerate 0 lines) ([], [], 0))
           (\<lambda>(groups, current, group_start).
         if current = [] then Inr groups
         else rbind (close_group content starts group_start current (length lines)) (\<lambda>g. Inr (groups @ [g]))))"

definition block_text :: "SourceBlock \<Rightarrow> pystr" where
  "block_text block = (case blk_plain_text block of None \<Rightarrow> [] | Some t \<Rightarrow> t)"

definition line_drafts ::
  "StructuralChunkingConfig \<Rightarrow> SourceBlock \<Rightarrow> RetrievalContentType \<Rightarrow> int \<Rightarrow> Draft list result" where
  "line_drafts cfg block content_type window_lines =
     (let content = strip_newlines (block_text block)
      in if splitlines content = [] then Inr []
         else rbind (body_limits cfg block content_type False) (\<lambda>(max_chars, max_bytes).
              rbind (line_groups content window_lines max_chars max_bytes) (\<lambda>groups.
              rmap (slice_draft block content_type content False) groups)))"

section \<open>Python code\<close>

text \<open>How many lines the next window of a range takes.\<close>

function window_end :: "StructuralChunkingConfig \<Rightarrow> pystr \<Rightarrow> nat list \<Rightarrow> nat \<Rightarrow> nat \<Rightarrow> nat \<Rightarrow> nat \<Rightarrow> nat \<Rightarrow> nat result" where
  "window_end cfg content starts end_line max_chars max_bytes cursor selected_end =
     (if selected_end < end_line \<and> int (selected_end - cursor) < code_window_lines cfg
      then rbind (item_at starts cursor) (\<lambda>start.
           rbind (within_budget (py_slice content start (line_content_end content starts (selected_end + 1))) max_chars max_bytes) (\<lambda>b.
           if cursor < selected_end \<and> \<not> b then Inr selected_end
           else if \<not> b then Inr (selected_end + 1)
           else window_end cfg content starts end_line max_chars max_bytes cursor (selected_end + 1)))
      else Inr selected_end)"
  by pat_completeness auto
termination
  by (relation "measure (\<lambda>(cfg, content, starts, end_line, max_chars, max_bytes, cursor, selected_end). end_line - selected_end)") auto

declare window_end.simps [simp del]

text \<open>The windows of a range of lines. A window takes a line when windows have lines, as every configuration demands;
  otherwise the code would not return.\<close>

function range_drafts ::
  "StructuralChunkingConfig \<Rightarrow> SourceBlock \<Rightarrow> pystr \<Rightarrow> nat list \<Rightarrow> nat \<Rightarrow> nat \<Rightarrow> nat \<Rightarrow> nat \<Rightarrow> Draft list result" where
  "range_drafts cfg block content starts end_line max_chars max_bytes cursor =
     (if cursor < end_line
      then rbind (window_end cfg content starts end_line max_chars max_bytes cursor cursor) (\<lambda>selected_end.
           rbind (item_at starts cursor) (\<lambda>start.
           let stop = line_content_end content starts selected_end; display = py_slice content start stop in
           rbind (within_budget display max_chars max_bytes) (\<lambda>b.
           if \<not> b then
             rbind (split_range content start (line_content_end content starts (cursor + 1)) max_chars max_bytes 3) (\<lambda>ranges.
             rbind (rmap (slice_draft block content_CODE content False) (map (\<lambda>(a, b). (a, b, py_slice content a b)) ranges)) (\<lambda>drafts.
             rbind (range_drafts cfg block content starts end_line max_chars max_bytes (cursor + 1)) (\<lambda>rest.
             Inr (drafts @ rest))))
           else if selected_end \<le> cursor then Inl OtherException
           else rbind (slice_draft block content_CODE content False (start, stop, strip_newlines display)) (\<lambda>draft.
                rbind (range_drafts cfg block content starts end_line max_chars max_bytes selected_end) (\<lambda>rest.
                Inr (draft # rest))))))
      else Inr [])"
  by pat_completeness auto
termination
  by (relation "measure (\<lambda>(cfg, block, content, starts, end_line, max_chars, max_bytes, cursor). end_line - cursor)") auto

declare range_drafts.simps [simp del]

definition line_drafts_for_range ::
  "StructuralChunkingConfig \<Rightarrow> SourceBlock \<Rightarrow> pystr \<Rightarrow> nat \<Rightarrow> nat \<Rightarrow> nat \<Rightarrow> nat \<Rightarrow> Draft list result" where
  "line_drafts_for_range cfg block content first_line end_line max_chars max_bytes =
     range_drafts cfg block content (line_starts content) end_line max_chars max_bytes first_line"

definition structural_range :: "python_node \<Rightarrow> nat \<times> nat" where
  "structural_range node =
     (min_list (pn_lineno node # pn_decorator_linenos node) - 1,
      case pn_end_lineno node of None \<Rightarrow> pn_lineno node | Some e \<Rightarrow> if e = 0 then pn_lineno node else e)"

text \<open>The ranges of the definitions and of the lines between and after them.\<close>

fun fill_ranges :: "nat \<Rightarrow> nat \<Rightarrow> (nat \<times> nat) list \<Rightarrow> (nat \<times> nat) list" where
  "fill_ranges line_total cursor [] = (if cursor < line_total then [(cursor, line_total)] else [])"
| "fill_ranges line_total cursor ((a, b) # rs) = (if cursor < a then [(cursor, a)] else []) @ (a, b) # fill_ranges line_total b rs"

definition python_range_drafts ::
  "StructuralChunkingConfig \<Rightarrow> SourceBlock \<Rightarrow> pystr \<Rightarrow> nat \<Rightarrow> nat \<Rightarrow> nat \<times> nat \<Rightarrow> Draft list result" where
  "python_range_drafts cfg block content max_chars max_bytes = (\<lambda>(first_line, end_line).
     rbind (item_at (line_starts content) first_line) (\<lambda>start.
     let stop = line_content_end content (line_starts content) end_line; segment = py_slice content start stop in
     if blank segment then Inr []
     else rbind (within_budget segment max_chars max_bytes) (\<lambda>b.
          if b \<and> int end_line - int first_line \<le> code_window_lines cfg
          then rbind (slice_draft block content_CODE content False (start, stop, strip_newlines segment)) (\<lambda>draft. Inr [draft])
          else line_drafts_for_range cfg block content first_line end_line max_chars max_bytes)))"

definition python_drafts ::
  "chunking_env \<Rightarrow> StructuralChunkingConfig \<Rightarrow> SourceBlock \<Rightarrow> Draft list option result" where
  "python_drafts env cfg block =
     (let content = strip_newlines (block_text block)
      in if content = [] then Inr (Some [])
         else rbind (ce_parse env content) (\<lambda>body.
         case body of
           None \<Rightarrow> Inr None
         | Some nodes \<Rightarrow>
             let structural = filter pn_structural nodes
             in if structural = []
                then rbind (line_drafts cfg block content_CODE (code_window_lines cfg)) (\<lambda>drafts. Inr (Some drafts))
                else rbind (body_limits cfg block content_CODE False) (\<lambda>(max_chars, max_bytes).
                     rbind (rmap (python_range_drafts cfg block content max_chars max_bytes)
                       (fill_ranges (length (splitlines content)) 0 (map structural_range structural))) (\<lambda>draftss.
                     Inr (Some (concat draftss))))))"

section \<open>Tables\<close>

fun first_fitting :: "nat \<Rightarrow> nat \<Rightarrow> pystr list \<Rightarrow> pystr option result" where
  "first_fitting max_chars max_bytes [] = Inr None"
| "first_fitting max_chars max_bytes (c # cs) =
     rbind (within_budget c max_chars max_bytes) (\<lambda>b. if b then Inr (Some c) else first_fitting max_chars max_bytes cs)"

definition bounded_marker :: "string \<Rightarrow> pystr \<Rightarrow> nat \<Rightarrow> nat \<Rightarrow> pystr result" where
  "bounded_marker kind source max_chars max_bytes =
     rbind (source_fingerprint source) (\<lambda>fingerprint.
     let digest = take 12 fingerprint in
     rbind (first_fitting max_chars max_bytes
       [lit (''['' @ kind @ '' omitted; chars='') @ int_repr (int (length source)) @ lit ''; sha256='' @ digest @ lit '']'',
        lit (''['' @ kind @ '' omitted; sha256='') @ digest @ lit '']'',
        lit (''['' @ kind @ '' omitted]''),
        lit ''~'']) (\<lambda>found.
     case found of
       None \<Rightarrow> Inl (ValueError (''chunk limits cannot represent bounded '' @ kind @ '' marker''))
     | Some marker \<Rightarrow> Inr marker))"

text \<open>The inner loop: how many of the rows fit under the header.\<close>

fun select_rows :: "nat \<Rightarrow> nat \<Rightarrow> int \<Rightarrow> pystr list \<Rightarrow> pystr list \<Rightarrow> pystr list \<Rightarrow> pystr list result" where
  "select_rows max_chars max_bytes limit header selected [] = Inr selected"
| "select_rows max_chars max_bytes limit header selected (row # rows) =
     (if int (length selected) < limit
      then rbind (within_budget (join_lines (header @ selected @ [row])) max_chars max_bytes) (\<lambda>b.
           if b then select_rows max_chars max_bytes limit header (selected @ [row]) rows else Inr selected)
      else Inr selected)"

function table_groups ::
  "StructuralChunkingConfig \<Rightarrow> pystr \<Rightarrow> nat list \<Rightarrow> nat \<Rightarrow> nat \<Rightarrow> pystr list \<Rightarrow> pystr list \<Rightarrow> nat \<Rightarrow>
   (nat \<times> nat \<times> pystr) list result" where
  "table_groups cfg raw starts max_chars max_bytes header rows start =
     (if start < length rows
      then rbind (select_rows max_chars max_bytes (table_rows_per_chunk cfg) header [] (drop start rows)) (\<lambda>selected.
           if selected = [] then
             rbind (bounded_marker ''table row'' (rows ! start) max_chars max_bytes) (\<lambda>marker.
             rbind (item_at starts (2 + start)) (\<lambda>a.
             rbind (table_groups cfg raw starts max_chars max_bytes header rows (start + 1)) (\<lambda>rest.
             Inr ((a, line_content_end raw starts (3 + start), marker) # rest))))
           else
             rbind (item_at starts (if start = 0 then 0 else 2 + start)) (\<lambda>a.
             rbind (table_groups cfg raw starts max_chars max_bytes header rows (start + length selected)) (\<lambda>rest.
             Inr ((a, line_content_end raw starts (2 + start + length selected), join_lines (header @ selected)) # rest))))
      else Inr [])"
  by pat_completeness auto
termination
  by (relation "measure (\<lambda>(cfg, raw, starts, max_chars, max_bytes, header, rows, start). length rows - start)") (auto simp: neq_Nil_conv)

declare table_groups.simps [simp del]

definition whole_draft :: "SourceBlock \<Rightarrow> RetrievalContentType \<Rightarrow> pystr \<Rightarrow> Draft" where
  "whole_draft block content_type display =
     \<lparr>dr_blocks = [block], dr_display = display, dr_content_type = content_type, dr_span = blk_source_span block,
      dr_mergeable = False\<rparr>"

definition table_drafts :: "StructuralChunkingConfig \<Rightarrow> SourceBlock \<Rightarrow> Draft list result" where
  "table_drafts cfg block =
     (let raw = blk_raw_markdown block; lines = splitlines raw in
      rbind (body_limits cfg block content_TABLE False) (\<lambda>(max_chars, max_bytes).
      if length lines \<le> 2 then
        rbind (within_budget raw max_chars max_bytes) (\<lambda>b.
        if b then Inr [whole_draft block content_TABLE raw]
        else rbind (bounded_marker ''table'' raw max_chars max_bytes) (\<lambda>marker. Inr [whole_draft block content_TABLE marker]))
      else
        rbind (table_groups cfg raw (line_starts raw) max_chars max_bytes (take 2 lines) (drop 2 lines) 0) (\<lambda>groups.
        rmap (slice_draft block content_TABLE raw False) groups)))"

section \<open>Blocks\<close>

definition block_content_type :: "BlockType \<Rightarrow> RetrievalContentType" where
  "block_content_type t =
     (case t of block_PARAGRAPH \<Rightarrow> content_TEXT | block_LIST \<Rightarrow> content_LIST | block_BLOCKQUOTE \<Rightarrow> content_BLOCKQUOTE
      | block_CALLOUT \<Rightarrow> content_CALLOUT | _ \<Rightarrow> content_UNKNOWN)"

definition prose_text :: "SourceBlock \<Rightarrow> pystr" where
  "prose_text block =
     (if map_of (blk_attributes block) (lit ''projection_spans'') \<noteq> None \<or> blk_type block = block_PARAGRAPH
      then block_text block else blk_raw_markdown block)"

definition prose_drafts :: "StructuralChunkingConfig \<Rightarrow> SourceBlock \<Rightarrow> Draft list result" where
  "prose_drafts cfg block =
     (let content_type = block_content_type (blk_type block); display = prose_text block in
      rbind (body_limits cfg block content_type (blk_type block = block_PARAGRAPH)) (\<lambda>(max_chars, max_bytes).
      rbind (split_prose_ranges display max_chars max_bytes) (\<lambda>ranged.
      let mergeable = (blk_type block \<in> {block_PARAGRAPH, block_LIST, block_BLOCKQUOTE} \<and> length ranged = 1) in
      rmap (slice_draft block content_type display mergeable)
        (map (\<lambda>(piece, a, b). (a, b, piece)) (filter (\<lambda>(piece, a, b). \<not> blank piece) ranged)))))"

definition block_drafts :: "chunking_env \<Rightarrow> StructuralChunkingConfig \<Rightarrow> SourceBlock \<Rightarrow> Draft list result" where
  "block_drafts env cfg block =
     (if blk_type block = block_CODE then
        let language = ce_casefold env (case blk_language block of None \<Rightarrow> [] | Some l \<Rightarrow> l) in
        rbind (if language \<in> {lit ''py'', lit ''python''} then python_drafts env cfg block else Inr None) (\<lambda>drafts.
        case drafts of
          Some ds \<Rightarrow> Inr ds
        | None \<Rightarrow> line_drafts cfg block content_CODE (code_window_lines cfg))
      else if blk_type block = block_MERMAID then line_drafts cfg block content_MERMAID (mermaid_window_lines cfg)
      else if blk_type block = block_TABLE then table_drafts cfg block
      else prose_drafts cfg block)"

section \<open>Merging\<close>

definition merge_pair :: "StructuralChunkingConfig \<Rightarrow> Draft \<Rightarrow> Draft \<Rightarrow> Draft option result" where
  "merge_pair cfg left right =
     (if dr_content_type left \<noteq> dr_content_type right \<or>
         blk_heading_path (hd (dr_blocks left)) \<noteq> blk_heading_path (hd (dr_blocks right)) \<or>
         dr_content_type left \<notin> {content_TEXT, content_LIST, content_BLOCKQUOTE}
      then Inr None
      else
        let display = dr_display left @ [10, 10] @ dr_display right in
        rbind (body_limits cfg (hd (dr_blocks left)) (dr_content_type left) True) (\<lambda>(max_chars, max_bytes).
        rbind (within_budget display max_chars max_bytes) (\<lambda>b.
        if \<not> b then Inr None
        else rbind (union_span (dr_span left) (dr_span right)) (\<lambda>source_span.
             Inr (Some \<lparr>dr_blocks = dr_blocks left @ dr_blocks right, dr_display = display,
               dr_content_type = dr_content_type left, dr_span = source_span, dr_mergeable = True\<rparr>)))))"

definition merge_step ::
  "StructuralChunkingConfig \<Rightarrow> Draft option \<Rightarrow> Draft list \<times> Draft option \<Rightarrow> (Draft list \<times> Draft option) result" where
  "merge_step cfg item = (\<lambda>(merged, pending).
     case item of
       None \<Rightarrow> Inr (merged @ (case pending of None \<Rightarrow> [] | Some p \<Rightarrow> [p]), None)
     | Some draft \<Rightarrow>
         if \<not> dr_mergeable draft
         then Inr (merged @ (case pending of None \<Rightarrow> [] | Some p \<Rightarrow> [p]) @ [draft], None)
         else case pending of
                None \<Rightarrow> Inr (merged, Some draft)
              | Some p \<Rightarrow>
                  rbind (merge_pair cfg p draft) (\<lambda>candidate.
                  case candidate of
                    Some c \<Rightarrow>
                      if int (length (dr_display p)) < min_chars cfg \<or> int (length (dr_display draft)) < min_chars cfg
                      then Inr (merged, Some c) else Inr (merged @ [p], Some draft)
                  | None \<Rightarrow> Inr (merged @ [p], Some draft)))"

definition merge_small_drafts :: "StructuralChunkingConfig \<Rightarrow> Draft option list \<Rightarrow> Draft list result" where
  "merge_small_drafts cfg stream =
     rbind (rfold (merge_step cfg) stream ([], None)) (\<lambda>(merged, pending).
     Inr (merged @ (case pending of None \<Rightarrow> [] | Some p \<Rightarrow> [p])))"

section \<open>Chunks\<close>

definition CHUNKER_VERSION :: pystr where "CHUNKER_VERSION = lit ''2''"

definition stream_items :: "chunking_env \<Rightarrow> StructuralChunkingConfig \<Rightarrow> SourceBlock \<Rightarrow> Draft option list result" where
  "stream_items env cfg block =
     (if blk_type block \<in> {block_FRONTMATTER, block_HEADING, block_THEMATIC_BREAK} then Inr [None]
      else rbind (block_drafts env cfg block) (\<lambda>drafts. Inr (map Some drafts)))"

definition draft_chunk :: "StructuralChunkingConfig \<Rightarrow> Document \<Rightarrow> nat \<times> Draft \<Rightarrow> RetrievalChunk result" where
  "draft_chunk cfg document = (\<lambda>(position, draft).
     let block = hd (dr_blocks draft); display = dr_display draft; content_type = dr_content_type draft in
     rbind (embedding_text cfg block display content_type) (\<lambda>embedding.
     rbind (estimate_tokens embedding) (\<lambda>estimated_tokens.
     rbind (raise_if (hard_limit_chars cfg < int (length display))
       (ValueError ''chunk display content exceeds hard character limit'')) (\<lambda>_.
     rbind (raise_if (max_tokens cfg < int estimated_tokens)
       (ValueError ''chunk embedding text exceeds estimated token limit'')) (\<lambda>_.
     rbind (source_fingerprint display) (\<lambda>fingerprint.
     rbind (logical_id (lit ''chunk'') ([JStr (doc_id document)] @ map (\<lambda>b. JStr (blk_id b)) (dr_blocks draft) @
       [JInt (int position), JStr fingerprint, JStr CHUNKER_VERSION])) (\<lambda>cid.
     new_RetrievalChunk cid (doc_id document) (map blk_id (dr_blocks draft)) display embedding content_type position
       (blk_heading_path block) (dr_span draft) estimated_tokens)))))))"

definition document_drafts :: "chunking_env \<Rightarrow> StructuralChunkingConfig \<Rightarrow> Document \<Rightarrow> Draft list result" where
  "document_drafts env cfg document =
     rbind (rmap (stream_items env cfg) (doc_blocks document)) (\<lambda>items. merge_small_drafts cfg (concat items))"

definition build_chunks :: "chunking_env \<Rightarrow> StructuralChunkingConfig \<Rightarrow> Document \<Rightarrow> RetrievalChunk list result" where
  "build_chunks env cfg document =
     rbind (document_drafts env cfg document) (\<lambda>drafts. rmap (draft_chunk cfg document) (List.enumerate 0 drafts))"

end
