(* ===== verification/App_Limits.thy ===== *)
theory App_Limits
  imports App_Chunking
begin

text \<open>
  The limits of a chunk: the body limits leave room for the embedding prefix, every draft is cut to the body limits of
  its first block, merging keeps that, and so the two limit checks of \<open>build\<close> never fire.
\<close>

section \<open>Body limits\<close>

definition proper_config :: "StructuralChunkingConfig \<Rightarrow> bool" where
  "proper_config cfg \<longleftrightarrow>
     new_StructuralChunkingConfig (min_chars cfg) (target_chars cfg) (hard_limit_chars cfg) (max_tokens cfg) (overlap_chars cfg)
       (code_window_lines cfg) (table_rows_per_chunk cfg) (mermaid_window_lines cfg) = Inr cfg"

lemma proper_config_iff:
  "proper_config cfg \<longleftrightarrow> 1 \<le> min_chars cfg \<and> min_chars cfg \<le> target_chars cfg \<and> target_chars cfg \<le> hard_limit_chars cfg \<and>
     1 \<le> max_tokens cfg \<and> 0 \<le> overlap_chars cfg \<and> 1 \<le> code_window_lines cfg \<and> 1 \<le> table_rows_per_chunk cfg \<and>
     1 \<le> mermaid_window_lines cfg"
  unfolding proper_config_def new_StructuralChunkingConfig_def
  by (cases cfg) (auto simp: rbind_eq_Inr not_less)

lemma encode_eq_Inr [simp, result_simps]: "encode s = Inr b \<longleftrightarrow> utf8_encodable s \<and> b = utf8_encode s"
  by (auto simp: encode_def)

lemma encodable_append [simp]: "utf8_encodable (s @ t) \<longleftrightarrow> utf8_encodable s \<and> utf8_encodable t"
  by (simp add: utf8_encodable_def)

lemma encodable_intersperse:
  "utf8_encodable sep \<Longrightarrow> (\<And>x. x \<in> set xs \<Longrightarrow> utf8_encodable x) \<Longrightarrow> utf8_encodable (intersperse sep xs)"
  by (induction sep xs rule: intersperse.induct) (auto simp: utf8_encodable_def)

lemma encodable_sublist: "set t \<subseteq> set s \<Longrightarrow> utf8_encodable s \<Longrightarrow> utf8_encodable t"
  by (auto simp: utf8_encodable_def list_all_iff)

lemma intersperse_snoc: "xs \<noteq> [] \<Longrightarrow> intersperse sep (xs @ [x]) = intersperse sep xs @ sep @ x"
  by (induction sep xs rule: intersperse.induct) auto

lemma within_budget_True:
  "within_budget s max_chars max_bytes = Inr True \<longleftrightarrow> utf8_encodable s \<and> within_limits s max_chars max_bytes"
  by (auto simp: within_budget_def within_limits_def rbind_eq_Inr)

lemma shrink_piece_bytes:
  "shrink_piece s max_bytes cursor piece_end = Inr e \<Longrightarrow> cursor < e \<Longrightarrow>
   utf8_encodable (py_slice s cursor e) \<and> length (utf8_encode (py_slice s cursor e)) \<le> max_bytes"
proof (induction s max_bytes cursor piece_end rule: shrink_piece.induct)
  case (1 s max_bytes cursor piece_end)
  from "1.prems"(1) show ?case
    by (subst (asm) shrink_piece.simps)
      (use "1.IH" "1.prems"(2) in \<open>auto simp: rbind_eq_Inr not_less split: if_splits\<close>)
qed

lemma strip_right_split: "s = rev (dropWhile p (rev s)) @ rev (takeWhile p (rev s))"
  using arg_cong [OF takeWhile_dropWhile_id [of p "rev s"], of rev] by (simp only: rev_append rev_rev_ident)

lemma rstrip_bytes: "length (utf8_encode (rstrip s)) \<le> length (utf8_encode s)"
proof -
  have "s = rstrip s @ rev (takeWhile py_isspace (rev s))"
    unfolding rstrip_def by (rule strip_right_split)
  then have "utf8_encode s = utf8_encode (rstrip s) @ utf8_encode (rev (takeWhile py_isspace (rev s)))"
    by (metis utf8_encode_append)
  then show ?thesis by simp
qed

lemma embedding_prefix_bytes:
  assumes "embedding_prefix cfg block content_type = Inr p"
  shows "p = [] \<or> int (length (utf8_encode p)) \<le> max_tokens cfg * 4 - 6"
proof (cases "max_tokens cfg * 4 - 6 \<le> 0")
  case True
  then show ?thesis using assms by (simp add: embedding_prefix_def)
next
  case False
  then obtain prefix stop where p: "shrink_piece prefix (nat (max_tokens cfg * 4 - 6)) 0 (length prefix) = Inr stop"
      "p = rstrip (take stop prefix)"
    using assms by (auto simp: embedding_prefix_def Let_def rbind_eq_Inr)
  show ?thesis
  proof (cases "stop = 0")
    case True
    then show ?thesis using p(2) by (simp add: rstrip_def)
  next
    case stop: False
    then have "length (utf8_encode (take stop prefix)) \<le> nat (max_tokens cfg * 4 - 6)"
      using shrink_piece_bytes [OF p(1)] by (simp add: py_slice_def)
    then show ?thesis using p(2) rstrip_bytes [of "take stop prefix"] False by auto
  qed
qed

text \<open>The limits of a block's body: a proper configuration leaves at least one character of any width.\<close>

lemma body_limits_ok:
  assumes "proper_config cfg" "body_limits cfg block content_type use_target = Inr (c, b)"
  shows "1 \<le> c" "int c \<le> hard_limit_chars cfg" "4 \<le> b"
proof -
  obtain p where p: "embedding_prefix cfg block content_type = Inr p"
      "c = nat (max 1 (min (if use_target then target_chars cfg else hard_limit_chars cfg) (hard_limit_chars cfg)))"
      "b = nat (max 1 (max_tokens cfg * 4 - int (length (utf8_encode p)) - (if p \<noteq> [] then 2 else 0)))"
    using assms(2) by (auto simp: body_limits_def Let_def rbind_eq_Inr)
  show "1 \<le> c" "int c \<le> hard_limit_chars cfg" using p(2) assms(1) by (auto simp: proper_config_iff)
  show "4 \<le> b" using p(3) embedding_prefix_bytes [OF p(1)] assms(1) by (auto simp: proper_config_iff utf8_encode_def)
qed

text \<open>A display that fits the body limits of a block gets an embedding text within the token limit.\<close>

lemma embedding_fits:
  assumes "proper_config cfg" "body_limits cfg block content_type use_target = Inr (c, b)"
    "within_budget display c b = Inr True"
  shows "\<exists>e t. embedding_text cfg block display content_type = Inr e \<and> estimate_tokens e = Inr t \<and> int t \<le> max_tokens cfg"
proof -
  obtain p where p: "embedding_prefix cfg block content_type = Inr p" "utf8_encodable p"
      "b = nat (max 1 (max_tokens cfg * 4 - int (length (utf8_encode p)) - (if p \<noteq> [] then 2 else 0)))"
    using assms(2) by (auto simp: body_limits_def Let_def rbind_eq_Inr)
  have d: "utf8_encodable display" "length (utf8_encode display) \<le> b" using assms(3) by (auto simp: within_budget_True within_limits_def)
  define e where "e = (if p \<noteq> [] then p @ [10, 10] @ display else display)"
  have sep: "utf8_encode (10 # 10 # s) = 10 # 10 # utf8_encode s" "utf8_encodable [10, 10]" for s
    by (simp_all add: utf8_encode_def utf8_char_def utf8_encodable_def surrogate_def)
  have "utf8_encodable e" using p(2) d(1) sep(2) unfolding e_def by (simp add: utf8_encodable_def surrogate_def)
  moreover have "int (length (utf8_encode e)) \<le> 4 * max_tokens cfg"
    using p(3) d(2) embedding_prefix_bytes [OF p(1)] assms(1) sep(1) [of display]
    by (auto simp: e_def utf8_encode_append proper_config_iff)
  ultimately have "estimate_tokens e = Inr (max 1 ((length (utf8_encode e) + 3) div 4))"
      "int (max 1 ((length (utf8_encode e) + 3) div 4)) \<le> max_tokens cfg"
    using assms(1) by (auto simp: estimate_tokens_def encode_def proper_config_iff)
  moreover have "embedding_text cfg block display content_type = Inr e" using p(1) by (simp add: embedding_text_def e_def)
  ultimately show ?thesis by blast
qed

section \<open>Every draft is cut to its limits\<close>

definition pieces_within :: "pystr \<Rightarrow> nat \<Rightarrow> nat \<Rightarrow> (nat \<times> nat) list \<Rightarrow> bool" where
  "pieces_within s c b rs \<longleftrightarrow> (\<forall>(x, y) \<in> set rs. within_budget (py_slice s x y) c b = Inr True)"

lemma pieces_within_simps [simp]:
  "pieces_within s c b []"
  "pieces_within s c b ((x, y) # rs) \<longleftrightarrow> within_budget (py_slice s x y) c b = Inr True \<and> pieces_within s c b rs"
  "pieces_within s c b (rs @ qs) \<longleftrightarrow> pieces_within s c b rs \<and> pieces_within s c b qs"
  by (auto simp: pieces_within_def)

lemma char_pieces_within: "char_pieces s c b cursor stop = Inr rs \<Longrightarrow> pieces_within s c b rs"
proof (induction s c b cursor stop arbitrary: rs rule: char_pieces.induct)
  case (1 s c b cursor stop)
  show ?case
  proof (cases "cursor < stop")
    case True
    then obtain e qs where e: "shrink_piece s b cursor (min stop (cursor + c)) = Inr e" "e \<noteq> cursor"
        "char_pieces s c b e stop = Inr qs" "rs = (cursor, e) # qs"
      using "1.prems" by (subst (asm) char_pieces.simps) (auto simp: rbind_eq_Inr split: if_splits)
    then have "cursor < e" "e \<le> cursor + c" using shrink_piece_bounds [OF e(1)] True by auto
    then show ?thesis using e "1.IH" [OF True e(1,2)] shrink_piece_bytes [OF e(1)]
      by (simp add: within_budget_True within_limits_def length_py_slice)
  next
    case False
    then show ?thesis using "1.prems" by (subst (asm) char_pieces.simps) simp
  qed
qed

lemma pack_units_within:
  assumes "pack_units s units c b split = Inr rs"
    and pieces: "\<And>x y qs. split x y = Inr qs \<Longrightarrow> pieces_within s c b qs"
  shows "pieces_within s c b rs"
proof -
  let ?ok = "\<lambda>(pieces, current). pieces_within s c b (pieces @ (case current of None \<Rightarrow> [] | Some r \<Rightarrow> [r]))"
  obtain st where st: "rfold (pack_unit s c b split) units ([], None) = Inr st"
      "rs = fst st @ (case snd st of None \<Rightarrow> [] | Some r \<Rightarrow> [r])"
    using assms(1) by (fastforce simp: pack_units_def rbind_eq_Inr split: option.splits)
  have "?ok st"
    by (rule rfold_invariant [OF st(1)])
      (auto simp: pack_unit_def rbind_eq_Inr split: if_splits option.splits, (rule pieces, assumption)+)
  with st(2) show ?thesis by (cases st) simp
qed

lemma split_range_within: "split_range s start stop c b level = Inr rs \<Longrightarrow> pieces_within s c b rs"
proof (induction "3 - level" arbitrary: start stop level rs rule: less_induct)
  case less
  obtain f where f: "within_budget (py_slice s start stop) c b = Inr f"
    using less.prems by (subst (asm) split_range.simps) (auto simp: rbind_eq_Inr)
  show ?case
  proof (cases f)
    case True
    then show ?thesis using less.prems f by (subst (asm) split_range.simps) (simp, auto)
  next
    case False
    show ?thesis
    proof (cases "level < 3")
      case True
      then have "3 - Suc level < 3 - level" by simp
      note IH = less.hyps [OF this]
      show ?thesis using less.prems f False True
        by (subst (asm) split_range.simps) (auto simp: Let_def split: if_splits dest: IH pack_units_within [OF _ IH])
    next
      case last: False
      then show ?thesis using less.prems f False by (subst (asm) split_range.simps) (auto dest: char_pieces_within)
    qed
  qed
qed

lemma join_single [simp]: "join_lines [s] = s"
  by (simp add: join_lines_def)

text \<open>The displays of triples of a range and its text.\<close>

definition displays_within :: "nat \<Rightarrow> nat \<Rightarrow> (nat \<times> nat \<times> pystr) list \<Rightarrow> bool" where
  "displays_within c b groups \<longleftrightarrow> (\<forall>(x, y, d) \<in> set groups. within_budget d c b = Inr True)"

lemma displays_within_simps [simp]:
  "displays_within c b []"
  "displays_within c b (g # gs) \<longleftrightarrow> within_budget (snd (snd g)) c b = Inr True \<and> displays_within c b gs"
  "displays_within c b (gs @ hs) \<longleftrightarrow> displays_within c b gs \<and> displays_within c b hs"
  by (auto simp: displays_within_def split_def)

lemma displays_within_pieces: "pieces_within s c b rs \<Longrightarrow> displays_within c b (map (\<lambda>(x, y). (x, y, py_slice s x y)) rs)"
  by (auto simp: displays_within_def pieces_within_def)

lemma close_group_display: "close_group content starts g current i = Inr r \<Longrightarrow> snd (snd r) = join_lines current"
  by (auto simp: close_group_def rbind_eq_Inr)

lemma line_groups_within:
  assumes "line_groups content w c b = Inr groups"
  shows "displays_within c b groups"
proof -
  let ?ok = "\<lambda>(groups, current, g). displays_within c b groups \<and>
    (current \<noteq> [] \<longrightarrow> within_budget (join_lines current) c b = Inr True)"
  obtain gs current g where st: "rfold (line_step content (line_starts content) w c b) (List.enumerate 0 (splitlines content))
      ([], [], 0) = Inr (gs, current, g)"
      "(if current = [] then Inr gs
        else rbind (close_group content (line_starts content) g current (length (splitlines content)))
          (\<lambda>g. Inr (gs @ [g]))) = Inr groups"
    using assms by (auto simp: line_groups_def Let_def rbind_eq_Inr)
  have "?ok (gs, current, g)"
    by (rule rfold_invariant [OF st(1)])
      (auto simp: line_step_def rbind_eq_Inr split: if_splits dest!: close_group_display split_range_within
        intro!: displays_within_pieces)
  with st(2) show ?thesis by (auto simp: rbind_eq_Inr split: if_splits dest!: close_group_display)
qed

lemma strip_newlines_within:
  assumes "within_budget s c b = Inr True"
  shows "within_budget (strip_newlines s) c b = Inr True"
proof -
  obtain u d where d: "s = u @ d" "dropWhile ((=) 10) s = d" by (rule that [OF takeWhile_dropWhile_id [symmetric] refl])
  obtain t v where t: "d = t @ v" "rev (dropWhile ((=) 10) (rev d)) = t" by (rule that [OF strip_right_split [of d "(=) 10"] refl])
  have "strip_newlines s = t" by (simp only: strip_newlines_def d(2) t(2))
  then show ?thesis using assms by (auto simp: d(1) t(1) within_budget_True within_limits_def utf8_encode_append)
qed

lemma bounded_marker_within: "bounded_marker kind source c b = Inr m \<Longrightarrow> within_budget m c b = Inr True"
proof -
  have ff: "first_fitting c b cs = Inr (Some m) \<Longrightarrow> within_budget m c b = Inr True" for cs m
    by (induction cs) (auto simp: rbind_eq_Inr split: if_splits)
  assume "bounded_marker kind source c b = Inr m"
  then show ?thesis 
    by (auto simp: bounded_marker_def Let_def rbind_eq_Inr split: option.splits simp del: first_fitting.simps dest: ff)
qed

lemma select_rows_within:
  "select_rows c b limit header selected rows = Inr qs \<Longrightarrow>
   selected = [] \<or> within_budget (join_lines (header @ selected)) c b = Inr True \<Longrightarrow>
   qs = [] \<or> within_budget (join_lines (header @ qs)) c b = Inr True"
  by (induction rows arbitrary: selected) (auto simp: rbind_eq_Inr split: if_splits)

lemma table_groups_within:
  "table_groups cfg raw starts c b header rows start = Inr groups \<Longrightarrow> displays_within c b groups"
proof (induction cfg raw starts c b header rows start arbitrary: groups rule: table_groups.induct)
  case (1 cfg raw starts c b header rows start)
  show ?case
  proof (cases "start < length rows")
    case True
    then obtain qs where qs: "select_rows c b (table_rows_per_chunk cfg) header [] (drop start rows) = Inr qs"
      using "1.prems" by (subst (asm) table_groups.simps) (auto simp: rbind_eq_Inr)
    show ?thesis
    proof (cases "qs = []")
      case empty: True
      then show ?thesis using "1.prems" True qs "1.IH"(1) [OF True qs empty]
        by (subst (asm) table_groups.simps) (auto simp: rbind_eq_Inr dest: bounded_marker_within)
    next
      case False
      then show ?thesis using "1.prems" True qs "1.IH"(2) [OF True qs False] select_rows_within [OF qs]
        by (subst (asm) table_groups.simps) (auto simp: rbind_eq_Inr)
    qed
  next
    case False
    then show ?thesis using "1.prems" by (subst (asm) table_groups.simps) simp
  qed
qed

section \<open>Drafts\<close>

text \<open>A draft is cut to the body limits of its first block.\<close>

definition draft_fits :: "StructuralChunkingConfig \<Rightarrow> Draft \<Rightarrow> bool" where
  "draft_fits cfg d \<longleftrightarrow> dr_blocks d \<noteq> [] \<and>
     (\<exists>use_target c b. body_limits cfg (hd (dr_blocks d)) (dr_content_type d) use_target = Inr (c, b) \<and>
        within_budget (dr_display d) c b = Inr True)"

lemma draft_fitsI:
  "body_limits cfg block content_type use_target = Inr (c, b) \<Longrightarrow> within_budget (dr_display d) c b = Inr True \<Longrightarrow>
   dr_blocks d = [block] \<Longrightarrow> dr_content_type d = content_type \<Longrightarrow> draft_fits cfg d"
  unfolding draft_fits_def by (metis list.sel(1) list.distinct(1))

definition drafts_of :: "StructuralChunkingConfig \<Rightarrow> SourceBlock \<Rightarrow> Draft list \<Rightarrow> bool" where
  "drafts_of cfg block ds \<longleftrightarrow> (\<forall>d \<in> set ds. dr_blocks d = [block] \<and> draft_fits cfg d)"

lemma drafts_of_simps [simp]:
  "drafts_of cfg block []"
  "drafts_of cfg block (d # ds) \<longleftrightarrow> dr_blocks d = [block] \<and> draft_fits cfg d \<and> drafts_of cfg block ds"
  "drafts_of cfg block (ds @ es) \<longleftrightarrow> drafts_of cfg block ds \<and> drafts_of cfg block es"
  by (auto simp: drafts_of_def)

lemma slice_draft_fields:
  "slice_draft block content_type content m r = Inr d \<Longrightarrow>
   dr_blocks d = [block] \<and> dr_display d = snd (snd r) \<and> dr_content_type d = content_type \<and> dr_mergeable d = m"
  by (cases r) (auto simp: slice_draft_def rbind_eq_Inr)

lemma slice_drafts_fit:
  assumes "rmap (slice_draft block content_type content m) rs = Inr ds" "displays_within c b rs"
    "body_limits cfg block content_type use_target = Inr (c, b)"
  shows "drafts_of cfg block ds"
  unfolding drafts_of_def
proof
  fix d assume "d \<in> set ds"
  with assms(1) obtain r where r: "r \<in> set rs" "slice_draft block content_type content m r = Inr d" by (rule rmap_set)
  then have "within_budget (snd (snd r)) c b = Inr True" using assms(2) by (auto simp: displays_within_def split_def)
  with slice_draft_fields [OF r(2)] assms(3) show "dr_blocks d = [block] \<and> draft_fits cfg d"
    by (auto simp: draft_fits_def)
qed

lemma line_drafts_fit: "line_drafts cfg block content_type w = Inr ds \<Longrightarrow> drafts_of cfg block ds"
  unfolding line_drafts_def Let_def
  by (auto simp del: rmap_eq_Inr simp: rbind_eq_Inr split: if_splits elim!: slice_drafts_fit dest: line_groups_within)

lemma table_drafts_fit: "table_drafts cfg block = Inr ds \<Longrightarrow> drafts_of cfg block ds"
proof -
  assume ds: "table_drafts cfg block = Inr ds"
  then obtain c b where l: "body_limits cfg block content_TABLE False = Inr (c, b)"
    by (auto simp: table_drafts_def Let_def rbind_eq_Inr)
  have whole: "drafts_of cfg block [whole_draft block content_TABLE t]" if "within_budget t c b = Inr True" for t
    using draft_fitsI [OF l, of "whole_draft block content_TABLE t"] that by (simp add: whole_draft_def)
  show ?thesis using ds l unfolding table_drafts_def Let_def
    by (auto simp del: rmap_eq_Inr drafts_of_simps simp: rbind_eq_Inr split: if_splits
        elim!: slice_drafts_fit dest: table_groups_within bounded_marker_within intro!: whole)
qed

lemma prose_drafts_fit: "prose_drafts cfg block = Inr ds \<Longrightarrow> drafts_of cfg block ds"
proof -
  assume "prose_drafts cfg block = Inr ds"
  then obtain c b ranged m where r:
      "body_limits cfg block (block_content_type (blk_type block)) (blk_type block = block_PARAGRAPH) = Inr (c, b)"
      "split_prose_ranges (prose_text block) c b = Inr ranged"
      "rmap (slice_draft block (block_content_type (blk_type block)) (prose_text block) m)
        (map (\<lambda>(piece, a, b). (a, b, piece)) (filter (\<lambda>(piece, a, b). \<not> blank piece) ranged)) = Inr ds"
    by (auto simp del: rmap_eq_Inr simp: prose_drafts_def Let_def rbind_eq_Inr)
  have "\<forall>(piece, x, y) \<in> set ranged. within_budget piece c b = Inr True"
    using r(2) by (auto simp: split_prose_ranges_def rbind_eq_Inr pieces_within_def split: if_splits dest!: split_range_within)
  then have "displays_within c b (map (\<lambda>(piece, a, b). (a, b, piece)) (filter (\<lambda>(piece, a, b). \<not> blank piece) ranged))"
    by (auto simp: displays_within_def)
  from slice_drafts_fit [OF r(3) this r(1)] show ?thesis .
qed

lemma range_drafts_fit:
  "range_drafts cfg block content starts end_line c b cursor = Inr ds \<Longrightarrow>
   body_limits cfg block content_CODE use_target = Inr (c, b) \<Longrightarrow> drafts_of cfg block ds"
proof (induction cfg block content starts end_line c b cursor arbitrary: ds rule: range_drafts.induct)
  case (1 cfg block content starts end_line c b cursor)
  show ?case
  proof (cases "cursor < end_line")
    case True
    then obtain e start f where e: "window_end cfg content starts end_line c b cursor cursor = Inr e"
        "item_at starts cursor = Inr start"
        "within_budget (py_slice content start (line_content_end content starts e)) c b = Inr f"
      using "1.prems"(1) by (subst (asm) range_drafts.simps) (auto simp: rbind_eq_Inr Let_def)
    show ?thesis
    proof (cases f)
      case False
      then obtain rs es rest where
        "split_range content start (line_content_end content starts (cursor + 1)) c b 3 = Inr rs"
        "rmap (slice_draft block content_CODE content False) (map (\<lambda>(a, b). (a, b, py_slice content a b)) rs) = Inr es"
        "range_drafts cfg block content starts end_line c b (cursor + 1) = Inr rest" "ds = es @ rest"
        using "1.prems"(1) True e
        by (subst (asm) range_drafts.simps) (auto simp del: rmap_eq_Inr simp: rbind_eq_Inr Let_def)
      then show ?thesis using "1.IH"(1) [OF True e(1,2) refl refl e(3)] False "1.prems"(2)
        by (auto simp del: rmap_eq_Inr intro!: slice_drafts_fit displays_within_pieces split_range_within)
    next
      case True': True
      then obtain d rest where
        "slice_draft block content_CODE content False (start, line_content_end content starts e,
           strip_newlines (py_slice content start (line_content_end content starts e))) = Inr d"
        "\<not> e \<le> cursor" "range_drafts cfg block content starts end_line c b e = Inr rest" "ds = d # rest"
        using "1.prems"(1) True e
        by (subst (asm) range_drafts.simps) (auto simp: rbind_eq_Inr Let_def split: if_splits)
      then show ?thesis using "1.IH"(2) [OF True e(1,2) refl refl e(3)] True' "1.prems"(2) strip_newlines_within e(3)
        by (auto dest!: slice_draft_fields intro!: draft_fitsI)
    qed
  next
    case False
    then show ?thesis using "1.prems" by (subst (asm) range_drafts.simps) simp
  qed
qed

lemma drafts_of_concat: "(\<And>ds. ds \<in> set dss \<Longrightarrow> drafts_of cfg block ds) \<Longrightarrow> drafts_of cfg block (concat dss)"
  by (auto simp: drafts_of_def)

lemma python_range_drafts_fit:
  assumes "python_range_drafts cfg block content c b r = Inr ds" "body_limits cfg block content_CODE use_target = Inr (c, b)"
  shows "drafts_of cfg block ds"
  using assms unfolding python_range_drafts_def line_drafts_for_range_def Let_def
  by (auto simp: rbind_eq_Inr split: if_splits prod.splits
      elim: range_drafts_fit intro!: draft_fitsI strip_newlines_within dest!: slice_draft_fields)

lemma python_drafts_fit:
  assumes "python_drafts env cfg block = Inr (Some ds)"
  shows "drafts_of cfg block ds"
proof -
  let ?content = "strip_newlines (block_text block)"
  from assms consider "ds = []" | "line_drafts cfg block content_CODE (code_window_lines cfg) = Inr ds"
    | c b rs dss where "body_limits cfg block content_CODE False = Inr (c, b)"
        "rmap (python_range_drafts cfg block ?content c b) rs = Inr dss" "ds = concat dss"
    unfolding python_drafts_def Let_def
    by (auto simp del: rmap_eq_Inr simp: rbind_eq_Inr split: if_splits option.splits)
  then show ?thesis
  proof cases
    case 3
    then show ?thesis by (auto intro!: drafts_of_concat elim!: rmap_set elim: python_range_drafts_fit)
  qed (simp_all add: line_drafts_fit)
qed

lemma block_drafts_fit: "block_drafts env cfg block = Inr ds \<Longrightarrow> drafts_of cfg block ds"
  unfolding block_drafts_def Let_def
  by (auto simp: rbind_eq_Inr line_drafts_fit table_drafts_fit prose_drafts_fit python_drafts_fit
      split: if_splits option.splits)

lemma merge_pair_Some:
  assumes "merge_pair cfg p d = Inr (Some m)"
  shows "dr_blocks m = dr_blocks p @ dr_blocks d \<and> dr_display m = dr_display p @ [10, 10] @ dr_display d \<and>
    dr_content_type m = dr_content_type p \<and> dr_content_type d = dr_content_type p \<and> dr_mergeable m \<and>
    blk_heading_path (hd (dr_blocks p)) = blk_heading_path (hd (dr_blocks d)) \<and>
    (\<exists>c b. body_limits cfg (hd (dr_blocks p)) (dr_content_type p) True = Inr (c, b) \<and>
      within_budget (dr_display m) c b = Inr True) \<and>
    union_span (dr_span p) (dr_span d) = Inr (dr_span m)"
  using assms unfolding merge_pair_def Let_def
  by (auto simp: rbind_eq_Inr simp del: within_budget_True split: if_splits)

lemma merge_pair_fits: "merge_pair cfg p d = Inr (Some m) \<Longrightarrow> draft_fits cfg p \<Longrightarrow> draft_fits cfg m"
  unfolding draft_fits_def using merge_pair_Some [of cfg p d m] by (metis hd_append2 append_is_Nil_conv)

text \<open>The transitions of the loop.\<close>

lemma merge_step_cases:
  assumes "merge_step cfg item (merged, pending) = Inr (merged', pending')"
  obtains (barrier) "item = None" "merged' = merged @ (case pending of None \<Rightarrow> [] | Some p \<Rightarrow> [p])" "pending' = None"
  | (alone) d where "item = Some d" "\<not> dr_mergeable d"
      "merged' = merged @ (case pending of None \<Rightarrow> [] | Some p \<Rightarrow> [p]) @ [d]" "pending' = None"
  | (first) d where "item = Some d" "dr_mergeable d" "pending = None" "merged' = merged" "pending' = Some d"
  | (join) d p m where "item = Some d" "dr_mergeable d" "pending = Some p" "merge_pair cfg p d = Inr (Some m)"
      "int (length (dr_display p)) < min_chars cfg \<or> int (length (dr_display d)) < min_chars cfg"
      "merged' = merged" "pending' = Some m"
  | (apart) d p where "item = Some d" "dr_mergeable d" "pending = Some p" "merged' = merged @ [p]" "pending' = Some d"
proof (cases item)
  case None
  then show ?thesis using assms barrier by (simp add: merge_step_def)
next
  case (Some d)
  show ?thesis
  proof (cases "dr_mergeable d")
    case False
    then show ?thesis using assms Some alone by (simp add: merge_step_def)
  next
    case True
    show ?thesis
    proof (cases pending)
      case None
      then show ?thesis using assms Some True first by (simp add: merge_step_def)
    next
      case (Some p)
      with assms \<open>item = Some d\<close> True obtain r where r: "merge_pair cfg p d = Inr r"
        by (auto simp: merge_step_def rbind_eq_Inr)
      show ?thesis using assms \<open>item = Some d\<close> True Some r apart join
        by (cases r) (auto simp: merge_step_def split: if_splits)
    qed
  qed
qed

lemma merge_small_drafts_fit:
  assumes "merge_small_drafts cfg stream = Inr drafts" "\<forall>d. Some d \<in> set stream \<longrightarrow> draft_fits cfg d"
  shows "\<forall>d \<in> set drafts. draft_fits cfg d"
proof -
  let ?ok = "\<lambda>(merged, pending). (\<forall>d \<in> set merged. draft_fits cfg d) \<and> (\<forall>p. pending = Some p \<longrightarrow> draft_fits cfg p)"
  obtain merged pending where st: "rfold (merge_step cfg) stream ([], None) = Inr (merged, pending)"
      "drafts = merged @ (case pending of None \<Rightarrow> [] | Some p \<Rightarrow> [p])"
    using assms(1) by (auto simp: merge_small_drafts_def rbind_eq_Inr)
  have "?ok (merged, pending)"
    by (rule rfold_invariant [OF st(1)])
      (use assms(2) in \<open>auto elim!: merge_step_cases split: option.splits dest: merge_pair_fits\<close>)
  then show ?thesis using st(2) by (auto split: option.splits)
qed

end
