(* ===== verification/App_Merging.thy ===== *)
theory App_Merging
  imports App_Limits
begin

text \<open>
  The merging of small drafts against its specification: the drafts are cut into runs of neighbours, no run crosses a
  heading, and each run becomes one draft.
\<close>

section \<open>Runs\<close>

definition joined_display :: "Draft list \<Rightarrow> pystr" where
  "joined_display ds = intersperse [10, 10] (map dr_display ds)"

text \<open>A draft made of a run: the same draft when the run has one, else the texts in order, the same kind and the same
  heading, a span that covers all, and at each join one side shorter than the minimum.\<close>

definition merged_from :: "StructuralChunkingConfig \<Rightarrow> Draft list \<Rightarrow> Draft \<Rightarrow> bool" where
  "merged_from cfg ds m \<longleftrightarrow>
     ds \<noteq> [] \<and> (length ds = 1 \<longrightarrow> ds = [m]) \<and>
     dr_blocks m = concat (map dr_blocks ds) \<and> dr_display m = joined_display ds \<and>
     (\<forall>d \<in> set ds. dr_content_type d = dr_content_type m \<and>
        blk_heading_path (hd (dr_blocks d)) = blk_heading_path (hd (dr_blocks m)) \<and>
        sp_start_line (dr_span m) \<le> sp_start_line (dr_span d) \<and> sp_end_line (dr_span d) \<le> sp_end_line (dr_span m)) \<and>
     (1 < length ds \<longrightarrow> (\<forall>d \<in> set ds. dr_mergeable d) \<and> int (length (dr_display m)) \<le> target_chars cfg) \<and>
     (\<forall>before d after. ds = before @ d # after \<and> before \<noteq> [] \<longrightarrow>
        int (length (dr_display d)) < min_chars cfg \<or> int (length (joined_display before)) < min_chars cfg)"

text \<open>The stream the runs come from: an empty run stands for a block that separates.\<close>

definition stream_of :: "Draft list list \<Rightarrow> Draft option list" where
  "stream_of runs = concat (map (\<lambda>run. if run = [] then [None] else map Some run) runs)"

lemma stream_of_simps [simp]:
  "stream_of [] = []"
  "stream_of (runs @ [run]) = stream_of runs @ (if run = [] then [None] else map Some run)"
  by (simp_all add: stream_of_def)

lemma merged_from_single [simp]: "merged_from cfg [d] d"
  by (auto simp: merged_from_def joined_display_def Cons_eq_append_conv)

lemma new_span_lines: "new_SourceSpan a b c d = Inr s \<Longrightarrow> sp_start_line s = a \<and> sp_end_line s = b"
  unfolding new_SourceSpan_def by (auto simp: rbind_eq_Inr)

lemma union_span_lines:
  assumes "union_span left right = Inr s"
  shows "sp_start_line s = min (sp_start_line left) (sp_start_line right)" "sp_end_line s = max (sp_end_line left) (sp_end_line right)"
  using assms unfolding union_span_def Let_def by (auto split: option.splits prod.splits dest!: new_span_lines)

lemma merged_from_join:
  assumes "proper_config cfg" "merged_from cfg ds p" "merge_pair cfg p d = Inr (Some m)"
    "\<forall>x \<in> set ds. dr_mergeable x" "dr_mergeable d" "\<forall>x \<in> set (ds @ [d]). dr_blocks x \<noteq> []"
    "int (length (dr_display p)) < min_chars cfg \<or> int (length (dr_display d)) < min_chars cfg"
  shows "merged_from cfg (ds @ [d]) m"
proof -
  note m = merge_pair_Some [OF assms(3)]
  have ds: "ds \<noteq> []" "dr_blocks p = concat (map dr_blocks ds)" "dr_display p = joined_display ds"
      "\<forall>d \<in> set ds. dr_content_type d = dr_content_type p \<and>
        blk_heading_path (hd (dr_blocks d)) = blk_heading_path (hd (dr_blocks p)) \<and>
        sp_start_line (dr_span p) \<le> sp_start_line (dr_span d) \<and> sp_end_line (dr_span d) \<le> sp_end_line (dr_span p)"
      "\<forall>before d after. ds = before @ d # after \<and> before \<noteq> [] \<longrightarrow>
        int (length (dr_display d)) < min_chars cfg \<or> int (length (joined_display before)) < min_chars cfg"
    using assms(2) unfolding merged_from_def by blast+
  have "dr_blocks p \<noteq> []" using ds(1,2) assms(6) by (cases ds) auto
  then have hd_m: "hd (dr_blocks m) = hd (dr_blocks p)" using m by simp
  have u: "union_span (dr_span p) (dr_span d) = Inr (dr_span m)" using m by blast
  have lines: "sp_start_line (dr_span m) = min (sp_start_line (dr_span p)) (sp_start_line (dr_span d))"
      "sp_end_line (dr_span m) = max (sp_end_line (dr_span p)) (sp_end_line (dr_span d))"
    by (rule union_span_lines [OF u])+
  obtain c b where l: "body_limits cfg (hd (dr_blocks p)) (dr_content_type p) True = Inr (c, b)"
      "within_budget (dr_display m) c b = Inr True" using m by blast
  then have "c = nat (max 1 (min (target_chars cfg) (hard_limit_chars cfg)))"
    by (auto simp: body_limits_def Let_def rbind_eq_Inr)
  then have size: "int (length (dr_display m)) \<le> target_chars cfg"
    using l(2) assms(1) by (auto simp: within_budget_True within_limits_def proper_config_iff)
  have joins: "int (length (dr_display x)) < min_chars cfg \<or> int (length (joined_display before)) < min_chars cfg"
    if "ds @ [d] = before @ x # after" "before \<noteq> []" for before x after
  proof (cases after rule: rev_cases)
    case Nil
    then show ?thesis using that(1) assms(7) ds(3) by auto
  next
    case (snoc ys y)
    then have "ds = before @ x # ys" using that(1) by auto
    then show ?thesis using ds(5) that(2) by blast
  qed
  show ?thesis
    unfolding merged_from_def
  proof (intro conjI)
    show "dr_display m = joined_display (ds @ [d])" using m ds(1,3) by (simp add: joined_display_def intersperse_snoc)
    show "\<forall>x \<in> set (ds @ [d]). dr_content_type x = dr_content_type m \<and>
        blk_heading_path (hd (dr_blocks x)) = blk_heading_path (hd (dr_blocks m)) \<and>
        sp_start_line (dr_span m) \<le> sp_start_line (dr_span x) \<and> sp_end_line (dr_span x) \<le> sp_end_line (dr_span m)"
      using ds(4) m hd_m lines by auto
  qed (use ds(1,2) m assms(4,5) size joins in auto)
qed

section \<open>The loop\<close>

abbreviation nonempty_runs :: "Draft list list \<Rightarrow> Draft list list" where
  "nonempty_runs runs \<equiv> filter (\<lambda>run. run \<noteq> []) runs"

text \<open>After a part of the stream: the runs of the merged drafts and, last, the open run of the pending draft.\<close>

definition merge_state :: "StructuralChunkingConfig \<Rightarrow> Draft list list \<Rightarrow> Draft list \<times> Draft option \<Rightarrow> bool" where
  "merge_state cfg runs = (\<lambda>(merged, pending).
     case pending of
       None \<Rightarrow> list_all2 (merged_from cfg) (nonempty_runs runs) merged
     | Some p \<Rightarrow> \<exists>closed run. runs = closed @ [run] \<and> list_all2 (merged_from cfg) (nonempty_runs closed) merged \<and>
         merged_from cfg run p \<and> (\<forall>d \<in> set run. dr_mergeable d))"

lemma merge_state_closed:
  "merge_state cfg runs (merged, pending) \<Longrightarrow>
   list_all2 (merged_from cfg) (nonempty_runs runs) (merged @ (case pending of None \<Rightarrow> [] | Some p \<Rightarrow> [p]))"
  by (auto simp: merge_state_def merged_from_def list_all2_appendI split: option.splits)

lemma merge_state_step:
  assumes "proper_config cfg" "merge_state cfg runs st" "merge_step cfg item st = Inr st'"
    "\<forall>d. item = Some d \<or> Some d \<in> set (stream_of runs) \<longrightarrow> dr_blocks d \<noteq> []"
  shows "\<exists>runs'. stream_of runs' = stream_of runs @ [item] \<and> merge_state cfg runs' st'"
proof -
  obtain merged pending merged' pending' where st: "st = (merged, pending)" "st' = (merged', pending')"
    by (cases st, cases st')
  note closed = merge_state_closed [OF assms(2) [unfolded st(1)]]
  from assms(3) st have "merge_step cfg item (merged, pending) = Inr (merged', pending')" by simp
  then show ?thesis
  proof (cases rule: merge_step_cases)
    case barrier
    then show ?thesis using closed st by (intro exI [of _ "runs @ [[]]"]) (simp add: merge_state_def)
  next
    case (alone d)
    then show ?thesis using list_all2_appendI [OF closed, of "[[d]]" "[d]"] st
      by (intro exI [of _ "runs @ [[d]]"]) (simp add: merge_state_def)
  next
    case (first d)
    then show ?thesis using closed st by (intro exI [of _ "runs @ [[d]]"]) (auto simp: merge_state_def)
  next
    case (apart d p)
    then show ?thesis using closed st by (intro exI [of _ "runs @ [[d]]"]) (auto simp: merge_state_def)
  next
    case (join d p m)
    then obtain closed_runs run where r: "runs = closed_runs @ [run]" "list_all2 (merged_from cfg) (nonempty_runs closed_runs) merged"
        "merged_from cfg run p" "\<forall>d \<in> set run. dr_mergeable d"
      using assms(2) st by (auto simp: merge_state_def)
    have ne: "run \<noteq> []" using r(3) by (simp add: merged_from_def)
    have "\<forall>x \<in> set (run @ [d]). dr_blocks x \<noteq> []" using assms(4) join(1) r(1) ne by (auto simp: image_iff)
    from merged_from_join [OF assms(1) r(3) join(4) r(4) join(2) this join(5)]
    show ?thesis using r st join ne by (intro exI [of _ "closed_runs @ [run @ [d]]"]) (auto simp: merge_state_def)
  qed
qed

lemma merge_loop_runs:
  assumes "proper_config cfg" "rfold (merge_step cfg) stream ([], None) = Inr st"
    "\<forall>d. Some d \<in> set stream \<longrightarrow> dr_blocks d \<noteq> []"
  shows "\<exists>runs. stream_of runs = stream \<and> merge_state cfg runs st"
  using assms(2,3)
proof (induction stream arbitrary: st rule: rev_induct)
  case Nil
  then show ?case by (intro exI [of _ "[]"]) (auto simp: merge_state_def)
next
  case (snoc item stream)
  then obtain st0 where st0: "rfold (merge_step cfg) stream ([], None) = Inr st0" "merge_step cfg item st0 = Inr st"
    by (auto simp: rfold_append rbind_eq_Inr)
  with snoc obtain runs where runs: "stream_of runs = stream" "merge_state cfg runs st0" by fastforce
  with merge_state_step [OF assms(1) runs(2) st0(2)] snoc.prems(2) show ?case by auto
qed

lemma merge_small_drafts_partition:
  assumes "proper_config cfg" "merge_small_drafts cfg stream = Inr drafts" "\<forall>d. Some d \<in> set stream \<longrightarrow> dr_blocks d \<noteq> []"
  shows "\<exists>runs. stream_of runs = stream \<and> list_all2 (merged_from cfg) (nonempty_runs runs) drafts"
proof -
  obtain merged pending where m: "rfold (merge_step cfg) stream ([], None) = Inr (merged, pending)"
      "drafts = merged @ (case pending of None \<Rightarrow> [] | Some p \<Rightarrow> [p])"
    using assms(2) by (auto simp: merge_small_drafts_def rbind_eq_Inr)
  from merge_loop_runs [OF assms(1) m(1) assms(3)] merge_state_closed m(2) show ?thesis by blast
qed

end
