(* ===== verification/App_Chunks.thy ===== *)
theory App_Chunks
  imports App_Merging
begin

text \<open>
  The properties of the chunks of a document: when \<open>build\<close> returns, the limits, the order and the parents of its chunks.
\<close>

section \<open>Identifiers\<close>

lemma encodable_concat: "(\<And>x. x \<in> set xs \<Longrightarrow> utf8_encodable x) \<Longrightarrow> utf8_encodable (concat xs)"
  by (auto simp: utf8_encodable_def list_all_iff)

lemma encodable_escape: "\<not> surrogate c \<Longrightarrow> utf8_encodable (escape_char c)"
  unfolding escape_char_def
  by (simp add: utf8_encodable_def lit_def surrogate_def digit_char_def split: if_splits) auto

lemma encodable_json_string: "utf8_encodable s \<Longrightarrow> utf8_encodable (json_string s)"
proof -
  assume s: "utf8_encodable s"
  have "utf8_encodable (concat (map escape_char s))"
    by (rule encodable_concat) (use s encodable_escape in \<open>auto simp: utf8_encodable_def list_all_iff\<close>)
  then show ?thesis by (simp add: json_string_def utf8_encodable_def surrogate_def)
qed

lemma encodable_int: "utf8_encodable (int_repr i)"
  using nat_digits_range by (force simp: int_repr_def utf8_encodable_def surrogate_def list_all_iff)

lemma encodable_unify: "utf8_encodable s \<Longrightarrow> utf8_encodable (unify_newlines s)"
  by (induction s rule: unify_newlines.induct) (auto simp: utf8_encodable_def surrogate_def)

lemma source_fingerprint_ok:
  assumes "utf8_encodable s"
  shows "\<exists>b. source_fingerprint s = Inr (hexdigest b)"
proof -
  have "set (strip t) \<subseteq> set t" for t
    unfolding strip_def rstrip_def lstrip_def by (auto dest!: set_dropWhileD)
  then have "utf8_encodable (strip (unify_newlines s))" using encodable_sublist encodable_unify assms by blast
  then show ?thesis by (auto simp: source_fingerprint_def encode_def)
qed

lemma logical_id_ok:
  assumes "\<And>s. JStr s \<in> set parts \<Longrightarrow> utf8_encodable s" "\<And>p. p \<in> set parts \<Longrightarrow> (\<exists>s. p = JStr s) \<or> (\<exists>i. p = JInt i)"
  shows "\<exists>d. logical_id kind parts = Inr (kind @ 95 # d)"
proof -
  have "utf8_encodable (canonical_json p)" if "p \<in> set parts" for p
    using assms(2) [OF that] assms(1) that by (auto simp: encodable_int encodable_json_string)
  then have "utf8_encodable (intersperse [44] (map canonical_json parts))"
    by (intro encodable_intersperse) (auto simp: utf8_encodable_def surrogate_def)
  then have "utf8_encodable (canonical_json (JArr parts))" by (simp add: utf8_encodable_def surrogate_def)
  then show ?thesis by (simp add: logical_id_def encode_def)
qed

section \<open>When a document gets its chunks\<close>

lemma stream_items_fit: "stream_items env cfg block = Inr items \<Longrightarrow> Some d \<in> set items \<Longrightarrow> dr_blocks d = [block] \<and> draft_fits cfg d"
  by (auto simp: stream_items_def rbind_eq_Inr drafts_of_def split: if_splits dest!: block_drafts_fit)

lemma document_drafts_fit:
  assumes "document_drafts env cfg document = Inr drafts"
  shows "\<forall>d \<in> set drafts. draft_fits cfg d"
proof -
  obtain items where i: "rmap (stream_items env cfg) (doc_blocks document) = Inr items"
      "merge_small_drafts cfg (concat items) = Inr drafts"
    using assms by (auto simp del: rmap_eq_Inr simp: document_drafts_def rbind_eq_Inr)
  show ?thesis
  proof (rule merge_small_drafts_fit [OF i(2)], intro allI impI)
    fix d assume "Some d \<in> set (concat items)"
    then obtain its where "its \<in> set items" "Some d \<in> set its" by auto
    with i(1) stream_items_fit show "draft_fits cfg d" by (meson rmap_set)
  qed
qed

lemma draft_fits_limits:
  assumes "proper_config cfg" "draft_fits cfg d"
  shows "int (length (dr_display d)) \<le> hard_limit_chars cfg" "utf8_encodable (dr_display d)"
    "\<exists>e t. embedding_text cfg (hd (dr_blocks d)) (dr_display d) (dr_content_type d) = Inr e \<and> estimate_tokens e = Inr t \<and>
       int t \<le> max_tokens cfg"
proof -
  obtain u c b where l: "body_limits cfg (hd (dr_blocks d)) (dr_content_type d) u = Inr (c, b)"
      "within_budget (dr_display d) c b = Inr True"
    using assms(2) by (auto simp: draft_fits_def)
  show "int (length (dr_display d)) \<le> hard_limit_chars cfg" "utf8_encodable (dr_display d)"
    using l(2) body_limits_ok(2) [OF assms(1) l(1)] by (auto simp: within_budget_True within_limits_def)
  show "\<exists>e t. embedding_text cfg (hd (dr_blocks d)) (dr_display d) (dr_content_type d) = Inr e \<and> estimate_tokens e = Inr t \<and>
      int t \<le> max_tokens cfg" by (rule embedding_fits [OF assms(1) l])
qed

text \<open>A document whose identifiers can be encoded.\<close>

definition proper_document :: "Document \<Rightarrow> bool" where
  "proper_document document \<longleftrightarrow>
     doc_id document \<noteq> [] \<and> utf8_encodable (doc_id document) \<and>
     list_all (\<lambda>block. utf8_encodable (blk_id block)) (doc_blocks document)"

lemma draft_chunk_builds:
  assumes "proper_config cfg" "doc_id document \<noteq> []" "utf8_encodable (doc_id document)" "draft_fits cfg d"
    "\<And>block. block \<in> set (dr_blocks d) \<Longrightarrow> utf8_encodable (blk_id block)"
  shows "\<exists>cid e t. draft_chunk cfg document (i, d) =
      new_RetrievalChunk cid (doc_id document) (map blk_id (dr_blocks d)) (dr_display d) e (dr_content_type d) i
        (blk_heading_path (hd (dr_blocks d))) (dr_span d) t \<and> cid \<noteq> [] \<and> 1 \<le> t \<and> (blank e \<longrightarrow> blank (dr_display d))"
proof -
  note l = draft_fits_limits [OF assms(1,4)]
  obtain e t where e: "embedding_text cfg (hd (dr_blocks d)) (dr_display d) (dr_content_type d) = Inr e"
      "estimate_tokens e = Inr t" "int t \<le> max_tokens cfg" using l(3) by blast
  obtain b where b: "source_fingerprint (dr_display d) = Inr (hexdigest b)" using source_fingerprint_ok [OF l(2)] by blast
  have "utf8_encodable (hexdigest b)"
    using hexdigest_hex [of b] by (auto simp: utf8_encodable_def surrogate_def hex_digit_def list_all_iff)
  then obtain cid where cid: "logical_id (lit ''chunk'') ([JStr (doc_id document)] @ map (\<lambda>b. JStr (blk_id b)) (dr_blocks d) @
       [JInt (int i), JStr (hexdigest b), JStr CHUNKER_VERSION]) = Inr (lit ''chunk'' @ 95 # cid)"
    using logical_id_ok [of "[JStr (doc_id document)] @ map (\<lambda>b. JStr (blk_id b)) (dr_blocks d) @
       [JInt (int i), JStr (hexdigest b), JStr CHUNKER_VERSION]" "lit ''chunk''"] assms(3,5)
    by (fastforce simp: CHUNKER_VERSION_def lit_def utf8_encodable_def surrogate_def)
  have "blank e \<longrightarrow> blank (dr_display d)"
    using e(1) by (auto simp: embedding_text_def rbind_eq_Inr blank_iff split: if_splits)
  moreover have "1 \<le> t" using e(2) by (auto simp: estimate_tokens_def rbind_eq_Inr)
  moreover have "draft_chunk cfg document (i, d) =
      new_RetrievalChunk (lit ''chunk'' @ 95 # cid) (doc_id document) (map blk_id (dr_blocks d)) (dr_display d) e
        (dr_content_type d) i (blk_heading_path (hd (dr_blocks d))) (dr_span d) t"
    using e(3) l(1) cid
    by (simp add: draft_chunk_def Let_def e(1,2) b raise_if_def del: append_Cons append_Nil)
  ultimately show ?thesis by (intro exI [of _ "lit ''chunk'' @ 95 # cid"] exI [of _ e] exI [of _ t]) simp
qed

lemma draft_chunk_iff:
  assumes "proper_config cfg" "doc_id document \<noteq> []" "utf8_encodable (doc_id document)" "draft_fits cfg d"
    "\<And>block. block \<in> set (dr_blocks d) \<Longrightarrow> utf8_encodable (blk_id block)"
  shows "(\<exists>chunk. draft_chunk cfg document (i, d) = Inr chunk) \<longleftrightarrow> \<not> blank (dr_display d)"
proof -
  obtain cid e t where c: "draft_chunk cfg document (i, d) =
      new_RetrievalChunk cid (doc_id document) (map blk_id (dr_blocks d)) (dr_display d) e (dr_content_type d) i
        (blk_heading_path (hd (dr_blocks d))) (dr_span d) t" "cid \<noteq> []" "1 \<le> t" "blank e \<longrightarrow> blank (dr_display d)"
    using draft_chunk_builds [OF assms] by blast
  have "dr_blocks d \<noteq> []" using assms(4) by (simp add: draft_fits_def)
  with c assms(2) show ?thesis by (auto simp: new_RetrievalChunk_def raise_if_def)
qed

lemma draft_chunk_blank:
  assumes "proper_config cfg" "doc_id document \<noteq> []" "utf8_encodable (doc_id document)" "draft_fits cfg d"
    "\<And>block. block \<in> set (dr_blocks d) \<Longrightarrow> utf8_encodable (blk_id block)" "blank (dr_display d)"
  shows "draft_chunk cfg document (i, d) = Inl (ValueError ''display_content and embedding_text are required'')"
proof -
  obtain cid e t where "draft_chunk cfg document (i, d) =
      new_RetrievalChunk cid (doc_id document) (map blk_id (dr_blocks d)) (dr_display d) e (dr_content_type d) i
        (blk_heading_path (hd (dr_blocks d))) (dr_span d) t" "cid \<noteq> []"
    using draft_chunk_builds [OF assms(1-5)] by blast
  moreover have "dr_blocks d \<noteq> []" using assms(4) by (simp add: draft_fits_def)
  ultimately show ?thesis using assms(2,6) by (simp add: new_RetrievalChunk_def)
qed

lemma rmap_fails:
  "(\<And>x. x \<in> set xs \<Longrightarrow> (\<exists>y. f x = Inr y) \<or> f x = Inl e) \<Longrightarrow> x \<in> set xs \<Longrightarrow> f x = Inl e \<Longrightarrow> rmap f xs = Inl e"
proof (induction xs)
  case (Cons z zs)
  from Cons.prems(1) [of z] consider y where "f z = Inr y" | "f z = Inl e" by auto
  then show ?case
  proof cases
    case 1
    then have "x \<in> set zs" using Cons.prems(2,3) by auto
    then have "rmap f zs = Inl e" using Cons.IH Cons.prems by simp
    with 1 show ?thesis by simp
  qed simp
qed simp

lemma rmap_returns: "(\<exists>ys. rmap f xs = Inr ys) \<longleftrightarrow> (\<forall>x \<in> set xs. \<exists>y. f x = Inr y)"
  by (induction xs) (auto simp del: rmap_eq_Inr simp: rbind_eq_Inr)

section \<open>The blocks of the drafts, in order\<close>

definition item_blocks :: "Draft option \<Rightarrow> SourceBlock list" where
  "item_blocks item = (case item of None \<Rightarrow> [] | Some d \<Rightarrow> dr_blocks d)"

lemma concat_item_blocks: "concat (map (item_blocks \<circ> Some) run) = concat (map dr_blocks run)"
  by (simp add: item_blocks_def comp_def)

lemma list_all2_map_eq: "list_all2 R xs ys \<Longrightarrow> (\<And>x y. R x y \<Longrightarrow> g y = f x) \<Longrightarrow> map g ys = map f xs"
  by (induction rule: list_all2_induct) auto

lemma runs_blocks:
  assumes "list_all2 (merged_from cfg) (nonempty_runs runs) drafts"
  shows "concat (map dr_blocks drafts) = concat (map item_blocks (stream_of runs))"
proof -
  have "map dr_blocks drafts = map (\<lambda>run. concat (map dr_blocks run)) (nonempty_runs runs)"
    using assms by (rule list_all2_map_eq) (simp add: merged_from_def)
  moreover have "concat (map (\<lambda>run. concat (map dr_blocks run)) (nonempty_runs runs)) = concat (map item_blocks (stream_of runs))"
    by (induction runs) (auto simp: stream_of_def item_blocks_def comp_def)
  ultimately show ?thesis by simp
qed

lemma stream_items_blocks:
  assumes "stream_items env cfg block = Inr items"
  shows "\<exists>n. concat (map item_blocks items) = replicate n block"
proof -
  have "\<forall>i \<in> set items. item_blocks i \<in> {[], [block]}"
    using stream_items_fit [OF assms] by (auto simp: item_blocks_def split: option.splits)
  then show ?thesis
  proof (induction items)
    case (Cons i items)
    then obtain n where n: "concat (map item_blocks items) = replicate n block" by auto
    from Cons.prems consider "item_blocks i = []" | "item_blocks i = [block]" by auto
    then show ?case
    proof cases
      case 1
      then show ?thesis using n by (intro exI [of _ n]) simp
    next
      case 2
      then show ?thesis using n by (intro exI [of _ "Suc n"]) simp
    qed
  qed (simp add: exI [of _ 0])
qed

text \<open>How often a block appears among the drafts.\<close>

lemma document_drafts_runs:
  assumes "proper_config cfg" "document_drafts env cfg document = Inr drafts"
  shows "\<exists>items runs. rmap (stream_items env cfg) (doc_blocks document) = Inr items \<and> stream_of runs = concat items \<and>
    list_all2 (merged_from cfg) (nonempty_runs runs) drafts"
proof -
  obtain items where i: "rmap (stream_items env cfg) (doc_blocks document) = Inr items"
      "merge_small_drafts cfg (concat items) = Inr drafts"
    using assms(2) by (auto simp del: rmap_eq_Inr simp: document_drafts_def rbind_eq_Inr)
  have "\<forall>d. Some d \<in> set (concat items) \<longrightarrow> dr_blocks d \<noteq> []"
  proof (intro allI impI)
    fix d assume "Some d \<in> set (concat items)"
    then obtain its where "its \<in> set items" "Some d \<in> set its" by auto
    with i(1) stream_items_fit show "dr_blocks d \<noteq> []" by (metis rmap_set list.distinct(1))
  qed
  from merge_small_drafts_partition [OF assms(1) i(2) this] i(1) show ?thesis by blast
qed

lemma document_drafts_blocks:
  assumes "proper_config cfg" "document_drafts env cfg document = Inr drafts"
  shows "\<exists>ns. length ns = length (doc_blocks document) \<and>
    concat (map dr_blocks drafts) = concat (map2 replicate ns (doc_blocks document))"
proof -
  obtain items runs where r: "rmap (stream_items env cfg) (doc_blocks document) = Inr items" "stream_of runs = concat items"
      "list_all2 (merged_from cfg) (nonempty_runs runs) drafts" using document_drafts_runs [OF assms] by blast
  have "list_all2 (\<lambda>block its. stream_items env cfg block = Inr its) (doc_blocks document) items"
    using r(1) by (simp add: rmap_eq_Inr)
  then have "\<exists>ns. length ns = length (doc_blocks document) \<and>
      concat (map item_blocks (concat items)) = concat (map2 replicate ns (doc_blocks document))"
  proof (induction rule: list_all2_induct)
    case (Cons block blocks its items)
    then obtain ns where "length ns = length blocks"
        "concat (map item_blocks (concat items)) = concat (map2 replicate ns blocks)" by blast
    moreover obtain n where "concat (map item_blocks its) = replicate n block" using stream_items_blocks [OF Cons.hyps(1)] by blast
    ultimately show ?case by (intro exI [of _ "n # ns"]) simp
  qed simp
  with runs_blocks [OF r(3)] r(2) show ?thesis by simp
qed

section \<open>The chunks\<close>

lemma document_drafts_parents:
  assumes "proper_config cfg" "document_drafts env cfg document = Inr drafts" "d \<in> set drafts" "block \<in> set (dr_blocks d)"
  shows "block \<in> set (doc_blocks document)"
proof -
  obtain ns where "concat (map dr_blocks drafts) = concat (map2 replicate ns (doc_blocks document))"
    using document_drafts_blocks [OF assms(1,2)] by blast
  moreover have "block \<in> set (concat (map dr_blocks drafts))" using assms(3,4) by auto
  ultimately have "block \<in> set (concat (map2 replicate ns (doc_blocks document)))" by metis
  then show ?thesis by (auto dest: set_zip_rightD)
qed

lemma all_enumerate: "(\<forall>x \<in> set (List.enumerate 0 xs). P x) \<longleftrightarrow> (\<forall>i < length xs. P (i, xs ! i))"
  by (simp add: all_set_conv_all_nth nth_enumerate_eq)

lemma document_draft_proper:
  assumes "proper_config cfg" "proper_document document" "document_drafts env cfg document = Inr drafts" "d \<in> set drafts"
  shows "doc_id document \<noteq> []" "utf8_encodable (doc_id document)" "draft_fits cfg d"
    "\<And>block. block \<in> set (dr_blocks d) \<Longrightarrow> utf8_encodable (blk_id block)"
proof -
  show "doc_id document \<noteq> []" "utf8_encodable (doc_id document)" using assms(2) by (simp_all add: proper_document_def)
  show "draft_fits cfg d" using document_drafts_fit [OF assms(3)] assms(4) by blast
  show "utf8_encodable (blk_id block)" if "block \<in> set (dr_blocks d)" for block
    using document_drafts_parents [OF assms(1,3,4) that] assms(2) by (simp add: proper_document_def list_all_iff)
qed

lemma document_draft_chunk:
  assumes "proper_config cfg" "proper_document document" "document_drafts env cfg document = Inr drafts" "d \<in> set drafts"
  shows "(\<exists>chunk. draft_chunk cfg document (i, d) = Inr chunk) \<longleftrightarrow> \<not> blank (dr_display d)"
    "blank (dr_display d) \<Longrightarrow>
       draft_chunk cfg document (i, d) = Inl (ValueError ''display_content and embedding_text are required'')"
  by (rule draft_chunk_iff [OF assms(1) document_draft_proper [OF assms]], assumption)
    (rule draft_chunk_blank [OF assms(1) document_draft_proper [OF assms]])

lemma build_chunks_returns_iff:
  assumes "proper_config cfg" "proper_document document" "document_drafts env cfg document = Inr drafts"
  shows "(\<exists>chunks. build_chunks env cfg document = Inr chunks) \<longleftrightarrow> (\<forall>d \<in> set drafts. \<not> blank (dr_display d))"
proof -
  have "(\<forall>x \<in> set (List.enumerate 0 drafts). \<exists>chunk. draft_chunk cfg document x = Inr chunk) \<longleftrightarrow>
      (\<forall>i < length drafts. \<not> blank (dr_display (drafts ! i)))"
    unfolding all_enumerate by (simp add: document_draft_chunk(1) [OF assms nth_mem])
  then show ?thesis by (simp add: build_chunks_def assms(3) rmap_returns all_set_conv_all_nth del: rmap_eq_Inr)
qed

lemma draft_chunk_fields:
  assumes "draft_chunk cfg document (i, d) = Inr chunk"
  shows "chk_index chunk = i \<and> chk_document_id chunk = doc_id document \<and>
    chk_parent_block_ids chunk = map blk_id (dr_blocks d) \<and> chk_display_content chunk = dr_display d \<and>
    chk_content_type chunk = dr_content_type d \<and> chk_source_span chunk = dr_span d \<and>
    chk_heading_path chunk = blk_heading_path (hd (dr_blocks d)) \<and>
    int (length (dr_display d)) \<le> hard_limit_chars cfg \<and> \<not> blank (dr_display d) \<and>
    embedding_text cfg (hd (dr_blocks d)) (dr_display d) (dr_content_type d) = Inr (chk_embedding_text chunk) \<and>
    estimate_tokens (chk_embedding_text chunk) = Inr (chk_estimated_tokens chunk) \<and>
    int (chk_estimated_tokens chunk) \<le> max_tokens cfg"
  using assms unfolding draft_chunk_def new_RetrievalChunk_def Let_def
  by (auto simp: rbind_eq_Inr)

lemma build_chunks_drafts:
  assumes "build_chunks env cfg document = Inr cs"
  shows "\<exists>drafts. document_drafts env cfg document = Inr drafts \<and>
    list_all2 (\<lambda>(i, d) chunk. draft_chunk cfg document (i, d) = Inr chunk) (List.enumerate 0 drafts) cs"
  using assms by (auto simp: build_chunks_def rbind_eq_Inr rmap_eq_Inr split_def)

lemma build_chunks_fields:
  assumes "build_chunks env cfg document = Inr cs"
  shows "\<exists>drafts. document_drafts env cfg document = Inr drafts \<and> length cs = length drafts \<and>
    (\<forall>i < length drafts. draft_chunk cfg document (i, drafts ! i) = Inr (cs ! i))"
proof -
  obtain drafts where d: "document_drafts env cfg document = Inr drafts"
      "list_all2 (\<lambda>(i, d) chunk. draft_chunk cfg document (i, d) = Inr chunk) (List.enumerate 0 drafts) cs"
    using build_chunks_drafts [OF assms] by blast
  then show ?thesis by (auto simp: list_all2_conv_all_nth nth_enumerate_eq)
qed

section \<open>Properties\<close>

text \<open>C28: the limits hold by construction. Every draft of a document respects the character limit, and its embedding text
  can be built and stays within the token limit, so that the two limit checks of \<open>build\<close> never refuse one: a document
  with drafts gets its chunks exactly when none of the drafts is blank.\<close>

theorem build_limits_by_construction:
  assumes "proper_config cfg" "proper_document document" "document_drafts env cfg document = Inr drafts"
  shows "(\<forall>d \<in> set drafts. int (length (dr_display d)) \<le> hard_limit_chars cfg \<and>
      (\<exists>e t. embedding_text cfg (hd (dr_blocks d)) (dr_display d) (dr_content_type d) = Inr e \<and> estimate_tokens e = Inr t \<and>
         int t \<le> max_tokens cfg)) \<and>
    ((\<exists>chunks. build_chunks env cfg document = Inr chunks) \<longleftrightarrow> (\<forall>d \<in> set drafts. \<not> blank (dr_display d)))"
  using draft_fits_limits [OF assms(1)] document_drafts_fit [OF assms(3)] build_chunks_returns_iff [OF assms] by blast


text \<open>C29: the chunks of a document are numbered from 0 in the order of its blocks: their parents, read in order, are the
  blocks of the document, each repeated as often as it has chunks or parts of one. Every chunk has a parent, whose
  heading it carries, a text that is not blank and within the limit, and a token estimate of its embedding text.\<close>

theorem build_chunks_ordered:
  assumes "proper_config cfg" "build_chunks env cfg document = Inr cs"
  shows "map chk_index cs = [0..<length cs] \<and>
    (\<exists>ns. length ns = length (doc_blocks document) \<and>
       concat (map chk_parent_block_ids cs) = map blk_id (concat (map2 replicate ns (doc_blocks document)))) \<and>
    (\<forall>chunk \<in> set cs. \<not> blank (chk_display_content chunk) \<and>
       int (length (chk_display_content chunk)) \<le> hard_limit_chars cfg \<and>
       estimate_tokens (chk_embedding_text chunk) = Inr (chk_estimated_tokens chunk) \<and>
       int (chk_estimated_tokens chunk) \<le> max_tokens cfg \<and>
       (\<exists>block \<in> set (doc_blocks document). \<exists>others. chk_parent_block_ids chunk = blk_id block # others \<and>
          chk_heading_path chunk = blk_heading_path block))"
proof -
  obtain drafts where d: "document_drafts env cfg document = Inr drafts" "length cs = length drafts"
      "\<And>i. i < length drafts \<Longrightarrow> draft_chunk cfg document (i, drafts ! i) = Inr (cs ! i)"
    using build_chunks_fields [OF assms(2)] by blast
  note f = draft_chunk_fields [OF d(3)]
  have "map chk_index cs = [0..<length cs]" by (rule nth_equalityI) (use f d(2) in auto)
  moreover have "map chk_parent_block_ids cs = map (\<lambda>d. map blk_id (dr_blocks d)) drafts"
    by (rule nth_equalityI) (use f d(2) in auto)
  then have "concat (map chk_parent_block_ids cs) = map blk_id (concat (map dr_blocks drafts))"
    by (simp add: map_concat comp_def)
  moreover have "\<exists>block \<in> set (doc_blocks document). \<exists>others. chk_parent_block_ids (cs ! i) = blk_id block # others \<and>
      chk_heading_path (cs ! i) = blk_heading_path block" if i: "i < length drafts" for i
  proof -
    have ne: "dr_blocks (drafts ! i) \<noteq> []" using document_drafts_fit [OF d(1)] i by (simp add: draft_fits_def)
    then have "hd (dr_blocks (drafts ! i)) \<in> set (doc_blocks document)"
      using document_drafts_parents [OF assms(1) d(1), of "drafts ! i"] i by simp
    then show ?thesis using f [OF i] ne by (intro bexI exI [of _ "map blk_id (tl (dr_blocks (drafts ! i)))"]) (cases "dr_blocks (drafts ! i)", auto)
  qed
  ultimately show ?thesis using document_drafts_blocks [OF assms(1) d(1)] f d(2)
    by (auto simp: in_set_conv_nth)
qed

text \<open>A blank draft refuses the whole document. When one of the drafts of a document shows only white space, as a
  window of blank lines of a code block does, \<open>build\<close> raises the error of the chunk's constructor.\<close>

theorem blank_draft_refuses_document:
  assumes "proper_config cfg" "proper_document document" "document_drafts env cfg document = Inr drafts"
    "d \<in> set drafts" "blank (dr_display d)"
  shows "build_chunks env cfg document = Inl (ValueError ''display_content and embedding_text are required'')"
proof -
  note each = document_draft_chunk [OF assms(1-3)]
  obtain i where i: "i < length drafts" "drafts ! i = d" using assms(4) by (auto simp: in_set_conv_nth)
  have "rmap (draft_chunk cfg document) (List.enumerate 0 drafts) =
      Inl (ValueError ''display_content and embedding_text are required'')"
  proof (rule rmap_fails [where x = "(i, d)"])
    show "(i, d) \<in> set (List.enumerate 0 drafts)" using i by (auto simp: in_set_enumerate_eq)
    show "draft_chunk cfg document (i, d) = Inl (ValueError ''display_content and embedding_text are required'')"
      by (rule each(2) [OF assms(4,5)])
    fix x assume "x \<in> set (List.enumerate 0 drafts)"
    then have "snd x \<in> set drafts" by (auto simp: in_set_enumerate_eq dest!: sym [of _ "snd x"])
    then show "(\<exists>chunk. draft_chunk cfg document x = Inr chunk) \<or>
        draft_chunk cfg document x = Inl (ValueError ''display_content and embedding_text are required'')"
      using each [of "snd x" "fst x"] unfolding prod.collapse by blast
  qed
  then show ?thesis by (simp add: build_chunks_def assms(3))
qed

end
