(* ===== verification/App_Lines.thy ===== *)
theory App_Lines
  imports App_Limits
begin

text \<open>
  The windows of lines that code and diagrams are cut into: they tile the content, and each shows its lines or a piece
  of one line that is too long.
\<close>

section \<open>The starts of the lines\<close>

lemma running_sums_nth: "i \<le> length xs \<Longrightarrow> running_sums n xs ! i = n + sum_list (take i xs)"
proof (induction n xs arbitrary: i rule: running_sums.induct)
  case (2 n x xs)
  then show ?case by (cases i) auto
qed simp

lemma length_running_sums [simp]: "length (running_sums n xs) = Suc (length xs)"
  by (induction n xs rule: running_sums.induct) auto

lemma line_parts_nonempty: "(b, t) \<in> set (line_parts s) \<Longrightarrow> b @ t \<noteq> [] \<and> set b \<subseteq> set s"
proof (induction s rule: line_parts.induct)
  case (1 s)
  let ?b = "takeWhile (\<lambda>c. \<not> is_line_break c) s" and ?d = "dropWhile (\<lambda>c. \<not> is_line_break c) s"
  have s: "?b @ ?d = s" by (rule takeWhile_dropWhile_id)
  show ?case
  proof (cases "s = []")
    case False
    show ?thesis
    proof (cases ?d)
      case Nil
      with s have b: "?b = s" by simp
      with Nil have "line_parts s = [(s, [])]" using False by (subst line_parts.simps) (simp only: Let_def, simp)
      then show ?thesis using "1.prems" False by simp
    next
      case (Cons c rest)
      have sub: "set ?b \<subseteq> set s" "set rest \<subseteq> set s" using set_dropWhileD [of _ "\<lambda>c. \<not> is_line_break c" s] Cons
        by (auto dest: set_takeWhileD)
      show ?thesis
      proof (cases "c = 13 \<and> rest \<noteq> [] \<and> hd rest = 10")
        case True
        have "set (tl rest) \<subseteq> set s" using sub(2) True by (meson list.set_sel(2) subset_iff)
        then show ?thesis using "1.prems" "1.IH"(1) [OF False refl Cons True] False Cons True sub
          by (subst (asm) line_parts.simps) (auto simp: Let_def)
      next
        case no: False
        then show ?thesis using "1.prems" "1.IH"(2) [OF False refl Cons no] False Cons sub
          by (subst (asm) line_parts.simps) (auto simp: Let_def split: if_splits)
      qed
    qed
  qed (use "1.prems" in \<open>simp add: line_parts.simps\<close>)
qed

lemma splitlines_sub: "line \<in> set (splitlines s) \<Longrightarrow> set line \<subseteq> set s"
  using line_parts_nonempty by (fastforce simp: splitlines_def)

lemma line_starts_eq: "line_starts s = running_sums 0 (map length (splitlines_keep s))"
proof -
  have "sum_list (map length (splitlines_keep s)) = length s"
    using concat_splitlines_keep [of s] by (metis length_concat)
  then have "last (running_sums 0 (map length (splitlines_keep s))) = length s"
    using running_sums_nth [of "length (splitlines_keep s)" "map length (splitlines_keep s)" 0]
    by (subst last_conv_nth) (auto simp: length_0_conv [symmetric] simp del: length_0_conv)
  then show ?thesis by (simp add: line_starts_def Let_def)
qed

lemma line_starts_props:
  "length (line_starts s) = Suc (length (splitlines s))"
  "line_starts s ! 0 = 0"
  "line_starts s ! length (splitlines s) = length s"
  "i < length (splitlines s) \<Longrightarrow> line_starts s ! i < line_starts s ! Suc i"
  "i \<le> j \<Longrightarrow> j \<le> length (splitlines s) \<Longrightarrow> line_starts s ! i \<le> line_starts s ! j"
proof -
  let ?ls = "map length (splitlines_keep s)"
  have sum: "sum_list ?ls = length s" using concat_splitlines_keep [of s] by (metis length_concat)
  show "length (line_starts s) = Suc (length (splitlines s))" by (simp add: line_starts_eq length_splitlines)
  show "line_starts s ! 0 = 0" by (simp add: line_starts_eq running_sums_nth)
  show "line_starts s ! length (splitlines s) = length s"
    using sum by (simp add: line_starts_eq running_sums_nth length_splitlines)
  have step: "line_starts s ! i < line_starts s ! Suc i" if "i < length (splitlines s)" for i
  proof -
    have i: "i < length (splitlines_keep s)" using that by (simp add: length_splitlines)
    then have "splitlines_keep s ! i \<noteq> []" using line_parts_nonempty
      by (fastforce simp: splitlines_keep_def split_def dest: nth_mem)
    then show ?thesis using i by (simp add: line_starts_eq running_sums_nth take_Suc_conv_app_nth)
  qed
  then show "i < length (splitlines s) \<Longrightarrow> line_starts s ! i < line_starts s ! Suc i" .
  show "line_starts s ! i \<le> line_starts s ! j" if "i \<le> j" "j \<le> length (splitlines s)"
    using that
  proof (induction j rule: dec_induct)
    case (step k)
    then show ?case using \<open>\<And>i. i < length (splitlines s) \<Longrightarrow> line_starts s ! i < line_starts s ! Suc i\<close> [of k] by simp
  qed simp
qed

lemma line_content_end_nth:
  "i \<le> length (splitlines s) \<Longrightarrow> line_content_end s (line_starts s) i = line_starts s ! i"
  by (simp add: line_content_end_def line_starts_props)

section \<open>A loop over the positions of a list\<close>

lemma rfold_positions:
  assumes "P 0 st" "\<And>i st. i < length xs \<Longrightarrow> P i st \<Longrightarrow> \<exists>st'. f (i, xs ! i) st = Inr st' \<and> P (Suc i) st'"
  shows "\<exists>st'. rfold f (List.enumerate 0 xs) st = Inr st' \<and> P (length xs) st'"
  using assms
proof (induction xs arbitrary: st rule: rev_induct)
  case (snoc x xs)
  have "\<exists>st'. rfold f (List.enumerate 0 xs) st = Inr st' \<and> P (length xs) st'"
  proof (rule snoc.IH [OF snoc.prems(1)])
    fix i st assume "i < length xs" "P i st"
    then show "\<exists>st'. f (i, xs ! i) st = Inr st' \<and> P (Suc i) st'" using snoc.prems(2) [of i st] by (simp add: nth_append)
  qed
  then obtain s1 where s1: "rfold f (List.enumerate 0 xs) st = Inr s1" "P (length xs) s1" by blast
  with snoc.prems(2) [of "length xs" s1] obtain s2 where "f (length xs, x) s1 = Inr s2" "P (Suc (length xs)) s2" by auto
  then show ?case using s1 by (auto simp: enumerate_append_eq rfold_append)
qed simp

section \<open>The groups\<close>

text \<open>A group: consecutive lines, at most a window of them, joined by line feeds; or a piece of one line that does not fit.\<close>

definition line_group :: "pystr \<Rightarrow> int \<Rightarrow> nat \<Rightarrow> nat \<Rightarrow> nat \<times> nat \<times> pystr \<Rightarrow> bool" where
  "line_group content w c b = (\<lambda>(x, y, display).
     within_limits display c b \<and>
     ((\<exists>i j. i < j \<and> j \<le> length (splitlines content) \<and> int (j - i) \<le> max 1 w \<and>
         x = line_starts content ! i \<and> y = line_starts content ! j \<and>
         display = join_lines (py_slice (splitlines content) i j)) \<or>
      (\<exists>i < length (splitlines content). \<not> within_limits (splitlines content ! i) c b \<and>
         line_starts content ! i \<le> x \<and> y \<le> line_starts content ! Suc i \<and> display = py_slice content x y)))"

definition group_ranges :: "(nat \<times> nat \<times> pystr) list \<Rightarrow> (nat \<times> nat) list" where
  "group_ranges groups = map (\<lambda>(x, y, display). (x, y)) groups"

lemma group_ranges_simps [simp]:
  "group_ranges [] = []" "group_ranges ((x, y, d) # gs) = (x, y) # group_ranges gs"
  "group_ranges (gs @ hs) = group_ranges gs @ group_ranges hs"
  "group_ranges (map (\<lambda>(a, b). (a, b, f a b)) rs) = rs"
  by (auto simp: group_ranges_def comp_def split_def)

text \<open>The state of the loop before a line.\<close>

definition groups_state ::
  "pystr \<Rightarrow> int \<Rightarrow> nat \<Rightarrow> nat \<Rightarrow> nat \<Rightarrow> (nat \<times> nat \<times> pystr) list \<times> pystr list \<times> nat \<Rightarrow> bool" where
  "groups_state content w c b i = (\<lambda>(groups, current, g).
     g + length current = i \<and> current = py_slice (splitlines content) g i \<and>
     tiles 0 (group_ranges groups) (line_starts content ! g) \<and> list_all (line_group content w c b) groups \<and>
     (current \<noteq> [] \<longrightarrow> within_limits (join_lines current) c b \<and> int (length current) \<le> max 1 w))"

lemma close_group_ok:
  assumes "groups_state content w c b i (groups, current, g)" "i \<le> length (splitlines content)" "current \<noteq> []"
  shows "\<exists>r. close_group content (line_starts content) g current i = Inr r \<and> groups_state content w c b i (groups @ [r], [], i)"
proof -
  have g: "g < i" "i - g = length current" using assms(1,3) by (auto simp: groups_state_def)
  have "line_starts content ! g < line_starts content ! i"
    using line_starts_props(4) [of g content] line_starts_props(5) [of "Suc g" i content] g(1) assms(2) by simp
  moreover have "line_group content w c b (line_starts content ! g, line_starts content ! i, join_lines current)"
    unfolding line_group_def prod.case
    by (intro conjI disjI1 exI [of _ g] exI [of _ i]) (use assms g in \<open>auto simp: groups_state_def\<close>)
  ultimately show ?thesis
    using assms g line_content_end_nth [OF assms(2)] line_starts_props(1) [of content]
    by (auto simp: close_group_def item_at_def groups_state_def py_slice_empty)
qed

lemma encodable_join: "(\<And>l. l \<in> set ls \<Longrightarrow> utf8_encodable l) \<Longrightarrow> utf8_encodable (join_lines ls)"
  unfolding join_lines_def by (rule encodable_intersperse) (simp_all add: utf8_encodable_def surrogate_def)

lemma lines_encodable: "utf8_encodable content \<Longrightarrow> line \<in> set (splitlines content) \<Longrightarrow> utf8_encodable line"
  using splitlines_sub encodable_sublist by blast

lemma py_slice_snoc: "g \<le> i \<Longrightarrow> i < length xs \<Longrightarrow> py_slice xs g (Suc i) = py_slice xs g i @ [xs ! i]"
  by (simp add: py_slice_def Suc_diff_le take_Suc_conv_app_nth)

text \<open>A line is added to an open group that has room for it, or opens one.\<close>

lemma add_line_state:
  assumes "groups_state content w c b i (groups, current, g)" "i < length (splitlines content)"
    "within_limits (splitlines content ! i) c b"
    "current \<noteq> [] \<Longrightarrow> int (length current) < w \<and> within_limits (join_lines (current @ [splitlines content ! i])) c b"
  shows "groups_state content w c b (Suc i) (groups, current @ [splitlines content ! i], g)"
  using assms by (cases "current = []") (auto simp: groups_state_def py_slice_snoc)

text \<open>A line that is too long is cut on its own.\<close>

lemma cut_line_state:
  assumes "utf8_encodable content" "4 \<le> b" "1 \<le> c" "groups_state content w c b i (groups, [], i)"
    "i < length (splitlines content)" "\<not> within_limits (splitlines content ! i) c b"
  shows "\<exists>rs. split_range content (line_starts content ! i) (line_starts content ! Suc i) c b 3 = Inr rs \<and>
    groups_state content w c b (Suc i) (groups @ map (\<lambda>(x, y). (x, y, py_slice content x y)) rs, [], Suc i)"
proof -
  have "line_starts content ! i < line_starts content ! Suc i" "line_starts content ! Suc i \<le> length content"
    using line_starts_props(4) [OF assms(5)] line_starts_props(5) [of "Suc i" "length (splitlines content)" content]
      line_starts_props(3) [of content] assms(5) by auto
  from split_range_fits [OF assms(1-3) this] obtain rs where rs:
      "split_range content (line_starts content ! i) (line_starts content ! Suc i) c b 3 = Inr rs"
      "tiles (line_starts content ! i) rs (line_starts content ! Suc i)"
      "list_all (\<lambda>(x, y). within_limits (py_slice content x y) c b) rs" by (auto simp: fitting_def)
  have "list_all (line_group content w c b) (map (\<lambda>(x, y). (x, y, py_slice content x y)) rs)"
    using rs(3) tiles_in [OF rs(2)] assms(5,6) by (fastforce simp: list_all_iff line_group_def)
  with rs assms(4) show ?thesis by (auto simp: groups_state_def py_slice_empty)
qed

lemma line_step_ok:
  assumes "utf8_encodable content" "4 \<le> b" "1 \<le> c" "groups_state content w c b i st" "i < length (splitlines content)"
  shows "\<exists>st'. line_step content (line_starts content) w c b (i, splitlines content ! i) st = Inr st' \<and>
    groups_state content w c b (Suc i) st'"
proof -
  obtain groups current g where st: "st = (groups, current, g)" by (cases st)
  let ?line = "splitlines content ! i"
  have enc: "utf8_encodable ?line" using lines_encodable [OF assms(1)] assms(5) by simp
  note budget = within_budget_ok [OF enc]
  have cur: "set current \<subseteq> set (splitlines content)"
    using assms(4) set_py_slice [of "splitlines content" g i] by (auto simp: st groups_state_def)
  have jb: "within_budget (join_lines (current @ [?line])) c b = Inr (within_limits (join_lines (current @ [?line])) c b)"
    by (rule within_budget_ok, rule encodable_join) (use cur enc lines_encodable [OF assms(1)] in auto)
  define flush where "flush \<longleftrightarrow> current \<noteq> [] \<and> (w \<le> int (length current) \<or> \<not> within_limits (join_lines (current @ [?line])) c b)"
  have le: "i \<le> length (splitlines content)" using assms(5) by simp
  obtain gs cs h where step1: "(if flush
      then rbind (close_group content (line_starts content) g current i) (\<lambda>r. Inr (groups @ [r], [], i))
      else Inr (groups, current, g)) = Inr (gs, cs, h)" "groups_state content w c b i (gs, cs, h)"
      "cs \<noteq> [] \<Longrightarrow> int (length cs) < w \<and> within_limits (join_lines (cs @ [?line])) c b"
  proof (cases flush)
    case True
    then have ne: "current \<noteq> []" by (simp add: flush_def)
    obtain r where r: "close_group content (line_starts content) g current i = Inr r"
        "groups_state content w c b i (groups @ [r], [], i)" using close_group_ok [OF assms(4) [unfolded st] le ne] by blast
    show ?thesis by (rule that [of "groups @ [r]" "[]" i]) (use True r in simp_all)
  next
    case False
    show ?thesis by (rule that [of groups current g]) (use False assms(4) st in \<open>auto simp: flush_def\<close>)
  qed
  have decide: "(if current = [] then Inr False else if w \<le> int (length current) then Inr True
      else rbind (within_budget (join_lines (current @ [?line])) c b) (\<lambda>b. Inr (\<not> b))) = Inr flush"
    by (simp add: jb flush_def)
  show ?thesis
  proof (cases "within_limits ?line c b")
    case True
    have "groups_state content w c b (Suc i) (gs, cs @ [?line], h)" by (rule add_line_state [OF step1(2) assms(5) True step1(3)])
    then show ?thesis unfolding st line_step_def prod.case decide by (simp add: step1(1) budget True)
  next
    case False
    have "cs = []"
    proof (rule ccontr)
      assume "cs \<noteq> []"
      with step1(3) have "within_limits (join_lines (cs @ [?line])) c b" by blast
      moreover have "length (utf8_encode ?line) \<le> length (utf8_encode (10 # ?line))" by (simp add: utf8_encode_def)
      ultimately show False using False by (simp add: within_limits_def join_lines_def intersperse_snoc [OF \<open>cs \<noteq> []\<close>] utf8_encode_append)
    qed
    then have "h = i" using step1(2) by (auto simp: groups_state_def)
    with step1(2) \<open>cs = []\<close> cut_line_state [OF assms(1-3) _ assms(5) False, of w gs] obtain rs where rs:
      "split_range content (line_starts content ! i) (line_starts content ! Suc i) c b 3 = Inr rs"
      "groups_state content w c b (Suc i) (gs @ map (\<lambda>(x, y). (x, y, py_slice content x y)) rs, [], Suc i)" by blast
    then show ?thesis unfolding st line_step_def prod.case decide
      using assms(5) line_content_end_nth [of "Suc i" content]
      by (simp add: step1(1) budget False \<open>cs = []\<close> item_at_def line_starts_props(1))
  qed
qed

lemma line_groups_ok:
  assumes "utf8_encodable content" "4 \<le> b" "1 \<le> c"
  shows "\<exists>groups. line_groups content w c b = Inr groups \<and> tiles 0 (group_ranges groups) (length content) \<and>
    list_all (line_group content w c b) groups"
proof -
  let ?n = "length (splitlines content)"
  have "groups_state content w c b 0 ([], [], 0)" by (simp add: groups_state_def line_starts_props py_slice_empty)
  from rfold_positions [where f = "line_step content (line_starts content) w c b", OF this line_step_ok [OF assms]]
  obtain groups current g where r: "rfold (line_step content (line_starts content) w c b)
      (List.enumerate 0 (splitlines content)) ([], [], 0) = Inr (groups, current, g)"
      "groups_state content w c b ?n (groups, current, g)" by auto
  show ?thesis
  proof (cases "current = []")
    case True
    then have "g = ?n" using r(2) by (simp add: groups_state_def)
    then show ?thesis using r True by (auto simp: line_groups_def Let_def groups_state_def line_starts_props)
  next
    case False
    from close_group_ok [OF r(2) order_refl False] obtain h where
      "close_group content (line_starts content) g current ?n = Inr h" "groups_state content w c b ?n (groups @ [h], [], ?n)" by blast
    then show ?thesis using r(1) False by (auto simp: line_groups_def Let_def groups_state_def line_starts_props)
  qed
qed

section \<open>Properties\<close>

text \<open>C32: code and diagrams are cut without loss. The grouping of lines returns, its groups follow one another and make
  up the content, and each is within the limits and shows either consecutive lines, at most a window of them, or a
  piece of one line that is too long for a chunk.\<close>

theorem line_groups_lossless:
  assumes "utf8_encodable content" "1 \<le> max_chars" "4 \<le> max_bytes"
  shows "\<exists>groups. line_groups content window_lines max_chars max_bytes = Inr groups \<and>
    tiles 0 (group_ranges groups) (length content) \<and>
    concat (map (\<lambda>(x, y). py_slice content x y) (group_ranges groups)) = content \<and>
    list_all (line_group content window_lines max_chars max_bytes) groups"
proof -
  obtain groups where g: "line_groups content window_lines max_chars max_bytes = Inr groups"
      "tiles 0 (group_ranges groups) (length content)" "list_all (line_group content window_lines max_chars max_bytes) groups"
    using line_groups_ok [OF assms(1,3,2)] by blast
  with tiles_concat [OF g(2), of content] show ?thesis by (auto simp: py_slice_all)
qed

end
