(* ===== verification/App_Spans.thy ===== *)
theory App_Spans
  imports App_Chunking
begin

text \<open>
  The source span of a chunk points at the text the chunk shows, up to the carriage returns of the source.
\<close>

section \<open>Positions in the source\<close>











section \<open>The bounds of a slice\<close>



section \<open>Properties\<close>


end
