(* ===== verification/App_Chunk_Examples.thy ===== *)
theory App_Chunk_Examples
  imports App_Chunks App_Lines App_Spans
begin

text \<open>A concrete configuration and a document with prose, a heading and code: the witnesses of the chunking.\<close>

section \<open>The document\<close>

definition example_config :: StructuralChunkingConfig where
  "example_config = \<lparr>min_chars = 3, target_chars = 100, hard_limit_chars = 200, max_tokens = 50, overlap_chars = 0,
     code_window_lines = 1, table_rows_per_chunk = 4, mermaid_window_lines = 5\<rparr>"

definition example_env :: chunking_env where
  "example_env = \<lparr>ce_casefold = (\<lambda>s. s), ce_parse = (\<lambda>s. Inr None)\<rparr>"

definition example_span :: "int \<Rightarrow> int \<Rightarrow> SourceSpan" where
  "example_span line offset = \<lparr>sp_start_line = line, sp_end_line = line, sp_start_offset = Some offset, sp_end_offset = Some (offset + 2)\<rparr>"

definition example_block :: "string \<Rightarrow> BlockType \<Rightarrow> string \<Rightarrow> int \<Rightarrow> SourceBlock" where
  "example_block bid t s line = \<lparr>blk_id = lit bid, blk_document_id = lit ''d'', blk_type = t, blk_raw_markdown = lit s,
     blk_plain_text = Some (lit s), blk_language = None, blk_heading_level = None, blk_heading_path = [],
     blk_source_span = example_span line 0, blk_attributes = []\<rparr>"

definition example_document :: "SourceBlock list \<Rightarrow> Document" where
  "example_document blocks = \<lparr>doc_id = lit ''d'', doc_relative_path = lit ''d.md'', doc_title = [], doc_frontmatter = [],
     doc_blocks = blocks, doc_source_hash = lit ''h'', doc_parser_name = lit ''p'', doc_parser_version = lit ''1'',
     doc_metadata_diagnostics = [], doc_metadata_fingerprint = [], doc_metadata_policy_fingerprint = [],
     doc_metadata_normalizer_version = []\<rparr>"

lemma example_config_proper: "proper_config example_config"
  by (simp add: proper_config_iff example_config_def)

lemmas example_text = lit_def utf8_encode_def utf8_char_def utf8_encodable_def surrogate_def

section \<open>Its drafts\<close>

lemma example_prose_limits:
  "body_limits example_config (example_block bid block_PARAGRAPH s line) content_TEXT True = Inr (100, 200)"
  by (simp add: body_limits_def embedding_prefix_def example_block_def example_config_def prefix_label_def
      join_with_def join_lines_def shrink_piece.simps rstrip_def encode_def example_text)

lemma example_split: "split_prose_ranges (lit ''ab'') 100 200 = Inr [(lit ''ab'', 0, 2)]"
  "split_prose_ranges (lit ''cd'') 100 200 = Inr [(lit ''cd'', 0, 2)]"
  by (simp_all add: split_prose_ranges_def split_range.simps within_budget_def encode_def example_text py_slice_def
      blank_def strip_def rstrip_def lstrip_def py_isspace_def)

lemma example_find: "find_text (lit ''ab'') (lit ''ab'') = Some 0" "find_text (lit ''cd'') (lit ''cd'') = Some 0"
  by (simp_all add: find_text_def starts_at_def py_slice_def lit_def)

lemma example_newlines: "count_newlines (lit ''ab'') 0 = 0" "count_newlines (lit ''ab'') 1 = 0"
  "count_newlines (lit ''cd'') 0 = 0" "count_newlines (lit ''cd'') 1 = 0"
  by (simp_all add: count_newlines_def lit_def)

lemma example_fields [simp]:
  "blk_type (example_block bid t s line) = t" "blk_raw_markdown (example_block bid t s line) = lit s"
  "blk_plain_text (example_block bid t s line) = Some (lit s)" "blk_heading_path (example_block bid t s line) = []"
  "blk_source_span (example_block bid t s line) = example_span line 0" "blk_attributes (example_block bid t s line) = []"
  "blk_language (example_block bid t s line) = None" "blk_id (example_block bid t s line) = lit bid"
  "sp_start_line (example_span line offset) = line" "sp_start_offset (example_span line offset) = Some offset"
  by (simp_all add: example_block_def example_span_def)

lemma example_spans:
  "span_for_text_slice (example_block bid t ''ab'' 1) (lit ''ab'') 0 2 = Inr (example_span 1 0)"
  "span_for_text_slice (example_block bid t ''cd'' 3) (lit ''cd'') 0 2 = Inr (example_span 3 0)"
  by (simp_all add: span_for_text_slice_def dict_get_def projected_raw_bounds_def text_raw_bounds_def example_find example_newlines
      new_SourceSpan_def example_span_def [of 1 0] example_span_def [of 3 0])

definition example_draft :: "SourceBlock \<Rightarrow> string \<Rightarrow> RetrievalContentType \<Rightarrow> SourceSpan \<Rightarrow> bool \<Rightarrow> Draft" where
  "example_draft block s t source_span m = \<lparr>dr_blocks = [block], dr_display = lit s, dr_content_type = t, dr_span = source_span,
     dr_mergeable = m\<rparr>"

lemma example_prose_drafts:
  "block_drafts env example_config (example_block bid block_PARAGRAPH ''ab'' 1) =
     Inr [example_draft (example_block bid block_PARAGRAPH ''ab'' 1) ''ab'' content_TEXT (example_span 1 0) True]"
  "block_drafts env example_config (example_block bid block_PARAGRAPH ''cd'' 3) =
     Inr [example_draft (example_block bid block_PARAGRAPH ''cd'' 3) ''cd'' content_TEXT (example_span 3 0) True]"
proof -
  have t: "prose_text (example_block bid block_PARAGRAPH s n) = lit s" for bid s n
    by (simp add: prose_text_def block_text_def)
  have b: "\<not> blank (lit ''ab'')" "\<not> blank (lit ''cd'')" by (simp_all add: blank_iff lit_def py_isspace_def)
  show "block_drafts env example_config (example_block bid block_PARAGRAPH ''ab'' 1) =
     Inr [example_draft (example_block bid block_PARAGRAPH ''ab'' 1) ''ab'' content_TEXT (example_span 1 0) True]"
    by (simp add: block_drafts_def prose_drafts_def t block_content_type_def example_prose_limits example_split b Let_def slice_draft_def
        example_spans example_draft_def)
  show "block_drafts env example_config (example_block bid block_PARAGRAPH ''cd'' 3) =
     Inr [example_draft (example_block bid block_PARAGRAPH ''cd'' 3) ''cd'' content_TEXT (example_span 3 0) True]"
    by (simp add: block_drafts_def prose_drafts_def t block_content_type_def example_prose_limits example_split b Let_def slice_draft_def
        example_spans example_draft_def)
qed

lemma example_code_limits:
  "body_limits example_config (example_block bid block_CODE s line) content_CODE False = Inr (200, 187)"
  by (simp add: body_limits_def embedding_prefix_def example_block_def example_config_def prefix_label_def py_isspace_def
      join_with_def join_lines_def shrink_piece.simps rstrip_def encode_def py_slice_def example_text)

text \<open>Two short paragraphs, which are merged, and a heading.\<close>

definition example_blocks :: "SourceBlock list" where
  "example_blocks = [example_block ''b1'' block_PARAGRAPH ''ab'' 1, example_block ''b2'' block_PARAGRAPH ''cd'' 3,
     example_block ''b3'' block_HEADING ''# e'' 5]"

definition example_merged :: Draft where
  "example_merged = \<lparr>dr_blocks = [example_block ''b1'' block_PARAGRAPH ''ab'' 1, example_block ''b2'' block_PARAGRAPH ''cd'' 3],
     dr_display = lit ''ab'' @ [10, 10] @ lit ''cd'', dr_content_type = content_TEXT,
     dr_span = \<lparr>sp_start_line = 1, sp_end_line = 3, sp_start_offset = Some 0, sp_end_offset = Some 2\<rparr>, dr_mergeable = True\<rparr>"

lemma example_merge:
  "merge_pair example_config
     (example_draft (example_block ''b1'' block_PARAGRAPH ''ab'' 1) ''ab'' content_TEXT (example_span 1 0) True)
     (example_draft (example_block ''b2'' block_PARAGRAPH ''cd'' 3) ''cd'' content_TEXT (example_span 3 0) True) =
   Inr (Some example_merged)"
proof -
  have "within_budget (lit ''ab'' @ [10, 10] @ lit ''cd'') 100 200 = Inr True"
    by (simp add: within_budget_True within_limits_def example_text)
  moreover have "union_span (example_span 1 0) (example_span 3 0) = Inr (dr_span example_merged)"
    by (simp add: union_span_def example_span_def new_SourceSpan_def example_merged_def)
  ultimately show ?thesis
    by (simp add: merge_pair_def example_draft_def example_prose_limits Let_def example_merged_def)
qed

lemma example_items:
  "rmap (stream_items example_env example_config) example_blocks =
     Inr [[Some (example_draft (example_block ''b1'' block_PARAGRAPH ''ab'' 1) ''ab'' content_TEXT (example_span 1 0) True)],
       [Some (example_draft (example_block ''b2'' block_PARAGRAPH ''cd'' 3) ''cd'' content_TEXT (example_span 3 0) True)], [None]]"
  unfolding example_blocks_def by (simp add: stream_items_def example_prose_drafts)

lemma example_draft_fields [simp]:
  "dr_mergeable (example_draft block s t p m) = m" "dr_display (example_draft block s t p m) = lit s"
  by (simp_all add: example_draft_def)

lemma example_drafts: "document_drafts example_env example_config (example_document example_blocks) = Inr [example_merged]"
proof -
  let ?d1 = "example_draft (example_block ''b1'' block_PARAGRAPH ''ab'' 1) ''ab'' content_TEXT (example_span 1 0) True"
  let ?d2 = "example_draft (example_block ''b2'' block_PARAGRAPH ''cd'' 3) ''cd'' content_TEXT (example_span 3 0) True"
  have "int (length (lit ''ab'')) < min_chars example_config" by (simp add: lit_def example_config_def)
  then have steps: "merge_step example_config (Some ?d1) ([], None) = Inr ([], Some ?d1)"
    "merge_step example_config (Some ?d2) ([], Some ?d1) = Inr ([], Some example_merged)"
    "merge_step example_config None ([], Some example_merged) = Inr ([example_merged], None)"
    by (simp_all add: merge_step_def example_merge)
  have blocks: "doc_blocks (example_document example_blocks) = example_blocks" by (simp add: example_document_def)
  show ?thesis
    unfolding document_drafts_def blocks example_items rbind_Inr merge_small_drafts_def
    by (simp add: steps)
qed

lemma example_document_proper: "proper_document (example_document example_blocks)"
  by (simp add: proper_document_def example_document_def example_blocks_def example_text)

lemma example_not_blank: "\<not> blank (dr_display example_merged)"
  by (simp add: example_merged_def blank_iff lit_def py_isspace_def)

section \<open>Code with a blank window\<close>

definition blank_code :: SourceBlock where
  "blank_code = example_block ''b1'' block_CODE [CHR ''x'', CHR 0x0A, CHR '' '', CHR 0x0A, CHR ''y''] 1"

lemma blank_code_drafts:
  "\<exists>d1 d2 d3. document_drafts example_env example_config (example_document [blank_code]) = Inr [d1, d2, d3] \<and>
     dr_display d2 = [32]"
proof -
  have c: "lit [CHR ''x'', CHR 0x0A, CHR '' '', CHR 0x0A, CHR ''y''] = [120, 10, 32, 10, 121]" by (simp add: lit_def)
  have body: "strip_newlines (block_text blank_code) = [120, 10, 32, 10, 121]"
    by (simp add: blank_code_def block_text_def c strip_newlines_def)
  have parts: "line_parts [120, 10, 32, 10, 121] = [([120], [10]), ([32], [10]), ([121], [])]"
    by (simp add: line_parts.simps is_line_break_def)
  have groups: "line_groups [120, 10, 32, 10, 121] 1 200 187 = Inr [(0, 2, [120]), (2, 4, [32]), (4, 5, [121])]"
    by (simp add: line_groups_def Let_def splitlines_def line_starts_def splitlines_keep_def parts line_step_def close_group_def
        within_budget_def encode_def example_text item_at_def line_content_end_def join_lines_def)
  have "\<exists>d1 d2 d3. rmap (slice_draft blank_code content_CODE [120, 10, 32, 10, 121] False)
      [(0, 2, [120]), (2, 4, [32]), (4, 5, [121])] = Inr [d1, d2, d3] \<and> dr_display d2 = [32] \<and>
      \<not> dr_mergeable d1 \<and> \<not> dr_mergeable d2 \<and> \<not> dr_mergeable d3"
    by (simp add: slice_draft_def span_for_text_slice_def blank_code_def dict_get_def projected_raw_bounds_def text_raw_bounds_def
        c find_text_def starts_at_def py_slice_def count_newlines_def new_SourceSpan_def)
  then obtain d1 d2 d3 where d: "rmap (slice_draft blank_code content_CODE [120, 10, 32, 10, 121] False)
      [(0, 2, [120]), (2, 4, [32]), (4, 5, [121])] = Inr [d1, d2, d3]" "dr_display d2 = [32]"
      "\<not> dr_mergeable d1" "\<not> dr_mergeable d2" "\<not> dr_mergeable d3" by blast
  have limits: "body_limits example_config blank_code content_CODE False = Inr (200, 187)"
    by (simp add: blank_code_def example_code_limits)
  have "line_drafts example_config blank_code content_CODE 1 = Inr [d1, d2, d3]"
    unfolding line_drafts_def body Let_def limits rbind_Inr prod.case groups d(1) by simp
  then have "stream_items example_env example_config blank_code = Inr [Some d1, Some d2, Some d3]"
    by (simp add: stream_items_def block_drafts_def blank_code_def example_env_def lit_def example_config_def)
  moreover have "doc_blocks (example_document [blank_code]) = [blank_code]" by (simp add: example_document_def)
  ultimately have "document_drafts example_env example_config (example_document [blank_code]) = Inr [d1, d2, d3]"
    using d(3-5) by (simp add: document_drafts_def merge_small_drafts_def merge_step_def)
  with d(2) show ?thesis by blast
qed

section \<open>Witnesses\<close>

theorem split_prose_lossless_witness:
  "\<exists>ranged. split_prose_ranges (lit ''one. two'') 5 20 = Inr ranged \<and> concat (map fst ranged) = lit ''one. two''"
  using split_prose_lossless [of "lit ''one. two''" 5 20] by (auto simp: blank_iff py_isspace_def example_text)

theorem line_groups_lossless_witness:
  "\<exists>groups. line_groups (lit ''abcdefg'') 2 3 9 = Inr groups \<and>
     concat (map (\<lambda>(x, y). py_slice (lit ''abcdefg'') x y) (group_ranges groups)) = lit ''abcdefg''"
  using line_groups_lossless [of "lit ''abcdefg''" 3 9 2] by (auto simp: example_text)

theorem build_limits_by_construction_witness:
  "\<exists>chunks. build_chunks example_env example_config (example_document example_blocks) = Inr chunks"
  using build_limits_by_construction [OF example_config_proper example_document_proper example_drafts] example_not_blank by simp


theorem build_chunks_ordered_witness:
  "\<exists>chunks. build_chunks example_env example_config (example_document example_blocks) = Inr chunks \<and>
     map chk_index chunks = [0..<length chunks]"
  using build_chunks_returns_iff [OF example_config_proper example_document_proper example_drafts] example_not_blank
    build_chunks_ordered [OF example_config_proper, of example_env "example_document example_blocks"] by auto

theorem blank_draft_refuses_document_witness:
  "build_chunks example_env example_config (example_document [blank_code]) =
     Inl (ValueError ''display_content and embedding_text are required'')"
proof -
  have proper: "proper_document (example_document [blank_code])"
    by (simp add: proper_document_def example_document_def blank_code_def example_text)
  obtain d1 d2 d3 where d: "document_drafts example_env example_config (example_document [blank_code]) = Inr [d1, d2, d3]"
      "dr_display d2 = [32]" using blank_code_drafts by blast
  show ?thesis
    by (rule blank_draft_refuses_document [OF example_config_proper proper d(1), of d2])
      (simp_all add: d(2) blank_iff py_isspace_def)
qed




end
