(* ===== verification/Spec2Isabelle.thy ===== *)
theory Spec2Isabelle
  imports Core_Discovery Media_Search Media_Batch_Examples Sqlite_Index Sqlite_Roundtrip App_Chunk_Examples
begin

text \<open>
  \<^bold>\<open>MDRack: a verification development of its core, media and SQLite packages and of its Markdown chunker.\<close>

  MDRack keeps a local catalog of \<^emph>\<open>resources\<close> (texts, images, audio, video). A resource is prepared as one graph, a
  \<^emph>\<open>prepared batch\<close>: the resource with its representations, the search units of each representation, vectors of the
  units in an embedding space, and facets. The graph is validated, published in one transaction into a SQLite
  catalog, read back, deleted, and searched: several ranked branches are asked, each answer is checked, and the branches
  are fused into one ranking.

  \<^bold>\<open>The program's parts\<close>

  \<^item> \<open>packages/mdrack-core\<close> (pure Python): the domain records with their validating constructors
    (\<open>domain/\<close>), the batch validator, the indexing service, weighted rank fusion, the retrieval and discovery services,
    and the events they report (\<open>application/\<close>, \<open>observability.py\<close>). Storage is behind ports: the services
    call them and see their answers and exceptions.
  \<^item> \<open>packages/mdrack-media\<close>: identities and fingerprints of media, policies, locators, transcripts and frame
    captions, the grouper that cuts timed atoms into passages, the builder inputs, and native observations, which it
    turns into prepared batches of the core.
  \<^item> \<open>packages/mdrack-sqlite\<close>: the store that implements the core's write port over tables, its
    publication protocol, its readers, its vector codecs.
  \<^item> \<open>src/mdrack\<close>: the application, which calls these packages. Of it the Markdown chunker is modelled: it turns the
    blocks of a parsed document into the bounded retrieval chunks that are embedded and indexed.

  \<^bold>\<open>Theories and the code they model\<close>

  \<^item> \<open>Prelude\<close>: exceptions as values (\<open>error\<close>, with the class and the category of the raise), the error monad
    (\<open>rbind\<close>, \<open>rmap\<close>, \<open>raise_if\<close>), dictionaries as association lists in insertion order, Python's \<open>sorted\<close> with a key.
    \<open>Py_Str\<close>: strings as lists of code points, \<open>strip\<close>, \<open>isspace\<close>, UTF-8. \<open>Py_Float\<close>: Python's float as finite
    doubles (dyadic rationals rounded to nearest even), infinities and nan, with \<open>repr\<close> and exact comparison to integers.
    \<open>Py_Hash\<close>: \<open>hashlib.sha256\<close> as the executable function on 32-bit words.
    \<open>Contracts\<close>: the locale \<open>record_codec\<close> (\<open>from_dict\<close> after \<open>to_dict\<close>, \<open>to_dict\<close> into plain JSON of distinct keys).
  \<^item> \<open>Core_Common\<close> (\<open>domain/common.py\<close>, \<open>domain/errors.py\<close>), \<open>Core_Resources\<close> (\<open>resources.py\<close>, \<open>vectors.py\<close>, \<open>batches.py\<close>,
    \<open>publication.py\<close>), \<open>Core_Search\<close> (\<open>search.py\<close>, \<open>results.py\<close>), \<open>Core_Fusion\<close> (\<open>application/fusion.py\<close>),
    \<open>Core_Validation\<close> (\<open>application/validation.py\<close>), \<open>Core_Observability\<close> (\<open>observability.py\<close>), \<open>Core_Indexing\<close>
    (\<open>application/indexing.py\<close>), \<open>Core_Retrieval\<close>, \<open>Core_Search_Service\<close> and \<open>Core_Discovery\<close> (\<open>application/retrieval.py\<close>:
    scopes, branches and candidates; \<open>RetrievalService.search\<close>; \<open>ResourceDiscoveryService\<close>).
  \<^item> \<open>Media_Common\<close> (\<open>common.py\<close>, \<open>identifiers.py\<close>, \<open>fingerprints.py\<close>), \<open>Media_Policies\<close> (\<open>policies.py\<close>, \<open>locators.py\<close>),
    \<open>Media_Records\<close> (\<open>records.py\<close>), \<open>Media_Grouper\<close> and \<open>Media_Grouping\<close> (\<open>grouper.py\<close>: the operations; what the
    grouping as a whole does), \<open>Media_Builders\<close> (\<open>builders.py\<close>), \<open>Media_Native\<close> (\<open>native.py\<close>), \<open>Media_Projection\<close>
    (\<open>aggregation.py\<close>, \<open>audio.py\<close>, \<open>frames.py\<close>), \<open>Media_Retrieval\<close> (\<open>retrieval.py\<close>). \<open>Media_Batches\<close>, \<open>Media_Search\<close> and
    \<open>Media_Batch_Examples\<close> hold no code: what the projections and the search do, and concrete inputs of them.
  \<^item> \<open>Sqlite_Tables\<close> (the migrations and the statements of the store on the tables), \<open>Sqlite_Connection\<close>
    (transactions of a \<open>sqlite3\<close> connection), \<open>Sqlite_Store\<close> (\<open>resource_store.py\<close>: encoding, preflight, writing of rows),
    \<open>Sqlite_Read\<close> (readers and \<open>graph_reader.py\<close>), \<open>Sqlite_Publish\<close> (the public operations of the store),
    \<open>Sqlite_Codecs\<close> (\<open>vector_codecs.py\<close> and the statements of \<open>builtin_exact.py\<close>). The others hold no
    code: \<open>Sqlite_Atomicity\<close>, \<open>Sqlite_Effects\<close> and \<open>Sqlite_Protocol\<close> prove what the operations do, \<open>Sqlite_Contract\<close>
    states it over all calls, \<open>Sqlite_Index\<close> composes the core's indexing service with the store,
    \<open>Sqlite_Roundtrip\<close> composes writing and reading, \<open>Sqlite_Example\<close> is a concrete store.
  \<^item> \<open>App_Text\<close> (what the chunker uses of \<open>str\<close> and \<open>re\<close>; \<open>domain/identifiers.py\<close>), \<open>App_Blocks\<close> (\<open>domain/blocks.py\<close>,
    \<open>chunks.py\<close>, \<open>documents.py\<close>), \<open>App_Splitting\<close> and \<open>App_Chunking\<close> (\<open>application/chunking.py\<close>: the splitting of prose; all
    the rest). \<open>App_Limits\<close>, \<open>App_Lines\<close>, \<open>App_Spans\<close>, \<open>App_Merging\<close>, \<open>App_Chunks\<close> and \<open>App_Chunk_Examples\<close> hold no code:
    the limits of drafts, the groups of lines, the source spans, the merging, the chunks of a document, and concrete documents.

  \<^bold>\<open>How the code is translated\<close>

  A dataclass is a \<open>record\<close> with prefixed fields; its \<open>__post_init__\<close> is \<open>new_X\<close>, which takes the arguments as the Python
  values a caller may pass (\<open>pyobj\<close>, \<open>anyobj\<close>, \<open>pyseq\<close>) and returns the record or the exception of the first check
  that fails, in the order of the code. Frozen metadata is an association list sorted by key. Records that have a plain form have
  \<open>to_dict\<close> and \<open>from_dict\<close>. A port is a record of functions on an arbitrary state, which may answer anything and
  raise; a service is a function of the ports, of their state, and of the clock, and returns its result, the new
  state and the events it emitted. The SQLite store is a state-passing program over a connection (committed tables and the working
  copy of an open transaction); every statement and every hook may fail as the parameter \<open>surroundings\<close> says.

  What Python takes from tables or from packages outside the repository is a parameter: case folding and the word
  characters of Unicode (media search, chunker), the order in which \<open>sum\<close> adds floats (projections), \<open>ast.parse\<close> (chunker),
  the codecs and the vector backend a store is given. The chunker's positions are natural numbers, its patterns are the
  end of the match at a position, and \<open>UnicodeEncodeError\<close> is a \<open>ValueError\<close>, of which it is a subclass.

  Facts of Python used silently: \<open>0.0\<close> and \<open>-0.0\<close> are one value; integers print with any number of digits;
  \<open>sorted\<close> is stable; \<open>math.hypot\<close> is zero exactly when every component is; a set of strings is only iterated after
  sorting. The bounds are the code's: JSON depth, items and bytes, lengths of names, limits of branches and evidence
  (constants such as \<open>MAX_JSON_DEPTH\<close> are definitions of the model). Fuel occurs once: the shortest decimal
  representation of a double tries 1 to 17 digits, and 17 always identify a double.
  The grouping loop and the loops of the chunker end by measures; the overfetch loop of a similarity query may run
  forever over an unbounded adapter, so it is a \<open>partial_function\<close>, proved to return over a bounded one.

  \<^bold>\<open>What the lemmas show\<close>

  \<^item> Constructors: every record a constructor returns satisfies its invariant (\<open>wf_X\<close>), and a record with the invariant
    is rebuilt from its own fields (\<open>new_X_again\<close>); codecs are interpretations of \<open>record_codec\<close>. Freezing is idempotent, bounded and
    independent of the order of insertion.
  \<^item> Fusion: every id once, the order and the scores of the reference sum in doubles, evidence bounded and complete,
    and no failure for admissible requests. Retrieval: the service refines an abstract search over any port; candidates
    are admitted exactly by the stated conditions; grouping by resource equals the reference; a similarity query ends, in the
    one outcome that the answers of catalog and adapter determine, every failure as one degradation.
  \<^item> Validation accepts exactly the well-formed graphs; indexing validates before it writes; events carry only
    the closed vocabulary, and redaction is non-interference.
  \<^item> Grouping covers every atom once, in order, within the limits or flagged; it always returns. The batches built from
    native observations, transcripts and frame captions are valid graphs under the stated conditions. A media search returns
    ranked units of its scope that contain a word of the query, and its public form reveals no private data.
  \<^item> The chunker: prose and code are cut without loss and within the limits, the limit checks of \<open>build\<close> never fire, small
    drafts are merged in runs that no heading interrupts, chunks are numbered in the order of the blocks, and a recorded
    span points at the text shown.
  \<^item> The store: each call is all or nothing under any fault, refines a state machine of publication states, never
    loses an update, and what is published is read back.

  \<^bold>\<open>Not modelled\<close>

  The engine's full-text ranking and the cosine ranking of vectors, as the store's searches are answers of a port to the
  services above; the creation, locking, migration and replacement of database files; the sqlite-vec extension;
  delivery of log records by the \<open>logging\<close> package; the media lifecycle events, whose redaction is that of the core; the
  Markdown parser, which walks the tokens of an external package; file, image, audio and video input, HTTP providers, the
  application services, the command line and process wiring of \<open>src/mdrack\<close>, which are input and output around the packages.
\<close>

end
